(* ===== verification/Vm_Prelude.thy ===== *)
theory Vm_Prelude
  imports Main "HOL-Library.Word"
begin

unbundle bit_operations_syntax

text \<open>
  Shared vocabulary of the development: machine integers, the outcome of a fallible Rust
  function, overflow-checked arithmetic, little-endian byte encodings, the slice and search
  functions of the Rust standard library that several components call, and the generic lemmas
  on them.

  A Rust function that returns \<open>Result<T, E>\<close> is a HOL function into \<open>('t, 'e) result\<close>. The
  third constructor, \<open>Panic\<close>, is a panic: a failed assertion, an out-of-range index, or an integer
  overflow in a build with overflow checks (the \<open>dev\<close> profile). A theorem that an operation
  does not panic therefore also says that a build without overflow checks computes the same value.
\<close>

section \<open>Machine integers\<close>

type_synonym u8 = "8 word"
type_synonym u16 = "16 word"
type_synonym u32 = "32 word"
type_synonym u64 = "64 word"

named_theorems result_simps \<open>outcomes of the result combinators\<close>
named_theorems length_simps \<open>operations that keep the length of a buffer\<close>

section \<open>Outcomes\<close>

datatype ('a, 'e) result = Ok 'a | Err 'e | Panic

fun and_then :: "('a, 'e) result \<Rightarrow> ('a \<Rightarrow> ('b, 'e) result) \<Rightarrow> ('b, 'e) result" where
  "and_then (Ok x) f = f x"
| "and_then (Err e) f = Err e"
| "and_then Panic f = Panic"

fun map_err :: "('e \<Rightarrow> 'f) \<Rightarrow> ('a, 'e) result \<Rightarrow> ('a, 'f) result" where
  "map_err g (Ok x) = Ok x"
| "map_err g (Err e) = Err (g e)"
| "map_err g Panic = Panic"

fun map_ok :: "('a \<Rightarrow> 'b) \<Rightarrow> ('a, 'e) result \<Rightarrow> ('b, 'e) result" where
  "map_ok g (Ok x) = Ok (g x)"
| "map_ok g (Err e) = Err e"
| "map_ok g Panic = Panic"

definition ok_or :: "'e \<Rightarrow> 'a option \<Rightarrow> ('a, 'e) result" where
  "ok_or e x = (case x of None \<Rightarrow> Err e | Some y \<Rightarrow> Ok y)"

definition rassert :: "bool \<Rightarrow> ('a, 'e) result \<Rightarrow> ('a, 'e) result" where
  "rassert b r = (if b then r else Panic)"

lemma and_then_Ok_iff [result_simps]:
  "and_then r f = Ok y \<longleftrightarrow> (\<exists>x. r = Ok x \<and> f x = Ok y)"
  by (cases r) auto

lemma and_then_Err_iff [result_simps]:
  "and_then r f = Err e \<longleftrightarrow> r = Err e \<or> (\<exists>x. r = Ok x \<and> f x = Err e)"
  by (cases r) auto

lemma and_then_Panic_iff [result_simps]:
  "and_then r f = Panic \<longleftrightarrow> r = Panic \<or> (\<exists>x. r = Ok x \<and> f x = Panic)"
  by (cases r) auto

lemma map_err_Ok_iff [result_simps]: "map_err g r = Ok x \<longleftrightarrow> r = Ok x"
  by (cases r) auto

lemma map_err_Panic_iff [result_simps]: "map_err g r = Panic \<longleftrightarrow> r = Panic"
  by (cases r) auto

lemma map_err_Err_iff [result_simps]: "map_err g r = Err e \<longleftrightarrow> (\<exists>e'. r = Err e' \<and> e = g e')"
  by (cases r) auto

lemma map_ok_Ok_iff [result_simps]: "map_ok g r = Ok y \<longleftrightarrow> (\<exists>x. r = Ok x \<and> y = g x)"
  by (cases r) auto

lemma map_ok_Err_iff [result_simps]: "map_ok g r = Err e \<longleftrightarrow> r = Err e"
  by (cases r) auto

lemma map_ok_Panic_iff [result_simps]: "map_ok g r = Panic \<longleftrightarrow> r = Panic"
  by (cases r) auto

lemma ok_or_iff [result_simps]:
  "ok_or e x = Ok y \<longleftrightarrow> x = Some y"
  "ok_or e x = Err e' \<longleftrightarrow> x = None \<and> e' = e"
  "ok_or e x \<noteq> Panic"
  by (auto simp: ok_or_def split: option.splits)

lemma rassert_iff [result_simps]:
  "rassert b r = Ok x \<longleftrightarrow> b \<and> r = Ok x"
  "rassert b r = Err e \<longleftrightarrow> b \<and> r = Err e"
  "rassert b r = Panic \<longleftrightarrow> \<not> b \<or> r = Panic"
  by (auto simp: rassert_def)

lemma rassert_True [simp]: "rassert True r = r"
  by (simp add: rassert_def)

lemma and_then_assoc: "and_then (and_then r f) g = and_then r (\<lambda>x. and_then (f x) g)"
  by (cases r) auto

lemma map_ok_and_then: "and_then (map_ok g r) f = and_then r (\<lambda>x. f (g x))"
  by (cases r) auto

section \<open>Checked arithmetic\<close>

text \<open>The operators of Rust on unsigned integers, in a build with overflow checks.\<close>

definition add_chk :: "'w::len word \<Rightarrow> 'w word \<Rightarrow> ('w word, 'e) result" where
  "add_chk a b = (if unat a + unat b < 2 ^ LENGTH('w) then Ok (a + b) else Panic)"

definition sub_chk :: "'w::len word \<Rightarrow> 'w word \<Rightarrow> ('w word, 'e) result" where
  "sub_chk a b = (if b \<le> a then Ok (a - b) else Panic)"

definition mul_chk :: "'w::len word \<Rightarrow> 'w word \<Rightarrow> ('w word, 'e) result" where
  "mul_chk a b = (if unat a * unat b < 2 ^ LENGTH('w) then Ok (a * b) else Panic)"

definition sub_nat_chk :: "nat \<Rightarrow> nat \<Rightarrow> (nat, 'e) result" where
  "sub_nat_chk a b = (if b \<le> a then Ok (a - b) else Panic)"

text \<open>\<open>u64::overflowing_add_signed\<close>: the wrapped sum and the overflow flag.\<close>

definition overflowing_add_signed :: "u64 \<Rightarrow> u64 \<Rightarrow> u64 \<times> bool" where
  "overflowing_add_signed a b =
     (a + b, \<not> (0 \<le> int (unat a) + sint b \<and> int (unat a) + sint b < 2 ^ 64))"

lemma unat_add_no_overflow:
  fixes a b :: "'w::len word"
  assumes "unat a + unat b < 2 ^ LENGTH('w)"
  shows "unat (a + b) = unat a + unat b"
  using assms by (simp add: unat_word_ariths)

lemma unat_mul_no_overflow:
  fixes a b :: "'w::len word"
  assumes "unat a * unat b < 2 ^ LENGTH('w)"
  shows "unat (a * b) = unat a * unat b"
  using assms by (simp add: unat_word_ariths)

lemma unat_sub_no_underflow:
  fixes a b :: "'w::len word"
  assumes "b \<le> a"
  shows "unat (a - b) = unat a - unat b"
  using assms by (rule unat_sub)

lemma add_chk_Ok_iff [result_simps]:
  fixes a b :: "'w::len word"
  shows "add_chk a b = Ok c \<longleftrightarrow> unat a + unat b < 2 ^ LENGTH('w) \<and> c = a + b"
  by (auto simp: add_chk_def)

lemma add_chk_not_Err [result_simps]: "add_chk a b \<noteq> Err e"
  by (simp add: add_chk_def)

lemma add_chk_Panic_iff [result_simps]:
  fixes a b :: "'w::len word"
  shows "add_chk a b = Panic \<longleftrightarrow> 2 ^ LENGTH('w) \<le> unat a + unat b"
  by (simp add: add_chk_def)

lemma sub_chk_iff [result_simps]:
  "sub_chk a b = Ok c \<longleftrightarrow> b \<le> a \<and> c = a - b"
  "sub_chk a b \<noteq> Err e"
  "sub_chk a b = Panic \<longleftrightarrow> \<not> b \<le> a"
  by (auto simp: sub_chk_def)

lemma mul_chk_iff [result_simps]:
  fixes a b :: "'w::len word"
  shows "mul_chk a b = Ok c \<longleftrightarrow> unat a * unat b < 2 ^ LENGTH('w) \<and> c = a * b"
    and "mul_chk a b \<noteq> Err e"
    and "mul_chk a b = Panic \<longleftrightarrow> 2 ^ LENGTH('w) \<le> unat a * unat b"
  by (auto simp: mul_chk_def)

lemma sub_nat_chk_iff [result_simps]:
  "sub_nat_chk a b = Ok c \<longleftrightarrow> b \<le> a \<and> c = a - b"
  "sub_nat_chk a b \<noteq> Err e"
  "sub_nat_chk a b = Panic \<longleftrightarrow> a < b"
  by (auto simp: sub_nat_chk_def)

lemma add_chk_Ok: "unat a + unat b < 2 ^ LENGTH('w) \<Longrightarrow> add_chk a b = Ok (a + b)"
  for a b :: "'w::len word"
  by (simp add: add_chk_def)

lemma word_add_zero_iff_unat: "unat a = 0 \<longleftrightarrow> a = 0"
  by (rule unat_eq_zero)

section \<open>Little-endian bytes\<close>

text \<open>
  \<open>to_le_bytes n w\<close> is the \<open>n\<close>-byte little-endian representation of \<open>w\<close>, which is also the
  memory representation on the little-endian hosts the backends run on.
\<close>

primrec to_le_bytes :: "nat \<Rightarrow> 'w::len word \<Rightarrow> u8 list" where
  "to_le_bytes 0 w = []"
| "to_le_bytes (Suc n) w = ucast w # to_le_bytes n (drop_bit 8 w)"

primrec of_le_bytes :: "u8 list \<Rightarrow> 'w::len word" where
  "of_le_bytes [] = 0"
| "of_le_bytes (b # bs) = ucast b OR push_bit 8 (of_le_bytes bs)"

lemma of_le_bytes_zeros [simp]: "of_le_bytes (replicate n 0) = 0"
  by (induction n) simp_all

lemma length_to_le_bytes [simp]: "length (to_le_bytes n w) = n"
  by (induction n arbitrary: w) auto

lemma bit_of_le_bytes:
  "bit (of_le_bytes bs :: 'w::len word) k \<longleftrightarrow>
     k < LENGTH('w) \<and> k div 8 < length bs \<and> bit (bs ! (k div 8)) (k mod 8)"
proof (induction bs arbitrary: k)
  case Nil
  then show ?case by simp
next
  case (Cons b bs)
  have small: "bit b k \<Longrightarrow> k < 8" for k
    using bit_imp_le_length [of b k] by simp
  show ?case
  proof (cases "k < 8")
    case True
    then show ?thesis by (auto simp: bit_simps)
  next
    case False
    then obtain j where k: "k = 8 + j" by (metis le_add_diff_inverse not_less)
    then have "k div 8 = Suc (j div 8)" "k mod 8 = j mod 8" by simp_all
    then show ?thesis using k small [of k] by (auto simp: bit_simps Cons)
  qed
qed

lemma nth_to_le_bytes: "i < n \<Longrightarrow> to_le_bytes n w ! i = ucast (drop_bit (8 * i) w)"
proof (induction n arbitrary: w i)
  case 0
  then show ?case by simp
next
  case (Suc n)
  then show ?case by (cases i) (simp_all add: drop_bit_drop_bit add.commute)
qed

lemma of_to_le_bytes: "of_le_bytes (to_le_bytes n w) = take_bit (8 * n) w"
proof (rule bit_word_eqI)
  fix k
  assume "k < LENGTH('a)"
  then show "bit (of_le_bytes (to_le_bytes n w) :: 'a word) k = bit (take_bit (8 * n) w) k"
    by (auto simp: bit_of_le_bytes nth_to_le_bytes bit_simps less_mult_imp_div_less mult.commute)
qed

lemma to_of_le_bytes:
  assumes "8 * length bs \<le> LENGTH('w::len)"
  shows "to_le_bytes (length bs) (of_le_bytes bs :: 'w word) = bs"
  using assms
proof (induction bs)
  case Nil
  then show ?case by simp
next
  case (Cons b bs)
  have 1: "ucast (of_le_bytes (b # bs) :: 'w word) = b"
    by (rule bit_word_eqI) (use Cons.prems in \<open>auto simp: bit_simps\<close>)
  have 2: "drop_bit 8 (of_le_bytes (b # bs) :: 'w word) = of_le_bytes bs"
  proof (rule bit_word_eqI)
    fix k
    have small: "\<not> bit b (8 + k)"
      using bit_imp_le_length [of b "8 + k"] by auto
    show "bit (drop_bit 8 (of_le_bytes (b # bs) :: 'w word)) k = bit (of_le_bytes bs :: 'w word) k"
      using Cons.prems small by (auto simp: bit_simps bit_of_le_bytes)
  qed
  from 1 2 Cons show ?case by simp
qed

abbreviation u64_of_bytes :: "u8 list \<Rightarrow> u64" where
  "u64_of_bytes bs \<equiv> of_le_bytes bs"

lemma u64_roundtrip [simp]: "of_le_bytes (to_le_bytes 8 w) = (w :: u64)"
  by (simp add: of_to_le_bytes take_bit_word_eq_self)

section \<open>Slices\<close>

text \<open>\<open>slice.get(..n)\<close>, \<open>slice.get(n..)\<close> and \<open>slice.get(a..b)\<close>.\<close>

definition get_to :: "nat \<Rightarrow> 'a list \<Rightarrow> 'a list option" where
  "get_to n xs = (if n \<le> length xs then Some (take n xs) else None)"

definition get_from :: "nat \<Rightarrow> 'a list \<Rightarrow> 'a list option" where
  "get_from n xs = (if n \<le> length xs then Some (drop n xs) else None)"

definition get_range :: "nat \<Rightarrow> nat \<Rightarrow> 'a list \<Rightarrow> 'a list option" where
  "get_range a b xs = (if a \<le> b \<and> b \<le> length xs then Some (drop a (take b xs)) else None)"

definition get_at :: "nat \<Rightarrow> 'a list \<Rightarrow> 'a option" where
  "get_at i xs = (if i < length xs then Some (xs ! i) else None)"

definition index_at :: "'a list \<Rightarrow> nat \<Rightarrow> ('a, 'e) result" where
  "index_at xs i = (if i < length xs then Ok (xs ! i) else Panic)"

lemma take_drop_add: "take n (drop (a + b) xs) = take n (drop b (drop a xs))"
  by (simp add: add.commute)

lemma nth_take_drop: "i < n \<Longrightarrow> a + n \<le> length xs \<Longrightarrow> take n (drop a xs) ! i = xs ! (a + i)"
  by simp

section \<open>Binary search\<close>

text \<open>
  \<open>slice::binary_search_by\<close> of the Rust standard library (since 1.82; edition 2024 needs 1.85): the
  number of iterations depends on the length only, an equal probe does not stop the loop, and the
  last probe decides. \<open>f i\<close> is the comparison of the element at index \<open>i\<close> with the target.
\<close>

datatype ordering = Less | Equal | Greater

definition cmp_of :: "'a::linorder \<Rightarrow> 'a \<Rightarrow> ordering" where
  "cmp_of a b = (if a < b then Less else if a = b then Equal else Greater)"

datatype search_result = Found nat | Insert nat

function bs_loop :: "(nat \<Rightarrow> ordering) \<Rightarrow> nat \<Rightarrow> nat \<Rightarrow> nat" where
  "bs_loop f base sz =
     (if 1 < sz
      then bs_loop f (if f (base + sz div 2) = Greater then base else base + sz div 2)
             (sz - sz div 2)
      else base)"
  by pat_completeness auto
termination
  by (relation "measure (\<lambda>(f, base, sz). sz)") auto

declare bs_loop.simps [simp del]

lemma bs_loop_step:
  "1 < sz \<Longrightarrow> bs_loop f base sz =
     bs_loop f (if f (base + sz div 2) = Greater then base else base + sz div 2) (sz - sz div 2)"
  by (subst bs_loop.simps) simp

lemma bs_loop_stop: "\<not> 1 < sz \<Longrightarrow> bs_loop f base sz = base"
  by (subst bs_loop.simps) simp

definition binary_search_by :: "'a list \<Rightarrow> ('a \<Rightarrow> ordering) \<Rightarrow> search_result" where
  "binary_search_by xs f =
     (if xs = [] then Insert 0
      else let base = bs_loop (\<lambda>i. f (xs ! i)) 0 (length xs)
           in case f (xs ! base) of
                Equal \<Rightarrow> Found base
              | Less \<Rightarrow> Insert (base + 1)
              | Greater \<Rightarrow> Insert base)"

definition binary_search_by_key :: "'a list \<Rightarrow> 'k::linorder \<Rightarrow> ('a \<Rightarrow> 'k) \<Rightarrow> search_result" where
  "binary_search_by_key xs k key = binary_search_by xs (\<lambda>x. cmp_of (key x) k)"

text \<open>The loop keeps the last index whose probe is not \<open>Greater\<close> (or the first index).\<close>

lemma bs_loop_range: "0 < sz \<Longrightarrow> base \<le> bs_loop f base sz \<and> bs_loop f base sz < base + sz"
proof (induction f base sz rule: bs_loop.induct)
  case (1 f base sz)
  show ?case
  proof (cases "1 < sz")
    case True
    let ?b = "if f (base + sz div 2) = Greater then base else base + sz div 2"
    have "?b \<le> bs_loop f ?b (sz - sz div 2) \<and>
          bs_loop f ?b (sz - sz div 2) < ?b + (sz - sz div 2)"
      by (rule "1.IH" [OF True]) (use True in simp)
    moreover have "bs_loop f base sz = bs_loop f ?b (sz - sz div 2)"
      by (rule bs_loop_step [OF True])
    moreover have "base \<le> ?b" "?b + (sz - sz div 2) \<le> base + sz" using True by simp_all
    ultimately show ?thesis by linarith
  next
    case False
    then show ?thesis using "1.prems" by (simp add: bs_loop_stop)
  qed
qed

definition partitioned :: "(nat \<Rightarrow> ordering) \<Rightarrow> nat \<Rightarrow> bool" where
  "partitioned f n \<longleftrightarrow> (\<forall>i j. i \<le> j \<longrightarrow> j < n \<longrightarrow> f j \<noteq> Greater \<longrightarrow> f i \<noteq> Greater)"

lemma bs_loop_last:
  assumes "partitioned f n" "0 < sz" "base + sz \<le> n"
    and "\<forall>j < n. base + sz \<le> j \<longrightarrow> f j = Greater"
    and "base = 0 \<or> f base \<noteq> Greater"
  shows "(bs_loop f base sz = 0 \<or> f (bs_loop f base sz) \<noteq> Greater) \<and>
         (\<forall>j < n. bs_loop f base sz < j \<longrightarrow> f j = Greater)"
  using assms
proof (induction f base sz rule: bs_loop.induct)
  case (1 f base sz)
  show ?case
  proof (cases "1 < sz")
    case True
    let ?m = "base + sz div 2"
    let ?b = "if f ?m = Greater then base else ?m"
    let ?s = "sz - sz div 2"
    have m: "?m < n" using "1.prems" True by linarith
    have tail: "\<forall>j < n. ?b + ?s \<le> j \<longrightarrow> f j = Greater"
    proof (intro allI impI)
      fix j assume j: "j < n" "?b + ?s \<le> j"
      show "f j = Greater"
      proof (cases "f ?m = Greater")
        case g: True
        have "?m \<le> j" using j g by (simp split: if_splits)
        then show ?thesis using "1.prems"(1) j g unfolding partitioned_def by metis
      next
        case False
        then have "base + sz \<le> j" using j by simp
        then show ?thesis using "1.prems"(4) j by blast
      qed
    qed
    have b: "?b = 0 \<or> f ?b \<noteq> Greater" using "1.prems"(5) by auto
    have bn: "?b + ?s \<le> n" using "1.prems"(3) True by auto
    have s: "0 < ?s" using True by auto
    have "(bs_loop f ?b ?s = 0 \<or> f (bs_loop f ?b ?s) \<noteq> Greater) \<and>
          (\<forall>j < n. bs_loop f ?b ?s < j \<longrightarrow> f j = Greater)"
      using "1.IH" [OF True "1.prems"(1) s bn tail b] .
    then show ?thesis unfolding bs_loop_step [OF True] .
  next
    case False
    then have "sz = 1" using "1.prems" by simp
    then show ?thesis using "1.prems" False by (auto simp: bs_loop_stop)
  qed
qed

lemma cmp_of_iff:
  "cmp_of a b = Less \<longleftrightarrow> a < b"
  "cmp_of a b = Equal \<longleftrightarrow> a = b"
  "cmp_of a b = Greater \<longleftrightarrow> b < a"
  by (auto simp: cmp_of_def)

lemma sorted_partitioned:
  assumes "sorted (map key xs)"
  shows "partitioned (\<lambda>i. cmp_of (key (xs ! i)) k) (length xs)"
  unfolding partitioned_def
proof (intro allI impI)
  fix i j assume a: "i \<le> j" "j < length xs" "cmp_of (key (xs ! j)) k \<noteq> Greater"
  have "map key xs ! i \<le> map key xs ! j"
    using assms a by (intro sorted_nth_mono) auto
  then have "key (xs ! i) \<le> key (xs ! j)" using a by simp
  with a show "cmp_of (key (xs ! i)) k \<noteq> Greater"
    by (auto simp: cmp_of_def split: if_splits)
qed

lemma binary_search_Found:
  assumes "binary_search_by_key xs k key = Found i"
  shows "i < length xs \<and> key (xs ! i) = k"
proof -
  let ?b = "bs_loop (\<lambda>i. cmp_of (key (xs ! i)) k) 0 (length xs)"
  have ne: "xs \<noteq> []" using assms by (auto simp: binary_search_by_key_def binary_search_by_def)
  then have "?b < length xs" using bs_loop_range [of "length xs" 0] by auto
  with assms ne show ?thesis
    by (auto simp: binary_search_by_key_def binary_search_by_def Let_def cmp_of_def
        split: ordering.splits if_splits)
qed

lemma binary_search_Insert:
  assumes "sorted (map key xs)" "binary_search_by_key xs k key = Insert i"
  shows "i \<le> length xs \<and> (\<forall>j < i. key (xs ! j) < k) \<and> (\<forall>j. i \<le> j \<longrightarrow> j < length xs \<longrightarrow> k < key (xs ! j))"
proof (cases "xs = []")
  case True
  then show ?thesis
    using assms by (simp add: binary_search_by_key_def binary_search_by_def)
next
  case False
  let ?f = "\<lambda>i. cmp_of (key (xs ! i)) k"
  let ?b = "bs_loop ?f 0 (length xs)"
  have r: "?b < length xs" using False bs_loop_range [of "length xs" 0] by auto
  have last: "(?b = 0 \<or> ?f ?b \<noteq> Greater) \<and> (\<forall>j < length xs. ?b < j \<longrightarrow> ?f j = Greater)"
    by (rule bs_loop_last [OF sorted_partitioned [OF assms(1)]]) (use False in auto)
  have mono: "j \<le> j' \<Longrightarrow> j' < length xs \<Longrightarrow> key (xs ! j) \<le> key (xs ! j')" for j j'
    using sorted_nth_mono [OF assms(1), of j j'] by simp
  have gt: "j < length xs \<Longrightarrow> ?b < j \<Longrightarrow> k < key (xs ! j)" for j
    using last by (simp add: cmp_of_iff)
  consider "?f ?b = Less" "i = ?b + 1" | "?f ?b = Greater" "i = ?b"
    using assms(2) False
    by (auto simp: binary_search_by_key_def binary_search_by_def Let_def split: ordering.splits)
  then show ?thesis
  proof cases
    case 1
    then have less: "key (xs ! ?b) < k" by (simp add: cmp_of_iff)
    have "key (xs ! j) < k" if "j < i" for j
      using mono [of j ?b] that 1(2) r less by simp
    moreover have "k < key (xs ! j)" if "i \<le> j" "j < length xs" for j
      using gt [of j] that 1(2) by simp
    ultimately show ?thesis using 1(2) r by simp
  next
    case 2
    then have greater: "k < key (xs ! ?b)" and z: "?b = 0"
      using last by (simp_all add: cmp_of_iff)
    have "k < key (xs ! j)" if "i \<le> j" "j < length xs" for j
      using mono [of ?b j] that 2(2) greater by simp
    then show ?thesis using 2(2) r z by simp
  qed
qed

text \<open>On a sorted slice the search decides membership.\<close>

lemma binary_search_complete:
  assumes "sorted (map key xs)" "x \<in> set xs" "key x = k"
  shows "\<exists>i. binary_search_by_key xs k key = Found i"
proof (cases "binary_search_by_key xs k key")
  case (Insert i)
  obtain j where "j < length xs" "xs ! j = x" using assms(2) by (auto simp: in_set_conv_nth)
  then show ?thesis
    using binary_search_Insert [OF assms(1) Insert] assms(3) by (metis leI less_irrefl)
qed auto

text \<open>
  The indices that the search compares, in order. When the key function is only meaningful at some
  indices \<open>V\<close>, and all the indices compared are such, the search is right about all of them.
\<close>

function bs_probes :: "(nat \<Rightarrow> ordering) \<Rightarrow> nat \<Rightarrow> nat \<Rightarrow> nat list" where
  "bs_probes f base sz =
     (if 1 < sz
      then (base + sz div 2) #
        bs_probes f (if f (base + sz div 2) = Greater then base else base + sz div 2) (sz - sz div 2)
      else [base])"
  by pat_completeness auto
termination
  by (relation "measure (\<lambda>(f, base, sz). sz)") auto

declare bs_probes.simps [simp del]

definition binary_search_probes :: "'a list \<Rightarrow> 'k::linorder \<Rightarrow> ('a \<Rightarrow> 'k) \<Rightarrow> nat list" where
  "binary_search_probes xs k key =
     (if xs = [] then [] else bs_probes (\<lambda>i. cmp_of (key (xs ! i)) k) 0 (length xs))"

lemma bs_probes_range: "0 < sz \<Longrightarrow> i \<in> set (bs_probes f base sz) \<Longrightarrow> base \<le> i \<and> i < base + sz"
proof (induction f base sz rule: bs_probes.induct)
  case (1 f base sz)
  show ?case
  proof (cases "1 < sz")
    case True
    let ?b = "if f (base + sz div 2) = Greater then base else base + sz div 2"
    consider "i = base + sz div 2" | "i \<in> set (bs_probes f ?b (sz - sz div 2))"
      using "1.prems"(2) True by (auto simp: bs_probes.simps [of f base sz])
    then show ?thesis
    proof cases
      case 2
      have "?b \<le> i \<and> i < ?b + (sz - sz div 2)" by (rule "1.IH" [OF True _ 2]) (use True in simp)
      then show ?thesis using True by (auto split: if_splits)
    qed (use True in auto)
  next
    case False
    then show ?thesis using "1.prems" by (simp add: bs_probes.simps [of f base sz])
  qed
qed

lemma bs_probes_last:
  assumes "\<forall>i \<in> set (bs_probes f base sz). V i"
    and "\<forall>i j. i \<le> j \<longrightarrow> j < n \<longrightarrow> V i \<longrightarrow> V j \<longrightarrow> f j \<noteq> Greater \<longrightarrow> f i \<noteq> Greater"
    and "0 < sz" "base + sz \<le> n" "\<forall>j < n. V j \<longrightarrow> base + sz \<le> j \<longrightarrow> f j = Greater"
    and "base = 0 \<or> f base \<noteq> Greater"
  shows "V (bs_loop f base sz) \<and> (bs_loop f base sz = 0 \<or> f (bs_loop f base sz) \<noteq> Greater) \<and>
    (\<forall>j < n. V j \<longrightarrow> bs_loop f base sz < j \<longrightarrow> f j = Greater)"
  using assms
proof (induction f base sz rule: bs_probes.induct)
  case (1 f base sz)
  show ?case
  proof (cases "1 < sz")
    case True
    let ?m = "base + sz div 2"
    let ?b = "if f ?m = Greater then base else ?m"
    let ?s = "sz - sz div 2"
    have pr: "V ?m" "\<forall>i \<in> set (bs_probes f ?b ?s). V i"
      using "1.prems"(1) True by (simp_all add: bs_probes.simps [of f base sz])
    have tail: "\<forall>j < n. V j \<longrightarrow> ?b + ?s \<le> j \<longrightarrow> f j = Greater"
    proof (intro allI impI)
      fix j assume j: "j < n" "V j" "?b + ?s \<le> j"
      show "f j = Greater"
      proof (cases "f ?m = Greater")
        case g: True
        have "?m \<le> j" using j g by (simp split: if_splits)
        then show ?thesis using "1.prems"(2) j(1,2) pr(1) g by blast
      next
        case False
        then have "base + sz \<le> j" using j by simp
        then show ?thesis using "1.prems"(5) j by blast
      qed
    qed
    have b: "?b = 0 \<or> f ?b \<noteq> Greater" using "1.prems"(6) by auto
    have bn: "0 < ?s" "?b + ?s \<le> n" using "1.prems"(4) True by auto
    show ?thesis
      unfolding bs_loop_step [OF True] by (rule "1.IH" [OF True pr(2) "1.prems"(2) bn tail b])
  next
    case False
    then have "sz = 1" using "1.prems"(3) by simp
    then show ?thesis using "1.prems" by (auto simp: bs_loop_stop bs_probes.simps)
  qed
qed

section \<open>Parsing integers\<close>

text \<open>
  \<open>from_str_radix\<close> of the unsigned integers, for a radix up to 16: an optional \<open>+\<close> followed by at
  least one digit, refused when the value does not fit in the given number of bits. \<open>str::parse\<close> is
  the radix 10.
\<close>

definition char_code :: "char \<Rightarrow> nat" where
  "char_code c = of_char c"

definition digit_value :: "nat \<Rightarrow> char \<Rightarrow> nat option" where
  "digit_value radix c =
     (let n = char_code c;
          d = (if 48 \<le> n \<and> n \<le> 57 then Some (n - 48)
               else if 97 \<le> n \<and> n \<le> 102 then Some (n - 87)
               else if 65 \<le> n \<and> n \<le> 70 then Some (n - 55) else None)
      in case d of None \<Rightarrow> None | Some v \<Rightarrow> if v < radix then Some v else None)"

fun parse_digits :: "nat \<Rightarrow> nat \<Rightarrow> nat \<Rightarrow> string \<Rightarrow> nat option" where
  "parse_digits radix bits acc [] = Some acc"
| "parse_digits radix bits acc (c # cs) =
     (case digit_value radix c of
        None \<Rightarrow> None
      | Some d \<Rightarrow>
          if acc * radix + d < 2 ^ bits then parse_digits radix bits (acc * radix + d) cs else None)"

definition from_str_radix :: "nat \<Rightarrow> nat \<Rightarrow> string \<Rightarrow> nat option" where
  "from_str_radix radix bits s =
     (let digits = (case s of c # cs \<Rightarrow> if c = CHR ''+'' then cs else s | [] \<Rightarrow> [])
      in if digits = [] then None else parse_digits radix bits 0 digits)"

lemma parse_digits_less: "acc < 2 ^ bits \<Longrightarrow> parse_digits radix bits acc cs = Some n \<Longrightarrow> n < 2 ^ bits"
  by (induction cs arbitrary: acc) (auto split: option.splits if_splits)

section \<open>Searching strings\<close>

text \<open>\<open>str::find\<close> of a character and \<open>str::contains\<close>.\<close>

fun find_char :: "char \<Rightarrow> string \<Rightarrow> nat option" where
  "find_char c [] = None"
| "find_char c (d # ds) = (if d = c then Some 0 else map_option Suc (find_char c ds))"

fun str_contains :: "string \<Rightarrow> string \<Rightarrow> bool" where
  "str_contains pat [] \<longleftrightarrow> pat = []"
| "str_contains pat (c # cs) \<longleftrightarrow> take (length pat) (c # cs) = pat \<or> str_contains pat cs"

lemma find_char_Some: "find_char c s = Some i \<longleftrightarrow> i < length s \<and> s ! i = c \<and> c \<notin> set (take i s)"
proof (induction s arbitrary: i)
  case (Cons d ds)
  then show ?case by (cases i) auto
qed simp

lemma find_char_append: "c \<notin> set s \<Longrightarrow> find_char c (s @ c # t) = Some (length s)"
  by (induction s) auto

lemma str_contains_iff: "str_contains pat s \<longleftrightarrow> (\<exists>u v. s = u @ pat @ v)"
proof (induction s)
  case (Cons c cs)
  have "take (length pat) (c # cs) = pat \<longleftrightarrow> (\<exists>v. c # cs = pat @ v)"
    by (metis append_eq_conv_conj append_take_drop_id)
  moreover have "(\<exists>u v. c # cs = u @ pat @ v) \<longleftrightarrow> (\<exists>v. c # cs = pat @ v) \<or> (\<exists>u v. cs = u @ pat @ v)"
    by (auto simp: Cons_eq_append_conv)
  ultimately show ?case using Cons.IH by simp
qed auto

section \<open>Stores of bytes\<close>

text \<open>The memory of a process, as bytes at 64-bit addresses that wrap around.\<close>

definition load_bytes :: "(u64 \<Rightarrow> u8) \<Rightarrow> u64 \<Rightarrow> nat \<Rightarrow> u8 list" where
  "load_bytes m a n = map (\<lambda>i. m (a + of_nat i)) [0..<n]"

fun store_bytes :: "(u64 \<Rightarrow> u8) \<Rightarrow> u64 \<Rightarrow> u8 list \<Rightarrow> u64 \<Rightarrow> u8" where
  "store_bytes m a [] = m"
| "store_bytes m a (b # bs) = (store_bytes m (a + 1) bs)(a := b)"

lemma store_bytes_at: "i < length bs \<Longrightarrow> length bs < 2 ^ 64 \<Longrightarrow> store_bytes m a bs (a + of_nat i) = bs ! i"
proof (induction bs arbitrary: a i)
  case Nil
  then show ?case by simp
next
  case (Cons b bs)
  show ?case
  proof (cases i)
    case 0
    then show ?thesis by simp
  next
    case (Suc j)
    have "unat (of_nat i :: u64) = i" using Cons.prems by (simp only: unat_of_nat) (simp add: take_bit_nat_eq_self)
    then have "of_nat i \<noteq> (0 :: u64)" using Suc by force
    then have "a + of_nat i \<noteq> a" by simp
    moreover have "a + of_nat i = (a + 1) + of_nat j" using Suc by simp
    moreover have "store_bytes m (a + 1) bs ((a + 1) + of_nat j) = bs ! j" using Cons.IH [of j "a + 1"] Cons.prems Suc by simp
    ultimately show ?thesis using Suc by (simp only: store_bytes.simps fun_upd_apply if_False nth_Cons_Suc)
  qed
qed

lemma load_store_bytes:
  assumes "length bs < 2 ^ 64"
  shows "load_bytes (store_bytes m a bs) a (length bs) = bs"
  using assms by (auto intro!: nth_equalityI simp: load_bytes_def store_bytes_at)

lemma length_load_bytes [simp]: "length (load_bytes m a n) = n"
  by (simp add: load_bytes_def)

text \<open>A store changes only the bytes of its range.\<close>

lemma store_bytes_other: "\<forall>i < length bs. b \<noteq> a + of_nat i \<Longrightarrow> store_bytes m a bs b = m b"
proof (induction bs arbitrary: a)
  case Nil
  then show ?case by simp
next
  case (Cons c bs)
  have "b \<noteq> a + 1 + of_nat i" if "i < length bs" for i
    using Cons.prems [rule_format, of "Suc i"] that by (simp add: add.assoc)
  moreover have "b \<noteq> a" using Cons.prems [rule_format, of 0] by simp
  ultimately show ?case using Cons.IH [of "a + 1"] by simp
qed

end
