(* ===== verification/Vm_Error.thy ===== *)
theory Vm_Error
  imports Vm_Prelude
begin

text \<open>
  The error types of \<^verbatim>\<open>vminer-core/src/error.rs\<close>: their constructors, their \<open>Display\<close> and
  \<open>Error::source\<close> implementations, the conversions that \<open>?\<close> applies, and the context
  extension of results and options. \<open>VmError\<close> is a box around \<open>Repr\<close>, so the type \<open>vm_error\<close> is
  \<open>repr\<close>. A boxed \<open>dyn Error\<close> is one of the error types of the crate, a string, or an error of
  other code, known by its message and its source.

  \<open>std::io::Error\<close> is modelled by its representations: an OS code, a kind, or a kind with
  an error. The text of an OS code comes from the operating system and is the parameter \<open>os_msg\<close>.
\<close>

section \<open>The error types\<close>

datatype io_kind = UnexpectedEof | UnsupportedKind | OtherKind string

datatype io_error = IoOs int | IoSimple io_kind | IoCustom io_kind dyn_error
and memory_access_error = OutOfBounds | MemUnsupported | MemIo io_error
and vcpu_error = VcpuUnsupported | InvalidId | BadArchitecture | UnknownRegister | VcpuIo io_error
and repr =
    RMemory memory_access_error
  | RVcpu vcpu_error
  | RInvalidPage u64
  | RUnsupportedArchitecture
  | RUnsupported
  | RUnimplemented
  | RMissingModule string
  | RMissingSymbol string
  | RMissingField string string
  | RNullPtr
  | RIo io_error
  | ROther dyn_error
  | RContext string "dyn_error option"
and dyn_error =
    DynStr string
  | DynMemory memory_access_error
  | DynVcpu vcpu_error
  | DynIo io_error
  | DynVm repr
  | DynForeign string "dyn_error option"

type_synonym vm_error = repr

datatype translation_error = TMemory memory_access_error | TInvalid u64

type_synonym 'a memory_access_result = "('a, memory_access_error) result"
type_synonym 'a vcpu_result = "('a, vcpu_error) result"
type_synonym 'a translation_result = "('a, translation_error) result"
type_synonym 'a vm_result = "('a, vm_error) result"

section \<open>Sources\<close>

fun io_source :: "io_error \<Rightarrow> dyn_error option"
and mem_source :: "memory_access_error \<Rightarrow> dyn_error option"
and vcpu_source :: "vcpu_error \<Rightarrow> dyn_error option"
and vm_source :: "vm_error \<Rightarrow> dyn_error option"
and dyn_source :: "dyn_error \<Rightarrow> dyn_error option" where
  "io_source (IoOs c) = None"
| "io_source (IoSimple k) = None"
| "io_source (IoCustom k e) = dyn_source e"
| "mem_source (MemIo err) = io_source err"
| "mem_source OutOfBounds = None"
| "mem_source MemUnsupported = None"
| "vcpu_source (VcpuIo err) = io_source err"
| "vcpu_source VcpuUnsupported = None"
| "vcpu_source InvalidId = None"
| "vcpu_source BadArchitecture = None"
| "vcpu_source UnknownRegister = None"
| "vm_source (RMemory err) = Some (DynMemory err)"
| "vm_source (RVcpu err) = Some (DynVcpu err)"
| "vm_source (RIo err) = Some (DynIo err)"
| "vm_source (RContext msg err) = err"
| "vm_source (ROther err) = dyn_source err"
| "vm_source (RInvalidPage e) = None"
| "vm_source RUnsupportedArchitecture = None"
| "vm_source RUnsupported = None"
| "vm_source RUnimplemented = None"
| "vm_source (RMissingModule s) = None"
| "vm_source (RMissingSymbol s) = None"
| "vm_source (RMissingField s t) = None"
| "vm_source RNullPtr = None"
| "dyn_source (DynStr s) = None"
| "dyn_source (DynMemory err) = mem_source err"
| "dyn_source (DynVcpu err) = vcpu_source err"
| "dyn_source (DynIo err) = io_source err"
| "dyn_source (DynVm err) = vm_source err"
| "dyn_source (DynForeign s err) = err"

fun translation_source :: "translation_error \<Rightarrow> dyn_error option" where
  "translation_source (TMemory err) = mem_source err"
| "translation_source (TInvalid e) = None"

section \<open>Messages\<close>

fun io_kind_msg :: "io_kind \<Rightarrow> string" where
  "io_kind_msg UnexpectedEof = ''unexpected end of file''"
| "io_kind_msg UnsupportedKind = ''unsupported''"
| "io_kind_msg (OtherKind s) = s"

fun io_fmt :: "(int \<Rightarrow> string) \<Rightarrow> io_error \<Rightarrow> string"
and mem_fmt :: "(int \<Rightarrow> string) \<Rightarrow> memory_access_error \<Rightarrow> string"
and vcpu_fmt :: "(int \<Rightarrow> string) \<Rightarrow> vcpu_error \<Rightarrow> string"
and repr_fmt :: "(int \<Rightarrow> string) \<Rightarrow> vm_error \<Rightarrow> string"
and dyn_fmt :: "(int \<Rightarrow> string) \<Rightarrow> dyn_error \<Rightarrow> string" where
  "io_fmt os_msg (IoOs c) = os_msg c"
| "io_fmt os_msg (IoSimple k) = io_kind_msg k"
| "io_fmt os_msg (IoCustom k e) = dyn_fmt os_msg e"
| "mem_fmt os_msg OutOfBounds = ''out of bounds memory access''"
| "mem_fmt os_msg MemUnsupported = ''unsupported operation''"
| "mem_fmt os_msg (MemIo err) = io_fmt os_msg err"
| "vcpu_fmt os_msg VcpuUnsupported = ''unsupported operation''"
| "vcpu_fmt os_msg InvalidId = ''invalid vCPU ID''"
| "vcpu_fmt os_msg BadArchitecture = ''wrong architecture''"
| "vcpu_fmt os_msg UnknownRegister = ''unknown register''"
| "vcpu_fmt os_msg (VcpuIo err) = io_fmt os_msg err"
| "repr_fmt os_msg (RMemory err) = ''failed to access physical memory''"
| "repr_fmt os_msg (RVcpu err) = ''failed to access registers''"
| "repr_fmt os_msg (RInvalidPage e) = ''encountered invalid page''"
| "repr_fmt os_msg RUnsupportedArchitecture = ''operation unsupported by the architecture''"
| "repr_fmt os_msg RUnsupported = ''unsupported operation''"
| "repr_fmt os_msg RUnimplemented = ''unimplemented''"
| "repr_fmt os_msg (RMissingModule name) = ''missing required module \"'' @ name @ ''\"''"
| "repr_fmt os_msg (RMissingSymbol s) = ''missing required symbol \"'' @ s @ ''\"''"
| "repr_fmt os_msg (RMissingField field typ) =
     ''missing required field \"'' @ field @ ''\" in type \"'' @ typ @ ''\"''"
| "repr_fmt os_msg RNullPtr = ''attempted to deref NULL pointer''"
| "repr_fmt os_msg (RIo err) = ''I/O error''"
| "repr_fmt os_msg (RContext msg err) = msg"
| "repr_fmt os_msg (ROther err) = dyn_fmt os_msg err"
| "dyn_fmt os_msg (DynStr s) = s"
| "dyn_fmt os_msg (DynMemory err) = mem_fmt os_msg err"
| "dyn_fmt os_msg (DynVcpu err) = vcpu_fmt os_msg err"
| "dyn_fmt os_msg (DynIo err) = io_fmt os_msg err"
| "dyn_fmt os_msg (DynVm err) = repr_fmt os_msg err"
| "dyn_fmt os_msg (DynForeign s err) = s"

fun translation_fmt :: "(int \<Rightarrow> string) \<Rightarrow> translation_error \<Rightarrow> string" where
  "translation_fmt os_msg (TMemory err) = mem_fmt os_msg err"
| "translation_fmt os_msg (TInvalid e) = ''invalid MMU entry''"

text \<open>The source of a boxed error is strictly smaller than the error, so a chain of sources is finite.\<close>

lemma source_smaller:
  "io_source io = Some d \<Longrightarrow> size d < size io"
  "mem_source m = Some d \<Longrightarrow> size d < size m"
  "vcpu_source v = Some d \<Longrightarrow> size d < size v"
  "vm_source r = Some d \<Longrightarrow> size d \<le> size r"
  "dyn_source e = Some d \<Longrightarrow> size d < size e"
  by (induction io and m and v and r and e
      rule: io_source_mem_source_vcpu_source_vm_source_dyn_source.induct) auto

text \<open>The loop of the alternate \<open>Display\<close> over the causes, one line for each.\<close>

function causes :: "dyn_error option \<Rightarrow> dyn_error list" where
  "causes None = []"
| "causes (Some cause) = cause # causes (dyn_source cause)"
  by pat_completeness auto
termination
  by (relation "measure (\<lambda>e. case e of None \<Rightarrow> 0 | Some d \<Rightarrow> Suc (size d))")
    (auto simp: source_smaller split: option.splits)

definition vm_fmt :: "(int \<Rightarrow> string) \<Rightarrow> bool \<Rightarrow> vm_error \<Rightarrow> string" where
  "vm_fmt os_msg alternate self =
     (if alternate then
        repr_fmt os_msg self @
        (if vm_source self \<noteq> None then CHR 0x0A # CHR 0x0A # ''Caused by:'' else []) @
        concat (map (\<lambda>cause. CHR 0x0A # ''    '' @ dyn_fmt os_msg cause) (causes (vm_source self)))
      else repr_fmt os_msg self)"

definition print_backtrace :: "(int \<Rightarrow> string) \<Rightarrow> vm_error \<Rightarrow> string" where
  "print_backtrace os_msg self = vm_fmt os_msg True self"

section \<open>Constructors and conversions\<close>

definition missing_module :: "string \<Rightarrow> vm_error" where
  "missing_module s = RMissingModule s"

definition missing_symbol :: "string \<Rightarrow> vm_error" where
  "missing_symbol s = RMissingSymbol s"

definition missing_field :: "string \<Rightarrow> string \<Rightarrow> vm_error" where
  "missing_field field typ = RMissingField field typ"

definition deref_null_ptr :: vm_error where
  "deref_null_ptr = RNullPtr"

definition vm_new :: "dyn_error \<Rightarrow> vm_error" where
  "vm_new err = ROther err"

definition vm_with_context :: "string \<Rightarrow> dyn_error \<Rightarrow> vm_error" where
  "vm_with_context msg err = RContext msg (Some err)"

definition unsupported_architecture :: vm_error where
  "unsupported_architecture = RUnsupportedArchitecture"

definition unsupported :: vm_error where
  "unsupported = RUnsupported"

definition unimplemented :: vm_error where
  "unimplemented = RUnimplemented"

definition vm_of_str :: "string \<Rightarrow> vm_error" where
  "vm_of_str msg = RContext msg None"

definition vm_of_mem :: "memory_access_error \<Rightarrow> vm_error" where
  "vm_of_mem err = RMemory err"

definition vm_of_vcpu :: "vcpu_error \<Rightarrow> vm_error" where
  "vm_of_vcpu err = RVcpu err"

definition vm_of_io :: "io_error \<Rightarrow> vm_error" where
  "vm_of_io err = RIo err"

fun vm_of_translation :: "translation_error \<Rightarrow> vm_error" where
  "vm_of_translation (TMemory err) = vm_of_mem err"
| "vm_of_translation (TInvalid entry) = RInvalidPage entry"

definition mem_of_io :: "io_error \<Rightarrow> memory_access_error" where
  "mem_of_io err = MemIo err"

fun io_of_mem :: "memory_access_error \<Rightarrow> io_error" where
  "io_of_mem OutOfBounds = IoCustom UnexpectedEof (DynStr ''out of bounds memory access'')"
| "io_of_mem MemUnsupported = IoSimple UnsupportedKind"
| "io_of_mem (MemIo err) = err"

definition translation_of_mem :: "memory_access_error \<Rightarrow> translation_error" where
  "translation_of_mem err = TMemory err"

fun maybe_invalid :: "'a translation_result \<Rightarrow> 'a option memory_access_result" where
  "maybe_invalid (Ok x) = Ok (Some x)"
| "maybe_invalid (Err (TInvalid e)) = Ok None"
| "maybe_invalid (Err (TMemory err)) = Err err"
| "maybe_invalid Panic = Panic"

text \<open>\<open>ResultExt::context\<close> on a result whose error is boxed by \<open>into\<close>, and on an option.\<close>

definition context_res :: "('e \<Rightarrow> dyn_error) \<Rightarrow> string \<Rightarrow> ('a, 'e) result \<Rightarrow> 'a vm_result" where
  "context_res into msg r = map_err (\<lambda>err. vm_with_context msg (into err)) r"

definition context_opt :: "string \<Rightarrow> 'a option \<Rightarrow> 'a vm_result" where
  "context_opt msg x = ok_or (vm_new (DynStr msg)) x"

lemmas vm_error_defs = vm_of_mem_def vm_of_vcpu_def vm_of_io_def vm_of_str_def vm_new_def
  vm_with_context_def missing_module_def missing_symbol_def missing_field_def deref_null_ptr_def
  unsupported_architecture_def unsupported_def unimplemented_def

section \<open>Properties\<close>

lemma maybe_invalid_iff [result_simps]:
  "maybe_invalid r = Ok (Some x) \<longleftrightarrow> r = Ok x"
  "maybe_invalid r = Ok None \<longleftrightarrow> (\<exists>e. r = Err (TInvalid e))"
  "maybe_invalid r = Err err \<longleftrightarrow> r = Err (TMemory err)"
  "maybe_invalid r = Panic \<longleftrightarrow> r = Panic"
  by (cases r rule: maybe_invalid.cases; simp)+

lemma causes_linked:
  "Suc i < length (causes e) \<Longrightarrow> dyn_source (causes e ! i) = Some (causes e ! Suc i)"
proof (induction e arbitrary: i rule: causes.induct)
  case 1
  then show ?case by simp
next
  case (2 cause)
  then show ?case
    by (cases i; cases "dyn_source cause") auto
qed

lemma causes_ends: "e \<noteq> None \<Longrightarrow> dyn_source (last (causes e)) = None"
proof (induction e rule: causes.induct)
  case (2 cause)
  then show ?case by (cases "dyn_source cause") auto
qed simp

text \<open>
  The lines of a backtrace: the message of the error, and those of its sources. A context that is put around an error adds
  one line before them.
\<close>

definition backtrace_lines :: "(int \<Rightarrow> string) \<Rightarrow> vm_error \<Rightarrow> string list" where
  "backtrace_lines os_msg err = repr_fmt os_msg err # map (dyn_fmt os_msg) (causes (vm_source err))"

definition indented :: "string \<Rightarrow> string" where
  "indented s = CHR 0x0A # ''    '' @ s"

definition printed_lines :: "string list \<Rightarrow> string" where
  "printed_lines ls =
     hd ls @ (if tl ls = [] then [] else CHR 0x0A # CHR 0x0A # ''Caused by:'' @ concat (map indented (tl ls)))"

lemma print_backtrace_lines: "print_backtrace os_msg err = printed_lines (backtrace_lines os_msg err)"
  by (cases "vm_source err") (simp_all add: print_backtrace_def vm_fmt_def printed_lines_def backtrace_lines_def indented_def comp_def)

lemma context_err: "context_res into m (Err e) = Err (vm_with_context m (into e))"
  by (simp add: context_res_def)

lemma context_stays_error: "\<exists>err. foldr (context_res DynVm) ms (Err base :: 'a vm_result) = Err err"
  by (induction ms) (auto simp: context_err)

lemma context_backtrace:
  "foldr (context_res DynVm) ms (Err base :: 'a vm_result) = Err err \<Longrightarrow>
    backtrace_lines os_msg err = ms @ backtrace_lines os_msg base"
proof (induction ms arbitrary: err)
  case (Cons m ms)
  obtain e where e: "foldr (context_res DynVm) ms (Err base :: 'a vm_result) = Err e" using context_stays_error by blast
  have "err = vm_with_context m (DynVm e)" using Cons.prems by (simp add: e context_err)
  then show ?case using Cons.IH [OF e] by (simp add: backtrace_lines_def vm_with_context_def)
qed simp

end
