(* ===== verification/Vm_Addr.thy ===== *)
theory Vm_Addr
  imports Vm_Prelude
begin

text \<open>
  Addresses (\<^verbatim>\<open>vminer-core/src/addr.rs\<close>) and bit masks (\<^verbatim>\<open>vminer-core/src/lib.rs\<close>).
  \<open>PhysicalAddress\<close>, \<open>VirtualAddress\<close> and \<open>MmuEntry\<close> are transparent wrappers of \<open>u64\<close>, so their
  types are synonyms. An \<open>i64\<close> is the 64-bit word of its two's complement representation, read
  by \<open>sint\<close>.

  Every shift amount and bit range the code passes to \<open>mask\<close> and \<open>mask_range\<close> is a literal with
  \<open>from \<le> to\<close> and \<open>to < 64\<close>, for which the shift and the subtraction do not overflow.
\<close>

type_synonym physical_address = u64
type_synonym virtual_address = u64
type_synonym mmu_entry = u64
type_synonym i64 = "64 word"
type_synonym i32 = "32 word"

section \<open>Masks\<close>

definition vm_mask :: "nat \<Rightarrow> u64" where
  "vm_mask n = NOT (push_bit n (NOT 0))"

definition mask_range :: "nat \<Rightarrow> nat \<Rightarrow> u64" where
  "mask_range from to = push_bit from (vm_mask (to - from))"

section \<open>Physical addresses\<close>

definition pa_add :: "physical_address \<Rightarrow> u64 \<Rightarrow> (physical_address, 'e) result" where
  "pa_add self rhs = add_chk self rhs"

definition pa_add_assign :: "physical_address \<Rightarrow> u64 \<Rightarrow> (physical_address, 'e) result" where
  "pa_add_assign self rhs = add_chk self rhs"

definition pa_add_i64 :: "physical_address \<Rightarrow> i64 \<Rightarrow> (physical_address, 'e) result" where
  "pa_add_i64 self rhs =
     (let (res, o') = overflowing_add_signed self rhs in if o' then Panic else Ok res)"

definition pa_add_assign_i64 :: "physical_address \<Rightarrow> i64 \<Rightarrow> (physical_address, 'e) result" where
  "pa_add_assign_i64 self rhs = pa_add_i64 self rhs"

definition pa_diff :: "physical_address \<Rightarrow> physical_address \<Rightarrow> i64" where
  "pa_diff self rhs = self - rhs"

definition pa_sub :: "physical_address \<Rightarrow> u64 \<Rightarrow> (physical_address, 'e) result" where
  "pa_sub self rhs = sub_chk self rhs"

section \<open>Virtual addresses\<close>

definition is_null :: "virtual_address \<Rightarrow> bool" where
  "is_null self \<longleftrightarrow> self = 0"

definition is_kernel :: "virtual_address \<Rightarrow> bool" where
  "is_kernel self \<longleftrightarrow> sint self < 0"

definition pml4e :: "virtual_address \<Rightarrow> u64" where
  "pml4e self = drop_bit 39 self AND vm_mask 9"

definition pdpe :: "virtual_address \<Rightarrow> u64" where
  "pdpe self = drop_bit 30 self AND vm_mask 9"

definition pde :: "virtual_address \<Rightarrow> u64" where
  "pde self = drop_bit 21 self AND vm_mask 9"

definition pte :: "virtual_address \<Rightarrow> u64" where
  "pte self = drop_bit 12 self AND vm_mask 9"

definition page_offset :: "virtual_address \<Rightarrow> u64" where
  "page_offset self = self AND vm_mask 12"

definition large_page_offset :: "virtual_address \<Rightarrow> u64" where
  "large_page_offset self = self AND vm_mask 21"

definition huge_page_offset :: "virtual_address \<Rightarrow> u64" where
  "huge_page_offset self = self AND vm_mask 30"

definition va_add :: "virtual_address \<Rightarrow> u64 \<Rightarrow> (virtual_address, 'e) result" where
  "va_add self rhs = add_chk self rhs"

definition va_add_i64 :: "virtual_address \<Rightarrow> i64 \<Rightarrow> (virtual_address, 'e) result" where
  "va_add_i64 self rhs =
     (let (res, o') = overflowing_add_signed self rhs in if o' then Panic else Ok res)"

definition va_add_i32 :: "virtual_address \<Rightarrow> i32 \<Rightarrow> (virtual_address, 'e) result" where
  "va_add_i32 self rhs = va_add_i64 self (scast rhs)"

definition va_add_u32 :: "virtual_address \<Rightarrow> u32 \<Rightarrow> (virtual_address, 'e) result" where
  "va_add_u32 self rhs = add_chk self (ucast rhs)"

definition va_add_assign :: "virtual_address \<Rightarrow> u64 \<Rightarrow> (virtual_address, 'e) result" where
  "va_add_assign self rhs = add_chk self rhs"

definition va_diff :: "virtual_address \<Rightarrow> virtual_address \<Rightarrow> i64" where
  "va_diff self rhs = self - rhs"

definition va_sub :: "virtual_address \<Rightarrow> u64 \<Rightarrow> (virtual_address, 'e) result" where
  "va_sub self rhs = sub_chk self rhs"

definition va_sub_assign :: "virtual_address \<Rightarrow> u64 \<Rightarrow> (virtual_address, 'e) result" where
  "va_sub_assign self rhs = sub_chk self rhs"

section \<open>MMU entries\<close>

definition take_bits :: "mmu_entry \<Rightarrow> nat \<Rightarrow> nat \<Rightarrow> physical_address" where
  "take_bits self from to = self AND mask_range from to"

definition mmu_sub :: "mmu_entry \<Rightarrow> u64 \<Rightarrow> (mmu_entry, 'e) result" where
  "mmu_sub self rhs = sub_chk self rhs"

definition mmu_sub_assign :: "mmu_entry \<Rightarrow> u64 \<Rightarrow> (mmu_entry, 'e) result" where
  "mmu_sub_assign self rhs = sub_chk self rhs"

lemmas addr_defs = pa_add_def pa_add_assign_def pa_diff_def pa_sub_def va_add_def va_add_u32_def
  va_add_assign_def va_diff_def va_sub_def va_sub_assign_def mmu_sub_def mmu_sub_assign_def

section \<open>Masks as arithmetic\<close>

lemma vm_mask_eq: "vm_mask n = mask n"
  by (rule bit_word_eqI) (auto simp: vm_mask_def bit_simps)

lemma and_vm_mask: "w AND vm_mask n = take_bit n w"
  by (simp add: vm_mask_eq take_bit_eq_mask)

lemma unat_take_bit: "unat (take_bit n w) = unat w mod 2 ^ n" for w :: "'w::len word"
  unfolding unsigned_take_bit_eq by (rule take_bit_eq_mod)

lemma unat_drop_bit: "unat (drop_bit n w) = unat w div 2 ^ n" for w :: "'w::len word"
  unfolding unat_drop_bit_eq by (rule drop_bit_eq_div)

lemma bit_take_bits:
  "bit (take_bits w from to) k \<longleftrightarrow> bit w k \<and> from \<le> k \<and> k < to"
  by (auto simp: take_bits_def mask_range_def vm_mask_eq bit_simps dest: bit_imp_le_length)

lemma take_bits_eq: "from \<le> to \<Longrightarrow> take_bits w from to = take_bit to w AND NOT (mask from)"
  by (rule bit_word_eqI) (auto simp: bit_take_bits bit_simps)

lemma unat_index_field:
  "unat (pml4e va) = unat va div 2 ^ 39 mod 2 ^ 9"
  "unat (pdpe va) = unat va div 2 ^ 30 mod 2 ^ 9"
  "unat (pde va) = unat va div 2 ^ 21 mod 2 ^ 9"
  "unat (pte va) = unat va div 2 ^ 12 mod 2 ^ 9"
  "unat (page_offset va) = unat va mod 2 ^ 12"
  "unat (large_page_offset va) = unat va mod 2 ^ 21"
  "unat (huge_page_offset va) = unat va mod 2 ^ 30"
  unfolding pml4e_def pdpe_def pde_def pte_def page_offset_def large_page_offset_def
    huge_page_offset_def and_vm_mask
  by (simp_all add: unat_take_bit unat_drop_bit)

text \<open>Peeling nine bits off the top of the low bits of a number.\<close>

lemma mod_peel: "n mod 2 ^ (k + 9) = n div 2 ^ k mod 2 ^ 9 * 2 ^ k + n mod 2 ^ k" for n :: nat
  unfolding power_add by (simp only: mod_mult2_eq mult.commute)

section \<open>Properties\<close>

lemma va_add_i64_spec:
  "va_add_i64 va d =
     (if 0 \<le> int (unat va) + sint d \<and> int (unat va) + sint d < 2 ^ 64 then Ok (va + d) else Panic)"
  by (simp add: va_add_i64_def overflowing_add_signed_def)

text \<open>
  The difference of two addresses less than \<open>2 ^ 63\<close> apart is their integer difference, and adding
  it back gives the first address.
\<close>

lemma sint_va_diff:
  assumes "- (2 ^ 63) \<le> int (unat a) - int (unat b)" "int (unat a) - int (unat b) < 2 ^ 63"
  shows "sint (va_diff a b) = int (unat a) - int (unat b)"
proof -
  have "va_diff a b = word_of_int (int (unat a) - int (unat b))"
    by (simp add: va_diff_def)
  then show ?thesis
    using assms by (simp only: sint_sbintrunc') (simp add: signed_take_bit_int_eq_self)
qed

lemma va_diff_add:
  assumes "- (2 ^ 63) \<le> int (unat a) - int (unat b)" "int (unat a) - int (unat b) < 2 ^ 63"
  shows "va_add_i64 b (va_diff a b) = Ok a"
proof -
  have "uint a < 2 ^ 64" using uint_lt2p [of a] by simp
  then show ?thesis
    by (simp add: va_add_i64_spec sint_va_diff [OF assms]) (simp add: va_diff_def)
qed

end
