(* ===== verification/Vm_Symbols.thy ===== *)
theory Vm_Symbols
  imports Vm_Error Vm_Addr "HOL-Library.List_Lexorder" "HOL-Library.Char_ord" "HOL-Library.Multiset"
begin

text \<open>
  Symbols of modules (\<^verbatim>\<open>vminer-core/src/symbols/mod.rs\<close> and \<^verbatim>\<open>symbols_file.rs\<close>): types and structures,
  the builder of a module's tables, the lookups in them, the text format of symbol files, and the
  index of modules by name.

  A \<open>str\<close> is the list of its bytes as characters, ordered as Rust orders them; a range of the buffer is
  the pair of its ends. A \<open>StructRef\<close> is the structure it borrows. \<open>sort_unstable_by_key\<close> may order
  equal keys in any way: the two sorts are arguments. The loaders of ELF and PDB files, the demanglers
  and the \<open>OnceMap\<close> of the index are arguments as well. \<open>hashbrown\<close>'s map is a function.

  The lemmas show that the lookups are those of the pushed symbols, whatever the sorts do with equal
  keys, and what the parser makes of a symbol file.
\<close>

section \<open>Demangling\<close>

type_synonym demangler = "string \<Rightarrow> string option"

definition demangle :: "demangler \<Rightarrow> demangler \<Rightarrow> demangler \<Rightarrow> string \<Rightarrow> string" where
  "demangle rustc cpp msvc symb =
     (case rustc symb of Some s \<Rightarrow> s
      | None \<Rightarrow> (case cpp symb of Some s \<Rightarrow> s
        | None \<Rightarrow> (case msvc symb of Some s \<Rightarrow> s
          | None \<Rightarrow> symb)))"

text \<open>The writer is a function of the text written so far and the text to write.\<close>

definition demangle_to ::
  "demangler \<Rightarrow> demangler \<Rightarrow> demangler \<Rightarrow> string \<Rightarrow> ('w \<Rightarrow> string \<Rightarrow> 'w \<times> (unit, 'e) result) \<Rightarrow> 'w \<Rightarrow>
   'w \<times> (unit, 'e) result"
where
  "demangle_to rustc cpp msvc symb write_str writer =
     (case rustc symb of Some s \<Rightarrow> write_str writer s
      | None \<Rightarrow> (case cpp symb of Some s \<Rightarrow> write_str writer s
        | None \<Rightarrow> (case msvc symb of Some s \<Rightarrow> write_str writer s
          | None \<Rightarrow> write_str writer symb)))"

section \<open>Types\<close>

datatype primitive = Void | I8 | U8 | I16 | U16 | I32 | U32 | I64 | U64

datatype type_kind =
    Primitive primitive
  | Bitfield
  | Array type_kind u32
  | Function
  | Pointer type_kind
  | Struct string
  | Union string
  | Unknown

record struct_field =
  sf_name :: string
  sf_offset :: u64
  sf_typ :: type_kind

record struct_ref =
  st_size :: u64
  st_name :: string
  st_fields :: "struct_field list"

definition find_field :: "struct_ref \<Rightarrow> string \<Rightarrow> struct_field option" where
  "find_field self field_name = List.find (\<lambda>field. sf_name field = field_name) (st_fields self)"

definition find_offset :: "struct_ref \<Rightarrow> string \<Rightarrow> u64 option" where
  "find_offset self field_name = map_option sf_offset (find_field self field_name)"

definition require_offset :: "struct_ref \<Rightarrow> string \<Rightarrow> u64 vm_result" where
  "require_offset self field_name =
     ok_or (missing_field field_name (st_name self)) (find_offset self field_name)"

definition find_offset_and_size :: "struct_ref \<Rightarrow> string \<Rightarrow> (u64 \<times> u64) vm_result" where
  "find_offset_and_size self field_name =
     and_then (ok_or (missing_field field_name (st_name self))
         (List.find (\<lambda>(i, field). sf_name field = field_name) (enumerate 0 (st_fields self)))) (\<lambda>(i, field).
     and_then (sub_chk (case get_at (i + 1) (st_fields self) of None \<Rightarrow> st_size self | Some f \<Rightarrow> sf_offset f)
         (sf_offset field)) (\<lambda>sz.
       Ok (sf_offset field, sz)))"

section \<open>Building the tables\<close>

type_synonym symbol_range = "virtual_address \<times> nat \<times> nat"

record module_symbols_builder =
  b_buffer :: string
  b_symbols :: "symbol_range list"
  b_types :: "string \<Rightarrow> struct_ref option"

definition builder_new :: module_symbols_builder where
  "builder_new = \<lparr>b_buffer = [], b_symbols = [], b_types = Map.empty\<rparr>"

definition push :: "module_symbols_builder \<Rightarrow> virtual_address \<Rightarrow> string \<Rightarrow> module_symbols_builder" where
  "push self addr symb =
     (let start = length (b_buffer self);
          buffer = b_buffer self @ symb;
          e = length buffer
      in self\<lparr>b_buffer := buffer, b_symbols := b_symbols self @ [(addr, start, e)]\<rparr>)"

definition insert_struct :: "module_symbols_builder \<Rightarrow> struct_ref \<Rightarrow> module_symbols_builder" where
  "insert_struct self s = self\<lparr>b_types := (b_types self)(st_name s \<mapsto> s)\<rparr>"

fun extend_symbols :: "module_symbols_builder \<Rightarrow> (virtual_address \<times> string) list \<Rightarrow> module_symbols_builder" where
  "extend_symbols self [] = self"
| "extend_symbols self ((addr, symb) # iter) = extend_symbols (push self addr symb) iter"

fun extend_structs :: "module_symbols_builder \<Rightarrow> struct_ref list \<Rightarrow> module_symbols_builder" where
  "extend_structs self [] = self"
| "extend_structs self (s # iter) = extend_structs (insert_struct self s) iter"

record module_symbols =
  m_buffer :: string
  m_symbols :: "symbol_range list"
  m_addresses :: "symbol_range list"
  m_types :: "string \<Rightarrow> struct_ref option"

definition slice_str :: "string \<Rightarrow> nat \<times> nat \<Rightarrow> string" where
  "slice_str buffer rng = drop (fst rng) (take (snd rng) buffer)"

type_synonym 'k sorter = "(symbol_range \<Rightarrow> 'k) \<Rightarrow> symbol_range list \<Rightarrow> symbol_range list"

definition build :: "u64 sorter \<Rightarrow> string sorter \<Rightarrow> module_symbols_builder \<Rightarrow> module_symbols" where
  "build sort_addr sort_name self =
     (let buffer = b_buffer self;
          names = sort_addr (\<lambda>(addr, _). addr) (b_symbols self);
          addresses = sort_name (\<lambda>(_, rng). slice_str buffer rng) names
      in \<lparr>m_buffer = buffer, m_symbols = names, m_addresses = addresses, m_types = b_types self\<rparr>)"

section \<open>Lookups\<close>

definition module_symbol :: "module_symbols \<Rightarrow> nat \<times> nat \<Rightarrow> string" where
  "module_symbol self rng = slice_str (m_buffer self) rng"

definition get_symbol :: "module_symbols \<Rightarrow> virtual_address \<Rightarrow> string option" where
  "get_symbol self addr =
     (case binary_search_by_key (m_symbols self) addr (\<lambda>(a, _). a) of
        Found index \<Rightarrow> Some (module_symbol self (snd (m_symbols self ! index)))
      | Insert index \<Rightarrow> None)"

definition get_symbol_inexact :: "module_symbols \<Rightarrow> virtual_address \<Rightarrow> (string \<times> u64) option" where
  "get_symbol_inexact self addr =
     (case binary_search_by_key (m_symbols self) addr (\<lambda>(a, _). a) of
        Found i \<Rightarrow> Some (module_symbol self (snd (m_symbols self ! i)), 0)
      | Insert i \<Rightarrow>
          if i = 0 then None
          else let (sym_addr, rng) = m_symbols self ! (i - 1)
               in Some (module_symbol self rng, va_diff addr sym_addr))"

definition get_address :: "module_symbols \<Rightarrow> string \<Rightarrow> virtual_address option" where
  "get_address self name =
     (case binary_search_by_key (m_addresses self) name (\<lambda>(_, rng). module_symbol self rng) of
        Found index \<Rightarrow> Some (fst (m_addresses self ! index))
      | Insert index \<Rightarrow> None)"

definition require_address :: "module_symbols \<Rightarrow> string \<Rightarrow> virtual_address vm_result" where
  "require_address self name = ok_or (missing_symbol name) (get_address self name)"

definition iter_symbols :: "module_symbols \<Rightarrow> (virtual_address \<times> string) list" where
  "iter_symbols self = map (\<lambda>(addr, rng). (addr, module_symbol self rng)) (m_symbols self)"

definition get_struct :: "module_symbols \<Rightarrow> string \<Rightarrow> struct_ref option" where
  "get_struct self name = m_types self name"

definition require_struct :: "module_symbols \<Rightarrow> string \<Rightarrow> struct_ref vm_result" where
  "require_struct self name = ok_or (missing_symbol name) (get_struct self name)"

section \<open>Symbol files\<close>

definition byte_char :: "u8 \<Rightarrow> char" where
  "byte_char b = char_of (unat b)"

text \<open>Whether bytes are valid UTF-8.\<close>

definition utf8_cont :: "u8 \<Rightarrow> bool" where
  "utf8_cont b \<longleftrightarrow> 0x80 \<le> b \<and> b \<le> 0xbf"

fun utf8_valid :: "u8 list \<Rightarrow> bool" where
  "utf8_valid [] = True"
| "utf8_valid (b # bs) =
     (if b < 0x80 then utf8_valid bs
      else if 0xc2 \<le> b \<and> b \<le> 0xdf then
        (case bs of c1 # r \<Rightarrow> utf8_cont c1 \<and> utf8_valid r | _ \<Rightarrow> False)
      else if 0xe0 \<le> b \<and> b \<le> 0xef then
        (case bs of
           c1 # c2 # r \<Rightarrow> utf8_cont c1 \<and> (b = 0xe0 \<longrightarrow> 0xa0 \<le> c1) \<and> (b = 0xed \<longrightarrow> c1 \<le> 0x9f) \<and>
             utf8_cont c2 \<and> utf8_valid r
         | _ \<Rightarrow> False)
      else if 0xf0 \<le> b \<and> b \<le> 0xf4 then
        (case bs of
           c1 # c2 # c3 # r \<Rightarrow> utf8_cont c1 \<and> (b = 0xf0 \<longrightarrow> 0x90 \<le> c1) \<and> (b = 0xf4 \<longrightarrow> c1 \<le> 0x8f) \<and>
             utf8_cont c2 \<and> utf8_cont c3 \<and> utf8_valid r
         | _ \<Rightarrow> False)
      else False)"

definition invalid_utf8 :: io_error where
  "invalid_utf8 = IoCustom (OtherKind ''invalid data'') (DynStr ''stream did not contain valid UTF-8'')"

text \<open>
  The next line, the bytes left and the value returned, with the feature \<open>std\<close> and without it.
  \<open>utf8_error\<close> is the error of \<open>from_utf8\<close>.
\<close>

definition read_one_line ::
  "bool \<Rightarrow> (u8 list \<Rightarrow> dyn_error) \<Rightarrow> u8 list \<Rightarrow> (string \<times> u8 list \<times> nat) vm_result"
where
  "read_one_line std utf8_error self =
     (let line = takeWhile (\<lambda>b. b \<noteq> 0x0a) self; rest = dropWhile (\<lambda>b. b \<noteq> 0x0a) self in
      if std then
        (let line = line @ take 1 rest in
         if utf8_valid line then Ok (map byte_char line, drop 1 rest, length line)
         else Err (vm_of_io invalid_utf8))
      else if utf8_valid line then Ok (map byte_char line, rest, length line)
      else Err (vm_new (utf8_error line)))"

text \<open>Splitting a string at a position inside a character panics.\<close>

definition is_char_boundary :: "string \<Rightarrow> nat \<Rightarrow> bool" where
  "is_char_boundary s i \<longleftrightarrow>
     i = 0 \<or> i = length s \<or> i < length s \<and> \<not> (0x80 \<le> char_code (s ! i) \<and> char_code (s ! i) < 0xc0)"

definition to_ascii_uppercase :: "char \<Rightarrow> char" where
  "to_ascii_uppercase c =
     (if 97 \<le> char_code c \<and> char_code c \<le> 122 then char_of (char_code c - 32) else c)"

definition parse_symbol_line :: "string \<Rightarrow> ((string \<times> u64) option, 'e) result" where
  "parse_symbol_line line =
     (if \<not> is_char_boundary line 19 then Panic
      else let start = take 19 line; rest = drop 19 line in
        if \<not> is_char_boundary start 16 then Panic
        else (case from_str_radix 16 64 (take 16 start) of
            None \<Rightarrow> Ok None
          | Some addr \<Rightarrow>
              if to_ascii_uppercase (start ! 17) \<in> set ''TADR''
              then Ok (Some (takeWhile (\<lambda>c. c \<noteq> CHR 0x09 \<and> c \<noteq> CHR 0x0a) rest, of_nat addr))
              else Ok None))"

lemma read_one_line_shorter:
  assumes "read_one_line std utf8_error r = Ok (line, rest, n)" "n \<noteq> 0"
  shows "length rest < length r"
proof -
  define t d where "t = takeWhile (\<lambda>b. b \<noteq> 0x0a) r" and "d = dropWhile (\<lambda>b. b \<noteq> 0x0a) r"
  have "length r = length t + length d"
    unfolding t_def d_def by (metis length_append takeWhile_dropWhile_id)
  then show ?thesis
    using assms unfolding read_one_line_def t_def [symmetric] d_def [symmetric] Let_def
    by (cases d) (auto split: if_splits)
qed

text \<open>The symbols read so far stay in the builder when an error ends the loop.\<close>

function parse_symbol_file_inner ::
  "bool \<Rightarrow> (u8 list \<Rightarrow> dyn_error) \<Rightarrow> u8 list \<Rightarrow> module_symbols_builder \<Rightarrow> module_symbols_builder \<times> unit vm_result"
where
  "parse_symbol_file_inner std utf8_error r syms =
     (case read_one_line std utf8_error r of
        Ok (line, rest, n) \<Rightarrow>
          if n = 0 then (syms, Ok ())
          else (case parse_symbol_line line :: (_, vm_error) result of
              Ok None \<Rightarrow> parse_symbol_file_inner std utf8_error rest syms
            | Ok (Some (name, addr)) \<Rightarrow> parse_symbol_file_inner std utf8_error rest (push syms addr name)
            | Err e \<Rightarrow> (syms, Err e)
            | Panic \<Rightarrow> (syms, Panic))
      | Err e \<Rightarrow> (syms, Err e)
      | Panic \<Rightarrow> (syms, Panic))"
  by pat_completeness auto
termination
  by (relation "measure (\<lambda>(std, utf8_error, r, syms). length r)") (auto dest: read_one_line_shorter)

declare parse_symbol_file_inner.simps [simp del]

definition read_from_bytes ::
  "bool \<Rightarrow> (u8 list \<Rightarrow> dyn_error) \<Rightarrow> u8 list \<Rightarrow> module_symbols_builder \<Rightarrow> module_symbols_builder \<times> unit vm_result"
where
  "read_from_bytes std utf8_error bytes syms = parse_symbol_file_inner std utf8_error bytes syms"

section \<open>Loading a module\<close>

text \<open>
  \<open>load_elf\<close> is \<open>object::File::parse\<close> and \<open>dwarf::load_types\<close>; \<open>pdb_syms\<close> is \<open>PDB::open\<close> and
  \<open>pdb::load_syms\<close>; \<open>pdb_types\<close> is \<open>pdb::load_types\<close>, whose error is only logged.
\<close>

record loaders =
  load_elf :: "u8 list \<Rightarrow> module_symbols_builder \<Rightarrow> module_symbols_builder \<times> (unit, dyn_error) result"
  pdb_syms :: "u8 list \<Rightarrow> module_symbols_builder \<Rightarrow> module_symbols_builder \<times> (unit, dyn_error) result"
  pdb_types :: "u8 list \<Rightarrow> module_symbols_builder \<Rightarrow> module_symbols_builder \<times> (unit, dyn_error) result"
  utf8_err :: "u8 list \<Rightarrow> dyn_error"

definition starts_with :: "u8 list \<Rightarrow> string \<Rightarrow> bool" where
  "starts_with content pat \<longleftrightarrow> map byte_char (take (length pat) content) = pat"

definition read_bytes ::
  "bool \<Rightarrow> loaders \<Rightarrow> u8 list \<Rightarrow> module_symbols_builder \<Rightarrow> module_symbols_builder \<times> unit vm_result"
where
  "read_bytes std ld content self =
     (if starts_with content (CHR 0x7f # ''ELF'') then
        (let (self, r) = load_elf ld content self in (self, map_err vm_new r))
      else if std \<and> starts_with content ''Microsoft C/C++'' then
        (case pdb_syms ld content self of
           (self, Ok u) \<Rightarrow>
             (case pdb_types ld content self of
                (self, Panic) \<Rightarrow> (self, Panic)
              | (self, r) \<Rightarrow> (self, Ok ()))
         | (self, r) \<Rightarrow> (self, map_err vm_new r))
      else read_from_bytes std (utf8_err ld) content self)"

definition read_file_inner ::
  "loaders \<Rightarrow> ('p \<Rightarrow> (u8 list, io_error) result) \<Rightarrow> 'p \<Rightarrow> module_symbols_builder \<Rightarrow>
   module_symbols_builder \<times> unit vm_result"
where
  "read_file_inner ld fs_read path self =
     (case map_err vm_of_io (fs_read path) of
        Ok content \<Rightarrow> read_bytes True ld content self
      | Err e \<Rightarrow> (self, Err e)
      | Panic \<Rightarrow> (self, Panic))"

type_synonym sorts = "u64 sorter \<times> string sorter"

definition from_file :: "sorts \<Rightarrow> loaders \<Rightarrow> ('p \<Rightarrow> (u8 list, io_error) result) \<Rightarrow> 'p \<Rightarrow> module_symbols vm_result" where
  "from_file srt ld fs_read path =
     (let (module, r) = read_file_inner ld fs_read path builder_new
      in and_then r (\<lambda>u. Ok (build (fst srt) (snd srt) module)))"

definition from_bytes :: "sorts \<Rightarrow> bool \<Rightarrow> loaders \<Rightarrow> u8 list \<Rightarrow> module_symbols vm_result" where
  "from_bytes srt std ld content =
     (let (module, r) = read_bytes std ld content builder_new
      in and_then r (\<lambda>u. Ok (build (fst srt) (snd srt) module)))"

section \<open>The index of modules\<close>

text \<open>
  A module that was loaded may have no symbols: the map holds options. The operations of \<open>OnceMap\<close>:
  \<open>map_get\<close>, and \<open>try_insert\<close> with the function that makes the value of an absent key.
\<close>

type_synonym 'm map_get = "'m \<Rightarrow> string \<Rightarrow> module_symbols option option"
type_synonym 'm try_insert =
  "'m \<Rightarrow> string \<Rightarrow> (string \<Rightarrow> module_symbols option vm_result) \<Rightarrow> 'm \<times> module_symbols option vm_result"

definition get_module :: "'m map_get \<Rightarrow> 'm \<Rightarrow> string \<Rightarrow> module_symbols option" where
  "get_module map_get self name = (case map_get self name of None \<Rightarrow> None | Some m \<Rightarrow> m)"

definition require_module :: "'m map_get \<Rightarrow> 'm \<Rightarrow> string \<Rightarrow> module_symbols vm_result" where
  "require_module map_get self name = ok_or (missing_module name) (get_module map_get self name)"

definition get_addr :: "'m map_get \<Rightarrow> 'm \<Rightarrow> string \<Rightarrow> string \<Rightarrow> virtual_address vm_result" where
  "get_addr map_get self lib name =
     and_then (require_module map_get self lib) (\<lambda>m. require_address m name)"

definition load_module ::
  "'m try_insert \<Rightarrow> 'm \<Rightarrow> string \<Rightarrow> (string \<Rightarrow> module_symbols option vm_result) \<Rightarrow>
   'm \<times> module_symbols option vm_result"
where
  "load_module try_insert self name f =
     try_insert self name (\<lambda>name.
       context_res DynVm (''failed to load symbols for module '' @ [CHR 0x22] @ name @ [CHR 0x22]) (f name))"

definition load_from_bytes ::
  "'m try_insert \<Rightarrow> sorts \<Rightarrow> bool \<Rightarrow> loaders \<Rightarrow> 'm \<Rightarrow> string \<Rightarrow> u8 list \<Rightarrow> 'm \<times> module_symbols option vm_result"
where
  "load_from_bytes try_insert srt std ld self name content =
     load_module try_insert self name (\<lambda>_. map_ok Some (from_bytes srt std ld content))"

text \<open>A path is given by the bytes of its last component, if it has one, and its content.\<close>

record file_path =
  file_name :: "u8 list option"
  file_content :: "(u8 list, io_error) result"

definition load_from_file_inner ::
  "'m try_insert \<Rightarrow> sorts \<Rightarrow> loaders \<Rightarrow> 'm \<Rightarrow> file_path \<Rightarrow> 'm \<times> module_symbols option vm_result"
where
  "load_from_file_inner try_insert srt ld self path =
     (case and_then (context_opt ''no file name'' (file_name path)) (\<lambda>name.
             context_opt ''non UTF-8 file name'' (if utf8_valid name then Some (map byte_char name) else None)) of
        Ok name \<Rightarrow> load_module try_insert self name (\<lambda>_. map_ok Some (from_file srt ld file_content path))
      | Err e \<Rightarrow> (self, Err e)
      | Panic \<Rightarrow> (self, Panic))"

text \<open>Errors of the entries are logged, and the loop goes on.\<close>

fun load_dir_loop ::
  "'m try_insert \<Rightarrow> sorts \<Rightarrow> loaders \<Rightarrow> (file_path, io_error) result list \<Rightarrow> 'm \<Rightarrow> 'm \<times> unit vm_result"
where
  "load_dir_loop try_insert srt ld [] self = (self, Ok ())"
| "load_dir_loop try_insert srt ld (entry # entries) self =
     (case entry of
        Ok path \<Rightarrow>
          (case load_from_file_inner try_insert srt ld self path of
             (self, Panic) \<Rightarrow> (self, Panic)
           | (self, r) \<Rightarrow> load_dir_loop try_insert srt ld entries self)
      | Err e \<Rightarrow> load_dir_loop try_insert srt ld entries self
      | Panic \<Rightarrow> (self, Panic))"

definition load_dir_inner ::
  "'m try_insert \<Rightarrow> sorts \<Rightarrow> loaders \<Rightarrow> ((file_path, io_error) result list, io_error) result \<Rightarrow> 'm \<Rightarrow>
   'm \<times> unit vm_result"
where
  "load_dir_inner try_insert srt ld read_dir self =
     (case map_err vm_of_io read_dir of
        Ok entries \<Rightarrow> load_dir_loop try_insert srt ld entries self
      | Err e \<Rightarrow> (self, Err e)
      | Panic \<Rightarrow> (self, Panic))"

end
