(* ===== verification/Vm_Trace.thy ===== *)
theory Vm_Trace
  imports Vm_Error
begin

text \<open>
  Code that may not return, and enumerations with a callback.

  An \<open>outcome\<close> is the result of a call, or \<open>None\<close> when the call does not return. The methods \<open>for_each_*\<close> of
  the library take a callback \<open>FnMut(T) -> VmResult<ControlFlow<()>>\<close>: what they would pass to it, if it never
  broke the loop, is a \<open>trace\<close>, finite or not, and \<open>for_each\<close> runs the callback on a trace. The guest is not
  modified meanwhile, so the items do not depend on the callback. \<open>Later\<close> is a step without an item.

  The inductive predicate \<open>trace_run\<close> is the meaning of a trace that ends.
\<close>

section \<open>Outcomes\<close>

type_synonym 'a outcome = "'a vm_result option"

definition out_then :: "'a outcome \<Rightarrow> ('a \<Rightarrow> 'b outcome) \<Rightarrow> 'b outcome" where
  "out_then m f =
     Option.bind m (\<lambda>r. case r of Ok x \<Rightarrow> f x | Err e \<Rightarrow> Some (Err e) | Panic \<Rightarrow> Some Panic)"

lemma out_then_simps [simp]:
  "out_then None f = None" "out_then (Some (Ok x)) f = f x"
  "out_then (Some (Err e)) f = Some (Err e)" "out_then (Some Panic) f = Some Panic"
  by (simp_all add: out_then_def)

lemma out_then_mono [partial_function_mono]:
  assumes "mono_option (\<lambda>f. g f)" "\<And>x. mono_option (\<lambda>f. h x f)"
  shows "mono_option (\<lambda>f. out_then (g f) (\<lambda>x. h x f))"
proof -
  have "mono_option (\<lambda>f. case r of Ok x \<Rightarrow> h x f | Err e \<Rightarrow> Some (Err e) | Panic \<Rightarrow> Some Panic)" for r
    using assms(2) by (cases r) (simp_all add: monotone_def option.leq_refl)
  then show ?thesis
    unfolding out_then_def by (intro bind_mono assms(1))
qed

lemma out_then_Ok_iff:
  "out_then m f = Some (Ok y) \<longleftrightarrow> (\<exists>x. m = Some (Ok x) \<and> f x = Some (Ok y))"
  by (cases m rule: option.exhaust [case_product result.exhaust]) (auto simp: out_then_def split: bind_splits result.splits)

definition out_map :: "('a \<Rightarrow> 'b) \<Rightarrow> 'a outcome \<Rightarrow> 'b outcome" where
  "out_map f m = map_option (map_ok f) m"

lemma out_map_simps [simp]:
  "out_map f None = None" "out_map f (Some r) = Some (map_ok f r)"
  by (simp_all add: out_map_def)

section \<open>Calls that change a state\<close>

text \<open>A call that returns the new state with its result, or does not return.\<close>

type_synonym ('s, 'a, 'e) stateful = "('s \<times> ('a, 'e) result) option"

definition st_then :: "('s, 'a, 'e) stateful \<Rightarrow> ('s \<Rightarrow> 'a \<Rightarrow> ('s, 'b, 'e) stateful) \<Rightarrow> ('s, 'b, 'e) stateful" where
  "st_then m f =
     Option.bind m (\<lambda>(s, r).
       case r of Ok x \<Rightarrow> f s x | Err e \<Rightarrow> Some (s, Err e) | Panic \<Rightarrow> Some (s, Panic))"

lemma st_then_simps [simp]:
  "st_then None f = None" "st_then (Some (s, Ok x)) f = f s x"
  "st_then (Some (s, Err e)) f = Some (s, Err e)" "st_then (Some (s, Panic)) f = Some (s, Panic)"
  by (simp_all add: st_then_def)

lemma st_then_mono [partial_function_mono]:
  assumes "mono_option (\<lambda>f. g f)" "\<And>s x. mono_option (\<lambda>f. h s x f)"
  shows "mono_option (\<lambda>f. st_then (g f) (\<lambda>s x. h s x f))"
proof -
  have "mono_option (\<lambda>f. case r of Ok x \<Rightarrow> h s x f | Err e \<Rightarrow> Some (s, Err e) | Panic \<Rightarrow> Some (s, Panic))" for s r
    using assms(2) by (cases r) (simp_all add: monotone_def option.leq_refl)
  then show ?thesis
    unfolding st_then_def by (intro bind_mono assms(1)) (simp add: split_beta)
qed

section \<open>Traces\<close>

codatatype 't trace = Stop "unit vm_result" | Yield 't "'t trace" | Later "'t trace"

primcorec spin :: "'t trace" where
  "spin = Later spin"

definition trace_then :: "'a outcome \<Rightarrow> ('a \<Rightarrow> 't trace) \<Rightarrow> 't trace" where
  "trace_then m f =
     (case m of
        None \<Rightarrow> spin
      | Some (Ok x) \<Rightarrow> f x
      | Some (Err e) \<Rightarrow> Stop (Err e)
      | Some Panic \<Rightarrow> Stop Panic)"

lemma trace_then_simps [simp]:
  "trace_then None f = spin" "trace_then (Some (Ok x)) f = f x"
  "trace_then (Some (Err e)) f = Stop (Err e)" "trace_then (Some Panic) f = Stop Panic"
  by (simp_all add: trace_then_def)

datatype control_flow = Continue | Break

text \<open>The callback has a state; it may itself not return.\<close>

type_synonym ('t, 's) callback = "'t \<Rightarrow> 's \<Rightarrow> ('s \<times> control_flow vm_result) option"

partial_function (option) for_each :: "('t, 's) callback \<Rightarrow> 't trace \<Rightarrow> 's \<Rightarrow> ('s \<times> unit vm_result) option" where
  "for_each f t s =
     (case t of
        Stop r \<Rightarrow> Some (s, r)
      | Later t \<Rightarrow> for_each f t s
      | Yield x t \<Rightarrow>
          Option.bind (f x s) (\<lambda>(s, r).
            case r of
              Ok Continue \<Rightarrow> for_each f t s
            | Ok Break \<Rightarrow> Some (s, Ok ())
            | Err e \<Rightarrow> Some (s, Err e)
            | Panic \<Rightarrow> Some (s, Panic)))"

lemma for_each_simps [simp]:
  "for_each f (Stop r) s = Some (s, r)"
  "for_each f (Later t) s = for_each f t s"
  "for_each f (Yield x t) s =
     Option.bind (f x s) (\<lambda>(s, r).
       case r of
         Ok Continue \<Rightarrow> for_each f t s
       | Ok Break \<Rightarrow> Some (s, Ok ())
       | Err e \<Rightarrow> Some (s, Err e)
       | Panic \<Rightarrow> Some (s, Panic))"
  by (subst for_each.simps, simp)+

text \<open>
  A callback that passes some items on, and a loop that follows a chain of pointers up to one that ends it.
\<close>

datatype 'a answer = Hangs | Got (got: 'a) | Ends (ends: "unit vm_result")

fun answer_of :: "'a outcome \<Rightarrow> 'a answer" where
  "answer_of None = Hangs"
| "answer_of (Some (Ok x)) = Got x"
| "answer_of (Some (Err e)) = Ends (Err e)"
| "answer_of (Some Panic) = Ends Panic"

primcorec filter_trace :: "('t \<Rightarrow> bool outcome) \<Rightarrow> 't trace \<Rightarrow> 't trace" where
  "filter_trace pr t =
     (case t of
        Stop r \<Rightarrow> Stop r
      | Later t \<Rightarrow> Later (filter_trace pr t)
      | Yield x t \<Rightarrow>
          (case answer_of (pr x) of
             Hangs \<Rightarrow> Later spin
           | Ends r \<Rightarrow> Stop r
           | Got b \<Rightarrow> if b then Yield x (filter_trace pr t) else Later (filter_trace pr t)))"

primcorec chain_trace :: "('a \<Rightarrow> bool) \<Rightarrow> ('a \<Rightarrow> 'a outcome) \<Rightarrow> 'a outcome \<Rightarrow> 'a trace" where
  "chain_trace stop nx st =
     (case answer_of st of
        Hangs \<Rightarrow> Later spin
      | Ends r \<Rightarrow> Stop r
      | Got cur \<Rightarrow> if stop cur then Stop (Ok ()) else Yield cur (chain_trace stop nx (nx cur)))"

lemma filter_trace_simps [simp]:
  "filter_trace pr (Stop r) = Stop r"
  "filter_trace pr (Later t) = Later (filter_trace pr t)"
  by (subst filter_trace.code, simp)+

lemma filter_trace_Yield:
  "pr x = Some (Ok b) \<Longrightarrow>
   filter_trace pr (Yield x t) = (if b then Yield x (filter_trace pr t) else Later (filter_trace pr t))"
  "pr x = Some (Err e) \<Longrightarrow> filter_trace pr (Yield x t) = Stop (Err e)"
  by (subst filter_trace.code, simp)+

lemma chain_trace_simps:
  "stop cur \<Longrightarrow> chain_trace stop nx (Some (Ok cur)) = Stop (Ok ())"
  "\<not> stop cur \<Longrightarrow> chain_trace stop nx (Some (Ok cur)) = Yield cur (chain_trace stop nx (nx cur))"
  "chain_trace stop nx (Some (Err e)) = Stop (Err e)"
  "chain_trace stop nx (Some Panic) = Stop Panic"
  "chain_trace stop nx None = spin"
proof -
  show "chain_trace stop nx None = spin"
    by (subst chain_trace.code) (simp add: spin.code [symmetric])
qed (subst chain_trace.code, simp)+

section \<open>Traces that end\<close>

inductive trace_run :: "'t trace \<Rightarrow> 't list \<Rightarrow> unit vm_result \<Rightarrow> bool" where
  Stop: "trace_run (Stop r) [] r"
| Later: "trace_run t xs r \<Longrightarrow> trace_run (Later t) xs r"
| Yield: "trace_run t xs r \<Longrightarrow> trace_run (Yield x t) (x # xs) r"

inductive_simps trace_run_simps [simp]:
  "trace_run (Stop r') xs r"
  "trace_run (Later t) xs r"
  "trace_run (Yield x t) xs r"

lemma trace_run_unique: "trace_run t xs r \<Longrightarrow> trace_run t xs' r' \<Longrightarrow> xs' = xs \<and> r' = r"
proof (induction arbitrary: xs' r' rule: trace_run.induct)
  case (Stop r)
  then show ?case by simp
next
  case (Later t xs r)
  from Later.prems have "trace_run t xs' r'" by simp
  then show ?case by (rule Later.IH)
next
  case (Yield t xs r x)
  from Yield.prems obtain ys where "xs' = x # ys" "trace_run t ys r'" by auto
  with Yield.IH [of ys r'] show ?case by simp
qed

lemma spin_eq: "Stop r \<noteq> spin" "Yield x t \<noteq> spin" "Later t = spin \<longleftrightarrow> t = spin"
  using arg_cong [OF spin.code, of "\<lambda>z. Stop r = z"] arg_cong [OF spin.code, of "\<lambda>z. Yield x t = z"]
    arg_cong [OF spin.code, of "\<lambda>z. Later t = z"]
  by (simp_all only: trace.distinct trace.inject simp_thms)

lemma spin_never_ends: "\<not> trace_run spin xs r"
proof -
  have "trace_run t xs r \<Longrightarrow> t \<noteq> spin" for t :: "'a trace"
    by (induction rule: trace_run.induct) (simp_all add: spin_eq)
  then show ?thesis by blast
qed

text \<open>Running a callback that never breaks, and the callbacks of \<open>push_to\<close> and \<open>find\<close>.\<close>

definition push_to :: "('t, 't list) callback" where
  "push_to item vec = Some (vec @ [item], Ok Continue)"

definition find_cb :: "('t \<Rightarrow> bool outcome) \<Rightarrow> ('t, 't option) callback" where
  "find_cb predicate item result =
     map_option (\<lambda>r.
       case r of
         Ok b \<Rightarrow> if b then (Some item, Ok Break) else (result, Ok Continue)
       | Err e \<Rightarrow> (result, Err e)
       | Panic \<Rightarrow> (result, Panic)) (predicate item)"

lemma for_each_push: "trace_run t xs r \<Longrightarrow> for_each push_to t v = Some (v @ xs, r)"
  by (induction arbitrary: v rule: trace_run.induct) (simp_all add: push_to_def)

lemma for_each_push_returns:
  assumes "for_each push_to t v = Some (v', r)"
  shows "\<exists>xs. v' = v @ xs \<and> trace_run t xs r"
proof -
  have "f = push_to \<longrightarrow> (\<exists>xs. fst y = v @ xs \<and> trace_run t xs (snd y))" if "for_each f t v = Some y"
    for f :: "('t, 't list) callback" and t v y
  proof (rule for_each.raw_induct [OF _ that], intro impI)
    fix fe f t v y
    assume IH: "\<And>f t v y. fe f t v = Some y \<Longrightarrow>
        f = push_to \<longrightarrow> (\<exists>xs. fst y = v @ xs \<and> trace_run t xs (snd y))"
      and body: "(case t of Stop r \<Rightarrow> Some (v, r) | Later t \<Rightarrow> fe f t v
        | Yield x t \<Rightarrow> Option.bind (f x v) (\<lambda>(s, r). case r of
            Ok Continue \<Rightarrow> fe f t s | Ok Break \<Rightarrow> Some (s, Ok ()) | Err e \<Rightarrow> Some (s, Err e) | Panic \<Rightarrow> Some (s, Panic))) = Some y"
      and f: "f = (push_to :: ('t, 't list) callback)"
    show "\<exists>xs. fst y = v @ xs \<and> trace_run t xs (snd y)"
    proof (cases t)
      case (Stop r)
      then show ?thesis using body by auto
    next
      case (Later t')
      then show ?thesis using IH [of f t' v y] body f by simp
    next
      case (Yield x t')
      then show ?thesis using IH [of f t' "v @ [x]" y] body f by (auto simp: push_to_def)
    qed
  qed
  from this [OF assms] show ?thesis by simp
qed

text \<open>The first item that satisfies a predicate that returns.\<close>

lemma for_each_find:
  assumes "trace_run t xs r" "\<forall>x \<in> set xs. pr x = Some (Ok (P x))"
  shows "for_each (find_cb pr) t None =
    (case List.find P xs of Some x \<Rightarrow> Some (Some x, Ok ()) | None \<Rightarrow> Some (None, r))"
  using assms by (induction rule: trace_run.induct) (auto simp: find_cb_def)

lemma filter_trace_run:
  assumes "trace_run t xs r" "\<forall>x \<in> set xs. pr x = Some (Ok (P x))"
  shows "trace_run (filter_trace pr t) (filter P xs) r"
  using assms by (induction rule: trace_run.induct) (simp_all add: filter_trace_Yield)

section \<open>Chains of pointers\<close>

text \<open>The values met from a starting outcome to the one that stops the loop.\<close>

inductive ptr_chain :: "('a \<Rightarrow> bool) \<Rightarrow> ('a \<Rightarrow> 'a outcome) \<Rightarrow> 'a outcome \<Rightarrow> 'a list \<Rightarrow> unit vm_result \<Rightarrow> bool"
  for stop nx where
  chain_stop: "stop cur \<Longrightarrow> ptr_chain stop nx (Some (Ok cur)) [] (Ok ())"
| chain_err: "ptr_chain stop nx (Some (Err e)) [] (Err e)"
| chain_panic: "ptr_chain stop nx (Some Panic) [] Panic"
| chain_step: "\<not> stop cur \<Longrightarrow> ptr_chain stop nx (nx cur) xs r \<Longrightarrow> ptr_chain stop nx (Some (Ok cur)) (cur # xs) r"

lemma chain_trace_run: "ptr_chain stop nx st xs r \<Longrightarrow> trace_run (chain_trace stop nx st) xs r"
  by (induction rule: ptr_chain.induct) (simp_all add: chain_trace_simps)

lemma chain_of_trace_run:
  assumes "trace_run (chain_trace stop nx st) xs r"
  shows "ptr_chain stop nx st xs r"
proof -
  have "ptr_chain stop nx st xs r" if "trace_run t xs r" "t = chain_trace stop nx st" for t
    using that
  proof (induction arbitrary: st rule: trace_run.induct)
    case (Stop r)
    show ?case
    proof (cases st)
      case None
      then show ?thesis using Stop by (simp add: chain_trace_simps spin_eq)
    next
      case (Some o')
      then show ?thesis
      proof (cases o')
        case (Ok cur)
        then show ?thesis using Stop Some
          by (cases "stop cur") (simp_all add: chain_trace_simps ptr_chain.intros)
      qed (use Stop Some in \<open>simp_all add: chain_trace_simps ptr_chain.intros\<close>)
    qed
  next
    case (Later t xs r)
    show ?case
    proof (cases st)
      case None
      then have "t = spin" using Later.prems by (simp add: chain_trace_simps spin_eq)
      then show ?thesis using Later.hyps spin_never_ends by blast
    next
      case (Some o')
      then show ?thesis
      proof (cases o')
        case (Ok cur)
        then show ?thesis using Later.prems Some by (cases "stop cur") (simp_all add: chain_trace_simps)
      qed (use Later.prems Some in \<open>simp_all add: chain_trace_simps\<close>)
    qed
  next
    case (Yield t xs r x)
    show ?case
    proof (cases st)
      case None
      then show ?thesis using Yield.prems by (simp add: chain_trace_simps spin_eq)
    next
      case (Some o')
      then show ?thesis
      proof (cases o')
        case (Ok cur)
        then have "\<not> stop cur" "x = cur" "t = chain_trace stop nx (nx cur)"
          using Yield.prems Some by (cases "stop cur"; simp add: chain_trace_simps)+
        then show ?thesis using Yield.IH [of "nx cur"] Some Ok by (simp add: chain_step)
      qed (use Yield.prems Some in \<open>simp_all add: chain_trace_simps\<close>)
    qed
  qed
  then show ?thesis using assms by blast
qed

text \<open>A chain that never meets its end: its loop does not return.\<close>

lemma chain_closed_never_ends:
  assumes "Q cur" "\<And>x. Q x \<Longrightarrow> \<not> stop x \<and> (\<exists>y. nx x = Some (Ok y) \<and> Q y)"
  shows "\<not> trace_run (chain_trace stop nx (Some (Ok cur))) xs r"
proof
  assume "trace_run (chain_trace stop nx (Some (Ok cur))) xs r"
  then have c: "ptr_chain stop nx (Some (Ok cur)) xs r" by (rule chain_of_trace_run)
  have "\<not> Q x" if "ptr_chain stop nx st ys r" "st = Some (Ok x)" for st ys x
    using that
  proof (induction arbitrary: x rule: ptr_chain.induct)
    case (chain_stop cur)
    then show ?case using assms(2) by blast
  next
    case (chain_step cur xs r)
    then show ?case using assms(2) by (metis option.inject result.inject(1))
  qed simp_all
  then show False using c assms(1) by blast
qed

end
