(* ===== verification/Vm_Types.thy ===== *)
theory Vm_Types
  imports Vm_Symbols Vm_Trace
begin

text \<open>
  What the two loaders of debug information share: the constructors of common types
  (\<^verbatim>\<open>vminer-core/src/symbols/mod.rs\<close>), calls that change a table of cells behind a shared reference, and loops
  over them. Such a call returns the table and its result, or \<open>None\<close> when it does not return: the tables
  come from a file, and may be cyclic.

  The locale \<open>type_resolver\<close> is the contract of a table of types whose cells cache what was resolved: whatever
  was cached before, the answer is the type that the records describe. The loaders collect the fields of
  structures under this contract; \<^theory_text>\<open>Vm_Pdb\<close> and \<^theory_text>\<open>Vm_Dwarf\<close> interpret it.
\<close>

section \<open>Common types\<close>

definition tk_unknown :: type_kind where [simp]: "tk_unknown = Unknown"
definition tk_void :: type_kind where [simp]: "tk_void = Primitive Void"
definition tk_void_ptr :: type_kind where [simp]: "tk_void_ptr = Pointer tk_void"
definition tk_i8 :: type_kind where [simp]: "tk_i8 = Primitive I8"
definition tk_i8_ptr :: type_kind where [simp]: "tk_i8_ptr = Pointer tk_i8"
definition tk_u8 :: type_kind where [simp]: "tk_u8 = Primitive U8"
definition tk_u8_ptr :: type_kind where [simp]: "tk_u8_ptr = Pointer tk_u8"
definition tk_i16 :: type_kind where [simp]: "tk_i16 = Primitive I16"
definition tk_i16_ptr :: type_kind where [simp]: "tk_i16_ptr = Pointer tk_i16"
definition tk_u16 :: type_kind where [simp]: "tk_u16 = Primitive U16"
definition tk_u16_ptr :: type_kind where [simp]: "tk_u16_ptr = Pointer tk_u16"
definition tk_i32 :: type_kind where [simp]: "tk_i32 = Primitive I32"
definition tk_i32_ptr :: type_kind where [simp]: "tk_i32_ptr = Pointer tk_i32"
definition tk_u32 :: type_kind where [simp]: "tk_u32 = Primitive U32"
definition tk_u32_ptr :: type_kind where [simp]: "tk_u32_ptr = Pointer tk_u32"
definition tk_i64 :: type_kind where [simp]: "tk_i64 = Primitive I64"
definition tk_i64_ptr :: type_kind where [simp]: "tk_i64_ptr = Pointer tk_i64"
definition tk_u64 :: type_kind where [simp]: "tk_u64 = Primitive U64"
definition tk_u64_ptr :: type_kind where [simp]: "tk_u64_ptr = Pointer tk_u64"

text \<open>\<open>unwrap_or_else(TypeKind::unknown)\<close>.\<close>

definition or_unknown :: "type_kind option \<Rightarrow> type_kind" where
  "or_unknown t = (case t of Some t \<Rightarrow> t | None \<Rightarrow> tk_unknown)"

text \<open>\<open>str::from_utf8\<close> without its error.\<close>

definition from_utf8 :: "u8 list \<Rightarrow> string option" where
  "from_utf8 bs = (if utf8_valid bs then Some (map byte_char bs) else None)"

section \<open>Loops over a table\<close>

text \<open>A loop whose body may fail.\<close>

fun for_st :: "('s \<Rightarrow> 'a \<Rightarrow> ('s, unit, 'e) stateful) \<Rightarrow> 's \<Rightarrow> 'a list \<Rightarrow> ('s, unit, 'e) stateful" where
  "for_st f s [] = Some (s, Ok ())"
| "for_st f s (x # xs) = st_then (f s x) (\<lambda>s u. for_st f s xs)"

text \<open>A loop whose body keeps an invariant of the table and adds some items to a list, or to a builder.\<close>

lemma for_st_collect:
  assumes "\<And>s acc x. x \<in> set xs \<Longrightarrow> ok s \<Longrightarrow> \<exists>s'. f (s, acc) x = Some ((s', acc @ g x), Ok ()) \<and> ok s'"
    and "ok s"
  shows "\<exists>s'. for_st f (s, acc) xs = Some ((s', acc @ concat (map g xs)), Ok ()) \<and> ok s'"
  using assms
proof (induction xs arbitrary: s acc)
  case Nil
  then show ?case by simp
next
  case (Cons x xs)
  from Cons.prems(1) [of x s acc] Cons.prems(2)
  obtain s' where s': "f (s, acc) x = Some ((s', acc @ g x), Ok ())" "ok s'" by auto
  from Cons.IH [of s' "acc @ g x"] Cons.prems(1) s' show ?case by simp
qed

lemma extend_structs_append: "extend_structs (extend_structs b ss) ss' = extend_structs b (ss @ ss')"
  by (induction ss arbitrary: b) simp_all

lemma for_st_extend:
  assumes "\<And>s b x. x \<in> set xs \<Longrightarrow> ok s \<Longrightarrow> \<exists>s'. f (s, b) x = Some ((s', extend_structs b (g x)), Ok ()) \<and> ok s'"
    and "ok s"
  shows "\<exists>s'. for_st f (s, b) xs = Some ((s', extend_structs b (concat (map g xs))), Ok ()) \<and> ok s'"
  using assms
proof (induction xs arbitrary: s b)
  case Nil
  then show ?case by simp
next
  case (Cons x xs)
  from Cons.prems(1) [of x s b] Cons.prems(2)
  obtain s' where s': "f (s, b) x = Some ((s', extend_structs b (g x)), Ok ())" "ok s'" by auto
  from Cons.IH [of s' "extend_structs b (g x)"] Cons.prems(1) s' show ?case
    by (simp add: extend_structs_append)
qed

section \<open>The contract of a table of types\<close>

locale type_resolver =
  fixes get_type :: "'s \<Rightarrow> 'k \<Rightarrow> ('s, type_kind option, 'e) stateful"
    and has_type :: "'k \<Rightarrow> type_kind option \<Rightarrow> bool"
    and ok :: "'s \<Rightarrow> bool"
  assumes resolved: "ok s \<Longrightarrow> has_type k t \<Longrightarrow> \<exists>s'. get_type s k = Some (s', Ok t) \<and> ok s'"
begin

text \<open>A key has one type.\<close>

lemma has_type_unique: "ok s \<Longrightarrow> has_type k t \<Longrightarrow> has_type k t' \<Longrightarrow> t' = t"
  using resolved [of s k t] resolved [of s k t'] by auto

text \<open>What a caller makes of the result.\<close>

lemma resolved_then:
  assumes "ok s" "has_type k t"
  obtains s' where "get_type s k = Some (s', Ok t)" "ok s'"
  using resolved [OF assms] by blast

text \<open>Resolving another key in between does not change an answer.\<close>

lemma resolved_again:
  assumes "ok s" "has_type k t" "has_type k' t'"
  shows "\<exists>s'. st_then (get_type s k) (\<lambda>s u. st_then (get_type s k') (\<lambda>s u'. map_option (\<lambda>(s, r). (s, map_ok (Pair u) r)) (get_type s k))) =
      Some (s', Ok (t, t)) \<and> ok s'"
proof -
  from assms(1,2) obtain s1 where s1: "get_type s k = Some (s1, Ok t)" "ok s1" by (rule resolved_then)
  from s1(2) assms(3) obtain s2 where s2: "get_type s1 k' = Some (s2, Ok t')" "ok s2" by (rule resolved_then)
  from s2(2) assms(2) obtain s3 where "get_type s2 k = Some (s3, Ok t)" "ok s3" by (rule resolved_then)
  with s1 s2 show ?thesis by simp
qed

end

end
