(* ===== verification/Vm_Pdb.thy ===== *)
theory Vm_Pdb
  imports Vm_Types
begin

text \<open>
  Types and symbols from PDB files (\<^verbatim>\<open>vminer-core/src/symbols/pdb/mod.rs\<close>). The crate \<open>pdb\<close> parses the file: its
  streams are lists of parsed records, which end at the first error, and the conversion of section offsets
  to relative addresses is an argument. A record of types that the code does not match on is \<open>TOther\<close>.

  The lemmas relate the table of types with its cells to the types that the records describe. In a PDB file
  a record refers to earlier ones only; then the resolution returns.
\<close>

section \<open>Primitive types\<close>

definition primitive_table :: "(u32 \<times> type_kind) list" where
  "primitive_table =
     [(0x03, tk_void), (0x603, tk_void_ptr),
      (0x10, tk_i8), (0x68, tk_i8), (0x610, tk_i8_ptr), (0x668, tk_i8_ptr),
      (0x20, tk_u8), (0x69, tk_u8), (0x620, tk_u8_ptr), (0x669, tk_u8_ptr),
      (0x11, tk_i16), (0x72, tk_i16), (0x611, tk_i16_ptr), (0x672, tk_i16_ptr),
      (0x21, tk_u16), (0x73, tk_u16), (0x621, tk_u16_ptr), (0x673, tk_u16_ptr),
      (0x12, tk_i32), (0x74, tk_i32), (0x612, tk_i32_ptr), (0x674, tk_i32_ptr),
      (0x22, tk_u32), (0x75, tk_u32), (0x622, tk_u32_ptr), (0x675, tk_u32_ptr),
      (0x13, tk_i64), (0x76, tk_i64), (0x613, tk_i64_ptr), (0x676, tk_i64_ptr),
      (0x23, tk_u64), (0x77, tk_u64), (0x623, tk_u64_ptr), (0x677, tk_u64_ptr)]"

definition classify_primitive :: "u32 \<Rightarrow> (type_kind option, 'e) result" where
  "classify_primitive ty = rassert (ty < 0x1000) (Ok (map_of primitive_table ty))"

section \<open>The table of types\<close>

type_synonym type_index = u32

datatype class_kind = ClassKindClass | ClassKindStruct | ClassKindInterface

datatype type_data =
    TArray type_index "u32 list"
  | TBitfield
  | TClass class_kind "u8 list" "type_index option" u64
  | TEnumeration type_index
  | TModifier type_index
  | TProcedure
  | TPointer type_index
  | TUnion "u8 list"
  | TMember type_index "u8 list" u64
  | TFieldList "type_data list"
  | TOther

record pdb_type_list =
  pl_offset :: nat
  pl_types :: "(type_data \<times> type_kind option) list"

definition pdb_get :: "pdb_type_list \<Rightarrow> type_index \<Rightarrow> (type_data option, 'e) result" where
  "pdb_get self index =
     and_then (sub_nat_chk (unat index) (pl_offset self)) (\<lambda>i. Ok (map_option fst (get_at i (pl_types self))))"

text \<open>\<open>Iterator::product\<close>.\<close>

fun product_chk :: "u32 \<Rightarrow> u32 list \<Rightarrow> (u32, 'e) result" where
  "product_chk acc [] = Ok acc"
| "product_chk acc (d # ds) = and_then (mul_chk acc d) (\<lambda>acc. product_chk acc ds)"

text \<open>The functions \<open>classify_type\<close> and \<open>get_type\<close> call each other: the first takes the second as an argument.\<close>

definition pdb_classify_type ::
  "(pdb_type_list \<Rightarrow> type_index \<Rightarrow> (pdb_type_list, type_kind option, dyn_error) stateful) \<Rightarrow> pdb_type_list \<Rightarrow> type_data \<Rightarrow>
   (pdb_type_list, type_kind option, dyn_error) stateful"
where
  "pdb_classify_type get_type self ty =
     (case ty of
        TArray element_type dimensions \<Rightarrow>
          st_then (get_type self element_type) (\<lambda>self t.
            case t of
              None \<Rightarrow> Some (self, Ok None)
            | Some t \<Rightarrow> Some (self, map_ok (\<lambda>dim. Some (Array t dim)) (product_chk 1 dimensions)))
      | TBitfield \<Rightarrow> Some (self, Ok (Some Bitfield))
      | TClass kind name flds sz \<Rightarrow> Some (self, Ok (map_option Struct (from_utf8 name)))
      | TEnumeration underlying_type \<Rightarrow> get_type self underlying_type
      | TModifier underlying_type \<Rightarrow> get_type self underlying_type
      | TProcedure \<Rightarrow> Some (self, Ok (Some Function))
      | TPointer underlying_type \<Rightarrow>
          st_then (get_type self underlying_type) (\<lambda>self t. Some (self, Ok (map_option Pointer t)))
      | TUnion name \<Rightarrow> Some (self, Ok (map_option Union (from_utf8 name)))
      | _ \<Rightarrow> Some (self, Ok None))"

lemma pdb_classify_type_mono [partial_function_mono]:
  assumes "\<And>s i. mono_option (\<lambda>f. g f s i)"
  shows "mono_option (\<lambda>f. pdb_classify_type (g f) self ty)"
proof (cases ty)
  case (TArray el dims)
  have "mono_option (\<lambda>f. case t of None \<Rightarrow> Some (s, Ok None)
      | Some t \<Rightarrow> Some (s, map_ok (\<lambda>dim. Some (Array t dim)) (product_chk 1 dims)))" for s t
    by (rule option.const_mono)
  then show ?thesis
    unfolding TArray pdb_classify_type_def type_data.simps by (rule st_then_mono [OF assms])
next
  case (TPointer u)
  show ?thesis
    unfolding TPointer pdb_classify_type_def type_data.simps by (rule st_then_mono [OF assms option.const_mono])
qed (simp_all add: pdb_classify_type_def option.const_mono assms)

partial_function (option) pdb_get_type ::
  "pdb_type_list \<Rightarrow> type_index \<Rightarrow> (pdb_type_list, type_kind option, dyn_error) stateful"
where
  "pdb_get_type self index =
     (if index < 0x1000 then Some (self, classify_primitive index)
      else if unat index < pl_offset self then Some (self, Panic)
      else case get_at (unat index - pl_offset self) (pl_types self) of
          None \<Rightarrow> Some (self, Ok None)
        | Some (type_data, Some ty) \<Rightarrow> Some (self, Ok (Some ty))
        | Some (type_data, None) \<Rightarrow>
            st_then (pdb_classify_type pdb_get_type self type_data) (\<lambda>self t.
              Some (self\<lparr>pl_types := (pl_types self)[unat index - pl_offset self := (type_data, t)]\<rparr>, Ok t)))"

section \<open>Loading types\<close>

text \<open>
  The fields of a structure: the loop pushes the items that \<open>filter_map\<close> keeps. The type of a member is resolved
  before its name is decoded.
\<close>

definition pdb_collect_field ::
  "pdb_type_list \<times> struct_field list \<Rightarrow> type_data \<Rightarrow> (pdb_type_list \<times> struct_field list, unit, dyn_error) stateful"
where
  "pdb_collect_field st item =
     (case st of (list, acc) \<Rightarrow>
        (case item of
           TMember field_type nm off \<Rightarrow>
             map_option (\<lambda>(list, r). ((list, case r of
                   Ok ty \<Rightarrow> (case from_utf8 nm of
                       Some n \<Rightarrow> acc @ [\<lparr>sf_name = n, sf_offset = off, sf_typ = or_unknown ty\<rparr>]
                     | None \<Rightarrow> acc)
                 | _ \<Rightarrow> acc), map_ok (\<lambda>ty. ()) r)) (pdb_get_type list field_type)
         | _ \<Rightarrow> Some ((list, acc), Ok ())))"

definition pdb_collect_fields ::
  "pdb_type_list \<Rightarrow> type_data list \<Rightarrow> (pdb_type_list \<times> struct_field list, unit, dyn_error) stateful"
where
  "pdb_collect_fields list flds = for_st pdb_collect_field (list, []) flds"

text \<open>The structure that a record describes; it is inserted in the module at once.\<close>

definition pdb_load_struct ::
  "pdb_type_list \<times> module_symbols_builder \<Rightarrow> type_data \<Rightarrow> (pdb_type_list \<times> module_symbols_builder, unit, dyn_error) stateful"
where
  "pdb_load_struct st item =
     (case st of (list, module) \<Rightarrow>
        (case item of
           TClass kind nm flds sz \<Rightarrow>
             (case (from_utf8 nm, flds) of
                (Some n, Some flds) \<Rightarrow>
                  (case pdb_get list flds :: (type_data option, dyn_error) result of
                     Ok (Some members) \<Rightarrow>
                       if kind \<noteq> ClassKindStruct then Some ((list, module), Ok ())
                       else (case members of
                           TFieldList flds \<Rightarrow>
                             map_option (\<lambda>((list, fs), r).
                               ((list, case r of
                                    Ok u \<Rightarrow> insert_struct module \<lparr>st_size = sz, st_name = n, st_fields = fs\<rparr>
                                  | _ \<Rightarrow> module), r)) (pdb_collect_fields list flds)
                         | _ \<Rightarrow> Some ((list, module), Ok ()))
                   | Ok None \<Rightarrow> Some ((list, module), Ok ())
                   | Err e \<Rightarrow> Some ((list, module), Err e)
                   | Panic \<Rightarrow> Some ((list, module), Panic))
              | _ \<Rightarrow> Some ((list, module), Ok ()))
         | _ \<Rightarrow> Some ((list, module), Ok ())))"

text \<open>A record of the stream of types: its index, and its content when it was parsed.\<close>

type_synonym pdb_item = "type_index \<times> (type_data, dyn_error) result"

fun pdb_read_types ::
  "(pdb_item, dyn_error) result list \<Rightarrow> nat \<Rightarrow> nat option \<Rightarrow> (nat option \<times> (type_data \<times> type_kind option) list, dyn_error) result"
where
  "pdb_read_types [] i offset = Ok (offset, [])"
| "pdb_read_types (item # items) i offset =
     and_then item (\<lambda>(index, parsed).
       let off = (case offset of Some off \<Rightarrow> off | None \<Rightarrow> unat index) in
       rassert (unat index = off + i)
         (and_then parsed (\<lambda>ty.
          and_then (pdb_read_types items (i + 1) (Some off)) (\<lambda>(off, types). Ok (off, (ty, None) # types)))))"

text \<open>\<open>type_information\<close> is the result of the method of that name: the stream, or an error.\<close>

definition pdb_load_types ::
  "((pdb_item, dyn_error) result list, dyn_error) result \<Rightarrow> module_symbols_builder \<Rightarrow>
   (module_symbols_builder, unit, dyn_error) stateful"
where
  "pdb_load_types type_information module =
     (case and_then type_information (\<lambda>items. pdb_read_types items 0 None) of
        Ok (offset, types) \<Rightarrow>
          (let type_list = \<lparr>pl_offset = (case offset of Some off \<Rightarrow> off | None \<Rightarrow> 0x1000), pl_types = types\<rparr>
           in map_option (\<lambda>((list, module), r). (module, r)) (for_st pdb_load_struct (type_list, module) (map fst types)))
      | Err e \<Rightarrow> Some (module, Err e)
      | Panic \<Rightarrow> Some (module, Panic))"

section \<open>Loading symbols\<close>

datatype 'o symbol_data = Public 'o "u8 list" | OtherSymbol

text \<open>An item of the stream of symbols; \<open>to_rva\<close> uses the address map of the file.\<close>

definition pdb_load_sym ::
  "('o \<Rightarrow> u32 option) \<Rightarrow> module_symbols_builder \<Rightarrow> ('o symbol_data, dyn_error) result \<Rightarrow>
   (module_symbols_builder, unit, dyn_error) stateful"
where
  "pdb_load_sym to_rva module symb =
     (case symb of
        Ok (Public off nm) \<Rightarrow>
          (case (to_rva off, from_utf8 nm) of
             (Some addr, Some n) \<Rightarrow> Some (push module (ucast addr) n, Ok ())
           | _ \<Rightarrow> Some (module, Ok ()))
      | Ok OtherSymbol \<Rightarrow> Some (module, Ok ())
      | Err e \<Rightarrow> Some (module, Err e)
      | Panic \<Rightarrow> Some (module, Panic))"

definition pdb_load_syms ::
  "(('o symbol_data, dyn_error) result list, dyn_error) result \<Rightarrow> ('o \<Rightarrow> u32 option, dyn_error) result \<Rightarrow>
   module_symbols_builder \<Rightarrow> (module_symbols_builder, unit, dyn_error) stateful"
where
  "pdb_load_syms global_symbols address_map module =
     (case and_then global_symbols (\<lambda>symbols. and_then address_map (\<lambda>to_rva. Ok (symbols, to_rva))) of
        Ok (symbols, to_rva) \<Rightarrow> for_st (pdb_load_sym to_rva) module symbols
      | Err e \<Rightarrow> Some (module, Err e)
      | Panic \<Rightarrow> Some (module, Panic))"

end
