(* ===== verification/Vm_Pdb_Laws.thy ===== *)
theory Vm_Pdb_Laws
  imports Vm_Pdb
begin

text \<open>
  The types that the records of a PDB file describe, without cells, and the proof that the table with cells gives
  these types. A well-formed stream has records that refer to earlier ones, and arrays whose size fits.
\<close>

section \<open>The types that the records describe\<close>

fun dims_fit :: "nat \<Rightarrow> u32 list \<Rightarrow> bool" where
  "dims_fit acc [] = True"
| "dims_fit acc (d # ds) \<longleftrightarrow> acc * unat d < 2 ^ 32 \<and> dims_fit (acc * unat d) ds"

definition array_len :: "u32 list \<Rightarrow> u32" where
  "array_len dims = of_nat (prod_list (map unat dims))"

function pdb_type :: "nat \<Rightarrow> type_data list \<Rightarrow> type_index \<Rightarrow> type_kind option" where
  "pdb_type off ts ix =
     (if ix < 0x1000 then map_of primitive_table ix
      else case get_at (unat ix - off) ts of
          Some (TArray el dims) \<Rightarrow> if el < ix then map_option (\<lambda>t. Array t (array_len dims)) (pdb_type off ts el) else None
        | Some (TPointer r) \<Rightarrow> if r < ix then map_option Pointer (pdb_type off ts r) else None
        | Some (TEnumeration r) \<Rightarrow> if r < ix then pdb_type off ts r else None
        | Some (TModifier r) \<Rightarrow> if r < ix then pdb_type off ts r else None
        | Some (TClass kind nm flds sz) \<Rightarrow> map_option Struct (from_utf8 nm)
        | Some (TUnion nm) \<Rightarrow> map_option Union (from_utf8 nm)
        | Some TBitfield \<Rightarrow> Some Bitfield
        | Some TProcedure \<Rightarrow> Some Function
        | _ \<Rightarrow> None)"
  by pat_completeness auto
termination
  by (relation "measure (\<lambda>(off, ts, ix). unat ix)") (simp_all add: word_less_nat_alt)

declare pdb_type.simps [simp del]

fun pdb_refs :: "type_data \<Rightarrow> type_index list" where
  "pdb_refs (TArray el dims) = [el]"
| "pdb_refs (TPointer r) = [r]"
| "pdb_refs (TEnumeration r) = [r]"
| "pdb_refs (TModifier r) = [r]"
| "pdb_refs _ = []"

fun pdb_fits :: "type_data \<Rightarrow> bool" where
  "pdb_fits (TArray el dims) \<longleftrightarrow> dims_fit 1 dims"
| "pdb_fits _ \<longleftrightarrow> True"

definition pdb_known :: "nat \<Rightarrow> type_index \<Rightarrow> bool" where
  "pdb_known off ix \<longleftrightarrow> ix < 0x1000 \<or> off \<le> unat ix"

definition pdb_wf :: "nat \<Rightarrow> type_data list \<Rightarrow> bool" where
  "pdb_wf off ts \<longleftrightarrow>
     (\<forall>i < length ts. pdb_fits (ts ! i) \<and> (\<forall>r \<in> set (pdb_refs (ts ! i)). pdb_known off r \<and> unat r < off + i))"

section \<open>The cells hold the types of the records\<close>

definition pdb_ok :: "nat \<Rightarrow> type_data list \<Rightarrow> pdb_type_list \<Rightarrow> bool" where
  "pdb_ok off ts self \<longleftrightarrow>
     pl_offset self = off \<and> map fst (pl_types self) = ts \<and>
     (\<forall>i < length ts. \<forall>t ix. snd (pl_types self ! i) = Some t \<longrightarrow> unat ix = off + i \<longrightarrow> 0x1000 \<le> ix \<longrightarrow>
        pdb_type off ts ix = Some t)"

lemma product_chk_fit: "dims_fit (unat acc) ds \<Longrightarrow> product_chk acc ds = (Ok (acc * array_len ds) :: (u32, 'e) result)"
proof (induction ds arbitrary: acc)
  case Nil
  then show ?case by (simp add: array_len_def)
next
  case (Cons d ds)
  then have m: "unat acc * unat d < 2 ^ LENGTH(32)" by simp
  have "product_chk (acc * d) ds = (Ok ((acc * d) * array_len ds) :: (u32, 'e) result)"
    by (rule Cons.IH) (use Cons.prems unat_mul_no_overflow [OF m] in simp)
  then show ?case using m by (simp add: mul_chk_def array_len_def mult.assoc)
qed

lemma pdb_ok_update:
  assumes "pdb_ok off ts s" "get_at (unat ix - off) ts = Some d" "off \<le> unat ix" "pdb_type off ts ix = t"
  shows "pdb_ok off ts (s\<lparr>pl_types := (pl_types s)[unat ix - off := (d, t)]\<rparr>)"
proof -
  let ?i = "unat ix - off"
  have i: "?i < length ts" "ts ! ?i = d" using assms(2) by (auto simp: get_at_def split: if_splits)
  have s: "pl_offset s = off" "map fst (pl_types s) = ts" "length (pl_types s) = length ts"
    and cells: "\<And>j t ix. j < length ts \<Longrightarrow> snd (pl_types s ! j) = Some t \<Longrightarrow> unat ix = off + j \<Longrightarrow> 0x1000 \<le> ix \<Longrightarrow>
      pdb_type off ts ix = Some t"
    using assms(1) by (auto simp: pdb_ok_def)
  have "map fst ((pl_types s)[?i := (d, t)]) = ts"
    using s(2) i by (metis fst_conv list_update_id map_update)
  moreover have "pdb_type off ts iy = Some u"
    if "j < length ts" "snd ((pl_types s)[?i := (d, t)] ! j) = Some u" "unat iy = off + j" "0x1000 \<le> iy" for j u iy
  proof (cases "j = ?i")
    case True
    then have "iy = ix" using that(3) assms(3) by (simp add: word_unat_eq_iff)
    then show ?thesis using True that(1,2) s(3) assms(4) by simp
  next
    case False
    then show ?thesis using cells that by simp
  qed
  ultimately show ?thesis using s(1) by (simp add: pdb_ok_def)
qed

lemma pdb_get_type_resolves:
  assumes wf: "pdb_wf off ts"
  shows "pdb_ok off ts s \<Longrightarrow> pdb_known off ix \<Longrightarrow>
    \<exists>s'. pdb_get_type s ix = Some (s', Ok (pdb_type off ts ix)) \<and> pdb_ok off ts s'"
proof (induction "unat ix" arbitrary: ix s rule: less_induct)
  case less
  let ?i = "unat ix - off"
  show ?case
  proof (cases "ix < 0x1000")
    case True
    then show ?thesis using less.prems
      by (subst pdb_get_type.simps) (simp add: classify_primitive_def pdb_type.simps)
  next
    case big: False
    then have o: "off \<le> unat ix" using less.prems(2) by (simp add: pdb_known_def)
    have ty: "map fst (pl_types s) = ts" "pl_offset s = off" using less.prems(1) by (simp_all add: pdb_ok_def)
    have len: "length (pl_types s) = length ts" using ty(1) by auto
    show ?thesis
    proof (cases "?i < length ts")
      case False
      then show ?thesis using big o ty len less.prems(1)
        by (subst pdb_get_type.simps) (simp add: pdb_type.simps [of off ts ix] get_at_def)
    next
      case i: True
      then have d: "fst (pl_types s ! ?i) = ts ! ?i" using ty(1) len by (metis nth_map)
      have at: "get_at ?i (pl_types s) = Some (ts ! ?i, snd (pl_types s ! ?i))" "get_at ?i ts = Some (ts ! ?i)"
        using i len d by (simp_all add: get_at_def prod_eq_iff)
      show ?thesis
      proof (cases "snd (pl_types s ! ?i)")
        case (Some t)
        then have "pdb_type off ts ix = Some t"
          using less.prems(1) i o big by (auto simp: pdb_ok_def)
        then show ?thesis using big o ty at Some less.prems(1) by (subst pdb_get_type.simps) simp
      next
        case None
        have refs: "pdb_known off r \<and> r < ix" if "r \<in> set (pdb_refs (ts ! ?i))" for r
          using wf i o that by (auto simp: pdb_wf_def word_less_nat_alt)
        have fits: "pdb_fits (ts ! ?i)" using wf i by (simp add: pdb_wf_def)
        have rec: "\<exists>s'. pdb_get_type s r = Some (s', Ok (pdb_type off ts r)) \<and> pdb_ok off ts s'"
          if "r \<in> set (pdb_refs (ts ! ?i))" for r
          using less.hyps [of r s] less.prems(1) refs [OF that] by (simp add: word_less_nat_alt)
        have "\<exists>s'. pdb_classify_type pdb_get_type s (ts ! ?i) = Some (s', Ok (pdb_type off ts ix)) \<and> pdb_ok off ts s'"
          using rec refs fits big less.prems(1) product_chk_fit [of 1, where 'e = dyn_error]
          by (cases "ts ! ?i") (auto simp: pdb_classify_type_def pdb_type.simps [of off ts ix] at split: option.split)
        then obtain s' where s': "pdb_classify_type pdb_get_type s (ts ! ?i) = Some (s', Ok (pdb_type off ts ix))"
          "pdb_ok off ts s'" by blast
        have "pl_offset s' = off" using s'(2) by (simp add: pdb_ok_def)
        then show ?thesis
          using big o ty at None s' pdb_ok_update [OF s'(2) at(2) o]
          by (subst pdb_get_type.simps) simp
      qed
    qed
  qed
qed

definition pdb_has_type :: "nat \<Rightarrow> type_data list \<Rightarrow> type_index \<Rightarrow> type_kind option \<Rightarrow> bool" where
  "pdb_has_type off ts ix t \<longleftrightarrow> pdb_wf off ts \<and> pdb_known off ix \<and> t = pdb_type off ts ix"

interpretation pdb: type_resolver pdb_get_type "pdb_has_type off ts" "pdb_ok off ts" for off ts
  by unfold_locales (use pdb_get_type_resolves in \<open>auto simp: pdb_has_type_def\<close>)

section \<open>The structures that the records describe\<close>

fun pdb_field :: "nat \<Rightarrow> type_data list \<Rightarrow> type_data \<Rightarrow> struct_field list" where
  "pdb_field off ts (TMember r nm o_m) =
     (case from_utf8 nm of
        Some n \<Rightarrow> [\<lparr>sf_name = n, sf_offset = o_m, sf_typ = or_unknown (pdb_type off ts r)\<rparr>]
      | None \<Rightarrow> [])"
| "pdb_field off ts _ = []"

fun pdb_struct :: "nat \<Rightarrow> type_data list \<Rightarrow> type_data \<Rightarrow> struct_ref list" where
  "pdb_struct off ts (TClass ClassKindStruct nm (Some r) sz) =
     (case (from_utf8 nm, get_at (unat r - off) ts) of
        (Some n, Some (TFieldList ms)) \<Rightarrow> [\<lparr>st_size = sz, st_name = n, st_fields = concat (map (pdb_field off ts) ms)\<rparr>]
      | _ \<Rightarrow> [])"
| "pdb_struct off ts _ = []"

fun pdb_member_ok :: "nat \<Rightarrow> type_data \<Rightarrow> bool" where
  "pdb_member_ok off (TMember r nm o_m) \<longleftrightarrow> pdb_known off r"
| "pdb_member_ok off _ \<longleftrightarrow> True"

fun pdb_record_ok :: "nat \<Rightarrow> type_data \<Rightarrow> bool" where
  "pdb_record_ok off (TClass kind nm (Some r) sz) \<longleftrightarrow> off \<le> unat r"
| "pdb_record_ok off (TFieldList ms) \<longleftrightarrow> (\<forall>m \<in> set ms. pdb_member_ok off m)"
| "pdb_record_ok off _ \<longleftrightarrow> True"

text \<open>The stream of the records \<open>ts\<close>, numbered from \<open>off\<close>.\<close>

definition pdb_stream :: "nat \<Rightarrow> type_data list \<Rightarrow> (pdb_item, dyn_error) result list" where
  "pdb_stream off ts = map (\<lambda>(i, d). Ok (of_nat i, Ok d)) (enumerate off ts)"

lemma pdb_collect_field_ok:
  assumes "pdb_wf off ts" "pdb_member_ok off item" "pdb_ok off ts s"
  shows "\<exists>s'. pdb_collect_field (s, acc) item = Some ((s', acc @ pdb_field off ts item), Ok ()) \<and> pdb_ok off ts s'"
proof (cases item)
  case (TMember r nm o_m)
  have "pdb_has_type off ts r (pdb_type off ts r)" using assms(1,2) TMember by (simp add: pdb_has_type_def)
  with assms(3) obtain s' where "pdb_get_type s r = Some (s', Ok (pdb_type off ts r))" "pdb_ok off ts s'"
    by (rule pdb.resolved_then)
  then show ?thesis using TMember by (simp add: pdb_collect_field_def split: option.split)
qed (use assms(3) in \<open>simp_all add: pdb_collect_field_def\<close>)

lemma pdb_collect_fields_ok:
  assumes "pdb_wf off ts" "\<forall>m \<in> set ms. pdb_member_ok off m" "pdb_ok off ts s"
  shows "\<exists>s'. pdb_collect_fields s ms = Some ((s', concat (map (pdb_field off ts) ms)), Ok ()) \<and> pdb_ok off ts s'"
  unfolding pdb_collect_fields_def
  using for_st_collect [of ms "pdb_ok off ts" pdb_collect_field "pdb_field off ts" s "[]"] pdb_collect_field_ok assms
  by auto

lemma pdb_get_ok:
  assumes "pdb_ok off ts s" "off \<le> unat r"
  shows "pdb_get s r = Ok (get_at (unat r - off) ts)"
proof -
  have "pl_offset s = off" "ts = map fst (pl_types s)" using assms(1) by (auto simp: pdb_ok_def)
  then show ?thesis using assms(2) by (simp add: pdb_get_def sub_nat_chk_def get_at_def)
qed

lemma pdb_load_struct_ok:
  assumes "pdb_wf off ts" "\<forall>d \<in> set ts. pdb_record_ok off d" "item \<in> set ts" "pdb_ok off ts s"
  shows "\<exists>s'. pdb_load_struct (s, b) item = Some ((s', extend_structs b (pdb_struct off ts item)), Ok ()) \<and> pdb_ok off ts s'"
proof (cases "\<exists>kind nm r sz n. item = TClass kind nm (Some r) sz \<and> from_utf8 nm = Some n")
  case False
  then show ?thesis
    using assms(4) by (cases "(off, ts, item)" rule: pdb_struct.cases)
      (auto simp: pdb_load_struct_def split: option.splits)
next
  case True
  then obtain kind nm r sz n where item: "item = TClass kind nm (Some r) sz" "from_utf8 nm = Some n" by blast
  have "off \<le> unat r" using assms(2,3) item(1) by force
  then have g: "pdb_get s r = (Ok (get_at (unat r - off) ts) :: (_, dyn_error) result)"
    by (rule pdb_get_ok [OF assms(4)])
  show ?thesis
  proof (cases "\<exists>ms. kind = ClassKindStruct \<and> get_at (unat r - off) ts = Some (TFieldList ms)")
    case False
    then show ?thesis using item g assms(4)
      by (cases kind) (auto simp: pdb_load_struct_def split: option.splits type_data.splits)
  next
    case True
    then obtain ms where ms: "kind = ClassKindStruct" "get_at (unat r - off) ts = Some (TFieldList ms)" by blast
    then have "TFieldList ms \<in> set ts" by (metis get_at_def nth_mem option.distinct(1) option.inject)
    then have "\<forall>m \<in> set ms. pdb_member_ok off m" using assms(2) by force
    from pdb_collect_fields_ok [OF assms(1) this assms(4)] show ?thesis
      using item g ms by (auto simp: pdb_load_struct_def)
  qed
qed

lemma pdb_read_types_stream:
  assumes "off + i + length ts \<le> 2 ^ 32" "offset = Some off \<or> offset = None \<and> i = 0"
  shows "pdb_read_types (pdb_stream (off + i) ts) i offset =
    Ok (if ts = [] then offset else Some off, map (\<lambda>d. (d, None)) ts)"
  using assms
proof (induction ts arbitrary: i offset)
  case Nil
  then show ?case by (simp add: pdb_stream_def)
next
  case (Cons d ts)
  have "unat (of_nat (off + i) :: u32) = off + i" 
    using Cons.prems(1) by (simp only: unat_of_nat) (simp add: take_bit_nat_eq_self)
  moreover have "pdb_read_types (pdb_stream (off + Suc i) ts) (Suc i) (Some off) =
      Ok (if ts = [] then Some off else Some off, map (\<lambda>d. (d, None)) ts)"
    by (rule Cons.IH) (use Cons.prems in simp_all)
  ultimately show ?case
    using Cons.prems(2) by (auto simp: pdb_stream_def Let_def rassert_def)
qed

lemma pdb_load_types_stream:
  assumes "off + length ts \<le> 2 ^ 32" "pdb_wf off ts" "\<forall>d \<in> set ts. pdb_record_ok off d"
  shows "pdb_load_types (Ok (pdb_stream off ts)) b =
    Some (extend_structs b (concat (map (pdb_struct off ts) ts)), Ok ())"
proof (cases "ts = []")
  case True
  then show ?thesis by (simp add: pdb_load_types_def pdb_stream_def)
next
  case False
  let ?l = "\<lparr>pl_offset = off, pl_types = map (\<lambda>d. (d, None)) ts\<rparr>"
  have "pdb_ok off ts ?l" by (simp add: pdb_ok_def comp_def)
  then obtain l' where "for_st pdb_load_struct (?l, b) ts =
      Some ((l', extend_structs b (concat (map (pdb_struct off ts) ts))), Ok ())"
    using for_st_extend [of ts "pdb_ok off ts" pdb_load_struct "pdb_struct off ts" ?l b]
      pdb_load_struct_ok [OF assms(2,3)] by blast
  then show ?thesis
    using pdb_read_types_stream [of off 0 ts None] assms(1) False by (simp add: pdb_load_types_def comp_def)
qed

end
