(* ===== verification/Vm_Relocations.thy ===== *)
theory Vm_Relocations
  imports Vm_Types
begin

text \<open>
  Reading the DWARF sections of an object file (\<^verbatim>\<open>vminer-core/src/symbols/dwarf/relocations.rs\<close>). The crate
  \<open>object\<close> parses the file; the crate \<open>gimli\<close> has the trait \<open>Reader\<close>, whose methods are the record \<open>gimli_reader\<close> of
  functions on the state of a reader, and the function that loads all the sections of a \<open>Dwarf\<close>. \<open>Relocate\<close>
  wraps a reader: it applies the relocations of the section to the addresses and offsets it reads. A \<open>usize\<close>
  has 64 bits.
\<close>

section \<open>Relocations\<close>

datatype reloc_kind = KindAbsolute | KindOther
datatype reloc_target = TargetSymbol nat | TargetOther

record relocation =
  rl_kind :: reloc_kind
  rl_target :: reloc_target
  rl_implicit_addend :: bool
  rl_addend :: i64

type_synonym relocation_map = "u64 \<Rightarrow> relocation option"

record 'r relocate =
  re_relocations :: relocation_map
  re_section :: 'r
  re_reader :: 'r

definition relocate_value :: "relocation_map \<Rightarrow> u64 \<Rightarrow> u64 \<Rightarrow> u64" where
  "relocate_value relocations offset val =
     (case relocations offset of
        Some relocation \<Rightarrow>
          (case rl_kind relocation of
             KindAbsolute \<Rightarrow>
               if rl_implicit_addend relocation then val + rl_addend relocation else rl_addend relocation
           | KindOther \<Rightarrow> val)
      | None \<Rightarrow> val)"

section \<open>Readers\<close>

record ('r, 'id, 'en) gimli_reader =
  rd_address :: "'r \<Rightarrow> u8 \<Rightarrow> 'r \<times> (u64, dyn_error) result"
  rd_length :: "'r \<Rightarrow> bool \<Rightarrow> 'r \<times> (u64, dyn_error) result"
  rd_offset :: "'r \<Rightarrow> bool \<Rightarrow> 'r \<times> (u64, dyn_error) result"
  rd_sized_offset :: "'r \<Rightarrow> u8 \<Rightarrow> 'r \<times> (u64, dyn_error) result"
  rd_split :: "'r \<Rightarrow> u64 \<Rightarrow> 'r \<times> ('r, dyn_error) result"
  rd_endian :: "'r \<Rightarrow> 'en"
  rd_len :: "'r \<Rightarrow> u64"
  rd_empty :: "'r \<Rightarrow> 'r"
  rd_truncate :: "'r \<Rightarrow> u64 \<Rightarrow> 'r \<times> (unit, dyn_error) result"
  rd_offset_from :: "'r \<Rightarrow> 'r \<Rightarrow> u64"
  rd_offset_id :: "'r \<Rightarrow> 'id"
  rd_lookup_offset_id :: "'r \<Rightarrow> 'id \<Rightarrow> u64 option"
  rd_find :: "'r \<Rightarrow> u8 \<Rightarrow> (u64, dyn_error) result"
  rd_skip :: "'r \<Rightarrow> u64 \<Rightarrow> 'r \<times> (unit, dyn_error) result"
  rd_to_slice :: "'r \<Rightarrow> (u8 list, dyn_error) result"
  rd_to_string :: "'r \<Rightarrow> (string, dyn_error) result"
  rd_to_string_lossy :: "'r \<Rightarrow> (string, dyn_error) result"
  rd_read_slice :: "'r \<Rightarrow> u8 list \<Rightarrow> ('r \<times> u8 list) \<times> (unit, dyn_error) result"

text \<open>The four methods that relocate what they read, and the others, which use the inner reader.\<close>

definition relocated ::
  "('r, 'id, 'en) gimli_reader \<Rightarrow> ('r \<Rightarrow> 'x \<Rightarrow> 'r \<times> (u64, dyn_error) result) \<Rightarrow> 'r relocate \<Rightarrow> 'x \<Rightarrow>
   'r relocate \<times> (u64, dyn_error) result"
where
  "relocated R rd self x =
     (let offset = rd_offset_from R (re_reader self) (re_section self);
          (r', val) = rd (re_reader self) x
      in (self\<lparr>re_reader := r'\<rparr>, map_ok (relocate_value (re_relocations self) offset) val))"

definition relocate_split :: "('r, 'id, 'en) gimli_reader \<Rightarrow> 'r relocate \<Rightarrow> u64 \<Rightarrow> 'r relocate \<times> ('r relocate, dyn_error) result" where
  "relocate_split R self len =
     (case rd_truncate R (re_reader self) len of
        (other, Ok u) \<Rightarrow>
          (case rd_skip R (re_reader self) len of
             (r', Ok u) \<Rightarrow> (self\<lparr>re_reader := r'\<rparr>, Ok (self\<lparr>re_reader := other\<rparr>))
           | (r', Err e) \<Rightarrow> (self\<lparr>re_reader := r'\<rparr>, Err e)
           | (r', Panic) \<Rightarrow> (self\<lparr>re_reader := r'\<rparr>, Panic))
      | (other, Err e) \<Rightarrow> (self, Err e)
      | (other, Panic) \<Rightarrow> (self, Panic))"

definition relocate_reader :: "('r, 'id, 'en) gimli_reader \<Rightarrow> ('r relocate, 'id, 'en) gimli_reader" where
  "relocate_reader R =
     \<lparr>rd_address = relocated R (rd_address R),
      rd_length = relocated R (rd_length R),
      rd_offset = relocated R (rd_offset R),
      rd_sized_offset = relocated R (rd_sized_offset R),
      rd_split = relocate_split R,
      rd_endian = (\<lambda>self. rd_endian R (re_reader self)),
      rd_len = (\<lambda>self. rd_len R (re_reader self)),
      rd_empty = (\<lambda>self. self\<lparr>re_reader := rd_empty R (re_reader self)\<rparr>),
      rd_truncate = (\<lambda>self len. let (r', u) = rd_truncate R (re_reader self) len in (self\<lparr>re_reader := r'\<rparr>, u)),
      rd_offset_from = (\<lambda>self base. rd_offset_from R (re_reader self) (re_reader base)),
      rd_offset_id = (\<lambda>self. rd_offset_id R (re_reader self)),
      rd_lookup_offset_id = (\<lambda>self. rd_lookup_offset_id R (re_reader self)),
      rd_find = (\<lambda>self. rd_find R (re_reader self)),
      rd_skip = (\<lambda>self len. let (r', u) = rd_skip R (re_reader self) len in (self\<lparr>re_reader := r'\<rparr>, u)),
      rd_to_slice = (\<lambda>self. rd_to_slice R (re_reader self)),
      rd_to_string = (\<lambda>self. rd_to_string R (re_reader self)),
      rd_to_string_lossy = (\<lambda>self. rd_to_string_lossy R (re_reader self)),
      rd_read_slice = (\<lambda>self bf. let ((r', bf'), u) = rd_read_slice R (re_reader self) bf in ((self\<lparr>re_reader := r'\<rparr>, bf'), u))\<rparr>"

section \<open>Loading sections\<close>

text \<open>\<open>symbol_address\<close> is the address of a symbol of the file, if its index is valid.\<close>

fun add_relocations ::
  "(nat \<Rightarrow> u64 option) \<Rightarrow> (u64 \<times> relocation) list \<Rightarrow> relocation_map \<Rightarrow> relocation_map"
where
  "add_relocations symbol_address [] relocations = relocations"
| "add_relocations symbol_address ((offset, relocation) # rest) relocations =
     (case rl_kind relocation of
        KindAbsolute \<Rightarrow>
          add_relocations symbol_address rest (relocations(offset \<mapsto>
            (case rl_target relocation of
               TargetSymbol idx \<Rightarrow>
                 (case symbol_address idx of
                    Some addr \<Rightarrow> relocation\<lparr>rl_addend := addr + rl_addend relocation\<rparr>
                  | None \<Rightarrow> relocation)
             | TargetOther \<Rightarrow> relocation)))
      | KindOther \<Rightarrow> add_relocations symbol_address rest relocations)"

datatype dwarf_error = DwarfGimli dyn_error | DwarfObject dyn_error | CompressedSection

fun dwarf_error_message :: "dwarf_error \<Rightarrow> string" where
  "dwarf_error_message (DwarfGimli e) = ''failed to read DWARF data''"
| "dwarf_error_message (DwarfObject e) = ''failed to read ELF''"
| "dwarf_error_message CompressedSection = ''compressed DWARF sections are not supported''"

fun dwarf_error_source :: "bool \<Rightarrow> dwarf_error \<Rightarrow> dyn_error option" where
  "dwarf_error_source std (DwarfGimli e) = (if std then Some e else None)"
| "dwarf_error_source std (DwarfObject e) = Some e"
| "dwarf_error_source std CompressedSection = None"

text \<open>A section of the file: its relocations, and its bytes, borrowed from the file or decompressed.\<close>

datatype section_data = Borrowed "u8 list" | Owned "u8 list"

record section_of_file =
  sec_relocations :: "(u64 \<times> relocation) list"
  sec_data :: "(section_data, dyn_error) result"

record object_file =
  obj_section_by_name :: "string \<Rightarrow> section_of_file option"
  obj_symbol_address :: "nat \<Rightarrow> u64 option"
  obj_is_little_endian :: bool

definition load_file_section ::
  "('en \<Rightarrow> u8 list \<Rightarrow> 'r) \<Rightarrow> string \<Rightarrow> object_file \<Rightarrow> 'en \<Rightarrow> ('r relocate, dyn_error) result"
where
  "load_file_section endian_slice nm file en =
     (case obj_section_by_name file nm of
        Some s \<Rightarrow>
          and_then (sec_data s) (\<lambda>d.
            case d of
              Borrowed b \<Rightarrow>
                Ok \<lparr>re_relocations = add_relocations (obj_symbol_address file) (sec_relocations s) Map.empty,
                    re_section = endian_slice en b, re_reader = endian_slice en b\<rparr>
            | Owned b \<Rightarrow> Panic)
      | None \<Rightarrow> Ok \<lparr>re_relocations = Map.empty, re_section = endian_slice en [], re_reader = endian_slice en []\<rparr>)"

datatype run_time_endian = RunTimeLittle | RunTimeBig

text \<open>\<open>dwarf_load\<close> is \<open>gimli::Dwarf::load\<close>: it makes a \<open>Dwarf\<close> of the sections it asks for by name.\<close>

definition load_dwarf ::
  "(run_time_endian \<Rightarrow> u8 list \<Rightarrow> 'r) \<Rightarrow> ((string \<Rightarrow> ('r relocate, dyn_error) result) \<Rightarrow> ('d, dyn_error) result) \<Rightarrow>
   object_file \<Rightarrow> ('d, dyn_error) result"
where
  "load_dwarf endian_slice dwarf_load obj =
     (let endian = (if obj_is_little_endian obj then RunTimeLittle else RunTimeBig)
      in dwarf_load (\<lambda>nm. load_file_section endian_slice nm obj endian))"

section \<open>What is read from a section with relocations\<close>

text \<open>The value of a relocation: S + A, and the value in place when the addend is implicit.\<close>

definition reloc_result :: "(nat \<Rightarrow> u64 option) \<Rightarrow> relocation \<Rightarrow> u64 \<Rightarrow> u64" where
  "reloc_result symbol_address r val =
     (if rl_implicit_addend r then val else 0) + rl_addend r +
     (case rl_target r of
        TargetSymbol idx \<Rightarrow> (case symbol_address idx of Some addr \<Rightarrow> addr | None \<Rightarrow> 0)
      | TargetOther \<Rightarrow> 0)"

definition absolute_at :: "(u64 \<times> relocation) list \<Rightarrow> u64 \<Rightarrow> relocation list" where
  "absolute_at rs off = map snd (filter (\<lambda>(o', r). o' = off \<and> rl_kind r = KindAbsolute) rs)"

lemma relocate_add_relocations:
  "relocate_value (add_relocations syms rs m) off val =
     (if absolute_at rs off = [] then relocate_value m off val else reloc_result syms (last (absolute_at rs off)) val)"
proof (induction rs arbitrary: m)
  case Nil
  then show ?case by (simp add: absolute_at_def)
next
  case (Cons p rs)
  obtain o' r where p: "p = (o', r)" by (cases p)
  show ?case
  proof (cases "rl_kind r")
    case KindOther
    then show ?thesis using p Cons.IH by (simp add: absolute_at_def)
  next
    case KindAbsolute
    let ?R = "case rl_target r of
        TargetSymbol idx \<Rightarrow> (case syms idx of Some addr \<Rightarrow> r\<lparr>rl_addend := addr + rl_addend r\<rparr> | None \<Rightarrow> r)
      | TargetOther \<Rightarrow> r"
    have upd: "add_relocations syms (p # rs) m = add_relocations syms rs (m(o' \<mapsto> ?R))" using p KindAbsolute by simp
    have new: "relocate_value (m(o' \<mapsto> ?R)) off val = reloc_result syms r val" if "o' = off"
      using that KindAbsolute
      by (cases "rl_target r") (auto simp: relocate_value_def reloc_result_def add.commute split: option.split)
    have old: "relocate_value (m(o' \<mapsto> ?R)) off val = relocate_value m off val" if "o' \<noteq> off"
      using that by (simp add: relocate_value_def)
    show ?thesis
      unfolding upd Cons.IH using p KindAbsolute new old by (cases "o' = off") (simp_all add: absolute_at_def)
  qed
qed

text \<open>Sections that the file does not have are empty, and the relocations of a section are those of the file.\<close>

lemma section_reads_relocated:
  assumes "obj_section_by_name file nm = Some s" "load_file_section endian_slice nm file en = Ok self"
    "rd_address R r n = (r', Ok val)" "rd_offset_from R r (endian_slice en b) = off" "sec_data s = Ok (Borrowed b)"
  shows "rd_address (relocate_reader R) (self\<lparr>re_reader := r\<rparr>) n =
    (self\<lparr>re_reader := r'\<rparr>,
     Ok (if absolute_at (sec_relocations s) off = [] then val
         else reloc_result (obj_symbol_address file) (last (absolute_at (sec_relocations s) off)) val))"
proof -
  have "re_section self = endian_slice en b"
    "re_relocations self = add_relocations (obj_symbol_address file) (sec_relocations s) Map.empty"
    using assms(1,2,5) by (auto simp: load_file_section_def)
  then show ?thesis
    using assms(3,4) by (simp add: relocate_reader_def relocated_def relocate_add_relocations relocate_value_def [of Map.empty])
qed

end
