(* ===== verification/Vm_Mem.thy ===== *)
theory Vm_Mem
  imports Vm_Error Vm_Addr
begin

text \<open>
  Physical memory (\<^verbatim>\<open>vminer-core/src/mem.rs\<close>): the trait \<open>Memory\<close> with its default methods, and
  its implementations \<open>RawMemory\<close>, \<open>MemRemap\<close>, \<open>File\<close> and the forwarding ones.

  The trait is a record of functions, one field per method. A buffer \<open>&mut [u8]\<close> is passed in and
  returned, because the code relies on what a failed read leaves in it. A \<open>writer\<close> stands for
  \<open>io::Write::write_all\<close>: it maps what was written so far and a chunk to what is written then. A
  \<open>finder\<close> is the substring searcher of the crate \<open>memchr\<close> and \<open>read_exact_at\<close> of a \<open>file_mem\<close>
  is the one of the crate \<open>sync_file\<close>, both parameters.
\<close>

section \<open>Types\<close>

record memory_map =
  mm_start :: physical_address
  mm_end :: physical_address

record finder =
  needle :: "u8 list"
  find_in :: "u8 list \<Rightarrow> nat option"

type_synonym buf = "u8 list"
type_synonym ('a, 'e) buf_result = "buf \<times> ('a, 'e) result"
type_synonym reader = "physical_address \<Rightarrow> buf \<Rightarrow> (unit, memory_access_error) buf_result"
type_synonym writer = "u8 list \<Rightarrow> u8 list \<Rightarrow> u8 list \<times> (unit, io_error) result"

record memory =
  memory_mappings :: "memory_map list"
  is_valid :: "physical_address \<Rightarrow> nat \<Rightarrow> bool memory_access_result"
  read_physical :: reader
  search :: "physical_address \<Rightarrow> u64 \<Rightarrow> finder \<Rightarrow> buf \<Rightarrow> (u64 option, memory_access_error) buf_result"
  dump :: "writer \<Rightarrow> u8 list \<Rightarrow> u8 list \<times> (unit, io_error) result"

section \<open>Default methods\<close>

fun is_valid_default :: "memory_map list \<Rightarrow> physical_address \<Rightarrow> nat \<Rightarrow> bool memory_access_result" where
  "is_valid_default [] addr sz = Ok False"
| "is_valid_default (mapping # ms) addr sz =
     (if mm_start mapping \<le> addr then
        and_then (pa_add addr (of_nat sz)) (\<lambda>e.
          if e \<le> mm_end mapping then Ok True else is_valid_default ms addr sz)
      else is_valid_default ms addr sz)"

text \<open>The reads of the second branch of \<open>search\<close>, from the offset \<open>off\<close> in steps of \<open>stp\<close> bytes.\<close>

function search_loop ::
  "reader \<Rightarrow> physical_address \<Rightarrow> nat \<Rightarrow> finder \<Rightarrow> nat \<Rightarrow> nat \<Rightarrow> buf \<Rightarrow> (u64 option, memory_access_error) buf_result"
where
  "search_loop rd addr page_size fi stp off bf =
     (if stp = 0 then (bf, Panic)
      else if off < page_size then
        (case add_chk addr (of_nat off) of
           Ok a \<Rightarrow>
             let sz = min (length bf) (page_size - off);
                 (part, r) = rd a (take sz bf);
                 bf' = part @ drop sz bf
             in (case r of
                   Ok u \<Rightarrow>
                     (case find_in fi (take sz bf') of
                        Some index \<Rightarrow> (bf', Ok (Some (of_nat index)))
                      | None \<Rightarrow> search_loop rd addr page_size fi stp (off + stp) bf')
                 | Err e \<Rightarrow> (bf', Err e)
                 | Panic \<Rightarrow> (bf', Panic))
         | Err e \<Rightarrow> (bf, Err e)
         | Panic \<Rightarrow> (bf, Panic))
      else (bf, Ok None))"
  by pat_completeness auto
termination
  by (relation "measure (\<lambda>(rd, addr, page_size, fi, stp, off, bf). page_size - off)") auto

declare search_loop.simps [simp del]

definition search_default ::
  "reader \<Rightarrow> physical_address \<Rightarrow> u64 \<Rightarrow> finder \<Rightarrow> buf \<Rightarrow> (u64 option, memory_access_error) buf_result"
where
  "search_default rd addr page_size fi bf =
     (let n = unat page_size in
      if n \<le> length bf then
        (let (part, r) = rd addr (take n bf)
         in (part @ drop n bf, map_ok (\<lambda>u. map_option of_nat (find_in fi part)) r))
      else if length bf > length (needle fi) then
        search_loop rd addr n fi (length bf - length (needle fi)) 0 bf
      else (bf, Panic))"

definition dump_chunk :: nat where
  "dump_chunk = 2 ^ 16"

function dump_mapping ::
  "reader \<Rightarrow> writer \<Rightarrow> nat \<Rightarrow> nat \<Rightarrow> buf \<Rightarrow> u8 list \<Rightarrow> (buf \<times> u8 list) \<times> (unit, io_error) result"
where
  "dump_mapping rd wr e addr buffer out =
     (if addr < e then
        let (buffer', r) = rd (of_nat addr) buffer
        in (case r of
              Ok u \<Rightarrow>
                (let (out', w) = wr out buffer'
                 in (case w of
                       Ok v \<Rightarrow> dump_mapping rd wr e (addr + dump_chunk) buffer' out'
                     | Err er \<Rightarrow> ((buffer', out'), Err er)
                     | Panic \<Rightarrow> ((buffer', out'), Panic)))
            | Err er \<Rightarrow> ((buffer', out), Err (io_of_mem er))
            | Panic \<Rightarrow> ((buffer', out), Panic))
      else ((buffer, out), Ok ()))"
  by pat_completeness auto
termination
  by (relation "measure (\<lambda>(rd, wr, e, addr, buffer, out). e - addr)") (auto simp: dump_chunk_def)

declare dump_mapping.simps [simp del]

fun dump_mappings ::
  "reader \<Rightarrow> writer \<Rightarrow> memory_map list \<Rightarrow> buf \<Rightarrow> u8 list \<Rightarrow> u8 list \<times> (unit, io_error) result"
where
  "dump_mappings rd wr [] buffer out = (out, Ok ())"
| "dump_mappings rd wr (mapping # ms) buffer out =
     (case dump_mapping rd wr (unat (mm_end mapping)) (unat (mm_start mapping)) buffer out of
        ((buffer', out'), Ok u) \<Rightarrow> dump_mappings rd wr ms buffer' out'
      | ((buffer', out'), r) \<Rightarrow> (out', r))"

definition dump_default ::
  "memory_map list \<Rightarrow> reader \<Rightarrow> writer \<Rightarrow> u8 list \<Rightarrow> u8 list \<times> (unit, io_error) result"
where
  "dump_default ms rd wr out = dump_mappings rd wr ms (replicate dump_chunk 0) out"

text \<open>A memory that overrides no default method.\<close>

definition with_defaults :: "memory_map list \<Rightarrow> reader \<Rightarrow> memory" where
  "with_defaults ms rd =
     \<lparr>memory_mappings = ms, is_valid = is_valid_default ms, read_physical = rd,
      search = search_default rd, dump = dump_default ms rd\<rparr>"

section \<open>Forwarding implementations\<close>

definition arc_memory :: "memory \<Rightarrow> memory" where
  "arc_memory self =
     \<lparr>memory_mappings = memory_mappings self, is_valid = is_valid self,
      read_physical = read_physical self, search = search self, dump = dump self\<rparr>"

text \<open>\<open>&M\<close> and \<open>Box<M>\<close> keep the default \<open>is_valid\<close>.\<close>

definition ref_memory :: "memory \<Rightarrow> memory" where
  "ref_memory self =
     \<lparr>memory_mappings = memory_mappings self,
      is_valid = is_valid_default (memory_mappings self),
      read_physical = read_physical self, search = search self, dump = dump self\<rparr>"

definition box_memory :: "memory \<Rightarrow> memory" where
  "box_memory self =
     \<lparr>memory_mappings = memory_mappings self,
      is_valid = is_valid_default (memory_mappings self),
      read_physical = read_physical self, search = search self, dump = dump self\<rparr>"

section \<open>Memory in a byte slice\<close>

record raw_memory =
  raw_mapping :: memory_map
  raw_bytes :: "u8 list"

definition raw_new :: "u8 list \<Rightarrow> raw_memory" where
  "raw_new bytes =
     \<lparr>raw_mapping = \<lparr>mm_start = 0, mm_end = of_nat (length bytes)\<rparr>, raw_bytes = bytes\<rparr>"

definition raw_read_physical :: "raw_memory \<Rightarrow> reader" where
  "raw_read_physical self addr bf =
     (case get_from (unat addr) (raw_bytes self) of
        None \<Rightarrow> (bf, Err OutOfBounds)
      | Some this \<Rightarrow>
          if length bf \<le> length this then (take (length bf) this, Ok ()) else (bf, Err OutOfBounds))"

definition raw_search ::
  "raw_memory \<Rightarrow> physical_address \<Rightarrow> u64 \<Rightarrow> finder \<Rightarrow> buf \<Rightarrow> (u64 option, memory_access_error) buf_result"
where
  "raw_search self addr page_size fi bf =
     (bf, and_then
        (ok_or OutOfBounds
           (if unat addr + unat page_size < 2 ^ 64
            then get_range (unat addr) (unat addr + unat page_size) (raw_bytes self) else None))
        (\<lambda>this. Ok (map_option of_nat (find_in fi this))))"

definition raw_dump :: "raw_memory \<Rightarrow> writer \<Rightarrow> u8 list \<Rightarrow> u8 list \<times> (unit, io_error) result" where
  "raw_dump self wr out = wr out (raw_bytes self)"

definition raw_memory_impl :: "raw_memory \<Rightarrow> memory" where
  "raw_memory_impl self =
     \<lparr>memory_mappings = [raw_mapping self], is_valid = is_valid_default [raw_mapping self],
      read_physical = raw_read_physical self, search = raw_search self, dump = raw_dump self\<rparr>"

section \<open>Remapped memory\<close>

record mem_remap =
  mr_mappings :: "memory_map list"
  remap_at :: "physical_address list"
  mr_inner :: memory

definition remap_new :: "memory \<Rightarrow> memory_map list \<Rightarrow> physical_address list \<Rightarrow> mem_remap" where
  "remap_new inner ms at = \<lparr>mr_mappings = ms, remap_at = at, mr_inner = inner\<rparr>"

text \<open>The loop that looks for the mapping of the whole range, from the index \<open>i\<close>.\<close>

function remap_addr ::
  "mem_remap \<Rightarrow> physical_address \<Rightarrow> nat \<Rightarrow> nat \<Rightarrow> physical_address memory_access_result"
where
  "remap_addr self addr len i =
     (if i \<ge> length (mr_mappings self) then Err OutOfBounds
      else let mapping = mr_mappings self ! i in
        if mm_start mapping \<le> addr then
          and_then (pa_add addr (of_nat len)) (\<lambda>e.
            if e \<le> mm_end mapping
            then and_then (index_at (remap_at self) i) (\<lambda>base.
                   pa_add_i64 base (pa_diff addr (mm_start mapping)))
            else remap_addr self addr len (i + 1))
        else remap_addr self addr len (i + 1))"
  by pat_completeness auto
termination
  by (relation "measure (\<lambda>(self, addr, len, i). length (mr_mappings self) - i)") auto

declare remap_addr.simps [simp del]

definition remap_read_physical :: "mem_remap \<Rightarrow> reader" where
  "remap_read_physical self addr bf =
     (if length (mr_mappings self) = length (remap_at self) then
        (case remap_addr self addr (length bf) 0 of
           Ok a \<Rightarrow> read_physical (mr_inner self) a bf
         | Err e \<Rightarrow> (bf, Err e)
         | Panic \<Rightarrow> (bf, Panic))
      else (bf, Panic))"

definition mem_remap_impl :: "mem_remap \<Rightarrow> memory" where
  "mem_remap_impl self = with_defaults (mr_mappings self) (remap_read_physical self)"

section \<open>Memory in a file\<close>

record file_mem =
  read_exact_at :: "u8 list \<Rightarrow> u64 \<Rightarrow> u8 list \<times> (unit, io_error) result"
  file_start :: u64
  file_mapping :: memory_map

definition file_new ::
  "(u8 list \<Rightarrow> u64 \<Rightarrow> u8 list \<times> (unit, io_error) result) \<Rightarrow> u64 \<Rightarrow> u64 \<Rightarrow> (file_mem, 'e) result"
where
  "file_new file start e =
     and_then (sub_chk e start) (\<lambda>len.
       Ok \<lparr>read_exact_at = file, file_start = start,
           file_mapping = \<lparr>mm_start = 0, mm_end = len\<rparr>\<rparr>)"

definition file_open ::
  "('p \<Rightarrow> (u8 list \<Rightarrow> u64 \<Rightarrow> u8 list \<times> (unit, io_error) result, io_error) result) \<Rightarrow>
   'p \<Rightarrow> u64 \<Rightarrow> u64 \<Rightarrow> (file_mem, io_error) result"
where
  "file_open fs_open path start e = and_then (fs_open path) (\<lambda>file. file_new file start e)"

definition file_size :: "file_mem \<Rightarrow> u64" where
  "file_size self = mm_end (file_mapping self)"

definition file_read_physical :: "file_mem \<Rightarrow> reader" where
  "file_read_physical self addr bf =
     (case is_valid_default [file_mapping self] addr (length bf) of
        Ok valid \<Rightarrow>
          if \<not> valid then (bf, Err OutOfBounds)
          else (case add_chk (file_start self) addr of
                  Ok offset \<Rightarrow>
                    (let (bf', r) = read_exact_at self bf offset in (bf', map_err mem_of_io r))
                | Err e \<Rightarrow> (bf, Err e)
                | Panic \<Rightarrow> (bf, Panic))
      | Err e \<Rightarrow> (bf, Err e)
      | Panic \<Rightarrow> (bf, Panic))"

definition file_mem_impl :: "file_mem \<Rightarrow> memory" where
  "file_mem_impl self = with_defaults [file_mapping self] (file_read_physical self)"

end
