(* ===== verification/Vm_Mem_Laws.thy ===== *)
theory Vm_Mem_Laws
  imports Vm_Mem
begin

text \<open>
  The contract of physical memory and its clients. The locale \<open>flat_memory\<close> says that a reader
  returns the bytes of an abstract address space wherever a range is readable; \<open>substring_finder\<close>
  states the documented behaviour of the substring searcher. \<open>memory_search\<close> joins the two and
  holds the correctness of the default search; the default dump is proved in \<open>flat_memory\<close>. Both
  memories that the crate implements over other bytes are interpretations.
\<close>

section \<open>Ranges of an address space\<close>

definition bytes_at :: "(nat \<Rightarrow> u8) \<Rightarrow> nat \<Rightarrow> nat \<Rightarrow> u8 list" where
  "bytes_at byte a n = map (\<lambda>i. byte (a + i)) [0..<n]"

lemma length_bytes_at [simp]: "length (bytes_at byte a n) = n"
  by (simp add: bytes_at_def)

lemma nth_bytes_at [simp]: "i < n \<Longrightarrow> bytes_at byte a n ! i = byte (a + i)"
  by (simp add: bytes_at_def)

lemma take_bytes_at [simp]: "take k (bytes_at byte a n) = bytes_at byte a (min k n)"
  by (rule nth_equalityI) auto

lemma drop_bytes_at [simp]: "drop k (bytes_at byte a n) = bytes_at byte (a + k) (n - k)"
  by (rule nth_equalityI) (auto simp: add.assoc)

lemma bytes_at_0 [simp]: "bytes_at byte a 0 = []"
  by (simp add: bytes_at_def)

lemma bytes_at_append: "bytes_at byte a n @ bytes_at byte (a + n) m = bytes_at byte a (n + m)"
  by (rule nth_equalityI) (auto simp: nth_append add.assoc)

lemma bytes_at_slice:
  "a + n \<le> length bs \<Longrightarrow> bytes_at (\<lambda>i. bs ! i) a n = take n (drop a bs)"
  by (rule nth_equalityI) auto

section \<open>Substring search\<close>

definition occurs_at :: "u8 list \<Rightarrow> u8 list \<Rightarrow> nat \<Rightarrow> bool" where
  "occurs_at nd hay i \<longleftrightarrow> i + length nd \<le> length hay \<and> take (length nd) (drop i hay) = nd"

definition first_occurrence :: "u8 list \<Rightarrow> u8 list \<Rightarrow> nat option" where
  "first_occurrence nd hay = List.find (occurs_at nd hay) [0..<Suc (length hay)]"

definition naive_finder :: "u8 list \<Rightarrow> finder" where
  "naive_finder nd = \<lparr>needle = nd, find_in = first_occurrence nd\<rparr>"

lemma first_occurrence_Some_iff:
  "first_occurrence nd hay = Some i \<longleftrightarrow> occurs_at nd hay i \<and> (\<forall>j < i. \<not> occurs_at nd hay j)"
proof -
  have "occurs_at nd hay i \<Longrightarrow> i < Suc (length hay)" by (simp add: occurs_at_def)
  then show ?thesis
    by (auto simp: first_occurrence_def find_Some_iff simp del: upt_Suc)
qed

lemma first_occurrence_None_iff:
  "first_occurrence nd hay = None \<longleftrightarrow> (\<forall>i. \<not> occurs_at nd hay i)"
  by (auto simp: first_occurrence_def find_None_iff occurs_at_def simp del: upt_Suc)

lemma occurs_at_window:
  "off \<le> length hay \<Longrightarrow>
     occurs_at nd (take k (drop off hay)) i \<longleftrightarrow> i + length nd \<le> k \<and> occurs_at nd hay (off + i)"
  by (auto simp: occurs_at_def min_def drop_take add.commute)

locale substring_finder =
  fixes fi :: finder
  assumes find_spec: "find_in fi hay = first_occurrence (needle fi) hay"

interpretation naive: substring_finder "naive_finder nd"
  by unfold_locales (simp add: naive_finder_def)

section \<open>The contract of a physical memory\<close>

locale flat_memory =
  fixes rd :: reader
    and readable :: "physical_address \<Rightarrow> nat \<Rightarrow> bool"
    and byte :: "nat \<Rightarrow> u8"
  assumes read_readable: "readable a (length bf) \<Longrightarrow> rd a bf = (bytes_at byte (unat a) (length bf), Ok ())"
    and readable_sub: "readable a n \<Longrightarrow> 0 < m \<Longrightarrow> i + m \<le> n \<Longrightarrow> readable (a + of_nat i) m"
    and readable_range: "readable a n \<Longrightarrow> unat a + n < 2 ^ 64"
    and read_unreadable: "\<not> readable a (length bf) \<Longrightarrow> bf \<noteq> [] \<Longrightarrow> unat a + length bf < 2 ^ 64 \<Longrightarrow>
      snd (rd a bf) \<noteq> Ok ()"

lemma unat_add_of_nat:
  fixes a :: u64
  assumes "unat a + n < 2 ^ 64"
  shows "unat (a + of_nat n) = unat a + n"
proof -
  have "unat (of_nat n :: u64) = n" using assms by (simp add: unat_of_nat)
  then show ?thesis using assms by (simp add: unat_word_ariths)
qed

lemma add_chk_of_nat:
  fixes a :: u64
  assumes "unat a + n < 2 ^ 64"
  shows "add_chk a (of_nat n) = Ok (a + of_nat n)"
proof -
  have "unat (of_nat n :: u64) = n" using assms by (simp add: unat_of_nat)
  then show ?thesis using assms by (simp add: add_chk_def)
qed

context flat_memory
begin

lemma read_sub:
  assumes "readable a n" "0 < length bf" "i + length bf \<le> n"
  shows "rd (a + of_nat i) bf = (bytes_at byte (unat a + i) (length bf), Ok ())"
proof -
  have "unat (a + of_nat i) = unat a + i"
    using readable_range [OF assms(1)] assms(3) by (intro unat_add_of_nat) simp
  then show ?thesis
    using read_readable [OF readable_sub [OF assms]] by simp
qed

end

section \<open>Searching a page\<close>

text \<open>
  The offset that the second branch of the default \<open>search\<close> returns for an occurrence at \<open>i\<close>
  in the page, when the successive windows start \<open>stp\<close> bytes apart.
\<close>

definition window_index :: "nat \<Rightarrow> nat \<Rightarrow> nat" where
  "window_index stp i = (if i = 0 then 0 else (i - 1) mod stp + 1)"

lemma window_index_le: "i \<le> stp \<Longrightarrow> window_index stp i = i"
  by (auto simp: window_index_def)

lemma window_index_step:
  assumes "0 < stp" "stp < i"
  shows "window_index stp (i - stp) = window_index stp i"
proof -
  have "(i - 1) mod stp = (i - stp - 1) mod stp"
    using assms by (metis add_diff_inverse_nat diff_commute less_imp_le_nat mod_add_self1
        nat_neq_iff Suc_leI diff_le_mono le_mod_geq less_Suc_eq_le Suc_pred' gr_implies_not0
        One_nat_def le_simps(3))
  then show ?thesis using assms by (simp add: window_index_def)
qed

locale memory_search = flat_memory + substring_finder
begin

lemma search_fits:
  assumes "readable addr (unat page_size)" "unat page_size \<le> length bf"
  shows "search_default rd addr page_size fi bf =
    (bytes_at byte (unat addr) (unat page_size) @ drop (unat page_size) bf,
     Ok (map_option of_nat
       (first_occurrence (needle fi) (bytes_at byte (unat addr) (unat page_size)))))"
  using assms read_readable [of addr "take (unat page_size) bf"]
  by (simp add: search_default_def find_spec min_absorb2 Let_def)

text \<open>One window of the loop: the read succeeds and the searcher sees that part of the page.\<close>

lemma search_loop_step:
  fixes bf :: buf
  assumes "readable addr n" "off < n" "0 < stp" "0 < length bf"
  defines "W \<equiv> bytes_at byte (unat addr + off) (min (length bf) (n - off))"
  shows "snd (search_loop rd addr n fi stp off bf) =
    (case first_occurrence (needle fi) W of
       Some i \<Rightarrow> Ok (Some (of_nat i))
     | None \<Rightarrow> snd (search_loop rd addr n fi stp (off + stp) (W @ drop (length W) bf)))"
proof -
  have "add_chk addr (of_nat off) = (Ok (addr + of_nat off) :: u64 memory_access_result)"
    using readable_range [OF assms(1)] assms(2) by (intro add_chk_of_nat) simp
  moreover have "rd (addr + of_nat off) (take (min (length bf) (n - off)) bf) = (W, Ok ())"
  proof -
    have len: "length (take (min (length bf) (n - off)) bf) = min (length bf) (n - off)" by simp
    have pos: "0 < min (length bf) (n - off)" "off + min (length bf) (n - off) \<le> n"
      using assms(2,4) by simp_all
    show ?thesis
      using read_sub [OF assms(1), of "take (min (length bf) (n - off)) bf" off] pos
      by (simp only: len W_def)
  qed
  moreover have "length W = min (length bf) (n - off)" by (simp add: W_def)
  ultimately show ?thesis
    using assms(2,3) by (subst search_loop.simps) (simp add: Let_def find_spec split: option.split)
qed

lemma search_loop_spec:
  assumes "readable addr n" "length (needle fi) < length bf"
    and "stp = length bf - length (needle fi)" "0 < n"
    and "\<forall>i < off. \<not> occurs_at (needle fi) (bytes_at byte (unat addr) n) i"
  shows "snd (search_loop rd addr n fi stp off bf) =
    Ok (map_option (\<lambda>i. of_nat (window_index stp (i - off)))
      (first_occurrence (needle fi) (bytes_at byte (unat addr) n)))"
  using assms
proof (induction "n - off" arbitrary: off bf rule: less_induct)
  case less
  let ?P = "bytes_at byte (unat addr) n"
  let ?W = "bytes_at byte (unat addr + off) (min (length bf) (n - off))"
  have stp: "0 < stp" using less.prems by simp
  show ?case
  proof (cases "off < n")
    case False
    have "\<not> occurs_at (needle fi) ?P i" for i
    proof
      assume occ: "occurs_at (needle fi) ?P i"
      then have "off \<le> i" using less.prems(5) by (meson not_le)
      then have "needle fi = []" using occ False by (simp add: occurs_at_def)
      then have "occurs_at (needle fi) ?P 0" by (simp add: occurs_at_def)
      then show False using less.prems False by simp
    qed
    then have "first_occurrence (needle fi) ?P = None" by (simp add: first_occurrence_None_iff)
    then show ?thesis using False stp by (subst search_loop.simps) simp
  next
    case True
    have W: "?W = take (min (length bf) (n - off)) (drop off ?P)"
      using True by simp
    have occ: "occurs_at (needle fi) ?W i \<longleftrightarrow> i \<le> stp \<and> occurs_at (needle fi) ?P (off + i)" for i
      unfolding W using True less.prems
      by (subst occurs_at_window) (auto simp: occurs_at_def)
    have "0 < length bf" using less.prems(2) by linarith
    note step = search_loop_step [OF less.prems(1) True stp this]
    show ?thesis
    proof (cases "first_occurrence (needle fi) ?W")
      case (Some i)
      then have i: "i \<le> stp" "occurs_at (needle fi) ?P (off + i)" "\<forall>j < i. \<not> occurs_at (needle fi) ?W j"
        by (auto simp: first_occurrence_Some_iff occ)
      have "\<not> occurs_at (needle fi) ?P j" if "j < off + i" for j
        using i(1,3) less.prems(5) that occ [of "j - off"] by (cases "j < off") auto
      then have "first_occurrence (needle fi) ?P = Some (off + i)"
        using i by (simp add: first_occurrence_Some_iff)
      then show ?thesis using step Some i(1) by (simp add: window_index_le)
    next
      case None
      then have none: "i \<le> stp \<Longrightarrow> \<not> occurs_at (needle fi) ?P (off + i)" for i
        using occ by (auto simp: first_occurrence_None_iff)
      have before: "\<forall>i < off + stp. \<not> occurs_at (needle fi) ?P i"
      proof (intro allI impI)
        fix i assume "i < off + stp"
        then show "\<not> occurs_at (needle fi) ?P i"
          using less.prems(5) none [of "i - off"] by (cases "i < off") auto
      qed
      have after: "off + stp < i" if "first_occurrence (needle fi) ?P = Some i" for i
        using that before none [of stp] by (metis first_occurrence_Some_iff le_refl nat_neq_iff)
      have "snd (search_loop rd addr n fi stp (off + stp) (?W @ drop (length ?W) bf)) =
        Ok (map_option (\<lambda>i. of_nat (window_index stp (i - (off + stp)))) (first_occurrence (needle fi) ?P))"
        using less.prems True stp before by (intro less.hyps) auto
      also have "\<dots> = Ok (map_option (\<lambda>i. of_nat (window_index stp (i - off))) (first_occurrence (needle fi) ?P))"
        using after window_index_step [OF stp]
        by (cases "first_occurrence (needle fi) ?P") (simp_all add: less_diff_conv flip: diff_diff_left)
      finally show ?thesis using step None by simp
    qed
  qed
qed

text \<open>The search that needs several reads decides whether the needle is in the page.\<close>

lemma search_windows:
  assumes "readable addr (unat page_size)" "length (needle fi) < length bf"
    and "length bf < unat page_size"
  shows "snd (search_default rd addr page_size fi bf) =
    Ok (map_option (\<lambda>i. of_nat (window_index (length bf - length (needle fi)) i))
      (first_occurrence (needle fi) (bytes_at byte (unat addr) (unat page_size))))"
  using assms search_loop_spec [of addr "unat page_size" bf "length bf - length (needle fi)" 0]
  by (simp add: search_default_def Let_def)

end

section \<open>Dumping\<close>

text \<open>\<open>write_all\<close> of a \<open>Vec<u8>\<close>.\<close>

definition vec_writer :: writer where
  "vec_writer out chunk = (out @ chunk, Ok ())"

context flat_memory
begin

text \<open>A mapping of \<open>k\<close> whole chunks is written byte for byte.\<close>

lemma dump_mapping_whole:
  assumes "readable (of_nat a) (k * dump_chunk)" "a < 2 ^ 64" "length buffer = dump_chunk"
  shows "\<exists>buffer'. dump_mapping rd vec_writer (a + k * dump_chunk) a buffer out =
      ((buffer', out @ bytes_at byte a (k * dump_chunk)), Ok ()) \<and> length buffer' = dump_chunk"
  using assms
proof (induction k arbitrary: a buffer out)
  case 0
  then show ?case by (simp add: dump_mapping.simps)
next
  case (Suc k)
  have pos: "0 < dump_chunk" by (simp add: dump_chunk_def)
  have a: "unat (of_nat a :: u64) = a" using Suc.prems(2) by (simp add: unat_of_nat)
  have range: "a + Suc k * dump_chunk < 2 ^ 64"
    using readable_range [OF Suc.prems(1)] a by simp
  have rd: "rd (of_nat a) buffer = (bytes_at byte a dump_chunk, Ok ())"
    using read_sub [OF Suc.prems(1), of buffer 0] Suc.prems(3) pos a by simp
  let ?a' = "a + dump_chunk" and ?b = "bytes_at byte a dump_chunk"
  have step: "dump_mapping rd vec_writer (a + Suc k * dump_chunk) a buffer out =
      dump_mapping rd vec_writer (?a' + k * dump_chunk) ?a' ?b (out @ ?b)"
    using pos rd by (subst dump_mapping.simps) (simp add: vec_writer_def ac_simps)
  show ?case
  proof (cases k)
    case 0
    then show ?thesis unfolding step by (simp add: dump_mapping.simps)
  next
    case (Suc k')
    have "readable (of_nat a + of_nat dump_chunk) (k * dump_chunk)"
      using Suc pos by (intro readable_sub [OF Suc.prems(1)]) auto
    then obtain b' where
      "dump_mapping rd vec_writer (?a' + k * dump_chunk) ?a' ?b (out @ ?b) =
        ((b', (out @ ?b) @ bytes_at byte ?a' (k * dump_chunk)), Ok ())" "length b' = dump_chunk"
      using Suc.IH [of ?a' ?b "out @ ?b"] range by (auto simp: Suc)
    then show ?thesis unfolding step by (simp add: bytes_at_append)
  qed
qed

definition whole_mapping :: "memory_map \<Rightarrow> bool" where
  "whole_mapping m \<longleftrightarrow> mm_start m \<le> mm_end m \<and> dump_chunk dvd unat (mm_end m) - unat (mm_start m) \<and>
     readable (mm_start m) (unat (mm_end m) - unat (mm_start m))"

lemma dump_mappings_whole:
  assumes "\<forall>m \<in> set ms. whole_mapping m" "length buffer = dump_chunk"
  shows "dump_mappings rd vec_writer ms buffer out =
    (out @ concat (map (\<lambda>m. bytes_at byte (unat (mm_start m)) (unat (mm_end m) - unat (mm_start m))) ms),
     Ok ())"
  using assms
proof (induction ms arbitrary: buffer out)
  case Nil
  then show ?case by simp
next
  case (Cons m ms)
  have m: "mm_start m \<le> mm_end m" "readable (mm_start m) (unat (mm_end m) - unat (mm_start m))"
    "dump_chunk dvd unat (mm_end m) - unat (mm_start m)"
    using Cons.prems by (auto simp: whole_mapping_def)
  then obtain k where k: "unat (mm_end m) - unat (mm_start m) = k * dump_chunk"
    by (metis dvd_def mult.commute)
  have e: "unat (mm_end m) = unat (mm_start m) + k * dump_chunk"
    using k m(1) by (simp add: word_le_nat_alt)
  have "unat (mm_start m) < 2 ^ 64" using unsigned_less [of "mm_start m", where 'a = nat] by simp
  then obtain buffer' where
    "dump_mapping rd vec_writer (unat (mm_end m)) (unat (mm_start m)) buffer out =
      ((buffer', out @ bytes_at byte (unat (mm_start m)) (k * dump_chunk)), Ok ())"
    "length buffer' = dump_chunk"
    using dump_mapping_whole [of "unat (mm_start m)" k buffer out] m(2) k e Cons.prems(2) by auto
  then show ?case using Cons.IH [of buffer'] Cons.prems(1) k by simp
qed

lemma dump_default_whole:
  assumes "\<forall>m \<in> set ms. whole_mapping m"
  shows "dump_default ms rd vec_writer out =
    (out @ concat (map (\<lambda>m. bytes_at byte (unat (mm_start m)) (unat (mm_end m) - unat (mm_start m))) ms),
     Ok ())"
  unfolding dump_default_def by (rule dump_mappings_whole [OF assms]) simp

text \<open>
  A last chunk that reaches past what is readable makes the whole dump fail: the default method
  reads a full buffer whatever is left of the mapping.
\<close>

lemma dump_mapping_partial:
  assumes "a < e" "\<not> readable (of_nat a) dump_chunk" "a + dump_chunk < 2 ^ 64"
    and "length buffer = dump_chunk"
  shows "snd (dump_mapping rd wr e a buffer out) \<noteq> Ok ()"
proof -
  have "unat (of_nat a :: u64) = a" using assms(3) by (simp add: unat_of_nat)
  then have "snd (rd (of_nat a) buffer) \<noteq> Ok ()"
    using read_unreadable [of "of_nat a" buffer] assms
    by (cases "buffer = []") (simp_all add: dump_chunk_def)
  then show ?thesis
    using assms(1) by (subst dump_mapping.simps) (auto split: prod.split result.split)
qed

end

section \<open>A byte slice is a flat memory\<close>

definition raw_readable :: "raw_memory \<Rightarrow> physical_address \<Rightarrow> nat \<Rightarrow> bool" where
  "raw_readable self a n \<longleftrightarrow> unat a + n \<le> length (raw_bytes self) \<and> unat a + n < 2 ^ 64"

lemma raw_read_spec:
  "raw_read_physical self a bf =
     (if unat a + length bf \<le> length (raw_bytes self)
      then (bytes_at (\<lambda>i. raw_bytes self ! i) (unat a) (length bf), Ok ())
      else (bf, Err OutOfBounds))"
  by (auto simp: raw_read_physical_def get_from_def bytes_at_slice)

interpretation raw: flat_memory "raw_read_physical self" "raw_readable self" "\<lambda>i. raw_bytes self ! i"
  by unfold_locales (auto simp: raw_readable_def raw_read_spec unat_add_of_nat)

interpretation raw_search: memory_search "raw_read_physical self" "raw_readable self"
  "\<lambda>i. raw_bytes self ! i" "naive_finder nd"
  by unfold_locales

section \<open>Remapping\<close>

definition covers :: "memory_map \<Rightarrow> physical_address \<Rightarrow> nat \<Rightarrow> bool" where
  "covers m a n \<longleftrightarrow> mm_start m \<le> a \<and> unat a + n \<le> unat (mm_end m)"

definition remap_wf :: "mem_remap \<Rightarrow> bool" where
  "remap_wf self \<longleftrightarrow>
     length (mr_mappings self) = length (remap_at self) \<and>
     list_all2 (\<lambda>m r. unat (mm_end m) - unat (mm_start m) < 2 ^ 63 \<and>
         unat r + (unat (mm_end m) - unat (mm_start m)) < 2 ^ 64) (mr_mappings self) (remap_at self) \<and>
     sorted_wrt (\<lambda>m m'. mm_end m \<le> mm_start m' \<or> mm_end m' \<le> mm_start m) (mr_mappings self)"

lemma pa_add_of_nat:
  "unat a + n < 2 ^ 64 \<Longrightarrow> pa_add a (of_nat n) = Ok (a + of_nat n)"
  by (simp add: pa_add_def add_chk_of_nat)

lemma covers_iff:
  assumes "unat a + n < 2 ^ 64"
  shows "covers m a n \<longleftrightarrow> mm_start m \<le> a \<and> a + of_nat n \<le> mm_end m"
  using assms by (simp add: covers_def word_le_nat_alt unat_add_of_nat)

lemma is_valid_default_iff:
  assumes "unat a + n < 2 ^ 64"
  shows "is_valid_default ms a n = Ok (\<exists>m \<in> set ms. covers m a n)"
  by (induction ms) (auto simp: covers_iff [OF assms] pa_add_of_nat [OF assms])

lemma remap_addr_step:
  assumes "unat a + n < 2 ^ 64" "i < length (mr_mappings self)"
    and "length (mr_mappings self) = length (remap_at self)"
  shows "remap_addr self a n i =
    (if covers (mr_mappings self ! i) a n
     then pa_add_i64 (remap_at self ! i) (pa_diff a (mm_start (mr_mappings self ! i)))
     else remap_addr self a n (i + 1))"
  using assms
  by (subst remap_addr.simps) (simp add: Let_def covers_iff pa_add_of_nat index_at_def)

lemma remap_addr_none:
  assumes "unat a + n < 2 ^ 64" "length (mr_mappings self) = length (remap_at self)"
    and "\<forall>j < length (mr_mappings self). i \<le> j \<longrightarrow> \<not> covers (mr_mappings self ! j) a n"
  shows "remap_addr self a n i = Err OutOfBounds"
  using assms(3)
proof (induction "length (mr_mappings self) - i" arbitrary: i)
  case 0
  then show ?case by (subst remap_addr.simps) simp
next
  case (Suc k)
  then show ?case using remap_addr_step [OF assms(1) _ assms(2), of i] by simp
qed

lemma remap_addr_first:
  assumes "unat a + n < 2 ^ 64" "length (mr_mappings self) = length (remap_at self)"
    and "k < length (mr_mappings self)" "covers (mr_mappings self ! k) a n"
    and "\<forall>j < k. i \<le> j \<longrightarrow> \<not> covers (mr_mappings self ! j) a n" "i \<le> k"
  shows "remap_addr self a n i =
    pa_add_i64 (remap_at self ! k) (pa_diff a (mm_start (mr_mappings self ! k)))"
  using assms(5,6)
proof (induction "k - i" arbitrary: i)
  case 0
  then show ?case using remap_addr_step [OF assms(1) assms(3,2)] assms(4) by simp
next
  case (Suc d)
  then have "i < k" by simp
  then show ?case
    using Suc remap_addr_step [OF assms(1) _ assms(2), of i] assms(3) by simp
qed

text \<open>With the mappings disjoint, at most one of them covers a range that is not empty.\<close>

lemma covers_unique:
  assumes "remap_wf self" "i < length (mr_mappings self)" "j < length (mr_mappings self)"
    and "covers (mr_mappings self ! i) a n" "covers (mr_mappings self ! j) a' n'"
    and "0 < n'" "unat a \<le> unat a'" "unat a' + n' \<le> unat a + n"
  shows "i = j"
proof (rule ccontr)
  assume "i \<noteq> j"
  then have "mm_end (mr_mappings self ! i) \<le> mm_start (mr_mappings self ! j) \<or>
      mm_end (mr_mappings self ! j) \<le> mm_start (mr_mappings self ! i)"
    using assms(1-3) unfolding remap_wf_def sorted_wrt_iff_nth_less by (metis linorder_neqE_nat)
  then show False using assms(4-8) by (auto simp: covers_def word_le_nat_alt)
qed

lemma remap_wf_nth:
  assumes "remap_wf self" "i < length (mr_mappings self)"
  shows "unat (mm_end (mr_mappings self ! i)) - unat (mm_start (mr_mappings self ! i)) < 2 ^ 63"
    and "unat (remap_at self ! i) +
      (unat (mm_end (mr_mappings self ! i)) - unat (mm_start (mr_mappings self ! i))) < 2 ^ 64"
  using assms by (auto simp: remap_wf_def list_all2_conv_all_nth)

lemma pa_add_diff:
  assumes "s \<le> a" "unat a - unat s < 2 ^ 63" "unat r + (unat a - unat s) < 2 ^ 64"
  shows "pa_add_i64 r (pa_diff a s) = Ok (r + (a - s))" and "unat (r + (a - s)) = unat r + (unat a - unat s)"
proof -
  have d: "unat (a - s) = unat a - unat s" by (rule unat_sub [OF assms(1)])
  then show "unat (r + (a - s)) = unat r + (unat a - unat s)"
    using assms(3) by (simp add: unat_word_ariths)
  have le: "unat s \<le> unat a" using assms(1) by (simp add: word_le_nat_alt)
  have "int (unat a - unat s) < int (2 ^ 63)" using assms(2) by (simp only: of_nat_less_iff)
  then have bounds: "int (unat a) - int (unat s) < 2 ^ 63" "- (2 ^ 63) \<le> int (unat a) - int (unat s)"
    using le by (simp_all only: of_nat_diff [OF le] of_nat_power of_nat_numeral)
  have "int (unat r + (unat a - unat s)) < int (2 ^ 64)" using assms(3) by (simp only: of_nat_less_iff)
  then have sum: "0 \<le> int (unat r) + (int (unat a) - int (unat s))"
    "int (unat r) + (int (unat a) - int (unat s)) < 2 ^ 64"
    using le by (simp_all only: of_nat_add of_nat_diff [OF le] of_nat_power of_nat_numeral)
  from bounds have "sint (a - s) = int (unat a) - int (unat s)"
    using sint_va_diff [of a s] unfolding va_diff_def by blast
  then show "pa_add_i64 r (pa_diff a s) = Ok (r + (a - s))"
    using sum le by (simp add: pa_add_i64_def pa_diff_def overflowing_add_signed_def of_nat_diff)
qed

lemma remap_addr_covered:
  assumes "remap_wf self" "k < length (mr_mappings self)" "covers (mr_mappings self ! k) a n" "0 < n"
  shows "remap_addr self a n 0 = Ok (remap_at self ! k + (a - mm_start (mr_mappings self ! k)))"
    and "unat (remap_at self ! k + (a - mm_start (mr_mappings self ! k))) =
      unat (remap_at self ! k) + (unat a - unat (mm_start (mr_mappings self ! k)))"
proof -
  let ?m = "mr_mappings self ! k"
  have range: "unat a + n < 2 ^ 64"
    using assms(3) unsigned_less [of "mm_end ?m", where 'a = nat] by (simp add: covers_def)
  have len: "length (mr_mappings self) = length (remap_at self)"
    using assms(1) by (simp add: remap_wf_def)
  have first: "\<forall>j < k. 0 \<le> j \<longrightarrow> \<not> covers (mr_mappings self ! j) a n"
    using covers_unique [OF assms(1) _ assms(2) _ assms(3,4), where a = a and n = n] assms(2)
    by (metis le_refl less_irrefl order.strict_trans)
  have b: "mm_start ?m \<le> a" "unat a - unat (mm_start ?m) < 2 ^ 63"
    "unat (remap_at self ! k) + (unat a - unat (mm_start ?m)) < 2 ^ 64"
    using remap_wf_nth [OF assms(1,2)] assms(3) by (auto simp: covers_def)
  show "remap_addr self a n 0 = Ok (remap_at self ! k + (a - mm_start ?m))"
    using remap_addr_first [OF range len assms(2,3) first] pa_add_diff(1) [OF b] by simp
  show "unat (remap_at self ! k + (a - mm_start ?m)) =
      unat (remap_at self ! k) + (unat a - unat (mm_start ?m))"
    by (rule pa_add_diff(2) [OF b])
qed

text \<open>
  A remapped read is the read of the other memory at the remapped address when one mapping holds the
  whole range, and an error that leaves the buffer alone when none does.
\<close>

lemma remap_read_covered:
  assumes "remap_wf self" "k < length (mr_mappings self)" "covers (mr_mappings self ! k) a (length bf)"
    and "bf \<noteq> []"
  shows "remap_read_physical self a bf =
    read_physical (mr_inner self) (remap_at self ! k + (a - mm_start (mr_mappings self ! k))) bf"
  using assms remap_addr_covered(1) [OF assms(1-3)]
  by (simp add: remap_read_physical_def remap_wf_def)

lemma remap_read_uncovered:
  assumes "remap_wf self" "unat a + length bf < 2 ^ 64"
    and "\<forall>m \<in> set (mr_mappings self). \<not> covers m a (length bf)"
  shows "remap_read_physical self a bf = (bf, Err OutOfBounds)"
  using assms remap_addr_none [OF assms(2), of self 0]
  by (simp add: remap_read_physical_def remap_wf_def)

definition remap_readable ::
  "mem_remap \<Rightarrow> (physical_address \<Rightarrow> nat \<Rightarrow> bool) \<Rightarrow> physical_address \<Rightarrow> nat \<Rightarrow> bool"
where
  "remap_readable self readable a n \<longleftrightarrow> 0 < n \<and>
     (\<exists>k < length (mr_mappings self). covers (mr_mappings self ! k) a n \<and>
        readable (remap_at self ! k + (a - mm_start (mr_mappings self ! k))) n)"

definition remap_byte :: "mem_remap \<Rightarrow> (nat \<Rightarrow> u8) \<Rightarrow> nat \<Rightarrow> u8" where
  "remap_byte self byte x =
     (case List.find (\<lambda>(m, r). unat (mm_start m) \<le> x \<and> x < unat (mm_end m))
             (zip (mr_mappings self) (remap_at self)) of
        Some (m, r) \<Rightarrow> byte (unat r + (x - unat (mm_start m)))
      | None \<Rightarrow> 0)"

lemma remap_byte_covered:
  assumes "remap_wf self" "k < length (mr_mappings self)" "covers (mr_mappings self ! k) a n" "i < n"
  shows "remap_byte self byte (unat a + i) =
    byte (unat (remap_at self ! k) + (unat a - unat (mm_start (mr_mappings self ! k))) + i)"
proof -
  let ?P = "\<lambda>(m, r). unat (mm_start m) \<le> unat a + i \<and> unat a + i < unat (mm_end m)"
  let ?z = "zip (mr_mappings self) (remap_at self)"
  have len: "length (mr_mappings self) = length (remap_at self)"
    using assms(1) by (simp add: remap_wf_def)
  have le: "unat (mm_start (mr_mappings self ! k)) \<le> unat a"
    using assms(3) by (simp add: covers_def word_le_nat_alt)
  have k: "?P (?z ! k)"
    using assms len by (simp add: covers_def word_le_nat_alt)
  have uniq: "\<not> ?P (?z ! j)" if j: "j < k" for j
  proof
    assume "?P (?z ! j)"
    then have "unat (mm_start (mr_mappings self ! j)) \<le> unat a + i"
      "unat a + i < unat (mm_end (mr_mappings self ! j))"
      using len j assms(2) by auto
    moreover have "mm_end (mr_mappings self ! j) \<le> mm_start (mr_mappings self ! k) \<or>
        mm_end (mr_mappings self ! k) \<le> mm_start (mr_mappings self ! j)"
      using assms(1,2) j by (auto simp: remap_wf_def sorted_wrt_iff_nth_less)
    ultimately show False using assms(3,4) by (auto simp: covers_def word_le_nat_alt)
  qed
  have "List.find ?P ?z = Some (mr_mappings self ! k, remap_at self ! k)"
    unfolding find_Some_iff using k uniq len assms(2) by (intro exI [of _ k]) auto
  then show ?thesis using le by (simp add: remap_byte_def add.assoc)
qed

locale remapped_memory = flat_memory +
  fixes self :: mem_remap
  assumes inner: "read_physical (mr_inner self) = rd"
    and wf: "remap_wf self"

sublocale remapped_memory \<subseteq> remap: flat_memory
  "remap_read_physical self" "remap_readable self readable" "remap_byte self byte"
proof
  fix a :: physical_address and bf :: buf
  assume r: "remap_readable self readable a (length bf)"
  then obtain k where k: "k < length (mr_mappings self)" "covers (mr_mappings self ! k) a (length bf)"
    "readable (remap_at self ! k + (a - mm_start (mr_mappings self ! k))) (length bf)" "0 < length bf"
    by (auto simp: remap_readable_def)
  show "remap_read_physical self a bf = (bytes_at (remap_byte self byte) (unat a) (length bf), Ok ())"
    using remap_read_covered [OF wf k(1,2)] read_readable [OF k(3)] k(4)
      remap_addr_covered(2) [OF wf k(1,2,4)] remap_byte_covered [OF wf k(1,2)]
    by (simp add: inner bytes_at_def)
next
  fix a :: physical_address and n i m :: nat
  assume r: "remap_readable self readable a n" and m: "0 < m" "i + m \<le> n"
  then obtain k where k: "k < length (mr_mappings self)" "covers (mr_mappings self ! k) a n"
    "readable (remap_at self ! k + (a - mm_start (mr_mappings self ! k))) n"
    by (auto simp: remap_readable_def)
  have range: "unat a + i < 2 ^ 64"
    using k(2) m unsigned_less [of "mm_end (mr_mappings self ! k)", where 'a = nat]
    by (simp add: covers_def)
  have "readable (remap_at self ! k + (a - mm_start (mr_mappings self ! k)) + of_nat i) m"
    by (rule readable_sub [OF k(3) m])
  moreover have "covers (mr_mappings self ! k) (a + of_nat i) m"
    using k(2) m(2) by (simp add: covers_def word_le_nat_alt unat_add_of_nat [OF range])
  ultimately show "remap_readable self readable (a + of_nat i) m"
    using k(1) m(1) unfolding remap_readable_def by (auto simp: algebra_simps)
next
  fix a :: physical_address and n :: nat
  assume "remap_readable self readable a n"
  then obtain k where "covers (mr_mappings self ! k) a n" by (auto simp: remap_readable_def)
  then show "unat a + n < 2 ^ 64"
    using unsigned_less [of "mm_end (mr_mappings self ! k)", where 'a = nat] by (simp add: covers_def)
next
  fix a :: physical_address and bf :: buf
  assume r: "\<not> remap_readable self readable a (length bf)" and bf: "bf \<noteq> []" and range: "unat a + length bf < 2 ^ 64"
  show "snd (remap_read_physical self a bf) \<noteq> Ok ()"
  proof (cases "\<exists>k < length (mr_mappings self). covers (mr_mappings self ! k) a (length bf)")
    case True
    then obtain k where k: "k < length (mr_mappings self)" "covers (mr_mappings self ! k) a (length bf)"
      by blast
    let ?a = "remap_at self ! k + (a - mm_start (mr_mappings self ! k))"
    have "\<not> readable ?a (length bf)" using r k bf by (auto simp: remap_readable_def)
    moreover have "unat ?a + length bf < 2 ^ 64"
      using remap_addr_covered(2) [OF wf k] bf remap_wf_nth(2) [OF wf k(1)] k(2)
      by (auto simp: covers_def word_le_nat_alt)
    ultimately show ?thesis
      using remap_read_covered [OF wf k bf] read_unreadable [of ?a bf] bf by (simp add: inner)
  next
    case False
    then show ?thesis
      using remap_read_uncovered [OF wf range] by (simp add: all_set_conv_all_nth)
  qed
qed

context remapped_memory
begin

lemma remap_flat: "flat_memory (remap_read_physical self) (remap_readable self readable) (remap_byte self byte)"
  by unfold_locales

end

end
