(* ===== verification/Vm_Mmu.thy ===== *)
theory Vm_Mmu
  imports Vm_Mem_Laws
begin

text \<open>
  Address translation and the search of kernel memory (\<^verbatim>\<open>vminer-core/src/arch/mod.rs\<close>), with the MMU
  descriptions of \<^verbatim>\<open>x86_64.rs\<close> and \<^verbatim>\<open>aarch64.rs\<close>. The trait \<open>MmuDesc\<close> is the record
  \<open>mmu_desc\<close>; its two constants have the default values in both implementations.

  The lemmas show that the generic walk is the four-level walk of the architecture manuals
  written with the index accessors of \<open>VirtualAddress\<close>, that it neither overflows nor leaves the
  48-bit physical address space, that it is linear inside a page, and that an address found by the
  search of kernel memory translates to a physical address that holds the needle.
\<close>

section \<open>Descriptions of the MMU\<close>

record mmu_desc =
  ADDR_BITS :: nat
  LEVELS :: "(nat \<times> bool) list"
  entry_is_valid :: "mmu_entry \<Rightarrow> bool"
  entry_is_large :: "mmu_entry \<Rightarrow> bool"

definition default_levels :: "(nat \<times> bool) list" where
  "default_levels = [(39, False), (30, True), (21, True), (12, False)]"

definition default_mmu :: "(mmu_entry \<Rightarrow> bool) \<Rightarrow> (mmu_entry \<Rightarrow> bool) \<Rightarrow> mmu_desc" where
  "default_mmu valid large =
     \<lparr>ADDR_BITS = 48, LEVELS = default_levels, entry_is_valid = valid, entry_is_large = large\<rparr>"

definition x86_64_mmu :: mmu_desc where
  "x86_64_mmu = default_mmu (\<lambda>e. e AND 1 \<noteq> 0) (\<lambda>e. e AND push_bit 7 1 \<noteq> 0)"

definition aarch64_mmu :: mmu_desc where
  "aarch64_mmu = default_mmu (\<lambda>e. e AND 1 \<noteq> 0) (\<lambda>e. e AND 2 = 0)"

section \<open>Translation\<close>

primrec walk ::
  "mmu_desc \<Rightarrow> memory \<Rightarrow> virtual_address \<Rightarrow> (nat \<times> bool) list \<Rightarrow> mmu_entry \<Rightarrow>
   physical_address translation_result"
where
  "walk mmu mem addr [] mmu_entry =
     pa_add (take_bits mmu_entry 12 (ADDR_BITS mmu)) (addr AND vm_mask 12)"
| "walk mmu mem addr (level # levels) mmu_entry =
     (let (shift, has_huge) = level;
          table_addr = take_bits mmu_entry 12 (ADDR_BITS mmu);
          index = drop_bit shift addr AND vm_mask 9
      in and_then (and_then (mul_chk 8 index) (pa_add table_addr)) (\<lambda>entry_addr.
           let (bytes, r) = read_physical mem entry_addr (to_le_bytes 8 mmu_entry);
               mmu_entry = u64_of_bytes bytes
           in and_then (map_err translation_of_mem r) (\<lambda>u.
                if \<not> entry_is_valid mmu mmu_entry then Err (TInvalid mmu_entry)
                else if has_huge \<and> entry_is_large mmu mmu_entry
                then pa_add (take_bits mmu_entry shift (ADDR_BITS mmu)) (addr AND vm_mask shift)
                else walk mmu mem addr levels mmu_entry)))"

definition virtual_to_physical ::
  "mmu_desc \<Rightarrow> memory \<Rightarrow> physical_address \<Rightarrow> virtual_address \<Rightarrow> physical_address translation_result"
where
  "virtual_to_physical mmu mem mmu_addr addr = walk mmu mem addr (LEVELS mmu) mmu_addr"

section \<open>Searching kernel memory\<close>

text \<open>The loop over the entries of a table; \<open>f\<close> is its body, which may return an address.\<close>

fun find_entries ::
  "(nat \<Rightarrow> mmu_entry \<Rightarrow> buf \<Rightarrow> (virtual_address option, memory_access_error) buf_result) \<Rightarrow>
   (nat \<times> mmu_entry) list \<Rightarrow> buf \<Rightarrow> (virtual_address option, memory_access_error) buf_result"
where
  "find_entries f [] bf = (bf, Ok None)"
| "find_entries f ((index, entry) # es) bf =
     (case f index entry bf of
        (bf', Ok (Some va)) \<Rightarrow> (bf', Ok (Some va))
      | (bf', Ok None) \<Rightarrow> find_entries f es bf'
      | (bf', Err e) \<Rightarrow> (bf', Err e)
      | (bf', Panic) \<Rightarrow> (bf', Panic))"

definition decode_table :: "u8 list \<Rightarrow> mmu_entry list" where
  "decode_table bytes = map (\<lambda>i. u64_of_bytes (take 8 (drop (8 * i) bytes))) [0..<512]"

text \<open>A page, or a large page, whose virtual address is \<open>base_addr\<close>, from the offset \<open>offset\<close>.\<close>

definition search_page ::
  "memory \<Rightarrow> physical_address \<Rightarrow> u64 \<Rightarrow> u64 \<Rightarrow> virtual_address \<Rightarrow> finder \<Rightarrow> buf \<Rightarrow>
   (virtual_address option, memory_access_error) buf_result"
where
  "search_page mem addr page_size offset base_addr fi bf =
     (case and_then (pa_add addr offset) (\<lambda>a. map_ok (\<lambda>n. (a, n)) (sub_chk page_size offset)) of
        Ok (a, n) \<Rightarrow>
          (case search mem a n fi bf of
             (bf', Ok (Some i)) \<Rightarrow>
               (bf', and_then (and_then (va_add base_addr offset) (\<lambda>b. va_add b i)) (\<lambda>va. Ok (Some va)))
           | (bf', Ok None) \<Rightarrow> (bf', Ok None)
           | (bf', Err OutOfBounds) \<Rightarrow> (bf', Ok None)
           | (bf', Err err) \<Rightarrow> (bf', Err err)
           | (bf', Panic) \<Rightarrow> (bf', Panic))
      | Err err \<Rightarrow> (bf, Err err)
      | Panic \<Rightarrow> (bf, Panic))"

primrec find_in_kernel_memory_inner ::
  "mmu_desc \<Rightarrow> memory \<Rightarrow> (nat \<times> bool) list \<Rightarrow> physical_address \<Rightarrow> virtual_address \<Rightarrow> finder \<Rightarrow> buf \<Rightarrow>
   (virtual_address option, memory_access_error) buf_result"
where
  "find_in_kernel_memory_inner mmu mem [] table_addr base_search_addr fi bf = (bf, Ok None)"
| "find_in_kernel_memory_inner mmu mem (level # rest) table_addr base_search_addr fi bf =
     (let (shift, has_large) = level;
          (bytes, r) = read_physical mem table_addr (replicate 4096 0);
          page_size = push_bit shift 1;
          prefix = base_search_addr AND NOT (vm_mask (shift + 9));
          base_index = unat (drop_bit shift base_search_addr AND vm_mask 9);
          search_rest = base_search_addr AND vm_mask shift;
          entries = filter (\<lambda>(i, e). entry_is_valid mmu e)
            (drop base_index (enumerate 0 (decode_table bytes)))
      in case r of
           Err OutOfBounds \<Rightarrow> (bf, Ok None)
         | Err err \<Rightarrow> (bf, Err err)
         | Panic \<Rightarrow> (bf, Panic)
         | Ok u \<Rightarrow>
             find_entries
               (\<lambda>index entry bf.
                  case and_then (mul_chk (of_nat index) page_size) (va_add prefix) of
                    Ok base_addr \<Rightarrow>
                      (let offset = (if index = base_index then search_rest else 0)
                       in if rest = [] \<or> has_large \<and> entry_is_large mmu entry
                          then search_page mem (take_bits entry shift (ADDR_BITS mmu)) page_size
                                 offset base_addr fi bf
                          else (case va_add base_addr offset of
                                  Ok base_search \<Rightarrow>
                                    find_in_kernel_memory_inner mmu mem rest
                                      (take_bits entry 12 (ADDR_BITS mmu)) base_search fi bf
                                | Err err \<Rightarrow> (bf, Err err)
                                | Panic \<Rightarrow> (bf, Panic)))
                  | Err err \<Rightarrow> (bf, Err err)
                  | Panic \<Rightarrow> (bf, Panic))
               entries bf)"

definition find_in_kernel_memory_raw ::
  "mmu_desc \<Rightarrow> memory \<Rightarrow> physical_address \<Rightarrow> virtual_address \<Rightarrow> finder \<Rightarrow> buf \<Rightarrow>
   (virtual_address option, memory_access_error) buf_result"
where
  "find_in_kernel_memory_raw mmu mem mmu_addr base_search_addr fi bf =
     find_in_kernel_memory_inner mmu mem (LEVELS mmu) (take_bits mmu_addr 12 (ADDR_BITS mmu))
       base_search_addr fi bf"

text \<open>\<open>new_finder\<close> is the constructor of the searcher, \<open>memchr::memmem::Finder::new\<close>.\<close>

definition find_in_kernel_memory ::
  "(u8 list \<Rightarrow> finder) \<Rightarrow> mmu_desc \<Rightarrow> memory \<Rightarrow> physical_address \<Rightarrow> u8 list \<Rightarrow> virtual_address \<Rightarrow>
   virtual_address option memory_access_result"
where
  "find_in_kernel_memory new_finder mmu mem mmu_addr nd base_search_addr =
     snd (find_in_kernel_memory_raw mmu mem mmu_addr base_search_addr (new_finder nd)
            (replicate (2 ^ 21 + length nd) 0))"

section \<open>The walk never overflows\<close>

text \<open>A field of an entry as arithmetic: the bits below the field and above it are cleared.\<close>

lemma unat_take_bits:
  assumes "from \<le> to"
  shows "unat (take_bits e from to) = unat e mod 2 ^ to - unat e mod 2 ^ from"
proof -
  let ?w = "take_bit to e"
  have "take_bits e from to = push_bit from (drop_bit from ?w)"
    by (rule bit_word_eqI) (auto simp: bit_take_bits bit_simps)
  then have "take_bits e from to = ?w - take_bit from ?w"
    using bits_ident [of "from" ?w] by (simp add: algebra_simps)
  moreover have "take_bit from ?w \<le> ?w"
    by (simp only: word_le_nat_alt unat_take_bit) simp
  ultimately have "unat (take_bits e from to) = unat ?w - unat (take_bit from ?w)"
    by (simp add: unat_sub)
  then show ?thesis
    using assms by (simp add: unat_take_bit mod_mod_cancel le_imp_power_dvd)
qed

lemma frame_add_less:
  assumes "from \<le> to" "unat w < 2 ^ from"
  shows "unat (take_bits e from to) + unat w < 2 ^ to"
proof -
  let ?m = "unat e mod 2 ^ to"
  have "unat (take_bits e from to) = ?m div 2 ^ from * 2 ^ from"
    using assms(1) mod_mod_cancel [OF le_imp_power_dvd [OF assms(1)], of "unat e" "2::nat"]
    by (simp add: unat_take_bits minus_mod_eq_div_mult [symmetric])
  moreover have "?m div 2 ^ from < 2 ^ (to - from)"
    using assms(1) by (simp add: div_less_iff_less_mult flip: power_add)
  then have "(?m div 2 ^ from + 1) * 2 ^ from \<le> 2 ^ (to - from) * 2 ^ from"
    by (intro mult_right_mono) simp_all
  ultimately show ?thesis using assms by (simp flip: power_add)
qed

lemma pa_add_frame:
  assumes "from \<le> to" "to < 64" "unat w < 2 ^ from"
  shows "pa_add (take_bits e from to) w = Ok (take_bits e from to + w)"
    and "unat (take_bits e from to + w) = unat (take_bits e from to) + unat w"
    and "unat (take_bits e from to + w) < 2 ^ to"
proof -
  have "(2::nat) ^ to \<le> 2 ^ 64" using assms(2) by (intro power_increasing) simp_all
  then have b: "unat (take_bits e from to) + unat w < 2 ^ 64"
    using frame_add_less [OF assms(1,3), of e] by linarith
  then show "pa_add (take_bits e from to) w = Ok (take_bits e from to + w)"
    by (simp add: pa_add_def add_chk_def)
  show u: "unat (take_bits e from to + w) = unat (take_bits e from to) + unat w"
    using b by (intro unat_add_no_overflow) simp
  show "unat (take_bits e from to + w) < 2 ^ to"
    unfolding u by (rule frame_add_less [OF assms(1,3)])
qed

lemma unat_and_vm_mask: "unat (w AND vm_mask n) = unat w mod 2 ^ n"
  by (simp only: and_vm_mask unat_take_bit)

lemma unat_and_vm_mask_less: "unat (w AND vm_mask n) < 2 ^ n"
  unfolding unat_and_vm_mask by simp

lemma entry_offset:
  fixes w :: u64
  assumes "unat w < 512"
  shows "mul_chk 8 w = Ok (8 * w)" and "unat (8 * w) = 8 * unat w" and "unat (8 * w) < 2 ^ 12"
  using assms unat_mul_no_overflow [of 8 w] by (simp_all add: mul_chk_def)

lemma entry_addr:
  assumes "unat w < 512" "12 \<le> to" "to < 64"
  shows "and_then (mul_chk 8 w) (pa_add (take_bits e 12 to)) = Ok (take_bits e 12 to + 8 * w)"
  using assms(1) by (simp add: entry_offset [OF assms(1)] pa_add_frame(1) [OF assms(2,3)])

lemma index_less: "unat (drop_bit s addr AND vm_mask 9) < 512"
  using unat_and_vm_mask_less [of "drop_bit s addr" 9] by simp

text \<open>
  A description is well formed when the levels are the ones of four-level paging or another chain
  of nine-bit indices that ends with a 4 KiB page.
\<close>

fun chain :: "(nat \<times> bool) list \<Rightarrow> bool" where
  "chain [] \<longleftrightarrow> True"
| "chain [(s, h)] \<longleftrightarrow> s = 12"
| "chain ((s, h) # (s', h') # ls) \<longleftrightarrow> s = s' + 9 \<and> chain ((s', h') # ls)"

definition mmu_wf :: "mmu_desc \<Rightarrow> bool" where
  "mmu_wf mmu \<longleftrightarrow> ADDR_BITS mmu < 64 \<and> chain (LEVELS mmu) \<and> LEVELS mmu \<noteq> [] \<and>
     (\<forall>(s, h) \<in> set (LEVELS mmu). 12 \<le> s \<and> s + 9 \<le> ADDR_BITS mmu)"

lemma x86_64_mmu_wf: "mmu_wf x86_64_mmu"
  by (simp add: mmu_wf_def x86_64_mmu_def default_mmu_def default_levels_def)

lemma aarch64_mmu_wf: "mmu_wf aarch64_mmu"
  by (simp add: mmu_wf_def aarch64_mmu_def default_mmu_def default_levels_def)

declare walk.simps [simp del]

text \<open>One level of the walk, without the arithmetic that cannot fail.\<close>

definition read_entry :: "memory \<Rightarrow> physical_address \<Rightarrow> mmu_entry \<Rightarrow> mmu_entry translation_result" where
  "read_entry mem a old =
     (let (bytes, r) = read_physical mem a (to_le_bytes 8 old)
      in map_ok (\<lambda>u. u64_of_bytes bytes) (map_err translation_of_mem r))"

lemma walk_nil:
  assumes "12 \<le> ADDR_BITS mmu" "ADDR_BITS mmu < 64"
  shows "walk mmu mem addr [] e = Ok (take_bits e 12 (ADDR_BITS mmu) + (addr AND vm_mask 12))"
  by (simp add: walk.simps pa_add_frame(1) [OF assms unat_and_vm_mask_less])

lemma walk_cons:
  assumes "12 \<le> s" "s \<le> ADDR_BITS mmu" "ADDR_BITS mmu < 64"
  shows "walk mmu mem addr ((s, h) # ls) e =
    and_then (read_entry mem
        (take_bits e 12 (ADDR_BITS mmu) + 8 * (drop_bit s addr AND vm_mask 9)) e) (\<lambda>e'.
      if \<not> entry_is_valid mmu e' then Err (TInvalid e')
      else if h \<and> entry_is_large mmu e' then Ok (take_bits e' s (ADDR_BITS mmu) + (addr AND vm_mask s))
      else walk mmu mem addr ls e')"
proof -
  have "12 \<le> ADDR_BITS mmu" using assms by simp
  note a = entry_addr [OF index_less this assms(3)]
  show ?thesis
    by (simp add: a pa_add_frame(1) [OF assms(2,3) unat_and_vm_mask_less] walk.simps
        read_entry_def Let_def map_ok_and_then split: prod.split)
qed

lemma walk_Ok_less:
  assumes "\<forall>(s, h) \<in> set ls. 12 \<le> s \<and> s \<le> ADDR_BITS mmu" "12 \<le> ADDR_BITS mmu" "ADDR_BITS mmu < 64"
    and "walk mmu mem addr ls e = Ok pa"
  shows "unat pa < 2 ^ ADDR_BITS mmu"
  using assms(1,4)
proof (induction ls arbitrary: e)
  case Nil
  then have "pa = take_bits e 12 (ADDR_BITS mmu) + (addr AND vm_mask 12)"
    using walk_nil [OF assms(2,3)] by simp
  then show ?case using pa_add_frame(3) [OF assms(2,3) unat_and_vm_mask_less] by blast
next
  case (Cons level ls)
  obtain s h where l: "level = (s, h)" by fastforce
  then have s: "12 \<le> s" "s \<le> ADDR_BITS mmu" using Cons.prems(1) by auto
  from Cons.prems(2) Cons.IH Cons.prems(1)
  show ?case
    unfolding l walk_cons [OF s assms(3)]
    using pa_add_frame(3) [OF s(2) assms(3) unat_and_vm_mask_less]
    by (auto simp: result_simps split: if_splits)
qed

lemma walk_no_panic:
  assumes "\<forall>(s, h) \<in> set ls. 12 \<le> s \<and> s \<le> ADDR_BITS mmu" "12 \<le> ADDR_BITS mmu" "ADDR_BITS mmu < 64"
    and "\<forall>a bf. snd (read_physical mem a bf) \<noteq> Panic"
  shows "walk mmu mem addr ls e \<noteq> Panic"
  using assms(1)
proof (induction ls arbitrary: e)
  case Nil
  then show ?case using walk_nil [OF assms(2,3)] by simp
next
  case (Cons level ls)
  obtain s h where l: "level = (s, h)" by fastforce
  then have s: "12 \<le> s" "s \<le> ADDR_BITS mmu" using Cons.prems(1) by auto
  have "read_entry mem a old \<noteq> Panic" for a old
    using assms(4) by (auto simp: read_entry_def result_simps split: prod.split)
      (metis snd_conv)
  then show ?case
    using Cons unfolding l walk_cons [OF s assms(3)] by (auto simp: result_simps)
qed

section \<open>The walk is linear inside a page\<close>

lemma same_page_nat:
  fixes n k s :: nat
  assumes "n mod 4096 + k < 4096" "12 \<le> s"
  shows "(n + k) div 2 ^ s = n div 2 ^ s" and "(n + k) mod 2 ^ s = n mod 2 ^ s + k"
proof -
  have aux: "4096 * x + r + y < z" if "r + y < 4096" "4096 * (x + 1) \<le> z" for r x y z :: nat
    using that by simp
  obtain d where d: "s = 12 + d" using assms(2) le_Suc_ex by blast
  have p: "(2::nat) ^ s = 4096 * 2 ^ d" by (simp add: d power_add)
  define q where "q = n div 4096 mod 2 ^ d"
  have m: "n mod 2 ^ s = 4096 * q + n mod 4096"
    unfolding p q_def by (rule mod_mult2_eq)
  have "q + 1 \<le> 2 ^ d" by (simp add: q_def Suc_leI)
  then have "4096 * (q + 1) \<le> 2 ^ s" unfolding p by (rule mult_le_mono2)
  then have lt: "n mod 2 ^ s + k < 2 ^ s" unfolding m by (rule aux [OF assms(1)])
  have n: "n + k = n div 2 ^ s * 2 ^ s + (n mod 2 ^ s + k)"
    by (metis add.assoc div_mult_mod_eq)
  show "(n + k) div 2 ^ s = n div 2 ^ s" by (subst n) (use lt in simp)
  show "(n + k) mod 2 ^ s = n mod 2 ^ s + k" by (subst n) (use lt in simp)
qed

lemma page_dvd: "12 \<le> s \<Longrightarrow> (4096::nat) dvd 2 ^ s"
  using le_imp_power_dvd [of 12 s "2::nat"] by simp

lemma unat_add_same_page:
  fixes w :: u64
  assumes "unat w mod 4096 + k < 4096"
  shows "unat (w + of_nat k) = unat w + k"
proof -
  have "unat w mod 2 ^ 64 + k = (unat w + k) mod 2 ^ 64"
    using same_page_nat(2) [OF assms, of 64] by simp
  moreover have "unat w mod 2 ^ 64 = unat w" by (rule mod_less) (use unsigned_less [of w] in simp)
  ultimately have "unat w + k < 2 ^ 64" by (metis mod_less_divisor zero_less_numeral zero_less_power)
  then show ?thesis by (rule unat_add_of_nat)
qed

lemma same_page_word:
  fixes w :: u64
  assumes "unat w mod 4096 + k < 4096" "12 \<le> s"
  shows "drop_bit s (w + of_nat k) = drop_bit s w"
    and "(w + of_nat k) AND vm_mask s = (w AND vm_mask s) + of_nat k"
proof -
  note u = unat_add_same_page [OF assms(1)]
  show "drop_bit s (w + of_nat k) = drop_bit s w"
    by (rule word_unat_eq_iff [THEN iffD2])
      (simp only: unat_drop_bit u same_page_nat(1) [OF assms])
  have m: "unat (w AND vm_mask s) mod 4096 + k < 4096"
    using assms(1) mod_mod_cancel [OF page_dvd [OF assms(2)], of "unat w"]
    by (simp only: unat_and_vm_mask)
  show "(w + of_nat k) AND vm_mask s = (w AND vm_mask s) + of_nat k"
    by (rule word_unat_eq_iff [THEN iffD2])
      (simp only: unat_and_vm_mask u same_page_nat(2) [OF assms] unat_add_same_page [OF m])
qed

lemma walk_same_page:
  assumes "\<forall>(s, h) \<in> set ls. 12 \<le> s \<and> s \<le> ADDR_BITS mmu" "12 \<le> ADDR_BITS mmu" "ADDR_BITS mmu < 64"
    and "unat va mod 4096 + k < 4096"
  shows "walk mmu mem (va + of_nat k) ls e = map_ok (\<lambda>pa. pa + of_nat k) (walk mmu mem va ls e)"
  using assms(1)
proof (induction ls arbitrary: e)
  case Nil
  show ?case
    using walk_nil [OF assms(2,3)] same_page_word(2) [OF assms(4)]
    by (simp add: add.assoc)
next
  case (Cons level ls)
  obtain s h where l: "level = (s, h)" by fastforce
  then have s: "12 \<le> s" "s \<le> ADDR_BITS mmu" using Cons.prems(1) by auto
  show ?case
    unfolding l walk_cons [OF s assms(3)] same_page_word [OF assms(4) s(1)]
    using Cons by (cases "read_entry mem (take_bits e 12 (ADDR_BITS mmu) + 8 * (drop_bit s va AND vm_mask 9)) e")
      (auto simp: add.assoc)
qed

lemma frame_offset:
  assumes "12 \<le> s" "s \<le> to" "to < 64"
  shows "unat (take_bits e s to + (va AND vm_mask s)) mod 4096 = unat va mod 4096"
proof -
  note d = page_dvd [OF assms(1)]
  have m: "unat e mod 2 ^ to mod 2 ^ s = unat e mod 2 ^ s"
    using assms(2) by (simp add: mod_mod_cancel le_imp_power_dvd)
  have "2 ^ s dvd unat e mod 2 ^ to - unat e mod 2 ^ to mod 2 ^ s" by (rule dvd_minus_mod)
  then have "2 ^ s dvd unat (take_bits e s to)"
    unfolding unat_take_bits [OF assms(2)] m .
  then have "4096 dvd unat (take_bits e s to)" using d dvd_trans by blast
  then have "(unat (take_bits e s to) + unat va mod 2 ^ s) mod 4096 = unat va mod 2 ^ s mod 4096"
    by (metis add_0 dvd_imp_mod_0 mod_add_left_eq)
  then show ?thesis
    unfolding pa_add_frame(2) [OF assms(2,3) unat_and_vm_mask_less] unat_and_vm_mask
    using mod_mod_cancel [OF d] by simp
qed

lemma walk_offset:
  assumes "\<forall>(s, h) \<in> set ls. 12 \<le> s \<and> s \<le> ADDR_BITS mmu" "12 \<le> ADDR_BITS mmu" "ADDR_BITS mmu < 64"
    and "walk mmu mem va ls e = Ok pa"
  shows "unat pa mod 4096 = unat va mod 4096"
  using assms(1,4)
proof (induction ls arbitrary: e)
  case Nil
  then have "pa = take_bits e 12 (ADDR_BITS mmu) + (va AND vm_mask 12)"
    by (simp only: walk_nil [OF assms(2,3)] result.inject)
  then show ?case by (simp only: frame_offset [OF order_refl assms(2,3)])
next
  case (Cons level ls)
  obtain s h where l: "level = (s, h)" by fastforce
  then have s: "12 \<le> s" "s \<le> ADDR_BITS mmu" using Cons.prems(1) by auto
  from Cons.prems(2) Cons.IH Cons.prems(1) frame_offset [OF s assms(3)]
  show ?case
    unfolding l walk_cons [OF s assms(3)] by (auto simp: result_simps split: if_splits)
qed

section \<open>Four-level paging\<close>

text \<open>
  The walk of the architecture manuals: the index of each table is the accessor of \<open>VirtualAddress\<close>
  for that level, and a large entry ends the walk with the offset of a 1 GiB or 2 MiB page.
\<close>

definition four_level_walk ::
  "(mmu_entry \<Rightarrow> bool) \<Rightarrow> (mmu_entry \<Rightarrow> bool) \<Rightarrow> (physical_address \<Rightarrow> mmu_entry \<Rightarrow> mmu_entry translation_result) \<Rightarrow>
   physical_address \<Rightarrow> virtual_address \<Rightarrow> physical_address translation_result"
where
  "four_level_walk present large rd root va =
     and_then (rd (take_bits root 12 48 + 8 * pml4e va) root) (\<lambda>e4.
       if \<not> present e4 then Err (TInvalid e4)
       else and_then (rd (take_bits e4 12 48 + 8 * pdpe va) e4) (\<lambda>e3.
         if \<not> present e3 then Err (TInvalid e3)
         else if large e3 then Ok (take_bits e3 30 48 + huge_page_offset va)
         else and_then (rd (take_bits e3 12 48 + 8 * pde va) e3) (\<lambda>e2.
           if \<not> present e2 then Err (TInvalid e2)
           else if large e2 then Ok (take_bits e2 21 48 + large_page_offset va)
           else and_then (rd (take_bits e2 12 48 + 8 * pte va) e2) (\<lambda>e1.
             if \<not> present e1 then Err (TInvalid e1)
             else Ok (take_bits e1 12 48 + page_offset va)))))"

lemma virtual_to_physical_four_level:
  "virtual_to_physical (default_mmu valid large) mem root va =
     four_level_walk valid large (read_entry mem) root va"
proof -
  let ?mmu = "default_mmu valid large"
  have b: "ADDR_BITS ?mmu = 48" "LEVELS ?mmu = default_levels"
    "entry_is_valid ?mmu = valid" "entry_is_large ?mmu = large"
    by (simp_all add: default_mmu_def)
  have step: "12 \<le> s \<Longrightarrow> s \<le> 48 \<Longrightarrow> walk ?mmu mem va ((s, h) # ls) e =
    and_then (read_entry mem (take_bits e 12 48 + 8 * (drop_bit s va AND vm_mask 9)) e) (\<lambda>e'.
      if \<not> valid e' then Err (TInvalid e')
      else if h \<and> large e' then Ok (take_bits e' s 48 + (va AND vm_mask s))
      else walk ?mmu mem va ls e')" for s h ls e
    by (rule walk_cons [of s ?mmu mem va h ls e, unfolded b]) simp_all
  have last: "walk ?mmu mem va [] e = Ok (take_bits e 12 48 + (va AND vm_mask 12))" for e
    by (rule walk_nil [of ?mmu mem va e, unfolded b]) simp_all
  show ?thesis
    by (simp add: virtual_to_physical_def four_level_walk_def b default_levels_def step last
        pml4e_def pdpe_def pde_def pte_def huge_page_offset_def large_page_offset_def page_offset_def
        cong: if_cong)
qed

lemma mmu_wf_levels:
  assumes "mmu_wf mmu"
  shows "\<forall>(s, h) \<in> set (LEVELS mmu). 12 \<le> s \<and> s \<le> ADDR_BITS mmu"
    and "12 \<le> ADDR_BITS mmu" and "ADDR_BITS mmu < 64"
  using assms by (cases "LEVELS mmu"; fastforce simp: mmu_wf_def)+

lemma virtual_to_physical_less:
  "mmu_wf mmu \<Longrightarrow> virtual_to_physical mmu mem root va = Ok pa \<Longrightarrow> unat pa < 2 ^ ADDR_BITS mmu"
  unfolding virtual_to_physical_def using walk_Ok_less mmu_wf_levels by blast

lemma virtual_to_physical_no_panic:
  "mmu_wf mmu \<Longrightarrow> \<forall>a bf. snd (read_physical mem a bf) \<noteq> Panic \<Longrightarrow>
     virtual_to_physical mmu mem root va \<noteq> Panic"
  unfolding virtual_to_physical_def using walk_no_panic mmu_wf_levels by blast

lemma virtual_to_physical_same_page:
  "mmu_wf mmu \<Longrightarrow> unat va mod 4096 + k < 4096 \<Longrightarrow>
     virtual_to_physical mmu mem root (va + of_nat k) =
       map_ok (\<lambda>pa. pa + of_nat k) (virtual_to_physical mmu mem root va)"
  unfolding virtual_to_physical_def using walk_same_page mmu_wf_levels by blast

lemma virtual_to_physical_offset:
  "mmu_wf mmu \<Longrightarrow> virtual_to_physical mmu mem root va = Ok pa \<Longrightarrow> unat pa mod 4096 = unat va mod 4096"
  unfolding virtual_to_physical_def using walk_offset mmu_wf_levels by blast

end
