(* ===== verification/Vm_Find.thy ===== *)
theory Vm_Find
  imports Vm_Mmu
begin

text \<open>
  Soundness of the search of kernel memory (\<open>find_in_kernel_memory\<close> of
  \<^verbatim>\<open>vminer-core/src/arch/mod.rs\<close>). The locale \<open>kernel_search\<close> asks of the memory that its reads
  follow the flat contract and that an index returned by its \<open>search\<close> is one where the needle is.
  Then an address returned by the search is not below the requested one, has the same prefix, and
  translates to a physical address where the needle is.
\<close>

lemma find_entries_Some:
  assumes "find_entries f es bf = (bf', Ok (Some va))"
  shows "\<exists>i e b. (i, e) \<in> set es \<and> f i e b = (bf', Ok (Some va))"
  using assms
proof (induction f es bf rule: find_entries.induct)
  case (1 f bf)
  then show ?case by simp
next
  case (2 f index entry es bf)
  obtain b r where f: "f index entry bf = (b, r)" by fastforce
  show ?case
  proof (cases r)
    case (Ok x)
    show ?thesis
    proof (cases x)
      case None
      then show ?thesis using 2 f Ok by fastforce
    next
      case (Some a)
      then show ?thesis using 2(2) f Ok by fastforce
    qed
  qed (use 2(2) f in auto)
qed

lemma valid_entries:
  assumes "(i, e) \<in> set (filter (\<lambda>(i, e). valid e) (drop n (enumerate 0 xs)))"
  shows "n \<le> i \<and> i < length xs \<and> e = xs ! i \<and> valid e"
proof -
  obtain j where j: "j < length (drop n (enumerate 0 xs))" "drop n (enumerate 0 xs) ! j = (i, e)"
    using assms by (auto simp: in_set_conv_nth)
  then have "n + j < length xs" "enumerate 0 xs ! (n + j) = (i, e)" by simp_all
  then show ?thesis using assms by (auto simp: nth_enumerate_eq)
qed

lemma length_decode_table [simp]: "length (decode_table bytes) = 512"
  by (simp add: decode_table_def)

lemma decode_table_nth:
  assumes "i < 512"
  shows "decode_table (bytes_at byte a 4096) ! i = u64_of_bytes (bytes_at byte (a + 8 * i) 8)"
proof -
  have "min 8 (4096 - 8 * i) = 8" using assms by simp
  then show ?thesis using assms by (simp add: decode_table_def)
qed

section \<open>Splitting an address at a level\<close>

text \<open>\<open>split_at s a p x o'\<close>: the address \<open>a\<close> has prefix \<open>p\<close>, index \<open>x\<close> and offset \<open>o'\<close> at the level \<open>s\<close>.\<close>

definition split_at :: "nat \<Rightarrow> virtual_address \<Rightarrow> nat \<Rightarrow> nat \<Rightarrow> nat \<Rightarrow> bool" where
  "split_at s a p x o' \<longleftrightarrow> unat a = (p * 512 + x) * 2 ^ s + o' \<and> x < 512 \<and> o' < 2 ^ s"

lemma split_atD:
  assumes "split_at s a p x o'"
  shows "unat a div 2 ^ (s + 9) = p" and "drop_bit s a AND vm_mask 9 = of_nat x"
    and "unat (a AND vm_mask s) = o'" and "unat a div 2 ^ s = p * 512 + x"
proof -
  have u: "unat a = (p * 512 + x) * 2 ^ s + o'" "x < 512" "o' < 2 ^ s"
    using assms by (simp_all add: split_at_def)
  show d: "unat a div 2 ^ s = p * 512 + x" using u by simp
  then show "unat a div 2 ^ (s + 9) = p"
    using u(2) by (simp add: power_add div_mult2_eq)
  show "unat (a AND vm_mask s) = o'" unfolding unat_and_vm_mask using u by simp
  have "unat (drop_bit s a AND vm_mask 9) = x"
    unfolding unat_and_vm_mask unat_drop_bit d using u(2) by simp
  then show "drop_bit s a AND vm_mask 9 = of_nat x" using u(2) by (simp add: word_unat_eq_iff unat_of_nat)
qed

lemma split_at_exists:
  "split_at s a (unat a div 2 ^ (s + 9)) (unat (drop_bit s a AND vm_mask 9)) (unat (a AND vm_mask s))"
proof -
  have "unat a div 2 ^ (s + 9) * 512 + unat a div 2 ^ s mod 512 = unat a div 2 ^ s"
    by (simp add: power_add div_mult2_eq)
  then show ?thesis
    by (simp add: split_at_def unat_and_vm_mask unat_drop_bit div_mult_mod_eq)
qed

lemma unat_prefix:
  assumes "n \<le> 64"
  shows "unat (w AND NOT (vm_mask n)) = unat w div 2 ^ n * 2 ^ n"
proof -
  have "w AND NOT (vm_mask n) = take_bits w n 64"
    by (rule bit_word_eqI) (auto simp: bit_take_bits bit_simps vm_mask_eq)
  moreover have "unat w mod 2 ^ 64 = unat w"
    by (rule mod_less) (use unsigned_less [of w, where 'a = nat] in simp)
  ultimately show ?thesis
    by (simp only: unat_take_bits [OF assms] minus_mod_eq_div_mult)
qed

lemma unat_page_size:
  assumes "s < 64"
  shows "unat (push_bit s 1 :: u64) = 2 ^ s"
proof -
  have "push_bit s 1 = (of_nat (2 ^ s) :: u64)" by (simp add: push_bit_eq_mult)
  moreover have "(2::nat) ^ s < 2 ^ 64" using assms by (intro power_strict_increasing) simp_all
  ultimately show ?thesis by (simp only: unat_of_nat) simp
qed

text \<open>The address of an entry's page, when the additions do not overflow.\<close>

lemma base_addr_split:
  assumes "and_then (mul_chk (of_nat x) (push_bit s 1)) (va_add (base AND NOT (vm_mask (s + 9)))) = Ok b"
    and "x < 512" "s + 9 \<le> 63"
  shows "split_at s b (unat base div 2 ^ (s + 9)) x 0"
proof -
  let ?q = "push_bit s 1 :: u64"
  have q: "unat ?q = 2 ^ s"
    using assms(3) by (intro unat_page_size) simp
  have x: "unat (of_nat x :: u64) = x" using assms(2) by (simp add: unat_of_nat)
  from assms(1) have m: "unat (of_nat x :: u64) * unat ?q < 2 ^ 64"
    and a: "unat (base AND NOT (vm_mask (s + 9))) + unat (of_nat x * ?q) < 2 ^ 64"
    and b: "b = (base AND NOT (vm_mask (s + 9))) + of_nat x * ?q"
    by (auto simp: result_simps va_add_def)
  have "unat b = unat base div 2 ^ (s + 9) * 2 ^ (s + 9) + x * 2 ^ s"
    unfolding b using assms(3) unat_add_no_overflow [of "base AND NOT (vm_mask (s + 9))" "of_nat x * ?q"] a
      unat_mul_no_overflow [of "of_nat x" ?q] m
    by (simp add: unat_prefix x q [simplified])
  then show ?thesis using assms(2) by (simp add: split_at_def power_add algebra_simps)
qed

lemma split_at_add:
  assumes "split_at s b p x 0" "n < 2 ^ s" "unat a = unat b + n"
  shows "split_at s a p x n"
  using assms by (simp add: split_at_def)

text \<open>The starting point of an entry is at or after the requested address.\<close>

lemma entry_start_ge:
  fixes base :: virtual_address
  assumes "unat (drop_bit s base AND vm_mask 9) \<le> x"
    and "split_at s b (unat base div 2 ^ (s + 9)) x 0"
  shows "unat base \<le> unat b +
    unat (if x = unat (drop_bit s base AND vm_mask 9) then base AND vm_mask s else 0)"
proof -
  let ?p = "unat base div 2 ^ (s + 9)" and ?x = "unat (drop_bit s base AND vm_mask 9)"
    and ?o = "unat (base AND vm_mask s)"
  have b: "unat base = (?p * 512 + ?x) * 2 ^ s + ?o" "?o < 2 ^ s"
    using split_at_exists [of s base] by (simp_all add: split_at_def)
  have a: "unat b = (?p * 512 + x) * 2 ^ s" using assms(2) by (simp add: split_at_def)
  show ?thesis
  proof (cases "x = ?x")
    case True
    then show ?thesis using a b by simp
  next
    case False
    then have "(?p * 512 + ?x + 1) * 2 ^ s \<le> (?p * 512 + x) * 2 ^ s"
      using assms(1) by (intro mult_right_mono) simp_all
    then have "(?p * 512 + ?x) * 2 ^ s + 2 ^ s \<le> (?p * 512 + x) * 2 ^ s"
      by (simp add: algebra_simps)
    then show ?thesis using a b by linarith
  qed
qed

section \<open>The search\<close>

locale kernel_search = flat_memory +
  fixes mem :: memory and mmu :: mmu_desc and fi :: finder
  assumes mem_read: "read_physical mem = rd"
    and search_sound: "search mem a n fi bf = (bf', Ok (Some i)) \<Longrightarrow>
      unat i + length (needle fi) \<le> unat n \<and>
      bytes_at byte (unat a + unat i) (length (needle fi)) = needle fi"
    and wf: "mmu_wf mmu"
    and needle_nonempty: "needle fi \<noteq> []"
begin

abbreviation holds_needle :: "physical_address \<Rightarrow> bool" where
  "holds_needle pa \<equiv> bytes_at byte (unat pa) (length (needle fi)) = needle fi"

text \<open>An entry read alone is the entry of the table read as a whole.\<close>

lemma read_entry_table:
  assumes "read_physical mem (take_bits e 12 (ADDR_BITS mmu)) (replicate 4096 0) = (bytes, Ok ())"
    and "x < 512"
  shows "read_entry mem (take_bits e 12 (ADDR_BITS mmu) + 8 * of_nat x) old = Ok (decode_table bytes ! x)"
proof -
  let ?t = "take_bits e 12 (ADDR_BITS mmu)"
  have "unat ?t + unat (0::u64) < 2 ^ ADDR_BITS mmu"
    by (rule frame_add_less [OF mmu_wf_levels(2) [OF wf]]) simp
  moreover have "(2::nat) ^ ADDR_BITS mmu \<le> 2 ^ 63"
    using mmu_wf_levels(3) [OF wf] by (intro power_increasing) simp_all
  ultimately have "unat ?t + 4096 < 2 ^ 64" by simp
  then have r: "readable ?t 4096"
    using read_unreadable [of ?t "replicate 4096 0"] assms(1) mem_read by fastforce
  have bytes: "bytes = bytes_at byte (unat ?t) 4096"
    using read_readable [of ?t "replicate 4096 0"] r assms(1) mem_read by simp
  have "rd (?t + of_nat (8 * x)) (to_le_bytes 8 old) = (bytes_at byte (unat ?t + 8 * x) 8, Ok ())"
    using read_sub [OF r, of "to_le_bytes 8 old" "8 * x"] assms(2) by simp
  then show ?thesis
    using assms(2) by (simp add: read_entry_def mem_read bytes decode_table_nth)
qed

text \<open>A page that holds the needle gives an address inside that page.\<close>

lemma search_page_Some:
  assumes "search_page mem (take_bits e s (ADDR_BITS mmu)) (push_bit s 1) off b fi bf = (bf', Ok (Some va))"
    and "split_at s b p x 0" "unat off < 2 ^ s" "12 \<le> s" "s \<le> ADDR_BITS mmu"
  shows "\<exists>n. split_at s va p x n \<and> unat off \<le> n \<and> unat va = unat b + n \<and>
    holds_needle (take_bits e s (ADDR_BITS mmu) + (va AND vm_mask s))"
proof -
  let ?f = "take_bits e s (ADDR_BITS mmu)"
  have bits: "ADDR_BITS mmu < 64" by (rule mmu_wf_levels(3) [OF wf])
  note off = pa_add_frame [OF assms(5) bits assms(3), of e]
  have q: "unat (push_bit s 1 :: u64) = 2 ^ s" using assms(5) bits by (intro unat_page_size) simp
  have size: "sub_chk (push_bit s 1) off = (Ok (push_bit s 1 - off) :: u64 memory_access_result)"
    and usize: "unat (push_bit s 1 - off) = 2 ^ s - unat off"
    using assms(3) q by (simp_all add: sub_chk_def word_le_nat_alt unat_sub)
  obtain b' r where sr: "search mem (?f + off) (push_bit s 1 - off) fi bf = (b', r)" by fastforce
  from assms(1) obtain i where i: "r = Ok (Some i)"
    and va: "and_then (va_add b off) (\<lambda>c. va_add c i) = (Ok va :: u64 memory_access_result)"
    unfolding search_page_def off(1) size and_then.simps map_ok.simps result.case prod.case sr
    by (auto simp: result_simps split: result.splits option.splits memory_access_error.splits)
  from va have uva: "unat va = unat b + unat off + unat i"
    by (auto simp: result_simps va_add_def unat_add_no_overflow)
  have sound: "unat i + length (needle fi) \<le> 2 ^ s - unat off"
    "bytes_at byte (unat (?f + off) + unat i) (length (needle fi)) = needle fi"
    using search_sound [of "?f + off" "push_bit s 1 - off" bf b' i] sr i usize by simp_all
  let ?n = "unat off + unat i"
  have n: "?n < 2 ^ s" using sound(1) needle_nonempty assms(3) by (cases "needle fi") auto
  have sp: "split_at s va p x ?n"
    by (rule split_at_add [OF assms(2) n]) (simp add: uva)
  then have "unat (va AND vm_mask s) = ?n" by (rule split_atD)
  then have "unat (?f + (va AND vm_mask s)) = unat (?f + off) + unat i"
    using pa_add_frame(2) [OF assms(5) bits unat_and_vm_mask_less, of e va] off(2) by simp
  then show ?thesis using sp uva sound(2) by (intro exI [of _ ?n]) simp
qed

lemma find_inner_sound:
  assumes "chain ls" "\<forall>(s, h) \<in> set ls. 12 \<le> s \<and> s + 9 \<le> ADDR_BITS mmu" "ls = (s, h) # rest"
    and "find_in_kernel_memory_inner mmu mem ls (take_bits e 12 (ADDR_BITS mmu)) base fi bf =
      (bf', Ok (Some va))"
  shows "\<exists>pa. walk mmu mem va ls e = Ok pa \<and> holds_needle pa \<and>
    unat base \<le> unat va \<and> unat va div 2 ^ (s + 9) = unat base div 2 ^ (s + 9)"
  using assms
proof (induction ls arbitrary: s h rest e base bf bf' va)
  case Nil
  then show ?case by simp
next
  case (Cons level ls)
  have l: "level = (s, h)" "ls = rest" using Cons.prems(3) by simp_all
  have s: "12 \<le> s" "s + 9 \<le> ADDR_BITS mmu" "s \<le> ADDR_BITS mmu" using Cons.prems(2) l by auto
  have bits: "ADDR_BITS mmu < 64" by (rule mmu_wf_levels(3) [OF wf])
  have s63: "s + 9 \<le> 63" using s(2) bits by simp
  let ?t = "take_bits e 12 (ADDR_BITS mmu)" and ?q = "push_bit s 1 :: u64"
  let ?prefix = "base AND NOT (vm_mask (s + 9))" and ?bi = "unat (drop_bit s base AND vm_mask 9)"
  obtain bytes r where rd: "read_physical mem ?t (replicate 4096 0) = (bytes, r)" by fastforce
  have r: "r = Ok ()"
    using Cons.prems(4) unfolding l find_in_kernel_memory_inner.simps Let_def rd
    by (auto split: result.splits memory_access_error.splits)
  note found = find_entries_Some [OF Cons.prems(4) [unfolded l find_in_kernel_memory_inner.simps
        Let_def rd r prod.case result.case]]
  then obtain x e' b where
    x: "(x, e') \<in> set (filter (\<lambda>(i, e). entry_is_valid mmu e) (drop ?bi (enumerate 0 (decode_table bytes))))"
    and body: "(case and_then (mul_chk (of_nat x) ?q) (va_add ?prefix) of
        Ok base_addr \<Rightarrow>
          (let offset = (if x = ?bi then base AND vm_mask s else 0)
           in if rest = [] \<or> h \<and> entry_is_large mmu e'
              then search_page mem (take_bits e' s (ADDR_BITS mmu)) ?q offset base_addr fi b
              else (case va_add base_addr offset of
                      Ok base_search \<Rightarrow>
                        find_in_kernel_memory_inner mmu mem rest
                          (take_bits e' 12 (ADDR_BITS mmu)) base_search fi b
                    | Err err \<Rightarrow> (b, Err err)
                    | Panic \<Rightarrow> (b, Panic)))
      | Err err \<Rightarrow> (b, Err err)
      | Panic \<Rightarrow> (b, Panic)) = (bf', Ok (Some va))"
    unfolding Let_def by blast
  have e': "?bi \<le> x" "x < 512" "e' = decode_table bytes ! x" "entry_is_valid mmu e'"
    using valid_entries [OF x] by auto
  let ?off = "if x = ?bi then base AND vm_mask s else 0"
  let ?p = "unat base div 2 ^ (s + 9)"
  have off: "unat ?off < 2 ^ s" using unat_and_vm_mask_less [of base s] by simp
  from body obtain c where
    c: "and_then (mul_chk (of_nat x) ?q) (va_add ?prefix) = (Ok c :: u64 memory_access_result)"
    by (auto split: result.splits)
  have sc: "split_at s c ?p x 0" by (rule base_addr_split [OF c e'(2) s63])
  have start: "unat base \<le> unat c + unat ?off"
    by (rule entry_start_ge [OF e'(1) sc])
  have entry: "read_entry mem (?t + 8 * of_nat x) e = Ok e'"
    using read_entry_table [OF rd [unfolded r] e'(2)] e'(3) by simp
  have step: "walk mmu mem va ((s, h) # rest) e =
      (if h \<and> entry_is_large mmu e' then Ok (take_bits e' s (ADDR_BITS mmu) + (va AND vm_mask s))
       else walk mmu mem va rest e')" if "split_at s va ?p x n" for n
    unfolding walk_cons [OF s(1,3) bits] split_atD(2) [OF that] entry using e'(4) by simp
  show ?case
  proof (cases "rest = [] \<or> h \<and> entry_is_large mmu e'")
    case True
    then have sp: "search_page mem (take_bits e' s (ADDR_BITS mmu)) ?q ?off c fi b = (bf', Ok (Some va))"
      using body unfolding c Let_def by simp
    obtain n where n: "split_at s va ?p x n" "unat ?off \<le> n" "unat va = unat c + n"
      "holds_needle (take_bits e' s (ADDR_BITS mmu) + (va AND vm_mask s))"
      using search_page_Some [OF sp sc off s(1,3)] by blast
    have "walk mmu mem va (level # ls) e = Ok (take_bits e' s (ADDR_BITS mmu) + (va AND vm_mask s))"
    proof (cases "h \<and> entry_is_large mmu e'")
      case False
      then have "rest = []" using True by blast
      then have "s = 12" using Cons.prems(1) l by simp
      then show ?thesis
        using step [OF n(1)] False \<open>rest = []\<close> l walk_nil [OF mmu_wf_levels(2,3) [OF wf]] by simp
    qed (use step [OF n(1)] l in simp)
    then show ?thesis using n start split_atD(1) [OF n(1)] by auto
  next
    case False
    then obtain s' h' rest' where rest: "rest = (s', h') # rest'" by (cases rest) auto
    have s': "s = s' + 9" "chain rest" using Cons.prems(1) l rest by simp_all
    from body False obtain d where d: "va_add c ?off = (Ok d :: u64 memory_access_result)"
      "find_in_kernel_memory_inner mmu mem rest (take_bits e' 12 (ADDR_BITS mmu)) d fi b = (bf', Ok (Some va))"
      unfolding c Let_def by (auto split: result.splits)
    have ud: "unat d = unat c + unat ?off"
      using d(1) by (auto simp: va_add_def result_simps unat_add_no_overflow)
    obtain pa where pa: "walk mmu mem va rest e' = Ok pa" "holds_needle pa" "unat d \<le> unat va"
      "unat va div 2 ^ s = unat d div 2 ^ s"
      using Cons.IH [unfolded l(2), OF s'(2) _ rest d(2)] Cons.prems(2) l s'(1) by auto
    have "split_at s d ?p x (unat ?off)" by (rule split_at_add [OF sc off ud])
    then have "unat va div 2 ^ s = ?p * 512 + x" using pa(4) split_atD(4) by metis
    then have sva: "split_at s va ?p x (unat va mod 2 ^ s)"
      using e'(2) by (simp add: split_at_def) (metis div_mult_mod_eq)
    show ?thesis
      using step [OF sva] pa False start ud split_atD(1) [OF sva] l by auto
  qed
qed

lemma find_in_kernel_memory_raw_sound:
  assumes "find_in_kernel_memory_raw mmu mem root base fi bf = (bf', Ok (Some va))"
  shows "\<exists>pa. virtual_to_physical mmu mem root va = Ok pa \<and> holds_needle pa \<and> base \<le> va"
proof -
  obtain s h rest where ls: "LEVELS mmu = (s, h) # rest"
    using wf by (cases "LEVELS mmu") (auto simp: mmu_wf_def)
  show ?thesis
    using find_inner_sound [OF _ _ ls assms [unfolded find_in_kernel_memory_raw_def]] wf
    unfolding virtual_to_physical_def mmu_wf_def word_le_nat_alt by blast
qed

end

section \<open>The search over a byte slice\<close>

lemma raw_search_sound:
  assumes "substring_finder fi" "raw_search self a n fi bf = (bf', Ok (Some i))"
  shows "unat i + length (needle fi) \<le> unat n \<and>
    bytes_at (\<lambda>i. raw_bytes self ! i) (unat a + unat i) (length (needle fi)) = needle fi"
proof -
  let ?hay = "drop (unat a) (take (unat a + unat n) (raw_bytes self))"
  from assms(2) obtain j where j: "find_in fi ?hay = Some j" "i = of_nat j"
    and len: "unat a + unat n \<le> length (raw_bytes self)" "unat a + unat n < 2 ^ 64"
    by (auto simp: raw_search_def result_simps get_range_def split: if_splits)
  have "occurs_at (needle fi) ?hay j"
    using j(1) assms(1) by (simp add: substring_finder.find_spec first_occurrence_Some_iff)
  then have o: "j + length (needle fi) \<le> unat n" "take (length (needle fi)) (drop j ?hay) = needle fi"
    using len(1) by (simp_all add: occurs_at_def)
  have "unat i = j" using j(2) o(1) len(2) by (simp add: unat_of_nat)
  moreover have "bytes_at (\<lambda>i. raw_bytes self ! i) (unat a + j) (length (needle fi)) =
      take (length (needle fi)) (drop j ?hay)"
    using o(1) len(1) by (simp add: bytes_at_slice drop_take min_def add.commute)
  ultimately show ?thesis using o by simp
qed

lemma raw_kernel_search:
  assumes "substring_finder fi" "needle fi \<noteq> []" "mmu_wf mmu"
  shows "kernel_search (raw_read_physical self) (raw_readable self) (\<lambda>i. raw_bytes self ! i)
    (raw_memory_impl self) mmu fi"
proof (rule kernel_search.intro [OF raw.flat_memory_axioms], unfold_locales)
  fix a n bf bf' i
  assume "search (raw_memory_impl self) a n fi bf = (bf', Ok (Some i))"
  then show "unat i + length (needle fi) \<le> unat n \<and>
      bytes_at (\<lambda>i. raw_bytes self ! i) (unat a + unat i) (length (needle fi)) = needle fi"
    by (intro raw_search_sound [OF assms(1)]) (simp add: raw_memory_impl_def)
qed (use assms in \<open>simp_all add: raw_memory_impl_def\<close>)

interpretation raw_kernel: kernel_search "raw_read_physical self" "raw_readable self"
  "\<lambda>i. raw_bytes self ! i" "raw_memory_impl self" x86_64_mmu "naive_finder (c # cs)"
  for self :: raw_memory and c :: u8 and cs :: "u8 list"
  by (rule raw_kernel_search [OF naive.substring_finder_axioms _ x86_64_mmu_wf])
    (simp add: naive_finder_def)

end
