(* ===== verification/Vm_Endian.thy ===== *)
theory Vm_Endian
  imports Vm_Addr
begin

text \<open>
  Byte orders (\<^verbatim>\<open>vminer-core/src/endian.rs\<close>). Every method of the trait \<open>Endianness\<close> goes through
  \<open>as_runtime_endian\<close>, so a byte order is its \<open>runtime_endian\<close>. \<open>from_le\<close>, \<open>from_be\<close>,
  \<open>from_le_bytes\<close> and \<open>from_be_bytes\<close> are the functions of the standard library on a little-endian
  host; the first argument of \<open>from_be\<close> is the size of the integer in bytes.
\<close>

type_synonym i16 = "16 word"

datatype runtime_endian = Big | Little

definition from_le :: "'w::len word \<Rightarrow> 'w word" where
  "from_le n = n"

definition from_be :: "nat \<Rightarrow> 'w::len word \<Rightarrow> 'w word" where
  "from_be k n = of_le_bytes (rev (to_le_bytes k n))"

definition from_le_bytes :: "u8 list \<Rightarrow> 'w::len word" where
  "from_le_bytes bytes = of_le_bytes bytes"

definition from_be_bytes :: "u8 list \<Rightarrow> 'w::len word" where
  "from_be_bytes bytes = of_le_bytes (rev bytes)"

definition little_endian :: runtime_endian where
  "little_endian = Little"

definition big_endian :: runtime_endian where
  "big_endian = Big"

definition as_runtime_endian :: "runtime_endian \<Rightarrow> runtime_endian" where
  "as_runtime_endian self = self"

definition is_little_endian :: "runtime_endian \<Rightarrow> bool" where
  "is_little_endian self \<longleftrightarrow> as_runtime_endian self = Little"

definition read_u16 :: "runtime_endian \<Rightarrow> u16 \<Rightarrow> u16" where
  "read_u16 self n = (case self of Little \<Rightarrow> from_le n | Big \<Rightarrow> from_be 2 n)"

definition read_i16 :: "runtime_endian \<Rightarrow> i16 \<Rightarrow> i16" where
  "read_i16 self n = (case self of Little \<Rightarrow> from_le n | Big \<Rightarrow> from_be 2 n)"

definition read_u32 :: "runtime_endian \<Rightarrow> u32 \<Rightarrow> u32" where
  "read_u32 self n = (case self of Little \<Rightarrow> from_le n | Big \<Rightarrow> from_be 4 n)"

definition read_i32 :: "runtime_endian \<Rightarrow> i32 \<Rightarrow> i32" where
  "read_i32 self n = (case self of Little \<Rightarrow> from_le n | Big \<Rightarrow> from_be 4 n)"

definition read_u64 :: "runtime_endian \<Rightarrow> u64 \<Rightarrow> u64" where
  "read_u64 self n = (case self of Little \<Rightarrow> from_le n | Big \<Rightarrow> from_be 8 n)"

definition read_i64 :: "runtime_endian \<Rightarrow> i64 \<Rightarrow> i64" where
  "read_i64 self n = (case self of Little \<Rightarrow> from_le n | Big \<Rightarrow> from_be 8 n)"

definition read_u16_bytes :: "runtime_endian \<Rightarrow> u8 list \<Rightarrow> u16" where
  "read_u16_bytes self bytes = (case self of Little \<Rightarrow> from_le_bytes bytes | Big \<Rightarrow> from_be_bytes bytes)"

definition read_i16_bytes :: "runtime_endian \<Rightarrow> u8 list \<Rightarrow> i16" where
  "read_i16_bytes self bytes = (case self of Little \<Rightarrow> from_le_bytes bytes | Big \<Rightarrow> from_be_bytes bytes)"

definition read_u32_bytes :: "runtime_endian \<Rightarrow> u8 list \<Rightarrow> u32" where
  "read_u32_bytes self bytes = (case self of Little \<Rightarrow> from_le_bytes bytes | Big \<Rightarrow> from_be_bytes bytes)"

definition read_i32_bytes :: "runtime_endian \<Rightarrow> u8 list \<Rightarrow> i32" where
  "read_i32_bytes self bytes = (case self of Little \<Rightarrow> from_le_bytes bytes | Big \<Rightarrow> from_be_bytes bytes)"

definition read_u64_bytes :: "runtime_endian \<Rightarrow> u8 list \<Rightarrow> u64" where
  "read_u64_bytes self bytes = (case self of Little \<Rightarrow> from_le_bytes bytes | Big \<Rightarrow> from_be_bytes bytes)"

definition read_i64_bytes :: "runtime_endian \<Rightarrow> u8 list \<Rightarrow> i64" where
  "read_i64_bytes self bytes = (case self of Little \<Rightarrow> from_le_bytes bytes | Big \<Rightarrow> from_be_bytes bytes)"

lemmas endian_value_defs = read_u16_def read_u32_def read_u64_def read_i16_def read_i32_def
  read_i64_def from_le_def from_be_def
lemmas endian_bytes_defs = read_u16_bytes_def read_u32_bytes_def read_u64_bytes_def
  read_i16_bytes_def read_i32_bytes_def read_i64_bytes_def from_le_bytes_def from_be_bytes_def

section \<open>Properties\<close>

lemma to_of_le_bytes_len:
  "length bs = k \<Longrightarrow> 8 * k \<le> LENGTH('w::len) \<Longrightarrow> to_le_bytes k (of_le_bytes bs :: 'w word) = bs"
  using to_of_le_bytes [of bs] by blast

lemma of_to_le_bytes_full:
  "LENGTH('w::len) = 8 * k \<Longrightarrow> of_le_bytes (to_le_bytes k w) = (w :: 'w word)"
  by (simp add: of_to_le_bytes take_bit_word_eq_self)

lemma from_be_involution:
  "LENGTH('w::len) = 8 * k \<Longrightarrow> from_be k (from_be k n) = (n :: 'w word)"
  by (simp add: from_be_def to_of_le_bytes_len of_to_le_bytes_full)

text \<open>
  Decoding an integer that was copied from guest memory agrees with decoding the copied bytes, for
  every width and byte order; converting twice gives the integer back.
\<close>

lemma read_value_bytes:
  "length b2 = 2 \<Longrightarrow> read_u16 e (of_le_bytes b2) = read_u16_bytes e b2"
  "length b4 = 4 \<Longrightarrow> read_u32 e (of_le_bytes b4) = read_u32_bytes e b4"
  "length b8 = 8 \<Longrightarrow> read_u64 e (of_le_bytes b8) = read_u64_bytes e b8"
  "length b2 = 2 \<Longrightarrow> read_i16 e (of_le_bytes b2) = read_i16_bytes e b2"
  "length b4 = 4 \<Longrightarrow> read_i32 e (of_le_bytes b4) = read_i32_bytes e b4"
  "length b8 = 8 \<Longrightarrow> read_i64 e (of_le_bytes b8) = read_i64_bytes e b8"
  by (simp_all add: endian_value_defs endian_bytes_defs to_of_le_bytes_len
      split: runtime_endian.split)

lemma read_value_involution:
  "read_u16 e (read_u16 e n2) = n2"
  "read_u32 e (read_u32 e n4) = n4"
  "read_u64 e (read_u64 e n8) = n8"
  "read_i16 e (read_i16 e n2) = n2"
  "read_i32 e (read_i32 e n4) = n4"
  "read_i64 e (read_i64 e n8) = n8"
  by (simp_all add: endian_value_defs to_of_le_bytes_len of_to_le_bytes_full
      split: runtime_endian.split)

end
