(* ===== verification/Vm_Arch.thy ===== *)
theory Vm_Arch
  imports Vm_Find Vm_Endian
begin

text \<open>
  Architectures and virtual processors (\<^verbatim>\<open>vminer-core/src/arch/\<close>). The trait \<open>HasVcpus\<close> is the
  record \<open>vcpu_regs\<close> of its required methods, extended by \<open>vcpus\<close> with the provided ones; it is
  polymorphic in the register types as the trait is in \<open>Self::Arch\<close>. The trait \<open>Architecture\<close> is
  the record \<open>arch_impl\<close>, with the instances \<open>x86_64_arch\<close>, \<open>aarch64_arch\<close> and the one that
  dispatches at run time. A \<open>VcpuId\<close> is its index. \<open>new_finder\<close> is \<open>memchr::memmem::Finder::new\<close>.
\<close>

section \<open>Registers\<close>

record x86_registers =
  rax :: u64
  rbx :: u64
  rcx :: u64
  rdx :: u64
  rsi :: u64
  rdi :: u64
  rsp :: u64
  rbp :: u64
  r8 :: u64
  r9 :: u64
  r10 :: u64
  r11 :: u64
  r12 :: u64
  r13 :: u64
  r14 :: u64
  r15 :: u64
  rip :: u64
  rflags :: u64

record segment =
  seg_base :: u64
  seg_limit :: u32
  seg_selector :: u16
  seg_type :: u8
  seg_present :: u8
  seg_dpl :: u8
  seg_db :: u8
  seg_s :: u8
  seg_l :: u8
  seg_g :: u8
  seg_avl :: u8
  seg_unusable :: u8
  seg_padding :: u8

record dtable =
  dt_base :: u64
  dt_limit :: u16
  dt_padding :: "u16 list"

record x86_special_registers =
  sr_cs :: segment
  sr_ds :: segment
  sr_es :: segment
  sr_fs :: segment
  sr_gs :: segment
  sr_ss :: segment
  sr_tr :: segment
  sr_ldt :: segment
  sr_gdt :: dtable
  sr_idt :: dtable
  cr0 :: u64
  cr2 :: u64
  cr3 :: u64
  cr4 :: u64
  cr8 :: u64
  efer :: u64
  apic_base :: u64
  interrupt_bitmap :: "u64 list"

record x86_other_registers =
  lstar :: u64
  gs_kernel_base :: u64

record arm_registers =
  arm_regs :: "u64 list"
  arm_sp :: u64
  arm_pc :: u64
  arm_pstate :: u64

record arm_special_registers =
  sp_el1 :: u64
  ttbr0_el1 :: u64
  ttbr1_el1 :: u64
  vbar_el1 :: u64

datatype arm_other_registers = ArmOther

record ('r, 's, 'o) vcpu =
  vcpu_registers :: 'r
  vcpu_special :: 's
  vcpu_other :: 'o

datatype runtime_registers = RegsX86 x86_registers | RegsAarch64 arm_registers
datatype runtime_special = SpecialX86 x86_special_registers | SpecialAarch64 arm_special_registers
datatype runtime_other = OtherX86 x86_other_registers | OtherAarch64 arm_other_registers
datatype architecture = X86_64 | Aarch64

section \<open>Virtual processors\<close>

record ('r, 's, 'o) vcpu_regs =
  vcpus_count :: nat
  registers :: "nat \<Rightarrow> 'r vcpu_result"
  special_registers :: "nat \<Rightarrow> 's vcpu_result"
  other_registers :: "nat \<Rightarrow> 'o vcpu_result"

record ('r, 's, 'o) vcpus = "('r, 's, 'o) vcpu_regs" +
  register_by_name :: "nat \<Rightarrow> string \<Rightarrow> u64 vcpu_result"
  instruction_pointer :: "nat \<Rightarrow> virtual_address vcpu_result"
  stack_pointer :: "nat \<Rightarrow> virtual_address vcpu_result"
  base_pointer :: "nat \<Rightarrow> virtual_address option vcpu_result"
  pgd :: "nat \<Rightarrow> physical_address vcpu_result"
  kernel_per_cpu :: "nat \<Rightarrow> virtual_address option vcpu_result"

definition iter_vcpus :: "('r, 's, 'o, 'z) vcpu_regs_scheme \<Rightarrow> nat list" where
  "iter_vcpus self = [0..<vcpus_count self]"

record ('r, 's, 'o) arch_impl =
  into_runtime :: architecture
  endianness :: runtime_endian
  arch_virtual_to_physical ::
    "memory \<Rightarrow> physical_address \<Rightarrow> virtual_address \<Rightarrow> physical_address translation_result"
  arch_find_kernel_pgd ::
    "memory \<Rightarrow> ('r, 's, 'o) vcpus \<Rightarrow> bool \<Rightarrow> virtual_address list \<Rightarrow> physical_address option vm_result"
  arch_find_in_kernel_memory_raw ::
    "memory \<Rightarrow> physical_address \<Rightarrow> virtual_address \<Rightarrow> finder \<Rightarrow> buf \<Rightarrow>
     (virtual_address option, memory_access_error) buf_result"
  arch_find_in_kernel_memory ::
    "memory \<Rightarrow> physical_address \<Rightarrow> u8 list \<Rightarrow> virtual_address option memory_access_result"
  kernel_base :: virtual_address
  arch_register_by_name :: "('r, 's, 'o) vcpu_regs \<Rightarrow> nat \<Rightarrow> string \<Rightarrow> u64 vcpu_result"
  arch_instruction_pointer :: "('r, 's, 'o) vcpu_regs \<Rightarrow> nat \<Rightarrow> virtual_address vcpu_result"
  arch_stack_pointer :: "('r, 's, 'o) vcpu_regs \<Rightarrow> nat \<Rightarrow> virtual_address vcpu_result"
  arch_base_pointer :: "('r, 's, 'o) vcpu_regs \<Rightarrow> nat \<Rightarrow> virtual_address option vcpu_result"
  arch_pgd :: "('r, 's, 'o) vcpu_regs \<Rightarrow> nat \<Rightarrow> physical_address vcpu_result"
  arch_kernel_per_cpu :: "('r, 's, 'o) vcpu_regs \<Rightarrow> nat \<Rightarrow> virtual_address option vcpu_result"

text \<open>The provided methods of \<open>HasVcpus\<close>, which ask the architecture.\<close>

definition default_vcpus ::
  "('r, 's, 'o) arch_impl \<Rightarrow> ('r, 's, 'o) vcpu_regs \<Rightarrow> ('r, 's, 'o) vcpus"
where
  "default_vcpus arch self =
     \<lparr>vcpus_count = vcpus_count self, registers = registers self,
      special_registers = special_registers self, other_registers = other_registers self,
      register_by_name = arch_register_by_name arch self,
      instruction_pointer = arch_instruction_pointer arch self,
      stack_pointer = arch_stack_pointer arch self,
      base_pointer = arch_base_pointer arch self,
      pgd = arch_pgd arch self,
      kernel_per_cpu = arch_kernel_per_cpu arch self\<rparr>"

definition arc_vcpus :: "('r, 's, 'o) vcpus \<Rightarrow> ('r, 's, 'o) vcpus" where
  "arc_vcpus self =
     \<lparr>vcpus_count = vcpus_count self, registers = registers self,
      special_registers = special_registers self, other_registers = other_registers self,
      register_by_name = register_by_name self,
      instruction_pointer = instruction_pointer self,
      stack_pointer = stack_pointer self,
      base_pointer = base_pointer self,
      pgd = pgd self,
      kernel_per_cpu = kernel_per_cpu self\<rparr>"

section \<open>Guessing the kernel page directory\<close>

function try_from :: "(physical_address \<Rightarrow> (bool, 'e) result) \<Rightarrow> nat \<Rightarrow> (physical_address option, 'e) result" where
  "try_from test a =
     (if a < 2 ^ 32 - 1 then
        and_then (test (of_nat a)) (\<lambda>b. if b then Ok (Some (of_nat a)) else try_from test (a + 0x1000))
      else Ok None)"
  by pat_completeness auto
termination
  by (relation "measure (\<lambda>(test, a). 2 ^ 32 - 1 - a)") auto

declare try_from.simps [simp del]

definition try_all_addresses ::
  "(physical_address \<Rightarrow> (bool, 'e) result) \<Rightarrow> (physical_address option, 'e) result"
where
  "try_all_addresses test = try_from test 0"

fun per_cpu_addresses :: "('r, 's, 'o) vcpus \<Rightarrow> nat list \<Rightarrow> (virtual_address list, 'e) result" where
  "per_cpu_addresses self [] = Ok []"
| "per_cpu_addresses self (v # vs) =
     (case kernel_per_cpu self v of
        Ok (Some a) \<Rightarrow> map_ok (Cons a) (per_cpu_addresses self vs)
      | Ok None \<Rightarrow> per_cpu_addresses self vs
      | Err e \<Rightarrow> per_cpu_addresses self vs
      | Panic \<Rightarrow> Panic)"

fun all_translate ::
  "(virtual_address \<Rightarrow> physical_address translation_result) \<Rightarrow> memory \<Rightarrow> virtual_address list \<Rightarrow>
   (bool, 'e) result"
where
  "all_translate tr mem [] = Ok True"
| "all_translate tr mem (a # rest) =
     (case tr a of
        Ok pa \<Rightarrow>
          (case is_valid mem pa 1 of
             Ok b \<Rightarrow> if b then all_translate tr mem rest else Ok False
           | Err e \<Rightarrow> Ok False
           | Panic \<Rightarrow> Panic)
      | Err e \<Rightarrow> Ok False
      | Panic \<Rightarrow> Panic)"

text \<open>\<open>make_address_test\<close>: the outer result is the panic of collecting the addresses.\<close>

definition make_address_test ::
  "(memory \<Rightarrow> physical_address \<Rightarrow> virtual_address \<Rightarrow> physical_address translation_result) \<Rightarrow>
   ('r, 's, 'o) vcpus \<Rightarrow> memory \<Rightarrow> bool \<Rightarrow> virtual_address list list \<Rightarrow>
   (physical_address \<Rightarrow> (bool, 'e) result, 'e) result"
where
  "make_address_test v2p self mem use_per_cpu additional =
     and_then (if use_per_cpu then per_cpu_addresses self (iter_vcpus self) else Ok []) (\<lambda>per_cpu.
       Ok (\<lambda>addr. all_translate (v2p mem addr) mem (concat additional @ per_cpu)))"

section \<open>x86-64\<close>

definition x86_register_by_name ::
  "(x86_registers, 's, 'o, 'z) vcpu_regs_scheme \<Rightarrow> nat \<Rightarrow> string \<Rightarrow> u64 vcpu_result"
where
  "x86_register_by_name self vcpu name =
     and_then (registers self vcpu) (\<lambda>regs.
        if name = ''rax'' then Ok (rax regs)
        else if name = ''rbx'' then Ok (rbx regs)
        else if name = ''rcx'' then Ok (rcx regs)
        else if name = ''rdx'' then Ok (rdx regs)
        else if name = ''rsi'' then Ok (rsi regs)
        else if name = ''rdi'' then Ok (rdi regs)
        else if name = ''rsp'' then Ok (rsp regs)
        else if name = ''rbp'' then Ok (rbp regs)
        else if name = ''r8'' then Ok (r8 regs)
        else if name = ''r9'' then Ok (r9 regs)
        else if name = ''r10'' then Ok (r10 regs)
        else if name = ''r11'' then Ok (r11 regs)
        else if name = ''r12'' then Ok (r12 regs)
        else if name = ''r13'' then Ok (r13 regs)
        else if name = ''r14'' then Ok (r14 regs)
        else if name = ''r15'' then Ok (r15 regs)
        else if name = ''rip'' then Ok (rip regs)
        else if name = ''rflags'' then Ok (rflags regs)
        else Err UnknownRegister)"

definition x86_instruction_pointer ::
  "(x86_registers, 's, 'o, 'z) vcpu_regs_scheme \<Rightarrow> nat \<Rightarrow> virtual_address vcpu_result"
where
  "x86_instruction_pointer self vcpu = and_then (registers self vcpu) (\<lambda>regs. Ok (rip regs))"

definition x86_stack_pointer ::
  "(x86_registers, 's, 'o, 'z) vcpu_regs_scheme \<Rightarrow> nat \<Rightarrow> virtual_address vcpu_result"
where
  "x86_stack_pointer self vcpu = and_then (registers self vcpu) (\<lambda>regs. Ok (rsp regs))"

definition x86_base_pointer ::
  "(x86_registers, 's, 'o, 'z) vcpu_regs_scheme \<Rightarrow> nat \<Rightarrow> virtual_address option vcpu_result"
where
  "x86_base_pointer self vcpu = and_then (registers self vcpu) (\<lambda>regs. Ok (Some (rbp regs)))"

definition x86_pgd ::
  "('r, x86_special_registers, 'o, 'z) vcpu_regs_scheme \<Rightarrow> nat \<Rightarrow> physical_address vcpu_result"
where
  "x86_pgd self vcpu = and_then (special_registers self vcpu) (\<lambda>regs. Ok (cr3 regs))"

definition x86_kernel_per_cpu ::
  "('r, x86_special_registers, x86_other_registers, 'z) vcpu_regs_scheme \<Rightarrow> nat \<Rightarrow>
   virtual_address option vcpu_result"
where
  "x86_kernel_per_cpu self vcpu =
     and_then (special_registers self vcpu) (\<lambda>sregs.
       let per_cpu = seg_base (sr_gs sregs) in
       if is_kernel per_cpu then Ok (Some per_cpu)
       else and_then (other_registers self vcpu) (\<lambda>oregs.
         let per_cpu = gs_kernel_base oregs in
         if is_kernel per_cpu then Ok (Some per_cpu) else Ok None))"

text \<open>The loop over the CR3 registers.\<close>

fun first_pgd ::
  "('r, 's, 'o) vcpus \<Rightarrow> (physical_address \<Rightarrow> bool vm_result) \<Rightarrow> nat list \<Rightarrow> physical_address option vm_result"
where
  "first_pgd self test [] = Ok None"
| "first_pgd self test (vcpu # vs) =
     and_then (map_err vm_of_vcpu (pgd self vcpu)) (\<lambda>addr.
       and_then (test addr) (\<lambda>b. if b then Ok (Some addr) else first_pgd self test vs))"

definition x86_find_kernel_pgd ::
  "memory \<Rightarrow> (x86_registers, x86_special_registers, x86_other_registers) vcpus \<Rightarrow> bool \<Rightarrow>
   virtual_address list \<Rightarrow> physical_address option vm_result"
where
  "x86_find_kernel_pgd mem self use_per_cpu additional =
     (case other_registers self 0 of
        Panic \<Rightarrow> Panic
      | other \<Rightarrow>
          (let lstar = (case other of Ok regs \<Rightarrow> [lstar regs] | _ \<Rightarrow> [])
           in and_then (make_address_test (virtual_to_physical x86_64_mmu) self mem use_per_cpu
                  [additional, lstar]) (\<lambda>test.
                and_then (first_pgd self test (iter_vcpus self)) (\<lambda>found.
                  case found of Some addr \<Rightarrow> Ok (Some addr) | None \<Rightarrow> try_all_addresses test))))"

definition x86_kernel_base :: virtual_address where
  "x86_kernel_base = 0xfffff80000000000"

definition x86_64_arch ::
  "(u8 list \<Rightarrow> finder) \<Rightarrow> (x86_registers, x86_special_registers, x86_other_registers) arch_impl"
where
  "x86_64_arch new_finder =
     \<lparr>into_runtime = X86_64, endianness = little_endian,
      arch_virtual_to_physical = virtual_to_physical x86_64_mmu,
      arch_find_kernel_pgd = x86_find_kernel_pgd,
      arch_find_in_kernel_memory_raw = find_in_kernel_memory_raw x86_64_mmu,
      arch_find_in_kernel_memory = (\<lambda>mem mmu_addr nd.
        find_in_kernel_memory new_finder x86_64_mmu mem mmu_addr nd x86_kernel_base),
      kernel_base = x86_kernel_base,
      arch_register_by_name = x86_register_by_name,
      arch_instruction_pointer = x86_instruction_pointer,
      arch_stack_pointer = x86_stack_pointer,
      arch_base_pointer = x86_base_pointer,
      arch_pgd = x86_pgd,
      arch_kernel_per_cpu = x86_kernel_per_cpu\<rparr>"

section \<open>AArch64\<close>

definition arm_register_by_name ::
  "(arm_registers, 's, 'o, 'z) vcpu_regs_scheme \<Rightarrow> nat \<Rightarrow> string \<Rightarrow> u64 vcpu_result"
where
  "arm_register_by_name self vcpu name =
     and_then (registers self vcpu) (\<lambda>regs.
       ok_or UnknownRegister
         (if name \<noteq> [] \<and> hd name = CHR ''x'' then
            (case from_str_radix 10 64 (tl name) of
               None \<Rightarrow> None
             | Some n \<Rightarrow> if n = 0 then Some 0 else get_at (n - 1) (arm_regs regs))
          else if name = ''pc'' then Some (arm_pc regs)
          else if name = ''sp'' then Some (arm_sp regs)
          else if name = ''pstate'' then Some (arm_pstate regs)
          else None))"

definition arm_instruction_pointer ::
  "(arm_registers, 's, 'o, 'z) vcpu_regs_scheme \<Rightarrow> nat \<Rightarrow> virtual_address vcpu_result"
where
  "arm_instruction_pointer self vcpu = and_then (registers self vcpu) (\<lambda>regs. Ok (arm_pc regs))"

definition arm_stack_pointer ::
  "(arm_registers, arm_special_registers, 'o, 'z) vcpu_regs_scheme \<Rightarrow> nat \<Rightarrow> virtual_address vcpu_result"
where
  "arm_stack_pointer self vcpu =
     and_then (arm_instruction_pointer self vcpu) (\<lambda>ip.
       if is_kernel ip then map_ok sp_el1 (special_registers self vcpu)
       else map_ok arm_sp (registers self vcpu))"

definition arm_base_pointer ::
  "(arm_registers, 's, 'o, 'z) vcpu_regs_scheme \<Rightarrow> nat \<Rightarrow> virtual_address option vcpu_result"
where
  "arm_base_pointer self vcpu =
     and_then (registers self vcpu) (\<lambda>regs. and_then (index_at (arm_regs regs) 29) (\<lambda>fp. Ok (Some fp)))"

definition arm_pgd ::
  "(arm_registers, arm_special_registers, 'o, 'z) vcpu_regs_scheme \<Rightarrow> nat \<Rightarrow> physical_address vcpu_result"
where
  "arm_pgd self vcpu =
     and_then (special_registers self vcpu) (\<lambda>sregs.
       and_then (arm_instruction_pointer self vcpu) (\<lambda>ip.
         let ttbr = (if is_kernel ip then ttbr1_el1 sregs else ttbr0_el1 sregs)
         in Ok (ttbr AND vm_mask (ADDR_BITS aarch64_mmu))))"

definition arm_kernel_per_cpu ::
  "('r, 's, 'o, 'z) vcpu_regs_scheme \<Rightarrow> nat \<Rightarrow> virtual_address option vcpu_result"
where
  "arm_kernel_per_cpu self vcpu = Ok None"

text \<open>The loop that takes the page directory of the first processor in kernel mode.\<close>

fun first_kernel_pgd :: "('r, 's, 'o) vcpus \<Rightarrow> nat list \<Rightarrow> physical_address option vm_result" where
  "first_kernel_pgd self [] = Ok None"
| "first_kernel_pgd self (vcpu # vs) =
     and_then (map_err vm_of_vcpu (instruction_pointer self vcpu)) (\<lambda>ip.
       if is_kernel ip then map_ok Some (map_err vm_of_vcpu (pgd self vcpu))
       else first_kernel_pgd self vs)"

definition arm_find_kernel_pgd ::
  "memory \<Rightarrow> (arm_registers, arm_special_registers, arm_other_registers) vcpus \<Rightarrow> bool \<Rightarrow>
   virtual_address list \<Rightarrow> physical_address option vm_result"
where
  "arm_find_kernel_pgd mem self use_per_cpu additional =
     and_then (first_kernel_pgd self (iter_vcpus self)) (\<lambda>found.
       case found of
         Some addr \<Rightarrow> Ok (Some addr)
       | None \<Rightarrow>
           and_then (make_address_test (virtual_to_physical aarch64_mmu) self mem use_per_cpu
             [additional]) try_all_addresses)"

definition arm_kernel_base :: virtual_address where
  "arm_kernel_base = 0xffffa00000000000"

definition aarch64_arch ::
  "(u8 list \<Rightarrow> finder) \<Rightarrow> (arm_registers, arm_special_registers, arm_other_registers) arch_impl"
where
  "aarch64_arch new_finder =
     \<lparr>into_runtime = Aarch64, endianness = little_endian,
      arch_virtual_to_physical = virtual_to_physical aarch64_mmu,
      arch_find_kernel_pgd = arm_find_kernel_pgd,
      arch_find_in_kernel_memory_raw = find_in_kernel_memory_raw aarch64_mmu,
      arch_find_in_kernel_memory = (\<lambda>mem mmu_addr nd.
        find_in_kernel_memory new_finder aarch64_mmu mem mmu_addr nd arm_kernel_base),
      kernel_base = arm_kernel_base,
      arch_register_by_name = arm_register_by_name,
      arch_instruction_pointer = arm_instruction_pointer,
      arch_stack_pointer = arm_stack_pointer,
      arch_base_pointer = arm_base_pointer,
      arch_pgd = arm_pgd,
      arch_kernel_per_cpu = arm_kernel_per_cpu\<rparr>"

section \<open>Run-time dispatch\<close>

fun regs_as_x86 :: "runtime_registers \<Rightarrow> x86_registers vcpu_result" where
  "regs_as_x86 (RegsX86 regs) = Ok regs"
| "regs_as_x86 (RegsAarch64 regs) = Err BadArchitecture"

fun special_as_x86 :: "runtime_special \<Rightarrow> x86_special_registers vcpu_result" where
  "special_as_x86 (SpecialX86 regs) = Ok regs"
| "special_as_x86 (SpecialAarch64 regs) = Err BadArchitecture"

fun other_as_x86 :: "runtime_other \<Rightarrow> x86_other_registers vcpu_result" where
  "other_as_x86 (OtherX86 regs) = Ok regs"
| "other_as_x86 (OtherAarch64 regs) = Err BadArchitecture"

fun regs_as_arm :: "runtime_registers \<Rightarrow> arm_registers vcpu_result" where
  "regs_as_arm (RegsAarch64 regs) = Ok regs"
| "regs_as_arm (RegsX86 regs) = Err BadArchitecture"

fun special_as_arm :: "runtime_special \<Rightarrow> arm_special_registers vcpu_result" where
  "special_as_arm (SpecialAarch64 regs) = Ok regs"
| "special_as_arm (SpecialX86 regs) = Err BadArchitecture"

fun other_as_arm :: "runtime_other \<Rightarrow> arm_other_registers vcpu_result" where
  "other_as_arm (OtherAarch64 regs) = Ok regs"
| "other_as_arm (OtherX86 regs) = Err BadArchitecture"

text \<open>
  \<open>AssumeX86_64\<close> and \<open>AssumeAarch64\<close> of a \<open>HasVcpus\<close> whose registers convert into the run-time
  ones by \<open>into\<close>: the required methods only; the provided ones are the defaults.
\<close>

definition assume_x86_64 ::
  "('r \<Rightarrow> runtime_registers) \<Rightarrow> ('s \<Rightarrow> runtime_special) \<Rightarrow> ('o \<Rightarrow> runtime_other) \<Rightarrow>
   ('r, 's, 'o, 'z) vcpu_regs_scheme \<Rightarrow> (x86_registers, x86_special_registers, x86_other_registers) vcpu_regs"
where
  "assume_x86_64 into_r into_s into_o self =
     \<lparr>vcpus_count = vcpus_count self,
      registers = (\<lambda>v. and_then (registers self v) (\<lambda>r. regs_as_x86 (into_r r))),
      special_registers = (\<lambda>v. and_then (special_registers self v) (\<lambda>r. special_as_x86 (into_s r))),
      other_registers = (\<lambda>v. and_then (other_registers self v) (\<lambda>r. other_as_x86 (into_o r)))\<rparr>"

definition assume_aarch64 ::
  "('r \<Rightarrow> runtime_registers) \<Rightarrow> ('s \<Rightarrow> runtime_special) \<Rightarrow> ('o \<Rightarrow> runtime_other) \<Rightarrow>
   ('r, 's, 'o, 'z) vcpu_regs_scheme \<Rightarrow> (arm_registers, arm_special_registers, arm_other_registers) vcpu_regs"
where
  "assume_aarch64 into_r into_s into_o self =
     \<lparr>vcpus_count = vcpus_count self,
      registers = (\<lambda>v. and_then (registers self v) (\<lambda>r. regs_as_arm (into_r r))),
      special_registers = (\<lambda>v. and_then (special_registers self v) (\<lambda>r. special_as_arm (into_s r))),
      other_registers = (\<lambda>v. and_then (other_registers self v) (\<lambda>r. other_as_arm (into_o r)))\<rparr>"

abbreviation runtime_as_x86 ::
  "(runtime_registers, runtime_special, runtime_other, 'z) vcpu_regs_scheme \<Rightarrow>
   (x86_registers, x86_special_registers, x86_other_registers) vcpu_regs"
where
  "runtime_as_x86 \<equiv> assume_x86_64 id id id"

abbreviation runtime_as_arm ::
  "(runtime_registers, runtime_special, runtime_other, 'z) vcpu_regs_scheme \<Rightarrow>
   (arm_registers, arm_special_registers, arm_other_registers) vcpu_regs"
where
  "runtime_as_arm \<equiv> assume_aarch64 id id id"

definition runtime_arch ::
  "(u8 list \<Rightarrow> finder) \<Rightarrow> architecture \<Rightarrow> (runtime_registers, runtime_special, runtime_other) arch_impl"
where
  "runtime_arch new_finder self =
     (let x = x86_64_arch new_finder; a = aarch64_arch new_finder in
      \<lparr>into_runtime = self,
       endianness = (case self of X86_64 \<Rightarrow> as_runtime_endian (endianness x)
                                | Aarch64 \<Rightarrow> as_runtime_endian (endianness a)),
       arch_virtual_to_physical =
         (case self of X86_64 \<Rightarrow> arch_virtual_to_physical x | Aarch64 \<Rightarrow> arch_virtual_to_physical a),
       arch_find_kernel_pgd = (\<lambda>mem vcpus use_per_cpu additional.
         case self of
           X86_64 \<Rightarrow> arch_find_kernel_pgd x mem (default_vcpus x (runtime_as_x86 vcpus)) use_per_cpu additional
         | Aarch64 \<Rightarrow> arch_find_kernel_pgd a mem (default_vcpus a (runtime_as_arm vcpus)) use_per_cpu additional),
       arch_find_in_kernel_memory_raw =
         (case self of X86_64 \<Rightarrow> arch_find_in_kernel_memory_raw x
                     | Aarch64 \<Rightarrow> arch_find_in_kernel_memory_raw a),
       arch_find_in_kernel_memory =
         (case self of X86_64 \<Rightarrow> arch_find_in_kernel_memory x | Aarch64 \<Rightarrow> arch_find_in_kernel_memory a),
       kernel_base = (case self of X86_64 \<Rightarrow> kernel_base x | Aarch64 \<Rightarrow> kernel_base a),
       arch_register_by_name = (\<lambda>vcpus.
         case self of X86_64 \<Rightarrow> arch_register_by_name x (runtime_as_x86 vcpus)
                    | Aarch64 \<Rightarrow> arch_register_by_name a (runtime_as_arm vcpus)),
       arch_instruction_pointer = (\<lambda>vcpus.
         case self of X86_64 \<Rightarrow> arch_instruction_pointer x (runtime_as_x86 vcpus)
                    | Aarch64 \<Rightarrow> arch_instruction_pointer a (runtime_as_arm vcpus)),
       arch_stack_pointer = (\<lambda>vcpus.
         case self of X86_64 \<Rightarrow> arch_stack_pointer x (runtime_as_x86 vcpus)
                    | Aarch64 \<Rightarrow> arch_stack_pointer a (runtime_as_arm vcpus)),
       arch_base_pointer = (\<lambda>vcpus.
         case self of X86_64 \<Rightarrow> arch_base_pointer x (runtime_as_x86 vcpus)
                    | Aarch64 \<Rightarrow> arch_base_pointer a (runtime_as_arm vcpus)),
       arch_pgd = (\<lambda>vcpus.
         case self of X86_64 \<Rightarrow> arch_pgd x (runtime_as_x86 vcpus)
                    | Aarch64 \<Rightarrow> arch_pgd a (runtime_as_arm vcpus)),
       arch_kernel_per_cpu = (\<lambda>vcpus.
         case self of X86_64 \<Rightarrow> arch_kernel_per_cpu x (runtime_as_x86 vcpus)
                    | Aarch64 \<Rightarrow> arch_kernel_per_cpu a (runtime_as_arm vcpus))\<rparr>)"

section \<open>The guessed page directory translates the given addresses\<close>

definition translates :: "mmu_desc \<Rightarrow> memory \<Rightarrow> physical_address \<Rightarrow> virtual_address \<Rightarrow> bool" where
  "translates mmu mem root a \<longleftrightarrow>
     (\<exists>pa. virtual_to_physical mmu mem root a = Ok pa \<and> is_valid mem pa 1 = Ok True)"

lemma all_translate_True:
  "all_translate (virtual_to_physical mmu mem root) mem as = Ok True \<Longrightarrow> a \<in> set as \<Longrightarrow> translates mmu mem root a"
  by (induction as) (auto simp: translates_def split: result.splits if_splits)

lemma try_from_Some: "try_from test a = Ok (Some x) \<Longrightarrow> test x = Ok True"
proof (induction test a rule: try_from.induct)
  case (1 test a)
  then show ?case by (subst (asm) (2) try_from.simps) (auto simp: result_simps split: if_splits)
qed

lemma first_pgd_Some: "first_pgd self test vs = Ok (Some x) \<Longrightarrow> test x = Ok True"
  by (induction vs) (auto simp: result_simps split: if_splits)

lemma make_address_test_True:
  fixes test :: "physical_address \<Rightarrow> (bool, 'e) result"
  assumes "make_address_test (virtual_to_physical mmu) self mem use_per_cpu additional = Ok test"
    and "test root = Ok True" "a \<in> set (concat additional)"
  shows "translates mmu mem root a"
proof -
  from assms(1) obtain per_cpu where
    "test = (\<lambda>addr. all_translate (virtual_to_physical mmu mem addr) mem (concat additional @ per_cpu))"
    by (auto simp: make_address_test_def result_simps)
  then have "all_translate (virtual_to_physical mmu mem root) mem (concat additional @ per_cpu) =
      (Ok True :: (bool, 'e) result)"
    using assms(2) by simp
  then show ?thesis by (rule all_translate_True) (use assms(3) in auto)
qed

lemma x86_find_kernel_pgd_Some:
  assumes "x86_find_kernel_pgd mem self use_per_cpu additional = Ok (Some root)"
    and "a \<in> set additional \<or> (\<exists>regs. other_registers self 0 = Ok regs \<and> a = lstar regs)"
  shows "translates x86_64_mmu mem root a"
proof -
  define l where "l = (case other_registers self 0 of Ok regs \<Rightarrow> [lstar regs] | _ \<Rightarrow> [])"
  from assms(1) obtain test where
    t: "make_address_test (virtual_to_physical x86_64_mmu) self mem use_per_cpu [additional, l] = Ok test"
    and f: "first_pgd self test (iter_vcpus self) = Ok (Some root) \<or> try_all_addresses test = Ok (Some root)"
    unfolding x86_find_kernel_pgd_def l_def
    by (auto simp: result_simps Let_def split: result.splits option.splits)
  have "test root = Ok True"
    using f by (auto simp: try_all_addresses_def dest: first_pgd_Some try_from_Some)
  moreover have "a \<in> set (concat [additional, l])" using assms(2) by (auto simp: l_def)
  ultimately show ?thesis using make_address_test_True [OF t] by blast
qed

section \<open>Register names\<close>

lemma arm_register_x:
  assumes "registers self vcpu = Ok regs" "from_str_radix 10 64 ds = Some n"
  shows "arm_register_by_name self vcpu (CHR ''x'' # ds) =
    (if n = 0 then Ok 0
     else if n - 1 < length (arm_regs regs) then Ok (arm_regs regs ! (n - 1)) else Err UnknownRegister)"
  using assms by (simp add: arm_register_by_name_def ok_or_def get_at_def)

end
