(* ===== verification/Vm_Os.thy ===== *)
theory Vm_Os
  imports Vm_Trace Vm_Arch Vm_Symbols
begin

text \<open>
  The trait \<open>Os\<close> (\<^verbatim>\<open>vminer-core/src/os.rs\<close>): what the library knows of a guest operating system. The
  record \<open>os\<close> has the required methods and the provided ones that an implementation overrides; the
  other provided methods are the definitions below. A method \<open>for_each_*\<close> is the trace of its items.
  The handles \<open>Module\<close>, \<open>Thread\<close>, \<open>Process\<close> and \<open>Vma\<close> are the addresses they wrap. \<open>module_symbols\<close> is what
  the method returns; the index of modules behind it is in \<^theory_text>\<open>Vm_Symbols\<close>.
\<close>

type_synonym module = virtual_address
type_synonym thread = virtual_address
type_synonym process = virtual_address
type_synonym vma = virtual_address

section \<open>Flags\<close>

type_synonym vma_flags = u64

definition VMA_READ :: vma_flags where "VMA_READ = 0x1"
definition VMA_WRITE :: vma_flags where "VMA_WRITE = 0x2"
definition VMA_EXEC :: vma_flags where "VMA_EXEC = 0x4"

definition vma_bitor :: "vma_flags \<Rightarrow> vma_flags \<Rightarrow> vma_flags" where "vma_bitor self rhs = self OR rhs"

definition is_read :: "vma_flags \<Rightarrow> bool" where "is_read self \<longleftrightarrow> self AND VMA_READ \<noteq> 0"
definition is_write :: "vma_flags \<Rightarrow> bool" where "is_write self \<longleftrightarrow> self AND VMA_WRITE \<noteq> 0"
definition is_exec :: "vma_flags \<Rightarrow> bool" where "is_exec self \<longleftrightarrow> self AND VMA_EXEC \<noteq> 0"

section \<open>The trait\<close>

record stack_frame =
  frame_start :: "virtual_address option"
  frame_size :: "u64 option"
  frame_sp :: virtual_address
  frame_ip :: virtual_address
  frame_module :: "module option"

type_synonym os_read = "virtual_address \<Rightarrow> buf \<Rightarrow> (buf \<times> unit vm_result) option"

record ('r, 's, 'o) os =
  os_vcpus :: "('r, 's, 'o) vcpus"
  os_read_virtual_memory :: "physical_address \<Rightarrow> os_read"
  os_try_read_virtual_memory :: "physical_address \<Rightarrow> os_read"
  os_read_process_memory :: "process \<Rightarrow> physical_address \<Rightarrow> os_read"
  os_try_read_process_memory :: "process \<Rightarrow> physical_address \<Rightarrow> os_read"
  kernel_pgd :: physical_address
  for_each_kernel_module :: "module trace"
  init_process :: "process outcome"
  current_thread :: "nat \<Rightarrow> thread outcome"
  process_is_kernel :: "process \<Rightarrow> bool outcome"
  process_id :: "process \<Rightarrow> u64 outcome"
  process_name :: "process \<Rightarrow> string outcome"
  process_pgd :: "process \<Rightarrow> physical_address outcome"
  process_path :: "process \<Rightarrow> string option outcome"
  process_parent :: "process \<Rightarrow> process outcome"
  process_parent_id :: "process \<Rightarrow> u64 outcome"
  process_for_each_child :: "process \<Rightarrow> process trace"
  process_for_each_thread :: "process \<Rightarrow> thread trace"
  process_for_each_module :: "process \<Rightarrow> module trace"
  for_each_process :: "process trace"
  process_for_each_vma :: "process \<Rightarrow> vma trace"
  process_find_vma_by_address :: "process \<Rightarrow> virtual_address \<Rightarrow> vma option outcome"
  process_callstack_with_regs ::
    "process \<Rightarrow> virtual_address \<Rightarrow> virtual_address \<Rightarrow> virtual_address option \<Rightarrow> stack_frame trace"
  thread_process :: "thread \<Rightarrow> process outcome"
  thread_id :: "thread \<Rightarrow> u64 outcome"
  thread_name :: "thread \<Rightarrow> string option outcome"
  vma_path :: "vma \<Rightarrow> string option outcome"
  vma_start :: "vma \<Rightarrow> virtual_address outcome"
  vma_end :: "vma \<Rightarrow> virtual_address outcome"
  vma_flags_of :: "vma \<Rightarrow> vma_flags outcome"
  module_span :: "module \<Rightarrow> process \<Rightarrow> (virtual_address \<times> virtual_address) outcome"
  os_module_name :: "module \<Rightarrow> process \<Rightarrow> string outcome"
  os_module_path :: "module \<Rightarrow> process \<Rightarrow> string outcome"
  module_symbols_of :: "process \<Rightarrow> module \<Rightarrow> module_symbols option outcome"

section \<open>Searching and collecting\<close>

definition collect :: "'t trace \<Rightarrow> 't list outcome" where
  "collect t = map_option (\<lambda>(vec, r). map_ok (\<lambda>u. vec) r) (for_each push_to t [])"

definition find_in_trace :: "('t \<Rightarrow> bool outcome) \<Rightarrow> 't trace \<Rightarrow> 't option outcome" where
  "find_in_trace predicate t = map_option (\<lambda>(result, r). map_ok (\<lambda>u. result) r) (for_each (find_cb predicate) t None)"

definition read_kernel_memory :: "('r, 's, 'o, 'z) os_scheme \<Rightarrow> os_read" where
  "read_kernel_memory self addr bf = os_read_virtual_memory self (kernel_pgd self) addr bf"

definition default_read_process_memory :: "(physical_address \<Rightarrow> os_read) \<Rightarrow> process \<Rightarrow> physical_address \<Rightarrow> os_read" where
  "default_read_process_memory read_virtual proc mmu_addr addr bf = read_virtual mmu_addr addr bf"

definition default_try_read_process_memory :: "(physical_address \<Rightarrow> os_read) \<Rightarrow> process \<Rightarrow> physical_address \<Rightarrow> os_read" where
  "default_try_read_process_memory try_read_virtual proc mmu_addr addr bf = try_read_virtual mmu_addr addr bf"

definition current_process :: "('r, 's, 'o, 'z) os_scheme \<Rightarrow> nat \<Rightarrow> process outcome" where
  "current_process self vcpu = out_then (current_thread self vcpu) (thread_process self)"

definition find_process_by_name :: "('r, 's, 'o, 'z) os_scheme \<Rightarrow> string \<Rightarrow> process option outcome" where
  "find_process_by_name self name =
     find_in_trace (\<lambda>p. out_map (\<lambda>n. n = name) (process_name self p)) (for_each_process self)"

definition find_process_by_id :: "('r, 's, 'o, 'z) os_scheme \<Rightarrow> u64 \<Rightarrow> process option outcome" where
  "find_process_by_id self pid =
     find_in_trace (\<lambda>p. out_map (\<lambda>n. n = pid) (process_id self p)) (for_each_process self)"

definition process_collect_children :: "('r, 's, 'o, 'z) os_scheme \<Rightarrow> process \<Rightarrow> process list outcome" where
  "process_collect_children self proc = collect (process_for_each_child self proc)"

definition process_collect_threads :: "('r, 's, 'o, 'z) os_scheme \<Rightarrow> process \<Rightarrow> thread list outcome" where
  "process_collect_threads self proc = collect (process_for_each_thread self proc)"

definition process_collect_modules :: "('r, 's, 'o, 'z) os_scheme \<Rightarrow> process \<Rightarrow> module list outcome" where
  "process_collect_modules self proc = collect (process_for_each_module self proc)"

definition collect_processes :: "('r, 's, 'o, 'z) os_scheme \<Rightarrow> process list outcome" where
  "collect_processes self = collect (for_each_process self)"

definition process_collect_vmas :: "('r, 's, 'o, 'z) os_scheme \<Rightarrow> process \<Rightarrow> vma list outcome" where
  "process_collect_vmas self proc = collect (process_for_each_vma self proc)"

text \<open>The end is only read when the start is not above the address.\<close>

definition vma_contains ::
  "(vma \<Rightarrow> virtual_address outcome) \<Rightarrow> (vma \<Rightarrow> virtual_address outcome) \<Rightarrow> vma \<Rightarrow> virtual_address \<Rightarrow> bool outcome"
where
  "vma_contains start_of end_of v addr =
     out_then (start_of v) (\<lambda>s.
       if s \<le> addr then out_map (\<lambda>e. addr < e) (end_of v) else Some (Ok False))"

definition default_find_vma_by_address ::
  "(vma \<Rightarrow> virtual_address outcome) \<Rightarrow> (vma \<Rightarrow> virtual_address outcome) \<Rightarrow> (process \<Rightarrow> vma trace) \<Rightarrow>
   process \<Rightarrow> virtual_address \<Rightarrow> vma option outcome"
where
  "default_find_vma_by_address start_of end_of each_vma proc addr =
     find_in_trace (\<lambda>v. vma_contains start_of end_of v addr) (each_vma proc)"

section \<open>Call stacks\<close>

text \<open>The registers of the first processor that runs the process.\<close>

fun callstack_regs ::
  "('r, 's, 'o, 'z) os_scheme \<Rightarrow> process \<Rightarrow> nat list \<Rightarrow> (virtual_address \<times> virtual_address \<times> virtual_address option) outcome"
where
  "callstack_regs self proc [] = Some (Err (vm_new (DynStr ''Not a running process'')))"
| "callstack_regs self proc (vcpu # vcpus) =
     out_then (current_process self vcpu) (\<lambda>p.
       if p = proc then
         Some (and_then (map_err vm_of_vcpu (instruction_pointer (os_vcpus self) vcpu)) (\<lambda>ip.
           and_then (map_err vm_of_vcpu (stack_pointer (os_vcpus self) vcpu)) (\<lambda>sp.
           and_then (map_err vm_of_vcpu (base_pointer (os_vcpus self) vcpu)) (\<lambda>bp. Ok (ip, sp, bp)))))
       else callstack_regs self proc vcpus)"

definition process_callstack :: "('r, 's, 'o, 'z) os_scheme \<Rightarrow> process \<Rightarrow> stack_frame trace" where
  "process_callstack self proc =
     trace_then (callstack_regs self proc (iter_vcpus (os_vcpus self))) (\<lambda>(ip, sp, bp).
       process_callstack_with_regs self proc ip sp bp)"

section \<open>Modules and symbols\<close>

definition module_contains :: "('r, 's, 'o, 'z) os_scheme \<Rightarrow> module \<Rightarrow> process \<Rightarrow> virtual_address \<Rightarrow> bool outcome" where
  "module_contains self m proc addr =
     out_map (\<lambda>(start, e). start \<le> addr \<and> addr < e) (module_span self m proc)"

definition find_module_by_address :: "('r, 's, 'o, 'z) os_scheme \<Rightarrow> process \<Rightarrow> virtual_address \<Rightarrow> module option outcome" where
  "find_module_by_address self proc addr =
     find_in_trace (\<lambda>m. module_contains self m proc addr)
       (if is_kernel addr then for_each_kernel_module self else process_for_each_module self proc)"

text \<open>The common part of the two ways to resolve a symbol: the address inside the module.\<close>

definition module_resolve ::
  "(module_symbols \<Rightarrow> virtual_address \<Rightarrow> 'a option) \<Rightarrow> ('r, 's, 'o, 'z) os_scheme \<Rightarrow> virtual_address \<Rightarrow> process \<Rightarrow>
   module \<Rightarrow> 'a option outcome"
where
  "module_resolve lookup self addr proc m =
     out_then (module_symbols_of self proc m) (\<lambda>syms.
       case syms of
         None \<Rightarrow> Some (Ok None)
       | Some syms \<Rightarrow>
           out_then (module_span self m proc) (\<lambda>(mod_start, mod_end).
             if \<not> (mod_start \<le> addr \<and> addr < mod_end) then Some (Err (vm_new (DynStr ''address not in module'')))
             else Some (Ok (lookup syms (va_diff addr mod_start)))))"

definition module_resolve_symbol_exact ::
  "('r, 's, 'o, 'z) os_scheme \<Rightarrow> virtual_address \<Rightarrow> process \<Rightarrow> module \<Rightarrow> string option outcome"
where
  "module_resolve_symbol_exact self addr proc m = module_resolve get_symbol self addr proc m"

definition module_resolve_symbol ::
  "('r, 's, 'o, 'z) os_scheme \<Rightarrow> virtual_address \<Rightarrow> process \<Rightarrow> module \<Rightarrow> (string \<times> u64) option outcome"
where
  "module_resolve_symbol self addr proc m = module_resolve get_symbol_inexact self addr proc m"

definition resolve_symbol_exact :: "('r, 's, 'o, 'z) os_scheme \<Rightarrow> virtual_address \<Rightarrow> process \<Rightarrow> string option outcome" where
  "resolve_symbol_exact self addr proc =
     out_then (find_module_by_address self proc addr) (\<lambda>m.
       case m of Some m \<Rightarrow> module_resolve_symbol_exact self addr proc m | None \<Rightarrow> Some (Ok None))"

definition resolve_symbol :: "('r, 's, 'o, 'z) os_scheme \<Rightarrow> virtual_address \<Rightarrow> process \<Rightarrow> (string \<times> u64) option outcome" where
  "resolve_symbol self addr proc =
     out_then (find_module_by_address self proc addr) (\<lambda>m.
       case m of Some m \<Rightarrow> module_resolve_symbol self addr proc m | None \<Rightarrow> Some (Ok None))"

section \<open>Formatting symbols\<close>

text \<open>\<open>{:#x}\<close> of an unsigned integer, and of a signed one, which is shown in two's complement.\<close>

definition hex_digit :: "nat \<Rightarrow> char" where
  "hex_digit d = ''0123456789abcdef'' ! d"

fun hex_nat :: "nat \<Rightarrow> string" where
  "hex_nat n = (if n < 16 then [hex_digit n] else hex_nat (n div 16) @ [hex_digit (n mod 16)])"

declare hex_nat.simps [simp del]

definition hex :: "u64 \<Rightarrow> string" where
  "hex n = ''0x'' @ hex_nat (unat n)"

text \<open>\<open>unwrap_or_else\<close> with a logged error.\<close>

definition or_none :: "'a option outcome \<Rightarrow> 'a option outcome" where
  "or_none m = map_option (\<lambda>r. case r of Ok x \<Rightarrow> Ok x | Err e \<Rightarrow> Ok None | Panic \<Rightarrow> Panic) m"

definition do_format_with_module ::
  "(string \<Rightarrow> string) \<Rightarrow> virtual_address \<Rightarrow> virtual_address option \<Rightarrow> (string \<times> u64) option \<Rightarrow> string \<Rightarrow>
   virtual_address \<Rightarrow> bool \<Rightarrow> string"
where
  "do_format_with_module dem addr fun_start symb mod_name mod_start demangled =
     (case (map_option (\<lambda>(s, off). (if demangled then dem s else s, off)) symb, fun_start) of
        (Some (symb, off), _) \<Rightarrow>
          if off = 0 then mod_name @ ''!'' @ symb else mod_name @ ''!'' @ symb @ ''+'' @ hex off
      | (None, Some fun_start) \<Rightarrow>
          if va_diff addr fun_start = 0 then mod_name @ ''!'' @ hex (va_diff fun_start mod_start)
          else mod_name @ ''!'' @ hex (va_diff fun_start mod_start) @ ''+'' @ hex (va_diff addr fun_start)
      | (None, None) \<Rightarrow> mod_name @ ''!'' @ hex (va_diff addr mod_start))"

definition format_symbol_with_module ::
  "(string \<Rightarrow> string) \<Rightarrow> ('r, 's, 'o, 'z) os_scheme \<Rightarrow> process \<Rightarrow> module \<Rightarrow> virtual_address \<Rightarrow>
   virtual_address option \<Rightarrow> bool \<Rightarrow> string outcome"
where
  "format_symbol_with_module dem self proc m addr fun_start demangled =
     out_then (module_span self m proc) (\<lambda>(mod_start, _).
     out_then (os_module_name self m proc) (\<lambda>mod_name.
     out_then (or_none (case fun_start of
           Some fun_start \<Rightarrow>
             out_map (map_option (\<lambda>s. (s, va_diff addr fun_start))) (module_resolve_symbol_exact self fun_start proc m)
         | None \<Rightarrow> module_resolve_symbol self addr proc m)) (\<lambda>symb.
       Some (Ok (do_format_with_module dem addr fun_start symb mod_name mod_start demangled)))))"

definition do_format_without_module :: "virtual_address \<Rightarrow> virtual_address option \<Rightarrow> virtual_address option \<Rightarrow> string" where
  "do_format_without_module addr fun_start vma_st =
     (case (vma_st, map_option (\<lambda>start. (start, va_diff addr start)) fun_start) of
        (Some vma_st, Some (fun_start, off)) \<Rightarrow>
          (let fun_offset = va_diff vma_st fun_start in
           if off = 0 then hex vma_st @ ''!'' @ hex fun_offset
           else hex vma_st @ ''!'' @ hex fun_offset @ ''+'' @ hex off)
      | (Some vma_st, None) \<Rightarrow> hex vma_st @ ''!'' @ hex (va_diff addr vma_st)
      | (None, Some (fun_start, off)) \<Rightarrow> if off = 0 then hex fun_start else hex fun_start @ ''+'' @ hex off
      | (None, None) \<Rightarrow> hex addr)"

definition format_symbol_without_module ::
  "('r, 's, 'o, 'z) os_scheme \<Rightarrow> process \<Rightarrow> virtual_address \<Rightarrow> virtual_address option \<Rightarrow> string outcome"
where
  "format_symbol_without_module self proc addr fun_start =
     out_then (process_find_vma_by_address self proc addr) (\<lambda>v.
     out_then (case v of Some v \<Rightarrow> out_map Some (vma_start self v) | None \<Rightarrow> Some (Ok None)) (\<lambda>vma_st.
       Some (Ok (do_format_without_module addr fun_start vma_st))))"

definition format_symbol ::
  "(string \<Rightarrow> string) \<Rightarrow> ('r, 's, 'o, 'z) os_scheme \<Rightarrow> process \<Rightarrow> virtual_address \<Rightarrow> bool \<Rightarrow> string outcome"
where
  "format_symbol dem self proc addr demangled =
     out_then (find_module_by_address self proc addr) (\<lambda>m.
       case m of
         Some m \<Rightarrow> format_symbol_with_module dem self proc m addr None demangled
       | None \<Rightarrow> format_symbol_without_module self proc addr None)"

definition format_stackframe_symbol ::
  "(string \<Rightarrow> string) \<Rightarrow> ('r, 's, 'o, 'z) os_scheme \<Rightarrow> process \<Rightarrow> stack_frame \<Rightarrow> bool \<Rightarrow> string outcome"
where
  "format_stackframe_symbol dem self proc frame demangled =
     (case frame_module frame of
        Some m \<Rightarrow> format_symbol_with_module dem self proc m (frame_ip frame) (frame_start frame) demangled
      | None \<Rightarrow> format_symbol_without_module self proc (frame_ip frame) (frame_start frame))"

section \<open>Lemmas\<close>

lemma collect_run: "trace_run t xs r \<Longrightarrow> collect t = Some (map_ok (\<lambda>u. xs) r)"
  by (simp add: collect_def for_each_push)

lemma collect_Ok_iff: "collect t = Some (Ok xs) \<longleftrightarrow> trace_run t xs (Ok ())"
proof
  assume "collect t = Some (Ok xs)"
  then obtain v r where r: "for_each push_to t [] = Some (v, r)" "map_ok (\<lambda>u. v) r = Ok xs"
    by (auto simp: collect_def)
  then show "trace_run t xs (Ok ())"
    using for_each_push_returns [OF r(1)] by (cases r) auto
qed (simp add: collect_run)

lemma collect_None_iff: "collect t = None \<longleftrightarrow> (\<nexists>xs r. trace_run t xs r)"
proof
  assume "collect t = None"
  then show "\<nexists>xs r. trace_run t xs r" using collect_run [of t] by force
next
  assume n: "\<nexists>xs r. trace_run t xs r"
  show "collect t = None"
  proof (cases "for_each push_to t []")
    case (Some p)
    then show ?thesis using for_each_push_returns [of t "[]" "fst p" "snd p"] n by auto
  qed (simp add: collect_def)
qed

lemma find_in_trace_run:
  assumes "trace_run t xs (Ok ())" "\<forall>x \<in> set xs. pr x = Some (Ok (P x))"
  shows "find_in_trace pr t = Some (Ok (List.find P xs))"
  using for_each_find [OF assms] by (simp add: find_in_trace_def split: option.split)

end
