(* ===== verification/Vm_Dwarf.thy ===== *)
theory Vm_Dwarf
  imports Vm_Relocations Vm_Os
begin

text \<open>
  Types from DWARF debug information (\<^verbatim>\<open>vminer-core/src/symbols/dwarf/mod.rs\<close>). The crate \<open>gimli\<close> parses the
  sections: an entry is given by its tag, its offset in the unit, the values of its attributes and its children,
  where reading an attribute or a child may fail. A value of an attribute is given by what the methods
  of \<open>gimli\<close> make of it. Constants of the DWARF standard have the values of the standard.

  The first pass over a unit reads the types at its top level; the second one makes the structures of the
  named ones. Types refer to each other by offsets, which may form cycles.
\<close>

section \<open>Errors and attributes\<close>

datatype resolve_type_error = ResolveGimli dyn_error | MissingAttr u16 | WrongAttrType

definition resolve_of_gimli :: "dyn_error \<Rightarrow> resolve_type_error" where
  "resolve_of_gimli e = ResolveGimli e"

definition display_dw_at :: "(u16 \<Rightarrow> string option) \<Rightarrow> u16 \<Rightarrow> string" where
  "display_dw_at static_string at =
     (case static_string at of Some s \<Rightarrow> s | None \<Rightarrow> ''0x'' @ hex_nat (unat at))"

fun display_resolve_error :: "(u16 \<Rightarrow> string option) \<Rightarrow> resolve_type_error \<Rightarrow> string" where
  "display_resolve_error static_string (ResolveGimli e) = ''error parsing DWARF''"
| "display_resolve_error static_string (MissingAttr at) = ''missing required attribute: '' @ display_dw_at static_string at"
| "display_resolve_error static_string WrongAttrType = ''unexpected attribute type''"

record attr_value =
  av_unit_ref :: "nat option"
  av_udata :: "u64 option"
  av_sdata :: "i64 option"
  av_encoding :: "u8 option"
  av_flag :: "bool option"
  av_string :: "(string, dyn_error) result option"

datatype die =
  Die (die_tag: u16) (die_offset: nat) (die_attr: "u16 \<Rightarrow> (attr_value option, dyn_error) result")
    (die_children: "(die, dyn_error) result list")

definition DW_AT_name :: u16 where "DW_AT_name = 0x03"
definition DW_TAG_array_type :: u16 where "DW_TAG_array_type = 0x01"
definition DW_TAG_pointer_type :: u16 where "DW_TAG_pointer_type = 0x0f"
definition DW_TAG_structure_type :: u16 where "DW_TAG_structure_type = 0x13"
definition DW_TAG_subroutine_type :: u16 where "DW_TAG_subroutine_type = 0x15"
definition DW_TAG_typedef :: u16 where "DW_TAG_typedef = 0x16"
definition DW_TAG_union_type :: u16 where "DW_TAG_union_type = 0x17"
definition DW_TAG_subrange_type :: u16 where "DW_TAG_subrange_type = 0x21"
definition DW_TAG_base_type :: u16 where "DW_TAG_base_type = 0x24"
definition DW_ATE_signed :: u8 where "DW_ATE_signed = 0x05"
definition DW_ATE_signed_char :: u8 where "DW_ATE_signed_char = 0x06"

text \<open>An implementation of the trait \<open>DwarfAttribute\<close>: the name of the attribute and the conversion of its value.\<close>

record 'a dwarf_attribute =
  da_at :: u16
  da_convert :: "attr_value \<Rightarrow> 'a option"

definition DwAtType :: "nat dwarf_attribute" where "DwAtType = \<lparr>da_at = 0x49, da_convert = av_unit_ref\<rparr>"
definition DwAtByteSize :: "u64 dwarf_attribute" where "DwAtByteSize = \<lparr>da_at = 0x0b, da_convert = av_udata\<rparr>"
definition DwAtDataMemberLocation :: "u64 dwarf_attribute" where
  "DwAtDataMemberLocation = \<lparr>da_at = 0x38, da_convert = av_udata\<rparr>"
definition DwAtDataBitOffset :: "u64 dwarf_attribute" where "DwAtDataBitOffset = \<lparr>da_at = 0x6b, da_convert = av_udata\<rparr>"
definition DwAtEncoding :: "u8 dwarf_attribute" where "DwAtEncoding = \<lparr>da_at = 0x3e, da_convert = av_encoding\<rparr>"
definition DwAtDeclaration :: "bool dwarf_attribute" where "DwAtDeclaration = \<lparr>da_at = 0x3c, da_convert = av_flag\<rparr>"
definition DwAtUpperBound :: "i64 dwarf_attribute" where "DwAtUpperBound = \<lparr>da_at = 0x2f, da_convert = av_sdata\<rparr>"
definition DwAtCount :: "u64 dwarf_attribute" where "DwAtCount = \<lparr>da_at = 0x37, da_convert = av_udata\<rparr>"

section \<open>Reading entries\<close>

type_synonym 'a resolve_type_result = "('a, resolve_type_error) result"

definition read_attr :: "die \<Rightarrow> u16 \<Rightarrow> attr_value resolve_type_result" where
  "read_attr self nm = and_then (map_err resolve_of_gimli (die_attr self nm)) (ok_or (MissingAttr nm))"

definition try_read_attr :: "die \<Rightarrow> u16 \<Rightarrow> attr_value option resolve_type_result" where
  "try_read_attr self nm = map_err resolve_of_gimli (die_attr self nm)"

definition dw_read :: "'a dwarf_attribute \<Rightarrow> die \<Rightarrow> 'a resolve_type_result" where
  "dw_read a self = and_then (read_attr self (da_at a)) (\<lambda>v. ok_or WrongAttrType (da_convert a v))"

definition dw_try_read :: "'a dwarf_attribute \<Rightarrow> die \<Rightarrow> 'a option resolve_type_result" where
  "dw_try_read a self =
     and_then (try_read_attr self (da_at a)) (\<lambda>v.
       case v of
         Some v \<Rightarrow> (case da_convert a v of Some x \<Rightarrow> Ok (Some x) | None \<Rightarrow> Err WrongAttrType)
       | None \<Rightarrow> Ok None)"

definition try_read_name :: "die \<Rightarrow> string option resolve_type_result" where
  "try_read_name self =
     and_then (try_read_attr self DW_AT_name) (\<lambda>v.
       case v of
         Some v \<Rightarrow> and_then (ok_or WrongAttrType (av_string v)) (\<lambda>n. map_ok Some (map_err resolve_of_gimli n))
       | None \<Rightarrow> Ok None)"

record base_type =
  bt_len :: u64
  bt_signed :: bool

definition read_base_type :: "die \<Rightarrow> base_type resolve_type_result" where
  "read_base_type self =
     and_then (dw_read DwAtByteSize self) (\<lambda>len.
     and_then (dw_read DwAtEncoding self) (\<lambda>ate.
       Ok \<lparr>bt_len = len, bt_signed = (ate = DW_ATE_signed \<or> ate = DW_ATE_signed_char)\<rparr>))"

definition to_primitive :: "base_type \<Rightarrow> type_kind" where
  "to_primitive self =
     (if bt_len self = 1 then if bt_signed self then tk_i8 else tk_u8
      else if bt_len self = 2 then if bt_signed self then tk_i16 else tk_u16
      else if bt_len self = 4 then if bt_signed self then tk_i32 else tk_u32
      else if bt_len self = 8 then if bt_signed self then tk_i64 else tk_u64
      else tk_unknown)"

datatype dwarf_offset = Bytes u64 | Bits u64

type_synonym dwarf_field = "dwarf_offset \<times> string option \<times> nat"

record dwarf_struct =
  ds_size :: u64
  ds_fields :: "dwarf_field list"

datatype dwarf_type =
    DPrimitive base_type
  | DStruct dwarf_struct
  | DStructDeclaration
  | DUnion dwarf_struct
  | DPtr "nat option"
  | DTypedef nat
  | DArray nat u32
  | DFunction

definition read_struct_member :: "die \<Rightarrow> dwarf_field resolve_type_result" where
  "read_struct_member self =
     and_then (and_then (dw_try_read DwAtDataMemberLocation self) (\<lambda>offset.
         case offset of
           Some offset \<Rightarrow> Ok (Bytes offset)
         | None \<Rightarrow> map_ok Bits (dw_read DwAtDataBitOffset self))) (\<lambda>off.
     and_then (try_read_name self) (\<lambda>nm.
     and_then (dw_read DwAtType self) (\<lambda>ty. Ok (off, nm, ty))))"

definition read_union_member :: "die \<Rightarrow> (string option \<times> nat) resolve_type_result" where
  "read_union_member self =
     and_then (try_read_name self) (\<lambda>nm.
     and_then (dw_read DwAtType self) (\<lambda>ty. Ok (nm, ty)))"

text \<open>The loops over the children.\<close>

fun read_children :: "(die \<Rightarrow> 'a resolve_type_result) \<Rightarrow> (die, dyn_error) result list \<Rightarrow> 'a list resolve_type_result" where
  "read_children f [] = Ok []"
| "read_children f (c # cs) =
     and_then (map_err resolve_of_gimli c) (\<lambda>node.
     and_then (f node) (\<lambda>x. map_ok ((#) x) (read_children f cs)))"

definition read_struct :: "die \<Rightarrow> dwarf_struct option resolve_type_result" where
  "read_struct self =
     and_then (dw_try_read DwAtDeclaration self) (\<lambda>decl.
       if decl = Some True then Ok None
       else
         and_then (dw_try_read DwAtByteSize self) (\<lambda>sz.
         and_then (read_children read_struct_member (die_children self)) (\<lambda>fs.
           Ok (Some \<lparr>ds_size = (case sz of Some n \<Rightarrow> n | None \<Rightarrow> 0), ds_fields = fs\<rparr>))))"

definition read_union :: "die \<Rightarrow> dwarf_struct resolve_type_result" where
  "read_union self =
     and_then (dw_try_read DwAtByteSize self) (\<lambda>sz.
     and_then (read_children (\<lambda>c. map_ok (\<lambda>(nm, ty). (Bytes 0, nm, ty)) (read_union_member c)) (die_children self)) (\<lambda>fs.
       Ok \<lparr>ds_size = (case sz of Some n \<Rightarrow> n | None \<Rightarrow> 0), ds_fields = fs\<rparr>))"

definition subrange_size :: "die \<Rightarrow> u64 resolve_type_result" where
  "subrange_size child =
     (if die_tag child \<noteq> DW_TAG_subrange_type then Err WrongAttrType
      else and_then (dw_try_read DwAtUpperBound child) (\<lambda>bound.
        case bound of
          Some bound \<Rightarrow> if bound <s 0 then Ok 0 else add_chk bound 1
        | None \<Rightarrow> map_ok (\<lambda>n. case n of Some n \<Rightarrow> n | None \<Rightarrow> 0) (dw_try_read DwAtCount child)))"

fun read_dims :: "(die, dyn_error) result list \<Rightarrow> u32 \<Rightarrow> u32 resolve_type_result" where
  "read_dims [] dim = Ok dim"
| "read_dims (c # cs) dim =
     and_then (map_err resolve_of_gimli c) (\<lambda>node.
     and_then (subrange_size node) (\<lambda>sz.
     and_then (mul_chk dim (ucast sz)) (\<lambda>dim. read_dims cs dim)))"

definition read_array :: "die \<Rightarrow> (nat \<times> u32) resolve_type_result" where
  "read_array self =
     and_then (dw_read DwAtType self) (\<lambda>ty.
     and_then (read_dims (die_children self) 1) (\<lambda>dim. Ok (ty, dim)))"

definition read_type :: "die \<Rightarrow> (string option \<times> dwarf_type) option resolve_type_result" where
  "read_type self =
     and_then (try_read_name self) (\<lambda>nm.
       let named = map_ok (\<lambda>ty. Some (nm, ty)); tag = die_tag self in
       if tag = DW_TAG_typedef then named (map_ok DTypedef (dw_read DwAtType self))
       else if tag = DW_TAG_base_type then named (map_ok DPrimitive (read_base_type self))
       else if tag = DW_TAG_pointer_type then named (map_ok DPtr (dw_try_read DwAtType self))
       else if tag = DW_TAG_structure_type then
         named (map_ok (\<lambda>s. case s of Some s \<Rightarrow> DStruct s | None \<Rightarrow> DStructDeclaration) (read_struct self))
       else if tag = DW_TAG_union_type then named (map_ok DUnion (read_union self))
       else if tag = DW_TAG_array_type then named (map_ok (\<lambda>(ty, sz). DArray ty sz) (read_array self))
       else if tag = DW_TAG_subroutine_type then named (Ok DFunction)
       else Ok None)"

section \<open>The table of types\<close>

record type_entry =
  te_offset :: nat
  te_name :: "string option"
  te_dwarf_type :: dwarf_type
  te_typ :: "type_kind option"

type_synonym type_list = "type_entry list"

definition find_type :: "type_list \<Rightarrow> nat \<Rightarrow> nat option" where
  "find_type self offset =
     (case binary_search_by_key self offset te_offset of
        Found index \<Rightarrow> map_option (\<lambda>e. index) (get_at index self)
      | Insert index \<Rightarrow> None)"

text \<open>As for PDB files, \<open>classify_type\<close> takes \<open>get_type\<close> as an argument.\<close>

definition dwarf_classify_type ::
  "(type_list \<Rightarrow> nat \<Rightarrow> (type_list, type_kind option, dyn_error) stateful) \<Rightarrow> type_list \<Rightarrow> type_entry \<Rightarrow>
   (type_list, type_kind option, dyn_error) stateful"
where
  "dwarf_classify_type get_type self ty =
     (case te_dwarf_type ty of
        DPrimitive p \<Rightarrow> Some (self, Ok (Some (to_primitive p)))
      | DStruct s \<Rightarrow> Some (self, Ok (map_option Struct (te_name ty)))
      | DStructDeclaration \<Rightarrow> Some (self, Ok (map_option Struct (te_name ty)))
      | DUnion s \<Rightarrow> Some (self, Ok (map_option Union (te_name ty)))
      | DPtr None \<Rightarrow> Some (self, Ok (Some (Pointer tk_unknown)))
      | DPtr (Some offset) \<Rightarrow> st_then (get_type self offset) (\<lambda>self t. Some (self, Ok (Some (Pointer (or_unknown t)))))
      | DTypedef offset \<Rightarrow> get_type self offset
      | DArray offset sz \<Rightarrow> st_then (get_type self offset) (\<lambda>self t. Some (self, Ok (map_option (\<lambda>t. Array t sz) t)))
      | DFunction \<Rightarrow> Some (self, Ok (Some Function)))"

lemma dwarf_classify_type_mono [partial_function_mono]:
  assumes "\<And>s i. mono_option (\<lambda>f. g f s i)"
  shows "mono_option (\<lambda>f. dwarf_classify_type (g f) self ty)"
proof (cases "te_dwarf_type ty")
  case (DPtr o')
  show ?thesis
    by (cases o') (simp_all add: DPtr dwarf_classify_type_def option.const_mono st_then_mono [OF assms option.const_mono])
next
  case (DArray o' n)
  show ?thesis
    by (simp add: DArray dwarf_classify_type_def st_then_mono [OF assms option.const_mono])
qed (simp_all add: dwarf_classify_type_def option.const_mono assms)

partial_function (option) dwarf_get_type :: "type_list \<Rightarrow> nat \<Rightarrow> (type_list, type_kind option, dyn_error) stateful" where
  "dwarf_get_type self offset =
     (case find_type self offset of
        None \<Rightarrow> Some (self, Ok None)
      | Some i \<Rightarrow>
          st_then (case te_typ (self ! i) of
              Some ty \<Rightarrow> Some (self, Ok (Some ty))
            | None \<Rightarrow> dwarf_classify_type dwarf_get_type self (self ! i)) (\<lambda>self t.
            Some (case t of None \<Rightarrow> self | Some ty \<Rightarrow> self[i := (self ! i)\<lparr>te_typ := Some ty\<rparr>], Ok t)))"

section \<open>Collecting fields\<close>

text \<open>The loop over the fields of a structure; the fields of an anonymous member are collected in its place.\<close>

definition with_fields :: "'b \<Rightarrow> ('s, 'a, 'e) stateful \<Rightarrow> ('s \<times> 'b, 'a, 'e) stateful" where
  "with_fields fs m = map_option (\<lambda>(s, r). ((s, fs), r)) m"

text \<open>The state is the table and the fields collected so far.\<close>

type_synonym collect_state = "type_list \<times> struct_field list"

partial_function (option) collect_fields_into ::
  "dwarf_field list \<Rightarrow> u64 \<Rightarrow> collect_state \<Rightarrow> (collect_state, unit, dyn_error) stateful"
where
  "collect_fields_into members base st =
     (case members of
        [] \<Rightarrow> Some (st, Ok ())
      | member # members \<Rightarrow>
          (case fst member of
             Bits n \<Rightarrow> collect_fields_into members base st
           | Bytes off \<Rightarrow>
               (case add_chk base off :: (u64, dyn_error) result of
                  Ok offset \<Rightarrow>
                    (case fst (snd member) of
                       Some n \<Rightarrow>
                         st_then (with_fields (snd st) (dwarf_get_type (fst st) (snd (snd member)))) (\<lambda>st t.
                           collect_fields_into members base
                             (fst st, snd st @ [\<lparr>sf_name = n, sf_offset = offset, sf_typ = or_unknown t\<rparr>]))
                     | None \<Rightarrow>
                         (case map_option (\<lambda>i. te_dwarf_type (fst st ! i)) (find_type (fst st) (snd (snd member))) of
                            None \<Rightarrow> collect_fields_into members base st
                          | Some ty \<Rightarrow>
                              (case ty of
                                 DStruct s \<Rightarrow>
                                   st_then (collect_fields_into (ds_fields s) offset st) (\<lambda>st u. collect_fields_into members base st)
                               | DUnion s \<Rightarrow>
                                   st_then (collect_fields_into (ds_fields s) offset st) (\<lambda>st u. collect_fields_into members base st)
                               | _ \<Rightarrow> collect_fields_into members base st)))
                | Err e \<Rightarrow> Some (st, Err e)
                | Panic \<Rightarrow> Some (st, Panic))))"

definition dwarf_collect_fields :: "type_list \<Rightarrow> dwarf_struct \<Rightarrow> (collect_state, unit, dyn_error) stateful" where
  "dwarf_collect_fields types s = collect_fields_into (ds_fields s) 0 (types, [])"

section \<open>Units\<close>

text \<open>The first pass: errors of \<open>gimli\<close> end it, others skip the entry.\<close>

fun fill_types :: "(die, dyn_error) result list \<Rightarrow> (type_list, dyn_error) result" where
  "fill_types [] = Ok []"
| "fill_types (entry # entries) =
     and_then entry (\<lambda>node.
       case read_type node of
         Ok (Some (nm, ty)) \<Rightarrow>
           map_ok ((#) \<lparr>te_offset = die_offset node, te_name = nm, te_dwarf_type = ty, te_typ = None\<rparr>) (fill_types entries)
       | Ok None \<Rightarrow> fill_types entries
       | Err (ResolveGimli e) \<Rightarrow> Err e
       | Err e \<Rightarrow> fill_types entries
       | Panic \<Rightarrow> Panic)"

text \<open>The second pass, one entry at a time.\<close>

definition fill_struct ::
  "type_list \<times> module_symbols_builder \<Rightarrow> type_entry \<Rightarrow> (type_list \<times> module_symbols_builder, unit, dyn_error) stateful"
where
  "fill_struct st ty =
     (case st of (types, symbols) \<Rightarrow>
        (case (te_name ty, te_dwarf_type ty) of
           (Some n, DStruct s) \<Rightarrow>
             map_option (\<lambda>((types, fs), r).
               ((types, case r of
                    Ok u \<Rightarrow> insert_struct symbols \<lparr>st_size = ds_size s, st_name = n, st_fields = fs\<rparr>
                  | _ \<Rightarrow> symbols), r)) (dwarf_collect_fields types s)
         | _ \<Rightarrow> Some ((types, symbols), Ok ())))"

text \<open>The root of the tree of entries, or the error of \<open>entries_tree\<close> or \<open>root\<close>.\<close>

definition dwarf_fill ::
  "(die, dyn_error) result \<Rightarrow> module_symbols_builder \<Rightarrow> (module_symbols_builder, unit, dyn_error) stateful"
where
  "dwarf_fill root symbols =
     (case and_then root (\<lambda>root. fill_types (die_children root)) of
        Ok types \<Rightarrow> map_option (\<lambda>((types, symbols), r). (symbols, r)) (for_st fill_struct (types, symbols) types)
      | Err e \<Rightarrow> Some (symbols, Err e)
      | Panic \<Rightarrow> Some (symbols, Panic))"

text \<open>A unit: the outcome of reading its abbreviations, and its root. A failure to read the next unit ends the loop.\<close>

type_synonym dwarf_unit = "(unit, dyn_error) result \<times> (die, dyn_error) result"

definition load_unit ::
  "module_symbols_builder \<Rightarrow> (dwarf_unit, dyn_error) result \<Rightarrow> (module_symbols_builder, unit, dyn_error) stateful"
where
  "load_unit symbols item =
     (case and_then item (\<lambda>(abbrs, root). and_then abbrs (\<lambda>u. Ok root)) of
        Ok root \<Rightarrow> dwarf_fill root symbols
      | Err e \<Rightarrow> Some (symbols, Err e)
      | Panic \<Rightarrow> Some (symbols, Panic))"

definition load_types_from_dwarf ::
  "(dwarf_unit, dyn_error) result list \<Rightarrow> module_symbols_builder \<Rightarrow> (module_symbols_builder, unit, dyn_error) stateful"
where
  "load_types_from_dwarf units symbols = for_st load_unit symbols units"

text \<open>\<open>units_of\<close> is \<open>Dwarf::units\<close>.\<close>

definition dwarf_load_types ::
  "(run_time_endian \<Rightarrow> u8 list \<Rightarrow> 'r) \<Rightarrow> ((string \<Rightarrow> ('r relocate, dyn_error) result) \<Rightarrow> ('d, dyn_error) result) \<Rightarrow>
   ('d \<Rightarrow> (dwarf_unit, dyn_error) result list) \<Rightarrow> object_file \<Rightarrow> module_symbols_builder \<Rightarrow>
   (module_symbols_builder, unit, dwarf_error) stateful"
where
  "dwarf_load_types endian_slice dwarf_load units_of obj symbols =
     (case load_dwarf endian_slice dwarf_load obj of
        Ok dwarf \<Rightarrow> map_option (\<lambda>(symbols, r). (symbols, map_err DwarfGimli r)) (load_types_from_dwarf (units_of dwarf) symbols)
      | Err e \<Rightarrow> Some (symbols, Err (DwarfObject e))
      | Panic \<Rightarrow> Some (symbols, Panic))"

end
