(* ===== verification/Vm_Dwarf_Laws.thy ===== *)
theory Vm_Dwarf_Laws
  imports Vm_Dwarf
begin

text \<open>
  The types that the entries of a unit describe, as a relation on offsets without cells, and the flattening of
  anonymous members. The table with its cells gives these types, and the second pass these structures, when
  the entries of the unit are in the order of their offsets, as they are in the section.
\<close>

section \<open>The types that the entries describe\<close>

fun leaf_type :: "string option \<Rightarrow> dwarf_type \<Rightarrow> type_kind option option" where
  "leaf_type nm (DPrimitive p) = Some (Some (to_primitive p))"
| "leaf_type nm (DStruct s) = Some (map_option Struct nm)"
| "leaf_type nm DStructDeclaration = Some (map_option Struct nm)"
| "leaf_type nm (DUnion s) = Some (map_option Union nm)"
| "leaf_type nm (DPtr None) = Some (Some (Pointer Unknown))"
| "leaf_type nm DFunction = Some (Some Function)"
| "leaf_type nm _ = None"

inductive dwarf_has_type :: "type_list \<Rightarrow> nat \<Rightarrow> type_kind option \<Rightarrow> bool" for es where
  missing: "off \<notin> te_offset ` set es \<Longrightarrow> dwarf_has_type es off None"
| leaf: "e \<in> set es \<Longrightarrow> leaf_type (te_name e) (te_dwarf_type e) = Some t \<Longrightarrow> dwarf_has_type es (te_offset e) t"
| ptr: "e \<in> set es \<Longrightarrow> te_dwarf_type e = DPtr (Some off) \<Longrightarrow> dwarf_has_type es off t \<Longrightarrow>
    dwarf_has_type es (te_offset e) (Some (Pointer (or_unknown t)))"
| named_as: "e \<in> set es \<Longrightarrow> te_dwarf_type e = DTypedef off \<Longrightarrow> dwarf_has_type es off t \<Longrightarrow> dwarf_has_type es (te_offset e) t"
| array: "e \<in> set es \<Longrightarrow> te_dwarf_type e = DArray off n \<Longrightarrow> dwarf_has_type es off t \<Longrightarrow>
    dwarf_has_type es (te_offset e) (map_option (\<lambda>t. Array t n) t)"

definition ascending :: "type_list \<Rightarrow> bool" where
  "ascending es \<longleftrightarrow> sorted (map te_offset es) \<and> distinct (map te_offset es)"

lemma ascending_unique: "ascending es \<Longrightarrow> e \<in> set es \<Longrightarrow> e' \<in> set es \<Longrightarrow> te_offset e' = te_offset e \<Longrightarrow> e' = e"
  by (auto simp: ascending_def dest: inj_onD simp: distinct_map)

lemma dwarf_has_type_entry:
  assumes "dwarf_has_type es off t" "ascending es" "e \<in> set es" "te_offset e = off"
  shows "case te_dwarf_type e of
      DPtr (Some r) \<Rightarrow> \<exists>u. dwarf_has_type es r u \<and> t = Some (Pointer (or_unknown u))
    | DTypedef r \<Rightarrow> dwarf_has_type es r t
    | DArray r n \<Rightarrow> \<exists>u. dwarf_has_type es r u \<and> t = map_option (\<lambda>u. Array u n) u
    | ty \<Rightarrow> leaf_type (te_name e) ty = Some t"
  using assms(1)
proof cases
  case missing
  then show ?thesis using assms(3,4) by auto
next
  case (leaf e')
  then have "e' = e" using ascending_unique assms(2-4) by blast
  with leaf show ?thesis by (cases "(te_name e, te_dwarf_type e)" rule: leaf_type.cases) auto
next
  case (ptr e' r u)
  then have "e' = e" using ascending_unique assms(2-4) by blast
  with ptr show ?thesis by auto
next
  case (named_as e' r)
  then have "e' = e" using ascending_unique assms(2-4) by blast
  with named_as show ?thesis by simp
next
  case (array e' r n u)
  then have "e' = e" using ascending_unique assms(2-4) by blast
  with array show ?thesis by auto
qed

lemma dwarf_has_type_unique:
  assumes "ascending es"
  shows "dwarf_has_type es off t \<Longrightarrow> dwarf_has_type es off t' \<Longrightarrow> t' = t"
proof (induction arbitrary: t' rule: dwarf_has_type.induct)
  case (missing off)
  from missing.prems show ?case by cases (use missing.hyps in auto)
next
  case (leaf e t)
  then show ?case using dwarf_has_type_entry [OF leaf.prems assms leaf.hyps(1) refl]
    by (cases "(te_name e, te_dwarf_type e)" rule: leaf_type.cases) auto
next
  case (ptr e off t)
  obtain u where "dwarf_has_type es off u" "t' = Some (Pointer (or_unknown u))"
    using dwarf_has_type_entry [OF ptr.prems assms ptr.hyps(1) refl] ptr.hyps(2) by auto
  with ptr.IH [of u] show ?case by simp
next
  case (named_as e off t)
  have "dwarf_has_type es off t'"
    using dwarf_has_type_entry [OF named_as.prems assms named_as.hyps(1) refl] named_as.hyps(2) by simp
  then show ?case by (rule named_as.IH)
next
  case (array e off n t)
  obtain u where "dwarf_has_type es off u" "t' = map_option (\<lambda>u. Array u n) u"
    using dwarf_has_type_entry [OF array.prems assms array.hyps(1) refl] array.hyps(2) by auto
  with array.IH [of u] show ?case by simp
qed

section \<open>The cells hold the types of the entries\<close>

definition uncached :: "type_entry \<Rightarrow> type_entry" where
  "uncached e = e\<lparr>te_typ := None\<rparr>"

definition dwarf_ok :: "type_list \<Rightarrow> type_list \<Rightarrow> bool" where
  "dwarf_ok es s \<longleftrightarrow>
     map uncached s = es \<and> (\<forall>e \<in> set s. \<forall>t. te_typ e = Some t \<longrightarrow> dwarf_has_type es (te_offset e) (Some t))"

lemma uncached_sel [simp]:
  "te_offset (uncached e) = te_offset e" "te_name (uncached e) = te_name e"
  "te_dwarf_type (uncached e) = te_dwarf_type e" "uncached (e\<lparr>te_typ := c\<rparr>) = uncached e"
  by (simp_all add: uncached_def)

lemma dwarf_ok_offsets: "dwarf_ok es s \<Longrightarrow> map te_offset s = map te_offset es"
  by (auto simp: dwarf_ok_def)

lemma find_type_cases:
  assumes "dwarf_ok es s" "ascending es"
  obtains (found) i where "find_type s off = Some i" "i < length s" "te_offset (s ! i) = off" "uncached (s ! i) \<in> set es"
  | (absent) "find_type s off = None" "off \<notin> te_offset ` set es"
proof (cases "binary_search_by_key s off te_offset")
  case (Found i)
  from binary_search_Found [OF this] have "i < length s" "te_offset (s ! i) = off" by simp_all
  moreover have "uncached (s ! i) \<in> set es" using assms(1) \<open>i < length s\<close> by (auto simp: dwarf_ok_def)
  ultimately show ?thesis using Found found by (simp add: find_type_def get_at_def)
next
  case (Insert i)
  have sorted: "sorted (map te_offset s)" using assms by (simp add: dwarf_ok_offsets ascending_def)
  have "off \<notin> te_offset ` set s"
  proof
    assume "off \<in> te_offset ` set s"
    then obtain e where "e \<in> set s" "te_offset e = off" by auto
    from binary_search_complete [OF sorted this] Insert show False by auto
  qed
  moreover have "te_offset ` set s = te_offset ` set es"
    using dwarf_ok_offsets [OF assms(1)] by (metis list.set_map)
  ultimately show ?thesis using Insert absent by (simp add: find_type_def)
qed

lemma dwarf_ok_update:
  assumes "dwarf_ok es s" "i < length s" "dwarf_has_type es (te_offset (s ! i)) t"
  shows "dwarf_ok es (case t of None \<Rightarrow> s | Some ty \<Rightarrow> s[i := (s ! i)\<lparr>te_typ := Some ty\<rparr>])"
proof (cases t)
  case (Some ty)
  have "map uncached (s[i := (s ! i)\<lparr>te_typ := Some ty\<rparr>]) = map uncached s"
    using assms(2) by (simp add: map_update list_update_same_conv)
  moreover have "dwarf_has_type es (te_offset e) (Some u)"
    if "e \<in> set (s[i := (s ! i)\<lparr>te_typ := Some ty\<rparr>])" "te_typ e = Some u" for e u
    using that set_update_subset_insert [of s i] assms Some by (fastforce simp: dwarf_ok_def)
  ultimately show ?thesis using assms(1) Some by (simp add: dwarf_ok_def)
qed (use assms(1) in simp)

lemma dwarf_get_type_found:
  assumes "dwarf_ok es s" "ascending es" "e \<in> set es" "dwarf_has_type es (te_offset e) t"
    and cl: "\<And>e'. uncached e' = e \<Longrightarrow>
      \<exists>s'. dwarf_classify_type dwarf_get_type s e' = Some (s', Ok t) \<and> dwarf_ok es s'"
  shows "\<exists>s'. dwarf_get_type s (te_offset e) = Some (s', Ok t) \<and> dwarf_ok es s'"
proof (cases rule: find_type_cases [OF assms(1,2), of "te_offset e"])
  case 2
  then show ?thesis using assms(3) by blast
next
  case found: (1 i)
  have e: "uncached (s ! i) = e"
    using ascending_unique [OF assms(2,3) found(4)] found(3) by simp
  show ?thesis
  proof (cases "te_typ (s ! i)")
    case (Some ty)
    then have h: "dwarf_has_type es (te_offset e) (Some ty)"
      using assms(1) found(2,3) by (metis dwarf_ok_def nth_mem)
    then have "t = Some ty" using dwarf_has_type_unique [OF assms(2)] assms(4) by blast
    moreover have "s[i := (s ! i)\<lparr>te_typ := Some ty\<rparr>] = s"
    proof -
      have "(s ! i)\<lparr>te_typ := Some ty\<rparr> = s ! i" using Some by (cases "s ! i") simp
      then show ?thesis by simp
    qed
    ultimately show ?thesis using found Some assms(1) by (subst dwarf_get_type.simps) simp
  next
    case None
    obtain s' where s': "dwarf_classify_type dwarf_get_type s (s ! i) = Some (s', Ok t)" "dwarf_ok es s'"
      using cl [OF e] by blast
    have "map te_offset s' = map te_offset s" using s'(2) assms(1) by (simp add: dwarf_ok_offsets)
    then have i': "i < length s'" "te_offset (s' ! i) = te_offset e"
      using found(2,3) by (metis length_map, metis length_map nth_map)
    show ?thesis
      using found None s' dwarf_ok_update [OF s'(2) i'(1)] i'(2) assms(4)
      by (subst dwarf_get_type.simps) simp
  qed
qed

lemma dwarf_get_type_resolves:
  assumes "ascending es"
  shows "dwarf_has_type es off t \<Longrightarrow> dwarf_ok es s \<Longrightarrow> \<exists>s'. dwarf_get_type s off = Some (s', Ok t) \<and> dwarf_ok es s'"
proof (induction arbitrary: s rule: dwarf_has_type.induct)
  case (missing off)
  show ?case
  proof (cases rule: find_type_cases [OF missing.prems assms, of off])
    case (1 i)
    then show ?thesis using missing.hyps by (metis imageI uncached_sel(1))
  next
    case 2
    then show ?thesis using missing.prems by (subst dwarf_get_type.simps) simp
  qed
next
  case (leaf e t)
  show ?case
    by (rule dwarf_get_type_found [OF leaf.prems assms leaf.hyps(1) dwarf_has_type.leaf [OF leaf.hyps]])
      (use leaf in \<open>cases "(te_name e, te_dwarf_type e)" rule: leaf_type.cases; auto simp: dwarf_classify_type_def\<close>)
next
  case (ptr e off t)
  from ptr.IH [OF ptr.prems] obtain s' where "dwarf_get_type s off = Some (s', Ok t)" "dwarf_ok es s'" by blast
  then show ?case
    by (intro dwarf_get_type_found [OF ptr.prems assms ptr.hyps(1) dwarf_has_type.ptr [OF ptr.hyps]])
      (use ptr.hyps in \<open>auto simp: dwarf_classify_type_def\<close>)
next
  case (named_as e off t)
  from named_as.IH [OF named_as.prems] obtain s' where "dwarf_get_type s off = Some (s', Ok t)" "dwarf_ok es s'" by blast
  then show ?case
    by (intro dwarf_get_type_found [OF named_as.prems assms named_as.hyps(1) dwarf_has_type.named_as [OF named_as.hyps]])
      (use named_as.hyps in \<open>auto simp: dwarf_classify_type_def\<close>)
next
  case (array e off n t)
  from array.IH [OF array.prems] obtain s' where "dwarf_get_type s off = Some (s', Ok t)" "dwarf_ok es s'" by blast
  then show ?case
    by (intro dwarf_get_type_found [OF array.prems assms array.hyps(1) dwarf_has_type.array [OF array.hyps]])
      (use array.hyps in \<open>auto simp: dwarf_classify_type_def\<close>)
qed

interpretation dwarf: type_resolver dwarf_get_type
  "\<lambda>off t. ascending es \<and> dwarf_has_type es off t" "dwarf_ok es" for es
  by unfold_locales (use dwarf_get_type_resolves in blast)

section \<open>Flattening anonymous members\<close>

text \<open>
  The fields of a structure at an offset: the fields of its anonymous members that are structures or unions are
  its own, at the sum of the offsets; bit fields and other anonymous members are left out.
\<close>

definition aggregate :: "type_list \<Rightarrow> nat \<Rightarrow> dwarf_field list \<Rightarrow> bool" where
  "aggregate es off ms \<longleftrightarrow>
     (\<exists>e \<in> set es. te_offset e = off \<and> (\<exists>s. te_dwarf_type e \<in> {DStruct s, DUnion s} \<and> ds_fields s = ms))"

inductive flattens :: "type_list \<Rightarrow> u64 \<Rightarrow> dwarf_field list \<Rightarrow> struct_field list \<Rightarrow> bool" for es where
  none: "flattens es base [] []"
| bits: "flattens es base ms fs \<Longrightarrow> flattens es base ((Bits n, nm, ty) # ms) fs"
| named: "unat base + unat off < 2 ^ 64 \<Longrightarrow> dwarf_has_type es ty t \<Longrightarrow> flattens es base ms fs \<Longrightarrow>
    flattens es base ((Bytes off, Some n, ty) # ms) (\<lparr>sf_name = n, sf_offset = base + off, sf_typ = or_unknown t\<rparr> # fs)"
| anonymous: "unat base + unat off < 2 ^ 64 \<Longrightarrow> aggregate es ty ms' \<Longrightarrow> flattens es (base + off) ms' fs' \<Longrightarrow>
    flattens es base ms fs \<Longrightarrow> flattens es base ((Bytes off, None, ty) # ms) (fs' @ fs)"
| opaque: "unat base + unat off < 2 ^ 64 \<Longrightarrow> \<nexists>ms'. aggregate es ty ms' \<Longrightarrow> flattens es base ms fs \<Longrightarrow>
    flattens es base ((Bytes off, None, ty) # ms) fs"

lemma anonymous_member:
  assumes "dwarf_ok es s" "ascending es"
  shows "aggregate es ty ms \<Longrightarrow>
      \<exists>d. map_option (\<lambda>i. te_dwarf_type (s ! i)) (find_type s ty) \<in> {Some (DStruct d), Some (DUnion d)} \<and> ds_fields d = ms"
    and "\<nexists>ms. aggregate es ty ms \<Longrightarrow>
      map_option (\<lambda>i. te_dwarf_type (s ! i)) (find_type s ty) \<notin> range (Some \<circ> DStruct) \<union> range (Some \<circ> DUnion)"
proof -
  have e: "uncached (s ! i) = e" if "find_type s ty = Some i" "e \<in> set es" "te_offset e = ty" for i e
  proof (rule find_type_cases [OF assms, of ty])
    fix j assume "find_type s ty = Some j" "te_offset (s ! j) = ty" "uncached (s ! j) \<in> set es"
    then show ?thesis using that ascending_unique [OF assms(2), of e "uncached (s ! j)"] by simp
  qed (use that in simp)
  show "\<exists>d. map_option (\<lambda>i. te_dwarf_type (s ! i)) (find_type s ty) \<in> {Some (DStruct d), Some (DUnion d)} \<and> ds_fields d = ms"
    if "aggregate es ty ms"
  proof (rule find_type_cases [OF assms, of ty])
    fix i assume i: "find_type s ty = Some i"
    from that obtain a d where a: "a \<in> set es" "te_offset a = ty" "te_dwarf_type a \<in> {DStruct d, DUnion d}" "ds_fields d = ms"
      by (auto simp: aggregate_def)
    have "te_dwarf_type (s ! i) = te_dwarf_type a" using e [OF i a(1,2)] by (metis uncached_sel(3))
    then show ?thesis using i a(3,4) by auto
  qed (use that in \<open>auto simp: aggregate_def\<close>)
  show "map_option (\<lambda>i. te_dwarf_type (s ! i)) (find_type s ty) \<notin> range (Some \<circ> DStruct) \<union> range (Some \<circ> DUnion)"
    if n: "\<nexists>ms. aggregate es ty ms"
  proof (rule find_type_cases [OF assms, of ty])
    fix i assume i: "find_type s ty = Some i" "te_offset (s ! i) = ty" "uncached (s ! i) \<in> set es"
    then have "te_dwarf_type (s ! i) \<notin> {DStruct d, DUnion d}" for d
      using n unfolding aggregate_def by (metis uncached_sel(1,3))
    then show ?thesis using i(1) by auto
  qed auto
qed

lemma collect_fields_into_flattens:
  assumes "ascending es"
  shows "flattens es base ms fs \<Longrightarrow> dwarf_ok es s \<Longrightarrow>
    \<exists>s'. collect_fields_into ms base (s, acc) = Some ((s', acc @ fs), Ok ()) \<and> dwarf_ok es s'"
proof (induction arbitrary: s acc rule: flattens.induct)
  case (none base)
  then show ?case by (subst collect_fields_into.simps) simp
next
  case (bits base ms fs n nm ty)
  then show ?case by (subst collect_fields_into.simps) simp
next
  case (named base off ty t ms fs n)
  from named.prems named.hyps(2) assms obtain s1 where s1: "dwarf_get_type s ty = Some (s1, Ok t)" "dwarf_ok es s1"
    using dwarf.resolved_then [of es s ty t] by blast
  then show ?case
    using named.IH [OF s1(2), of "acc @ [\<lparr>sf_name = n, sf_offset = base + off, sf_typ = or_unknown t\<rparr>]"] named.hyps(1)
    by (subst collect_fields_into.simps) (simp add: add_chk_def with_fields_def)
next
  case (anonymous base off ty ms' fs' ms fs)
  obtain d where d: "map_option (\<lambda>i. te_dwarf_type (s ! i)) (find_type s ty) \<in> {Some (DStruct d), Some (DUnion d)}"
    "ds_fields d = ms'"
    using anonymous_member(1) [OF anonymous.prems assms anonymous.hyps(2)] by blast
  obtain s1 where s1: "collect_fields_into ms' (base + off) (s, acc) = Some ((s1, acc @ fs'), Ok ())" "dwarf_ok es s1"
    using anonymous.IH(1) [OF anonymous.prems] by blast
  show ?case
    using d s1 anonymous.IH(2) [OF s1(2), of "acc @ fs'"] anonymous.hyps(1)
    by (subst collect_fields_into.simps) (auto simp: add_chk_def simp del: map_option_eq_Some)
next
  case (opaque base off ty ms fs)
  let ?m = "map_option (\<lambda>i. te_dwarf_type (s ! i)) (find_type s ty)"
  have n: "?m \<notin> range (Some \<circ> DStruct) \<union> range (Some \<circ> DUnion)"
    by (rule anonymous_member(2) [OF opaque.prems assms opaque.hyps(2)])
  have "collect_fields_into ((Bytes off, None, ty) # ms) base (s, acc) = collect_fields_into ms base (s, acc)"
  proof (cases ?m)
    case None
    then show ?thesis using opaque.hyps(1)
      by (subst collect_fields_into.simps) (simp add: add_chk_def del: map_option_eq_Some map_option_is_None)
  next
    case (Some x)
    then show ?thesis using opaque.hyps(1) n
      by (subst collect_fields_into.simps) (cases x; auto simp: add_chk_def simp del: map_option_eq_Some)
  qed
  then show ?case using opaque.IH [OF opaque.prems] by simp
qed

section \<open>The structures of a unit\<close>

definition dwarf_struct_of :: "(type_entry \<Rightarrow> struct_field list) \<Rightarrow> type_entry \<Rightarrow> struct_ref list" where
  "dwarf_struct_of flat e =
     (case (te_name e, te_dwarf_type e) of
        (Some n, DStruct s) \<Rightarrow> [\<lparr>st_size = ds_size s, st_name = n, st_fields = flat e\<rparr>]
      | _ \<Rightarrow> [])"

definition flat_structs :: "type_list \<Rightarrow> (type_entry \<Rightarrow> struct_field list) \<Rightarrow> bool" where
  "flat_structs es flat \<longleftrightarrow>
     (\<forall>e \<in> set es. \<forall>s. te_name e \<noteq> None \<longrightarrow> te_dwarf_type e = DStruct s \<longrightarrow> flattens es 0 (ds_fields s) (flat e))"

lemma fill_struct_ok:
  assumes "ascending es" "flat_structs es flat" "e \<in> set es" "dwarf_ok es s"
  shows "\<exists>s'. fill_struct (s, b) e = Some ((s', extend_structs b (dwarf_struct_of flat e)), Ok ()) \<and> dwarf_ok es s'"
proof (cases "\<exists>n d. te_name e = Some n \<and> te_dwarf_type e = DStruct d")
  case True
  then obtain n d where d: "te_name e = Some n" "te_dwarf_type e = DStruct d" by blast
  then have "flattens es 0 (ds_fields d) (flat e)" using assms(2,3) by (simp add: flat_structs_def)
  from collect_fields_into_flattens [OF assms(1) this assms(4), of "[]"] show ?thesis
    using d by (auto simp: fill_struct_def dwarf_struct_of_def dwarf_collect_fields_def)
next
  case False
  then show ?thesis using assms(4)
    by (cases "te_name e"; cases "te_dwarf_type e") (auto simp: fill_struct_def dwarf_struct_of_def)
qed

lemma uncached_new [simp]:
  "uncached \<lparr>te_offset = off, te_name = nm, te_dwarf_type = ty, te_typ = None\<rparr> =
     \<lparr>te_offset = off, te_name = nm, te_dwarf_type = ty, te_typ = None\<rparr>"
  by (simp add: uncached_def)

text \<open>The first pass keeps the order of the entries, and the cells are empty.\<close>

lemma fill_types_offsets:
  assumes "fill_types (map Ok ds) = Ok es" "sorted (map die_offset ds)" "distinct (map die_offset ds)"
  shows "ascending es \<and> te_offset ` set es \<subseteq> die_offset ` set ds \<and> map uncached es = es"
  using assms
proof (induction ds arbitrary: es)
  case Nil
  then show ?case by (simp add: ascending_def)
next
  case (Cons d ds)
  have tail: "ascending es' \<and> te_offset ` set es' \<subseteq> die_offset ` set ds \<and> map uncached es' = es'"
    if "fill_types (map Ok ds) = Ok es'" for es'
    using Cons.IH [OF that] Cons.prems(2,3) by simp
  have lt: "\<forall>x \<in> set ds. die_offset d < die_offset x"
    using Cons.prems(2,3) by (force simp: order.strict_iff_order)
  show ?case
  proof (cases "read_type d")
    case (Ok r)
    show ?thesis
    proof (cases r)
      case None
      then show ?thesis using tail [of es] Cons.prems(1) Ok by auto
    next
      case (Some p)
      obtain nm ty where p: "p = (nm, ty)" by (cases p)
      then obtain es' where es': "fill_types (map Ok ds) = Ok es'"
        "es = \<lparr>te_offset = die_offset d, te_name = nm, te_dwarf_type = ty, te_typ = None\<rparr> # es'"
        using Cons.prems(1) Ok Some by (auto simp: map_ok_Ok_iff)
      have "\<forall>e \<in> set es'. die_offset d < te_offset e" using tail [OF es'(1)] lt by fastforce
      then show ?thesis
        using tail [OF es'(1)] es'(2) by (auto simp: ascending_def uncached_new order.strict_iff_order)
    qed
  next
    case (Err e)
    then show ?thesis using tail [of es] Cons.prems(1) by (cases e) auto
  qed (use Cons.prems(1) in simp)
qed

lemma dwarf_fill_unit:
  assumes "die_children root = map Ok ds" "sorted (map die_offset ds)" "distinct (map die_offset ds)"
    "fill_types (map Ok ds) = Ok es" "flat_structs es flat"
  shows "dwarf_fill (Ok root) b = Some (extend_structs b (concat (map (dwarf_struct_of flat) es)), Ok ())"
proof -
  have es: "ascending es" "map uncached es = es" using fill_types_offsets [OF assms(4,2,3)] by simp_all
  have "te_typ e = None" if "e \<in> set es" for e
  proof -
    have "e \<in> uncached ` set es" using that es(2) by (metis list.set_map)
    then show ?thesis by (auto simp: uncached_def)
  qed
  then have "dwarf_ok es es" using es(2) by (simp add: dwarf_ok_def)
  then obtain s' where "for_st fill_struct (es, b) es =
      Some ((s', extend_structs b (concat (map (dwarf_struct_of flat) es))), Ok ())"
    using for_st_extend [of es "dwarf_ok es" fill_struct "dwarf_struct_of flat" es b] fill_struct_ok [OF es(1) assms(5)]
    by blast
  then show ?thesis using assms(1,4) by (simp add: dwarf_fill_def)
qed

end
