(* ===== verification/Vm_Symbols_Laws.thy ===== *)
theory Vm_Symbols_Laws
  imports Vm_Symbols
begin

text \<open>
  Lemmas on the tables of symbols. The abstract content of a builder is the list of the pushed pairs;
  a module answers the lookups from that list. The locale \<open>symbol_sorts\<close> is the contract of the two
  unstable sorts, \<open>once_map\<close> that of the map of the index.
\<close>

section \<open>The content of a builder\<close>

definition builder_wf :: "module_symbols_builder \<Rightarrow> bool" where
  "builder_wf b \<longleftrightarrow> (\<forall>(a, s, e) \<in> set (b_symbols b). s \<le> e \<and> e \<le> length (b_buffer b))"

definition builder_syms :: "module_symbols_builder \<Rightarrow> (virtual_address \<times> string) list" where
  "builder_syms b = map (\<lambda>(a, r). (a, slice_str (b_buffer b) r)) (b_symbols b)"

lemma builder_new_wf [simp]: "builder_wf builder_new" "builder_syms builder_new = []"
  by (simp_all add: builder_new_def builder_wf_def builder_syms_def)

lemma slice_str_append: "e \<le> length buf \<Longrightarrow> slice_str (buf @ s) (st, e) = slice_str buf (st, e)"
  by (simp add: slice_str_def)

lemma push_syms:
  assumes "builder_wf b"
  shows "builder_wf (push b addr symb)" "builder_syms (push b addr symb) = builder_syms b @ [(addr, symb)]"
proof -
  show "builder_wf (push b addr symb)"
    using assms by (fastforce simp: builder_wf_def push_def Let_def)
  have "map (\<lambda>(a, r). (a, slice_str (b_buffer b @ symb) r)) (b_symbols b) = builder_syms b"
    unfolding builder_syms_def using assms by (auto simp: builder_wf_def slice_str_append)
  then show "builder_syms (push b addr symb) = builder_syms b @ [(addr, symb)]"
    by (simp add: builder_syms_def push_def Let_def) (simp add: slice_str_def)
qed

lemma extend_symbols_syms:
  "builder_wf b \<Longrightarrow> builder_wf (extend_symbols b syms) \<and>
     builder_syms (extend_symbols b syms) = builder_syms b @ syms"
  by (induction b syms rule: extend_symbols.induct) (auto simp: push_syms)

section \<open>The extent of a field\<close>

text \<open>Fields in the order of their offsets, all inside the structure.\<close>

definition fields_ordered :: "struct_ref \<Rightarrow> bool" where
  "fields_ordered s \<longleftrightarrow> sorted (map sf_offset (st_fields s)) \<and> (\<forall>f \<in> set (st_fields s). sf_offset f \<le> st_size s)"

lemma find_enumerate:
  "List.find (\<lambda>(i, x). P x) (enumerate n xs) = Some (i, x) \<longleftrightarrow>
     n \<le> i \<and> i - n < length xs \<and> xs ! (i - n) = x \<and> P x \<and> (\<forall>j < i - n. \<not> P (xs ! j))"
proof (induction xs arbitrary: n)
  case (Cons y ys)
  show ?case
  proof (cases "P y")
    case True
    then show ?thesis by (cases "i - n") auto
  next
    case False
    then have "List.find (\<lambda>(i, x). P x) (enumerate n (y # ys)) = Some (i, x) \<longleftrightarrow>
        Suc n \<le> i \<and> i - Suc n < length ys \<and> ys ! (i - Suc n) = x \<and> P x \<and> (\<forall>j < i - Suc n. \<not> P (ys ! j))"
      by (simp add: Cons.IH)
    also have "\<dots> \<longleftrightarrow> n \<le> i \<and> i - n < length (y # ys) \<and> (y # ys) ! (i - n) = x \<and> P x \<and>
        (\<forall>j < i - n. \<not> P ((y # ys) ! j))"
      using False by (cases "i - n") (auto simp: Suc_diff_Suc less_Suc_eq_0_disj nth_Cons' diff_Suc split: nat.splits)
    finally show ?thesis .
  qed
qed simp

section \<open>The sorts\<close>

locale symbol_sorts =
  fixes sort_addr :: "u64 sorter" and sort_name :: "string sorter"
  assumes addr_perm: "mset (sort_addr ka xs) = mset xs" and addr_sorted: "sorted (map ka (sort_addr ka xs))"
    and name_perm: "mset (sort_name kn xs) = mset xs" and name_sorted: "sorted (map kn (sort_name kn xs))"
begin

lemma iter_symbols_build:
  "mset (iter_symbols (build sort_addr sort_name b)) = mset (builder_syms b)"
  by (simp add: iter_symbols_def build_def Let_def builder_syms_def addr_perm module_symbol_def [abs_def])

lemma set_m_symbols:
  "set (m_symbols (build sort_addr sort_name b)) = set (b_symbols b)"
  "set (m_addresses (build sort_addr sort_name b)) = set (b_symbols b)"
  by (simp_all add: build_def Let_def mset_eq_setD [OF addr_perm] mset_eq_setD [OF name_perm])

lemma m_symbols_sorted: "sorted (map (\<lambda>(a, _). a) (m_symbols (build sort_addr sort_name b)))"
  by (simp add: build_def Let_def addr_sorted)

lemma m_addresses_sorted:
  "sorted (map (\<lambda>(_, r). module_symbol (build sort_addr sort_name b) r) (m_addresses (build sort_addr sort_name b)))"
  by (simp add: module_symbol_def build_def Let_def name_sorted)

lemma builder_syms_iff:
  "(a, n) \<in> set (builder_syms b) \<longleftrightarrow>
     (\<exists>r. (a, r) \<in> set (b_symbols b) \<and> n = module_symbol (build sort_addr sort_name b) r)"
  by (force simp: builder_syms_def module_symbol_def build_def Let_def)

lemma get_symbol_sound:
  assumes "get_symbol (build sort_addr sort_name b) a = Some n"
  shows "(a, n) \<in> set (builder_syms b)"
proof -
  let ?m = "build sort_addr sort_name b"
  obtain i where i: "binary_search_by_key (m_symbols ?m) a (\<lambda>(a, _). a) = Found i"
      "n = module_symbol ?m (snd (m_symbols ?m ! i))"
    using assms by (auto simp: get_symbol_def split: search_result.splits)
  have "i < length (m_symbols ?m) \<and> fst (m_symbols ?m ! i) = a"
    using binary_search_Found [OF i(1)] by (auto simp: split_beta)
  then have "(a, snd (m_symbols ?m ! i)) \<in> set (b_symbols b)"
    by (metis nth_mem prod.collapse set_m_symbols(1))
  then show ?thesis using i(2) builder_syms_iff by blast
qed

lemma get_symbol_complete:
  assumes "(a, n) \<in> set (builder_syms b)"
  shows "get_symbol (build sort_addr sort_name b) a \<noteq> None"
proof -
  obtain r where "(a, r) \<in> set (m_symbols (build sort_addr sort_name b))"
    using assms by (auto simp: builder_syms_iff set_m_symbols)
  then show ?thesis
    using binary_search_complete [OF m_symbols_sorted, of "(a, r)" b a] by (auto simp: get_symbol_def)
qed

lemma get_address_sound:
  assumes "get_address (build sort_addr sort_name b) n = Some a"
  shows "(a, n) \<in> set (builder_syms b)"
proof -
  let ?m = "build sort_addr sort_name b"
  obtain i where i: "binary_search_by_key (m_addresses ?m) n (\<lambda>(_, r). module_symbol ?m r) = Found i"
      "a = fst (m_addresses ?m ! i)"
    using assms by (auto simp: get_address_def split: search_result.splits)
  have k: "i < length (m_addresses ?m)" "module_symbol ?m (snd (m_addresses ?m ! i)) = n"
    using binary_search_Found [OF i(1)] by (auto simp: split_beta)
  then have "(a, snd (m_addresses ?m ! i)) \<in> set (b_symbols b)"
    using i(2) by (metis nth_mem prod.collapse set_m_symbols(2))
  then show ?thesis using k(2) builder_syms_iff by blast
qed

lemma get_address_complete:
  assumes "(a, n) \<in> set (builder_syms b)"
  shows "get_address (build sort_addr sort_name b) n \<noteq> None"
proof -
  obtain r where "(a, r) \<in> set (m_addresses (build sort_addr sort_name b))"
      "n = module_symbol (build sort_addr sort_name b) r"
    using assms by (auto simp: builder_syms_iff set_m_symbols)
  then show ?thesis
    using binary_search_complete [OF m_addresses_sorted, of "(a, r)" b n] by (auto simp: get_address_def)
qed

text \<open>The inexact lookup finds a symbol at the greatest address that is not above the given one.\<close>

lemma get_symbol_inexact_Some:
  assumes "get_symbol_inexact (build sort_addr sort_name b) a = Some (n, off)"
  shows "\<exists>s. (s, n) \<in> set (builder_syms b) \<and> s \<le> a \<and> off = a - s \<and>
    (\<forall>(s', n') \<in> set (builder_syms b). s' \<le> a \<longrightarrow> s' \<le> s)"
proof -
  let ?m = "build sort_addr sort_name b" and ?key = "\<lambda>(a :: u64, _ :: nat \<times> nat). a"
  show ?thesis
  proof (cases "binary_search_by_key (m_symbols ?m) a ?key")
    case (Found i)
    then have "get_symbol ?m a = Some n" "off = 0"
      using assms by (auto simp: get_symbol_inexact_def get_symbol_def)
    then show ?thesis using get_symbol_sound by fastforce
  next
    case (Insert i)
    note ins = binary_search_Insert [OF m_symbols_sorted Insert]
    have i: "i \<noteq> 0" "n = module_symbol ?m (snd (m_symbols ?m ! (i - 1)))"
        "off = a - fst (m_symbols ?m ! (i - 1))"
      using assms Insert by (auto simp: get_symbol_inexact_def Let_def split_beta va_diff_def split: if_splits)
    let ?s = "fst (m_symbols ?m ! (i - 1))"
    have "(?s, snd (m_symbols ?m ! (i - 1))) \<in> set (b_symbols b)"
      using ins i(1) set_m_symbols(1) [of b] nth_mem [of "i - 1" "m_symbols ?m"] by auto
    then have "(?s, n) \<in> set (builder_syms b)" using i(2) builder_syms_iff by blast
    moreover have "?s < a" using ins i(1) by (simp add: split_beta)
    moreover have "s' \<le> ?s" if s': "(s', n') \<in> set (builder_syms b)" "s' \<le> a" for s' n'
    proof -
      obtain r where "(s', r) \<in> set (m_symbols ?m)" using s'(1) by (auto simp: builder_syms_iff set_m_symbols)
      then obtain j where j: "j < length (m_symbols ?m)" "m_symbols ?m ! j = (s', r)" by (auto simp: in_set_conv_nth)
      then have "j < i" using ins s'(2) by (metis case_prod_conv leD leI)
      then show ?thesis
        using sorted_nth_mono [OF m_symbols_sorted [of b], of j "i - 1"] j ins i(1)
        by (cases i) (auto simp: split_beta)
    qed
    ultimately show ?thesis using i(3) by (intro exI [of _ ?s]) auto
  qed
qed

lemma get_symbol_inexact_None:
  "get_symbol_inexact (build sort_addr sort_name b) a = None \<longleftrightarrow> (\<forall>(s, n) \<in> set (builder_syms b). a < s)"
proof -
  let ?m = "build sort_addr sort_name b" and ?key = "\<lambda>(a :: u64, _ :: nat \<times> nat). a"
  show ?thesis
  proof (cases "get_symbol_inexact ?m a")
    case None
    then have "binary_search_by_key (m_symbols ?m) a ?key = Insert 0"
      by (auto simp: get_symbol_inexact_def Let_def split_beta split: search_result.splits if_splits)
    then have "\<forall>j < length (m_symbols ?m). a < fst (m_symbols ?m ! j)"
      using binary_search_Insert [OF m_symbols_sorted, of b a 0] by (simp add: split_beta)
    then have "\<forall>x \<in> set (b_symbols b). a < fst x" by (metis in_set_conv_nth set_m_symbols(1))
    then show ?thesis using None by (force simp: builder_syms_def)
  next
    case (Some p)
    then show ?thesis using get_symbol_inexact_Some [of b a "fst p" "snd p"] by fastforce
  qed
qed

end

interpretation stable_sorts: symbol_sorts sort_key sort_key
  by unfold_locales simp_all

section \<open>The index\<close>

text \<open>A sequence of loads: the names with the functions that load them, and what each load gives.\<close>

type_synonym load_request = "string \<times> (string \<Rightarrow> module_symbols option vm_result)"

fun load_modules :: "'m try_insert \<Rightarrow> load_request list \<Rightarrow> 'm \<Rightarrow> 'm \<times> module_symbols option vm_result list" where
  "load_modules try_insert [] m = (m, [])"
| "load_modules try_insert ((k, f) # reqs) m =
     (let (m, r) = load_module try_insert m k f; (m, rs) = load_modules try_insert reqs m in (m, r # rs))"

text \<open>
  What it has to do: a name gets the value of the first of its loads that succeeds, unless it had one before; \<open>loads\<close> are
  the names with what their functions return.
\<close>

fun first_loaded :: "(string \<times> module_symbols option vm_result) list \<Rightarrow> string \<Rightarrow> module_symbols option option" where
  "first_loaded [] k = None"
| "first_loaded ((n, r) # loads) k = (case r of Ok v \<Rightarrow> if n = k then Some v else first_loaded loads k | _ \<Rightarrow> first_loaded loads k)"

definition loaded_after ::
  "(string \<Rightarrow> module_symbols option option) \<Rightarrow> (string \<times> module_symbols option vm_result) list \<Rightarrow> string \<Rightarrow>
   module_symbols option option"
where
  "loaded_after index loads k = (case index k of Some v \<Rightarrow> Some v | None \<Rightarrow> first_loaded loads k)"

definition load_error :: "string \<Rightarrow> vm_error \<Rightarrow> vm_error" where
  "load_error k e = vm_with_context (''failed to load symbols for module '' @ [CHR 0x22] @ k @ [CHR 0x22]) (DynVm e)"

definition load_result ::
  "(string \<Rightarrow> module_symbols option option) \<Rightarrow> string \<Rightarrow> module_symbols option vm_result \<Rightarrow> module_symbols option vm_result"
where
  "load_result index k r = (case index k of Some v \<Rightarrow> Ok v | None \<Rightarrow> map_err (load_error k) r)"

text \<open>The loads that the entries of a directory stand for: the entries that have a name in UTF-8.\<close>

fun dir_loads :: "sorts \<Rightarrow> loaders \<Rightarrow> (file_path, io_error) result list \<Rightarrow> (string \<times> module_symbols option vm_result) list" where
  "dir_loads srt ld [] = []"
| "dir_loads srt ld (entry # entries) =
     (case entry of
        Ok path \<Rightarrow>
          (case file_name path of
             Some bs \<Rightarrow>
               if utf8_valid bs
               then (map byte_char bs, map_ok Some (from_file srt ld file_content path)) # dir_loads srt ld entries
               else dir_loads srt ld entries
           | None \<Rightarrow> dir_loads srt ld entries)
      | _ \<Rightarrow> dir_loads srt ld entries)"

text \<open>The documented behaviour of \<open>OnceMap\<close>: a key gets its value once, by a function that may fail.\<close>

locale once_map =
  fixes map_get :: "'m map_get" and try_insert :: "'m try_insert"
  assumes present: "map_get m k = Some v \<Longrightarrow> try_insert m k f = (m, Ok v)"
    and absent_Ok: "map_get m k = None \<Longrightarrow> f k = Ok v \<Longrightarrow>
      snd (try_insert m k f) = Ok v \<and> map_get (fst (try_insert m k f)) = (map_get m)(k \<mapsto> v)"
    and absent_Err: "map_get m k = None \<Longrightarrow> f k = Err e \<Longrightarrow>
      snd (try_insert m k f) = Err e \<and> map_get (fst (try_insert m k f)) = map_get m"
begin

lemma load_module_step:
  assumes "f k \<noteq> Panic"
  shows "map_get (fst (load_module try_insert m k f)) = loaded_after (map_get m) [(k, f k)]"
    and "snd (load_module try_insert m k f) = load_result (map_get m) k (f k)"
proof -
  let ?g = "\<lambda>name. context_res DynVm (''failed to load symbols for module '' @ [CHR 0x22] @ name @ [CHR 0x22]) (f name)"
  have "map_get (fst (load_module try_insert m k f)) = loaded_after (map_get m) [(k, f k)] \<and>
    snd (load_module try_insert m k f) = load_result (map_get m) k (f k)"
  proof (cases "map_get m k")
    case (Some v)
    then show ?thesis
      using present [OF Some] by (auto simp: load_module_def loaded_after_def load_result_def fun_eq_iff split: option.splits result.splits)
  next
    case None
    show ?thesis
    proof (cases "f k")
      case (Ok v)
      then have "?g k = Ok v" by (simp add: context_res_def)
      then show ?thesis
        using absent_Ok [OF None, of ?g v] None Ok
        by (auto simp: load_module_def loaded_after_def load_result_def fun_eq_iff split: option.splits)
    next
      case (Err e)
      then have "?g k = Err (load_error k e)" by (simp add: context_res_def load_error_def)
      then show ?thesis
        using absent_Err [OF None, of ?g "load_error k e"] None Err
        by (auto simp: load_module_def loaded_after_def load_result_def fun_eq_iff split: option.splits)
    qed (use assms in simp)
  qed
  then show "map_get (fst (load_module try_insert m k f)) = loaded_after (map_get m) [(k, f k)]"
    "snd (load_module try_insert m k f) = load_result (map_get m) k (f k)" by simp_all
qed

lemma load_modules_index:
  "\<forall>(k, f) \<in> set reqs. f k \<noteq> Panic \<Longrightarrow>
    map_get (fst (load_modules try_insert reqs m)) = loaded_after (map_get m) (map (\<lambda>(k, f). (k, f k)) reqs)"
proof (induction reqs arbitrary: m)
  case Nil
  then show ?case by (auto simp: loaded_after_def fun_eq_iff split: option.splits)
next
  case (Cons r reqs)
  obtain k f where r: "r = (k, f)" by force
  show ?case
    using Cons.IH [of "fst (load_module try_insert m k f)"] Cons.prems load_module_step(1) [of f k m]
    by (auto simp: r split_beta Let_def loaded_after_def fun_eq_iff split: option.splits result.splits)
qed

lemma load_modules_results:
  "\<forall>(k, f) \<in> set reqs. f k \<noteq> Panic \<Longrightarrow> i < length reqs \<Longrightarrow>
    length (snd (load_modules try_insert reqs m)) = length reqs \<and>
    snd (load_modules try_insert reqs m) ! i =
      load_result (loaded_after (map_get m) (map (\<lambda>(k, f). (k, f k)) (take i reqs))) (fst (reqs ! i)) (snd (reqs ! i) (fst (reqs ! i)))"
proof (induction reqs arbitrary: m i)
  case (Cons r reqs)
  obtain k f where r: "r = (k, f)" by force
  let ?m = "fst (load_module try_insert m k f)"
  have step: "map_get ?m = loaded_after (map_get m) [(k, f k)]" "snd (load_module try_insert m k f) = load_result (map_get m) k (f k)"
    using load_module_step [of f k m] Cons.prems(1) by (simp_all add: r)
  have len: "length (snd (load_modules try_insert reqs ?m)) = length reqs"
    using Cons.IH [of 0 ?m] Cons.prems(1) by (cases reqs) (auto simp: r)
  have after: "loaded_after (loaded_after (map_get m) [(k, f k)]) ls = loaded_after (map_get m) ((k, f k) # ls)" for ls
    by (auto simp: loaded_after_def fun_eq_iff split: option.splits result.splits)
  have none: "loaded_after (map_get m) [] = map_get m"
    by (auto simp: loaded_after_def fun_eq_iff split: option.splits)
  show ?case
    using Cons.IH [of "i - 1" ?m] Cons.prems len step
    by (cases i) (simp_all add: r split_beta Let_def after none)
qed simp

lemma load_dir_loads:
  assumes "\<forall>entry \<in> set entries. entry \<noteq> Panic" "\<forall>(k, r) \<in> set (dir_loads srt ld entries). r \<noteq> Panic"
  shows "load_dir_loop try_insert srt ld entries m =
    (fst (load_modules try_insert (map (\<lambda>(k, r). (k, \<lambda>_. r)) (dir_loads srt ld entries)) m), Ok ())"
  using assms
proof (induction entries arbitrary: m)
  case (Cons entry entries)
  show ?case
  proof (cases entry)
    case (Ok path)
    show ?thesis
    proof (cases "file_name path")
      case None
      then show ?thesis
        using Cons Ok by (simp add: load_from_file_inner_def context_opt_def ok_or_def)
    next
      case (Some bs)
      show ?thesis
      proof (cases "utf8_valid bs")
        case True
        let ?f = "\<lambda>_ :: string. map_ok Some (from_file srt ld file_content path)"
        have f: "?f k \<noteq> Panic" for k using Cons.prems(2) Ok Some True by auto
        have np: "snd (load_module try_insert m (map byte_char bs) ?f) \<noteq> Panic"
          using load_module_step(2) [of ?f "map byte_char bs" m, OF f] f
          by (cases "from_file srt ld file_content path") (auto simp: load_result_def split: option.splits)
        have "load_from_file_inner try_insert srt ld m path = load_module try_insert m (map byte_char bs) ?f"
          by (simp add: load_from_file_inner_def context_opt_def ok_or_def Some True)
        then show ?thesis
          using Cons np Ok Some True by (auto simp: split_beta Let_def split: prod.splits result.splits)
      next
        case False
        then show ?thesis
          using Cons Ok Some by (simp add: load_from_file_inner_def context_opt_def ok_or_def)
      qed
    qed
  qed (use Cons in simp_all)
qed simp

lemma load_dir_index:
  assumes "\<forall>entry \<in> set entries. entry \<noteq> Panic" "\<forall>(k, r) \<in> set (dir_loads srt ld entries). r \<noteq> Panic"
  shows "\<exists>m'. load_dir_inner try_insert srt ld (Ok entries) m = (m', Ok ()) \<and>
    map_get m' = loaded_after (map_get m) (dir_loads srt ld entries)"
proof -
  have "map (\<lambda>(k, f). (k, f k)) (map (\<lambda>(k, r). (k, \<lambda>_. r)) ls) = ls" for ls :: "(string \<times> module_symbols option vm_result) list"
    by (induction ls) auto
  moreover have "\<forall>(k, f) \<in> set (map (\<lambda>(k, r). (k, \<lambda>_. r)) (dir_loads srt ld entries)). f k \<noteq> Panic"
    using assms(2) by auto
  ultimately show ?thesis
    using load_modules_index [of "map (\<lambda>(k, r). (k, \<lambda>_. r)) (dir_loads srt ld entries)" m] load_dir_loads [OF assms, of m]
    by (simp add: load_dir_inner_def)
qed

end

definition fun_try_insert :: "(string \<Rightarrow> module_symbols option option) try_insert" where
  "fun_try_insert m k f =
     (case m k of
        Some v \<Rightarrow> (m, Ok v)
      | None \<Rightarrow> (case f k of Ok v \<Rightarrow> (m(k \<mapsto> v), Ok v) | Err e \<Rightarrow> (m, Err e) | Panic \<Rightarrow> (m, Panic)))"

interpretation fun_map: once_map "\<lambda>m. m" fun_try_insert
  by unfold_locales (simp_all add: fun_try_insert_def)

section \<open>Symbol files\<close>

definition char_byte :: "char \<Rightarrow> u8" where
  "char_byte c = of_nat (char_code c)"

fun hex_digits :: "nat \<Rightarrow> nat \<Rightarrow> nat list" where
  "hex_digits 0 n = []"
| "hex_digits (Suc k) n = hex_digits k (n div 16) @ [n mod 16]"

definition hex_char :: "nat \<Rightarrow> char" where
  "hex_char d = ''0123456789abcdef'' ! d"

text \<open>A line of a symbol file as the comment of the parser shows it.\<close>

definition symbol_line :: "char \<times> u64 \<times> string \<Rightarrow> string" where
  "symbol_line = (\<lambda>(kind, addr, name).
     map hex_char (hex_digits 16 (unat addr)) @ '' '' @ [kind] @ '' '' @ name)"

definition symbol_kind :: "char \<Rightarrow> bool" where
  "symbol_kind k \<longleftrightarrow> to_ascii_uppercase k \<in> set ''TADR''"

definition ascii_name :: "string \<Rightarrow> bool" where
  "ascii_name s \<longleftrightarrow> (\<forall>c \<in> set s. char_code c < 0x80 \<and> c \<noteq> CHR 0x09 \<and> c \<noteq> CHR 0x0a)"

lemma byte_char_byte [simp]: "byte_char (char_byte c) = c"
  by (simp add: byte_char_def char_byte_def char_code_def unat_of_nat)

lemma length_hex_digits [simp]: "length (hex_digits k n) = k"
  by (induction k arbitrary: n) simp_all

lemma hex_digits_less: "d \<in> set (hex_digits k n) \<Longrightarrow> d < 16"
  by (induction k arbitrary: n) auto

lemma less_16_cases: "d < 16 \<Longrightarrow> d \<in> set [0..<16::nat]"
  by simp

lemma hex_char_value: "d < 16 \<Longrightarrow> digit_value 16 (hex_char d) = Some d"
  using less_16_cases [of d] by (auto simp: hex_char_def digit_value_def char_code_def upt_rec)

lemma hex_char_ascii: "d < 16 \<Longrightarrow> ascii_name [hex_char d] \<and> hex_char d \<noteq> CHR ''+''"
  using less_16_cases [of d] by (auto simp: hex_char_def ascii_name_def char_code_def upt_rec)

lemma parse_digits_append:
  "parse_digits r b acc (xs @ ys) = Option.bind (parse_digits r b acc xs) (\<lambda>acc. parse_digits r b acc ys)"
  by (induction xs arbitrary: acc) (auto split: option.split)

lemma parse_hex_digits:
  "acc * 16 ^ k + n mod 16 ^ k < 2 ^ b \<Longrightarrow>
   parse_digits 16 b acc (map hex_char (hex_digits k n)) = Some (acc * 16 ^ k + n mod 16 ^ k)"
proof (induction k arbitrary: n)
  case (Suc k)
  have e: "acc * 16 ^ Suc k + n mod 16 ^ Suc k = (acc * 16 ^ k + n div 16 mod 16 ^ k) * 16 + n mod 16"
    by (simp add: mod_mult2_eq algebra_simps)
  have "x \<le> x * 16 + y" for x y :: nat by simp
  then have "acc * 16 ^ k + n div 16 mod 16 ^ k < 2 ^ b"
    using Suc.prems unfolding e by (rule le_less_trans)
  then show ?case
    using Suc.IH [of "n div 16"] Suc.prems e by (simp add: parse_digits_append hex_char_value)
qed simp

lemma from_str_hex:
  "from_str_radix 16 64 (map hex_char (hex_digits 16 (unat (a :: u64)))) = Some (unat a)"
proof -
  let ?ds = "map hex_char (hex_digits 16 (unat a))"
  have "?ds \<noteq> []" by (simp flip: length_0_conv)
  moreover have "hd ?ds \<noteq> CHR ''+''"
    using \<open>?ds \<noteq> []\<close> hd_in_set [of ?ds] hex_char_ascii hex_digits_less by fastforce
  ultimately have "(case ?ds of c # cs \<Rightarrow> if c = CHR ''+'' then cs else ?ds | [] \<Rightarrow> []) = ?ds"
    by (cases ?ds) simp_all
  moreover have "unat a mod 16 ^ 16 = unat a" using unsigned_less [of a, where 'a = nat] by simp
  then have "parse_digits 16 64 0 ?ds = Some (unat a)"
    using parse_hex_digits [of 0 16 "unat a" 64] unsigned_less [of a, where 'a = nat] by simp
  ultimately show ?thesis using \<open>?ds \<noteq> []\<close> by (simp add: from_str_radix_def Let_def)
qed

lemma ascii_boundary: "\<forall>c \<in> set s. char_code c < 0x80 \<Longrightarrow> i \<le> length s \<Longrightarrow> is_char_boundary s i"
  using nth_mem [of i s] by (fastforce simp: is_char_boundary_def)

lemma takeWhile_name: "ascii_name n \<Longrightarrow> takeWhile (\<lambda>c. c \<noteq> CHR 0x09 \<and> c \<noteq> CHR 0x0a) (n @ CHR 0x0a # r) = n"
  by (subst takeWhile_append2) (auto simp: ascii_name_def)

lemma symbol_line_ascii:
  assumes "char_code k < 0x80" "k \<noteq> CHR 0x0a" "ascii_name n"
  shows "\<forall>c \<in> set (symbol_line (k, a, n)). char_code c < 0x80 \<and> c \<noteq> CHR 0x0a"
proof -
  have "\<forall>d \<in> set (hex_digits 16 (unat a)). char_code (hex_char d) < 0x80 \<and> hex_char d \<noteq> CHR 0x0a"
    using hex_char_ascii hex_digits_less by (fastforce simp: ascii_name_def)
  moreover have "char_code (CHR '' '') < 0x80" by (simp add: char_code_def)
  ultimately show ?thesis using assms by (auto simp: symbol_line_def ascii_name_def)
qed

lemma parse_printed_line:
  assumes "char_code k < 0x80" "k \<noteq> CHR 0x0a" "ascii_name n"
  shows "parse_symbol_line (symbol_line (k, a, n) @ [CHR 0x0a]) =
    (Ok (if symbol_kind k then Some (n, a) else None) :: (_, 'e) result)"
proof -
  let ?ds = "map hex_char (hex_digits 16 (unat a))" and ?l = "symbol_line (k, a, n) @ [CHR 0x0a]"
  have nl: "char_code (CHR 0x0a) < 0x80" by (simp add: char_code_def)
  have asc: "\<forall>c \<in> set ?l. char_code c < 0x80" using symbol_line_ascii [OF assms] nl by auto
  have l: "?l = ?ds @ '' '' @ [k] @ '' '' @ n @ [CHR 0x0a]" by (simp add: symbol_line_def)
  have len: "length ?ds = 16" by simp
  have parts: "take 19 ?l = ?ds @ '' '' @ [k] @ '' ''" "drop 19 ?l = n @ [CHR 0x0a]"
      "take 16 (?ds @ '' '' @ [k] @ '' '') = ?ds" "(?ds @ '' '' @ [k] @ '' '') ! 17 = k"
    unfolding l by (simp_all add: nth_append)
  have "is_char_boundary ?l 19" by (rule ascii_boundary [OF asc]) (simp add: l)
  moreover have "is_char_boundary (?ds @ '' '' @ [k] @ '' '') 16"
    by (rule ascii_boundary) (use asc in \<open>auto simp: l\<close>)
  ultimately show ?thesis
    unfolding parse_symbol_line_def parts Let_def from_str_hex takeWhile_name [OF assms(3)]
    by (simp add: symbol_kind_def)
qed

lemma utf8_valid_ascii: "\<forall>b \<in> set bs. b < 0x80 \<Longrightarrow> utf8_valid bs"
  by (induction bs) simp_all

lemma char_byte_less: "char_code c < 0x80 \<Longrightarrow> char_byte c < 0x80"
  by (simp add: char_byte_def word_less_nat_alt unat_of_nat char_code_def)

lemma char_byte_newline: "char_byte (CHR 0x0a) = 0x0a"
  by (simp add: char_byte_def char_code_def)

lemma byte_char_newline: "byte_char 0x0a = CHR 0x0a"
  using byte_char_byte [of "CHR 0x0a"] by (simp only: char_byte_newline)

lemma char_byte_eq_newline: "char_byte c = 0x0a \<longleftrightarrow> c = CHR 0x0a"
  by (metis byte_char_byte byte_char_newline char_byte_newline)

lemma split_line:
  assumes "0x0a \<notin> set l"
  shows "takeWhile (\<lambda>b. b \<noteq> 0x0a) (l @ 0x0a # r) = l" "dropWhile (\<lambda>b. b \<noteq> 0x0a) (l @ 0x0a # r) = 0x0a # r"
    "takeWhile (\<lambda>b. b \<noteq> 0x0a) l = l" "dropWhile (\<lambda>b. b \<noteq> 0x0a) l = []"
proof -
  have "\<forall>b \<in> set l. b \<noteq> 0x0a" using assms by auto
  then show "takeWhile (\<lambda>b. b \<noteq> 0x0a) (l @ 0x0a # r) = l" "dropWhile (\<lambda>b. b \<noteq> 0x0a) (l @ 0x0a # r) = 0x0a # r"
    "takeWhile (\<lambda>b. b \<noteq> 0x0a) l = l" "dropWhile (\<lambda>b. b \<noteq> 0x0a) l = []"
    by (simp_all add: takeWhile_append2 dropWhile_append2)
qed

lemma read_printed_line:
  assumes "\<forall>c \<in> set l. char_code c < 0x80 \<and> c \<noteq> CHR 0x0a"
  shows "read_one_line True utf8_error (map char_byte l @ 0x0a # r) = Ok (l @ [CHR 0x0a], r, Suc (length l))"
proof -
  have nl: "0x0a \<notin> set (map char_byte l)" using assms char_byte_eq_newline by fastforce
  have "utf8_valid (map char_byte l @ [0x0a])"
    by (rule utf8_valid_ascii) (use assms char_byte_less in auto)
  then show ?thesis
    unfolding read_one_line_def split_line [OF nl] by (simp add: Let_def comp_def byte_char_newline)
qed

text \<open>The content of a symbol file.\<close>

definition symbol_file :: "(char \<times> u64 \<times> string) list \<Rightarrow> u8 list" where
  "symbol_file syms = concat (map (\<lambda>s. map char_byte (symbol_line s) @ [0x0a]) syms)"

lemma parse_symbol_file_printed:
  assumes "\<forall>(k, a, n) \<in> set syms. char_code k < 0x80 \<and> k \<noteq> CHR 0x0a \<and> ascii_name n"
  shows "parse_symbol_file_inner True utf8_error (symbol_file syms) b =
    (extend_symbols b (map snd (filter (\<lambda>s. symbol_kind (fst s)) syms)), Ok ())"
  using assms
proof (induction syms arbitrary: b)
  case Nil
  then show ?case by (simp add: symbol_file_def parse_symbol_file_inner.simps read_one_line_def)
next
  case (Cons s syms)
  obtain k a n where s: "s = (k, a, n)" by (cases s)
  then have k: "char_code k < 0x80" "k \<noteq> CHR 0x0a" "ascii_name n" using Cons.prems by auto
  have f: "symbol_file (s # syms) = map char_byte (symbol_line (k, a, n)) @ 0x0a # symbol_file syms"
    by (simp add: symbol_file_def s)
  have IH: "parse_symbol_file_inner True utf8_error (symbol_file syms) b =
      (extend_symbols b (map snd (filter (\<lambda>s. symbol_kind (fst s)) syms)), Ok ())" for b
    using Cons by simp
  show ?case
    unfolding f
    by (subst parse_symbol_file_inner.simps)
       (simp add: read_printed_line [OF symbol_line_ascii [OF k]] parse_printed_line [OF k] IH s)
qed

text \<open>A line of less than 19 bytes, such as an empty one, makes the parser panic.\<close>

lemma short_line_panics:
  assumes "0x0a \<notin> set l" "length l < 18" "utf8_valid (l @ [0x0a])"
  shows "parse_symbol_file_inner True utf8_error (l @ 0x0a # r) b = (b, Panic)"
  by (subst parse_symbol_file_inner.simps)
     (use assms in \<open>simp add: read_one_line_def split_line Let_def parse_symbol_line_def is_char_boundary_def\<close>)

text \<open>Without \<open>std\<close>, the line feed stays in front of what is left, so that the next line is empty.\<close>

lemma no_std_first_line:
  assumes "0x0a \<notin> set l"
  shows "parse_symbol_file_inner False utf8_error (l @ 0x0a # r) b = parse_symbol_file_inner False utf8_error l b"
proof -
  have "parse_symbol_file_inner False utf8_error (0x0a # r) b = (b, Ok ())"
      "parse_symbol_file_inner False utf8_error [] b = (b, Ok ())" for b
    by (simp_all add: parse_symbol_file_inner.simps read_one_line_def)
  then show ?thesis
    by (subst (1 2) parse_symbol_file_inner.simps)
       (simp add: read_one_line_def split_line [OF assms] Let_def split: result.split option.split)
qed

end
