(* ===== verification/Vm_Debug_Properties.thy ===== *)
theory Vm_Debug_Properties
  imports Vm_Pdb_Laws Vm_Dwarf_Laws Vm_Symbols_Laws
begin

text \<open>
  Properties of the loaders of debug information, with the small files at which their hypotheses are shown to hold.
\<close>

section \<open>A PDB file with one structure\<close>

text \<open>A structure \<open>S\<close> with an integer and a pointer to itself, and an array of pointers.\<close>

definition tiny_pdb :: "type_data list" where
  "tiny_pdb =
     [TFieldList [TMember 0x74 [0x61] 0, TMember 0x1002 [0x6e] 8],
      TClass ClassKindStruct [0x53] (Some 0x1000) 16,
      TPointer 0x1001,
      TArray 0x1002 [4, 2]]"

definition tiny_struct :: struct_ref where
  "tiny_struct =
     \<lparr>st_size = 16, st_name = ''S'',
      st_fields = [\<lparr>sf_name = ''a'', sf_offset = 0, sf_typ = tk_i32\<rparr>,
        \<lparr>sf_name = ''n'', sf_offset = 8, sf_typ = Pointer (Struct ''S'')\<rparr>]\<rparr>"

lemma tiny_pdb_wf: "pdb_wf 0x1000 tiny_pdb"
  by (simp add: pdb_wf_def tiny_pdb_def pdb_known_def All_less_Suc)

lemma tiny_pdb_at:
  "get_at 0 tiny_pdb = Some (TFieldList [TMember 0x74 [0x61] 0, TMember 0x1002 [0x6e] 8])"
  "get_at 1 tiny_pdb = Some (TClass ClassKindStruct [0x53] (Some 0x1000) 16)"
  "get_at 2 tiny_pdb = Some (TPointer 0x1001)" "get_at 3 tiny_pdb = Some (TArray 0x1002 [4, 2])"
  by (simp_all add: tiny_pdb_def get_at_def)

lemma tiny_pdb_names: "from_utf8 [0x53] = Some ''S''" "from_utf8 [0x61] = Some ''a''" "from_utf8 [0x6e] = Some ''n''"
  by code_simp+

lemma tiny_pdb_type:
  "pdb_type 0x1000 tiny_pdb 0x74 = Some tk_i32" "pdb_type 0x1000 tiny_pdb 0x1001 = Some (Struct ''S'')"
  "pdb_type 0x1000 tiny_pdb 0x1002 = Some (Pointer (Struct ''S''))"
  "pdb_type 0x1000 tiny_pdb 0x1003 = Some (Array (Pointer (Struct ''S'')) 8)"
proof -
  show "pdb_type 0x1000 tiny_pdb 0x74 = Some tk_i32"
    by (subst pdb_type.simps) (simp add: primitive_table_def)
  show s: "pdb_type 0x1000 tiny_pdb 0x1001 = Some (Struct ''S'')"
    by (subst pdb_type.simps) (simp add: tiny_pdb_at tiny_pdb_names flip: One_nat_def)
  show p: "pdb_type 0x1000 tiny_pdb 0x1002 = Some (Pointer (Struct ''S''))"
    by (subst pdb_type.simps) (simp add: tiny_pdb_at s)
  show "pdb_type 0x1000 tiny_pdb 0x1003 = Some (Array (Pointer (Struct ''S'')) 8)"
    by (subst pdb_type.simps) (simp add: tiny_pdb_at p array_len_def)
qed

lemma tiny_pdb_structs: "concat (map (pdb_struct 0x1000 tiny_pdb) tiny_pdb) = [tiny_struct]"
proof -
  have "pdb_struct 0x1000 tiny_pdb (TClass ClassKindStruct [0x53] (Some 0x1000) 16) = [tiny_struct]"
    by (simp add: tiny_pdb_at tiny_pdb_names tiny_pdb_type tiny_struct_def or_unknown_def)
  moreover have "map (pdb_struct 0x1000 tiny_pdb) tiny_pdb =
      [[], pdb_struct 0x1000 tiny_pdb (TClass ClassKindStruct [0x53] (Some 0x1000) 16), [], []]"
    by (subst (2) tiny_pdb_def) simp
  ultimately show ?thesis by simp
qed

section \<open>Types from PDB files\<close>

text \<open>
  C21. The types of a PDB file: when its records refer to earlier ones, as the format requires, loading them returns
  and adds one structure to the module for every record of a structure with a list of fields, in the order of the file;
  the fields are the named members of the list, at their offsets, with the types that the records describe. The
  table of types that is filled on the way, from which later fields are answered, does not show in the result.
\<close>

theorem pdb_types_loaded:
  assumes "off + length ts \<le> 2 ^ 32" "pdb_wf off ts" "\<forall>d \<in> set ts. pdb_record_ok off d"
  shows "pdb_load_types (Ok (pdb_stream off ts)) b = Some (extend_structs b (concat (map (pdb_struct off ts) ts)), Ok ())"
  using assms by (rule pdb_load_types_stream)

theorem pdb_types_loaded_witness:
  "pdb_load_types (Ok (pdb_stream 0x1000 tiny_pdb)) builder_new = Some (extend_structs builder_new [tiny_struct], Ok ())"
proof -
  have "\<forall>d \<in> set tiny_pdb. pdb_record_ok 0x1000 d" by (simp add: tiny_pdb_def pdb_known_def)
  moreover have "0x1000 + length tiny_pdb \<le> 2 ^ 32" by (simp add: tiny_pdb_def)
  ultimately show ?thesis using pdb_types_loaded [of "0x1000" tiny_pdb builder_new] tiny_pdb_wf by (simp add: tiny_pdb_structs)
qed

text \<open>
  C22. The table of the types of a PDB file is well typed, and stays so: every cell that holds a type holds the one
  that its record describes. Resolving an index returns, whatever has been resolved before, with the type that the
  record describes, and keeps the table well typed.
\<close>

theorem pdb_table_typed:
  assumes "pdb_wf off ts" "pdb_ok off ts s" "pdb_known off ix"
  shows "\<exists>s'. pdb_get_type s ix = Some (s', Ok (pdb_type off ts ix)) \<and> pdb_ok off ts s'"
  using pdb_get_type_resolves [OF assms] .

theorem pdb_table_typed_witness:
  "\<exists>s'. pdb_get_type \<lparr>pl_offset = 0x1000, pl_types = map (\<lambda>d. (d, None)) tiny_pdb\<rparr> 0x1003 =
     Some (s', Ok (Some (Array (Pointer (Struct ''S'')) 8))) \<and> pdb_ok 0x1000 tiny_pdb s'"
proof -
  have "pdb_ok 0x1000 tiny_pdb \<lparr>pl_offset = 0x1000, pl_types = map (\<lambda>d. (d, None)) tiny_pdb\<rparr>" by (simp add: pdb_ok_def comp_def)
  from pdb_table_typed [OF tiny_pdb_wf this, of "0x1003"] show ?thesis by (simp add: pdb_known_def tiny_pdb_type)
qed

section \<open>A DWARF unit with an anonymous union\<close>

text \<open>A structure \<open>S\<close> with an integer \<open>a\<close> and an anonymous union, of an integer \<open>u\<close> and of a pointer to \<open>S\<close>.\<close>

definition no_value :: attr_value where
  "no_value = \<lparr>av_unit_ref = None, av_udata = None, av_sdata = None, av_encoding = None, av_flag = None, av_string = None\<rparr>"

definition ref_to :: "nat \<Rightarrow> attr_value" where "ref_to off = no_value\<lparr>av_unit_ref := Some off\<rparr>"
definition number :: "u64 \<Rightarrow> attr_value" where "number n = no_value\<lparr>av_udata := Some n\<rparr>"
definition named_by :: "string \<Rightarrow> attr_value" where "named_by s = no_value\<lparr>av_string := Some (Ok s)\<rparr>"
definition encoded_as :: "u8 \<Rightarrow> attr_value" where "encoded_as e = no_value\<lparr>av_encoding := Some e\<rparr>"

definition tiny_die :: "u16 \<Rightarrow> nat \<Rightarrow> (u16 \<times> attr_value) list \<Rightarrow> die list \<Rightarrow> die" where
  "tiny_die tag off attrs children = Die tag off (\<lambda>at. Ok (map_of attrs at)) (map Ok children)"

definition tiny_dies :: "die list" where
  "tiny_dies =
     [tiny_die 0x24 0x20 [(0x03, named_by ''int''), (0x0b, number 4), (0x3e, encoded_as 5)] [],
      tiny_die 0x17 0x30 [(0x0b, number 8)]
        [tiny_die 0x0d 0x38 [(0x03, named_by ''u''), (0x49, ref_to 0x20)] [],
         tiny_die 0x0d 0x3c [(0x03, named_by ''p''), (0x49, ref_to 0x60)] []],
      tiny_die 0x13 0x40 [(0x03, named_by ''S''), (0x0b, number 16)]
        [tiny_die 0x0d 0x48 [(0x03, named_by ''a''), (0x49, ref_to 0x20), (0x38, number 0)] [],
         tiny_die 0x0d 0x50 [(0x49, ref_to 0x30), (0x38, number 8)] []],
      tiny_die 0x0f 0x60 [(0x49, ref_to 0x40)] []]"

definition tiny_entries :: type_list where
  "tiny_entries =
     [\<lparr>te_offset = 0x20, te_name = Some ''int'', te_dwarf_type = DPrimitive \<lparr>bt_len = 4, bt_signed = True\<rparr>, te_typ = None\<rparr>,
      \<lparr>te_offset = 0x30, te_name = None,
        te_dwarf_type = DUnion \<lparr>ds_size = 8, ds_fields = [(Bytes 0, Some ''u'', 0x20), (Bytes 0, Some ''p'', 0x60)]\<rparr>, te_typ = None\<rparr>,
      \<lparr>te_offset = 0x40, te_name = Some ''S'',
        te_dwarf_type = DStruct \<lparr>ds_size = 16, ds_fields = [(Bytes 0, Some ''a'', 0x20), (Bytes 8, None, 0x30)]\<rparr>, te_typ = None\<rparr>,
      \<lparr>te_offset = 0x60, te_name = None, te_dwarf_type = DPtr (Some 0x40), te_typ = None\<rparr>]"

lemmas dwarf_read_defs = read_type_def try_read_name_def read_attr_def try_read_attr_def dw_read_def dw_try_read_def
  read_base_type_def read_struct_def read_union_def read_struct_member_def read_union_member_def ok_or_def Let_def
  DwAtType_def DwAtByteSize_def DwAtDataMemberLocation_def DwAtDataBitOffset_def DwAtEncoding_def DwAtDeclaration_def
  DW_AT_name_def DW_TAG_array_type_def DW_TAG_pointer_type_def DW_TAG_structure_type_def DW_TAG_subroutine_type_def
  DW_TAG_typedef_def DW_TAG_union_type_def DW_TAG_base_type_def DW_ATE_signed_def DW_ATE_signed_char_def

lemma tiny_dies_types: "fill_types (map Ok tiny_dies) = Ok tiny_entries"
  by (simp add: tiny_dies_def tiny_die_def tiny_entries_def dwarf_read_defs ref_to_def number_def named_by_def encoded_as_def
      no_value_def)

definition tiny_fields :: "struct_field list" where
  "tiny_fields =
     [\<lparr>sf_name = ''a'', sf_offset = 0, sf_typ = tk_i32\<rparr>, \<lparr>sf_name = ''u'', sf_offset = 8, sf_typ = tk_i32\<rparr>,
      \<lparr>sf_name = ''p'', sf_offset = 8, sf_typ = Pointer (Struct ''S'')\<rparr>]"

lemma tiny_entries_types:
  "dwarf_has_type tiny_entries 0x20 (Some tk_i32)" "dwarf_has_type tiny_entries 0x40 (Some (Struct ''S''))"
  "dwarf_has_type tiny_entries 0x60 (Some (Pointer (Struct ''S'')))"
proof -
  show "dwarf_has_type tiny_entries 0x20 (Some tk_i32)"
    using dwarf_has_type.leaf [of "tiny_entries ! 0" tiny_entries "Some tk_i32"]
    by (simp add: tiny_entries_def to_primitive_def)
  show s: "dwarf_has_type tiny_entries 0x40 (Some (Struct ''S''))"
    using dwarf_has_type.leaf [of "tiny_entries ! 2" tiny_entries "Some (Struct ''S'')"] by (simp add: tiny_entries_def)
  show "dwarf_has_type tiny_entries 0x60 (Some (Pointer (Struct ''S'')))"
    using dwarf_has_type.ptr [of "tiny_entries ! 3" tiny_entries "0x40", OF _ _ s] by (simp add: tiny_entries_def or_unknown_def)
qed

lemma tiny_entries_flatten:
  "flattens tiny_entries 0 [(Bytes 0, Some ''a'', 0x20), (Bytes 8, None, 0x30)] tiny_fields"
proof -
  have agg: "aggregate tiny_entries 0x30 [(Bytes 0, Some ''u'', 0x20), (Bytes 0, Some ''p'', 0x60)]"
    unfolding aggregate_def by (rule bexI [of _ "tiny_entries ! 1"]) (auto simp: tiny_entries_def)
  have "flattens tiny_entries 8 [(Bytes 0, Some ''u'', 0x20), (Bytes 0, Some ''p'', 0x60)]
      [\<lparr>sf_name = ''u'', sf_offset = 8 + 0, sf_typ = or_unknown (Some tk_i32)\<rparr>,
       \<lparr>sf_name = ''p'', sf_offset = 8 + 0, sf_typ = or_unknown (Some (Pointer (Struct ''S'')))\<rparr>]"
    by (intro flattens.named flattens.none tiny_entries_types) simp_all
  then have "flattens tiny_entries 0 [(Bytes 8, None, 0x30)]
      ([\<lparr>sf_name = ''u'', sf_offset = 8 + 0, sf_typ = or_unknown (Some tk_i32)\<rparr>,
       \<lparr>sf_name = ''p'', sf_offset = 8 + 0, sf_typ = or_unknown (Some (Pointer (Struct ''S'')))\<rparr>] @ [])"
    by (intro flattens.anonymous [OF _ agg] flattens.none) simp_all
  from flattens.named [OF _ tiny_entries_types(1) this, of 0 "''a''"] show ?thesis
    by (simp add: tiny_fields_def or_unknown_def)
qed

section \<open>Types from DWARF\<close>

text \<open>
  C23. The types of a DWARF unit: filling the module from a unit returns and adds one structure for every named
  structure of the unit, in the order of the unit. Its fields are the named members, at their offsets, with the types
  that the entries describe; the members of anonymous structures and unions are fields of the structure around
  them, at the sum of the offsets, and bit fields are left out.
\<close>

theorem dwarf_structures_flattened:
  assumes "die_children root = map Ok ds" "sorted (map die_offset ds)" "distinct (map die_offset ds)"
    "fill_types (map Ok ds) = Ok es" "flat_structs es flat"
  shows "dwarf_fill (Ok root) b = Some (extend_structs b (concat (map (dwarf_struct_of flat) es)), Ok ())"
  using assms by (rule dwarf_fill_unit)

theorem dwarf_structures_flattened_witness:
  "dwarf_fill (Ok (tiny_die 0x11 0x10 [] tiny_dies)) builder_new =
     Some (extend_structs builder_new [\<lparr>st_size = 16, st_name = ''S'', st_fields = tiny_fields\<rparr>], Ok ())"
proof -
  have "flat_structs tiny_entries (\<lambda>e. tiny_fields)"
    using tiny_entries_flatten by (simp add: flat_structs_def) (simp add: tiny_entries_def)
  moreover have "die_children (tiny_die 0x11 0x10 [] tiny_dies) = map Ok tiny_dies" by (simp add: tiny_die_def)
  moreover have "map die_offset tiny_dies = [0x20, 0x30, 0x40, 0x60]" by (simp add: tiny_dies_def tiny_die_def)
  moreover have "concat (map (dwarf_struct_of (\<lambda>e. tiny_fields)) tiny_entries) =
      [\<lparr>st_size = 16, st_name = ''S'', st_fields = tiny_fields\<rparr>]"
    by (simp add: tiny_entries_def dwarf_struct_of_def)
  ultimately show ?thesis using dwarf_structures_flattened [OF _ _ _ tiny_dies_types, of "tiny_die 0x11 0x10 [] tiny_dies"] by simp
qed

section \<open>Relocated sections\<close>

text \<open>A reader on a slice: the offset from the start of the section, and the bytes that are left.\<close>

definition read_le :: "nat \<Rightarrow> nat \<times> u8 list \<Rightarrow> (nat \<times> u8 list) \<times> (u64, dyn_error) result" where
  "read_le n r =
     (if n \<le> length (snd r) then ((fst r + n, drop n (snd r)), Ok (of_le_bytes (take n (snd r))))
      else (r, Err (DynStr ''unexpected end'')))"

definition slice_reader :: "(nat \<times> u8 list, nat, run_time_endian) gimli_reader" where
  "slice_reader =
     \<lparr>rd_address = (\<lambda>r n. read_le (unat n) r), rd_length = (\<lambda>r big. read_le (if big then 8 else 4) r),
      rd_offset = (\<lambda>r big. read_le (if big then 8 else 4) r), rd_sized_offset = (\<lambda>r n. read_le (unat n) r),
      rd_split = (\<lambda>r n. ((fst r + unat n, drop (unat n) (snd r)), Ok (fst r, take (unat n) (snd r)))),
      rd_endian = (\<lambda>r. RunTimeLittle), rd_len = (\<lambda>r. of_nat (length (snd r))), rd_empty = (\<lambda>r. (fst r, [])),
      rd_truncate = (\<lambda>r n. ((fst r, take (unat n) (snd r)), Ok ())),
      rd_offset_from = (\<lambda>r base. of_nat (fst r - fst base)), rd_offset_id = fst, rd_lookup_offset_id = (\<lambda>r i. Some (of_nat (i - fst r))),
      rd_find = (\<lambda>r b. Err (DynStr ''not found'')), rd_skip = (\<lambda>r n. ((fst r + unat n, drop (unat n) (snd r)), Ok ())),
      rd_to_slice = (\<lambda>r. Ok (snd r)), rd_to_string = (\<lambda>r. Ok (map byte_char (snd r))),
      rd_to_string_lossy = (\<lambda>r. Ok (map byte_char (snd r))), rd_read_slice = (\<lambda>r bf. ((r, bf), Ok ()))\<rparr>"

text \<open>Eight bytes at offset 4, with a relocation to the symbol 1 at the address 0x5000.\<close>

definition tiny_section :: section_of_file where
  "tiny_section =
     \<lparr>sec_relocations = [(4, \<lparr>rl_kind = KindAbsolute, rl_target = TargetSymbol 1, rl_implicit_addend = True, rl_addend = 2\<rparr>)],
      sec_data = Ok (Borrowed [0, 0, 0, 0, 0x10, 0, 0, 0, 0, 0, 0, 0])\<rparr>"

definition tiny_object :: object_file where
  "tiny_object =
     \<lparr>obj_section_by_name = (\<lambda>nm. if nm = ''.debug_info'' then Some tiny_section else None),
      obj_symbol_address = (\<lambda>i. if i = 1 then Some 0x5000 else None), obj_is_little_endian = True\<rparr>"

text \<open>
  C24. An address that is read from a section of an object file with relocations: the reader gives the value of the
  last absolute relocation at its offset in the section, which is the address of the symbol plus the addend, plus
  the value in place when the addend is implicit, and the value in place when there is none. The position after the
  read is that of the inner reader.
\<close>

theorem relocated_address_read:
  assumes "obj_section_by_name file nm = Some s" "load_file_section endian_slice nm file en = Ok self"
    "rd_address R r n = (r', Ok val)" "rd_offset_from R r (endian_slice en b) = off" "sec_data s = Ok (Borrowed b)"
  shows "rd_address (relocate_reader R) (self\<lparr>re_reader := r\<rparr>) n =
    (self\<lparr>re_reader := r'\<rparr>,
     Ok (if absolute_at (sec_relocations s) off = [] then val
         else reloc_result (obj_symbol_address file) (last (absolute_at (sec_relocations s) off)) val))"
  using assms by (rule section_reads_relocated)

theorem relocated_address_read_witness:
  "\<exists>self. load_file_section (\<lambda>en b. (0, b)) ''.debug_info'' tiny_object RunTimeLittle = Ok self \<and>
     snd (rd_address (relocate_reader slice_reader) (self\<lparr>re_reader := (4, [0x10, 0, 0, 0, 0, 0, 0, 0])\<rparr>) 8) = Ok 0x5012"
proof -
  have o: "obj_section_by_name tiny_object ''.debug_info'' = Some tiny_section" by (simp add: tiny_object_def)
  obtain self where l: "load_file_section (\<lambda>en b. (0 :: nat, b)) ''.debug_info'' tiny_object RunTimeLittle = Ok self"
    by (simp add: load_file_section_def o) (simp add: tiny_section_def)
  have "rd_address (relocate_reader slice_reader) (self\<lparr>re_reader := (4, [0x10, 0, 0, 0, 0, 0, 0, 0])\<rparr>) 8 =
    (self\<lparr>re_reader := (12, [])\<rparr>,
     Ok (if absolute_at (sec_relocations tiny_section) 4 = [] then 0x10
         else reloc_result (obj_symbol_address tiny_object) (last (absolute_at (sec_relocations tiny_section) 4)) 0x10))"
    by (rule relocated_address_read [OF o l]) (simp_all add: slice_reader_def read_le_def tiny_section_def)
  then show ?thesis
    using l by (simp add: absolute_at_def tiny_section_def reloc_result_def tiny_object_def)
qed

end
