(* ===== verification/Vm_Virtual.thy ===== *)
theory Vm_Virtual
  imports Vm_Mmu
begin

text \<open>
  Reading virtual memory page by page (\<open>read_virtual_memory\<close> and \<open>try_read_virtual_memory\<close> of
  \<^verbatim>\<open>vminer-core/src/lib.rs\<close>). The callback that reads inside one page is an argument, as in the code.
  At the head of every iteration of the loop the variable \<open>next_page\<close> is \<open>addr\<close> with its low twelve
  bits cleared (before the loop by its initialisation, later because \<open>addr\<close> is page-aligned), so
  the recursion has the address and the rest of the buffer only.

  The locale \<open>page_reader\<close> is the contract of the callback; the loop then reads the whole buffer byte
  for byte, whatever the alignment and also when the range wraps at the end of the address space.
\<close>

type_synonym 'e page_read = "virtual_address \<Rightarrow> buf \<Rightarrow> (unit, 'e) buf_result"

definition page_diff :: "virtual_address \<Rightarrow> nat" where
  "page_diff addr = unat (va_diff ((addr AND NOT 0xfff) + 0x1000) addr)"

lemma page_diff_eq: "page_diff addr = 4096 - unat addr mod 4096"
proof -
  have m: "(0xfff :: u64) = mask 12" by (simp add: mask_eq_exp_minus_1)
  have "addr AND NOT 0xfff = push_bit 12 (drop_bit 12 addr)"
    unfolding m by (rule bit_word_eqI) (auto simp: bit_simps)
  then have "addr AND NOT 0xfff = addr - take_bit 12 addr"
    using bits_ident [of 12 addr] by (simp add: eq_diff_eq)
  then have e: "(addr AND NOT 0xfff) + 0x1000 - addr = 0x1000 - take_bit 12 addr" by simp
  have t: "unat (take_bit 12 addr) = unat addr mod 4096"
    by (simp only: unat_take_bit) simp
  show ?thesis
    unfolding page_diff_def va_diff_def e by (subst unat_sub) (simp_all add: word_le_nat_alt t)
qed

lemma page_diff_bounds: "0 < page_diff addr" "page_diff addr \<le> 4096"
  unfolding page_diff_eq by simp_all

lemma page_progress: "\<not> length bf \<le> page_diff addr \<Longrightarrow> length bf - page_diff addr < length bf"
  using page_diff_bounds(1) [of addr] by linarith

function read_virtual_memory :: "virtual_address \<Rightarrow> buf \<Rightarrow> 'e page_read \<Rightarrow> (unit, 'e) buf_result" where
  "read_virtual_memory addr bf read_memory =
     (let next_page = (addr AND NOT 0xfff) + 0x1000;
          diff = page_diff addr
      in if diff \<ge> length bf then read_memory addr bf
         else (case read_memory addr (take diff bf) of
                 (start, Ok u) \<Rightarrow>
                   (let (rest, r) = read_virtual_memory next_page (drop diff bf) read_memory
                    in (start @ rest, r))
               | (start, Err e) \<Rightarrow> (start @ drop diff bf, Err e)
               | (start, Panic) \<Rightarrow> (start @ drop diff bf, Panic)))"
  by pat_completeness auto
termination
  by (relation "measure (\<lambda>(addr, bf, rm). length bf)") (auto intro: page_progress)

declare read_virtual_memory.simps [simp del]

text \<open>The closure that \<open>try_read_virtual_memory\<close> passes on: an unmapped page is skipped.\<close>

definition skip_invalid :: "translation_error page_read \<Rightarrow> memory_access_error page_read" where
  "skip_invalid read_memory addr bf =
     (case read_memory addr bf of
        (bf', Ok u) \<Rightarrow> (bf', Ok ())
      | (bf', Err (TInvalid mmu)) \<Rightarrow> (bf', Ok ())
      | (bf', Err (TMemory err)) \<Rightarrow> (bf', Err err)
      | (bf', Panic) \<Rightarrow> (bf', Panic))"

definition try_read_virtual_memory ::
  "virtual_address \<Rightarrow> buf \<Rightarrow> translation_error page_read \<Rightarrow> (unit, memory_access_error) buf_result"
where
  "try_read_virtual_memory addr bf read_memory =
     read_virtual_memory addr bf (skip_invalid read_memory)"

section \<open>The loop reads every byte\<close>

definition in_page :: "virtual_address \<Rightarrow> nat \<Rightarrow> bool" where
  "in_page a n \<longleftrightarrow> unat a mod 4096 + n \<le> 4096"

text \<open>
  The contract of the callback on the addresses \<open>P\<close>: on a range inside one page it succeeds, and
  the byte it leaves at each address is \<open>g\<close> of the address and of what the buffer held.
\<close>

locale page_reader =
  fixes rm :: "'e page_read"
    and P :: "virtual_address \<Rightarrow> bool"
    and g :: "virtual_address \<Rightarrow> u8 \<Rightarrow> u8"
  assumes page_read: "in_page a (length b) \<Longrightarrow> b \<noteq> [] \<Longrightarrow> \<forall>i < length b. P (a + of_nat i) \<Longrightarrow>
    rm a b = (map (\<lambda>i. g (a + of_nat i) (b ! i)) [0..<length b], Ok ())"
begin

lemma read_virtual_memory_bytes:
  assumes "bf \<noteq> []" "\<forall>i < length bf. P (addr + of_nat i)"
  shows "read_virtual_memory addr bf rm = (map (\<lambda>i. g (addr + of_nat i) (bf ! i)) [0..<length bf], Ok ())"
  using assms
proof (induction "length bf" arbitrary: addr bf rule: less_induct)
  case less
  let ?d = "page_diff addr"
  have d: "0 < ?d" "?d \<le> 4096" by (rule page_diff_bounds)+
  have page: "unat addr mod 4096 + ?d = 4096" by (simp add: page_diff_eq)
  show ?case
  proof (cases "length bf \<le> ?d")
    case True
    then have "in_page addr (length bf)" using page by (simp add: in_page_def)
    then show ?thesis
      using True page_read less.prems by (subst read_virtual_memory.simps) (simp add: Let_def)
  next
    case False
    let ?n = "addr + of_nat ?d"
    have n: "(addr AND NOT 0xfff) + 0x1000 = ?n" by (simp add: page_diff_def va_diff_def)
    have first: "rm addr (take ?d bf) = (map (\<lambda>i. g (addr + of_nat i) (bf ! i)) [0..<?d], Ok ())"
      using page_read [of addr "take ?d bf"] page False less.prems d(1)
      by (simp add: in_page_def min_def cong: map_cong)
    have P: "\<forall>i < length (drop ?d bf). P (?n + of_nat i)"
      using less.prems(2) by (simp add: add.assoc flip: of_nat_add)
    have "read_virtual_memory ?n (drop ?d bf) rm =
        (map (\<lambda>i. g (?n + of_nat i) (drop ?d bf ! i)) [0..<length (drop ?d bf)], Ok ())"
      using False d(1) by (intro less.hyps P) auto
    moreover have "map (\<lambda>i. g (?n + of_nat i) (drop ?d bf ! i)) [0..<length (drop ?d bf)] =
        map (\<lambda>i. g (addr + of_nat i) (bf ! i)) [?d..<length bf]"
      using False by (intro nth_equalityI) (auto simp: ac_simps)
    moreover have "[0..<length bf] = [0..<?d] @ [?d..<length bf]"
      using False by (metis le_add1 nat_le_linear plus_nat.add_0 upt_add_eq_append le_add_diff_inverse)
    ultimately show ?thesis
      using False first by (subst read_virtual_memory.simps) (simp only: Let_def n, simp)
  qed
qed

end

end
