(* ===== verification/Vm_Backend.thy ===== *)
theory Vm_Backend
  imports Vm_Arch Vm_Virtual
begin

text \<open>
  Backends (\<^verbatim>\<open>vminer-core/src/backend.rs\<close>): a memory, its virtual processors and their architecture,
  with the provided methods of the trait \<open>Backend\<close>, the forwarding implementations for \<open>Arc\<close> and
  \<open>RuntimeBackend\<close>, and the iterator over the occurrences of a needle in kernel memory.

  The lemmas put the components together: a read of virtual memory through the page tables of a
  flat memory returns, for every byte, the byte at the translation of its address.
\<close>

section \<open>The trait\<close>

record ('r, 's, 'o) backend =
  be_memory :: memory
  be_vcpus :: "('r, 's, 'o) vcpus"
  be_arch :: "('r, 's, 'o) arch_impl"
  be_read_virtual_memory :: "physical_address \<Rightarrow> translation_error page_read"
  be_virtual_to_physical :: "physical_address \<Rightarrow> virtual_address \<Rightarrow> physical_address translation_result"
  be_find_kernel_pgd :: "bool \<Rightarrow> virtual_address list \<Rightarrow> physical_address vm_result"
  be_find_in_kernel_memory :: "physical_address \<Rightarrow> u8 list \<Rightarrow> virtual_address option memory_access_result"

definition default_read_virtual_memory ::
  "(physical_address \<Rightarrow> virtual_address \<Rightarrow> physical_address translation_result) \<Rightarrow> memory \<Rightarrow>
   physical_address \<Rightarrow> translation_error page_read"
where
  "default_read_virtual_memory v2p mem mmu_addr addr bf =
     (case v2p mmu_addr addr of
        Ok a \<Rightarrow> (let (bf', r) = read_physical mem a bf in (bf', map_err translation_of_mem r))
      | Err e \<Rightarrow> (bf, Err e)
      | Panic \<Rightarrow> (bf, Panic))"

definition backend_find_kernel_pgd ::
  "('r, 's, 'o) arch_impl \<Rightarrow> memory \<Rightarrow> ('r, 's, 'o) vcpus \<Rightarrow> bool \<Rightarrow> virtual_address list \<Rightarrow>
   physical_address vm_result"
where
  "backend_find_kernel_pgd arch mem vcpus use_per_cpu additional =
     and_then (arch_find_kernel_pgd arch mem vcpus use_per_cpu additional)
       (ok_or (vm_of_str ''could not find kernel page directory''))"

text \<open>A backend that overrides none of the provided methods.\<close>

definition default_backend ::
  "memory \<Rightarrow> ('r, 's, 'o) vcpus \<Rightarrow> ('r, 's, 'o) arch_impl \<Rightarrow> ('r, 's, 'o) backend"
where
  "default_backend mem vcpus arch =
     \<lparr>be_memory = mem, be_vcpus = vcpus, be_arch = arch,
      be_read_virtual_memory =
        default_read_virtual_memory (arch_virtual_to_physical arch mem) mem,
      be_virtual_to_physical = arch_virtual_to_physical arch mem,
      be_find_kernel_pgd = backend_find_kernel_pgd arch mem vcpus,
      be_find_in_kernel_memory = arch_find_in_kernel_memory arch mem\<rparr>"

text \<open>\<open>n\<close> is the size of the type and \<open>decode\<close> its reading from bytes.\<close>

definition read_value_virtual ::
  "nat \<Rightarrow> (u8 list \<Rightarrow> 'a) \<Rightarrow> ('r, 's, 'o) backend \<Rightarrow> physical_address \<Rightarrow> virtual_address \<Rightarrow> 'a translation_result"
where
  "read_value_virtual n decode self mmu_addr addr =
     (let (bf, r) = be_read_virtual_memory self mmu_addr addr (replicate n 0)
      in map_ok (\<lambda>u. decode bf) r)"

section \<open>Forwarding\<close>

definition arc_backend :: "('r, 's, 'o) backend \<Rightarrow> ('r, 's, 'o) backend" where
  "arc_backend self =
     \<lparr>be_memory = arc_memory (be_memory self), be_vcpus = arc_vcpus (be_vcpus self),
      be_arch = be_arch self,
      be_read_virtual_memory = be_read_virtual_memory self,
      be_virtual_to_physical = be_virtual_to_physical self,
      be_find_kernel_pgd = be_find_kernel_pgd self,
      be_find_in_kernel_memory = be_find_in_kernel_memory self\<rparr>"

text \<open>\<open>RuntimeBackend\<close> keeps the default \<open>dump\<close> and \<open>register_by_name\<close>.\<close>

definition runtime_memory :: "memory \<Rightarrow> memory" where
  "runtime_memory self =
     \<lparr>memory_mappings = memory_mappings self, is_valid = is_valid self,
      read_physical = read_physical self, search = search self,
      dump = dump_default (memory_mappings self) (read_physical self)\<rparr>"

definition runtime_vcpu_regs ::
  "('r \<Rightarrow> runtime_registers) \<Rightarrow> ('s \<Rightarrow> runtime_special) \<Rightarrow> ('o \<Rightarrow> runtime_other) \<Rightarrow>
   ('r, 's, 'o) vcpus \<Rightarrow> (runtime_registers, runtime_special, runtime_other) vcpu_regs"
where
  "runtime_vcpu_regs into_r into_s into_o self =
     \<lparr>vcpus_count = vcpus_count self,
      registers = (\<lambda>v. map_ok into_r (registers self v)),
      special_registers = (\<lambda>v. map_ok into_s (special_registers self v)),
      other_registers = (\<lambda>v. map_ok into_o (other_registers self v))\<rparr>"

definition runtime_vcpus ::
  "(u8 list \<Rightarrow> finder) \<Rightarrow> ('r \<Rightarrow> runtime_registers) \<Rightarrow> ('s \<Rightarrow> runtime_special) \<Rightarrow> ('o \<Rightarrow> runtime_other) \<Rightarrow>
   architecture \<Rightarrow> ('r, 's, 'o) vcpus \<Rightarrow> (runtime_registers, runtime_special, runtime_other) vcpus"
where
  "runtime_vcpus new_finder into_r into_s into_o arch self =
     (let regs = runtime_vcpu_regs into_r into_s into_o self in
      \<lparr>vcpus_count = vcpus_count regs, registers = registers regs,
       special_registers = special_registers regs, other_registers = other_registers regs,
       register_by_name = arch_register_by_name (runtime_arch new_finder arch) regs,
       instruction_pointer = instruction_pointer self,
       stack_pointer = stack_pointer self,
       base_pointer = base_pointer self,
       pgd = pgd self,
       kernel_per_cpu = kernel_per_cpu self\<rparr>)"

definition runtime_backend ::
  "(u8 list \<Rightarrow> finder) \<Rightarrow> ('r \<Rightarrow> runtime_registers) \<Rightarrow> ('s \<Rightarrow> runtime_special) \<Rightarrow> ('o \<Rightarrow> runtime_other) \<Rightarrow>
   ('r, 's, 'o) backend \<Rightarrow> (runtime_registers, runtime_special, runtime_other) backend"
where
  "runtime_backend new_finder into_r into_s into_o self =
     (let arch = into_runtime (be_arch self) in
      \<lparr>be_memory = runtime_memory (be_memory self),
       be_vcpus = runtime_vcpus new_finder into_r into_s into_o arch (be_vcpus self),
       be_arch = runtime_arch new_finder arch,
       be_read_virtual_memory = be_read_virtual_memory self,
       be_virtual_to_physical = be_virtual_to_physical self,
       be_find_kernel_pgd = be_find_kernel_pgd self,
       be_find_in_kernel_memory = be_find_in_kernel_memory self\<rparr>)"

section \<open>Iterating over kernel memory\<close>

record kernel_search_iterator =
  ks_finder :: finder
  ks_buffer :: buf
  ks_mmu_addr :: physical_address
  ks_base :: virtual_address

definition iter_in_kernel_memory ::
  "(u8 list \<Rightarrow> finder) \<Rightarrow> ('r, 's, 'o) backend \<Rightarrow> physical_address \<Rightarrow> u8 list \<Rightarrow> kernel_search_iterator"
where
  "iter_in_kernel_memory new_finder self mmu_addr nd =
     \<lparr>ks_finder = new_finder nd, ks_buffer = replicate (2 * 2 ^ 20 + length nd) 0,
      ks_mmu_addr = mmu_addr, ks_base = kernel_base (be_arch self)\<rparr>"

definition kernel_search_next ::
  "('r, 's, 'o) backend \<Rightarrow> kernel_search_iterator \<Rightarrow>
   kernel_search_iterator \<times> virtual_address vm_result option"
where
  "kernel_search_next be self =
     (let (bf, result) = arch_find_in_kernel_memory_raw (be_arch be) (ref_memory (be_memory be))
            (ks_mmu_addr self) (ks_base self) (ks_finder self) (ks_buffer self);
          self = self\<lparr>ks_buffer := bf\<rparr>
      in case result of
           Ok None \<Rightarrow> (self, None)
         | Ok (Some addr) \<Rightarrow>
             (case va_add addr 1 of
                Ok a \<Rightarrow> (self\<lparr>ks_base := a\<rparr>, Some (Ok addr))
              | Err e \<Rightarrow> (self, Some (Err e))
              | Panic \<Rightarrow> (self, Some Panic))
         | Err err \<Rightarrow>
             (case va_add_assign (ks_base self) 1 of
                Ok a \<Rightarrow> (self\<lparr>ks_base := a\<rparr>, Some (Err (vm_of_mem err)))
              | Err e \<Rightarrow> (self, Some (Err e))
              | Panic \<Rightarrow> (self, Some Panic))
         | Panic \<Rightarrow> (self, Some Panic))"

section \<open>Reading through the page tables\<close>

definition page_base :: "virtual_address \<Rightarrow> virtual_address" where
  "page_base a = a AND NOT 0xfff"

lemma page_base_split:
  shows "page_base a + of_nat (unat a mod 4096) = a" and "unat (page_base a) mod 4096 = 0"
proof -
  have m: "(0xfff :: u64) = mask 12" by (simp add: mask_eq_exp_minus_1)
  have p: "page_base a = push_bit 12 (drop_bit 12 a)"
    unfolding page_base_def m by (rule bit_word_eqI) (auto simp: bit_simps)
  have "of_nat (unat a mod 4096) = take_bit 12 a"
  proof (rule word_unat_eq_iff [THEN iffD2])
    have "unat a mod 4096 < 4096" by simp
    then have "unat a mod 4096 < 2 ^ 64" by (rule less_trans) simp
    then show "unat (of_nat (unat a mod 4096) :: u64) = unat (take_bit 12 a)"
      by (simp only: unat_of_nat unat_take_bit len_num1 len_bit0) simp
  qed
  then show "page_base a + of_nat (unat a mod 4096) = a"
    using bits_ident [of 12 a] by (simp add: p)
  have "take_bit 12 (page_base a) = 0"
    unfolding p by (rule bit_word_eqI) (auto simp: bit_simps)
  then show "unat (page_base a) mod 4096 = 0"
    using unat_take_bit [of 12 "page_base a"] by simp
qed

definition mapped :: "mmu_desc \<Rightarrow> memory \<Rightarrow> (physical_address \<Rightarrow> nat \<Rightarrow> bool) \<Rightarrow> physical_address \<Rightarrow> virtual_address \<Rightarrow> bool" where
  "mapped mmu mem readable root a \<longleftrightarrow>
     (\<exists>p. virtual_to_physical mmu mem root (page_base a) = Ok p \<and> readable p 4096)"

definition virtual_byte :: "mmu_desc \<Rightarrow> memory \<Rightarrow> (nat \<Rightarrow> u8) \<Rightarrow> physical_address \<Rightarrow> virtual_address \<Rightarrow> u8" where
  "virtual_byte mmu mem byte root a =
     (case virtual_to_physical mmu mem root a of Ok p \<Rightarrow> byte (unat p) | _ \<Rightarrow> 0)"

text \<open>A flat memory with page tables in it.\<close>

locale paged_memory = flat_memory +
  fixes mem :: memory and mmu :: mmu_desc and root :: physical_address
  assumes mem_read: "read_physical mem = rd"
    and wf: "mmu_wf mmu"
begin

lemma translate_in_page:
  assumes "mapped mmu mem readable root a" "unat a mod 4096 + i < 4096"
  shows "\<exists>p. virtual_to_physical mmu mem root (page_base a) = Ok p \<and> readable p 4096 \<and>
    virtual_to_physical mmu mem root (a + of_nat i) = Ok (p + of_nat (unat a mod 4096 + i)) \<and>
    unat (p + of_nat (unat a mod 4096 + i)) = unat p + (unat a mod 4096 + i)"
proof -
  obtain p where p: "virtual_to_physical mmu mem root (page_base a) = Ok p" "readable p 4096"
    using assms(1) by (auto simp: mapped_def)
  have o: "unat (page_base a) mod 4096 + (unat a mod 4096 + i) < 4096"
    using assms(2) page_base_split(2) by simp
  have a: "a + of_nat i = page_base a + of_nat (unat a mod 4096 + i)"
    using page_base_split(1) [of a] by (simp add: add.assoc [symmetric])
  have "virtual_to_physical mmu mem root (a + of_nat i) = Ok (p + of_nat (unat a mod 4096 + i))"
    unfolding a virtual_to_physical_same_page [OF wf o] p(1) by simp
  moreover have "unat p mod 4096 + (unat a mod 4096 + i) < 4096"
    using virtual_to_physical_offset [OF wf p(1)] o by simp
  then have "unat (p + of_nat (unat a mod 4096 + i)) = unat p + (unat a mod 4096 + i)"
    by (rule unat_add_same_page)
  ultimately show ?thesis using p by blast
qed

lemma read_in_page:
  assumes "in_page a (length b)" "b \<noteq> []" "mapped mmu mem readable root a"
  shows "default_read_virtual_memory (virtual_to_physical mmu mem) mem root a b =
    (map (\<lambda>i. virtual_byte mmu mem byte root (a + of_nat i)) [0..<length b], Ok ())"
proof -
  let ?o = "unat a mod 4096"
  have o: "?o + i < 4096" if "i < length b" for i using assms(1) that by (simp add: in_page_def)
  from translate_in_page [OF assms(3), of 0] o [of 0] assms(2)
  obtain p where p: "virtual_to_physical mmu mem root (page_base a) = Ok p" "readable p 4096"
    "virtual_to_physical mmu mem root a = Ok (p + of_nat ?o)" by auto
  have "rd (p + of_nat ?o) b = (bytes_at byte (unat p + ?o) (length b), Ok ())"
    using assms(1,2) by (intro read_sub [OF p(2)]) (auto simp: in_page_def)
  moreover have "virtual_byte mmu mem byte root (a + of_nat i) = byte (unat p + (?o + i))"
    if "i < length b" for i
    using translate_in_page [OF assms(3) o [OF that]] p(1) by (auto simp: virtual_byte_def)
  ultimately show ?thesis
    by (simp add: default_read_virtual_memory_def p(3) mem_read bytes_at_def add.assoc)
qed

end

sublocale paged_memory \<subseteq> reader: page_reader "default_read_virtual_memory (virtual_to_physical mmu mem) mem root"
  "mapped mmu mem readable root" "\<lambda>a old. virtual_byte mmu mem byte root a"
proof
  fix a :: virtual_address and b :: buf
  assume "in_page a (length b)" "b \<noteq> []" "\<forall>i < length b. mapped mmu mem readable root (a + of_nat i)"
  moreover from this have "mapped mmu mem readable root a" by (cases b) auto
  ultimately show "default_read_virtual_memory (virtual_to_physical mmu mem) mem root a b =
      (map (\<lambda>i. virtual_byte mmu mem byte root (a + of_nat i)) [0..<length b], Ok ())"
    by (intro read_in_page)
qed

text \<open>With invalid pages skipped, the bytes of an unmapped page stay as they were.\<close>

definition unmapped :: "mmu_desc \<Rightarrow> memory \<Rightarrow> physical_address \<Rightarrow> virtual_address \<Rightarrow> bool" where
  "unmapped mmu mem root a \<longleftrightarrow> (\<exists>e. virtual_to_physical mmu mem root (page_base a) = Err (TInvalid e))"

definition virtual_byte_or ::
  "mmu_desc \<Rightarrow> memory \<Rightarrow> (nat \<Rightarrow> u8) \<Rightarrow> physical_address \<Rightarrow> virtual_address \<Rightarrow> u8 \<Rightarrow> u8"
where
  "virtual_byte_or mmu mem byte root a old =
     (case virtual_to_physical mmu mem root a of Ok p \<Rightarrow> byte (unat p) | _ \<Rightarrow> old)"

context paged_memory
begin

lemma unmapped_in_page:
  assumes "unmapped mmu mem root a" "unat a mod 4096 + i < 4096"
  shows "\<exists>e. virtual_to_physical mmu mem root (a + of_nat i) = Err (TInvalid e)"
proof -
  have o: "unat (page_base a) mod 4096 + (unat a mod 4096 + i) < 4096"
    using assms(2) page_base_split(2) by simp
  have a: "a + of_nat i = page_base a + of_nat (unat a mod 4096 + i)"
    using page_base_split(1) [of a] by (simp add: add.assoc [symmetric])
  show ?thesis
    unfolding a virtual_to_physical_same_page [OF wf o] using assms(1) by (auto simp: unmapped_def)
qed

lemma virtual_byte_or_mapped:
  assumes "mapped mmu mem readable root a" "unat a mod 4096 + i < 4096"
  shows "virtual_byte mmu mem byte root (a + of_nat i) = virtual_byte_or mmu mem byte root (a + of_nat i) old"
  using translate_in_page [OF assms] by (auto simp: virtual_byte_def virtual_byte_or_def)

end

sublocale paged_memory \<subseteq> try_reader: page_reader
  "skip_invalid (default_read_virtual_memory (virtual_to_physical mmu mem) mem root)"
  "\<lambda>a. mapped mmu mem readable root a \<or> unmapped mmu mem root a" "virtual_byte_or mmu mem byte root"
proof
  fix a :: virtual_address and b :: buf
  assume page: "in_page a (length b)" "b \<noteq> []"
    and P: "\<forall>i < length b. mapped mmu mem readable root (a + of_nat i) \<or> unmapped mmu mem root (a + of_nat i)"
  have o: "unat a mod 4096 + i < 4096" if "i < length b" for i
    using page(1) that by (simp add: in_page_def)
  from P page(2) have "mapped mmu mem readable root a \<or> unmapped mmu mem root a" by (cases b) auto
  then show "skip_invalid (default_read_virtual_memory (virtual_to_physical mmu mem) mem root) a b =
      (map (\<lambda>i. virtual_byte_or mmu mem byte root (a + of_nat i) (b ! i)) [0..<length b], Ok ())"
  proof
    assume m: "mapped mmu mem readable root a"
    have "map (\<lambda>i. virtual_byte mmu mem byte root (a + of_nat i)) [0..<length b] =
        map (\<lambda>i. virtual_byte_or mmu mem byte root (a + of_nat i) (b ! i)) [0..<length b]"
      using virtual_byte_or_mapped [OF m o] by simp
    then show ?thesis by (simp add: skip_invalid_def read_in_page [OF page m])
  next
    assume u: "unmapped mmu mem root a"
    have "virtual_byte_or mmu mem byte root (a + of_nat i) (b ! i) = b ! i" if "i < length b" for i
      using unmapped_in_page [OF u o [OF that]] by (auto simp: virtual_byte_or_def)
    then have "map (\<lambda>i. virtual_byte_or mmu mem byte root (a + of_nat i) (b ! i)) [0..<length b] = b"
      by (intro nth_equalityI) simp_all
    moreover obtain e where "virtual_to_physical mmu mem root a = Err (TInvalid e)"
      using unmapped_in_page [OF u o, of 0] page(2) by auto
    ultimately show ?thesis by (simp add: skip_invalid_def default_read_virtual_memory_def)
  qed
qed

context paged_memory
begin

lemma virtual_read:
  "bf \<noteq> [] \<Longrightarrow> \<forall>i < length bf. mapped mmu mem readable root (addr + of_nat i) \<Longrightarrow>
   read_virtual_memory addr bf (default_read_virtual_memory (virtual_to_physical mmu mem) mem root) =
     (map (\<lambda>i. virtual_byte mmu mem byte root (addr + of_nat i)) [0..<length bf], Ok ())"
  by (rule reader.read_virtual_memory_bytes)

lemma virtual_try_read:
  "bf \<noteq> [] \<Longrightarrow>
   \<forall>i < length bf. mapped mmu mem readable root (addr + of_nat i) \<or> unmapped mmu mem root (addr + of_nat i) \<Longrightarrow>
   try_read_virtual_memory addr bf (default_read_virtual_memory (virtual_to_physical mmu mem) mem root) =
     (map (\<lambda>i. virtual_byte_or mmu mem byte root (addr + of_nat i) (bf ! i)) [0..<length bf], Ok ())"
  unfolding try_read_virtual_memory_def by (rule try_reader.read_virtual_memory_bytes)

end

section \<open>The contract on a byte slice\<close>

interpretation raw_paged: paged_memory "raw_read_physical self" "raw_readable self"
  "\<lambda>i. raw_bytes self ! i" "raw_memory_impl self" x86_64_mmu root
  for self :: raw_memory and root :: physical_address
  by unfold_locales (simp_all add: raw_memory_impl_def x86_64_mmu_wf)

section \<open>The search iterator moves forward\<close>

text \<open>The iterator goes through \<open>&B\<close>, whose reads and searches are those of \<open>B\<close>.\<close>

lemma search_page_ref: "search_page (ref_memory mem) = search_page mem"
proof -
  have "search (ref_memory mem) = search mem" by (simp add: ref_memory_def)
  then show ?thesis by (simp only: search_page_def fun_eq_iff) simp
qed

lemma find_inner_ref:
  "find_in_kernel_memory_inner mmu (ref_memory mem) ls = find_in_kernel_memory_inner mmu mem ls"
proof (induction ls)
  case Nil
  then show ?case by (simp add: fun_eq_iff)
next
  case (Cons l ls)
  have "read_physical (ref_memory mem) = read_physical mem" by (simp add: ref_memory_def)
  then show ?case
    by (simp only: find_in_kernel_memory_inner.simps Cons search_page_ref fun_eq_iff) simp
qed

lemma find_raw_ref: "find_in_kernel_memory_raw mmu (ref_memory mem) = find_in_kernel_memory_raw mmu mem"
  by (simp add: find_in_kernel_memory_raw_def find_inner_ref fun_eq_iff)

context kernel_search
begin

lemma kernel_search_next_ge:
  assumes "arch_find_in_kernel_memory_raw (be_arch be) = find_in_kernel_memory_raw mmu"
    and "be_memory be = mem" "ks_finder it = fi"
    and "kernel_search_next be it = (it', Some (Ok va))"
  shows "ks_base it \<le> va \<and> unat (ks_base it') = unat va + 1 \<and> ks_finder it' = fi \<and>
    (\<exists>pa. virtual_to_physical mmu mem (ks_mmu_addr it) va = Ok pa \<and> holds_needle pa)"
proof -
  obtain bf r where f: "find_in_kernel_memory_raw mmu mem (ks_mmu_addr it) (ks_base it) fi
      (ks_buffer it) = (bf, r)" by fastforce
  from assms(4) have r: "r = Ok (Some va)" and va: "unat va + 1 < 2 ^ 64"
    and it': "it' = it\<lparr>ks_buffer := bf, ks_base := va + 1\<rparr>"
    unfolding kernel_search_next_def assms(1-3) find_raw_ref f
    by (auto simp: Let_def va_add_def va_add_assign_def result_simps add_chk_def
        split: result.splits option.splits if_splits)
  have "\<exists>pa. virtual_to_physical mmu mem (ks_mmu_addr it) va = Ok pa \<and> holds_needle pa \<and> ks_base it \<le> va"
    by (rule find_in_kernel_memory_raw_sound [OF f [unfolded r]])
  moreover have "unat (va + 1) = unat va + 1" using va unat_add_of_nat [of va 1] by simp
  ultimately show ?thesis using it' assms(3) by auto
qed

end

section \<open>Run-time dispatch is transparent\<close>

lemma and_then_Ok_right: "and_then r Ok = r"
  by (cases r) auto

lemma runtime_as_x86_id:
  "runtime_as_x86 (runtime_vcpu_regs RegsX86 SpecialX86 OtherX86 v) = vcpu_regs.truncate v"
  by (simp add: assume_x86_64_def runtime_vcpu_regs_def vcpu_regs.truncate_def map_ok_and_then
      and_then_Ok_right)

lemma runtime_as_arm_id:
  "runtime_as_arm (runtime_vcpu_regs RegsAarch64 SpecialAarch64 OtherAarch64 v) = vcpu_regs.truncate v"
  by (simp add: assume_aarch64_def runtime_vcpu_regs_def vcpu_regs.truncate_def map_ok_and_then
      and_then_Ok_right)

lemma truncate_sel:
  "vcpus_count (vcpu_regs.truncate v) = vcpus_count v"
  "registers (vcpu_regs.truncate v) = registers v"
  "special_registers (vcpu_regs.truncate v) = special_registers v"
  "other_registers (vcpu_regs.truncate v) = other_registers v"
  by (simp_all add: vcpu_regs.truncate_def)

end
