(* ===== verification/Vm_Kvm.thy ===== *)
theory Vm_Kvm
  imports Vm_Backend
begin

text \<open>
  The KVM backend (\<^verbatim>\<open>vminer/src/backends/kvm/mod.rs\<close>): finding the memory of the guest among the
  mappings of the hypervisor's process, the layout of physical memory, and the backend over them.

  \<open>/proc/pid/maps\<close> is the sequence of the outcomes of \<open>read_line\<close> before the end of the file, each a
  line with its end of line; opening it and opening \<open>/proc/pid/mem\<close> are parameters. The registers
  that the payload sends (\<open>get_regs\<close>) are the argument \<open>regs\<close>. The host's architecture, which
  \<open>cfg!(target_arch)\<close> tests, is an argument.

  The lemmas show that the mapping chosen is the largest one, and that a physical address of the
  guest is read at its place in the memory of the process.
\<close>

section \<open>Finding the memory\<close>

text \<open>The closure of the loop, on the guess and its size.\<close>

definition find_memory_line :: "string \<Rightarrow> u64 \<times> u64 \<Rightarrow> (u64 \<times> u64, 'e) result" where
  "find_memory_line line = (\<lambda>(map_guess, map_size).
     case find_char (CHR ''-'') line of None \<Rightarrow> Ok (map_guess, map_size)
     | Some i \<Rightarrow>
       (case from_str_radix 16 64 (take i line) of None \<Rightarrow> Ok (map_guess, map_size)
        | Some start_addr \<Rightarrow>
          (let line = drop i line in
           case find_char (CHR '' '') line of None \<Rightarrow> Ok (map_guess, map_size)
           | Some i \<Rightarrow>
             (case from_str_radix 16 64 (drop 1 (take i line)) of None \<Rightarrow> Ok (map_guess, map_size)
              | Some end_addr \<Rightarrow>
                (if str_contains ''/usr/'' (drop i line) then Ok (map_guess, map_size)
                 else and_then (sub_chk (of_nat end_addr) (of_nat start_addr)) (\<lambda>cur_size.
                   if cur_size > map_size then Ok (of_nat start_addr, cur_size)
                   else Ok (map_guess, map_size)))))))"

fun find_memory_loop :: "(string, io_error) result list \<Rightarrow> u64 \<times> u64 \<Rightarrow> (u64 \<times> u64) vm_result" where
  "find_memory_loop [] st = Ok st"
| "find_memory_loop (line # lines) st =
     and_then (map_err vm_of_io line) (\<lambda>line.
     and_then (find_memory_line line st) (find_memory_loop lines))"

definition find_memory ::
  "((string, io_error) result list, io_error) result \<Rightarrow>
   (u8 list \<Rightarrow> u64 \<Rightarrow> u8 list \<times> (unit, io_error) result, io_error) result \<Rightarrow> file_mem vm_result"
where
  "find_memory open_maps open_mem =
     and_then (map_err vm_of_io open_maps) (\<lambda>maps.
     and_then (find_memory_loop maps (0, 0)) (\<lambda>(map_guess, map_size).
       if map_guess = 0 then Err (vm_new (DynStr ''failed to find VM memory''))
       else and_then (add_chk map_guess map_size) (\<lambda>e.
         map_err vm_of_io (file_open (\<lambda>u. open_mem) () map_guess e))))"

section \<open>The layout of physical memory\<close>

definition default_qemu_mappings :: "architecture \<Rightarrow> u64 \<Rightarrow> (memory_map list \<times> physical_address list, 'e) result" where
  "default_qemu_mappings host sz =
     (case host of
        X86_64 \<Rightarrow>
          if sz \<le> push_bit 30 2 then Ok ([\<lparr>mm_start = 0, mm_end = sz\<rparr>], [0])
          else and_then (add_chk sz (push_bit 30 2)) (\<lambda>e.
            Ok ([\<lparr>mm_start = 0, mm_end = push_bit 30 2\<rparr>, \<lparr>mm_start = push_bit 30 4, mm_end = e\<rparr>],
                [0, push_bit 30 2]))
      | Aarch64 \<Rightarrow>
          and_then (add_chk sz (push_bit 30 1)) (\<lambda>e.
            Ok ([\<lparr>mm_start = push_bit 30 1, mm_end = e\<rparr>], [0])))"

record ('r, 's, 'o) kvm =
  kvm_mem :: mem_remap
  kvm_vcpus :: "('r, 's, 'o) vcpu list"

definition kvm_create ::
  "((string, io_error) result list, io_error) result \<Rightarrow>
   (u8 list \<Rightarrow> u64 \<Rightarrow> u8 list \<times> (unit, io_error) result, io_error) result \<Rightarrow>
   ('r, 's, 'o) vcpu list vm_result \<Rightarrow> (u64 \<Rightarrow> (memory_map list \<times> physical_address list) vm_result) \<Rightarrow>
   ('r, 's, 'o) kvm vm_result"
where
  "kvm_create open_maps open_mem regs make_mappings =
     and_then (find_memory open_maps open_mem) (\<lambda>mem.
     and_then regs (\<lambda>vcpus.
     and_then (make_mappings (file_size mem)) (\<lambda>(mappings, at).
       Ok \<lparr>kvm_mem = remap_new (file_mem_impl mem) mappings at, kvm_vcpus = vcpus\<rparr>)))"

definition kvm_connect ::
  "((string, io_error) result list, io_error) result \<Rightarrow>
   (u8 list \<Rightarrow> u64 \<Rightarrow> u8 list \<times> (unit, io_error) result, io_error) result \<Rightarrow>
   ('r, 's, 'o) vcpu list vm_result \<Rightarrow> ('r, 's, 'o) kvm vm_result"
where
  "kvm_connect open_maps open_mem regs =
     kvm_create open_maps open_mem regs (\<lambda>sz. Ok ([\<lparr>mm_start = 0, mm_end = sz\<rparr>], [0]))"

definition with_default_qemu_mappings ::
  "architecture \<Rightarrow> ((string, io_error) result list, io_error) result \<Rightarrow>
   (u8 list \<Rightarrow> u64 \<Rightarrow> u8 list \<times> (unit, io_error) result, io_error) result \<Rightarrow>
   ('r, 's, 'o) vcpu list vm_result \<Rightarrow> ('r, 's, 'o) kvm vm_result"
where
  "with_default_qemu_mappings host open_maps open_mem regs =
     kvm_create open_maps open_mem regs (default_qemu_mappings host)"

definition with_memory_mappings ::
  "((string, io_error) result list, io_error) result \<Rightarrow>
   (u8 list \<Rightarrow> u64 \<Rightarrow> u8 list \<times> (unit, io_error) result, io_error) result \<Rightarrow>
   ('r, 's, 'o) vcpu list vm_result \<Rightarrow> memory_map list \<Rightarrow> physical_address list \<Rightarrow> ('r, 's, 'o) kvm vm_result"
where
  "with_memory_mappings open_maps open_mem regs mappings at =
     kvm_create open_maps open_mem regs (\<lambda>sz. Ok (mappings, at))"

section \<open>The backend\<close>

text \<open>Only the mappings and the reads are forwarded; the other methods are the defaults.\<close>

definition kvm_memory :: "('r, 's, 'o) kvm \<Rightarrow> memory" where
  "kvm_memory self = with_defaults (mr_mappings (kvm_mem self)) (remap_read_physical (kvm_mem self))"

definition kvm_vcpu_regs :: "('r, 's, 'o) kvm \<Rightarrow> ('r, 's, 'o) vcpu_regs" where
  "kvm_vcpu_regs self =
     \<lparr>vcpus_count = length (kvm_vcpus self),
      registers = (\<lambda>vcpu. map_ok vcpu_registers (ok_or InvalidId (get_at vcpu (kvm_vcpus self)))),
      special_registers = (\<lambda>vcpu. map_ok vcpu_special (ok_or InvalidId (get_at vcpu (kvm_vcpus self)))),
      other_registers = (\<lambda>vcpu. map_ok vcpu_other (ok_or InvalidId (get_at vcpu (kvm_vcpus self))))\<rparr>"

definition kvm_backend :: "('r, 's, 'o) arch_impl \<Rightarrow> ('r, 's, 'o) kvm \<Rightarrow> ('r, 's, 'o) backend" where
  "kvm_backend arch self = default_backend (kvm_memory self) (default_vcpus arch (kvm_vcpu_regs self)) arch"

section \<open>The largest mapping\<close>

text \<open>
  The mapping a line of \<open>/proc/pid/maps\<close> describes, as \<open>proc(5)\<close> documents it: start, end and the rest
  of the line from the space after the end.
\<close>

definition map_line :: "string \<Rightarrow> (nat \<times> nat \<times> string) option" where
  "map_line line =
     (let s = takeWhile (\<lambda>c. c \<noteq> CHR ''-'') line; t = dropWhile (\<lambda>c. c \<noteq> CHR ''-'') line;
          e = takeWhile (\<lambda>c. c \<noteq> CHR '' '') (tl t); r = dropWhile (\<lambda>c. c \<noteq> CHR '' '') (tl t)
      in if t = [] \<or> r = [] then None
         else case (from_str_radix 16 64 s, from_str_radix 16 64 e) of
             (Some start_addr, Some end_addr) \<Rightarrow> Some (start_addr, end_addr, r)
           | _ \<Rightarrow> None)"

definition guest_map :: "string \<Rightarrow> (nat \<times> nat) option" where
  "guest_map line =
     (case map_line line of
        Some (s, e, r) \<Rightarrow> if str_contains ''/usr/'' r then None else Some (s, e)
      | None \<Rightarrow> None)"

lemma find_char_split:
  "find_char c s =
     (if dropWhile (\<lambda>d. d \<noteq> c) s = [] then None else Some (length (takeWhile (\<lambda>d. d \<noteq> c) s)))"
  by (induction s) auto

lemma take_length_takeWhile: "take (length (takeWhile P s)) s = takeWhile P s"
  by (metis takeWhile_eq_take)

lemma find_memory_line_map:
  "find_memory_line line (g, n) =
     (case guest_map line of
        None \<Rightarrow> Ok (g, n)
      | Some (s, e) \<Rightarrow> and_then (sub_chk (of_nat e) (of_nat s)) (\<lambda>cur.
          if cur > n then Ok (of_nat s, cur) else Ok (g, n)))"
proof (cases "dropWhile (\<lambda>d. d \<noteq> CHR ''-'') line")
  case Nil
  then show ?thesis by (simp add: find_memory_line_def guest_map_def map_line_def find_char_split)
next
  case (Cons c rest)
  then have c: "c = CHR ''-''" using hd_dropWhile [of "\<lambda>d. d \<noteq> CHR ''-''" line] by auto
  let ?i = "length (takeWhile (\<lambda>d. d \<noteq> CHR ''-'') line)"
  have d: "drop ?i line = CHR ''-'' # rest" using Cons c by (metis dropWhile_eq_drop)
  show ?thesis
    by (auto simp: find_memory_line_def guest_map_def map_line_def find_char_split Cons c d take_length_takeWhile
        dropWhile_eq_drop [symmetric] Let_def split: option.split)
qed

lemma from_str_radix_less: "from_str_radix radix bits s = Some n \<Longrightarrow> n < 2 ^ bits"
  using parse_digits_less [of 0 bits radix] by (auto simp: from_str_radix_def Let_def split: if_splits)

lemma guest_map_less: "guest_map line = Some (s, e) \<Longrightarrow> s < 2 ^ 64 \<and> e < 2 ^ 64"
  by (auto simp: guest_map_def map_line_def Let_def dest!: from_str_radix_less split: option.splits if_splits)

lemma find_memory_line_Some:
  assumes "guest_map line = Some (s, e)" "s \<le> e"
  shows "find_memory_line line (g, n) = (Ok (if unat n < e - s then (of_nat s, of_nat (e - s)) else (g, n)) :: (_, 'e) result)"
proof -
  have less: "s < 2 ^ 64" "e < 2 ^ 64" using guest_map_less [OF assms(1)] by auto
  then have u: "unat (of_nat s :: u64) = s" "unat (of_nat e :: u64) = e" by (simp_all add: unat_of_nat)
  have le: "(of_nat s :: u64) \<le> of_nat e" using assms(2) u by (simp add: word_le_nat_alt)
  have d: "(of_nat e :: u64) - of_nat s = of_nat (e - s)" using assms(2) by (simp add: of_nat_diff)
  have "unat (of_nat (e - s) :: u64) = e - s" using less by (simp add: unat_of_nat)
  then have "n < of_nat (e - s) \<longleftrightarrow> unat n < e - s" by (simp add: word_less_nat_alt)
  moreover have "sub_chk (of_nat e) (of_nat s) = (Ok (of_nat (e - s)) :: (u64, 'e) result)"
    unfolding sub_chk_def d using le by (rule if_P)
  ultimately show ?thesis
    using assms(1) by (simp add: find_memory_line_map del: of_nat_diff)
qed

text \<open>The loop ends with the first of the largest mappings.\<close>

lemma find_memory_loop_largest:
  assumes "\<forall>line \<in> set lines. \<forall>s e. guest_map line = Some (s, e) \<longrightarrow> s \<le> e"
  shows "\<exists>g' n'. find_memory_loop (map Ok lines) (g, n) = Ok (g', n') \<and> unat n \<le> unat n' \<and>
    (\<forall>line \<in> set lines. \<forall>s e. guest_map line = Some (s, e) \<longrightarrow> e - s \<le> unat n') \<and>
    ((g', n') = (g, n) \<or>
     (\<exists>line \<in> set lines. \<exists>s e. guest_map line = Some (s, e) \<and> unat g' = s \<and> unat n' = e - s))"
  using assms
proof (induction lines arbitrary: g n)
  case Nil
  then show ?case by simp
next
  case (Cons line lines)
  show ?case
  proof (cases "guest_map line")
    case None
    then show ?thesis using Cons.IH [of g n] Cons.prems by (auto simp: find_memory_line_map)
  next
    case (Some p)
    then obtain s e where g: "guest_map line = Some (s, e)" by (cases p) auto
    have le: "s \<le> e" using Cons.prems g by auto
    have u: "unat (of_nat s :: u64) = s" "unat (of_nat (e - s) :: u64) = e - s"
      using guest_map_less [OF g] by (auto simp: unat_of_nat)
    define g1 n1 where "g1 = (if unat n < e - s then of_nat s else g)"
      and "n1 = (if unat n < e - s then of_nat (e - s) else n)"
    have line: "find_memory_line line (g, n) = (Ok (g1, n1) :: (_, vm_error) result)"
      unfolding find_memory_line_Some [OF g le] g1_def n1_def by simp
    have n1: "unat n \<le> unat n1" "e - s \<le> unat n1" using u(2) by (auto simp: n1_def simp del: of_nat_diff)
    have new: "(g1, n1) = (g, n) \<or> unat g1 = s \<and> unat n1 = e - s"
      using u by (simp add: g1_def n1_def del: of_nat_diff)
    obtain g' n' where r: "find_memory_loop (map Ok lines) (g1, n1) = Ok (g', n')" "unat n1 \<le> unat n'"
      "\<forall>line \<in> set lines. \<forall>s e. guest_map line = Some (s, e) \<longrightarrow> e - s \<le> unat n'"
      "(g', n') = (g1, n1) \<or>
       (\<exists>line \<in> set lines. \<exists>s e. guest_map line = Some (s, e) \<and> unat g' = s \<and> unat n' = e - s)"
      using Cons.IH [of g1 n1] Cons.prems by auto
    have "find_memory_loop (map Ok (line # lines)) (g, n) = Ok (g', n')" using line r(1) by simp
    moreover have "\<forall>l \<in> set (line # lines). \<forall>s e. guest_map l = Some (s, e) \<longrightarrow> e - s \<le> unat n'"
      using r(2,3) n1(2) g by auto
    moreover have "(g', n') = (g, n) \<or>
        (\<exists>l \<in> set (line # lines). \<exists>s e. guest_map l = Some (s, e) \<and> unat g' = s \<and> unat n' = e - s)"
      using r(4) new g by auto
    ultimately show ?thesis using order_trans [OF n1(1) r(2)] by blast
  qed
qed

lemma find_memory_largest:
  assumes maps: "\<forall>line \<in> set lines. \<forall>s e. guest_map line = Some (s, e) \<longrightarrow> 0 < s \<and> s \<le> e"
    and ex: "\<exists>line \<in> set lines. \<exists>s e. guest_map line = Some (s, e) \<and> s < e"
  shows "\<exists>f line s e. find_memory (Ok (map Ok lines)) (Ok rd) = Ok f \<and> line \<in> set lines \<and>
    guest_map line = Some (s, e) \<and> read_exact_at f = rd \<and> unat (file_start f) = s \<and> unat (file_size f) = e - s \<and>
    (\<forall>line' \<in> set lines. \<forall>s' e'. guest_map line' = Some (s', e') \<longrightarrow> e' - s' \<le> e - s)"
proof -
  obtain g n where loop: "find_memory_loop (map Ok lines) (0, 0) = Ok (g, n)"
      "\<forall>line \<in> set lines. \<forall>s e. guest_map line = Some (s, e) \<longrightarrow> e - s \<le> unat n"
      "(g, n) = (0, 0) \<or> (\<exists>line \<in> set lines. \<exists>s e. guest_map line = Some (s, e) \<and> unat g = s \<and> unat n = e - s)"
    using find_memory_loop_largest [of lines 0 0] maps by auto
  have "0 < unat n" using ex loop(2) by fastforce
  then obtain line s e where l: "line \<in> set lines" "guest_map line = Some (s, e)" "unat g = s" "unat n = e - s"
    using loop(3) by auto
  have s: "0 < s" "s \<le> e" "e < 2 ^ 64" using maps l(1,2) guest_map_less by auto
  have "g \<noteq> 0" using s(1) l(3) by auto
  moreover have "add_chk g n = (Ok (g + n) :: u64 vm_result)" and "g \<le> g + n"
    using l(3,4) s by (simp_all add: add_chk_def word_le_nat_alt unat_add_no_overflow)
  ultimately show ?thesis
    using loop(1,2) l by (auto simp: find_memory_def file_open_def file_new_def sub_chk_def file_size_def)
qed

section \<open>Reading the memory of the process\<close>

text \<open>
  \<open>/proc/pid/mem\<close> of a process with the given bytes at its mapped addresses: a read succeeds when all
  its addresses are mapped.
\<close>

definition process_read :: "(nat \<Rightarrow> u8 option) \<Rightarrow> u8 list \<Rightarrow> u64 \<Rightarrow> u8 list \<times> (unit, io_error) result" where
  "process_read pimage bf off =
     (if unat off + length bf < 2 ^ 64 \<and> (\<forall>i \<in> set [0..<length bf]. pimage (unat off + i) \<noteq> None)
      then (map (\<lambda>i. the (pimage (unat off + i))) [0..<length bf], Ok ())
      else (bf, Err (IoOs 5)))"

definition process_file :: "(nat \<Rightarrow> u8 option) \<Rightarrow> u64 \<Rightarrow> u64 \<Rightarrow> file_mem" where
  "process_file pimage start len =
     \<lparr>read_exact_at = process_read pimage, file_start = start, file_mapping = \<lparr>mm_start = 0, mm_end = len\<rparr>\<rparr>"

definition process_readable :: "(nat \<Rightarrow> u8 option) \<Rightarrow> u64 \<Rightarrow> u64 \<Rightarrow> physical_address \<Rightarrow> nat \<Rightarrow> bool" where
  "process_readable pimage start len a n \<longleftrightarrow>
     unat a + n \<le> unat len \<and> unat start + unat a + n < 2 ^ 64 \<and>
     (\<forall>i < n. pimage (unat start + unat a + i) \<noteq> None)"

lemma process_file_read:
  assumes "unat a + length bf < 2 ^ 64" "unat a + length bf \<le> unat len"
  shows "file_read_physical (process_file pimage start len) a bf =
    (case add_chk start a of
       Ok off \<Rightarrow> (let (bf', r) = process_read pimage bf off in (bf', map_err mem_of_io r))
     | Err e \<Rightarrow> (bf, Err e) | Panic \<Rightarrow> (bf, Panic))"
  using is_valid_default_iff [OF assms(1), of "[\<lparr>mm_start = 0, mm_end = len\<rparr>]"] assms(2)
  by (simp add: file_read_physical_def process_file_def covers_def split: result.split)

interpretation process: flat_memory "file_read_physical (process_file pimage start len)"
  "process_readable pimage start len" "\<lambda>i. the (pimage (unat start + i))"
proof
  fix a :: physical_address and bf :: buf
  assume r: "process_readable pimage start len a (length bf)"
  then have b: "unat a + length bf < 2 ^ 64" "unat a + length bf \<le> unat len" "unat start + unat a < 2 ^ 64"
    using unsigned_less [of len, where 'a = nat] by (auto simp: process_readable_def)
  show "file_read_physical (process_file pimage start len) a bf =
      (bytes_at (\<lambda>i. the (pimage (unat start + i))) (unat a) (length bf), Ok ())"
    unfolding process_file_read [OF b(1,2)] using r b(3)
    by (simp add: add_chk_def process_read_def process_readable_def unat_add_no_overflow bytes_at_def add.assoc)
next
  fix a :: physical_address and n i m :: nat
  assume r: "process_readable pimage start len a n" and m: "0 < m" "i + m \<le> n"
  have "unat a + i < 2 ^ 64" using r m by (auto simp: process_readable_def)
  note u = unat_add_of_nat [OF this]
  have "pimage (unat start + (unat a + i) + j) \<noteq> None" if "j < m" for j
    using r m that spec [of _ "i + j"] by (simp add: process_readable_def add.assoc)
  then show "process_readable pimage start len (a + of_nat i) m"
    using r m by (auto simp: process_readable_def u)
next
  fix a :: physical_address and n :: nat
  assume "process_readable pimage start len a n"
  then show "unat a + n < 2 ^ 64" by (simp add: process_readable_def)
next
  fix a :: physical_address and bf :: buf
  assume r: "\<not> process_readable pimage start len a (length bf)" and bf: "bf \<noteq> []" "unat a + length bf < 2 ^ 64"
  show "snd (file_read_physical (process_file pimage start len) a bf) \<noteq> Ok ()"
  proof (cases "unat a + length bf \<le> unat len")
    case True
    then show ?thesis
      unfolding process_file_read [OF bf(2) True] using r
      by (auto simp: add_chk_def process_read_def process_readable_def unat_add_no_overflow)
  next
    case False
    then show ?thesis
      using is_valid_default_iff [OF bf(2), of "[\<lparr>mm_start = 0, mm_end = len\<rparr>]"]
      by (simp add: file_read_physical_def process_file_def covers_def)
  qed
qed

text \<open>The layout QEMU gives to \<open>sz\<close> bytes, where no addition overflows.\<close>

definition qemu_memory :: "architecture \<Rightarrow> (nat \<Rightarrow> u8 option) \<Rightarrow> u64 \<Rightarrow> 63 word \<Rightarrow> mem_remap" where
  "qemu_memory host pimage start sz =
     (case default_qemu_mappings host (ucast sz) :: (_, vm_error) result of
        Ok (ms, at) \<Rightarrow> remap_new (file_mem_impl (process_file pimage start (ucast sz))) ms at
      | r \<Rightarrow> remap_new (file_mem_impl (process_file pimage start (ucast sz))) [] [])"

lemma qemu_mappings_x86:
  assumes "unat sz < 2 ^ 63"
  shows "default_qemu_mappings X86_64 sz =
    (Ok (if sz \<le> 0x80000000 then ([\<lparr>mm_start = 0, mm_end = sz\<rparr>], [0])
         else ([\<lparr>mm_start = 0, mm_end = 0x80000000\<rparr>, \<lparr>mm_start = 0x100000000, mm_end = sz + 0x80000000\<rparr>],
               [0, 0x80000000])) :: (_, 'e) result)"
  using assms by (simp add: default_qemu_mappings_def push_bit_eq_mult add_chk_def)

lemma qemu_mappings_arm:
  assumes "unat sz < 2 ^ 63"
  shows "default_qemu_mappings Aarch64 sz =
    (Ok ([\<lparr>mm_start = 0x40000000, mm_end = sz + 0x40000000\<rparr>], [0]) :: (_, 'e) result)"
  using assms by (simp add: default_qemu_mappings_def push_bit_eq_mult add_chk_def)

lemma qemu_mappings_wf:
  assumes "unat sz < 2 ^ 63" "default_qemu_mappings host sz = (Ok (ms, at) :: (_, 'e) result)"
  shows "remap_wf (remap_new inner ms at)"
proof -
  have u: "unat (sz + 0x80000000) = unat sz + 0x80000000" "unat (sz + 0x40000000) = unat sz + 0x40000000"
    using assms(1) by (simp_all add: unat_add_no_overflow)
  show ?thesis
    using assms u
    by (cases host)
       (auto simp: qemu_mappings_x86 qemu_mappings_arm remap_wf_def remap_new_def word_le_nat_alt split: if_splits)
qed

lemma unat_ucast_63: "unat (ucast (sz :: 63 word) :: u64) = unat sz"
  using unsigned_less [of sz, where 'a = nat] by (simp add: unsigned_ucast_eq take_bit_eq_mod)

lemma qemu_memory_new:
  "\<exists>ms at. default_qemu_mappings host (ucast sz) = (Ok (ms, at) :: (_, vm_error) result) \<and>
     qemu_memory host pimage start sz = remap_new (file_mem_impl (process_file pimage start (ucast sz))) ms at"
proof -
  have lt: "unat (ucast (sz :: 63 word) :: u64) < 2 ^ 63"
    unfolding unat_ucast_63 using unsigned_less [of sz, where 'a = nat] by simp
  show ?thesis
    by (cases host) (auto simp: qemu_memory_def qemu_mappings_x86 [OF lt] qemu_mappings_arm [OF lt])
qed

interpretation qemu: remapped_memory "file_read_physical (process_file pimage start (ucast sz))"
  "process_readable pimage start (ucast sz)" "\<lambda>i. the (pimage (unat start + i))" "qemu_memory host pimage start sz"
  for sz :: "63 word"
proof
  obtain ms at where m: "default_qemu_mappings host (ucast sz) = (Ok (ms, at) :: (_, vm_error) result)"
      "qemu_memory host pimage start sz = remap_new (file_mem_impl (process_file pimage start (ucast sz))) ms at"
    using qemu_memory_new by blast
  show "read_physical (mr_inner (qemu_memory host pimage start sz)) =
      file_read_physical (process_file pimage start (ucast sz))"
    by (simp add: m(2) remap_new_def file_mem_impl_def with_defaults_def)
  show "remap_wf (qemu_memory host pimage start sz)"
    unfolding m(2) using qemu_mappings_wf [OF _ m(1)] unsigned_less [of sz, where 'a = nat]
    by (simp add: unat_ucast_63)
qed

text \<open>Where the bytes of a guest of \<open>sz\<close> bytes lie, from the start of its memory in the process.\<close>

fun guest_offset :: "architecture \<Rightarrow> nat \<Rightarrow> nat \<Rightarrow> nat \<Rightarrow> nat option" where
  "guest_offset X86_64 sz a n =
     (if a + n \<le> min sz 0x80000000 then Some a
      else if 0x100000000 \<le> a \<and> a + n \<le> sz + 0x80000000 then Some (a - 0x80000000) else None)"
| "guest_offset Aarch64 sz a n =
     (if 0x40000000 \<le> a \<and> a + n \<le> sz + 0x40000000 then Some (a - 0x40000000) else None)"

lemma guest_offset_covers:
  assumes "unat sz < 2 ^ 63" "default_qemu_mappings host sz = (Ok (ms, at) :: (_, 'e) result)" "0 < n"
  shows "case guest_offset host (unat sz) (unat a) n of
      None \<Rightarrow> \<forall>m \<in> set ms. \<not> covers m a n
    | Some off \<Rightarrow> \<exists>k < length ms. covers (ms ! k) a n \<and>
        unat (at ! k) + (unat a - unat (mm_start (ms ! k))) = off \<and> off + n \<le> unat sz"
proof -
  have u: "unat (sz + 0x80000000) = unat sz + 0x80000000" "unat (sz + 0x40000000) = unat sz + 0x40000000"
    using assms(1) by (simp_all add: unat_add_no_overflow)
  show ?thesis
  proof (cases host)
    case X86_64
    then show ?thesis
      using assms u
      by (auto simp: qemu_mappings_x86 covers_def word_le_nat_alt less_Suc_eq nth_Cons' split: if_splits)
  next
    case Aarch64
    then show ?thesis
      using assms u by (auto simp: qemu_mappings_arm covers_def word_le_nat_alt)
  qed
qed

lemma find_memory_process:
  assumes "find_memory open_maps (Ok (process_read pimage)) = Ok f"
  shows "f = process_file pimage (file_start f) (file_size f) \<and> unat (file_start f) + unat (file_size f) < 2 ^ 64"
  using assms
  by (auto simp: find_memory_def file_open_def file_new_def sub_chk_def add_chk_def process_file_def file_size_def
      and_then_Ok_iff split: if_splits)

lemma qemu_read:
  assumes "unat sz < 2 ^ 63" "default_qemu_mappings host sz = (Ok (ms, at) :: (_, 'e) result)"
    and "bf \<noteq> []" "unat a + length bf < 2 ^ 64" "unat start + unat sz < 2 ^ 64"
    and "\<forall>i < unat sz. pimage (unat start + i) \<noteq> None"
  shows "remap_read_physical (remap_new (file_mem_impl (process_file pimage start sz)) ms at) a bf =
    (case guest_offset host (unat sz) (unat a) (length bf) of
       None \<Rightarrow> (bf, Err OutOfBounds)
     | Some off \<Rightarrow> (bytes_at (\<lambda>i. the (pimage i)) (unat start + off) (length bf), Ok ()))"
proof -
  let ?r = "remap_new (file_mem_impl (process_file pimage start sz)) ms at"
  note wf = qemu_mappings_wf [OF assms(1,2), of "file_mem_impl (process_file pimage start sz)"]
  have sel: "mr_mappings ?r = ms" "remap_at ?r = at"
    "read_physical (mr_inner ?r) = file_read_physical (process_file pimage start sz)"
    by (simp_all add: remap_new_def file_mem_impl_def with_defaults_def)
  have pos: "0 < length bf" using assms(3) by simp
  note g = guest_offset_covers [OF assms(1,2) pos, of a]
  show ?thesis
  proof (cases "guest_offset host (unat sz) (unat a) (length bf)")
    case None
    then have "\<forall>m \<in> set (mr_mappings ?r). \<not> covers m a (length bf)" using g by (simp add: sel)
    then show ?thesis using remap_read_uncovered [OF wf assms(4)] None by simp
  next
    case (Some off)
    then obtain k where k: "k < length (mr_mappings ?r)" "covers (mr_mappings ?r ! k) a (length bf)"
        "unat (at ! k) + (unat a - unat (mm_start (ms ! k))) = off" "off + length bf \<le> unat sz"
      using g by (auto simp: sel)
    let ?a = "at ! k + (a - mm_start (ms ! k))"
    have ua: "unat ?a = off" using remap_addr_covered(2) [OF wf k(1,2) pos] k(3) by (simp add: sel)
    have "process_readable pimage start sz ?a (length bf)"
      using k(4) assms(5,6) by (auto simp: process_readable_def ua add.assoc)
    then show ?thesis
      using remap_read_covered [OF wf k(1,2) assms(3)] process.read_readable [of pimage start sz ?a bf] Some
      by (simp add: sel ua bytes_at_def add.assoc)
  qed
qed

end
