(* ===== verification/Vm_Strings.thy ===== *)
theory Vm_Strings
  imports Vm_Symbols
begin

text \<open>
  The conversions of the standard library between bytes and strings that the operating systems use:
  \<open>String::from_utf8\<close>, \<open>String::from_utf8_lossy\<close>, \<open>String::from_utf16_lossy\<close>, and the strings that end with
  a zero byte. A string is the list of its bytes.
\<close>

section \<open>UTF-8\<close>

text \<open>
  What validation meets first: a character of some bytes, a bad sequence of some bytes, or a sequence that
  the end of the input cuts.
\<close>

datatype utf8_item = Utf8Char nat | Utf8Bad nat | Utf8Cut nat

text \<open>The bytes after the first and the second byte of a character.\<close>

fun utf8_conts :: "nat \<Rightarrow> nat \<Rightarrow> u8 list \<Rightarrow> utf8_item" where
  "utf8_conts seen 0 bs = Utf8Char seen"
| "utf8_conts seen (Suc n) [] = Utf8Cut seen"
| "utf8_conts seen (Suc n) (b # bs) = (if utf8_cont b then utf8_conts (Suc seen) n bs else Utf8Bad seen)"

text \<open>The second byte of a character of three or four bytes has a range of its own.\<close>

definition utf8_second :: "nat \<Rightarrow> (u8 \<Rightarrow> bool) \<Rightarrow> u8 list \<Rightarrow> utf8_item" where
  "utf8_second left ok bs =
     (case bs of
        [] \<Rightarrow> Utf8Cut 1
      | b # bs \<Rightarrow> if ok b then utf8_conts 2 left bs else Utf8Bad 1)"

definition utf8_first :: "u8 \<Rightarrow> u8 list \<Rightarrow> utf8_item" where
  "utf8_first b bs =
     (if b < 0x80 then Utf8Char 1
      else if 0xc2 \<le> b \<and> b \<le> 0xdf then utf8_conts 1 1 bs
      else if b = 0xe0 then utf8_second 1 (\<lambda>c. 0xa0 \<le> c \<and> c \<le> 0xbf) bs
      else if 0xe1 \<le> b \<and> b \<le> 0xec \<or> b = 0xee \<or> b = 0xef then utf8_second 1 utf8_cont bs
      else if b = 0xed then utf8_second 1 (\<lambda>c. 0x80 \<le> c \<and> c \<le> 0x9f) bs
      else if b = 0xf0 then utf8_second 2 (\<lambda>c. 0x90 \<le> c \<and> c \<le> 0xbf) bs
      else if 0xf1 \<le> b \<and> b \<le> 0xf3 then utf8_second 2 utf8_cont bs
      else if b = 0xf4 then utf8_second 2 (\<lambda>c. 0x80 \<le> c \<and> c \<le> 0x8f) bs
      else Utf8Bad 1)"

text \<open>The number of bytes after the first one that an item takes.\<close>

fun utf8_rest :: "utf8_item \<Rightarrow> nat" where
  "utf8_rest (Utf8Char n) = n - 1"
| "utf8_rest (Utf8Bad n) = n - 1"
| "utf8_rest (Utf8Cut n) = n - 1"

definition REPLACEMENT :: "u8 list" where
  "REPLACEMENT = [0xef, 0xbf, 0xbd]"

function utf8_lossy_bytes :: "u8 list \<Rightarrow> u8 list" where
  "utf8_lossy_bytes [] = []"
| "utf8_lossy_bytes (b # bs) =
     (let item = utf8_first b bs; n = utf8_rest item in
      (case item of Utf8Char _ \<Rightarrow> b # take n bs | _ \<Rightarrow> REPLACEMENT) @ utf8_lossy_bytes (drop n bs))"
  by pat_completeness auto
termination
  by (relation "measure length") auto

definition from_utf8_lossy :: "u8 list \<Rightarrow> string" where
  "from_utf8_lossy bs = map byte_char (utf8_lossy_bytes bs)"

text \<open>The first error: its position, and its length unless the end of the input cut a character.\<close>

function utf8_error_at :: "nat \<Rightarrow> u8 list \<Rightarrow> (nat \<times> nat option) option" where
  "utf8_error_at i [] = None"
| "utf8_error_at i (b # bs) =
     (case utf8_first b bs of
        Utf8Char n \<Rightarrow> utf8_error_at (i + n) (drop (n - 1) bs)
      | Utf8Bad n \<Rightarrow> Some (i, Some n)
      | Utf8Cut n \<Rightarrow> Some (i, None))"
  by pat_completeness auto
termination
  by (relation "measure (\<lambda>(i, bs). length bs)") auto

fun dec_nat :: "nat \<Rightarrow> string" where
  "dec_nat n = (if n < 10 then [''0123456789'' ! n] else dec_nat (n div 10) @ [''0123456789'' ! (n mod 10)])"

declare dec_nat.simps [simp del]

fun utf8_error_msg :: "nat \<times> nat option \<Rightarrow> string" where
  "utf8_error_msg (i, Some n) = ''invalid utf-8 sequence of '' @ dec_nat n @ '' bytes from index '' @ dec_nat i"
| "utf8_error_msg (i, None) = ''incomplete utf-8 byte sequence from index '' @ dec_nat i"

definition string_from_utf8 :: "u8 list \<Rightarrow> string vm_result" where
  "string_from_utf8 bs =
     (case utf8_error_at 0 bs of
        None \<Rightarrow> Ok (map byte_char bs)
      | Some e \<Rightarrow> Err (vm_new (DynForeign (utf8_error_msg e) None)))"

section \<open>UTF-16\<close>

text \<open>A character is its scalar value; an unpaired surrogate is replaced.\<close>

definition utf8_encode :: "nat \<Rightarrow> u8 list" where
  "utf8_encode c =
     (if c < 0x80 then [of_nat c]
      else if c < 0x800 then [of_nat (0xc0 + c div 64), of_nat (0x80 + c mod 64)]
      else if c < 0x10000 then
        [of_nat (0xe0 + c div 4096), of_nat (0x80 + c div 64 mod 64), of_nat (0x80 + c mod 64)]
      else [of_nat (0xf0 + c div 262144), of_nat (0x80 + c div 4096 mod 64), of_nat (0x80 + c div 64 mod 64),
            of_nat (0x80 + c mod 64)])"

fun utf16_lossy_chars :: "nat list \<Rightarrow> nat list" where
  "utf16_lossy_chars [] = []"
| "utf16_lossy_chars (u # us) =
     (if u < 0xd800 \<or> 0xdfff < u then u # utf16_lossy_chars us
      else if 0xdc00 \<le> u then 0xfffd # utf16_lossy_chars us
      else (case us of
              u2 # us' \<Rightarrow>
                if 0xdc00 \<le> u2 \<and> u2 \<le> 0xdfff
                then (0x10000 + (u - 0xd800) * 1024 + (u2 - 0xdc00)) # utf16_lossy_chars us'
                else 0xfffd # utf16_lossy_chars us
            | [] \<Rightarrow> [0xfffd]))"

definition from_utf16_lossy :: "u16 list \<Rightarrow> string" where
  "from_utf16_lossy us = map byte_char (concat (map utf8_encode (utf16_lossy_chars (map unat us))))"

text \<open>Casting bytes to 16-bit units.\<close>

fun cast_u16 :: "u8 list \<Rightarrow> u16 list" where
  "cast_u16 (a # b # bs) = of_le_bytes [a, b] # cast_u16 bs"
| "cast_u16 _ = []"

section \<open>Strings that end with a zero\<close>

definition memchr_zero :: "u8 list \<Rightarrow> nat option" where
  "memchr_zero bs = (let n = length (takeWhile (\<lambda>b. b \<noteq> 0) bs) in if n < length bs then Some n else None)"

definition until_zero :: "u8 list \<Rightarrow> u8 list" where
  "until_zero bs = (case memchr_zero bs of Some i \<Rightarrow> take i bs | None \<Rightarrow> bs)"

lemma until_zero_eq: "until_zero bs = takeWhile (\<lambda>b. b \<noteq> 0) bs"
proof -
  have "take (length (takeWhile (\<lambda>b. b \<noteq> 0) bs)) bs = takeWhile (\<lambda>b. b \<noteq> 0) bs"
    by (metis append_eq_conv_conj takeWhile_dropWhile_id)
  moreover have "takeWhile (\<lambda>b. b \<noteq> 0) bs = bs" if "\<not> length (takeWhile (\<lambda>b. b \<noteq> 0) bs) < length bs"
    using that length_takeWhile_le [of "\<lambda>b. b \<noteq> 0" bs] calculation by (metis le_antisym not_less take_all_iff)
  ultimately show ?thesis
    by (cases "length (takeWhile (\<lambda>b. b \<noteq> 0) bs) < length bs") (simp_all add: until_zero_def memchr_zero_def Let_def)
qed

section \<open>Lemmas\<close>

text \<open>ASCII text is kept by every conversion.\<close>

lemma utf8_ascii:
  "\<forall>b \<in> set bs. b < 0x80 \<Longrightarrow> utf8_lossy_bytes bs = bs"
  "\<forall>b \<in> set bs. b < 0x80 \<Longrightarrow> utf8_error_at i bs = None"
  by (induction bs arbitrary: i) (simp_all add: utf8_first_def Let_def)

lemma utf8_error_lossy: "utf8_error_at i bs = None \<Longrightarrow> utf8_lossy_bytes bs = bs"
  by (induction bs arbitrary: i rule: utf8_lossy_bytes.induct) (auto simp: Let_def split: utf8_item.splits)

text \<open>The lossy conversion of a valid string is the string.\<close>

lemma from_utf8_lossy_valid: "string_from_utf8 bs = Ok s \<Longrightarrow> from_utf8_lossy bs = s"
  by (auto simp: string_from_utf8_def from_utf8_lossy_def utf8_error_lossy split: option.splits)

end
