(* ===== verification/Vm_Pointer.thy ===== *)
theory Vm_Pointer
  imports Vm_Os Vm_Strings Vm_Backend
begin

text \<open>
  Typed pointers to the structures of a guest (\<^verbatim>\<open>vminer/src/os/pointer.rs\<close>, the macros of
  \<^verbatim>\<open>linux/profile.rs\<close> and \<^verbatim>\<open>windows/profile.rs\<close>, and the builder of \<^verbatim>\<open>os/mod.rs\<close>).

  A pointer is its address. The context it reads with, the memory of the kernel or of a process, is a
  function that reads memory, and its type is a structure: the name it has in the guest and the name of
  the Rust type. The layouts that a profile keeps give the offset of each field that the debug
  information of the guest has. Values are read in the byte order of the host, a little-endian one.
\<close>

section \<open>Layouts\<close>

datatype kstruct = Kstruct (kernel_name: string) (struct_name: string)

type_synonym layout = "string \<Rightarrow> u64 option"
type_synonym layouts = "string \<Rightarrow> layout option"

text \<open>The structures and fields that a profile declares, and their layouts in the debug information.\<close>

definition struct_new :: "string list \<Rightarrow> struct_ref \<Rightarrow> layout" where
  "struct_new fs lay = (\<lambda>f. if f \<in> set fs then find_offset lay f else None)"

definition layouts_new :: "(kstruct \<times> string list) list \<Rightarrow> module_symbols \<Rightarrow> layouts" where
  "layouts_new decls syms kname =
     Option.bind (List.find (\<lambda>(s, _). kernel_name s = kname) decls) (\<lambda>(s, fs).
       map_option (struct_new fs) (get_struct syms kname))"

definition get_layout :: "layouts \<Rightarrow> kstruct \<Rightarrow> layout vm_result" where
  "get_layout self s = ok_or (missing_symbol (struct_name s)) (self (kernel_name s))"

definition offset_of :: "kstruct \<Rightarrow> layout \<Rightarrow> string \<Rightarrow> u64 vm_result" where
  "offset_of s lay f = ok_or (missing_field f (kernel_name s)) (lay f)"

definition field_offset :: "layouts \<Rightarrow> kstruct \<Rightarrow> string \<Rightarrow> u64 vm_result" where
  "field_offset self s f = and_then (get_layout self s) (\<lambda>lay. offset_of s lay f)"

definition has_field :: "layouts \<Rightarrow> kstruct \<Rightarrow> string \<Rightarrow> bool" where
  "has_field self s f \<longleftrightarrow> (case field_offset self s f of Ok off \<Rightarrow> True | _ \<Rightarrow> False)"

section \<open>Contexts\<close>

definition kernel_space :: "('r, 's, 'o, 'z) os_scheme \<Rightarrow> os_read" where
  "kernel_space self addr bf = read_kernel_memory self addr bf"

definition proc_space :: "os_read \<Rightarrow> (process \<Rightarrow> physical_address \<Rightarrow> os_read) \<Rightarrow> process \<Rightarrow> physical_address \<Rightarrow> os_read" where
  "proc_space read_kernel read_process proc mmu_addr addr bf =
     (if is_kernel addr then read_kernel addr bf else read_process proc mmu_addr addr bf)"

text \<open>Reading a value of some bytes.\<close>

definition read_bytes_at :: "os_read \<Rightarrow> virtual_address \<Rightarrow> nat \<Rightarrow> u8 list outcome" where
  "read_bytes_at rd addr n = map_option (\<lambda>(bf, r). map_ok (\<lambda>u. bf) r) (rd addr (replicate n 0))"

definition read_value :: "os_read \<Rightarrow> nat \<Rightarrow> (u8 list \<Rightarrow> 'a) \<Rightarrow> virtual_address \<Rightarrow> 'a outcome" where
  "read_value rd n decode addr = out_map decode (read_bytes_at rd addr n)"

abbreviation (input) dec_u64 :: "u8 list \<Rightarrow> u64" where "dec_u64 \<equiv> of_le_bytes"
abbreviation (input) dec_u32 :: "u8 list \<Rightarrow> u32" where "dec_u32 \<equiv> of_le_bytes"
abbreviation (input) dec_u16 :: "u8 list \<Rightarrow> u16" where "dec_u16 \<equiv> of_le_bytes"
abbreviation (input) dec_u8 :: "u8 list \<Rightarrow> u8" where "dec_u8 \<equiv> of_le_bytes"

section \<open>Pointers\<close>

definition ptr_is_null :: "virtual_address \<Rightarrow> bool" where
  "ptr_is_null self \<longleftrightarrow> self = 0"

definition map_non_null :: "(virtual_address \<Rightarrow> 'a outcome) \<Rightarrow> virtual_address \<Rightarrow> 'a option outcome" where
  "map_non_null f self = (if ptr_is_null self then Some (Ok None) else out_map Some (f self))"

definition ptr_field :: "layouts \<Rightarrow> kstruct \<Rightarrow> string \<Rightarrow> virtual_address \<Rightarrow> virtual_address outcome" where
  "ptr_field lays s f self =
     (if ptr_is_null self then Some (Err deref_null_ptr)
      else Some (and_then (field_offset lays s f) (\<lambda>off. va_add self off)))"

definition read_field ::
  "os_read \<Rightarrow> nat \<Rightarrow> (u8 list \<Rightarrow> 'a) \<Rightarrow> layouts \<Rightarrow> kstruct \<Rightarrow> string \<Rightarrow> virtual_address \<Rightarrow> 'a outcome"
where
  "read_field rd n decode lays s f self =
     (if ptr_is_null self then Some (Err deref_null_ptr)
      else out_then (Some (and_then (field_offset lays s f) (\<lambda>off. va_add self off))) (read_value rd n decode))"

definition read_pointer_field :: "os_read \<Rightarrow> layouts \<Rightarrow> kstruct \<Rightarrow> string \<Rightarrow> virtual_address \<Rightarrow> virtual_address outcome" where
  "read_pointer_field rd lays s f self =
     (if ptr_is_null self then Some (Err deref_null_ptr)
      else out_then (Some (and_then (field_offset lays s f) (\<lambda>off. va_add self off))) (read_value rd 8 dec_u64))"

definition switch_to_userspace ::
  "(process \<Rightarrow> physical_address outcome) \<Rightarrow> os_read \<Rightarrow> (process \<Rightarrow> physical_address \<Rightarrow> os_read) \<Rightarrow> process \<Rightarrow>
   os_read outcome"
where
  "switch_to_userspace pgd_of read_kernel read_process proc =
     out_map (proc_space read_kernel read_process proc) (pgd_of proc)"

section \<open>Linked lists\<close>

text \<open>
  \<open>iterate_list\<close> of both systems: \<open>nx\<close> reads the link that follows a link, \<open>off\<close> is the offset of the links in
  the elements. The subtraction is only done for a link other than the head.
\<close>

primcorec links_trace ::
  "(virtual_address \<Rightarrow> virtual_address outcome) \<Rightarrow> u64 \<Rightarrow> virtual_address \<Rightarrow> virtual_address \<Rightarrow> virtual_address trace"
where
  "links_trace nx off head pos =
     (case answer_of (nx pos) of
        Hangs \<Rightarrow> Later spin
      | Ends r \<Rightarrow> Stop r
      | Got pos \<Rightarrow>
          if pos = head then Stop (Ok ())
          else if off \<le> pos then Yield (pos - off) (links_trace nx off head pos)
          else Stop Panic)"

definition iterate_list ::
  "(virtual_address \<Rightarrow> virtual_address outcome) \<Rightarrow> u64 vm_result \<Rightarrow> virtual_address \<Rightarrow> virtual_address trace"
where
  "iterate_list nx off self = trace_then (Some off) (\<lambda>off. links_trace nx off self self)"

text \<open>A ring of links: from the head through \<open>ps\<close> and back.\<close>

inductive ring :: "(virtual_address \<Rightarrow> virtual_address outcome) \<Rightarrow> virtual_address \<Rightarrow> virtual_address \<Rightarrow> virtual_address list \<Rightarrow> bool"
  for nx head where
  ring_end: "nx pos = Some (Ok head) \<Longrightarrow> ring nx head pos []"
| ring_link: "nx pos = Some (Ok p) \<Longrightarrow> p \<noteq> head \<Longrightarrow> ring nx head p ps \<Longrightarrow> ring nx head pos (p # ps)"

lemma links_trace_simps:
  "nx pos = Some (Ok head) \<Longrightarrow> links_trace nx off head pos = Stop (Ok ())"
  "nx pos = Some (Ok p) \<Longrightarrow> p \<noteq> head \<Longrightarrow> off \<le> p \<Longrightarrow> links_trace nx off head pos = Yield (p - off) (links_trace nx off head p)"
  "nx pos = Some (Err e) \<Longrightarrow> links_trace nx off head pos = Stop (Err e)"
  by (subst links_trace.code, simp)+

lemma ring_run:
  assumes "ring nx head pos ps" "\<forall>p \<in> set ps. off \<le> p"
  shows "trace_run (links_trace nx off head pos) (map (\<lambda>p. p - off) ps) (Ok ())"
  using assms by (induction rule: ring.induct) (simp_all add: links_trace_simps)

lemma ring_collect:
  assumes "ring nx self self ps" "\<forall>p \<in> set ps. off \<le> p"
  shows "collect (iterate_list nx (Ok off) self) = Some (Ok (map (\<lambda>p. p - off) ps))"
  using ring_run [OF assms] by (simp add: iterate_list_def collect_Ok_iff)

text \<open>Links that lead into a cycle without the head: the loop does not return.\<close>

lemma lasso_never_ends:
  assumes "Q pos" "\<And>x. Q x \<Longrightarrow> \<exists>y. nx x = Some (Ok y) \<and> y \<noteq> head \<and> off \<le> y \<and> Q y"
  shows "\<not> trace_run (links_trace nx off head pos) xs r"
proof
  have "\<not> Q x" if "trace_run t xs r" "t = links_trace nx off head x" for t xs x
    using that
  proof (induction arbitrary: x rule: trace_run.induct)
    case (Stop r)
    then show ?case using assms(2) [of x] by (auto simp: links_trace_simps)
  next
    case (Later t xs r)
    then show ?case using assms(2) [of x] by (auto simp: links_trace_simps)
  next
    case (Yield t xs r z)
    show ?case
    proof
      assume "Q x"
      then obtain y where y: "nx x = Some (Ok y)" "y \<noteq> head" "off \<le> y" "Q y" using assms(2) by blast
      then have "t = links_trace nx off head y" using Yield.prems by (simp add: links_trace_simps)
      then show False using Yield.IH y(4) by blast
    qed
  qed
  moreover assume "trace_run (links_trace nx off head pos) xs r"
  ultimately show False using assms(1) by blast
qed

text \<open>The links met from the head, one after the other: the loop returns exactly when the head is among them.\<close>

definition links :: "(virtual_address \<Rightarrow> virtual_address outcome) \<Rightarrow> u64 \<Rightarrow> (nat \<Rightarrow> virtual_address) \<Rightarrow> bool" where
  "links nx off p \<longleftrightarrow> (\<forall>n. nx (p n) = Some (Ok (p (Suc n))) \<and> off \<le> p (Suc n))"

lemma links_ring:
  assumes "links nx off p" "p n = head" "k < n" "\<And>m. k < m \<Longrightarrow> m < n \<Longrightarrow> p m \<noteq> head"
  shows "ring nx head (p k) (map p [Suc k..<n])"
  using assms(3,4)
proof (induction "n - k" arbitrary: k)
  case (Suc d)
  have nx: "nx (p k) = Some (Ok (p (Suc k)))" using assms(1) by (simp add: links_def)
  show ?case
  proof (cases "Suc k = n")
    case True
    then show ?thesis using nx assms(2) by (simp add: ring_end)
  next
    case False
    then have "ring nx head (p (Suc k)) (map p [Suc (Suc k)..<n])" using Suc by (intro Suc.hyps(1)) auto
    moreover have "[Suc k..<n] = Suc k # [Suc (Suc k)..<n]" using False Suc.prems(1) by (simp add: upt_rec)
    ultimately show ?thesis using nx Suc.prems False by (simp add: ring_link)
  qed
qed simp

lemma links_collect:
  assumes "links nx off p"
  shows "collect (iterate_list nx (Ok off) (p 0)) =
    (if \<exists>n > 0. p n = p 0 then Some (Ok (map (\<lambda>i. p i - off) [1..<(LEAST n. 0 < n \<and> p n = p 0)])) else None)"
proof (cases "\<exists>n > 0. p n = p 0")
  case True
  define n where "n = (LEAST n. 0 < n \<and> p n = p 0)"
  have n: "0 < n" "p n = p 0" using LeastI_ex [OF True] by (simp_all add: n_def)
  have "p m \<noteq> p 0" if "0 < m" "m < n" for m
    using not_less_Least [of m "\<lambda>n. 0 < n \<and> p n = p 0"] that by (simp add: n_def)
  then have "ring nx (p 0) (p 0) (map p [1..<n])" using links_ring [OF assms n(2), of 0] n by simp
  moreover have "\<forall>q \<in> set (map p [1..<n]). off \<le> q"
  proof
    fix q assume "q \<in> set (map p [1..<n])"
    then obtain i where "q = p (Suc i)" by (auto elim: less_natE simp: Suc_le_eq gr0_conv_Suc)
    then show "off \<le> q" using assms by (simp add: links_def)
  qed
  ultimately show ?thesis using True by (simp add: ring_collect comp_def flip: n_def)
next
  case False
  have "\<not> trace_run (links_trace nx off (p 0) (p 0)) xs r" for xs r
  proof (rule lasso_never_ends [where Q = "\<lambda>x. \<exists>n. x = p n"])
    fix x assume "\<exists>n. x = p n"
    then obtain n where "x = p n" ..
    then show "\<exists>y. nx x = Some (Ok y) \<and> y \<noteq> p 0 \<and> off \<le> y \<and> (\<exists>n. y = p n)"
      using assms False by (auto simp: links_def)
  qed blast
  then have "collect (iterate_list nx (Ok off) (p 0)) = None" by (simp add: collect_None_iff iterate_list_def)
  then show ?thesis unfolding if_not_P [OF False] .
qed

section \<open>Builders\<close>

text \<open>\<open>'m\<close> is the index of modules, \<open>'l\<close> a loader of symbols.\<close>

record ('m, 'l) os_builder =
  ob_symbols :: "'m option"
  ob_kpgd :: "physical_address option"
  ob_kaslr :: "virtual_address option"
  ob_version :: "string option"
  ob_loader :: "'l option"

definition os_builder_new :: "('m, 'l) os_builder" where
  "os_builder_new = \<lparr>ob_symbols = None, ob_kpgd = None, ob_kaslr = None, ob_version = None, ob_loader = None\<rparr>"

definition with_symbols :: "'m \<Rightarrow> ('m, 'l) os_builder \<Rightarrow> ('m, 'l) os_builder" where
  "with_symbols symbols self = self\<lparr>ob_symbols := Some symbols\<rparr>"

definition with_kpgd :: "physical_address \<Rightarrow> ('m, 'l) os_builder \<Rightarrow> ('m, 'l) os_builder" where
  "with_kpgd kpgd self = self\<lparr>ob_kpgd := Some kpgd\<rparr>"

definition with_kaslr :: "virtual_address \<Rightarrow> ('m, 'l) os_builder \<Rightarrow> ('m, 'l) os_builder" where
  "with_kaslr kaslr self = self\<lparr>ob_kaslr := Some kaslr\<rparr>"

definition with_version :: "string \<Rightarrow> ('m, 'l) os_builder \<Rightarrow> ('m, 'l) os_builder" where
  "with_version version self = self\<lparr>ob_version := Some version\<rparr>"

text \<open>A loader takes the name and the identifier of a module.\<close>

type_synonym symbol_loader = "string \<Rightarrow> string \<Rightarrow> module_symbols option vm_result"

definition empty_loader :: symbol_loader where
  "empty_loader name id' = Ok None"

end
