(* ===== verification/Vm_Linux.thy ===== *)
theory Vm_Linux
  imports Vm_Pointer
begin

text \<open>
  Linux guests (\<^verbatim>\<open>vminer/src/os/linux/mod.rs\<close> and \<^verbatim>\<open>linux/profile.rs\<close>): the profile made from the symbols and
  the debug information of the kernel, the construction of a \<open>Linux\<close> from a backend, and the methods of the
  trait \<open>Os\<close>, which read the structures of the kernel. The methods that follow pointers of the guest without
  a bound are partial or give a trace. The unwinder of Linux processes and the loader that reads the file
  system are parameters.
\<close>

section \<open>Profile\<close>

definition Dentry :: kstruct where "Dentry = Kstruct ''dentry'' ''Dentry''"
definition File :: kstruct where "File = Kstruct ''file'' ''File''"
definition ListHead :: kstruct where "ListHead = Kstruct ''list_head'' ''ListHead''"
definition MmStruct :: kstruct where "MmStruct = Kstruct ''mm_struct'' ''MmStruct''"
definition Path :: kstruct where "Path = Kstruct ''path'' ''Path''"
definition Qstr :: kstruct where "Qstr = Kstruct ''qstr'' ''Qstr''"
definition TaskStruct :: kstruct where "TaskStruct = Kstruct ''task_struct'' ''TaskStruct''"
definition VmAreaStruct :: kstruct where "VmAreaStruct = Kstruct ''vm_area_struct'' ''VmAreaStruct''"

definition linux_structs :: "(kstruct \<times> string list) list" where
  "linux_structs =
     [(Dentry, [''d_name'', ''d_parent'']),
      (File, [''f_path'']),
      (ListHead, [''next'', ''prev'']),
      (MmStruct, [''exe_file'', ''mmap'', ''pgd'']),
      (Path, [''dentry'']),
      (Qstr, [''name'']),
      (TaskStruct, [''active_mm'', ''children'', ''comm'', ''flags'', ''group_leader'', ''mm'', ''pid'', ''real_parent'',
         ''sibling'', ''tasks'', ''tgid'', ''thread_group'']),
      (VmAreaStruct, [''vm_end'', ''vm_file'', ''vm_flags'', ''vm_next'', ''vm_start'', ''vm_pgoff''])]"

record linux_fast_symbols =
  per_cpu_offset :: virtual_address
  current_task :: "u64 option"
  init_task :: virtual_address
  linux_banner :: virtual_address

record 'm linux_profile =
  lp_syms :: 'm
  lp_fast_syms :: linux_fast_symbols
  lp_layouts :: layouts

definition linux_profile_new :: "'m map_get \<Rightarrow> 'm \<Rightarrow> 'm linux_profile vm_result" where
  "linux_profile_new map_get syms =
     and_then (require_module map_get syms ''System.map'') (\<lambda>symbols.
     and_then (require_address symbols ''__per_cpu_offset'') (\<lambda>per_cpu.
     let task = get_address symbols ''current_task'' in
     and_then (require_address symbols ''init_task'') (\<lambda>init.
     and_then (require_address symbols ''linux_banner'') (\<lambda>banner.
     and_then (case require_module map_get syms ''vmlinux'' of
         Err e \<Rightarrow> require_module map_get syms ''module.ko''
       | r \<Rightarrow> r) (\<lambda>types.
     Ok \<lparr>lp_syms = syms,
         lp_fast_syms = \<lparr>per_cpu_offset = per_cpu, current_task = task, init_task = init, linux_banner = banner\<rparr>,
         lp_layouts = layouts_new linux_structs types\<rparr>)))))"

record ('r, 's, 'o, 'm) linux =
  lx_backend :: "('r, 's, 'o) backend"
  lx_symbols_loader :: symbol_loader
  lx_profile :: "'m linux_profile"
  lx_kpgd :: physical_address
  lx_kaslr :: i64

section \<open>Construction\<close>

definition str_bytes :: "string \<Rightarrow> u8 list" where
  "str_bytes s = map of_char s"

definition get_banner_addr :: "('r, 's, 'o) backend \<Rightarrow> physical_address \<Rightarrow> virtual_address option memory_access_result" where
  "get_banner_addr backend mmu_addr = be_find_in_kernel_memory backend mmu_addr (str_bytes ''Linux version '')"

text \<open>A panic is kept; other failures make the check say no.\<close>

definition linux_quick_check :: "('r, 's, 'o) backend \<Rightarrow> (('m, 'l) os_builder option, 'e) result" where
  "linux_quick_check backend =
     (case be_find_kernel_pgd backend True [] of
        Err e \<Rightarrow> Ok None
      | Panic \<Rightarrow> Panic
      | Ok kpgd \<Rightarrow>
          (case get_banner_addr backend kpgd of
             Err e \<Rightarrow> Ok None
           | Panic \<Rightarrow> Panic
           | Ok kaslr \<Rightarrow> Ok (map_option (\<lambda>kaslr. with_kaslr kaslr (with_kpgd kpgd os_builder_new)) kaslr)))"

text \<open>\<open>default_loader\<close> is the loader made when the builder has none, \<open>default_syms\<close> the empty index of modules.\<close>

definition linux_build ::
  "'m map_get \<Rightarrow> 'm \<Rightarrow> symbol_loader vm_result \<Rightarrow> ('r, 's, 'o) backend \<Rightarrow> ('m, symbol_loader) os_builder \<Rightarrow>
   ('r, 's, 'o, 'm) linux vm_result"
where
  "linux_build map_get default_syms default_loader backend builder =
     and_then (case ob_kpgd builder of
         Some kpgd \<Rightarrow> Ok kpgd
       | None \<Rightarrow> context_res DynVm ''could not find kernel PGD'' (be_find_kernel_pgd backend True [])) (\<lambda>kpgd.
     and_then (case ob_kaslr builder of
         Some kaslr \<Rightarrow> Ok kaslr
       | None \<Rightarrow>
           and_then (context_res DynMemory ''could not find banner address'' (get_banner_addr backend kpgd))
             (context_opt ''could not find banner address'')) (\<lambda>banner_addr.
     let (banner, r) = read_virtual_memory banner_addr (replicate 0x1000 0) (be_read_virtual_memory backend kpgd) in
     and_then (map_err vm_of_translation r) (\<lambda>u.
     and_then (case memchr_zero banner of Some i \<Rightarrow> Ok () | None \<Rightarrow> Panic) (\<lambda>u.
     and_then (case ob_loader builder of Some loader \<Rightarrow> Ok loader | None \<Rightarrow> default_loader) (\<lambda>loader.
     let symbols = (case ob_symbols builder of Some s \<Rightarrow> s | None \<Rightarrow> default_syms) in
     and_then (linux_profile_new map_get symbols) (\<lambda>profile.
       Ok \<lparr>lx_backend = backend, lx_symbols_loader = loader, lx_profile = profile, lx_kpgd = kpgd,
           lx_kaslr = banner_addr - linux_banner (lp_fast_syms profile)\<rparr>))))))"

definition linux_create ::
  "'m map_get \<Rightarrow> 'm \<Rightarrow> symbol_loader vm_result \<Rightarrow> ('r, 's, 'o) backend \<Rightarrow> 'm \<Rightarrow> ('r, 's, 'o, 'm) linux vm_result"
where
  "linux_create map_get default_syms default_loader backend symbols =
     linux_build map_get default_syms default_loader backend (with_symbols symbols os_builder_new)"

section \<open>Reading kernel memory\<close>

definition linux_read_virtual_memory :: "('r, 's, 'o, 'm) linux \<Rightarrow> physical_address \<Rightarrow> os_read" where
  "linux_read_virtual_memory self mmu_addr addr bf =
     (let (bf', r) = read_virtual_memory addr bf (be_read_virtual_memory (lx_backend self) mmu_addr)
      in Some (bf', map_err vm_of_translation r))"

definition linux_try_read_virtual_memory :: "('r, 's, 'o, 'm) linux \<Rightarrow> physical_address \<Rightarrow> os_read" where
  "linux_try_read_virtual_memory self mmu_addr addr bf =
     (let (bf', r) = try_read_virtual_memory addr bf (be_read_virtual_memory (lx_backend self) mmu_addr)
      in Some (bf', map_err vm_of_mem r))"

definition linux_kernel_read :: "('r, 's, 'o, 'm) linux \<Rightarrow> os_read" where
  "linux_kernel_read self = linux_read_virtual_memory self (lx_kpgd self)"

definition linux_layouts :: "('r, 's, 'o, 'm) linux \<Rightarrow> layouts" where
  "linux_layouts self = lp_layouts (lx_profile self)"

definition linux_syms :: "('r, 's, 'o, 'm) linux \<Rightarrow> linux_fast_symbols" where
  "linux_syms self = lp_fast_syms (lx_profile self)"

text \<open>The field of a structure of the kernel, its value, and a pointer in it.\<close>

abbreviation lx_field :: "('r, 's, 'o, 'm) linux \<Rightarrow> kstruct \<Rightarrow> string \<Rightarrow> virtual_address \<Rightarrow> virtual_address outcome" where
  "lx_field self \<equiv> ptr_field (linux_layouts self)"

abbreviation lx_read :: "('r, 's, 'o, 'm) linux \<Rightarrow> nat \<Rightarrow> (u8 list \<Rightarrow> 'a) \<Rightarrow> kstruct \<Rightarrow> string \<Rightarrow> virtual_address \<Rightarrow> 'a outcome" where
  "lx_read self n decode \<equiv> read_field (linux_kernel_read self) n decode (linux_layouts self)"

abbreviation lx_ptr :: "('r, 's, 'o, 'm) linux \<Rightarrow> kstruct \<Rightarrow> string \<Rightarrow> virtual_address \<Rightarrow> virtual_address outcome" where
  "lx_ptr self \<equiv> read_pointer_field (linux_kernel_read self) (linux_layouts self)"

definition linux_read_kernel_value :: "('r, 's, 'o, 'm) linux \<Rightarrow> nat \<Rightarrow> (u8 list \<Rightarrow> 'a) \<Rightarrow> virtual_address \<Rightarrow> 'a outcome" where
  "linux_read_kernel_value self n decode addr = read_value (linux_read_virtual_memory self (lx_kpgd self)) n decode addr"

definition per_cpu :: "('r, 's, 'o, 'm) linux \<Rightarrow> nat \<Rightarrow> virtual_address outcome" where
  "per_cpu self vcpu =
     out_then (Some (and_then (va_add_i64 (per_cpu_offset (linux_syms self)) (lx_kaslr self)) (\<lambda>base.
       and_then (mul_chk 8 (of_nat vcpu)) (\<lambda>n. va_add base n)))) (linux_read_kernel_value self 8 dec_u64)"

definition linux_list ::
  "('r, 's, 'o, 'm) linux \<Rightarrow> kstruct \<Rightarrow> string \<Rightarrow> virtual_address \<Rightarrow> virtual_address trace"
where
  "linux_list self s link head =
     iterate_list (lx_ptr self ListHead ''next'') (field_offset (linux_layouts self) s link) head"

section \<open>Names of files\<close>

definition read_file_name_into :: "('r, 's, 'o, 'm) linux \<Rightarrow> virtual_address \<Rightarrow> u8 list \<Rightarrow> u8 list outcome" where
  "read_file_name_into self dentry bf =
     out_then (lx_field self Dentry ''d_name'' dentry) (\<lambda>qstr.
     out_then (lx_read self 8 dec_u64 Qstr ''name'' qstr) (\<lambda>name.
     let slash = bf \<noteq> [] \<and> last bf \<noteq> 0x2f;
         start = (if slash then bf @ [0x2f] else bf)
     in out_then (read_bytes_at (linux_kernel_read self) name (if slash then 255 else 256)) (\<lambda>bytes.
          case memchr_zero bytes of
            Some i \<Rightarrow> Some (Ok (start @ take i bytes))
          | None \<Rightarrow> Some Panic)))"

partial_function (option) build_path :: "('r, 's, 'o, 'm) linux \<Rightarrow> virtual_address \<Rightarrow> u8 list \<Rightarrow> u8 list outcome" where
  "build_path self dentry bf =
     out_then (lx_ptr self Dentry ''d_parent'' dentry) (\<lambda>parent.
     out_then (if parent \<noteq> dentry then build_path self parent bf else Some (Ok bf)) (\<lambda>bf.
       read_file_name_into self dentry bf))"

definition read_file_name :: "('r, 's, 'o, 'm) linux \<Rightarrow> virtual_address \<Rightarrow> string outcome" where
  "read_file_name self path =
     out_then (lx_ptr self Path ''dentry'' path) (\<lambda>dentry.
     out_then (read_file_name_into self dentry []) (\<lambda>bf. Some (string_from_utf8 bf)))"

definition read_file_path :: "('r, 's, 'o, 'm) linux \<Rightarrow> virtual_address \<Rightarrow> string outcome" where
  "read_file_path self path =
     out_then (lx_ptr self Path ''dentry'' path) (\<lambda>dentry.
     out_then (build_path self dentry []) (\<lambda>bf. Some (string_from_utf8 bf)))"

section \<open>Processes\<close>

definition process_mm :: "('r, 's, 'o, 'm) linux \<Rightarrow> process \<Rightarrow> virtual_address option outcome" where
  "process_mm self proc =
     out_then (lx_ptr self TaskStruct ''mm'' proc) (\<lambda>mm.
     out_then (if ptr_is_null mm then lx_ptr self TaskStruct ''active_mm'' proc else Some (Ok mm)) (\<lambda>mm.
       map_non_null (\<lambda>mm. Some (Ok mm)) mm))"

definition linux_init_process :: "('r, 's, 'o, 'm) linux \<Rightarrow> process outcome" where
  "linux_init_process self = Some (va_add_i64 (init_task (linux_syms self)) (lx_kaslr self))"

definition linux_for_each_process :: "('r, 's, 'o, 'm) linux \<Rightarrow> process trace" where
  "linux_for_each_process self =
     trace_then (out_then (linux_init_process self) (lx_field self TaskStruct ''tasks'')) (linux_list self TaskStruct ''tasks'')"

definition linux_process_for_each_child :: "('r, 's, 'o, 'm) linux \<Rightarrow> process \<Rightarrow> process trace" where
  "linux_process_for_each_child self proc =
     trace_then (lx_field self TaskStruct ''children'' proc) (linux_list self TaskStruct ''sibling'')"

definition linux_process_for_each_thread :: "('r, 's, 'o, 'm) linux \<Rightarrow> process \<Rightarrow> thread trace" where
  "linux_process_for_each_thread self proc =
     trace_then (lx_field self TaskStruct ''thread_group'' proc) (linux_list self TaskStruct ''thread_group'')"

definition linux_process_is_kernel :: "('r, 's, 'o, 'm) linux \<Rightarrow> process \<Rightarrow> bool outcome" where
  "linux_process_is_kernel self proc =
     out_map (\<lambda>flags. flags AND 0x200000 \<noteq> 0) (lx_read self 4 dec_u32 TaskStruct ''flags'' proc)"

definition linux_process_id :: "('r, 's, 'o, 'm) linux \<Rightarrow> process \<Rightarrow> u64 outcome" where
  "linux_process_id self proc = out_map ucast (lx_read self 4 dec_u32 TaskStruct ''tgid'' proc)"

definition linux_process_name :: "('r, 's, 'o, 'm) linux \<Rightarrow> process \<Rightarrow> string outcome" where
  "linux_process_name self proc =
     out_map (\<lambda>comm. from_utf8_lossy (until_zero comm)) (lx_read self 16 (\<lambda>bs. bs) TaskStruct ''comm'' proc)"

definition linux_process_pgd :: "('r, 's, 'o, 'm) linux \<Rightarrow> process \<Rightarrow> physical_address outcome" where
  "linux_process_pgd self proc =
     out_then (process_mm self proc) (\<lambda>mm.
       case mm of
         Some mm \<Rightarrow>
           out_then (lx_read self 8 dec_u64 MmStruct ''pgd'' mm) (\<lambda>p.
             Some (map_err vm_of_translation (be_virtual_to_physical (lx_backend self) (lx_kpgd self) p)))
       | None \<Rightarrow>
           out_then (linux_process_is_kernel self proc) (\<lambda>kernel.
             if kernel then Some (Ok (lx_kpgd self)) else Some (Err (vm_new (DynStr ''process has NULL mm'')))))"

definition linux_process_path :: "('r, 's, 'o, 'm) linux \<Rightarrow> process \<Rightarrow> string option outcome" where
  "linux_process_path self proc =
     out_then (process_mm self proc) (\<lambda>mm.
       case mm of
         Some mm \<Rightarrow>
           out_then (lx_ptr self MmStruct ''exe_file'' mm)
             (map_non_null (\<lambda>file. out_then (lx_field self File ''f_path'' file) (read_file_path self)))
       | None \<Rightarrow> Some (Ok None))"

definition linux_process_parent :: "('r, 's, 'o, 'm) linux \<Rightarrow> process \<Rightarrow> process outcome" where
  "linux_process_parent self proc = lx_ptr self TaskStruct ''real_parent'' proc"

definition linux_process_parent_id :: "('r, 's, 'o, 'm) linux \<Rightarrow> process \<Rightarrow> u64 outcome" where
  "linux_process_parent_id self proc = out_then (linux_process_parent self proc) (linux_process_id self)"

section \<open>Threads\<close>

definition linux_thread_process :: "('r, 's, 'o, 'm) linux \<Rightarrow> thread \<Rightarrow> process outcome" where
  "linux_thread_process self thread = lx_ptr self TaskStruct ''group_leader'' thread"

definition linux_thread_id :: "('r, 's, 'o, 'm) linux \<Rightarrow> thread \<Rightarrow> u64 outcome" where
  "linux_thread_id self thread = out_map ucast (lx_read self 4 dec_u32 TaskStruct ''pid'' thread)"

definition linux_thread_name :: "('r, 's, 'o, 'm) linux \<Rightarrow> thread \<Rightarrow> string option outcome" where
  "linux_thread_name self thread = out_map Some (linux_process_name self thread)"

text \<open>\<open>into_r\<close>, \<open>into_s\<close> and \<open>into_o\<close> make runtime registers of the registers of the backend.\<close>

definition linux_current_thread ::
  "('r \<Rightarrow> runtime_registers) \<Rightarrow> ('s \<Rightarrow> runtime_special) \<Rightarrow> ('o \<Rightarrow> runtime_other) \<Rightarrow> ('r, 's, 'o, 'm) linux \<Rightarrow> nat \<Rightarrow>
   thread outcome"
where
  "linux_current_thread into_r into_s into_o self vcpu =
     (case current_task (linux_syms self) of
        Some task \<Rightarrow>
          out_then (per_cpu self vcpu) (\<lambda>base.
          out_then (Some (va_add base task)) (linux_read_kernel_value self 8 dec_u64))
      | None \<Rightarrow>
          (let cpus = be_vcpus (lx_backend self);
               search = (\<lambda>vcpu_pgd.
                 out_then (find_in_trace (\<lambda>proc. out_map (\<lambda>p. p = vcpu_pgd) (linux_process_pgd self proc)) (linux_for_each_process self))
                   (\<lambda>t. Some (ok_or (vm_new (DynStr ''cannot find current thread'')) t)))
           in out_then (Some (map_err vm_of_vcpu (pgd cpus vcpu))) (\<lambda>vcpu_pgd.
              if into_runtime (be_arch (lx_backend self)) = Aarch64 then
                out_then (Some (map_err vm_of_vcpu (instruction_pointer cpus vcpu))) (\<lambda>ip.
                  if is_kernel ip then
                    Some (map_err vm_of_vcpu (map_ok arm_sp (registers (assume_aarch64 into_r into_s into_o cpus) vcpu)))
                  else search vcpu_pgd)
              else search vcpu_pgd)))"

section \<open>Memory areas\<close>

definition vma_offset :: "('r, 's, 'o, 'm) linux \<Rightarrow> vma \<Rightarrow> u64 outcome" where
  "vma_offset self v = out_then (lx_read self 8 dec_u64 VmAreaStruct ''vm_pgoff'' v) (\<lambda>off. Some (mul_chk off 4096))"

definition linux_vma_path :: "('r, 's, 'o, 'm) linux \<Rightarrow> vma \<Rightarrow> string option outcome" where
  "linux_vma_path self v =
     out_then (lx_ptr self VmAreaStruct ''vm_file'' v)
       (map_non_null (\<lambda>file. out_then (lx_field self File ''f_path'' file) (read_file_path self)))"

definition linux_vma_start :: "('r, 's, 'o, 'm) linux \<Rightarrow> vma \<Rightarrow> virtual_address outcome" where
  "linux_vma_start self v = lx_read self 8 dec_u64 VmAreaStruct ''vm_start'' v"

definition linux_vma_end :: "('r, 's, 'o, 'm) linux \<Rightarrow> vma \<Rightarrow> virtual_address outcome" where
  "linux_vma_end self v = lx_read self 8 dec_u64 VmAreaStruct ''vm_end'' v"

definition linux_vma_flags :: "('r, 's, 'o, 'm) linux \<Rightarrow> vma \<Rightarrow> vma_flags outcome" where
  "linux_vma_flags self v = lx_read self 8 dec_u64 VmAreaStruct ''vm_flags'' v"

definition linux_process_for_each_vma :: "('r, 's, 'o, 'm) linux \<Rightarrow> process \<Rightarrow> vma trace" where
  "linux_process_for_each_vma self proc =
     trace_then (process_mm self proc) (\<lambda>mm.
       case mm of
         Some mm \<Rightarrow> chain_trace ptr_is_null (lx_ptr self VmAreaStruct ''vm_next'') (lx_ptr self MmStruct ''mmap'' mm)
       | None \<Rightarrow> Stop (Ok ()))"

section \<open>Modules\<close>

text \<open>A module is the first area of a file: one that has a path and starts at offset 0.\<close>

definition linux_is_module :: "('r, 's, 'o, 'm) linux \<Rightarrow> vma \<Rightarrow> bool outcome" where
  "linux_is_module self v =
     out_then (vma_offset self v) (\<lambda>off.
       if off = 0 then out_map (\<lambda>p. p \<noteq> None) (linux_vma_path self v) else Some (Ok False))"

definition linux_process_for_each_module :: "('r, 's, 'o, 'm) linux \<Rightarrow> process \<Rightarrow> module trace" where
  "linux_process_for_each_module self proc = filter_trace (linux_is_module self) (linux_process_for_each_vma self proc)"

text \<open>The end of the last of the areas that follow a module and are of the same file.\<close>

partial_function (option) linux_module_end ::
  "('r, 's, 'o, 'm) linux \<Rightarrow> virtual_address \<Rightarrow> vma \<Rightarrow> virtual_address outcome"
where
  "linux_module_end self file current =
     out_then (lx_ptr self VmAreaStruct ''vm_next'' current) (\<lambda>nx.
       if ptr_is_null nx then lx_read self 8 dec_u64 VmAreaStruct ''vm_end'' current
       else out_then (lx_ptr self VmAreaStruct ''vm_file'' nx) (\<lambda>f.
         if f \<noteq> file then lx_read self 8 dec_u64 VmAreaStruct ''vm_end'' current
         else linux_module_end self file nx))"

definition linux_module_span :: "('r, 's, 'o, 'm) linux \<Rightarrow> module \<Rightarrow> process \<Rightarrow> (virtual_address \<times> virtual_address) outcome" where
  "linux_module_span self m proc =
     out_then (lx_ptr self VmAreaStruct ''vm_file'' m) (\<lambda>file.
     out_then (lx_read self 8 dec_u64 VmAreaStruct ''vm_start'' m) (\<lambda>start.
       out_map (\<lambda>e. (start, e)) (linux_module_end self file m)))"

definition linux_module_name :: "('r, 's, 'o, 'm) linux \<Rightarrow> module \<Rightarrow> process \<Rightarrow> string outcome" where
  "linux_module_name self m proc =
     out_then (lx_ptr self VmAreaStruct ''vm_file'' m) (\<lambda>file.
     out_then (lx_field self File ''f_path'' file) (read_file_name self))"

definition linux_module_path :: "('r, 's, 'o, 'm) linux \<Rightarrow> module \<Rightarrow> process \<Rightarrow> string outcome" where
  "linux_module_path self m proc =
     out_then (lx_ptr self VmAreaStruct ''vm_file'' m) (\<lambda>file.
     out_then (lx_field self File ''f_path'' file) (read_file_path self))"

text \<open>The index of modules is changed behind a shared reference: the new index is returned too.\<close>

definition linux_module_symbols ::
  "'m try_insert \<Rightarrow> ('r, 's, 'o, 'm) linux \<Rightarrow> process \<Rightarrow> module \<Rightarrow> ('m \<times> module_symbols option vm_result) option"
where
  "linux_module_symbols try_insert self proc m =
     (let index = lp_syms (lx_profile self) in
      map_option (\<lambda>name.
        case name of
          Err e \<Rightarrow> (index, Err e)
        | Panic \<Rightarrow> (index, Panic)
        | Ok name \<Rightarrow>
            load_module try_insert index name (\<lambda>name.
              lx_symbols_loader self name
                (case into_runtime (be_arch (lx_backend self)) of X86_64 \<Rightarrow> ''x86_64'' | Aarch64 \<Rightarrow> ''aarch64'')))
        (linux_module_name self m proc))"

section \<open>The implementation of the trait\<close>

definition linux_vcpus :: "('r, 's, 'o, 'm) linux \<Rightarrow> ('r, 's, 'o) vcpus" where
  "linux_vcpus self =
     (let cpus = be_vcpus (lx_backend self) in
      \<lparr>vcpus_count = vcpus_count cpus, registers = registers cpus, special_registers = special_registers cpus,
       other_registers = other_registers cpus,
       register_by_name = arch_register_by_name (be_arch (lx_backend self))
         \<lparr>vcpus_count = vcpus_count cpus, registers = registers cpus, special_registers = special_registers cpus,
          other_registers = other_registers cpus\<rparr>,
       instruction_pointer = instruction_pointer cpus, stack_pointer = stack_pointer cpus,
       base_pointer = base_pointer cpus, pgd = pgd cpus, kernel_per_cpu = kernel_per_cpu cpus\<rparr>)"

text \<open>\<open>callstack\<close> is the unwinder, \<open>symbols\<close> what \<open>module_symbols\<close> returns.\<close>

definition linux_os ::
  "('r \<Rightarrow> runtime_registers) \<Rightarrow> ('s \<Rightarrow> runtime_special) \<Rightarrow> ('o \<Rightarrow> runtime_other) \<Rightarrow> 'm try_insert \<Rightarrow>
   (process \<Rightarrow> virtual_address \<Rightarrow> virtual_address \<Rightarrow> virtual_address option \<Rightarrow> stack_frame trace) \<Rightarrow>
   ('r, 's, 'o, 'm) linux \<Rightarrow> ('r, 's, 'o) os"
where
  "linux_os into_r into_s into_o try_insert callstack self =
     \<lparr>os_vcpus = linux_vcpus self,
      os_read_virtual_memory = linux_read_virtual_memory self,
      os_try_read_virtual_memory = linux_try_read_virtual_memory self,
      os_read_process_memory = default_read_process_memory (linux_read_virtual_memory self),
      os_try_read_process_memory = default_try_read_process_memory (linux_try_read_virtual_memory self),
      kernel_pgd = lx_kpgd self,
      for_each_kernel_module = Stop (Ok ()),
      init_process = linux_init_process self,
      current_thread = linux_current_thread into_r into_s into_o self,
      process_is_kernel = linux_process_is_kernel self,
      process_id = linux_process_id self,
      process_name = linux_process_name self,
      process_pgd = linux_process_pgd self,
      process_path = linux_process_path self,
      process_parent = linux_process_parent self,
      process_parent_id = linux_process_parent_id self,
      process_for_each_child = linux_process_for_each_child self,
      process_for_each_thread = linux_process_for_each_thread self,
      process_for_each_module = linux_process_for_each_module self,
      for_each_process = linux_for_each_process self,
      process_for_each_vma = linux_process_for_each_vma self,
      process_find_vma_by_address =
        default_find_vma_by_address (linux_vma_start self) (linux_vma_end self) (linux_process_for_each_vma self),
      process_callstack_with_regs = callstack,
      thread_process = linux_thread_process self,
      thread_id = linux_thread_id self,
      thread_name = linux_thread_name self,
      vma_path = linux_vma_path self,
      vma_start = linux_vma_start self,
      vma_end = linux_vma_end self,
      vma_flags_of = linux_vma_flags self,
      module_span = linux_module_span self,
      os_module_name = linux_module_name self,
      os_module_path = linux_module_path self,
      module_symbols_of = (\<lambda>proc m. map_option snd (linux_module_symbols try_insert self proc m))\<rparr>"

end
