(* ===== verification/Vm_Walk.thy ===== *)
theory Vm_Walk
  imports Vm_Os
begin

text \<open>
  The loops over the frames of a call stack (\<^verbatim>\<open>windows/callstack.rs\<close> and \<^verbatim>\<open>linux/callstack.rs\<close>). One iteration
  fails before the callback, or passes a frame to the callback and then ends, or passes a frame and goes on
  with the next state; there is no next state when the walk is over.
\<close>

datatype 's walk_step =
    LastFrame (last_frame: stack_frame) (walk_end: "unit vm_result")
  | NextFrame (next_frame: stack_frame) (walk_next: "'s option outcome")

primcorec walk_frames :: "('s \<Rightarrow> 's walk_step outcome) \<Rightarrow> 's option outcome \<Rightarrow> stack_frame trace" where
  "walk_frames stp st =
     (case answer_of st of
        Hangs \<Rightarrow> Later spin
      | Ends r \<Rightarrow> Stop r
      | Got s \<Rightarrow>
          (case s of
             None \<Rightarrow> Stop (Ok ())
           | Some s \<Rightarrow>
               (case answer_of (stp s) of
                  Hangs \<Rightarrow> Later spin
                | Ends r \<Rightarrow> Stop r
                | Got step \<Rightarrow>
                    (case step of
                       LastFrame frame r \<Rightarrow> Yield frame (Stop r)
                     | NextFrame frame st \<Rightarrow> Yield frame (walk_frames stp st)))))"

lemma walk_frames_simps [simp]:
  "walk_frames stp (Some (Err e)) = Stop (Err e)"
  "walk_frames stp (Some Panic) = Stop Panic"
  "walk_frames stp (Some (Ok None)) = Stop (Ok ())"
  by (subst walk_frames.code, simp)+

lemma walk_frames_step:
  "stp s = Some (Ok (LastFrame frame r)) \<Longrightarrow> walk_frames stp (Some (Ok (Some s))) = Yield frame (Stop r)"
  "stp s = Some (Ok (NextFrame frame st)) \<Longrightarrow> walk_frames stp (Some (Ok (Some s))) = Yield frame (walk_frames stp st)"
  "stp s = Some (Err e) \<Longrightarrow> walk_frames stp (Some (Ok (Some s))) = Stop (Err e)"
  by (subst walk_frames.code, simp)+

section \<open>Walking a known stack\<close>

text \<open>
  The states of a stack, from the innermost to the outermost one, with the frames that are passed for them. A walk
  that takes these steps passes exactly these frames.
\<close>

inductive stack_walk :: "('s \<Rightarrow> stack_frame \<Rightarrow> 's option \<Rightarrow> bool) \<Rightarrow> 's \<Rightarrow> stack_frame list \<Rightarrow> bool" for nxt where
  outermost: "nxt s frame None \<Longrightarrow> stack_walk nxt s [frame]"
| caller: "nxt s frame (Some s') \<Longrightarrow> stack_walk nxt s' frames \<Longrightarrow> stack_walk nxt s (frame # frames)"

lemma stack_walk_mono: "stack_walk P s frames \<Longrightarrow> (\<And>s f s'. P s f s' \<Longrightarrow> Q s f s') \<Longrightarrow> stack_walk Q s frames"
  by (induction rule: stack_walk.induct) (auto intro: stack_walk.intros)

locale frame_walker =
  fixes stp :: "'s \<Rightarrow> 's walk_step outcome"
    and nxt :: "'a \<Rightarrow> stack_frame \<Rightarrow> 'a option \<Rightarrow> bool"
    and rel :: "'a \<Rightarrow> 's \<Rightarrow> bool"
  assumes step_refines: "nxt a frame a' \<Longrightarrow> rel a s \<Longrightarrow>
    \<exists>st. stp s = Some (Ok (NextFrame frame (Some (Ok st)))) \<and>
      (case a' of None \<Rightarrow> st = None | Some a' \<Rightarrow> \<exists>s'. st = Some s' \<and> rel a' s')"
begin

lemma walk_refines: "stack_walk nxt a frames \<Longrightarrow> rel a s \<Longrightarrow> trace_run (walk_frames stp (Some (Ok (Some s)))) frames (Ok ())"
proof (induction arbitrary: s rule: stack_walk.induct)
  case (outermost a frame)
  then show ?case using step_refines [OF outermost.hyps outermost.prems] by (auto simp: walk_frames_step(2))
next
  case (caller a frame a' frames)
  from step_refines [OF caller.hyps(1) caller.prems] obtain s' where
    "stp s = Some (Ok (NextFrame frame (Some (Ok (Some s')))))" "rel a' s'" by auto
  then show ?case using caller.IH by (simp add: walk_frames_step(2))
qed

lemma walk_collects: "stack_walk nxt a frames \<Longrightarrow> rel a s \<Longrightarrow> collect (walk_frames stp (Some (Ok (Some s)))) = Some (Ok frames)"
  using walk_refines collect_Ok_iff by blast

end

section \<open>The module of an address\<close>

text \<open>Modules that do not overlap, in the order of their addresses: the binary search over the starts finds the one of an address.\<close>

lemma intervals_sorted:
  assumes "sorted_wrt (\<lambda>a b. e a \<le> st b) xs" "\<forall>x \<in> set xs. st x < (e x :: u64)"
  shows "sorted (map st xs)"
  unfolding sorted_iff_nth_mono_less
proof (intro allI impI)
  fix i j
  assume "i < j" "j < length (map st xs)"
  then have "st (xs ! i) < e (xs ! i)" "e (xs ! i) \<le> st (xs ! j)" "i < length xs" "j < length xs"
    using assms by (auto simp: sorted_wrt_iff_nth_less)
  then show "map st xs ! i \<le> map st xs ! j" by simp
qed

lemma interval_search:
  assumes "sorted_wrt (\<lambda>a b. e a \<le> st b) xs" "\<forall>x \<in> set xs. st x < e x"
    and "i < length xs" "st (xs ! i) \<le> a" "a < (e (xs ! i) :: u64)"
  shows "binary_search_by_key xs a st = Found i \<or> binary_search_by_key xs a st = Insert (Suc i)"
proof -
  have ord: "e (xs ! j) \<le> st (xs ! k)" "st (xs ! j) < e (xs ! j)" if "j < k" "k < length xs" for j k
    using assms(1,2) that by (auto simp: sorted_wrt_iff_nth_less)
  note sorted = intervals_sorted [OF assms(1,2)]
  show ?thesis
  proof (cases "binary_search_by_key xs a st")
    case (Found j)
    then have j: "j < length xs" "st (xs ! j) = a" using binary_search_Found by auto
    have "j = i"
      using ord [of i j] ord [of j i] j assms(2-5) nth_mem [OF j(1)] by (cases i j rule: linorder_cases) auto
    then show ?thesis using Found by simp
  next
    case (Insert j)
    note ins = binary_search_Insert [OF sorted Insert]
    have "i < j"
    proof (rule ccontr)
      assume "\<not> i < j"
      then have "a < st (xs ! i)" using ins assms(3) by simp
      then show False using assms(4) by simp
    qed
    moreover have "\<not> Suc i < j"
    proof
      assume "Suc i < j"
      then have "st (xs ! Suc i) < a" "Suc i < length xs" using ins by auto
      then show False using ord(1) [of i "Suc i"] assms(5) by simp
    qed
    ultimately have "j = Suc i" by simp
    then show ?thesis using Insert by simp
  qed
qed

end
