(* ===== verification/Vm_Linux_Stack.thy ===== *)
theory Vm_Linux_Stack
  imports Vm_Linux Vm_Walk
begin

text \<open>
  Walking the call stack of a Linux process (\<^verbatim>\<open>vminer/src/os/linux/callstack.rs\<close>). The crate \<open>gimli\<close> parses
  \<^verbatim>\<open>.eh_frame_hdr\<close> and \<^verbatim>\<open>.eh_frame\<close>: the record \<open>eh_lib\<close> has the methods that the code calls, on the bytes from the start
  of the section. The cache of common information entries only spares calls of \<open>gimli\<close> and is left out. The
  frames are a trace; its state is the unwind data found so far, the frame and the base pointer.
\<close>

section \<open>Modules and the library\<close>

record linux_module =
  lm_start :: virtual_address
  lm_end :: virtual_address
  lm_module :: module

definition lm_contains :: "linux_module \<Rightarrow> virtual_address \<Rightarrow> bool" where
  "lm_contains self addr \<longleftrightarrow> lm_start self \<le> addr \<and> addr < lm_end self"

record base_addresses =
  ba_eh_frame_hdr :: u64
  ba_eh_frame :: "u64 option"

record eh_data =
  ehd_bases :: base_addresses
  ehd_endian :: runtime_endian
  ehd_segment :: "u8 list"
  ehd_eh_frame :: nat

text \<open>The slice \<open>&segment[eh_frame..]\<close>.\<close>

definition eh_frame_of :: "eh_data \<Rightarrow> (u8 list, 'e) result" where
  "eh_frame_of self =
     (if ehd_eh_frame self \<le> length (ehd_segment self) then Ok (drop (ehd_eh_frame self) (ehd_segment self)) else Panic)"

type_synonym dwarf_register = u16

datatype eh_pointer = Direct u64 | Indirect u64
datatype cfa_rule = RegisterAndOffset dwarf_register i64 | CfaExpression
datatype register_rule =
    RuleUndefined
  | RuleSameValue
  | RuleOffset i64
  | RuleValOffset i64
  | RuleRegister dwarf_register
  | RuleOther

record unwind_row =
  row_cfa :: cfa_rule
  row_register :: "dwarf_register \<Rightarrow> register_rule"

record fde =
  fde_initial_address :: u64
  fde_len :: u64
  fde_row :: "u64 \<Rightarrow> unwind_row option"

text \<open>
  \<open>eh_frame_hdr_ptr\<close> parses a header and gives its pointer to the frame section; \<open>fde_for_address\<close> searches the
  section. Both may fail.
\<close>

record eh_lib =
  eh_frame_hdr_ptr :: "u8 list \<Rightarrow> runtime_endian \<Rightarrow> base_addresses \<Rightarrow> eh_pointer option"
  fde_for_address :: "u8 list \<Rightarrow> runtime_endian \<Rightarrow> base_addresses \<Rightarrow> u64 \<Rightarrow> fde option"

section \<open>The context\<close>

record ('r, 's, 'o, 'm) linux_context =
  lc_linux :: "('r, 's, 'o, 'm) linux"
  lc_proc :: process
  lc_pgd :: physical_address
  lc_modules :: "linux_module list"

type_synonym eh_cells = "module \<Rightarrow> eh_data option option"

definition push_linux_module ::
  "('r, 's, 'o, 'm) linux \<Rightarrow> process \<Rightarrow> (module, linux_module list) callback"
where
  "push_linux_module self proc m modules =
     map_option (\<lambda>r.
       case r of
         Ok (start, e) \<Rightarrow> (modules @ [\<lparr>lm_start = start, lm_end = e, lm_module = m\<rparr>], Ok Continue)
       | Err e \<Rightarrow> (modules, Err e)
       | Panic \<Rightarrow> (modules, Panic)) (linux_module_span self m proc)"

definition linux_context_new ::
  "('r, 's, 'o, 'm) linux \<Rightarrow> process \<Rightarrow> (('r, 's, 'o, 'm) linux_context \<times> eh_cells) outcome"
where
  "linux_context_new self proc =
     out_then (linux_process_pgd self proc) (\<lambda>pgd.
       Option.bind (for_each (push_linux_module self proc) (linux_process_for_each_module self proc) []) (\<lambda>(modules, r).
         out_then (Some r) (\<lambda>u.
           Some (Ok (\<lparr>lc_linux = self, lc_proc = proc, lc_pgd = pgd, lc_modules = modules\<rparr>,
             \<lambda>m. if m \<in> lm_module ` set modules then Some None else None)))))"

definition ctx_read_value :: "('r, 's, 'o, 'm) linux_context \<Rightarrow> virtual_address \<Rightarrow> u64 outcome" where
  "ctx_read_value self addr = read_value (linux_read_virtual_memory (lc_linux self) (lc_pgd self)) 8 dec_u64 addr"

definition lm_find :: "linux_module list \<Rightarrow> virtual_address \<Rightarrow> linux_module option" where
  "lm_find modules addr =
     (case binary_search_by_key modules addr lm_start of
        Found i \<Rightarrow> Some (modules ! i)
      | Insert i \<Rightarrow>
          if i = 0 then None
          else if lm_contains (modules ! (i - 1)) addr then Some (modules ! (i - 1)) else None)"

definition find_linux_module :: "('r, 's, 'o, 'm) linux_context \<Rightarrow> virtual_address \<Rightarrow> linux_module option" where
  "find_linux_module self addr = lm_find (lc_modules self) addr"

section \<open>Finding the frame section\<close>

text \<open>\<open>memmem::find_iter\<close> for one byte: the positions of the byte.\<close>

definition positions_of :: "u8 \<Rightarrow> u8 list \<Rightarrow> nat list" where
  "positions_of b bs = filter (\<lambda>i. bs ! i = b) [0..<length bs]"

text \<open>One candidate: the data, or \<open>None\<close> when the loop goes on.\<close>

definition try_eh_frame_hdr ::
  "eh_lib \<Rightarrow> ('r, 's, 'o, 'm) linux_context \<Rightarrow> linux_module \<Rightarrow> virtual_address \<Rightarrow> runtime_endian \<Rightarrow> u8 list \<Rightarrow> nat \<Rightarrow>
   eh_data option outcome"
where
  "try_eh_frame_hdr lib self m ip endian vma_data i =
     out_then (Some (va_add (lm_start m) (of_nat i))) (\<lambda>eh_frame_hdr.
       let bases = \<lparr>ba_eh_frame_hdr = eh_frame_hdr, ba_eh_frame = None\<rparr> in
       out_then (case eh_frame_hdr_ptr lib (drop i vma_data) endian bases of
           None \<Rightarrow> Some (Ok None)
         | Some (Direct addr) \<Rightarrow> Some (Ok (Some addr))
         | Some (Indirect addr) \<Rightarrow> or_none (out_map Some (ctx_read_value self addr))) (\<lambda>ptr.
         case ptr of
           None \<Rightarrow> Some (Ok None)
         | Some addr \<Rightarrow>
             if \<not> lm_contains m addr then Some (Ok None)
             else
               let off = unat (va_diff addr (lm_start m)); bases = bases\<lparr>ba_eh_frame := Some addr\<rparr> in
               if length vma_data < off then Some Panic
               else if fde_for_address lib (drop off vma_data) endian bases ip = None then Some (Ok None)
               else Some (Ok (Some \<lparr>ehd_bases = bases, ehd_endian = endian, ehd_segment = vma_data, ehd_eh_frame = off\<rparr>))))"

fun first_eh_frame_hdr :: "(nat \<Rightarrow> eh_data option outcome) \<Rightarrow> nat list \<Rightarrow> eh_data outcome" where
  "first_eh_frame_hdr candidate [] = Some (Err (vm_new (DynStr ''Unable to find .eh_frame section'')))"
| "first_eh_frame_hdr candidate (i # is) =
     out_then (candidate i) (\<lambda>d. case d of Some d \<Rightarrow> Some (Ok d) | None \<Rightarrow> first_eh_frame_hdr candidate is)"

text \<open>\<open>dbg\<close> says whether debug messages are logged; the path of the module is only read for them.\<close>

definition discover_sections ::
  "bool \<Rightarrow> eh_lib \<Rightarrow> ('r, 's, 'o, 'm) linux_context \<Rightarrow> linux_module \<Rightarrow> virtual_address \<Rightarrow> eh_data outcome"
where
  "discover_sections dbg lib self m ip =
     out_then (if dbg then out_map (\<lambda>path. ()) (linux_module_path (lc_linux self) (lm_module m) (lc_proc self)) else Some (Ok ())) (\<lambda>u.
       let endian = as_runtime_endian (endianness (be_arch (lx_backend (lc_linux self))));
           len = unat (va_diff (lm_end m) (lm_start m))
       in if 2 ^ 63 \<le> len then Some Panic
          else Option.bind (linux_try_read_virtual_memory (lc_linux self) (lc_pgd self) (lm_start m) (replicate len 0)) (\<lambda>(vma_data, r).
            out_then (Some r) (\<lambda>u.
              first_eh_frame_hdr (try_eh_frame_hdr lib self m ip endian vma_data) (positions_of 1 vma_data))))"

definition linux_unwind_data ::
  "bool \<Rightarrow> eh_lib \<Rightarrow> ('r, 's, 'o, 'm) linux_context \<Rightarrow> eh_cells \<Rightarrow> linux_module \<Rightarrow> virtual_address \<Rightarrow>
   (eh_cells \<times> eh_data vm_result) option"
where
  "linux_unwind_data dbg lib self cells m ip =
     (case cells (lm_module m) of
        None \<Rightarrow> Some (cells, Err (vm_new (DynStr ''unknown file'')))
      | Some (Some data) \<Rightarrow> Some (cells, Ok data)
      | Some None \<Rightarrow>
          map_option (\<lambda>r. (case r of Ok data \<Rightarrow> cells(lm_module m \<mapsto> Some data) | _ \<Rightarrow> cells, r)) (discover_sections dbg lib self m ip))"

section \<open>Walking\<close>

record dwarf_registers =
  reg_ip :: dwarf_register
  reg_sp :: dwarf_register
  reg_bp :: "dwarf_register option"

definition dwarf_registers_of :: "architecture \<Rightarrow> dwarf_registers" where
  "dwarf_registers_of arch =
     (case arch of
        X86_64 \<Rightarrow> \<lparr>reg_ip = 16, reg_sp = 7, reg_bp = Some 6\<rparr>
      | Aarch64 \<Rightarrow> \<lparr>reg_ip = 30, reg_sp = 31, reg_bp = None\<rparr>)"

definition get_base_pointer :: "virtual_address option \<Rightarrow> virtual_address vm_result" where
  "get_base_pointer bp = ok_or (vm_new (DynStr ''missing required register rpb'')) bp"

fun show_nat :: "nat \<Rightarrow> string" where
  "show_nat n = (if n < 10 then [hex_digit n] else show_nat (n div 10) @ [hex_digit (n mod 10)])"

declare show_nat.simps [simp del]

definition unsupported_register :: "dwarf_register \<Rightarrow> string \<Rightarrow> vm_error" where
  "unsupported_register n missing =
     vm_new (DynStr (''getting '' @ missing @ '' requires unsupported register '' @ show_nat (unat n)))"

type_synonym linux_walk_state = "eh_cells \<times> stack_frame \<times> virtual_address option"

definition linux_ip_is_valid :: "('r, 's, 'o, 'm) linux \<Rightarrow> process \<Rightarrow> virtual_address \<Rightarrow> bool outcome" where
  "linux_ip_is_valid self proc ip =
     out_map (\<lambda>b. b = Some True) (or_none (out_then
       (default_find_vma_by_address (linux_vma_start self) (linux_vma_end self) (linux_process_for_each_vma self) proc ip) (\<lambda>v.
         case v of Some v \<Rightarrow> out_map (\<lambda>flags. Some (is_exec flags)) (linux_vma_flags self v) | None \<Rightarrow> Some (Ok (Some False)))))"

definition linux_handle_invalid_address ::
  "('r, 's, 'o, 'm) linux \<Rightarrow> process \<Rightarrow> stack_frame \<Rightarrow> linux_walk_state walk_step outcome"
where
  "linux_handle_invalid_address self proc frame =
     (if is_kernel (frame_ip frame) then
        Some (Ok (LastFrame frame (Err (vm_of_str ''kernel unwinding is not supported''))))
      else
        out_then (out_map (\<lambda>v. v \<noteq> None) (or_none (default_find_vma_by_address (linux_vma_start self) (linux_vma_end self)
            (linux_process_for_each_vma self) proc (frame_sp frame)))) (\<lambda>sp_is_valid.
        out_then (linux_ip_is_valid self proc (frame_ip frame)) (\<lambda>ip_is_valid.
          if sp_is_valid \<and> ip_is_valid then
            Some (Ok (LastFrame (frame\<lparr>frame_start := None, frame_size := None, frame_module := None\<rparr>)
              (Err (vm_of_str ''unwinding through JIT is unsupported''))))
          else
            Some (Err (vm_with_context (''invalid instruction pointer: '' @ hex (frame_ip frame)) (DynStr ''this is probably a bug''))))))"

text \<open>The value of a register that another one was saved in.\<close>

definition saved_in ::
  "dwarf_registers \<Rightarrow> stack_frame \<Rightarrow> virtual_address option \<Rightarrow> string \<Rightarrow> dwarf_register \<Rightarrow> virtual_address vm_result"
where
  "saved_in regs frame bp missing r =
     (if r = reg_sp regs then Ok (frame_sp frame)
      else if r = reg_ip regs then Ok (frame_ip frame)
      else if Some r = reg_bp regs then get_base_pointer bp
      else Err (unsupported_register r missing))"

definition frame_cfa :: "dwarf_registers \<Rightarrow> stack_frame \<Rightarrow> virtual_address option \<Rightarrow> unwind_row \<Rightarrow> virtual_address vm_result" where
  "frame_cfa regs frame bp row =
     (case row_cfa row of
        RegisterAndOffset r off \<Rightarrow>
          if r = reg_sp regs then va_add_i64 (frame_sp frame) off
          else if Some r = reg_bp regs then and_then (get_base_pointer bp) (\<lambda>b. va_add_i64 b off)
          else Err (unsupported_register r ''CFA'')
      | CfaExpression \<Rightarrow> Err (vm_new (DynStr ''unsupported DWARF expression'')))"

definition next_bp ::
  "('r, 's, 'o, 'm) linux_context \<Rightarrow> dwarf_registers \<Rightarrow> stack_frame \<Rightarrow> virtual_address option \<Rightarrow> unwind_row \<Rightarrow> virtual_address \<Rightarrow>
   virtual_address option outcome"
where
  "next_bp ctx regs frame bp row cfa =
     (case reg_bp regs of
        None \<Rightarrow> Some (Ok None)
      | Some bp_reg \<Rightarrow>
          (case row_register row bp_reg of
             RuleSameValue \<Rightarrow> Some (map_ok Some (get_base_pointer bp))
           | RuleOffset off \<Rightarrow> out_then (Some (va_add_i64 cfa off)) (\<lambda>a. out_map Some (ctx_read_value ctx a))
           | RuleValOffset off \<Rightarrow> Some (map_ok Some (va_add_i64 cfa off))
           | RuleRegister r \<Rightarrow> Some (map_ok Some (saved_in regs frame bp ''base pointer'' r))
           | _ \<Rightarrow> Some (Ok None)))"

text \<open>The next instruction pointer; \<open>None\<close> ends the walk.\<close>

definition next_ip ::
  "('r, 's, 'o, 'm) linux_context \<Rightarrow> dwarf_registers \<Rightarrow> stack_frame \<Rightarrow> virtual_address option \<Rightarrow> unwind_row \<Rightarrow> virtual_address \<Rightarrow>
   virtual_address option outcome"
where
  "next_ip ctx regs frame bp row cfa =
     (case row_register row (reg_ip regs) of
        RuleUndefined \<Rightarrow> Some (Ok None)
      | RuleSameValue \<Rightarrow> Some (Ok (Some (frame_ip frame)))
      | RuleOffset off \<Rightarrow> out_then (Some (va_add_i64 cfa off)) (\<lambda>a. out_map Some (ctx_read_value ctx a))
      | RuleValOffset off \<Rightarrow> Some (map_ok Some (va_add_i64 cfa off))
      | RuleRegister r \<Rightarrow> Some (map_ok Some (saved_in regs frame bp ''instruction pointer'' r))
      | RuleOther \<Rightarrow> Some (Err (vm_new (DynStr ''cannot retrieve instruction pointer''))))"

text \<open>The part of an iteration after the callback.\<close>

definition linux_next_state ::
  "('r, 's, 'o, 'm) linux_context \<Rightarrow> dwarf_registers \<Rightarrow> eh_cells \<Rightarrow> stack_frame \<Rightarrow> virtual_address option \<Rightarrow> fde \<Rightarrow>
   linux_walk_state option outcome"
where
  "linux_next_state ctx regs cells frame bp f =
     (case fde_row f (frame_ip frame) of
        None \<Rightarrow> Some Panic
      | Some row \<Rightarrow>
          out_then (Some (frame_cfa regs frame bp row)) (\<lambda>cfa.
          out_then (next_bp ctx regs frame bp row cfa) (\<lambda>bp'.
          out_then (next_ip ctx regs frame bp row cfa) (\<lambda>ip.
            Some (Ok (map_option (\<lambda>ip. (cells, frame\<lparr>frame_ip := ip, frame_sp := cfa\<rparr>, bp')) ip))))))"

definition linux_walk_one ::
  "bool \<Rightarrow> eh_lib \<Rightarrow> dwarf_registers \<Rightarrow> ('r, 's, 'o, 'm) linux_context \<Rightarrow> linux_walk_state \<Rightarrow> linux_walk_state walk_step outcome"
where
  "linux_walk_one dbg lib regs ctx st =
     (let (cells, frame, bp) = st in
      case find_linux_module ctx (frame_ip frame) of
        None \<Rightarrow> linux_handle_invalid_address (lc_linux ctx) (lc_proc ctx) frame
      | Some m \<Rightarrow>
          let frame = frame\<lparr>frame_module := Some (lm_module m)\<rparr> in
          Option.bind (linux_unwind_data dbg lib ctx cells m (frame_ip frame)) (\<lambda>(cells, r).
          out_then (Some r) (\<lambda>data.
          out_then (Some (eh_frame_of data)) (\<lambda>eh_frame.
            case fde_for_address lib eh_frame (ehd_endian data) (ehd_bases data) (frame_ip frame) of
              None \<Rightarrow> Some (Ok (LastFrame (frame\<lparr>frame_start := None, frame_size := None\<rparr>) (Ok ())))
            | Some f \<Rightarrow>
                let frame = frame\<lparr>frame_start := Some (fde_initial_address f), frame_size := Some (fde_len f)\<rparr> in
                Some (Ok (NextFrame frame (linux_next_state ctx regs cells frame bp f)))))))"

definition linux_iter_callstack ::
  "bool \<Rightarrow> eh_lib \<Rightarrow> ('r, 's, 'o, 'm) linux \<Rightarrow> process \<Rightarrow> virtual_address \<Rightarrow> virtual_address \<Rightarrow> virtual_address option \<Rightarrow>
   stack_frame trace"
where
  "linux_iter_callstack dbg lib self proc ip sp bp =
     trace_then (linux_context_new self proc) (\<lambda>(ctx, cells).
       walk_frames (linux_walk_one dbg lib (dwarf_registers_of (into_runtime (be_arch (lx_backend self)))) ctx)
         (Some (Ok (Some (cells,
           \<lparr>frame_start = None, frame_size = None, frame_sp = sp, frame_ip = ip, frame_module = None\<rparr>, bp)))))"

section \<open>The guest with its unwinder\<close>

definition linux_process_callstack_with_regs ::
  "bool \<Rightarrow> eh_lib \<Rightarrow> ('r, 's, 'o, 'm) linux \<Rightarrow> process \<Rightarrow> virtual_address \<Rightarrow> virtual_address \<Rightarrow> virtual_address option \<Rightarrow>
   stack_frame trace"
where
  "linux_process_callstack_with_regs dbg lib self proc ip sp bp = linux_iter_callstack dbg lib self proc ip sp bp"

text \<open>The system as a caller has it: the trait with the unwinder of this theory.\<close>

definition linux_guest ::
  "bool \<Rightarrow> eh_lib \<Rightarrow> ('r \<Rightarrow> runtime_registers) \<Rightarrow> ('s \<Rightarrow> runtime_special) \<Rightarrow> ('o \<Rightarrow> runtime_other) \<Rightarrow> 'm try_insert \<Rightarrow>
   ('r, 's, 'o, 'm) linux \<Rightarrow> ('r, 's, 'o) os"
where
  "linux_guest dbg lib into_r into_s into_o try_insert self =
     linux_os into_r into_s into_o try_insert (linux_process_callstack_with_regs dbg lib self) self"

end
