(* ===== verification/Vm_Ptrace.thy ===== *)
theory Vm_Ptrace
  imports Vm_Kvm Vm_Strings Vm_Linux_Stack
begin

text \<open>
  Calling functions in another process (\<^verbatim>\<open>vminer/src/backends/kvm/ptrace.rs\<close>, the architectures of
  \<^verbatim>\<open>kvm/x86_64.rs\<close> and \<^verbatim>\<open>kvm/aarch64.rs\<close>, and \<open>find_lib\<close> of \<^verbatim>\<open>kvm/mod.rs\<close>). The operating system is the record
  \<open>tracer\<close> of the calls that the code makes, on a state \<open>'w\<close> of the world: \<open>ptrace\<close>, \<open>waitpid\<close>, and reads and
  writes of \<^verbatim>\<open>/proc/pid/mem\<close> and reads of \<^verbatim>\<open>/proc/pid/maps\<close>. \<open>'g\<close> are the registers of the process. A value
  whose type has a \<open>Drop\<close> is dropped on every way out, which the definitions below write out.
\<close>

section \<open>Architectures\<close>

record user_regs_x86 =
  ux_r15 :: u64
  ux_r14 :: u64
  ux_r13 :: u64
  ux_r12 :: u64
  ux_rbp :: u64
  ux_rbx :: u64
  ux_r11 :: u64
  ux_r10 :: u64
  ux_r9 :: u64
  ux_r8 :: u64
  ux_rax :: u64
  ux_rcx :: u64
  ux_rdx :: u64
  ux_rsi :: u64
  ux_rdi :: u64
  ux_orig_rax :: u64
  ux_rip :: u64
  ux_cs :: u64
  ux_eflags :: u64
  ux_rsp :: u64
  ux_ss :: u64
  ux_fs_base :: u64
  ux_gs_base :: u64
  ux_ds :: u64
  ux_es :: u64
  ux_fs :: u64
  ux_gs :: u64

record user_regs_arm =
  ua_regs :: "u64 list"
  ua_sp :: u64
  ua_pc :: u64
  ua_pstate :: u64

text \<open>The functions of a module \<open>arch\<close>; \<open>prepare_funcall\<close> takes the list of the arguments.\<close>

record 'g trace_arch =
  ta_instructions :: "u8 list"
  ta_size :: nat
  ta_zeroed :: 'g
  ta_instruction_pointer :: "'g \<Rightarrow> u64"
  ta_set_instruction_pointer :: "u64 \<Rightarrow> 'g \<Rightarrow> 'g"
  ta_move_stack :: "'g \<Rightarrow> ('g, vm_error) result"
  ta_prepare_funcall0 :: "u64 \<Rightarrow> 'g \<Rightarrow> 'g"
  ta_prepare_funcall1 :: "u64 \<Rightarrow> u64 \<Rightarrow> 'g \<Rightarrow> 'g"
  ta_prepare_funcall2 :: "u64 \<Rightarrow> u64 \<Rightarrow> u64 \<Rightarrow> 'g \<Rightarrow> 'g"
  ta_prepare_funcall6 :: "u64 \<Rightarrow> u64 \<Rightarrow> u64 \<Rightarrow> u64 \<Rightarrow> u64 \<Rightarrow> u64 \<Rightarrow> u64 \<Rightarrow> 'g \<Rightarrow> 'g"
  ta_return_value :: "'g \<Rightarrow> u64"

definition moved_stack :: "u64 \<Rightarrow> (u64, vm_error) result" where
  "moved_stack sp = map_ok (\<lambda>sp. sp AND NOT 0xf) (sub_chk sp 0x100)"

definition x86_trace_arch :: "user_regs_x86 trace_arch" where
  "x86_trace_arch =
     \<lparr>ta_instructions = [0xff, 0xd0, 0xcc],
      ta_size = 216,
      ta_zeroed = \<lparr>ux_r15 = 0, ux_r14 = 0, ux_r13 = 0, ux_r12 = 0, ux_rbp = 0, ux_rbx = 0, ux_r11 = 0, ux_r10 = 0, ux_r9 = 0,
        ux_r8 = 0, ux_rax = 0, ux_rcx = 0, ux_rdx = 0, ux_rsi = 0, ux_rdi = 0, ux_orig_rax = 0, ux_rip = 0, ux_cs = 0,
        ux_eflags = 0, ux_rsp = 0, ux_ss = 0, ux_fs_base = 0, ux_gs_base = 0, ux_ds = 0, ux_es = 0, ux_fs = 0, ux_gs = 0\<rparr>,
      ta_instruction_pointer = ux_rip,
      ta_set_instruction_pointer = (\<lambda>addr r. r\<lparr>ux_rip := addr\<rparr>),
      ta_move_stack = (\<lambda>r. map_ok (\<lambda>sp. r\<lparr>ux_rsp := sp\<rparr>) (moved_stack (ux_rsp r))),
      ta_prepare_funcall0 = (\<lambda>addr r. r\<lparr>ux_rax := addr\<rparr>),
      ta_prepare_funcall1 = (\<lambda>addr a r. r\<lparr>ux_rax := addr, ux_rdi := a\<rparr>),
      ta_prepare_funcall2 = (\<lambda>addr a b r. r\<lparr>ux_rax := addr, ux_rdi := a, ux_rsi := b\<rparr>),
      ta_prepare_funcall6 = (\<lambda>addr a b c d e f r.
        r\<lparr>ux_rax := addr, ux_rdi := a, ux_rsi := b, ux_rdx := c, ux_rcx := d, ux_r8 := e, ux_r9 := f\<rparr>),
      ta_return_value = ux_rax\<rparr>"

definition arm_trace_arch :: "user_regs_arm trace_arch" where
  "arm_trace_arch =
     \<lparr>ta_instructions = [0x00, 0x01, 0x3f, 0xd6, 0x00, 0x00, 0x20, 0xd4],
      ta_size = 272,
      ta_zeroed = \<lparr>ua_regs = replicate 31 0, ua_sp = 0, ua_pc = 0, ua_pstate = 0\<rparr>,
      ta_instruction_pointer = ua_pc,
      ta_set_instruction_pointer = (\<lambda>addr r. r\<lparr>ua_pc := addr\<rparr>),
      ta_move_stack = (\<lambda>r. map_ok (\<lambda>sp. r\<lparr>ua_sp := sp\<rparr>) (moved_stack (ua_sp r))),
      ta_prepare_funcall0 = (\<lambda>addr r. r\<lparr>ua_regs := (ua_regs r)[8 := addr]\<rparr>),
      ta_prepare_funcall1 = (\<lambda>addr a r. r\<lparr>ua_regs := (ua_regs r)[8 := addr, 0 := a]\<rparr>),
      ta_prepare_funcall2 = (\<lambda>addr a b r. r\<lparr>ua_regs := (ua_regs r)[8 := addr, 0 := a, 1 := b]\<rparr>),
      ta_prepare_funcall6 = (\<lambda>addr a b c d e f r.
        r\<lparr>ua_regs := (ua_regs r)[8 := addr, 0 := a, 1 := b, 2 := c, 3 := d, 4 := e, 5 := f]\<rparr>),
      ta_return_value = (\<lambda>r. ua_regs r ! 0)\<rparr>"

section \<open>The tracer\<close>

type_synonym ('w, 'a) sys_call = "'w \<Rightarrow> 'w \<times> ('a, io_error) result"

text \<open>
  \<open>ptrace_getregset\<close> and \<open>ptrace_setregset\<close> give the length of the register set that was transferred.
\<close>

record ('w, 'g) tracer =
  proc_maps :: "'w \<Rightarrow> ((string, io_error) result list, io_error) result"
  proc_mem_open :: "'w \<Rightarrow> (unit, io_error) result"
  proc_mem_read :: "u64 \<Rightarrow> nat \<Rightarrow> ('w, u8 list) sys_call"
  proc_mem_write :: "u64 \<Rightarrow> u8 list \<Rightarrow> ('w, unit) sys_call"
  ptrace_attach :: "('w, unit) sys_call"
  ptrace_wait :: "('w, unit) sys_call"
  ptrace_cont :: "('w, unit) sys_call"
  ptrace_singlestep :: "('w, unit) sys_call"
  ptrace_detach :: "('w, unit) sys_call"
  ptrace_getregset :: "('w, 'g \<times> nat) sys_call"
  ptrace_setregset :: "'g \<Rightarrow> ('w, nat) sys_call"

type_synonym ('w, 'a) traced = "('w, 'a, vm_error) stateful"

text \<open>\<open>?\<close> on the result of a call that has an \<open>io::Error\<close>.\<close>

definition io_call :: "('w, 'a) sys_call \<Rightarrow> 'w \<Rightarrow> ('w, 'a) traced" where
  "io_call c w = (case c w of (w', r) \<Rightarrow> Some (w', map_err vm_of_io r))"

text \<open>A block with a cleanup that runs whatever its outcome is.\<close>

definition finally_do :: "('w \<Rightarrow> 'w option) \<Rightarrow> ('w, 'a) traced \<Rightarrow> ('w, 'a) traced" where
  "finally_do clean m = Option.bind m (\<lambda>(w, r). map_option (\<lambda>w. (w, r)) (clean w))"

section \<open>\<open>RawTracee\<close>\<close>

definition raw_wait :: "('w, 'g) tracer \<Rightarrow> 'w \<Rightarrow> ('w, unit) traced" where
  "raw_wait sys w = io_call (ptrace_wait sys) w"

definition raw_continu :: "('w, 'g) tracer \<Rightarrow> 'w \<Rightarrow> ('w, unit) traced" where
  "raw_continu sys w = io_call (ptrace_cont sys) w"

definition raw_single_step :: "('w, 'g) tracer \<Rightarrow> 'w \<Rightarrow> ('w, unit) traced" where
  "raw_single_step sys w = io_call (ptrace_singlestep sys) w"

definition raw_detach :: "('w, 'g) tracer \<Rightarrow> 'w \<Rightarrow> ('w, unit) traced" where
  "raw_detach sys w = io_call (ptrace_detach sys) w"

definition raw_drop :: "('w, 'g) tracer \<Rightarrow> 'w \<Rightarrow> 'w option" where
  "raw_drop sys w = map_option fst (raw_detach sys w)"

text \<open>A process whose stop cannot be waited for is detached again.\<close>

definition raw_attach :: "('w, 'g) tracer \<Rightarrow> 'w \<Rightarrow> ('w, unit) traced" where
  "raw_attach sys w =
     st_then (io_call (ptrace_attach sys) w) (\<lambda>w u.
       Option.bind (raw_wait sys w) (\<lambda>(w, r).
         case r of
           Ok u \<Rightarrow> Some (w, Ok ())
         | Err e \<Rightarrow> finally_do (raw_drop sys) (Some (w, Err e))
         | Panic \<Rightarrow> finally_do (raw_drop sys) (Some (w, Panic))))"

definition raw_get_registers :: "('w, 'g) tracer \<Rightarrow> 'g trace_arch \<Rightarrow> 'w \<Rightarrow> ('w, 'g) traced" where
  "raw_get_registers sys A w =
     (case ptrace_getregset sys w of (w, r) \<Rightarrow>
        Some (w, and_then (context_res DynIo ''failed to get registers'' r) (\<lambda>(g, n).
          if n = ta_size A then Ok g else Err (vm_new (DynStr ''failed to fill registers'')))))"

definition raw_set_registers :: "('w, 'g) tracer \<Rightarrow> 'g trace_arch \<Rightarrow> 'g \<Rightarrow> 'w \<Rightarrow> ('w, unit) traced" where
  "raw_set_registers sys A g w =
     (case ptrace_setregset sys g w of (w, r) \<Rightarrow>
        Some (w, and_then (context_res DynIo ''failed to set registers'' r) (\<lambda>n.
          if n = ta_size A then Ok () else Err (vm_new (DynStr ''failed to set registers'')))))"

section \<open>Libraries\<close>

text \<open>The error of a failed parse of a hexadecimal number.\<close>

definition parse_int_error :: "string \<Rightarrow> dyn_error" where
  "parse_int_error s =
     DynForeign (if s = [] then ''cannot parse integer from empty string''
       else if s \<noteq> [CHR ''+''] \<and> (\<forall>c \<in> set (if hd s = CHR ''+'' then tl s else s). digit_value 16 c \<noteq> None)
       then ''number too large to fit in target type'' else ''invalid digit found in string'') None"

fun find_lib_loop :: "string \<Rightarrow> string \<Rightarrow> (string, io_error) result list \<Rightarrow> u64 vm_result" where
  "find_lib_loop path name [] =
     Err (vm_new (DynStr (''failed to find address of '' @ [CHR 0x22] @ name @ [CHR 0x22])))"
| "find_lib_loop path name (line # lines) =
     and_then (map_err vm_of_io line) (\<lambda>line.
       if str_contains name line \<and> str_contains ''r-xp '' line then
         (case find_char (CHR ''-'') line of
            None \<Rightarrow> Panic
          | Some e \<Rightarrow>
              (case from_str_radix 16 64 (take e line) of
                 Some addr \<Rightarrow> Ok (of_nat addr)
               | None \<Rightarrow> Err (vm_with_context (''failed to parse '' @ path) (parse_int_error (take e line)))))
       else find_lib_loop path name lines)"

definition find_lib :: "((string, io_error) result list, io_error) result \<Rightarrow> nat \<Rightarrow> string \<Rightarrow> u64 vm_result" where
  "find_lib maps pid name =
     and_then (map_err vm_of_io maps) (find_lib_loop (''/proc/'' @ show_nat pid @ ''/maps'') name)"

section \<open>\<open>Tracee\<close>\<close>

record 'g tracee =
  tr_registers :: 'g
  tr_instrs :: "u8 list"
  tr_instrs_addr :: u64

definition tracee_attach :: "('w, 'g) tracer \<Rightarrow> 'g trace_arch \<Rightarrow> nat \<Rightarrow> 'w \<Rightarrow> ('w, 'g tracee) traced" where
  "tracee_attach sys A pid w =
     st_then (Some (w, map_err vm_of_io (proc_mem_open sys w))) (\<lambda>w u.
     st_then (raw_attach sys w) (\<lambda>w u.
       let m = st_then (raw_get_registers sys A w) (\<lambda>w g.
           st_then (Some (w, find_lib (proc_maps sys w) pid ''/'')) (\<lambda>w addr.
           st_then (io_call (proc_mem_read sys addr (length (ta_instructions A))) w) (\<lambda>w instrs.
           st_then (io_call (proc_mem_write sys addr (ta_instructions A)) w) (\<lambda>w u.
             Some (w, Ok \<lparr>tr_registers = g, tr_instrs = instrs, tr_instrs_addr = addr\<rparr>)))))
       in Option.bind m (\<lambda>(w, r).
            case r of
              Ok t \<Rightarrow> Some (w, Ok t)
            | Err e \<Rightarrow> finally_do (raw_drop sys) (Some (w, Err e))
            | Panic \<Rightarrow> finally_do (raw_drop sys) (Some (w, Panic)))))"

definition peek_data :: "('w, 'g) tracer \<Rightarrow> u64 \<Rightarrow> nat \<Rightarrow> 'w \<Rightarrow> ('w, u8 list) traced" where
  "peek_data sys addr n w = io_call (proc_mem_read sys addr n) w"

definition poke_data :: "('w, 'g) tracer \<Rightarrow> u64 \<Rightarrow> u8 list \<Rightarrow> 'w \<Rightarrow> ('w, unit) traced" where
  "poke_data sys addr bf w = io_call (proc_mem_write sys addr bf) w"

definition do_funcall :: "('w, 'g) tracer \<Rightarrow> 'g trace_arch \<Rightarrow> 'g tracee \<Rightarrow> 'g \<Rightarrow> 'w \<Rightarrow> ('w, u64) traced" where
  "do_funcall sys A self regs w =
     st_then (Some (w, ta_move_stack A regs)) (\<lambda>w regs.
     st_then (raw_set_registers sys A (ta_set_instruction_pointer A (tr_instrs_addr self) regs) w) (\<lambda>w u.
     st_then (raw_continu sys w) (\<lambda>w u.
     st_then (raw_wait sys w) (\<lambda>w u.
     st_then (raw_get_registers sys A w) (\<lambda>w regs.
     st_then (Some (w, add_chk (tr_instrs_addr self) (of_nat (length (ta_instructions A))))) (\<lambda>w back.
       let ip = ta_instruction_pointer A regs in
       if ip \<noteq> back then Some (w, Err (vm_new (DynStr (''unexpected return address: '' @ hex ip))))
       else Some (w, Ok (ta_return_value A regs))))))))"

definition funcall0 :: "('w, 'g) tracer \<Rightarrow> 'g trace_arch \<Rightarrow> 'g tracee \<Rightarrow> u64 \<Rightarrow> 'w \<Rightarrow> ('w, u64) traced" where
  "funcall0 sys A self addr w = do_funcall sys A self (ta_prepare_funcall0 A addr (tr_registers self)) w"

definition funcall1 :: "('w, 'g) tracer \<Rightarrow> 'g trace_arch \<Rightarrow> 'g tracee \<Rightarrow> u64 \<Rightarrow> u64 \<Rightarrow> 'w \<Rightarrow> ('w, u64) traced" where
  "funcall1 sys A self addr a w = do_funcall sys A self (ta_prepare_funcall1 A addr a (tr_registers self)) w"

definition funcall2 :: "('w, 'g) tracer \<Rightarrow> 'g trace_arch \<Rightarrow> 'g tracee \<Rightarrow> u64 \<Rightarrow> u64 \<Rightarrow> u64 \<Rightarrow> 'w \<Rightarrow> ('w, u64) traced" where
  "funcall2 sys A self addr a b w = do_funcall sys A self (ta_prepare_funcall2 A addr a b (tr_registers self)) w"

definition funcall6 ::
  "('w, 'g) tracer \<Rightarrow> 'g trace_arch \<Rightarrow> 'g tracee \<Rightarrow> u64 \<Rightarrow> u64 \<Rightarrow> u64 \<Rightarrow> u64 \<Rightarrow> u64 \<Rightarrow> u64 \<Rightarrow> u64 \<Rightarrow> 'w \<Rightarrow> ('w, u64) traced"
where
  "funcall6 sys A self addr a b c d e f w = do_funcall sys A self (ta_prepare_funcall6 A addr a b c d e f (tr_registers self)) w"

text \<open>Dropping a \<open>Tracee\<close>: the errors are only logged, and the raw tracee is dropped after.\<close>

definition tracee_drop :: "('w, 'g) tracer \<Rightarrow> 'g trace_arch \<Rightarrow> 'g tracee \<Rightarrow> 'w \<Rightarrow> 'w option" where
  "tracee_drop sys A self w =
     Option.bind (st_then (poke_data sys (tr_instrs_addr self) (tr_instrs self) w) (\<lambda>w u.
         raw_set_registers sys A (tr_registers self) w)) (\<lambda>(w, r). raw_drop sys w)"

end
