(* ===== verification/Vm_Dump.thy ===== *)
theory Vm_Dump
  imports Vm_Backend
begin

text \<open>
  Dumps of a virtual machine (\<^verbatim>\<open>vminer/src/backends/kvm_dump/mod.rs\<close>): the file format, writing and
  reading it, taking a dump of a backend, and the dump as a backend.

  The structures are \<open>repr(C)\<close> and written as their bytes: integers in little-endian order in the
  order of the fields, without padding. A file that is read is its content; \<open>Read::read_exact\<close> takes
  bytes off the front of what is left of it. A file that is written is the list of the bytes written
  so far, through the \<open>writer\<close> of \<^theory_text>\<open>Vm_Mem\<close>. \<open>read_at\<close> is the random access of the crate
  \<open>sync_file\<close> to a file with a given content, a parameter.
\<close>

section \<open>Structures as bytes\<close>

definition enc_u64s :: "u64 list \<Rightarrow> u8 list" where
  "enc_u64s xs = concat (map (to_le_bytes 8) xs)"

definition dec_u64s :: "nat \<Rightarrow> u8 list \<Rightarrow> u64 list" where
  "dec_u64s n bs = map (\<lambda>i. of_le_bytes (take 8 (drop (8 * i) bs))) [0..<n]"

definition enc_x86_registers :: "x86_registers \<Rightarrow> u8 list" where
  "enc_x86_registers r = enc_u64s [rax r, rbx r, rcx r, rdx r, rsi r, rdi r, rsp r, rbp r, r8 r, r9 r, r10 r, r11 r, r12 r, r13 r, r14 r, r15 r, rip r, rflags r]"

definition dec_x86_registers :: "u8 list \<Rightarrow> x86_registers" where
  "dec_x86_registers bs = (let w = dec_u64s 18 bs in
     \<lparr>rax = w ! 0, rbx = w ! 1, rcx = w ! 2, rdx = w ! 3, rsi = w ! 4, rdi = w ! 5, rsp = w ! 6, rbp = w ! 7, r8 = w ! 8, r9 = w ! 9, r10 = w ! 10, r11 = w ! 11, r12 = w ! 12, r13 = w ! 13, r14 = w ! 14, r15 = w ! 15, rip = w ! 16, rflags = w ! 17\<rparr>)"

definition enc_segment :: "segment \<Rightarrow> u8 list" where
  "enc_segment s = to_le_bytes 8 (seg_base s) @ to_le_bytes 4 (seg_limit s) @ to_le_bytes 2 (seg_selector s) @
     [seg_type s, seg_present s, seg_dpl s, seg_db s, seg_s s, seg_l s, seg_g s, seg_avl s, seg_unusable s, seg_padding s]"

definition dec_segment :: "u8 list \<Rightarrow> segment" where
  "dec_segment bs =
     \<lparr>seg_base = of_le_bytes (take 8 bs), seg_limit = of_le_bytes (take 4 (drop 8 bs)),
      seg_selector = of_le_bytes (take 2 (drop 12 bs)),
      seg_type = bs ! 14, seg_present = bs ! 15, seg_dpl = bs ! 16, seg_db = bs ! 17, seg_s = bs ! 18, seg_l = bs ! 19, seg_g = bs ! 20, seg_avl = bs ! 21, seg_unusable = bs ! 22, seg_padding = bs ! 23\<rparr>"

definition enc_dtable :: "dtable \<Rightarrow> u8 list" where
  "enc_dtable d = to_le_bytes 8 (dt_base d) @ to_le_bytes 2 (dt_limit d) @
     concat (map (to_le_bytes 2) (dt_padding d))"

definition dec_dtable :: "u8 list \<Rightarrow> dtable" where
  "dec_dtable bs =
     \<lparr>dt_base = of_le_bytes (take 8 bs), dt_limit = of_le_bytes (take 2 (drop 8 bs)),
      dt_padding = map (\<lambda>i. of_le_bytes (take 2 (drop (10 + 2 * i) bs))) [0..<3]\<rparr>"

definition enc_x86_special :: "x86_special_registers \<Rightarrow> u8 list" where
  "enc_x86_special r =
     concat (map enc_segment [sr_cs r, sr_ds r, sr_es r, sr_fs r, sr_gs r, sr_ss r, sr_tr r, sr_ldt r]) @
     concat (map enc_dtable [sr_gdt r, sr_idt r]) @
     enc_u64s ([cr0 r, cr2 r, cr3 r, cr4 r, cr8 r, efer r, apic_base r] @ interrupt_bitmap r)"

definition dec_x86_special :: "u8 list \<Rightarrow> x86_special_registers" where
  "dec_x86_special bs =
     (let seg = (\<lambda>i. dec_segment (take 24 (drop (24 * i) bs)));
          dt = (\<lambda>i. dec_dtable (take 16 (drop (192 + 16 * i) bs)));
          w = dec_u64s 11 (drop 224 bs) in
      \<lparr>sr_cs = seg 0, sr_ds = seg 1, sr_es = seg 2, sr_fs = seg 3, sr_gs = seg 4, sr_ss = seg 5, sr_tr = seg 6, sr_ldt = seg 7,
       sr_gdt = dt 0, sr_idt = dt 1,
       cr0 = w ! 0, cr2 = w ! 1, cr3 = w ! 2, cr4 = w ! 3, cr8 = w ! 4, efer = w ! 5, apic_base = w ! 6,
       interrupt_bitmap = drop 7 w\<rparr>)"

definition enc_x86_other :: "x86_other_registers \<Rightarrow> u8 list" where
  "enc_x86_other r = enc_u64s [lstar r, gs_kernel_base r]"

definition dec_x86_other :: "u8 list \<Rightarrow> x86_other_registers" where
  "dec_x86_other bs = (let w = dec_u64s 2 bs in \<lparr>lstar = w ! 0, gs_kernel_base = w ! 1\<rparr>)"

definition enc_arm_registers :: "arm_registers \<Rightarrow> u8 list" where
  "enc_arm_registers r = enc_u64s (arm_regs r @ [arm_sp r, arm_pc r, arm_pstate r])"

definition dec_arm_registers :: "u8 list \<Rightarrow> arm_registers" where
  "dec_arm_registers bs = (let w = dec_u64s 34 bs in
     \<lparr>arm_regs = take 31 w, arm_sp = w ! 31, arm_pc = w ! 32, arm_pstate = w ! 33\<rparr>)"

definition enc_arm_special :: "arm_special_registers \<Rightarrow> u8 list" where
  "enc_arm_special r = enc_u64s [sp_el1 r, ttbr0_el1 r, ttbr1_el1 r, vbar_el1 r]"

definition dec_arm_special :: "u8 list \<Rightarrow> arm_special_registers" where
  "dec_arm_special bs = (let w = dec_u64s 4 bs in
     \<lparr>sp_el1 = w ! 0, ttbr0_el1 = w ! 1, ttbr1_el1 = w ! 2, vbar_el1 = w ! 3\<rparr>)"

definition enc_mappings :: "memory_map list \<Rightarrow> u8 list" where
  "enc_mappings ms = concat (map (\<lambda>m. enc_u64s [mm_start m, mm_end m]) ms)"

definition dec_mappings :: "nat \<Rightarrow> u8 list \<Rightarrow> memory_map list" where
  "dec_mappings n bs =
     map (\<lambda>i. let w = dec_u64s 2 (drop (16 * i) bs) in \<lparr>mm_start = w ! 0, mm_end = w ! 1\<rparr>) [0..<n]"

record header =
  h_magic :: u32
  h_arch :: u32
  h_n_mappings :: u32
  h_n_vcpus :: u32

definition MAGIC :: u32 where
  "MAGIC = of_le_bytes [0xaa, 0x62, 0x6f, 0x78]"

definition enc_header :: "header \<Rightarrow> u8 list" where
  "enc_header h = to_le_bytes 4 (h_magic h) @ to_le_bytes 4 (h_arch h) @ to_le_bytes 4 (h_n_mappings h) @
     to_le_bytes 4 (h_n_vcpus h)"

definition dec_header :: "u8 list \<Rightarrow> header" where
  "dec_header bs =
     \<lparr>h_magic = of_le_bytes (take 4 bs), h_arch = of_le_bytes (take 4 (drop 4 bs)),
      h_n_mappings = of_le_bytes (take 4 (drop 8 bs)), h_n_vcpus = of_le_bytes (take 4 (drop 12 bs))\<rparr>"

section \<open>Reading a dump\<close>

text \<open>\<open>Read::read_exact\<close> of \<open>n\<close> bytes.\<close>

definition eof_error :: io_error where
  "eof_error = IoCustom UnexpectedEof (DynStr ''failed to fill whole buffer'')"

definition read_exact :: "nat \<Rightarrow> u8 list \<Rightarrow> (u8 list \<times> u8 list, io_error) result" where
  "read_exact n s = (if n \<le> length s then Ok (take n s, drop n s) else Err eof_error)"

type_synonym x86_vcpu = "(x86_registers, x86_special_registers, x86_other_registers) vcpu"
type_synonym arm_vcpu = "(arm_registers, arm_special_registers, arm_other_registers) vcpu"

datatype dump_vcpus = DumpX86 "x86_vcpu list" | DumpAarch64 "arm_vcpu list"

fun read_x86_vcpus :: "nat \<Rightarrow> u8 list \<Rightarrow> (x86_vcpu list \<times> u8 list, io_error) result" where
  "read_x86_vcpus 0 s = Ok ([], s)"
| "read_x86_vcpus (Suc n) s =
     and_then (read_exact 144 s) (\<lambda>(r, s).
     and_then (read_exact 312 s) (\<lambda>(sr, s).
     and_then (read_exact 16 s) (\<lambda>(o', s).
     and_then (read_x86_vcpus n s) (\<lambda>(vs, s).
       Ok (\<lparr>vcpu_registers = dec_x86_registers r, vcpu_special = dec_x86_special sr,
            vcpu_other = dec_x86_other o'\<rparr> # vs, s)))))"

fun read_arm_vcpus :: "nat \<Rightarrow> u8 list \<Rightarrow> (arm_vcpu list \<times> u8 list, io_error) result" where
  "read_arm_vcpus 0 s = Ok ([], s)"
| "read_arm_vcpus (Suc n) s =
     and_then (read_exact 272 s) (\<lambda>(r, s).
     and_then (read_exact 32 s) (\<lambda>(sr, s).
     and_then (read_exact 0 s) (\<lambda>(o', s).
     and_then (read_arm_vcpus n s) (\<lambda>(vs, s).
       Ok (\<lparr>vcpu_registers = dec_arm_registers r, vcpu_special = dec_arm_special sr,
            vcpu_other = ArmOther\<rparr> # vs, s)))))"

text \<open>The positions of the mappings one after the other, and the position after the last.\<close>

fun remap_offsets :: "memory_map list \<Rightarrow> physical_address \<Rightarrow> (physical_address list \<times> physical_address, 'e) result" where
  "remap_offsets [] acc = Ok ([], acc)"
| "remap_offsets (m # ms) acc =
     and_then (pa_add_assign_i64 acc (pa_diff (mm_end m) (mm_start m))) (\<lambda>next.
       map_ok (\<lambda>(offs, e). (acc # offs, e)) (remap_offsets ms next))"

definition add_i64 :: "i64 \<Rightarrow> i64 \<Rightarrow> (i64, 'e) result" where
  "add_i64 a b = (if - (2 ^ 63) \<le> sint a + sint b \<and> sint a + sint b < 2 ^ 63 then Ok (a + b) else Panic)"

fun mappings_size :: "memory_map list \<Rightarrow> i64 \<Rightarrow> (i64, 'e) result" where
  "mappings_size [] acc = Ok acc"
| "mappings_size (m # ms) acc =
     and_then (add_i64 acc (pa_diff (mm_end m) (mm_start m))) (mappings_size ms)"

record dumb_dump =
  dd_vcpus :: dump_vcpus
  dd_mem :: mem_remap

definition dump_read_vcpus :: "u32 \<Rightarrow> nat \<Rightarrow> u8 list \<Rightarrow> (dump_vcpus \<times> u8 list) vm_result" where
  "dump_read_vcpus arch n s =
     (if arch = 0 then map_ok (\<lambda>(vs, s). (DumpX86 vs, s)) (map_err vm_of_io (read_x86_vcpus n s))
      else if arch = 1 then map_ok (\<lambda>(vs, s). (DumpAarch64 vs, s)) (map_err vm_of_io (read_arm_vcpus n s))
      else Err (vm_new (DynStr ''unsupported architecture'')))"

definition dump_read ::
  "(u8 list \<Rightarrow> u8 list \<Rightarrow> u64 \<Rightarrow> u8 list \<times> (unit, io_error) result) \<Rightarrow> ('p \<Rightarrow> (u8 list, io_error) result) \<Rightarrow>
   'p \<Rightarrow> dumb_dump vm_result"
where
  "dump_read read_at fs_open path =
     and_then (map_err vm_of_io (fs_open path)) (\<lambda>content.
     and_then (map_err vm_of_io (read_exact 16 content)) (\<lambda>(hb, s).
     let header = dec_header hb in
     if h_magic header \<noteq> MAGIC then Err (vm_new (DynStr ''invalid file magic''))
     else
       let n = unat (h_n_mappings header) in
       and_then (map_err vm_of_io (read_exact (16 * n) s)) (\<lambda>(mb, s).
       let mappings = dec_mappings n mb in
       and_then (remap_offsets mappings 0) (\<lambda>(offs, _).
       and_then (dump_read_vcpus (h_arch header) (unat (h_n_vcpus header)) s) (\<lambda>(vcpus, s).
       let start = of_nat (length content - length s); e = of_nat (length content) in
       and_then (mappings_size mappings 0) (\<lambda>mem_size.
       and_then (sub_chk e start) (\<lambda>len.
         if len \<noteq> mem_size then Err (vm_new (DynStr ''invalid file size''))
         else and_then (file_new (read_at content) start e) (\<lambda>file.
           Ok \<lparr>dd_vcpus = vcpus, dd_mem = remap_new (file_mem_impl file) mappings offs\<rparr>))))))))"

section \<open>Writing a dump\<close>

definition enc_x86_vcpu :: "x86_vcpu \<Rightarrow> u8 list list" where
  "enc_x86_vcpu v = [enc_x86_registers (vcpu_registers v), enc_x86_special (vcpu_special v), enc_x86_other (vcpu_other v)]"

definition enc_arm_vcpu :: "arm_vcpu \<Rightarrow> u8 list list" where
  "enc_arm_vcpu v = [enc_arm_registers (vcpu_registers v), enc_arm_special (vcpu_special v), []]"

text \<open>Successive calls of \<open>write_all\<close>, up to the first error.\<close>

fun write_chunks :: "writer \<Rightarrow> u8 list list \<Rightarrow> u8 list \<Rightarrow> u8 list \<times> (unit, io_error) result" where
  "write_chunks wr [] out = (out, Ok ())"
| "write_chunks wr (c # cs) out =
     (case wr out c of (out', Ok u) \<Rightarrow> write_chunks wr cs out' | (out', r) \<Rightarrow> (out', r))"

definition dump_header :: "dumb_dump \<Rightarrow> header" where
  "dump_header self =
     \<lparr>h_magic = MAGIC,
      h_arch = (case dd_vcpus self of DumpX86 vs \<Rightarrow> 0 | DumpAarch64 vs \<Rightarrow> 1),
      h_n_mappings = of_nat (length (mr_mappings (dd_mem self))),
      h_n_vcpus = (case dd_vcpus self of DumpX86 vs \<Rightarrow> of_nat (length vs) | DumpAarch64 vs \<Rightarrow> of_nat (length vs))\<rparr>"

definition dump_vcpu_chunks :: "dump_vcpus \<Rightarrow> u8 list list" where
  "dump_vcpu_chunks vcpus =
     (case vcpus of DumpX86 vs \<Rightarrow> concat (map enc_x86_vcpu vs) | DumpAarch64 vs \<Rightarrow> concat (map enc_arm_vcpu vs))"

text \<open>\<open>create\<close> is the outcome of \<open>fs::File::create\<close>; the content starts empty.\<close>

definition dump_write :: "(unit, io_error) result \<Rightarrow> writer \<Rightarrow> dumb_dump \<Rightarrow> u8 list \<times> (unit, io_error) result" where
  "dump_write create wr self =
     (case create of
        Ok u \<Rightarrow>
          (case write_chunks wr ([enc_header (dump_header self), enc_mappings (mr_mappings (dd_mem self))] @
                  dump_vcpu_chunks (dd_vcpus self)) [] of
             (out, Ok v) \<Rightarrow> dump (mem_remap_impl (dd_mem self)) wr out
           | (out, r) \<Rightarrow> (out, r))
      | r \<Rightarrow> ([], r))"

section \<open>Taking a dump of a backend\<close>

fun dump_vm_copy :: "memory \<Rightarrow> memory_map list \<Rightarrow> nat \<Rightarrow> u8 list \<Rightarrow> u8 list memory_access_result" where
  "dump_vm_copy backend [] offset mem = Ok mem"
| "dump_vm_copy backend (m # ms) offset mem =
     (let next_offset = offset + unat (pa_diff (mm_end m) (mm_start m)) in
      if next_offset < 2 ^ 64 \<and> next_offset \<le> length mem then
        (let (part, r) = read_physical backend (mm_start m) (drop offset (take next_offset mem))
         in and_then r (\<lambda>u. dump_vm_copy backend ms next_offset (take offset mem @ part @ drop next_offset mem)))
      else Panic)"

fun collect_vcpus :: "('r, 's, 'o) vcpu_regs \<Rightarrow> nat list \<Rightarrow> ('r, 's, 'o) vcpu list vcpu_result" where
  "collect_vcpus self [] = Ok []"
| "collect_vcpus self (v # vs) =
     and_then (registers self v) (\<lambda>r.
     and_then (special_registers self v) (\<lambda>s.
     and_then (other_registers self v) (\<lambda>o'.
     and_then (collect_vcpus self vs) (\<lambda>rest.
       Ok (\<lparr>vcpu_registers = r, vcpu_special = s, vcpu_other = o'\<rparr> # rest)))))"

definition dump_vm ::
  "('r \<Rightarrow> runtime_registers) \<Rightarrow> ('s \<Rightarrow> runtime_special) \<Rightarrow> ('o \<Rightarrow> runtime_other) \<Rightarrow>
   ('r, 's, 'o) backend \<Rightarrow> dumb_dump vm_result"
where
  "dump_vm into_r into_s into_o be =
     (let mappings = memory_mappings (be_memory be) in
      and_then (remap_offsets mappings 0) (\<lambda>(offs, total).
      and_then (map_err vm_of_mem (dump_vm_copy (be_memory be) mappings 0 (replicate (unat total) 0))) (\<lambda>mem.
      and_then (map_err vm_of_vcpu (case into_runtime (be_arch be) of
          X86_64 \<Rightarrow>
            (let vcpus = assume_x86_64 into_r into_s into_o (be_vcpus be)
             in map_ok DumpX86 (collect_vcpus vcpus (iter_vcpus vcpus)))
        | Aarch64 \<Rightarrow>
            (let vcpus = assume_aarch64 into_r into_s into_o (be_vcpus be)
             in map_ok DumpAarch64 (collect_vcpus vcpus (iter_vcpus vcpus))))) (\<lambda>vcpus.
        Ok \<lparr>dd_vcpus = vcpus, dd_mem = remap_new (raw_memory_impl (raw_new mem)) mappings offs\<rparr>))))"

section \<open>A dump as a backend\<close>

text \<open>The dump forwards all methods of \<open>Memory\<close> but \<open>dump\<close>, which is the default.\<close>

definition dump_memory :: "dumb_dump \<Rightarrow> memory" where
  "dump_memory self =
     (let mem = mem_remap_impl (dd_mem self) in
      \<lparr>memory_mappings = memory_mappings mem, is_valid = is_valid mem, read_physical = read_physical mem,
       search = search mem, dump = dump_default (memory_mappings mem) (read_physical mem)\<rparr>)"

definition dump_arch :: "dumb_dump \<Rightarrow> architecture" where
  "dump_arch self = (case dd_vcpus self of DumpX86 vs \<Rightarrow> X86_64 | DumpAarch64 vs \<Rightarrow> Aarch64)"

definition dump_vcpus_count :: "dumb_dump \<Rightarrow> nat" where
  "dump_vcpus_count self = (case dd_vcpus self of DumpX86 vs \<Rightarrow> length vs | DumpAarch64 vs \<Rightarrow> length vs)"

definition dump_registers :: "dumb_dump \<Rightarrow> nat \<Rightarrow> runtime_registers vcpu_result" where
  "dump_registers self vcpu =
     (case dd_vcpus self of
        DumpX86 vs \<Rightarrow> map_ok (\<lambda>v. RegsX86 (vcpu_registers v)) (ok_or InvalidId (get_at vcpu vs))
      | DumpAarch64 vs \<Rightarrow> map_ok (\<lambda>v. RegsAarch64 (vcpu_registers v)) (ok_or InvalidId (get_at vcpu vs)))"

definition dump_special_registers :: "dumb_dump \<Rightarrow> nat \<Rightarrow> runtime_special vcpu_result" where
  "dump_special_registers self vcpu =
     (case dd_vcpus self of
        DumpX86 vs \<Rightarrow> map_ok (\<lambda>v. SpecialX86 (vcpu_special v)) (ok_or InvalidId (get_at vcpu vs))
      | DumpAarch64 vs \<Rightarrow> map_ok (\<lambda>v. SpecialAarch64 (vcpu_special v)) (ok_or InvalidId (get_at vcpu vs)))"

definition dump_other_registers :: "dumb_dump \<Rightarrow> nat \<Rightarrow> runtime_other vcpu_result" where
  "dump_other_registers self vcpu =
     (case dd_vcpus self of
        DumpX86 vs \<Rightarrow> map_ok (\<lambda>v. OtherX86 (vcpu_other v)) (ok_or InvalidId (get_at vcpu vs))
      | DumpAarch64 vs \<Rightarrow> map_ok (\<lambda>v. OtherAarch64 (vcpu_other v)) (ok_or InvalidId (get_at vcpu vs)))"

definition dump_backend ::
  "(u8 list \<Rightarrow> finder) \<Rightarrow> dumb_dump \<Rightarrow> (runtime_registers, runtime_special, runtime_other) backend"
where
  "dump_backend new_finder self =
     (let arch = runtime_arch new_finder (dump_arch self);
          regs = \<lparr>vcpus_count = dump_vcpus_count self, registers = dump_registers self,
            special_registers = dump_special_registers self, other_registers = dump_other_registers self\<rparr>
      in default_backend (dump_memory self) (default_vcpus arch regs) arch)"

end
