(* ===== verification/Vm_Kvm_Attach.thy ===== *)
theory Vm_Kvm_Attach
  imports Vm_Ptrace Vm_Dump Vm_Types
begin

text \<open>
  Getting the registers of the processors of a KVM guest (the rest of \<^verbatim>\<open>vminer/src/backends/kvm/mod.rs\<close>) and the
  payload that is run in the process of the hypervisor (\<^verbatim>\<open>kvm_patch/src\<close>). The library makes the hypervisor load
  the payload and call it with the file descriptors of the processors; the payload sends the registers over a
  socket, which a thread of the library reads. The calls of KVM that the payload makes are arguments.
\<close>

section \<open>Errors of the remote process\<close>

partial_function (option) read_c_string :: "('w, 'g) tracer \<Rightarrow> u64 \<Rightarrow> u8 list \<Rightarrow> 'w \<Rightarrow> ('w, u8 list) traced" where
  "read_c_string sys addr error w =
     st_then (peek_data sys addr 1 w) (\<lambda>w bf.
       if hd bf = 0 then Some (w, Ok error) else read_c_string sys (addr + 1) (error @ [hd bf]) w)"

definition get_dlerror :: "('w, 'g) tracer \<Rightarrow> 'g trace_arch \<Rightarrow> 'g tracee \<Rightarrow> u64 \<Rightarrow> 'w \<Rightarrow> ('w, vm_error) traced" where
  "get_dlerror sys A tracee dlerror w =
     Option.bind (st_then (funcall0 sys A tracee dlerror w) (\<lambda>w addr.
         if addr = 0 then Some (w, Ok ''Success'')
         else st_then (read_c_string sys addr [] w) (\<lambda>w error. Some (w, Ok (from_utf8_lossy error))))) (\<lambda>(w, r).
       Some (w, case r of
           Ok error \<Rightarrow> Ok (vm_new (DynStr error))
         | Err e \<Rightarrow> Ok (vm_with_context ''failed to get dlerror'' (DynVm e))
         | Panic \<Rightarrow> Panic))"

definition get_errno :: "('w, 'g) tracer \<Rightarrow> 'g trace_arch \<Rightarrow> 'g tracee \<Rightarrow> u64 \<Rightarrow> 'w \<Rightarrow> ('w, vm_error) traced" where
  "get_errno sys A tracee errno w =
     Option.bind (st_then (funcall0 sys A tracee errno w) (\<lambda>w addr.
         st_then (peek_data sys addr 4 w) (\<lambda>w bf. Some (w, Ok (sint (of_le_bytes bf :: 32 word)))))) (\<lambda>(w, r).
       Some (w, case r of
           Ok n \<Rightarrow> Ok (vm_of_io (IoOs n))
         | Err e \<Rightarrow> Ok (vm_with_context ''failed to get errno'' (DynVm e))
         | Panic \<Rightarrow> Panic))"

text \<open>\<open>return Err(VmError::with_context(msg, err))\<close> with such an error.\<close>

definition fail_with :: "string \<Rightarrow> ('w, vm_error) traced \<Rightarrow> ('w, 'a) traced" where
  "fail_with msg m = st_then m (\<lambda>w e. Some (w, Err (vm_with_context msg (DynVm e))))"

section \<open>Running the payload\<close>

definition LIB_PATH :: "u8 list" where "LIB_PATH = str_bytes ''/usr/lib/libvminer_kvm_patch.so'' @ [0]"
definition FUN_NAME :: "u8 list" where "FUN_NAME = str_bytes ''vminer_payload'' @ [0]"

text \<open>The addresses of the functions of the library \<open>libc\<close> in our process, or in theirs.\<close>

record libc_funs =
  f_dlopen :: u64
  f_dlclose :: u64
  f_dlsym :: u64
  f_dlerror :: u64
  f_mmap :: u64
  f_errno :: u64

definition remote_fun :: "u64 \<Rightarrow> u64 \<Rightarrow> u64 \<Rightarrow> u64 vm_result" where
  "remote_fun our_libc their_libc f = and_then (sub_chk f our_libc) (\<lambda>d. add_chk their_libc d)"

definition remote_funs :: "u64 \<Rightarrow> u64 \<Rightarrow> libc_funs \<Rightarrow> libc_funs vm_result" where
  "remote_funs our_libc their_libc ours =
     and_then (remote_fun our_libc their_libc (f_dlopen ours)) (\<lambda>o'.
     and_then (remote_fun our_libc their_libc (f_dlclose ours)) (\<lambda>c.
     and_then (remote_fun our_libc their_libc (f_dlsym ours)) (\<lambda>s.
     and_then (remote_fun our_libc their_libc (f_dlerror ours)) (\<lambda>e.
     and_then (remote_fun our_libc their_libc (f_mmap ours)) (\<lambda>m.
     and_then (remote_fun our_libc their_libc (f_errno ours)) (\<lambda>n.
       Ok \<lparr>f_dlopen = o', f_dlclose = c, f_dlsym = s, f_dlerror = e, f_mmap = m, f_errno = n\<rparr>))))))"

text \<open>What happens when \<open>_do_dlclose\<close> is dropped.\<close>

definition do_dlclose :: "('w, 'g) tracer \<Rightarrow> 'g trace_arch \<Rightarrow> 'g tracee \<Rightarrow> libc_funs \<Rightarrow> u64 \<Rightarrow> 'w \<Rightarrow> 'w option" where
  "do_dlclose sys A tracee their handle w =
     Option.bind (funcall1 sys A tracee (f_dlclose their) handle w) (\<lambda>(w, r).
       case r of
         Ok n \<Rightarrow> if n = 0 then Some w else map_option fst (get_dlerror sys A tracee (f_dlerror their) w)
       | _ \<Rightarrow> Some w)"

definition call_payload ::
  "('w, 'g) tracer \<Rightarrow> 'g trace_arch \<Rightarrow> 'g tracee \<Rightarrow> libc_funs \<Rightarrow> 32 word list \<Rightarrow> u64 \<Rightarrow> u64 \<Rightarrow> 'w \<Rightarrow> ('w, unit) traced"
where
  "call_payload sys A tracee their fds mmap_addr handle w =
     st_then (Some (w, add_chk mmap_addr (of_nat (length LIB_PATH)))) (\<lambda>w nm.
     st_then (funcall2 sys A tracee (f_dlsym their) handle nm w) (\<lambda>w payload.
       if payload = 0 then fail_with ''remote dlsym failed'' (get_dlerror sys A tracee (f_dlerror their) w)
       else
         st_then (poke_data sys mmap_addr (concat (map (to_le_bytes 4) fds)) w) (\<lambda>w u.
         st_then (funcall2 sys A tracee payload mmap_addr (of_nat (length fds)) w) (\<lambda>w n.
           let error = sint (ucast n :: 32 word) in
           if error \<noteq> 0 then Some (w, Err (vm_with_context ''payload failed'' (DynIo (IoOs error))))
           else Some (w, Ok ())))))"

definition attached_body ::
  "('w, 'g) tracer \<Rightarrow> 'g trace_arch \<Rightarrow> libc_funs \<Rightarrow> 32 word list \<Rightarrow> 'g tracee \<Rightarrow> 'w \<Rightarrow> ('w, unit) traced"
where
  "attached_body sys A their fds tracee w =
     st_then (funcall6 sys A tracee (f_mmap their) 0 0x1000 1 0x22 (- 1) 0 w) (\<lambda>w mmap_addr.
       if (ucast mmap_addr :: 32 word) = - 1
       then fail_with ''remote mmap failed'' (get_errno sys A tracee (f_errno their) w)
       else
         st_then (poke_data sys mmap_addr (LIB_PATH @ FUN_NAME) w) (\<lambda>w u.
         st_then (funcall2 sys A tracee (f_dlopen their) mmap_addr 2 w) (\<lambda>w handle.
           if handle = 0 then fail_with ''remote dlopen failed'' (get_dlerror sys A tracee (f_dlerror their) w)
           else finally_do (do_dlclose sys A tracee their handle) (call_payload sys A tracee their fds mmap_addr handle w))))"

text \<open>\<open>own_maps\<close> and \<open>own_pid\<close> are those of the library's process.\<close>

definition kvm_attach ::
  "((string, io_error) result list, io_error) result \<Rightarrow> nat \<Rightarrow> libc_funs \<Rightarrow> ('w, 'g) tracer \<Rightarrow> 'g trace_arch \<Rightarrow> nat \<Rightarrow>
   32 word list \<Rightarrow> 'w \<Rightarrow> ('w, unit) traced"
where
  "kvm_attach own_maps own_pid ours sys A pid fds w =
     st_then (Some (w, find_lib own_maps own_pid ''libc.so'')) (\<lambda>w our_libc.
     st_then (Some (w, find_lib (proc_maps sys w) pid ''libc.so'')) (\<lambda>w their_libc.
     st_then (Some (w, remote_funs our_libc their_libc ours)) (\<lambda>w their.
     st_then (Option.bind (tracee_attach sys A pid w) (\<lambda>(w, r). Some (w, context_res DynVm ''failed to attach to KVM'' r))) (\<lambda>w tracee.
       finally_do (tracee_drop sys A tracee) (attached_body sys A their fds tracee w)))))"

section \<open>File descriptors of the processors\<close>

text \<open>\<open>str::parse::<i32>\<close>.\<close>

definition parse_i32 :: "string \<Rightarrow> 32 word option" where
  "parse_i32 s =
     (case s of
        c # r \<Rightarrow>
          if c = CHR ''-'' then
            (if r \<noteq> [] \<and> hd r \<noteq> CHR ''+'' then
               Option.bind (from_str_radix 10 32 r) (\<lambda>n. if n \<le> 2 ^ 31 then Some (- of_nat n) else None)
             else None)
          else map_option of_nat (from_str_radix 10 31 s)
      | [] \<Rightarrow> None)"

text \<open>An entry of the directory: the name of the file and the target of the link.\<close>

definition read_one_fd :: "(u8 list \<times> (u8 list, io_error) result, io_error) result \<Rightarrow> 32 word option" where
  "read_one_fd entry =
     (case entry of
        Ok (nm, Ok target) \<Rightarrow>
          Option.bind (from_utf8 target) (\<lambda>fd_name.
            if take 20 fd_name = ''anon_inode:kvm-vcpu:'' then Option.bind (from_utf8 nm) parse_i32 else None)
      | _ \<Rightarrow> None)"

definition get_vcpus_fds ::
  "((u8 list \<times> (u8 list, io_error) result, io_error) result list, io_error) result \<Rightarrow> 32 word list vm_result"
where
  "get_vcpus_fds fd_dir = map_ok (List.map_filter read_one_fd) (map_err vm_of_io fd_dir)"

section \<open>The listener\<close>

text \<open>
  \<open>ln_bind\<close> and \<open>ln_set_permissions\<close> are the outcomes of the calls; \<open>ln_stream\<close> is what the accepted connection gives
  when the thread is joined.
\<close>

record 'w listener =
  ln_bind :: "(unit, io_error) result"
  ln_set_permissions :: "(unit, io_error) result"
  ln_stream :: "'w \<Rightarrow> (u8 list, io_error) result"

definition start_listener :: "'w listener \<Rightarrow> unit vm_result" where
  "start_listener ln =
     and_then (context_res DynIo ''failed to bind listener socket'' (ln_bind ln)) (\<lambda>u.
       map_err vm_of_io (ln_set_permissions ln))"

text \<open>The thread; \<open>read_vcpus\<close> reads the registers of a number of processors.\<close>

definition listener_thread ::
  "(nat \<Rightarrow> u8 list \<Rightarrow> ('v list \<times> u8 list, io_error) result) \<Rightarrow> nat \<Rightarrow> (u8 list, io_error) result \<Rightarrow> 'v list vm_result"
where
  "listener_thread read_vcpus fds_len stream =
     map_err vm_of_io (and_then stream (\<lambda>bs. map_ok fst (read_vcpus fds_len bs)))"

definition get_regs ::
  "((string, io_error) result list, io_error) result \<Rightarrow> nat \<Rightarrow> libc_funs \<Rightarrow> ('w, 'g) tracer \<Rightarrow> 'g trace_arch \<Rightarrow> nat \<Rightarrow>
   ((u8 list \<times> (u8 list, io_error) result, io_error) result list, io_error) result \<Rightarrow> 'w listener \<Rightarrow>
   (nat \<Rightarrow> u8 list \<Rightarrow> ('v list \<times> u8 list, io_error) result) \<Rightarrow> 'w \<Rightarrow> ('w, 'v list) traced"
where
  "get_regs own_maps own_pid ours sys A pid fd_dir ln read_vcpus w =
     st_then (Some (w, get_vcpus_fds fd_dir)) (\<lambda>w fds.
     st_then (Some (w, start_listener ln)) (\<lambda>w u.
     st_then (kvm_attach own_maps own_pid ours sys A pid fds w) (\<lambda>w u.
       Some (w, listener_thread read_vcpus (length fds) (ln_stream ln w)))))"

section \<open>The payload\<close>

record kvm_msr_entry =
  me_index :: u32
  me_reserved :: u32
  me_data :: u64

record kvm_msrs =
  km_nmsrs :: u32
  km_pad :: u32
  km_entries :: "kvm_msr_entry list"

text \<open>The calls of KVM that return registers of a processor.\<close>

record kvm_calls =
  kvm_get_regs_call :: "32 word \<Rightarrow> (x86_registers, io_error) result"
  kvm_get_sregs_call :: "32 word \<Rightarrow> (x86_special_registers, io_error) result"
  kvm_get_msrs_call :: "32 word \<Rightarrow> kvm_msrs \<Rightarrow> (kvm_msrs, io_error) result"
  kvm_get_one_reg_call :: "32 word \<Rightarrow> u64 \<Rightarrow> (u64, io_error) result"

definition payload_get_msrs :: "kvm_calls \<Rightarrow> 32 word \<Rightarrow> (x86_other_registers, io_error) result" where
  "payload_get_msrs kvm fd =
     map_ok (\<lambda>msrs. \<lparr>lstar = me_data (km_entries msrs ! 0), gs_kernel_base = me_data (km_entries msrs ! 1)\<rparr>)
       (kvm_get_msrs_call kvm fd
          \<lparr>km_nmsrs = 2, km_pad = 0,
           km_entries = [\<lparr>me_index = 0xc0000082, me_reserved = 0, me_data = 0\<rparr>, \<lparr>me_index = 0xc0000102, me_reserved = 0, me_data = 0\<rparr>]\<rparr>)"

fun get_reg_list :: "kvm_calls \<Rightarrow> 32 word \<Rightarrow> u64 list \<Rightarrow> (u64 list, io_error) result" where
  "get_reg_list kvm fd [] = Ok []"
| "get_reg_list kvm fd (i # is) =
     and_then (kvm_get_one_reg_call kvm fd i) (\<lambda>r. map_ok ((#) r) (get_reg_list kvm fd is))"

definition arm_reg_id :: "nat \<Rightarrow> u64" where
  "arm_reg_id i = 0x6030000000100000 + 2 * of_nat i"

definition payload_arm_regs :: "kvm_calls \<Rightarrow> 32 word \<Rightarrow> (arm_registers, io_error) result" where
  "payload_arm_regs kvm fd =
     map_ok (\<lambda>w. \<lparr>arm_regs = take 31 w, arm_sp = w ! 31, arm_pc = w ! 32, arm_pstate = w ! 33\<rparr>)
       (get_reg_list kvm fd (map arm_reg_id [0..<34]))"

definition payload_arm_special :: "kvm_calls \<Rightarrow> 32 word \<Rightarrow> (arm_special_registers, io_error) result" where
  "payload_arm_special kvm fd =
     map_ok (\<lambda>w. \<lparr>sp_el1 = w ! 0, ttbr0_el1 = w ! 1, ttbr1_el1 = w ! 2, vbar_el1 = w ! 3\<rparr>)
       (get_reg_list kvm fd [0x6030000000100044, 0x603000000013c100, 0x603000000013c101, 0x603000000013c600])"

text \<open>The chunks of a processor that are written to the socket, on each architecture.\<close>

definition x86_chunks :: "kvm_calls \<Rightarrow> 32 word \<Rightarrow> (u8 list list, io_error) result" where
  "x86_chunks kvm fd =
     and_then (kvm_get_regs_call kvm fd) (\<lambda>regs.
     and_then (kvm_get_sregs_call kvm fd) (\<lambda>sregs.
     and_then (payload_get_msrs kvm fd) (\<lambda>msrs.
       Ok [enc_x86_registers regs, enc_x86_special sregs, enc_x86_other msrs])))"

definition arm_chunks :: "kvm_calls \<Rightarrow> 32 word \<Rightarrow> (u8 list list, io_error) result" where
  "arm_chunks kvm fd =
     and_then (payload_arm_regs kvm fd) (\<lambda>regs.
     and_then (payload_arm_special kvm fd) (\<lambda>sregs.
       Ok [enc_arm_registers regs, enc_arm_special sregs]))"

fun send_loop ::
  "(32 word \<Rightarrow> (u8 list list, io_error) result) \<Rightarrow> writer \<Rightarrow> 32 word list \<Rightarrow> u8 list \<Rightarrow> u8 list \<times> (unit, io_error) result"
where
  "send_loop chunks wr [] out = (out, Ok ())"
| "send_loop chunks wr (fd # fds) out =
     (case chunks fd of
        Ok cs \<Rightarrow>
          (case write_chunks wr cs out of
             (out, Ok u) \<Rightarrow> send_loop chunks wr fds out
           | (out, r) \<Rightarrow> (out, r))
      | Err e \<Rightarrow> (out, Err e)
      | Panic \<Rightarrow> (out, Panic))"

definition send_fds ::
  "(unit, io_error) result \<Rightarrow> (32 word \<Rightarrow> (u8 list list, io_error) result) \<Rightarrow> writer \<Rightarrow> 32 word list \<Rightarrow>
   u8 list \<times> (unit, io_error) result"
where
  "send_fds connect chunks wr fds =
     (case connect of Ok u \<Rightarrow> send_loop chunks wr fds [] | Err e \<Rightarrow> ([], Err e) | Panic \<Rightarrow> ([], Panic))"

text \<open>The value that the payload returns to its caller.\<close>

definition vminer_payload ::
  "(unit, io_error) result \<Rightarrow> (32 word \<Rightarrow> (u8 list list, io_error) result) \<Rightarrow> writer \<Rightarrow> 32 word list \<Rightarrow>
   u8 list \<times> (int, io_error) result"
where
  "vminer_payload connect chunks wr fds =
     (case send_fds connect chunks wr fds of
        (out, Ok u) \<Rightarrow> (out, Ok 0)
      | (out, Err (IoOs n)) \<Rightarrow> (out, Ok n)
      | (out, Err e) \<Rightarrow> (out, Ok 777)
      | (out, Panic) \<Rightarrow> (out, Panic))"

end
