(* ===== verification/Vm_Dump_Laws.thy ===== *)
theory Vm_Dump_Laws
  imports Vm_Dump
begin

text \<open>
  A dump that was written is read back: the structures decode to what was encoded, the processors and
  the mappings are the same, and a read of the loaded memory gives the bytes of the original.
\<close>

section \<open>Structures\<close>

lemma length_enc_u64s [simp]: "length (enc_u64s xs) = 8 * length xs"
  by (induction xs) (simp_all add: enc_u64s_def)

lemma enc_u64s_Cons [simp]: "enc_u64s (x # xs) = to_le_bytes 8 x @ enc_u64s xs"
  and enc_u64s_Nil [simp]: "enc_u64s [] = []"
  and enc_u64s_append [simp]: "enc_u64s (xs @ ys) = enc_u64s xs @ enc_u64s ys"
  by (simp_all add: enc_u64s_def)

lemma dec_u64s_Suc: "dec_u64s (Suc n) (to_le_bytes 8 x @ bs) = x # dec_u64s n bs"
proof -
  have "map (\<lambda>i. of_le_bytes (take 8 (drop (8 * i) (to_le_bytes 8 x @ bs)))) (map Suc [0..<n]) = dec_u64s n bs"
    by (simp add: dec_u64s_def)
  then show ?thesis
    by (simp only: dec_u64s_def upt_conv_Cons [OF zero_less_Suc] map_Suc_upt [symmetric] list.map) simp
qed

lemma dec_enc_u64s: "length xs = n \<Longrightarrow> dec_u64s n (enc_u64s xs @ rest) = xs"
proof (induction xs arbitrary: n)
  case Nil
  then show ?case by (simp add: dec_u64s_def)
next
  case (Cons x xs)
  then show ?case by (cases n) (auto simp: dec_u64s_Suc)
qed

lemma dec_enc_u64s_end: "length xs = n \<Longrightarrow> dec_u64s n (enc_u64s xs) = xs"
  using dec_enc_u64s [of xs n "[]"] by simp

lemma dec_x86_registers [simp]: "dec_x86_registers (enc_x86_registers r) = r"
  by (simp add: dec_x86_registers_def enc_x86_registers_def dec_enc_u64s_end Let_def
      del: enc_u64s_Cons enc_u64s_Nil)

lemma length_enc_x86_registers [simp]: "length (enc_x86_registers r) = 144"
  by (simp add: enc_x86_registers_def del: enc_u64s_Cons enc_u64s_Nil)

lemma of_to_le_4 [simp]: "of_le_bytes (to_le_bytes 4 w) = (w :: u32)"
  and of_to_le_2 [simp]: "of_le_bytes (to_le_bytes 2 w2) = (w2 :: u16)"
  by (simp_all add: of_to_le_bytes take_bit_word_eq_self)

lemma length_enc_segment [simp]: "length (enc_segment s) = 24"
  by (simp add: enc_segment_def)

lemma dec_segment [simp]: "dec_segment (enc_segment s) = s"
  by (simp add: dec_segment_def enc_segment_def nth_append)

definition x86_special_wf :: "x86_special_registers \<Rightarrow> bool" where
  "x86_special_wf r \<longleftrightarrow> length (dt_padding (sr_gdt r)) = 3 \<and> length (dt_padding (sr_idt r)) = 3 \<and>
     length (interrupt_bitmap r) = 4"

lemma length_3E: "length xs = 3 \<Longrightarrow> (\<And>a b c. xs = [a, b, c] \<Longrightarrow> P) \<Longrightarrow> P"
  by (auto simp: numeral_3_eq_3 length_Suc_conv)

lemma length_enc_dtable: "length (dt_padding d) = 3 \<Longrightarrow> length (enc_dtable d) = 16"
  by (auto simp: enc_dtable_def elim!: length_3E)

lemma dec_dtable: "length (dt_padding d) = 3 \<Longrightarrow> dec_dtable (enc_dtable d) = d"
  by (erule length_3E) (simp add: dec_dtable_def enc_dtable_def upt_rec)

lemma length_enc_x86_special: "x86_special_wf r \<Longrightarrow> length (enc_x86_special r) = 312"
  by (simp add: enc_x86_special_def x86_special_wf_def length_enc_dtable del: enc_u64s_Cons enc_u64s_append)

lemma dec_x86_special: "x86_special_wf r \<Longrightarrow> dec_x86_special (enc_x86_special r) = r"
  by (simp add: dec_x86_special_def enc_x86_special_def x86_special_wf_def length_enc_dtable dec_dtable
      dec_enc_u64s_end Let_def del: enc_u64s_Cons enc_u64s_append enc_u64s_Nil)

lemma dec_x86_other [simp]: "dec_x86_other (enc_x86_other r) = r"
  and length_enc_x86_other [simp]: "length (enc_x86_other r) = 16"
  by (simp_all add: dec_x86_other_def enc_x86_other_def dec_enc_u64s_end Let_def
      del: enc_u64s_Cons enc_u64s_Nil)

lemma dec_arm_registers: "length (arm_regs r) = 31 \<Longrightarrow> dec_arm_registers (enc_arm_registers r) = r"
  and length_enc_arm_registers: "length (arm_regs r) = 31 \<Longrightarrow> length (enc_arm_registers r) = 272"
  by (simp_all add: dec_arm_registers_def enc_arm_registers_def dec_enc_u64s_end Let_def nth_append
      del: enc_u64s_Cons enc_u64s_append enc_u64s_Nil)

lemma dec_arm_special [simp]: "dec_arm_special (enc_arm_special r) = r"
  and length_enc_arm_special [simp]: "length (enc_arm_special r) = 32"
  by (simp_all add: dec_arm_special_def enc_arm_special_def dec_enc_u64s_end Let_def
      del: enc_u64s_Cons enc_u64s_Nil)

lemma dec_header [simp]: "dec_header (enc_header h) = h"
  and length_enc_header [simp]: "length (enc_header h) = 16"
  by (simp_all add: dec_header_def enc_header_def)

lemma length_enc_mappings [simp]: "length (enc_mappings ms) = 16 * length ms"
  by (induction ms) (simp_all add: enc_mappings_def)

lemma dec_mappings_Suc:
  "dec_mappings (Suc n) (enc_u64s [mm_start m, mm_end m] @ bs) = m # dec_mappings n bs"
proof -
  have "map (\<lambda>i. let w = dec_u64s 2 (drop (16 * i) (enc_u64s [mm_start m, mm_end m] @ bs))
          in \<lparr>mm_start = w ! 0, mm_end = w ! 1\<rparr>) (map Suc [0..<n]) = dec_mappings n bs"
    by (simp add: dec_mappings_def del: enc_u64s_Cons)
  moreover have "dec_u64s 2 (enc_u64s [mm_start m, mm_end m] @ bs) = [mm_start m, mm_end m]"
    by (rule dec_enc_u64s) simp
  ultimately show ?thesis
    by (simp only: dec_mappings_def upt_conv_Cons [OF zero_less_Suc] map_Suc_upt [symmetric] list.map) simp
qed

lemma dec_enc_mappings: "dec_mappings (length ms) (enc_mappings ms) = ms"
proof (induction ms)
  case Nil
  then show ?case by (simp add: dec_mappings_def)
next
  case (Cons m ms)
  have "enc_mappings (m # ms) = enc_u64s [mm_start m, mm_end m] @ enc_mappings ms"
    by (simp add: enc_mappings_def del: enc_u64s_Cons)
  then show ?case using Cons by (simp only: length_Cons dec_mappings_Suc)
qed

section \<open>Streams\<close>

lemma read_exact_append: "length xs = n \<Longrightarrow> read_exact n (xs @ rest) = Ok (xs, rest)"
  by (auto simp: read_exact_def)

fun dump_vcpus_wf :: "dump_vcpus \<Rightarrow> bool" where
  "dump_vcpus_wf (DumpX86 vs) \<longleftrightarrow> length vs < 2 ^ 32 \<and> (\<forall>v \<in> set vs. x86_special_wf (vcpu_special v))"
| "dump_vcpus_wf (DumpAarch64 vs) \<longleftrightarrow>
     length vs < 2 ^ 32 \<and> (\<forall>v \<in> set vs. length (arm_regs (vcpu_registers v)) = 31)"

lemma vcpu_eta: "\<lparr>vcpu_registers = vcpu_registers v, vcpu_special = vcpu_special v, vcpu_other = vcpu_other v\<rparr> = v"
  by simp

lemma read_x86_vcpus_enc:
  "\<forall>v \<in> set vs. x86_special_wf (vcpu_special v) \<Longrightarrow>
   read_x86_vcpus (length vs) (concat (concat (map enc_x86_vcpu vs)) @ rest) = Ok (vs, rest)"
proof (induction vs)
  case Nil
  then show ?case by simp
next
  case (Cons v vs)
  then show ?case
    by (simp add: enc_x86_vcpu_def read_exact_append length_enc_x86_special dec_x86_special)
qed

lemma read_arm_vcpus_enc:
  "\<forall>v \<in> set vs. length (arm_regs (vcpu_registers v)) = 31 \<Longrightarrow>
   read_arm_vcpus (length vs) (concat (concat (map enc_arm_vcpu vs)) @ rest) = Ok (vs, rest)"
proof (induction vs)
  case Nil
  then show ?case by simp
next
  case (Cons v vs)
  have "read_exact 0 s = Ok ([], s)" for s by (simp add: read_exact_def)
  moreover have "vcpu_other v = ArmOther" by (cases "vcpu_other v") simp
  ultimately show ?case
    using Cons by (simp add: enc_arm_vcpu_def read_exact_append length_enc_arm_registers dec_arm_registers)
qed

lemma dump_read_vcpus_enc:
  assumes "dump_vcpus_wf (dd_vcpus dd)"
  shows "dump_read_vcpus (h_arch (dump_header dd)) (unat (h_n_vcpus (dump_header dd)))
    (concat (dump_vcpu_chunks (dd_vcpus dd)) @ rest) = Ok (dd_vcpus dd, rest)"
  using assms
  by (cases "dd_vcpus dd")
    (simp_all add: dump_read_vcpus_def dump_header_def dump_vcpu_chunks_def unat_of_nat
      read_x86_vcpus_enc read_arm_vcpus_enc)

lemma write_chunks_vec: "write_chunks vec_writer cs out = (out @ concat cs, Ok ())"
  by (induction cs arbitrary: out) (simp_all add: vec_writer_def)

section \<open>The layout of the mappings\<close>

definition map_size :: "memory_map \<Rightarrow> nat" where
  "map_size m = unat (mm_end m) - unat (mm_start m)"

definition maps_ok :: "memory_map list \<Rightarrow> bool" where
  "maps_ok ms \<longleftrightarrow> (\<forall>m \<in> set ms. mm_start m \<le> mm_end m) \<and> sum_list (map map_size ms) < 2 ^ 63"

lemma maps_ok_Cons: "maps_ok (m # ms) \<Longrightarrow> mm_start m \<le> mm_end m \<and> map_size m < 2 ^ 63 \<and> maps_ok ms"
  by (simp add: maps_ok_def)

lemma unat_map_diff:
  assumes "mm_start m \<le> mm_end m"
  shows "unat (pa_diff (mm_end m) (mm_start m)) = map_size m"
  using assms by (simp add: pa_diff_def map_size_def unat_sub)

lemma sint_small:
  fixes w :: u64
  assumes "unat w < 2 ^ 63"
  shows "sint w = int (unat w)"
proof -
  have "int (unat w) < int (2 ^ 63)" using assms by (simp only: of_nat_less_iff)
  then have u: "int (unat w) - int (unat (0::u64)) < 2 ^ 63" by simp
  have l: "- (2 ^ 63) \<le> int (unat w) - int (unat (0::u64))" by (rule order_trans [of _ 0]) simp_all
  from sint_va_diff [OF l u] show ?thesis by (simp add: va_diff_def)
qed

lemma pa_add_small:
  fixes a d :: u64
  assumes "unat a + unat d < 2 ^ 63"
  shows "pa_add_assign_i64 a d = Ok (a + d)" "unat (a + d) = unat a + unat d" "add_i64 a d = Ok (a + d)"
proof -
  have "unat a < 2 ^ 63" "unat d < 2 ^ 63" using assms by linarith+
  then have s: "sint a = int (unat a)" "sint d = int (unat d)" by (simp_all only: sint_small)
  have i: "int (unat a) + int (unat d) < 2 ^ 63" using assms by (metis of_nat_add of_nat_less_numeral_power_cancel_iff)
  show "unat (a + d) = unat a + unat d" using assms by (intro unat_add_no_overflow) simp
  show "pa_add_assign_i64 a d = Ok (a + d)"
    using i by (simp add: pa_add_assign_i64_def pa_add_i64_def overflowing_add_signed_def s)
  have "- (2 ^ 63) \<le> int (unat a) + int (unat d)" by (rule order_trans [of _ 0]) simp_all
  then show "add_i64 a d = Ok (a + d)" using i by (simp add: add_i64_def s)
qed

lemma remap_offsets_ok:
  assumes "maps_ok ms" "unat acc + sum_list (map map_size ms) < 2 ^ 63"
  shows "\<exists>offs e. remap_offsets ms acc = (Ok (offs, e) :: (_, 'e) result) \<and> length offs = length ms \<and>
    (\<forall>k < length ms. unat (offs ! k) = unat acc + sum_list (map map_size (take k ms)))"
  using assms
proof (induction ms arbitrary: acc)
  case Nil
  then show ?case by simp
next
  case (Cons m ms)
  let ?d = "pa_diff (mm_end m) (mm_start m)"
  have m: "mm_start m \<le> mm_end m" "maps_ok ms" using maps_ok_Cons [OF Cons.prems(1)] by auto
  note d = unat_map_diff [OF m(1)]
  have lt: "unat acc + unat ?d < 2 ^ 63" using Cons.prems(2) d by simp
  note add = pa_add_small [OF lt]
  obtain offs e where o: "remap_offsets ms (acc + ?d) = (Ok (offs, e) :: (_, 'e) result)" "length offs = length ms"
    "\<forall>k < length ms. unat (offs ! k) = unat (acc + ?d) + sum_list (map map_size (take k ms))"
    using Cons.IH [OF m(2), of "acc + ?d"] Cons.prems(2) add(2) d by auto
  have "unat ((acc # offs) ! k) = unat acc + sum_list (map map_size (take k (m # ms)))"
    if "k < length (m # ms)" for k
    using that o(3) add(2) d by (cases k) auto
  then show ?case using o by (simp add: add(1))
qed

lemma mappings_size_ok:
  assumes "maps_ok ms" "unat acc + sum_list (map map_size ms) < 2 ^ 63"
  shows "\<exists>e. mappings_size ms acc = Ok e \<and> unat e = unat acc + sum_list (map map_size ms)"
  using assms
proof (induction ms arbitrary: acc)
  case Nil
  then show ?case by simp
next
  case (Cons m ms)
  let ?d = "pa_diff (mm_end m) (mm_start m)"
  have m: "mm_start m \<le> mm_end m" "maps_ok ms" using maps_ok_Cons [OF Cons.prems(1)] by auto
  note d = unat_map_diff [OF m(1)]
  have lt: "unat acc + unat ?d < 2 ^ 63" using Cons.prems(2) d by simp
  show ?case
    using Cons.IH [OF m(2), of "acc + ?d"] Cons.prems(2) pa_add_small(2) [OF lt] d
    by (simp add: pa_add_small(3) [OF lt] add.assoc)
qed

section \<open>The round trip\<close>

text \<open>The documented behaviour of the random access to a file.\<close>

definition reads_content :: "(u8 list \<Rightarrow> u8 list \<Rightarrow> u64 \<Rightarrow> u8 list \<times> (unit, io_error) result) \<Rightarrow> bool" where
  "reads_content read_at \<longleftrightarrow> (\<forall>content bf off. unat off + length bf \<le> length content \<longrightarrow>
     read_at content bf off = (take (length bf) (drop (unat off) content), Ok ()))"

definition maps_disjoint :: "memory_map list \<Rightarrow> bool" where
  "maps_disjoint ms \<longleftrightarrow> sorted_wrt (\<lambda>m m'. mm_end m \<le> mm_start m' \<or> mm_end m' \<le> mm_start m) ms"

definition mem_image :: "(nat \<Rightarrow> u8) \<Rightarrow> memory_map list \<Rightarrow> u8 list" where
  "mem_image byte ms = concat (map (\<lambda>m. bytes_at byte (unat (mm_start m)) (map_size m)) ms)"

lemma length_mem_image: "length (mem_image byte ms) = sum_list (map map_size ms)"
  by (induction ms) (simp_all add: mem_image_def)

lemma mem_image_nth:
  "k < length ms \<Longrightarrow> x + n \<le> map_size (ms ! k) \<Longrightarrow>
   take n (drop (sum_list (map map_size (take k ms)) + x) (mem_image byte ms)) =
     bytes_at byte (unat (mm_start (ms ! k)) + x) n"
proof (induction ms arbitrary: k)
  case Nil
  then show ?case by simp
next
  case (Cons m ms)
  have c: "mem_image byte (m # ms) = bytes_at byte (unat (mm_start m)) (map_size m) @ mem_image byte ms"
    by (simp add: mem_image_def)
  show ?case
  proof (cases k)
    case 0
    then have "min n (map_size m - x) = n" "n - (map_size m - x) = 0" using Cons.prems by simp_all
    then show ?thesis using 0 by (simp add: c)
  next
    case (Suc k')
    then show ?thesis using Cons by (simp add: c add.assoc)
  qed
qed

lemma dump_write_content:
  assumes "flat_memory (remap_read_physical (dd_mem dd)) readable byte"
    and "\<forall>m \<in> set (mr_mappings (dd_mem dd)). flat_memory.whole_mapping readable m"
  shows "dump_write (Ok ()) vec_writer dd =
    (enc_header (dump_header dd) @ enc_mappings (mr_mappings (dd_mem dd)) @
     concat (dump_vcpu_chunks (dd_vcpus dd)) @ mem_image byte (mr_mappings (dd_mem dd)), Ok ())"
  using flat_memory.dump_default_whole [OF assms]
  by (simp add: dump_write_def write_chunks_vec vec_writer_def mem_remap_impl_def with_defaults_def mem_image_def map_size_def)

lemma file_read_content:
  assumes "reads_content read_at" "length content < 2 ^ 64" "start \<le> length content"
    and "unat a + length bf \<le> length content - start" "bf \<noteq> []"
  shows "file_read_physical \<lparr>read_exact_at = read_at content, file_start = of_nat start,
      file_mapping = \<lparr>mm_start = 0, mm_end = of_nat (length content) - of_nat start\<rparr>\<rparr> a bf =
    (take (length bf) (drop (start + unat a) content), Ok ())"
proof -
  have range: "unat a + length bf < 2 ^ 64" using assms(2-4) by linarith
  have s: "unat (of_nat start :: u64) = start" using assms(2,3) by (simp add: unat_of_nat)
  have le: "(of_nat start :: u64) \<le> of_nat (length content)"
    using assms(2,3) s by (simp add: word_le_nat_alt unat_of_nat)
  have e: "unat (of_nat (length content) - of_nat start :: u64) = length content - start"
    using assms(2) s by (simp add: unat_sub [OF le] unat_of_nat)
  have v: "is_valid_default [\<lparr>mm_start = 0, mm_end = of_nat (length content) - of_nat start\<rparr>] a (length bf) = Ok True"
    unfolding is_valid_default_iff [OF range] using assms(4) by (simp add: covers_def e)
  have add: "start + unat a < 2 ^ 64" using assms(2-5) by linarith
  then have "unat (of_nat start + a) = start + unat a"
    using s by (simp add: unat_add_no_overflow)
  then show ?thesis
    using v s add assms(1,3,4) by (simp add: file_read_physical_def add_chk_def reads_content_def)
qed

lemma whole_covered_read:
  assumes flat: "flat_memory rd readable byte" and "flat_memory.whole_mapping readable m"
    and "covers m a (length bf)" "bf \<noteq> []"
  shows "rd a bf = (bytes_at byte (unat a) (length bf), Ok ())"
proof -
  let ?i = "unat a - unat (mm_start m)"
  have i: "unat (mm_start m) \<le> unat a" "unat a + length bf \<le> unat (mm_end m)"
    using assms(3) by (auto simp: covers_def word_le_nat_alt)
  have "readable (mm_start m) (unat (mm_end m) - unat (mm_start m))"
    using assms(2) by (simp add: flat_memory.whole_mapping_def [OF flat])
  then have "readable (mm_start m + of_nat ?i) (length bf)"
    using i assms(4) by (intro flat_memory.readable_sub [OF flat]) auto
  moreover have "mm_start m + of_nat ?i = a" using i(1) by (simp add: of_nat_diff)
  ultimately show ?thesis using flat_memory.read_readable [OF flat, of a bf] by simp
qed

text \<open>What \<open>DumbDump::read\<close> builds from the content of a written dump.\<close>

definition loaded_file ::
  "(u8 list \<Rightarrow> u8 list \<Rightarrow> u64 \<Rightarrow> u8 list \<times> (unit, io_error) result) \<Rightarrow> u8 list \<Rightarrow> nat \<Rightarrow> file_mem"
where
  "loaded_file read_at content start =
     \<lparr>read_exact_at = read_at content, file_start = of_nat start,
      file_mapping = \<lparr>mm_start = 0, mm_end = of_nat (length content) - of_nat start\<rparr>\<rparr>"

lemma dump_read_written:
  fixes dd :: dumb_dump and byte :: "nat \<Rightarrow> u8"
  defines "ms \<equiv> mr_mappings (dd_mem dd)"
  defines "pre \<equiv> enc_header (dump_header dd) @ enc_mappings ms @ concat (dump_vcpu_chunks (dd_vcpus dd))"
  assumes "maps_ok ms" "length ms < 2 ^ 32" "dump_vcpus_wf (dd_vcpus dd)"
    and "content = pre @ mem_image byte ms" "length content < 2 ^ 64" "fs_open p = Ok content"
    and "remap_offsets ms 0 = (Ok (offs, e) :: (_, vm_error) result)"
  shows "dump_read read_at fs_open p =
    Ok \<lparr>dd_vcpus = dd_vcpus dd,
        dd_mem = remap_new (file_mem_impl (loaded_file read_at content (length pre))) ms offs\<rparr>"
proof -
  let ?H = "enc_header (dump_header dd)" and ?M = "enc_mappings ms"
    and ?V = "concat (dump_vcpu_chunks (dd_vcpus dd))" and ?I = "mem_image byte ms"
  have c: "content = ?H @ ?M @ ?V @ ?I" using assms(6) by (simp add: pre_def)
  have n: "unat (h_n_mappings (dump_header dd)) = length ms"
    using assms(4) by (simp add: dump_header_def ms_def unat_of_nat)
  have magic: "h_magic (dump_header dd) = MAGIC" by (simp add: dump_header_def)
  obtain sz where sz: "mappings_size ms 0 = (Ok sz :: i64 vm_result)" "unat sz = length ?I"
    using mappings_size_ok [of ms 0] assms(3) by (auto simp: maps_ok_def length_mem_image)
  have start: "length content - length ?I = length pre" using assms(6) by simp
  have pre: "length pre \<le> length content" "length content - length pre = length ?I" using assms(6) by simp_all
  have u: "unat (of_nat (length content) :: u64) = length content" "unat (of_nat (length pre) :: u64) = length pre"
    using assms(7) pre(1) by (simp_all add: unat_of_nat)
  have le: "(of_nat (length pre) :: u64) \<le> of_nat (length content)"
    unfolding word_le_nat_alt u by (rule pre(1))
  have "unat (of_nat (length content) - of_nat (length pre) :: u64) = length ?I"
    unfolding unat_sub [OF le] u by (rule pre(2))
  then have len: "of_nat (length content) - of_nat (length pre) = sz"
    using sz(2) by (simp add: word_unat_eq_iff)
  have H: "read_exact 16 content = Ok (?H, ?M @ ?V @ ?I)"
    unfolding c by (rule read_exact_append) simp
  have M: "read_exact (16 * length ms) (?M @ ?V @ ?I) = Ok (?M, ?V @ ?I)"
    by (rule read_exact_append) simp
  show ?thesis
    unfolding dump_read_def assms(8) map_err.simps and_then.simps H prod.case dec_header n M Let_def
      dec_enc_mappings assms(9) dump_read_vcpus_enc [OF assms(5)] start sz(1)
    using le len magic
    by (simp add: sub_chk_def file_new_def loaded_file_def)
qed

lemma remap_wf_loaded:
  assumes "maps_ok ms" "maps_disjoint ms" "length offs = length ms"
    and "\<forall>k < length ms. unat (offs ! k) = sum_list (map map_size (take k ms))"
  shows "remap_wf (remap_new inner ms offs)"
proof -
  have b: "sum_list (map map_size (take k ms)) + map_size (ms ! k) < 2 ^ 63" if "k < length ms" for k
  proof -
    have "sum_list (map map_size (take k ms)) + map_size (ms ! k) = sum_list (map map_size (take (Suc k) ms))"
      using that by (simp add: take_Suc_conv_app_nth)
    also have "\<dots> \<le> sum_list (map map_size (take (Suc k) ms)) + sum_list (map map_size (drop (Suc k) ms))" by simp
    also have "\<dots> = sum_list (map map_size ms)"
      by (metis append_take_drop_id map_append sum_list_append)
    finally show ?thesis using assms(1) by (simp add: maps_ok_def)
  qed
  have "list_all2 (\<lambda>m r. unat (mm_end m) - unat (mm_start m) < 2 ^ 63 \<and>
      unat r + (unat (mm_end m) - unat (mm_start m)) < 2 ^ 64) ms offs"
    unfolding list_all2_conv_all_nth using b assms(3,4) by (fastforce simp: map_size_def)
  then show ?thesis
    using assms(2,3) by (simp add: remap_wf_def remap_new_def maps_disjoint_def)
qed

lemma loaded_read:
  assumes "reads_content read_at" "maps_ok ms" "maps_disjoint ms" "length offs = length ms"
    and "\<forall>k < length ms. unat (offs ! k) = sum_list (map map_size (take k ms))"
    and "content = pre @ mem_image byte ms" "length content < 2 ^ 64"
    and "k < length ms" "covers (ms ! k) a (length bf)" "bf \<noteq> []"
  shows "remap_read_physical (remap_new (file_mem_impl (loaded_file read_at content (length pre))) ms offs) a bf =
    (bytes_at byte (unat a) (length bf), Ok ())"
proof -
  let ?r = "remap_new (file_mem_impl (loaded_file read_at content (length pre))) ms offs"
  let ?a = "offs ! k + (a - mm_start (ms ! k))" and ?x = "unat a - unat (mm_start (ms ! k))"
  have sel: "mr_mappings ?r = ms" "remap_at ?r = offs"
    "mr_inner ?r = file_mem_impl (loaded_file read_at content (length pre))"
    by (simp_all add: remap_new_def)
  note wf = remap_wf_loaded [OF assms(2-5), of "file_mem_impl (loaded_file read_at content (length pre))"]
  have cov: "k < length (mr_mappings ?r)" "covers (mr_mappings ?r ! k) a (length bf)" using assms(8,9) sel by simp_all
  have pos: "0 < length bf" using assms(10) by simp
  have ua: "unat ?a = sum_list (map map_size (take k ms)) + ?x"
    using remap_addr_covered(2) [OF wf cov pos] assms(5,8) by (simp add: sel)
  have x: "unat (mm_start (ms ! k)) + ?x = unat a" "?x + length bf \<le> map_size (ms ! k)"
    using assms(9) by (auto simp: covers_def map_size_def word_le_nat_alt)
  have img: "take (length bf) (drop (unat ?a) (mem_image byte ms)) = bytes_at byte (unat a) (length bf)"
    unfolding ua using mem_image_nth [OF assms(8) x(2)] x(1) by simp
  then have "length (take (length bf) (drop (unat ?a) (mem_image byte ms))) = length bf" by simp
  then have "length bf \<le> length (mem_image byte ms) - unat ?a" by (simp add: min_def split: if_splits)
  then have "unat ?a + length bf \<le> length (mem_image byte ms)" using pos by linarith
  then have "unat ?a + length bf \<le> length content - length pre" using assms(6) by simp
  then have "file_read_physical (loaded_file read_at content (length pre)) ?a bf =
      (take (length bf) (drop (length pre + unat ?a) content), Ok ())"
    unfolding loaded_file_def using assms(6,7)
    by (intro file_read_content [OF assms(1)] assms(10)) simp_all
  moreover have "read_physical (file_mem_impl f) = file_read_physical f" for f
    by (simp add: file_mem_impl_def with_defaults_def)
  moreover have "drop (length pre + unat ?a) content = drop (unat ?a) (mem_image byte ms)"
    using assms(6) by simp
  ultimately show ?thesis
    unfolding remap_read_covered [OF wf cov assms(10)] sel using img by simp
qed

end
