(* ===== verification/Vm_Kvm_Attach_Laws.thy ===== *)
theory Vm_Kvm_Attach_Laws
  imports Vm_Kvm_Attach Vm_Dump_Laws
begin

text \<open>
  Laws of the injection of the payload. What is known of the traced process is a \<open>process_view\<close> of the world: whether
  it runs, its registers and its memory. \<open>tracer_ok\<close> collects what \<^verbatim>\<open>ptrace(2)\<close>, \<^verbatim>\<open>waitpid(2)\<close> and \<^verbatim>\<open>proc(5)\<close> say
  of the calls; nothing is said of what the process does while it runs. Every step of the injection then leaves the
  process stopped, so that whatever its outcome is, the drop of the tracee finds a process that it can restore. The
  second part shows that the listener reads back the registers that the payload has written.
\<close>

section \<open>Processes\<close>

datatype phase = Free | Running | Stopped

record ('w, 'g) process_view =
  pv_phase :: "'w \<Rightarrow> phase"
  pv_regs :: "'w \<Rightarrow> 'g"
  pv_mem :: "'w \<Rightarrow> u64 \<Rightarrow> u8"

section \<open>The calls of the operating system\<close>

definition same_process :: "('w, 'g) process_view \<Rightarrow> 'w \<Rightarrow> 'w \<Rightarrow> bool" where
  "same_process V w w' \<longleftrightarrow> pv_phase V w' = pv_phase V w \<and> pv_regs V w' = pv_regs V w \<and> pv_mem V w' = pv_mem V w"

text \<open>Reads of a stopped process change nothing and give its bytes, and some address is outside of its memory.\<close>

definition reads_ok :: "('w, 'g) process_view \<Rightarrow> ('w, 'g) tracer \<Rightarrow> bool" where
  "reads_ok V sys \<longleftrightarrow>
     (\<forall>w a n. pv_phase V w = Stopped \<longrightarrow>
        same_process V w (fst (proc_mem_read sys a n w)) \<and>
        (\<forall>bs. snd (proc_mem_read sys a n w) = Ok bs \<longrightarrow> bs = load_bytes (pv_mem V w) a n)) \<and>
     (\<exists>top. \<forall>w. pv_phase V w = Stopped \<longrightarrow> (\<exists>e. snd (proc_mem_read sys top 1 w) = Err e))"

text \<open>Writes of a stopped process do not let it run, and those to mapped addresses succeed.\<close>

definition writes_ok :: "('w, 'g) process_view \<Rightarrow> (u64 \<Rightarrow> bool) \<Rightarrow> ('w, 'g) tracer \<Rightarrow> bool" where
  "writes_ok V inmem sys \<longleftrightarrow>
     (\<forall>w a bs. pv_phase V w = Stopped \<longrightarrow>
        pv_phase V (fst (proc_mem_write sys a bs w)) = Stopped \<and>
        pv_regs V (fst (proc_mem_write sys a bs w)) = pv_regs V w \<and>
        ((\<forall>i < length bs. inmem (a + of_nat i)) \<longrightarrow>
           snd (proc_mem_write sys a bs w) = Ok () \<and>
           pv_mem V (fst (proc_mem_write sys a bs w)) = store_bytes (pv_mem V w) a bs))"

text \<open>The registers of a stopped process can be read and set.\<close>

definition regsets_ok :: "('w, 'g) process_view \<Rightarrow> 'g trace_arch \<Rightarrow> ('w, 'g) tracer \<Rightarrow> bool" where
  "regsets_ok V A sys \<longleftrightarrow>
     (\<forall>w. pv_phase V w = Stopped \<longrightarrow>
        same_process V w (fst (ptrace_getregset sys w)) \<and>
        proc_maps sys (fst (ptrace_getregset sys w)) = proc_maps sys w \<and>
        snd (ptrace_getregset sys w) = Ok (pv_regs V w, ta_size A)) \<and>
     (\<forall>w g. pv_phase V w = Stopped \<longrightarrow>
        pv_phase V (fst (ptrace_setregset sys g w)) = Stopped \<and>
        pv_regs V (fst (ptrace_setregset sys g w)) = g \<and>
        pv_mem V (fst (ptrace_setregset sys g w)) = pv_mem V w \<and>
        snd (ptrace_setregset sys g w) = Ok (ta_size A))"

text \<open>Attaching, continuing, waiting and detaching.\<close>

definition control_ok :: "('w, 'g) process_view \<Rightarrow> ('w, 'g) tracer \<Rightarrow> bool" where
  "control_ok V sys \<longleftrightarrow>
     (\<forall>w. pv_phase V w = Free \<longrightarrow>
        (case snd (ptrace_attach sys w) of
           Ok u \<Rightarrow> pv_phase V (fst (ptrace_attach sys w)) = Running
         | _ \<Rightarrow> pv_phase V (fst (ptrace_attach sys w)) = Free)) \<and>
     (\<forall>w. pv_phase V w = Stopped \<longrightarrow>
        (case snd (ptrace_cont sys w) of
           Ok u \<Rightarrow> pv_phase V (fst (ptrace_cont sys w)) = Running
         | _ \<Rightarrow> pv_phase V (fst (ptrace_cont sys w)) = Stopped)) \<and>
     (\<forall>w. pv_phase V w = Running \<longrightarrow>
        snd (ptrace_wait sys w) = Ok () \<and> pv_phase V (fst (ptrace_wait sys w)) = Stopped) \<and>
     (\<forall>w. pv_phase V w = Stopped \<longrightarrow>
        snd (ptrace_detach sys w) = Ok () \<and> pv_phase V (fst (ptrace_detach sys w)) = Free \<and>
        pv_regs V (fst (ptrace_detach sys w)) = pv_regs V w \<and> pv_mem V (fst (ptrace_detach sys w)) = pv_mem V w)"

text \<open>The mapping that \<^verbatim>\<open>/proc/pid/maps\<close> gives for the instructions is mapped, and stays so.\<close>

definition text_mapped ::
  "('w, 'g) process_view \<Rightarrow> (u64 \<Rightarrow> bool) \<Rightarrow> 'g trace_arch \<Rightarrow> nat \<Rightarrow> ('w, 'g) tracer \<Rightarrow> bool"
where
  "text_mapped V inmem A pid sys \<longleftrightarrow>
     (\<forall>w a. pv_phase V w = Stopped \<longrightarrow> find_lib (proc_maps sys w) pid ''/'' = Ok a \<longrightarrow>
        (\<forall>i < length (ta_instructions A). inmem (a + of_nat i)))"

definition tracer_ok ::
  "('w, 'g) process_view \<Rightarrow> (u64 \<Rightarrow> bool) \<Rightarrow> 'g trace_arch \<Rightarrow> nat \<Rightarrow> ('w, 'g) tracer \<Rightarrow> bool"
where
  "tracer_ok V inmem A pid sys \<longleftrightarrow>
     reads_ok V sys \<and> writes_ok V inmem sys \<and> regsets_ok V A sys \<and> control_ok V sys \<and> text_mapped V inmem A pid sys"

section \<open>Calls that leave the process stopped\<close>

definition stays_stopped :: "('w, 'g) process_view \<Rightarrow> ('w, 'a) traced \<Rightarrow> bool" where
  "stays_stopped V m \<longleftrightarrow> (\<exists>w r. m = Some (w, r) \<and> pv_phase V w = Stopped)"

named_theorems stopped_intros \<open>calls that leave the process stopped\<close>

lemma stays_then [stopped_intros]:
  assumes "stays_stopped V m" "\<And>w x. pv_phase V w = Stopped \<Longrightarrow> stays_stopped V (f w x)"
  shows "stays_stopped V (st_then m f)"
proof -
  obtain w r where m: "m = Some (w, r)" "pv_phase V w = Stopped" using assms(1) unfolding stays_stopped_def by blast
  show ?thesis using m assms(2) [OF m(2)] by (cases r) (simp_all add: stays_stopped_def)
qed

lemma stays_pure [stopped_intros]: "pv_phase V w = Stopped \<Longrightarrow> stays_stopped V (Some (w, r))"
  by (simp add: stays_stopped_def)

lemma stays_if [stopped_intros]:
  "(c \<Longrightarrow> stays_stopped V m) \<Longrightarrow> (\<not> c \<Longrightarrow> stays_stopped V m') \<Longrightarrow> stays_stopped V (if c then m else m')"
  by simp

lemma stays_let [stopped_intros]: "(\<And>x. stays_stopped V (f x)) \<Longrightarrow> stays_stopped V (let x = e in f x)"
  by (simp add: Let_def)

lemma stays_bind [stopped_intros]:
  "stays_stopped V m \<Longrightarrow> (\<And>w r. pv_phase V w = Stopped \<Longrightarrow> stays_stopped V (f (w, r))) \<Longrightarrow>
   stays_stopped V (Option.bind m f)"
  unfolding stays_stopped_def by (metis Option.bind.bind_lunit)

lemma stays_finally [stopped_intros]:
  assumes "stays_stopped V m" "\<And>w. pv_phase V w = Stopped \<Longrightarrow> \<exists>w'. clean w = Some w' \<and> pv_phase V w' = Stopped"
  shows "stays_stopped V (finally_do clean m)"
proof -
  obtain w r where "m = Some (w, r)" "pv_phase V w = Stopped" using assms(1) unfolding stays_stopped_def by blast
  then show ?thesis using assms(2) [of w] by (auto simp: finally_do_def stays_stopped_def)
qed

lemma tracer_okD:
  assumes "tracer_ok V inmem A pid sys"
  shows "reads_ok V sys" "writes_ok V inmem sys" "regsets_ok V A sys" "control_ok V sys" "text_mapped V inmem A pid sys"
  using assms by (simp_all add: tracer_ok_def)

lemma read_stopped:
  assumes "tracer_ok V inmem A pid sys" "pv_phase V w = Stopped" "proc_mem_read sys a n w = (w', r)"
  shows "same_process V w w'" "r = Ok bs \<Longrightarrow> bs = load_bytes (pv_mem V w) a n"
  using tracer_okD(1) [OF assms(1)] assms(2,3) unfolding reads_ok_def by (metis fst_conv, metis snd_conv)

lemma write_stopped:
  assumes "tracer_ok V inmem A pid sys" "pv_phase V w = Stopped" "proc_mem_write sys a bs w = (w', r)"
  shows "pv_phase V w' = Stopped" "pv_regs V w' = pv_regs V w"
    "\<forall>i < length bs. inmem (a + of_nat i) \<Longrightarrow> r = Ok () \<and> pv_mem V w' = store_bytes (pv_mem V w) a bs"
  using tracer_okD(2) [OF assms(1)] assms(2,3) unfolding writes_ok_def
  by (metis fst_conv, metis fst_conv, metis fst_conv snd_conv)

lemma stays_peek:
  assumes "tracer_ok V inmem A pid sys" "pv_phase V w = Stopped"
  shows "stays_stopped V (peek_data sys a n w)"
  using read_stopped(1) [OF assms, of a n] assms(2)
  by (cases "proc_mem_read sys a n w") (simp add: peek_data_def io_call_def stays_stopped_def same_process_def)

lemma stays_poke:
  assumes "tracer_ok V inmem A pid sys" "pv_phase V w = Stopped"
  shows "stays_stopped V (poke_data sys a bs w)"
  using write_stopped(1) [OF assms, of a bs]
  by (cases "proc_mem_write sys a bs w") (simp add: poke_data_def io_call_def stays_stopped_def)

lemma raw_get_registers_stopped:
  assumes "tracer_ok V inmem A pid sys" "pv_phase V w = Stopped"
  shows "\<exists>w'. raw_get_registers sys A w = Some (w', Ok (pv_regs V w)) \<and> same_process V w w' \<and>
              proc_maps sys w' = proc_maps sys w"
proof -
  obtain w' r where c: "ptrace_getregset sys w = (w', r)" by fastforce
  then have "same_process V w w'" "proc_maps sys w' = proc_maps sys w" "r = Ok (pv_regs V w, ta_size A)"
    using tracer_okD(3) [OF assms(1)] assms(2) unfolding regsets_ok_def by (metis fst_conv snd_conv)+
  then show ?thesis using c by (simp add: raw_get_registers_def context_res_def)
qed

lemma raw_set_registers_stopped:
  assumes "tracer_ok V inmem A pid sys" "pv_phase V w = Stopped"
  shows "\<exists>w'. raw_set_registers sys A g w = Some (w', Ok ()) \<and> pv_phase V w' = Stopped \<and> pv_regs V w' = g \<and>
              pv_mem V w' = pv_mem V w"
proof -
  obtain w' r where c: "ptrace_setregset sys g w = (w', r)" by fastforce
  then have "pv_phase V w' = Stopped" "pv_regs V w' = g" "pv_mem V w' = pv_mem V w" "r = Ok (ta_size A)"
    using tracer_okD(3) [OF assms(1)] assms(2) unfolding regsets_ok_def by (metis fst_conv snd_conv)+
  then show ?thesis using c by (simp add: raw_set_registers_def context_res_def)
qed

text \<open>The process runs until the wait that follows.\<close>

lemma stays_continu:
  assumes "tracer_ok V inmem A pid sys" "pv_phase V w = Stopped"
    "\<And>w. pv_phase V w = Stopped \<Longrightarrow> stays_stopped V (f w ())"
  shows "stays_stopped V (st_then (raw_continu sys w) (\<lambda>w u. st_then (raw_wait sys w) f))"
proof -
  obtain w1 r1 where c: "ptrace_cont sys w = (w1, r1)" by fastforce
  obtain w2 r2 where d: "ptrace_wait sys w1 = (w2, r2)" by fastforce
  have "r1 = Ok () \<longrightarrow> pv_phase V w1 = Running" "(\<forall>u. r1 \<noteq> Ok u) \<longrightarrow> pv_phase V w1 = Stopped"
    using tracer_okD(4) [OF assms(1)] assms(2) c unfolding control_ok_def by (cases r1; force dest: spec [of _ w])+
  moreover have "pv_phase V w1 = Running \<Longrightarrow> r2 = Ok () \<and> pv_phase V w2 = Stopped"
    using tracer_okD(4) [OF assms(1)] d unfolding control_ok_def by (metis fst_conv snd_conv)
  ultimately show ?thesis
    using c d assms(3) by (cases r1) (simp_all add: raw_continu_def raw_wait_def io_call_def stays_stopped_def)
qed

lemma stays_funcall:
  assumes "tracer_ok V inmem A pid sys" "pv_phase V w = Stopped"
  shows "stays_stopped V (do_funcall sys A self regs w)"
proof -
  have "stays_stopped V (raw_set_registers sys A g w)" "stays_stopped V (raw_get_registers sys A w)"
    if "pv_phase V w = Stopped" for g w
    using raw_set_registers_stopped [OF assms(1) that, of g] raw_get_registers_stopped [OF assms(1) that] that
    by (auto simp: stays_stopped_def same_process_def)
  then show ?thesis
    unfolding do_funcall_def by (intro stopped_intros stays_continu [OF assms(1)] assms(2)) 
qed

lemma stays_funcalls:
  assumes "tracer_ok V inmem A pid sys" "pv_phase V w = Stopped"
  shows "stays_stopped V (funcall0 sys A self addr w)" "stays_stopped V (funcall1 sys A self addr a w)"
    "stays_stopped V (funcall2 sys A self addr a b w)" "stays_stopped V (funcall6 sys A self addr a b c d e f w)"
  using stays_funcall [OF assms] by (simp_all add: funcall0_def funcall1_def funcall2_def funcall6_def)

text \<open>A string that is read byte by byte ends at the latest where nothing is mapped.\<close>

lemma stays_read_c_string:
  assumes "tracer_ok V inmem A pid sys" "pv_phase V w = Stopped"
  shows "stays_stopped V (read_c_string sys addr error w)"
proof -
  obtain top where top: "pv_phase V w = Stopped \<Longrightarrow> \<exists>e. snd (proc_mem_read sys top 1 w) = Err e" for w
    using tracer_okD(1) [OF assms(1)] unfolding reads_ok_def by blast
  show ?thesis using assms(2)
  proof (induction "unat (top - addr)" arbitrary: addr error w rule: less_induct)
    case less
    obtain w' r where p: "peek_data sys addr 1 w = Some (w', r)" "pv_phase V w' = Stopped"
      using stays_peek [OF assms(1) less.prems] unfolding stays_stopped_def by blast
    show ?case
    proof (cases "addr = top")
      case True
      then obtain e where "snd (proc_mem_read sys addr 1 w) = Err e" using top [OF less.prems] by blast
      then have "r = Err (vm_of_io e)" using p(1) by (auto simp: peek_data_def io_call_def split: prod.splits)
      then show ?thesis using p by (subst read_c_string.simps) (simp add: stays_stopped_def)
    next
      case False
      have "unat (top - (addr + 1)) < unat (top - addr)"
        using False by (metis (no_types, opaque_lifting) diff_diff_eq eq_iff_diff_eq_0 measure_unat)
      from less.hyps [OF this p(2)] show ?thesis
        using p by (subst read_c_string.simps) (cases r, auto simp: stays_stopped_def)
    qed
  qed
qed

lemmas stays_calls = stays_peek stays_poke stays_funcalls stays_read_c_string

lemma stays_get_dlerror:
  assumes "tracer_ok V inmem A pid sys" "pv_phase V w = Stopped"
  shows "stays_stopped V (get_dlerror sys A self dlerror w)"
  unfolding get_dlerror_def by (intro stopped_intros stays_calls [OF assms(1)] assms(2)) (auto intro: stopped_intros)

lemma stays_get_errno:
  assumes "tracer_ok V inmem A pid sys" "pv_phase V w = Stopped"
  shows "stays_stopped V (get_errno sys A self errno w)"
  unfolding get_errno_def by (intro stopped_intros stays_calls [OF assms(1)] assms(2)) (auto intro: stopped_intros)

lemma stays_fail_with: "stays_stopped V m \<Longrightarrow> stays_stopped V (fail_with msg m)"
  unfolding fail_with_def by (intro stopped_intros)

lemma stays_call_payload:
  assumes "tracer_ok V inmem A pid sys" "pv_phase V w = Stopped"
  shows "stays_stopped V (call_payload sys A self their fds mmap_addr handle w)"
  unfolding call_payload_def
  by (intro stopped_intros stays_calls [OF assms(1)] stays_fail_with stays_get_dlerror [OF assms(1)] assms(2))

lemma do_dlclose_stopped:
  assumes "tracer_ok V inmem A pid sys" "pv_phase V w = Stopped"
  shows "\<exists>w'. do_dlclose sys A self their handle w = Some w' \<and> pv_phase V w' = Stopped"
proof -
  obtain w1 r where f: "funcall1 sys A self (f_dlclose their) handle w = Some (w1, r)" "pv_phase V w1 = Stopped"
    using stays_funcalls(2) [OF assms] unfolding stays_stopped_def by blast
  obtain w2 r2 where "get_dlerror sys A self (f_dlerror their) w1 = Some (w2, r2)" "pv_phase V w2 = Stopped"
    using stays_get_dlerror [OF assms(1) f(2)] unfolding stays_stopped_def by blast
  then show ?thesis using f by (cases r) (auto simp: do_dlclose_def)
qed

lemma stays_attached_body:
  assumes "tracer_ok V inmem A pid sys" "pv_phase V w = Stopped"
  shows "stays_stopped V (attached_body sys A their fds self w)"
  unfolding attached_body_def
  by (intro stopped_intros stays_calls [OF assms(1)] stays_fail_with stays_get_errno [OF assms(1)]
      stays_get_dlerror [OF assms(1)] stays_call_payload [OF assms(1)] do_dlclose_stopped [OF assms(1)] assms(2))

section \<open>The tracee is restored\<close>

definition restored :: "('w, 'g) process_view \<Rightarrow> 'g trace_arch \<Rightarrow> nat \<Rightarrow> ('w, 'g) tracer \<Rightarrow> 'w \<Rightarrow> 'w \<Rightarrow> bool" where
  "restored V A pid sys w w' \<longleftrightarrow>
     pv_phase V w' = Free \<and> pv_regs V w' = pv_regs V w \<and>
     (\<forall>a. find_lib (proc_maps sys w) pid ''/'' = Ok a \<longrightarrow>
        load_bytes (pv_mem V w') a (length (ta_instructions A)) = load_bytes (pv_mem V w) a (length (ta_instructions A)))"

lemma raw_drop_stopped:
  assumes "tracer_ok V inmem A pid sys" "pv_phase V w = Stopped"
  shows "\<exists>w'. raw_drop sys w = Some w' \<and> pv_phase V w' = Free \<and> pv_regs V w' = pv_regs V w \<and> pv_mem V w' = pv_mem V w"
proof -
  obtain w' r where d: "ptrace_detach sys w = (w', r)" by fastforce
  then show ?thesis
    using tracer_okD(4) [OF assms(1)] assms(2) unfolding control_ok_def
    by (simp add: raw_drop_def raw_detach_def io_call_def) (metis fst_conv)
qed

text \<open>A process that cannot be attached is left free; one that is attached is stopped.\<close>

lemma raw_attach_phase:
  assumes "tracer_ok V inmem A pid sys" "pv_phase V w = Free"
  shows "\<exists>w' r. raw_attach sys w = Some (w', r) \<and> (if r = Ok () then pv_phase V w' = Stopped else pv_phase V w' = Free)"
proof -
  obtain w1 r1 where c: "ptrace_attach sys w = (w1, r1)" by fastforce
  obtain w2 r2 where d: "ptrace_wait sys w1 = (w2, r2)" by fastforce
  have "r1 = Ok () \<longrightarrow> pv_phase V w1 = Running" "(\<forall>u. r1 \<noteq> Ok u) \<longrightarrow> pv_phase V w1 = Free"
    using tracer_okD(4) [OF assms(1)] assms(2) c unfolding control_ok_def by (cases r1; force dest: spec [of _ w])+
  moreover have "pv_phase V w1 = Running \<Longrightarrow> r2 = Ok () \<and> pv_phase V w2 = Stopped"
    using tracer_okD(4) [OF assms(1)] d unfolding control_ok_def by (metis fst_conv snd_conv)
  ultimately show ?thesis
    using c d by (cases r1) (simp_all add: raw_attach_def raw_wait_def io_call_def)
qed

text \<open>Dropping the tracee writes back what was saved in it, whatever the process has done.\<close>

lemma tracee_drop_stopped:
  assumes "tracer_ok V inmem A pid sys" "pv_phase V w = Stopped" "length (tr_instrs self) < 2 ^ 64"
    "\<forall>i < length (tr_instrs self). inmem (tr_instrs_addr self + of_nat i)"
  shows "\<exists>w'. tracee_drop sys A self w = Some w' \<and> pv_phase V w' = Free \<and> pv_regs V w' = tr_registers self \<and>
              load_bytes (pv_mem V w') (tr_instrs_addr self) (length (tr_instrs self)) = tr_instrs self"
proof -
  obtain w1 r1 where p: "proc_mem_write sys (tr_instrs_addr self) (tr_instrs self) w = (w1, r1)" by fastforce
  note W = write_stopped [OF assms(1,2) p]
  obtain w2 where s: "raw_set_registers sys A (tr_registers self) w1 = Some (w2, Ok ())" "pv_phase V w2 = Stopped"
    "pv_regs V w2 = tr_registers self" "pv_mem V w2 = pv_mem V w1"
    using raw_set_registers_stopped [OF assms(1) W(1)] by blast
  obtain w3 where "raw_drop sys w2 = Some w3" "pv_phase V w3 = Free" "pv_regs V w3 = pv_regs V w2" "pv_mem V w3 = pv_mem V w2"
    using raw_drop_stopped [OF assms(1) s(2)] by blast
  then show ?thesis
    using p s W(3) [OF assms(4)] load_store_bytes [OF assms(3)]
    by (simp add: tracee_drop_def poke_data_def io_call_def)
qed

text \<open>
  Attaching saves the registers and the bytes that it overwrites; when it fails, nothing has been overwritten and the
  process is free again.
\<close>

definition saved :: "('w, 'g) process_view \<Rightarrow> 'g trace_arch \<Rightarrow> nat \<Rightarrow> ('w, 'g) tracer \<Rightarrow> 'w \<Rightarrow> 'g tracee \<Rightarrow> bool" where
  "saved V A pid sys w t \<longleftrightarrow>
     tr_registers t = pv_regs V w \<and> find_lib (proc_maps sys w) pid ''/'' = Ok (tr_instrs_addr t) \<and>
     tr_instrs t = load_bytes (pv_mem V w) (tr_instrs_addr t) (length (ta_instructions A))"

lemma tracee_attach_stopped:
  assumes "tracer_ok V inmem A pid sys" "proc_mem_open sys w0 = Ok ()" "raw_attach sys w0 = Some (w, Ok ())"
    "pv_phase V w = Stopped"
  shows "\<exists>w' r. tracee_attach sys A pid w0 = Some (w', r) \<and>
           (case r of Ok t \<Rightarrow> pv_phase V w' = Stopped \<and> saved V A pid sys w t | _ \<Rightarrow> restored V A pid sys w w')"
proof -
  obtain w1 where g: "raw_get_registers sys A w = Some (w1, Ok (pv_regs V w))" "same_process V w w1"
    "proc_maps sys w1 = proc_maps sys w"
    using raw_get_registers_stopped [OF assms(1,4)] by blast
  then have st1: "pv_phase V w1 = Stopped" using assms(4) by (simp add: same_process_def)
  have undo: "\<exists>w''. raw_drop sys w' = Some w'' \<and> restored V A pid sys w w''"
    if "same_process V w w'" for w'
    using raw_drop_stopped [OF assms(1), of w'] that assms(4) by (auto simp: restored_def same_process_def)
  show ?thesis
  proof (cases "find_lib (proc_maps sys w) pid ''/''")
    case (Ok a)
    obtain w2 r2 where r: "proc_mem_read sys a (length (ta_instructions A)) w1 = (w2, r2)" by fastforce
    note R = read_stopped [OF assms(1) st1 r]
    have same2: "same_process V w w2" "pv_phase V w2 = Stopped" using R(1) g(2) st1 by (auto simp: same_process_def)
    obtain w3 r3 where wr: "proc_mem_write sys a (ta_instructions A) w2 = (w3, r3)" by fastforce
    have "\<forall>i < length (ta_instructions A). inmem (a + of_nat i)"
      using tracer_okD(5) [OF assms(1)] Ok assms(4) unfolding text_mapped_def by blast
    then have "r3 = Ok ()" "pv_phase V w3 = Stopped" using write_stopped [OF assms(1) same2(2) wr] by blast+
    then show ?thesis
      using assms(2,3) g Ok r wr R(2) undo [OF same2(1)]
      by (cases r2) (auto simp: tracee_attach_def io_call_def finally_do_def saved_def same_process_def Let_def)
  qed (use assms(2,3) g undo [OF g(2)] in \<open>auto simp: tracee_attach_def finally_do_def Let_def\<close>)
qed

lemma attached_restored:
  assumes "tracer_ok V inmem A pid sys" "pv_phase V w = Stopped" "pv_phase V w0 = Stopped" "saved V A pid sys w0 t"
    "length (ta_instructions A) < 2 ^ 64"
  shows "\<exists>w' r. finally_do (tracee_drop sys A t) (attached_body sys A their fds t w) = Some (w', r) \<and>
                restored V A pid sys w0 w'"
proof -
  obtain w1 r1 where b: "attached_body sys A their fds t w = Some (w1, r1)" "pv_phase V w1 = Stopped"
    using stays_attached_body [OF assms(1,2)] unfolding stays_stopped_def by blast
  have "\<forall>i < length (tr_instrs t). inmem (tr_instrs_addr t + of_nat i)"
    using tracer_okD(5) [OF assms(1)] assms(3,4) unfolding text_mapped_def saved_def by (metis length_load_bytes)
  from tracee_drop_stopped [OF assms(1) b(2) _ this] show ?thesis
    using b(1) assms(4,5) by (auto simp: saved_def restored_def finally_do_def)
qed

lemma st_then_and_then:
  "st_then (Some (w, and_then r f)) g = st_then (Some (w, r)) (\<lambda>w x. st_then (Some (w, f x)) g)"
  by (cases r) simp_all

text \<open>
  Whatever the outcome of the injection is, it returns, and either the process has not been attached, or it is free
  again with the registers and the instructions that it had when it was stopped.
\<close>

lemma kvm_attach_restores:
  assumes ok: "tracer_ok V inmem A pid sys" and free: "pv_phase V w = Free" and len: "length (ta_instructions A) < 2 ^ 64"
  shows "\<exists>w' r. kvm_attach own_maps own_pid ours sys A pid fds w = Some (w', r) \<and> pv_phase V w' = Free \<and>
           (w' = w \<or> (\<exists>r1. raw_attach sys w = Some (w', r1) \<and> r1 \<noteq> Ok ()) \<or>
            (\<exists>w1. raw_attach sys w = Some (w1, Ok ()) \<and> restored V A pid sys w1 w'))"
proof -
  let ?libs = "and_then (find_lib own_maps own_pid ''libc.so'') (\<lambda>our_libc.
     and_then (find_lib (proc_maps sys w) pid ''libc.so'') (\<lambda>their_libc. remote_funs our_libc their_libc ours))"
  let ?K = "\<lambda>m. Option.bind m (\<lambda>(w, r). Some (w, context_res DynVm ''failed to attach to KVM'' r))"
  let ?body = "\<lambda>their w tracee. finally_do (tracee_drop sys A tracee) (attached_body sys A their fds tracee w)"
  have eq: "kvm_attach own_maps own_pid ours sys A pid fds w =
      st_then (Some (w, ?libs)) (\<lambda>w their. st_then (?K (tracee_attach sys A pid w)) (?body their))"
    by (cases "find_lib own_maps own_pid ''libc.so''") (simp_all add: kvm_attach_def st_then_and_then)
  obtain w1 r1 where a: "raw_attach sys w = Some (w1, r1)"
    "if r1 = Ok () then pv_phase V w1 = Stopped else pv_phase V w1 = Free"
    using raw_attach_phase [OF ok free] by blast
  show ?thesis
  proof (cases ?libs)
    case libs: (Ok their)
    show ?thesis
    proof (cases "proc_mem_open sys w = Ok () \<and> r1 = Ok ()")
      case False
      then show ?thesis
        using eq libs a free
        by (cases "proc_mem_open sys w"; cases r1) (auto simp: tracee_attach_def context_res_def)
    next
      case True
      then have a': "raw_attach sys w = Some (w1, Ok ())" "pv_phase V w1 = Stopped" using a by simp_all
      from tracee_attach_stopped [OF ok conjunct1 [OF True] a']
      obtain w2 r2 where t: "tracee_attach sys A pid w = Some (w2, r2)"
        "case r2 of Ok t \<Rightarrow> pv_phase V w2 = Stopped \<and> saved V A pid sys w1 t | _ \<Rightarrow> restored V A pid sys w1 w2" by blast
      show ?thesis
      proof (cases r2)
        case (Ok t)
        then have st: "pv_phase V w2 = Stopped" and sv: "saved V A pid sys w1 t" using t by simp_all
        from attached_restored [OF ok st a'(2) sv len] obtain w3 r3 where
          "?body their w2 t = Some (w3, r3)" "restored V A pid sys w1 w3" by blast
        then show ?thesis
          using eq libs t(1) Ok a'(1) by (auto simp: context_res_def restored_def)
      qed (use eq libs t a'(1) in \<open>auto simp: context_res_def restored_def\<close>)
    qed
  qed (use eq free in auto)
qed

section \<open>The payload and the listener\<close>

lemma send_loop_vec:
  assumes "list_all2 (\<lambda>fd v. chunks fd = Ok v) fds cs"
  shows "send_loop chunks vec_writer fds out = (out @ concat (map concat cs), Ok ())"
  using assms by (induction arbitrary: out rule: list_all2_induct) (simp_all add: write_chunks_vec)

lemma concat_concat_map: "concat (concat xss) = concat (map concat xss)"
  by (induction xss) simp_all

text \<open>The registers that KVM gives for a processor.\<close>

definition x86_vcpu_of :: "kvm_calls \<Rightarrow> 32 word \<Rightarrow> x86_vcpu \<Rightarrow> bool" where
  "x86_vcpu_of kvm fd v \<longleftrightarrow>
     kvm_get_regs_call kvm fd = Ok (vcpu_registers v) \<and> kvm_get_sregs_call kvm fd = Ok (vcpu_special v) \<and>
     payload_get_msrs kvm fd = Ok (vcpu_other v)"

definition arm_vcpu_of :: "kvm_calls \<Rightarrow> 32 word \<Rightarrow> arm_vcpu \<Rightarrow> bool" where
  "arm_vcpu_of kvm fd v \<longleftrightarrow>
     payload_arm_regs kvm fd = Ok (vcpu_registers v) \<and> payload_arm_special kvm fd = Ok (vcpu_special v)"

lemma x86_payload_read_back:
  assumes "list_all2 (x86_vcpu_of kvm) fds vs" "\<forall>v \<in> set vs. x86_special_wf (vcpu_special v)"
  shows "\<exists>out. vminer_payload (Ok ()) (x86_chunks kvm) vec_writer fds = (out, Ok 0) \<and>
               listener_thread read_x86_vcpus (length fds) (Ok out) = Ok vs"
proof -
  have "list_all2 (\<lambda>fd c. x86_chunks kvm fd = Ok c) fds (map enc_x86_vcpu vs)"
    using assms(1) by (auto simp: list_all2_map2 x86_vcpu_of_def x86_chunks_def enc_x86_vcpu_def elim!: list_all2_mono)
  from send_loop_vec [OF this, of "[]"]
  have "vminer_payload (Ok ()) (x86_chunks kvm) vec_writer fds = (concat (concat (map enc_x86_vcpu vs)), Ok 0)"
    by (simp add: vminer_payload_def send_fds_def concat_concat_map)
  moreover have "length fds = length vs" using assms(1) by (rule list_all2_lengthD)
  ultimately show ?thesis using read_x86_vcpus_enc [OF assms(2), of "[]"] by (simp add: listener_thread_def)
qed

lemma length_get_reg_list: "get_reg_list kvm fd is = Ok rs \<Longrightarrow> length rs = length is"
proof (induction "is" arbitrary: rs)
  case (Cons i "is")
  obtain r where r: "kvm_get_one_reg_call kvm fd i = Ok r" using Cons.prems by (cases "kvm_get_one_reg_call kvm fd i") simp_all
  obtain rs' where "get_reg_list kvm fd is = Ok rs'" using Cons.prems r by (cases "get_reg_list kvm fd is") simp_all
  then show ?case using Cons r by auto
qed simp

lemma arm_payload_read_back:
  assumes "list_all2 (arm_vcpu_of kvm) fds vs"
  shows "\<exists>out. vminer_payload (Ok ()) (arm_chunks kvm) vec_writer fds = (out, Ok 0) \<and>
               listener_thread read_arm_vcpus (length fds) (Ok out) = Ok vs"
proof -
  let ?enc = "\<lambda>v. [enc_arm_registers (vcpu_registers v), enc_arm_special (vcpu_special v)]"
  have "list_all2 (\<lambda>fd c. arm_chunks kvm fd = Ok c) fds (map ?enc vs)"
    using assms by (auto simp: list_all2_map2 arm_vcpu_of_def arm_chunks_def elim!: list_all2_mono)
  from send_loop_vec [OF this, of "[]"]
  have "vminer_payload (Ok ()) (arm_chunks kvm) vec_writer fds = (concat (concat (map enc_arm_vcpu vs)), Ok 0)"
    by (simp add: vminer_payload_def send_fds_def concat_concat_map enc_arm_vcpu_def comp_def)
  moreover have "length (arm_regs (vcpu_registers v)) = 31" if "arm_vcpu_of kvm fd v" for fd v
    using that length_get_reg_list [of kvm fd "map arm_reg_id [0..<34]"]
    by (cases "get_reg_list kvm fd (map arm_reg_id [0..<34])")
       (auto simp: arm_vcpu_of_def payload_arm_regs_def dest!: sym [of _ "vcpu_registers v"])
  then have "\<forall>v \<in> set vs. length (arm_regs (vcpu_registers v)) = 31"
    using assms by (metis in_set_conv_nth list_all2_conv_all_nth)
  moreover have "length fds = length vs" using assms by (rule list_all2_lengthD)
  ultimately show ?thesis using read_arm_vcpus_enc [of vs "[]"] by (simp add: listener_thread_def)
qed

end
