(* ===== verification/Vm_Hypervisor.thy ===== *)
theory Vm_Hypervisor
  imports Vm_Kvm_Attach_Laws
begin

text \<open>
  What the process of a hypervisor does when the library makes it call functions: the interface to \<open>ptrace\<close>, to the
  x86-64 calling convention and to the functions of the C library, as the locale \<open>hypervisor\<close>. Inside it: attaching and running
  the payload succeeds, and the payload gets the file descriptors that the library was given (\<open>attach\<close> in
  \<^verbatim>\<open>vminer/src/backends/kvm/mod.rs\<close>).
\<close>

section \<open>The process\<close>

text \<open>What is known of the process in a world: \<open>hs_sent\<close> is what it has written to the socket of the library.\<close>

record hyper_state =
  hs_phase :: phase
  hs_regs :: user_regs_x86
  hs_mem :: "u64 \<Rightarrow> u8"
  hs_mapped :: "u64 \<Rightarrow> bool"
  hs_sent :: "u8 list"

text \<open>
  The addresses of an injection: the code that is replaced, the page that \<open>mmap\<close> gives, and what \<open>dlopen\<close> and \<open>dlsym\<close>
  return.
\<close>

record injection =
  in_code :: u64
  in_page :: u64
  in_handle :: u64
  in_payload :: u64

text \<open>
  The process is stopped at the instructions \<open>call rax\<close> and \<open>int3\<close>, with the address of a function in \<open>RAX\<close> and an aligned
  stack. The arguments of the function are in \<open>RDI\<close>, \<open>RSI\<close>, \<open>RDX\<close>, \<open>RCX\<close>, \<open>R8\<close> and \<open>R9\<close>.
\<close>

definition at_call :: "hyper_state \<Rightarrow> u64 \<Rightarrow> bool" where
  "at_call s f \<longleftrightarrow>
     hs_phase s = Stopped \<and> load_bytes (hs_mem s) (ux_rip (hs_regs s)) 3 = [0xff, 0xd0, 0xcc] \<and>
     ux_rax (hs_regs s) = f \<and> ux_rsp (hs_regs s) AND 0xf = 0"

definition call_args :: "hyper_state \<Rightarrow> u64 list" where
  "call_args s = [ux_rdi (hs_regs s), ux_rsi (hs_regs s), ux_rdx (hs_regs s), ux_rcx (hs_regs s), ux_r8 (hs_regs s), ux_r9 (hs_regs s)]"

text \<open>
  It is stopped again after the \<open>int3\<close>, with the result of the function in \<open>RAX\<close>; the function has written \<open>out\<close> to the socket,
  and it has not unmapped anything or changed the code it returns to. It may have changed every other register and
  every other byte.
\<close>

definition back_from :: "hyper_state \<Rightarrow> u64 \<Rightarrow> u8 list \<Rightarrow> hyper_state \<Rightarrow> bool" where
  "back_from s ret out s' \<longleftrightarrow>
     hs_phase s' = Stopped \<and> ux_rip (hs_regs s') = ux_rip (hs_regs s) + 3 \<and> ux_rax (hs_regs s') = ret \<and>
     hs_sent s' = hs_sent s @ out \<and> (\<forall>a. hs_mapped s a \<longrightarrow> hs_mapped s' a) \<and>
     load_bytes (hs_mem s') (ux_rip (hs_regs s)) 3 = load_bytes (hs_mem s) (ux_rip (hs_regs s)) 3"

definition page_kept :: "injection \<Rightarrow> hyper_state \<Rightarrow> hyper_state \<Rightarrow> bool" where
  "page_kept I s s' \<longleftrightarrow> (\<forall>i < 0x1000. hs_mem s' (in_page I + of_nat i) = hs_mem s (in_page I + of_nat i))"

text \<open>The process is resumed, and waited for.\<close>

definition resumes :: "('w, user_regs_x86) tracer \<Rightarrow> 'w \<Rightarrow> 'w \<Rightarrow> bool" where
  "resumes sys w w' \<longleftrightarrow> (\<exists>w1. ptrace_cont sys w = (w1, Ok ()) \<and> ptrace_wait sys w1 = (w', Ok ()))"

text \<open>The array of file descriptors that the payload is given: \<open>n\<close> integers of 32 bits from \<open>p\<close> on.\<close>

definition fds_at :: "(u64 \<Rightarrow> u8) \<Rightarrow> u64 \<Rightarrow> nat \<Rightarrow> 32 word list" where
  "fds_at mem p n = map (\<lambda>i. of_le_bytes (load_bytes mem (p + of_nat (4 * i)) 4)) [0..<n]"

lemma load_bytes_append: "load_bytes m a (n + k) = load_bytes m a n @ load_bytes m (a + of_nat n) k"
  by (rule nth_equalityI) (auto simp: load_bytes_def nth_append add.assoc simp flip: of_nat_add)

text \<open>The array that the library writes is the one that the payload reads.\<close>

lemma fds_at_encoded:
  "load_bytes mem p (4 * length fds) = concat (map (to_le_bytes 4) fds) \<Longrightarrow> fds_at mem p (length fds) = fds"
proof (induction fds arbitrary: p)
  case Nil
  then show ?case by (simp add: fds_at_def)
next
  case (Cons fd fds)
  have "load_bytes mem p 4 @ load_bytes mem (p + 4) (4 * length fds) = to_le_bytes 4 fd @ concat (map (to_le_bytes 4) fds)"
    using Cons.prems load_bytes_append [of mem p 4 "4 * length fds"] by simp
  then have first: "load_bytes mem p 4 = to_le_bytes 4 fd" and rest: "fds_at mem (p + 4) (length fds) = fds"
    using Cons.IH [of "p + 4"] by (simp_all add: append_eq_append_conv)
  have "fds_at mem p (Suc (length fds)) = of_le_bytes (load_bytes mem p 4) # fds_at mem (p + 4) (length fds)"
    by (simp add: fds_at_def upt_conv_Cons map_Suc_upt [symmetric] comp_def algebra_simps del: upt_Suc)
  then show ?case using rest by (simp add: first of_to_le_bytes take_bit_word_eq_self)
qed

section \<open>The contract\<close>

text \<open>
  The first laws are those of \<^verbatim>\<open>ptrace(2)\<close> and \<^verbatim>\<open>proc(5)\<close>: a process that is free can be attached and stops; a stopped process
  can be read and written where memory is mapped, its registers can be read and set, and it can be detached; the
  first mapping of \<^verbatim>\<open>/proc/pid/maps\<close> with code stays where it is. The others say what a function does when the process is
  stopped at a call of it and resumed. \<open>mmap\<close>, asked for a page at any address, private and anonymous, maps a page that
  was not in use. \<open>dlopen\<close> with the path of the payload and \<open>dlsym\<close> with its name give the address of the payload. The payload
  runs \<^verbatim>\<open>kvm_patch/src\<close>, connected to the listener, on the file descriptors that are in memory at its arguments, and
  returns its result as a C integer. \<open>dlclose\<close> succeeds.
\<close>

locale hypervisor =
  fixes V :: "'w \<Rightarrow> hyper_state" and sys :: "('w, user_regs_x86) tracer" and pid :: nat
    and their :: libc_funs and I :: injection and kvm :: kvm_calls
  assumes attached: "hs_phase (V w) = Free \<Longrightarrow>
      \<exists>w1 w2. ptrace_attach sys w = (w1, Ok ()) \<and> ptrace_wait sys w1 = (w2, Ok ()) \<and> hs_phase (V w2) = Stopped \<and>
        hs_sent (V w2) = hs_sent (V w) \<and> 0x100 \<le> unat (ux_rsp (hs_regs (V w2))) \<and> (\<forall>i < 3. hs_mapped (V w2) (in_code I + of_nat i))"
    and detached: "hs_phase (V w) = Stopped \<Longrightarrow> \<exists>w'. ptrace_detach sys w = (w', Ok ()) \<and> V w' = (V w)\<lparr>hs_phase := Free\<rparr>"
    and regs_read: "hs_phase (V w) = Stopped \<Longrightarrow> \<exists>w'. ptrace_getregset sys w = (w', Ok (hs_regs (V w), 216)) \<and> V w' = V w"
    and regs_set: "hs_phase (V w) = Stopped \<Longrightarrow> \<exists>w'. ptrace_setregset sys g w = (w', Ok 216) \<and> V w' = (V w)\<lparr>hs_regs := g\<rparr>"
    and mem_read: "hs_phase (V w) = Stopped \<Longrightarrow> \<forall>i < n. hs_mapped (V w) (a + of_nat i) \<Longrightarrow>
      \<exists>w'. proc_mem_read sys a n w = (w', Ok (load_bytes (hs_mem (V w)) a n)) \<and> V w' = V w"
    and mem_written: "hs_phase (V w) = Stopped \<Longrightarrow> \<forall>i < length bs. hs_mapped (V w) (a + of_nat i) \<Longrightarrow>
      \<exists>w'. proc_mem_write sys a bs w = (w', Ok ()) \<and> V w' = (V w)\<lparr>hs_mem := store_bytes (hs_mem (V w)) a bs\<rparr>"
    and code_found: "hs_phase (V w) = Stopped \<Longrightarrow> find_lib (proc_maps sys w) pid ''/'' = Ok (in_code I)"
    and code_place: "unat (in_code I) + 3 < 2 ^ 64" "i < 3 \<Longrightarrow> j < 0x1000 \<Longrightarrow> in_code I + of_nat i \<noteq> in_page I + of_nat j"
    and page_place: "4096 dvd unat (in_page I)" "unat (in_page I) + 0x1000 < 2 ^ 64"
    and not_null: "in_handle I \<noteq> 0" "in_payload I \<noteq> 0"
    and mmap: "at_call (V w) (f_mmap their) \<Longrightarrow> call_args (V w) = [0, 0x1000, 1, 0x22, - 1, 0] \<Longrightarrow>
      \<exists>w'. resumes sys w w' \<and> back_from (V w) (in_page I) [] (V w') \<and> (\<forall>i < 0x1000. hs_mapped (V w') (in_page I + of_nat i))"
    and dlopen: "at_call (V w) (f_dlopen their) \<Longrightarrow> ux_rsi (hs_regs (V w)) = 2 \<Longrightarrow>
      load_bytes (hs_mem (V w)) (ux_rdi (hs_regs (V w))) 32 = str_bytes ''/usr/lib/libvminer_kvm_patch.so'' @ [0] \<Longrightarrow>
      \<exists>w'. resumes sys w w' \<and> back_from (V w) (in_handle I) [] (V w') \<and> page_kept I (V w) (V w')"
    and dlsym: "at_call (V w) (f_dlsym their) \<Longrightarrow> ux_rdi (hs_regs (V w)) = in_handle I \<Longrightarrow>
      load_bytes (hs_mem (V w)) (ux_rsi (hs_regs (V w))) 15 = str_bytes ''vminer_payload'' @ [0] \<Longrightarrow>
      \<exists>w'. resumes sys w w' \<and> back_from (V w) (in_payload I) [] (V w') \<and> page_kept I (V w) (V w')"
    and payload: "at_call (V w) (in_payload I) \<Longrightarrow>
      vminer_payload (Ok ()) (x86_chunks kvm) vec_writer
        (fds_at (hs_mem (V w)) (ux_rdi (hs_regs (V w))) (unat (ux_rsi (hs_regs (V w))))) = (out, Ok r) \<Longrightarrow>
      \<exists>w' ret. resumes sys w w' \<and> back_from (V w) ret out (V w') \<and> (ucast ret :: 32 word) = word_of_int r"
    and dlclose: "at_call (V w) (f_dlclose their) \<Longrightarrow> ux_rdi (hs_regs (V w)) = in_handle I \<Longrightarrow>
      \<exists>w'. resumes sys w w' \<and> back_from (V w) 0 [] (V w')"
begin

section \<open>Single calls\<close>

lemma page_end: "\<exists>k. unat (in_page I) = 4096 * k"
  using page_place(1) by (auto simp: dvd_def)

lemma page_no_error: "(ucast (in_page I) :: 32 word) \<noteq> - 1"
proof
  assume "(ucast (in_page I) :: 32 word) = - 1"
  then have "unat (ucast (in_page I) :: 32 word) = 2 ^ 32 - 1" by (simp add: unsigned_minus_1_eq_mask mask_eq_exp_minus_1)
  then have "unat (in_page I) mod 2 ^ 32 = 2 ^ 32 - 1" by (simp add: unsigned_ucast_eq take_bit_eq_mod)
  moreover have "unat (in_page I) mod 2 ^ 32 mod 4096 = 0" using page_place(1) by (simp add: mod_mod_cancel)
  ultimately show False by simp
qed

text \<open>A call of a function at the injected code, when the function returns.\<close>

definition called :: "user_regs_x86 \<Rightarrow> user_regs_x86" where
  "called g = g\<lparr>ux_rsp := (ux_rsp g - 0x100) AND NOT 0xf, ux_rip := in_code I\<rparr>"

lemma called_fields [simp]:
  "ux_rip (called g) = in_code I" "ux_rax (called g) = ux_rax g" "ux_rdi (called g) = ux_rdi g" "ux_rsi (called g) = ux_rsi g"
  "ux_rdx (called g) = ux_rdx g" "ux_rcx (called g) = ux_rcx g" "ux_r8 (called g) = ux_r8 g" "ux_r9 (called g) = ux_r9 g"
  by (simp_all add: called_def)

lemma x86_trace_fields:
  "ta_move_stack x86_trace_arch r = map_ok (\<lambda>sp. r\<lparr>ux_rsp := sp\<rparr>) (moved_stack (ux_rsp r))"
  "ta_set_instruction_pointer x86_trace_arch a r = r\<lparr>ux_rip := a\<rparr>" "ta_instruction_pointer x86_trace_arch r = ux_rip r"
  "ta_return_value x86_trace_arch r = ux_rax r" "ta_instructions x86_trace_arch = [0xff, 0xd0, 0xcc]" "ta_size x86_trace_arch = 216"
  "ta_prepare_funcall1 x86_trace_arch f a r = r\<lparr>ux_rax := f, ux_rdi := a\<rparr>"
  "ta_prepare_funcall2 x86_trace_arch f a b r = r\<lparr>ux_rax := f, ux_rdi := a, ux_rsi := b\<rparr>"
  "ta_prepare_funcall6 x86_trace_arch f a b c d e h r =
     r\<lparr>ux_rax := f, ux_rdi := a, ux_rsi := b, ux_rdx := c, ux_rcx := d, ux_r8 := e, ux_r9 := h\<rparr>"
  by (simp_all add: x86_trace_arch_def)

lemma do_funcall_run:
  assumes st: "hs_phase (V w) = Stopped" and t: "tr_instrs_addr t = in_code I" and sp: "0x100 \<le> unat (ux_rsp g)"
    and w1: "ptrace_setregset sys (called g) w = (w1, Ok 216)" and w3: "resumes sys w1 w3"
      "back_from ((V w)\<lparr>hs_regs := called g\<rparr>) ret out (V w3)"
  shows "\<exists>w'. do_funcall sys x86_trace_arch t g w = Some (w', Ok ret) \<and> V w' = V w3"
proof -
  have move: "moved_stack (ux_rsp g) = Ok ((ux_rsp g - 0x100) AND NOT 0xf)"
    using sp by (simp add: moved_stack_def sub_chk_def word_le_nat_alt)
  have regs: "g\<lparr>ux_rsp := (ux_rsp g - 0x100) AND NOT 0xf, ux_rip := in_code I\<rparr> = called g" by (simp add: called_def)
  obtain w2 where w2: "ptrace_cont sys w1 = (w2, Ok ())" "ptrace_wait sys w2 = (w3, Ok ())" using w3(1) unfolding resumes_def by blast
  have stop: "hs_phase (V w3) = Stopped" "ux_rip (hs_regs (V w3)) = in_code I + 3" "ux_rax (hs_regs (V w3)) = ret"
    using w3(2) by (simp_all add: back_from_def)
  obtain w4 where w4: "ptrace_getregset sys w3 = (w4, Ok (hs_regs (V w3), 216))" "V w4 = V w3" using regs_read [OF stop(1)] by blast
  have end_code: "add_chk (in_code I) 3 = (Ok (in_code I + 3) :: u64 vm_result)" using code_place(1) by (simp add: add_chk_def)
  have "do_funcall sys x86_trace_arch t g w = Some (w4, Ok ret)"
    using w1 w2 w4(1) stop(2,3) end_code
    by (simp add: do_funcall_def move x86_trace_fields t regs [simplified] raw_set_registers_def raw_continu_def raw_wait_def
        raw_get_registers_def io_call_def context_res_def Let_def numeral_3_eq_3 [symmetric])
  then show ?thesis using w4(2) by blast
qed

lemma prepared_call:
  assumes "hs_phase (V w) = Stopped" "load_bytes (hs_mem (V w)) (in_code I) 3 = [0xff, 0xd0, 0xcc]" "ux_rax g = f"
    "V w1 = (V w)\<lparr>hs_regs := called g\<rparr>"
  shows "at_call (V w1) f" "hs_mem (V w1) = hs_mem (V w)" "hs_regs (V w1) = called g"
proof -
  have "((ux_rsp g - 0x100) AND NOT 0xf) AND 0xf = 0" by (simp add: and.assoc)
  then show "at_call (V w1) f" using assms by (simp add: at_call_def called_def)
qed (simp_all add: assms(4))

text \<open>While the injected code is in place: what every call keeps.\<close>

definition injected :: "user_regs_x86 tracee \<Rightarrow> 'w \<Rightarrow> bool" where
  "injected t w \<longleftrightarrow>
     hs_phase (V w) = Stopped \<and> load_bytes (hs_mem (V w)) (in_code I) 3 = [0xff, 0xd0, 0xcc] \<and>
     (\<forall>i < 3. hs_mapped (V w) (in_code I + of_nat i)) \<and>
     tr_instrs_addr t = in_code I \<and> length (tr_instrs t) = 3 \<and> 0x100 \<le> unat (ux_rsp (tr_registers t))"

definition page_there :: "'w \<Rightarrow> bool" where
  "page_there w \<longleftrightarrow> (\<forall>i < 0x1000. hs_mapped (V w) (in_page I + of_nat i))"

lemma injected_back:
  assumes "injected t w" "back_from ((V w)\<lparr>hs_regs := called g\<rparr>) ret out (V w')"
  shows "injected t w'" "hs_sent (V w') = hs_sent (V w) @ out" "page_there w \<Longrightarrow> page_there w'"
  using assms by (auto simp: injected_def back_from_def page_there_def)

text \<open>One call, from the law of its function.\<close>

lemma call_returns:
  assumes inj: "injected t w" and g: "ux_rax g = f" "ux_rsp g = ux_rsp (tr_registers t)"
    and law: "\<And>w1. at_call (V w1) f \<Longrightarrow> hs_mem (V w1) = hs_mem (V w) \<Longrightarrow> hs_regs (V w1) = called g \<Longrightarrow>
      \<exists>w2 ret. resumes sys w1 w2 \<and> back_from (V w1) ret out (V w2) \<and> R ret (V w1) (V w2)"
    and R: "\<And>ret s s' s''. hs_mem s' = hs_mem s \<Longrightarrow> R ret s' s'' \<Longrightarrow> R' ret s s''"
  shows "\<exists>w' ret. do_funcall sys x86_trace_arch t g w = Some (w', Ok ret) \<and> injected t w' \<and>
    hs_sent (V w') = hs_sent (V w) @ out \<and> (page_there w \<longrightarrow> page_there w') \<and> R' ret (V w) (V w')"
proof -
  let ?s = "(V w)\<lparr>hs_regs := called g\<rparr>"
  have st: "hs_phase (V w) = Stopped" "load_bytes (hs_mem (V w)) (in_code I) 3 = [0xff, 0xd0, 0xcc]" "tr_instrs_addr t = in_code I"
    "0x100 \<le> unat (ux_rsp g)"
    using inj g(2) by (simp_all add: injected_def)
  obtain w1 where w1: "ptrace_setregset sys (called g) w = (w1, Ok 216)" "V w1 = ?s" using regs_set [OF st(1)] by blast
  obtain w2 ret where w2: "resumes sys w1 w2" "back_from ?s ret out (V w2)" "R ret ?s (V w2)"
    using law [OF prepared_call [OF st(1,2) g(1) w1(2)]] w1(2) by auto
  obtain w' where w': "do_funcall sys x86_trace_arch t g w = Some (w', Ok ret)" "V w' = V w2"
    using do_funcall_run [OF st(1,3,4) w1(1) w2(1,2)] by blast
  have "back_from ?s ret out (V w')" using w2(2) w'(2) by simp
  from injected_back [OF inj this] show ?thesis using w'(1) w2(3) w'(2) R [of ?s "V w" ret "V w'"] by auto
qed

text \<open>The calls of the injection.\<close>

lemma mmap_call:
  assumes "injected t w"
  shows "\<exists>w'. funcall6 sys x86_trace_arch t (f_mmap their) 0 0x1000 1 0x22 (- 1) 0 w = Some (w', Ok (in_page I)) \<and> injected t w' \<and>
    hs_sent (V w') = hs_sent (V w) \<and> page_there w'"
proof -
  let ?g = "ta_prepare_funcall6 x86_trace_arch (f_mmap their) 0 0x1000 1 0x22 (- 1) 0 (tr_registers t)"
  have "\<exists>w' ret. do_funcall sys x86_trace_arch t ?g w = Some (w', Ok ret) \<and> injected t w' \<and> hs_sent (V w') = hs_sent (V w) @ [] \<and>
      (page_there w \<longrightarrow> page_there w') \<and> (ret = in_page I \<and> (\<forall>i < 0x1000. hs_mapped (V w') (in_page I + of_nat i)))"
  proof (rule call_returns [OF assms, where f = "f_mmap their"
        and R = "\<lambda>ret s s'. ret = in_page I \<and> (\<forall>i < 0x1000. hs_mapped s' (in_page I + of_nat i))"])
    fix w1 assume c: "at_call (V w1) (f_mmap their)" "hs_regs (V w1) = called ?g"
    have "call_args (V w1) = [0, 0x1000, 1, 0x22, - 1, 0]" by (simp add: call_args_def c(2) x86_trace_fields)
    then show "\<exists>w2 ret. resumes sys w1 w2 \<and> back_from (V w1) ret [] (V w2) \<and>
        ret = in_page I \<and> (\<forall>i < 0x1000. hs_mapped (V w2) (in_page I + of_nat i))"
      using mmap [OF c(1)] by blast
  qed (simp_all add: x86_trace_fields)
  then show ?thesis by (auto simp: funcall6_def page_there_def)
qed

lemma dlopen_call:
  assumes "injected t w" "load_bytes (hs_mem (V w)) a 32 = LIB_PATH"
  shows "\<exists>w'. funcall2 sys x86_trace_arch t (f_dlopen their) a 2 w = Some (w', Ok (in_handle I)) \<and> injected t w' \<and>
    hs_sent (V w') = hs_sent (V w) \<and> (page_there w \<longrightarrow> page_there w') \<and> page_kept I (V w) (V w')"
proof -
  let ?g = "ta_prepare_funcall2 x86_trace_arch (f_dlopen their) a 2 (tr_registers t)"
  have "\<exists>w' ret. do_funcall sys x86_trace_arch t ?g w = Some (w', Ok ret) \<and> injected t w' \<and> hs_sent (V w') = hs_sent (V w) @ [] \<and>
      (page_there w \<longrightarrow> page_there w') \<and> (ret = in_handle I \<and> page_kept I (V w) (V w'))"
  proof (rule call_returns [OF assms(1), where f = "f_dlopen their" and R = "\<lambda>ret s s'. ret = in_handle I \<and> page_kept I s s'"])
    fix w1 assume c: "at_call (V w1) (f_dlopen their)" "hs_mem (V w1) = hs_mem (V w)" "hs_regs (V w1) = called ?g"
    show "\<exists>w2 ret. resumes sys w1 w2 \<and> back_from (V w1) ret [] (V w2) \<and> ret = in_handle I \<and> page_kept I (V w1) (V w2)"
      using dlopen [OF c(1)] assms(2) by (auto simp: c(2,3) x86_trace_fields LIB_PATH_def)
  qed (simp_all add: x86_trace_fields page_kept_def)
  then show ?thesis by (auto simp: funcall2_def)
qed

lemma dlsym_call:
  assumes "injected t w" "load_bytes (hs_mem (V w)) a 15 = FUN_NAME"
  shows "\<exists>w'. funcall2 sys x86_trace_arch t (f_dlsym their) (in_handle I) a w = Some (w', Ok (in_payload I)) \<and> injected t w' \<and>
    hs_sent (V w') = hs_sent (V w) \<and> (page_there w \<longrightarrow> page_there w') \<and> page_kept I (V w) (V w')"
proof -
  let ?g = "ta_prepare_funcall2 x86_trace_arch (f_dlsym their) (in_handle I) a (tr_registers t)"
  have "\<exists>w' ret. do_funcall sys x86_trace_arch t ?g w = Some (w', Ok ret) \<and> injected t w' \<and> hs_sent (V w') = hs_sent (V w) @ [] \<and>
      (page_there w \<longrightarrow> page_there w') \<and> (ret = in_payload I \<and> page_kept I (V w) (V w'))"
  proof (rule call_returns [OF assms(1), where f = "f_dlsym their" and R = "\<lambda>ret s s'. ret = in_payload I \<and> page_kept I s s'"])
    fix w1 assume c: "at_call (V w1) (f_dlsym their)" "hs_mem (V w1) = hs_mem (V w)" "hs_regs (V w1) = called ?g"
    show "\<exists>w2 ret. resumes sys w1 w2 \<and> back_from (V w1) ret [] (V w2) \<and> ret = in_payload I \<and> page_kept I (V w1) (V w2)"
      using dlsym [OF c(1)] assms(2) by (auto simp: c(2,3) x86_trace_fields FUN_NAME_def)
  qed (simp_all add: x86_trace_fields page_kept_def)
  then show ?thesis by (auto simp: funcall2_def)
qed

lemma payload_call:
  assumes "injected t w" "vminer_payload (Ok ()) (x86_chunks kvm) vec_writer (fds_at (hs_mem (V w)) a (unat n)) = (out, Ok r)"
  shows "\<exists>w' ret. funcall2 sys x86_trace_arch t (in_payload I) a n w = Some (w', Ok ret) \<and> injected t w' \<and>
    hs_sent (V w') = hs_sent (V w) @ out \<and> (ucast ret :: 32 word) = word_of_int r"
proof -
  let ?g = "ta_prepare_funcall2 x86_trace_arch (in_payload I) a n (tr_registers t)"
  have "\<exists>w' ret. do_funcall sys x86_trace_arch t ?g w = Some (w', Ok ret) \<and> injected t w' \<and> hs_sent (V w') = hs_sent (V w) @ out \<and>
      (page_there w \<longrightarrow> page_there w') \<and> (ucast ret :: 32 word) = word_of_int r"
  proof (rule call_returns [OF assms(1), where f = "in_payload I" and R = "\<lambda>ret s s'. (ucast ret :: 32 word) = word_of_int r"])
    fix w1 assume c: "at_call (V w1) (in_payload I)" "hs_mem (V w1) = hs_mem (V w)" "hs_regs (V w1) = called ?g"
    have "vminer_payload (Ok ()) (x86_chunks kvm) vec_writer
        (fds_at (hs_mem (V w1)) (ux_rdi (hs_regs (V w1))) (unat (ux_rsi (hs_regs (V w1))))) = (out, Ok r)"
      using assms(2) by (simp add: c(2,3) x86_trace_fields)
    from payload [OF c(1) this] show "\<exists>w2 ret. resumes sys w1 w2 \<and> back_from (V w1) ret out (V w2) \<and> (ucast ret :: 32 word) = word_of_int r"
      by blast
  qed (simp_all add: x86_trace_fields)
  then show ?thesis by (auto simp: funcall2_def)
qed

lemma dlclose_call:
  assumes "injected t w"
  shows "\<exists>w'. do_dlclose sys x86_trace_arch t their (in_handle I) w = Some w' \<and> injected t w' \<and> hs_sent (V w') = hs_sent (V w)"
proof -
  let ?g = "ta_prepare_funcall1 x86_trace_arch (f_dlclose their) (in_handle I) (tr_registers t)"
  have "\<exists>w' ret. do_funcall sys x86_trace_arch t ?g w = Some (w', Ok ret) \<and> injected t w' \<and> hs_sent (V w') = hs_sent (V w) @ [] \<and>
      (page_there w \<longrightarrow> page_there w') \<and> ret = 0"
  proof (rule call_returns [OF assms, where f = "f_dlclose their" and R = "\<lambda>ret s s'. ret = 0"])
    fix w1 assume c: "at_call (V w1) (f_dlclose their)" "hs_regs (V w1) = called ?g"
    show "\<exists>w2 ret. resumes sys w1 w2 \<and> back_from (V w1) ret [] (V w2) \<and> ret = 0"
      using dlclose [OF c(1)] by (auto simp: c(2) x86_trace_fields)
  qed (simp_all add: x86_trace_fields)
  then show ?thesis by (auto simp: do_dlclose_def funcall1_def)
qed

text \<open>Writing to the page.\<close>

lemma page_written:
  assumes inj: "injected t w" and page: "page_there w" and len: "length bs \<le> 0x1000"
  shows "\<exists>w'. poke_data sys (in_page I) bs w = Some (w', Ok ()) \<and> injected t w' \<and> page_there w' \<and>
    hs_sent (V w') = hs_sent (V w) \<and> load_bytes (hs_mem (V w')) (in_page I) (length bs) = bs"
proof -
  have "\<forall>i < length bs. hs_mapped (V w) (in_page I + of_nat i)" using page len by (auto simp: page_there_def)
  then obtain w' where w': "proc_mem_write sys (in_page I) bs w = (w', Ok ())"
    "V w' = (V w)\<lparr>hs_mem := store_bytes (hs_mem (V w)) (in_page I) bs\<rparr>"
    using mem_written inj unfolding injected_def by blast
  have "store_bytes (hs_mem (V w)) (in_page I) bs (in_code I + of_nat i) = hs_mem (V w) (in_code I + of_nat i)" if "i < 3" for i
    using code_place(2) [OF that] len by (intro store_bytes_other) auto
  then have "load_bytes (hs_mem (V w')) (in_code I) 3 = load_bytes (hs_mem (V w)) (in_code I) 3"
    by (simp add: load_bytes_def w'(2))
  moreover have "load_bytes (hs_mem (V w')) (in_page I) (length bs) = bs"
    using len by (simp add: w'(2) load_store_bytes)
  ultimately show ?thesis
    using inj page w' by (auto simp: poke_data_def io_call_def injected_def page_there_def)
qed

lemma page_kept_bytes:
  assumes "page_kept I s s'" "k + n \<le> 0x1000"
  shows "load_bytes (hs_mem s') (in_page I + of_nat k) n = load_bytes (hs_mem s) (in_page I + of_nat k) n"
proof -
  have "hs_mem s' (in_page I + of_nat k + of_nat i) = hs_mem s (in_page I + of_nat k + of_nat i)" if "i < n" for i
    using assms that unfolding page_kept_def by (simp add: add.assoc flip: of_nat_add)
  then show ?thesis by (simp add: load_bytes_def)
qed

section \<open>The injection\<close>

lemma lengths: "length LIB_PATH = 32" "length FUN_NAME = 15"
  by (simp_all add: LIB_PATH_def FUN_NAME_def str_bytes_def)

text \<open>The payload is loaded and called with the file descriptors of the caller.\<close>

lemma attached_body_sends:
  assumes inj: "injected t w" and fds: "length fds \<le> 1024"
    and pay: "vminer_payload (Ok ()) (x86_chunks kvm) vec_writer fds = (out, Ok 0)"
  shows "\<exists>w'. attached_body sys x86_trace_arch their fds t w = Some (w', Ok ()) \<and> injected t w' \<and> hs_sent (V w') = hs_sent (V w) @ out"
proof -
  obtain w1 where w1: "funcall6 sys x86_trace_arch t (f_mmap their) 0 0x1000 1 0x22 (- 1) 0 w = Some (w1, Ok (in_page I))"
    "injected t w1" "hs_sent (V w1) = hs_sent (V w)" "page_there w1" using mmap_call [OF inj] by blast
  have "length (LIB_PATH @ FUN_NAME) \<le> 0x1000" by (simp add: lengths)
  from page_written [OF w1(2,4) this]
  obtain w2 where w2: "poke_data sys (in_page I) (LIB_PATH @ FUN_NAME) w1 = Some (w2, Ok ())" "injected t w2" "page_there w2"
    "hs_sent (V w2) = hs_sent (V w1)" "load_bytes (hs_mem (V w2)) (in_page I) (32 + 15) = LIB_PATH @ FUN_NAME"
    by (auto simp: lengths)
  have strings: "load_bytes (hs_mem (V w2)) (in_page I) 32 = LIB_PATH" "load_bytes (hs_mem (V w2)) (in_page I + of_nat 32) 15 = FUN_NAME"
    using w2(5) unfolding load_bytes_append by (simp_all add: append_eq_append_conv lengths)
  obtain w3 where w3: "funcall2 sys x86_trace_arch t (f_dlopen their) (in_page I) 2 w2 = Some (w3, Ok (in_handle I))" "injected t w3"
    "hs_sent (V w3) = hs_sent (V w2)" "page_there w3" "page_kept I (V w2) (V w3)"
    using dlopen_call [OF w2(2) strings(1)] w2(3) by blast
  have name: "load_bytes (hs_mem (V w3)) (in_page I + of_nat 32) 15 = FUN_NAME"
    using page_kept_bytes [OF w3(5), of 32 15] strings(2) by simp
  have nm: "add_chk (in_page I) (of_nat (length LIB_PATH)) = (Ok (in_page I + of_nat 32) :: u64 vm_result)"
    using page_place(2) by (simp add: add_chk_def lengths)
  obtain w4 where w4: "funcall2 sys x86_trace_arch t (f_dlsym their) (in_handle I) (in_page I + of_nat 32) w3 = Some (w4, Ok (in_payload I))"
    "injected t w4" "hs_sent (V w4) = hs_sent (V w3)" "page_there w4"
    using dlsym_call [OF w3(2) name] w3(4) by blast
  let ?bytes = "concat (map (to_le_bytes 4) fds)"
  have len: "length ?bytes = 4 * length fds" by (induction fds) auto
  have "length ?bytes \<le> 0x1000" unfolding len using fds by simp
  from page_written [OF w4(2,4) this]
  obtain w5 where w5: "poke_data sys (in_page I) ?bytes w4 = Some (w5, Ok ())" "injected t w5" "hs_sent (V w5) = hs_sent (V w4)"
    "load_bytes (hs_mem (V w5)) (in_page I) (4 * length fds) = ?bytes"
    unfolding len by blast
  have "unat (of_nat (length fds) :: u64) = length fds" using fds by (simp add: unat_of_nat)
  then have "vminer_payload (Ok ()) (x86_chunks kvm) vec_writer (fds_at (hs_mem (V w5)) (in_page I) (unat (of_nat (length fds) :: u64))) = (out, Ok 0)"
    using fds_at_encoded [OF w5(4)] pay by simp
  from payload_call [OF w5(2) this]
  obtain w6 ret where w6: "funcall2 sys x86_trace_arch t (in_payload I) (in_page I) (of_nat (length fds)) w5 = Some (w6, Ok ret)"
    "injected t w6" "hs_sent (V w6) = hs_sent (V w5) @ out" "(ucast ret :: 32 word) = 0" by auto
  obtain w7 where w7: "do_dlclose sys x86_trace_arch t their (in_handle I) w6 = Some w7" "injected t w7" "hs_sent (V w7) = hs_sent (V w6)"
    using dlclose_call [OF w6(2)] by blast
  have "attached_body sys x86_trace_arch their fds t w = Some (w7, Ok ())"
    using w1(1) w2(1) w3(1) w4(1) w5(1) w6(1,4) w7(1) not_null page_no_error nm
    by (simp add: attached_body_def call_payload_def finally_do_def Let_def)
  then show ?thesis using w1(3) w2(4) w3(3) w4(3) w5(3) w6(3) w7(2,3) by auto
qed

lemma tracee_attached:
  assumes "hs_phase (V w) = Free" "proc_mem_open sys w = Ok ()"
  shows "\<exists>w' t. tracee_attach sys x86_trace_arch pid w = Some (w', Ok t) \<and> injected t w' \<and> hs_sent (V w') = hs_sent (V w)"
proof -
  obtain w1 w2 where a: "ptrace_attach sys w = (w1, Ok ())" "ptrace_wait sys w1 = (w2, Ok ())" "hs_phase (V w2) = Stopped"
    "hs_sent (V w2) = hs_sent (V w)" "0x100 \<le> unat (ux_rsp (hs_regs (V w2)))" "\<forall>i < 3. hs_mapped (V w2) (in_code I + of_nat i)"
    using attached [OF assms(1)] by blast
  obtain w3 where g: "ptrace_getregset sys w2 = (w3, Ok (hs_regs (V w2), 216))" "V w3 = V w2" using regs_read [OF a(3)] by blast
  obtain w4 where r: "proc_mem_read sys (in_code I) 3 w3 = (w4, Ok (load_bytes (hs_mem (V w3)) (in_code I) 3))" "V w4 = V w3"
    using mem_read [of w3 3 "in_code I"] a(3,6) g(2) by auto
  have st4: "hs_phase (V w4) = Stopped" using a(3) g(2) r(2) by simp
  have "\<forall>i < length [0xff, 0xd0, 0xcc :: u8]. hs_mapped (V w4) (in_code I + of_nat i)"
    using a(6) g(2) r(2) by (simp add: numeral_3_eq_3)
  from mem_written [OF st4 this] obtain w5 where wr: "proc_mem_write sys (in_code I) [0xff, 0xd0, 0xcc] w4 = (w5, Ok ())"
    "V w5 = (V w4)\<lparr>hs_mem := store_bytes (hs_mem (V w4)) (in_code I) [0xff, 0xd0, 0xcc]\<rparr>"
    by blast
  have "load_bytes (hs_mem (V w5)) (in_code I) 3 = [0xff, 0xd0, 0xcc]"
    using load_store_bytes [of "[0xff, 0xd0, 0xcc]" "hs_mem (V w4)" "in_code I"] by (simp add: wr(2) numeral_3_eq_3)
  moreover have "find_lib (proc_maps sys w3) pid ''/'' = Ok (in_code I)" using code_found a(3) g(2) by simp
  moreover have "length (ta_instructions x86_trace_arch) = 3" by (simp add: x86_trace_fields)
  ultimately show ?thesis
    using a g r wr assms(2)
    by (simp add: tracee_attach_def raw_attach_def raw_wait_def raw_get_registers_def io_call_def context_res_def x86_trace_fields
        injected_def Let_def numeral_3_eq_3 [symmetric])
qed

lemma tracee_dropped:
  assumes "injected t w"
  shows "\<exists>w'. tracee_drop sys x86_trace_arch t w = Some w' \<and> hs_phase (V w') = Free \<and> hs_sent (V w') = hs_sent (V w)"
proof -
  obtain w1 where w1: "proc_mem_write sys (in_code I) (tr_instrs t) w = (w1, Ok ())"
    "V w1 = (V w)\<lparr>hs_mem := store_bytes (hs_mem (V w)) (in_code I) (tr_instrs t)\<rparr>"
    using mem_written [of w "tr_instrs t" "in_code I"] assms by (auto simp: injected_def)
  then have "hs_phase (V w1) = Stopped" using assms by (simp add: injected_def)
  then obtain w2 where w2: "ptrace_setregset sys (tr_registers t) w1 = (w2, Ok 216)" "V w2 = (V w1)\<lparr>hs_regs := tr_registers t\<rparr>"
    "hs_phase (V w2) = Stopped"
    using regs_set [of w1 "tr_registers t"] by auto
  obtain w3 where w3: "ptrace_detach sys w2 = (w3, Ok ())" "V w3 = (V w2)\<lparr>hs_phase := Free\<rparr>" using detached [OF w2(3)] by blast
  show ?thesis
    using assms w1 w2 w3
    by (simp add: tracee_drop_def poke_data_def io_call_def injected_def raw_set_registers_def context_res_def x86_trace_fields
        raw_drop_def raw_detach_def)
qed

text \<open>Attaching succeeds, and the socket has what the payload sends for the file descriptors of the caller.\<close>

lemma kvm_attach_sends:
  assumes libs: "find_lib own_maps own_pid ''libc.so'' = Ok our_libc" "find_lib (proc_maps sys w) pid ''libc.so'' = Ok their_libc"
      "remote_funs our_libc their_libc ours = Ok their"
    and free: "hs_phase (V w) = Free" "proc_mem_open sys w = Ok ()"
    and fds: "length fds \<le> 1024" and pay: "vminer_payload (Ok ()) (x86_chunks kvm) vec_writer fds = (out, Ok 0)"
  shows "\<exists>w'. kvm_attach own_maps own_pid ours sys x86_trace_arch pid fds w = Some (w', Ok ()) \<and>
    hs_phase (V w') = Free \<and> hs_sent (V w') = hs_sent (V w) @ out"
proof -
  obtain w1 t where w1: "tracee_attach sys x86_trace_arch pid w = Some (w1, Ok t)" "injected t w1" "hs_sent (V w1) = hs_sent (V w)"
    using tracee_attached [OF free] by blast
  obtain w2 where w2: "attached_body sys x86_trace_arch their fds t w1 = Some (w2, Ok ())" "injected t w2"
    "hs_sent (V w2) = hs_sent (V w1) @ out" using attached_body_sends [OF w1(2) fds pay] by blast
  obtain w3 where w3: "tracee_drop sys x86_trace_arch t w2 = Some w3" "hs_phase (V w3) = Free" "hs_sent (V w3) = hs_sent (V w2)"
    using tracee_dropped [OF w2(2)] by blast
  have "kvm_attach own_maps own_pid ours sys x86_trace_arch pid fds w = Some (w3, Ok ())"
    using libs w1(1) w2(1) w3(1) by (simp add: kvm_attach_def context_res_def finally_do_def)
  then show ?thesis using w1(3) w2(3) w3(2,3) by auto
qed

end

end
