(* ===== verification/Vm_Tools.thy ===== *)
theory Vm_Tools
  imports Vm_Kvm_Attach
begin

text \<open>
  The command line tools: a dump of a live guest of KVM (\<^verbatim>\<open>bin/kvm_dump_live\<close>), and the tool that reads all the memory of
  a process so that it is mapped (\<^verbatim>\<open>bin/force_mmap\<close>, on Linux and on Windows). The parser of the arguments of the first one is an
  argument. \<open>kvm_create_live\<close> puts together the two halves of \<open>Kvm::create\<close>: finding the memory, and running the
  payload in the process of the hypervisor for the registers.
\<close>

section \<open>Dumping a live guest\<close>

definition kvm_create_live ::
  "((string, io_error) result list, io_error) result \<Rightarrow>
   (u8 list \<Rightarrow> u64 \<Rightarrow> u8 list \<times> (unit, io_error) result, io_error) result \<Rightarrow>
   ('w \<Rightarrow> ('w, ('r, 's, 'o) vcpu list) traced) \<Rightarrow> (u64 \<Rightarrow> (memory_map list \<times> physical_address list) vm_result) \<Rightarrow>
   'w \<Rightarrow> ('w, ('r, 's, 'o) kvm) traced"
where
  "kvm_create_live open_maps open_mem regs_of make_mappings w =
     st_then (Some (w, find_memory open_maps open_mem)) (\<lambda>w mem.
     st_then (regs_of w) (\<lambda>w vcpus.
       Some (w, kvm_create open_maps open_mem (Ok vcpus) make_mappings)))"

text \<open>The bytes that were written to the output file are returned with the outcome.\<close>

definition kvm_dump_live ::
  "architecture \<Rightarrow> ('r, 's, 'o) arch_impl \<Rightarrow> ('r \<Rightarrow> runtime_registers) \<Rightarrow> ('s \<Rightarrow> runtime_special) \<Rightarrow> ('o \<Rightarrow> runtime_other) \<Rightarrow>
   ((string, io_error) result list, io_error) result \<Rightarrow>
   (u8 list \<Rightarrow> u64 \<Rightarrow> u8 list \<times> (unit, io_error) result, io_error) result \<Rightarrow>
   ('w \<Rightarrow> ('w, ('r, 's, 'o) vcpu list) traced) \<Rightarrow> (unit, io_error) result \<Rightarrow> writer \<Rightarrow> 'w \<Rightarrow> ('w, u8 list \<times> unit vm_result) traced"
where
  "kvm_dump_live host arch into_r into_s into_o open_maps open_mem regs_of create wr w =
     st_then (kvm_create_live open_maps open_mem regs_of (default_qemu_mappings host) w) (\<lambda>w vm.
     st_then (Some (w, dump_vm into_r into_s into_o (kvm_backend arch vm))) (\<lambda>w d.
       Some (w, Ok (apsnd (map_err vm_of_io) (dump_write create wr d)))))"

section \<open>Reading all the memory of a process\<close>

text \<open>A line of \<^verbatim>\<open>/proc/pid/maps\<close>, with its line feed: start, end, and whether it is readable.\<close>

definition map_region :: "string \<Rightarrow> ((nat \<times> nat \<times> bool) option, io_error) result" where
  "map_region line =
     (case find_char (CHR ''-'') line of
        None \<Rightarrow> Ok None
      | Some i \<Rightarrow>
          (let rest = drop (i + 1) line in
           case find_char (CHR '' '') rest of
             None \<Rightarrow> Ok None
           | Some j \<Rightarrow>
               (let flags = drop j rest in
                if length flags \<le> 1 then Panic
                else if flags ! 1 = CHR ''r'' \<or> flags ! 1 = CHR ''-'' then
                  Ok (Option.bind (from_str_radix 16 64 (take i line)) (\<lambda>s.
                      map_option (\<lambda>e. (s, e, flags ! 1 = CHR ''r'')) (from_str_radix 16 64 (take j rest))))
                else Ok None)))"

text \<open>The regions that were read, and the outcome; \<open>exact_read\<close> is \<open>read_exact_at\<close>: it reads a number of bytes at an address.\<close>

fun force_mmap_loop ::
  "(nat \<Rightarrow> u64 \<Rightarrow> (unit, io_error) result) \<Rightarrow> (string, io_error) result list \<Rightarrow> (u64 \<times> u64) list \<times> (unit, io_error) result"
where
  "force_mmap_loop exact_read [] = ([], Ok ())"
| "force_mmap_loop exact_read (line # lines) =
     (case and_then (and_then line map_region) (ok_or (IoSimple (OtherKind ''invalid data''))) of
        Ok (s, e, readable) \<Rightarrow>
          if readable then
            (if e < s then ([], Panic)
             else case exact_read (e - s) (of_nat s) of
                 Ok u \<Rightarrow> apfst ((#) (of_nat s, of_nat e)) (force_mmap_loop exact_read lines)
               | Err e' \<Rightarrow> ([], Err e')
               | Panic \<Rightarrow> ([], Panic))
          else force_mmap_loop exact_read lines
      | Err e \<Rightarrow> ([], Err e)
      | Panic \<Rightarrow> ([], Panic))"

definition force_mmap ::
  "((string, io_error) result list, io_error) result \<Rightarrow> (nat \<Rightarrow> u64 \<Rightarrow> (unit, io_error) result, io_error) result \<Rightarrow>
   (u64 \<times> u64) list \<times> (unit, io_error) result"
where
  "force_mmap open_maps open_mem =
     (case and_then open_maps (\<lambda>maps. map_ok (Pair maps) open_mem) of
        Ok (maps, exact_read) \<Rightarrow> force_mmap_loop exact_read maps
      | Err e \<Rightarrow> ([], Err e)
      | Panic \<Rightarrow> ([], Panic))"

text \<open>
  The tool on Windows: \<open>query\<close> is \<open>VirtualQueryEx\<close>, which gives the region of an address and nothing past the last one,
  \<open>rd\<close> is \<open>ReadProcessMemory\<close>, with the number of the bytes that were read. The lines that are printed are returned.
\<close>

record memory_region =
  mr_base :: u64
  mr_size :: u64
  mr_state :: u32
  mr_protect :: u32

definition MEM_FREE :: u32 where "MEM_FREE = 0x10000"
definition MEM_RESERVE :: u32 where "MEM_RESERVE = 0x2000"
definition PAGE_NOACCESS :: u32 where "PAGE_NOACCESS = 1"

datatype mmap_line = Mapping_line u64 u64 | Error_line string | Partial_line u64 u64

definition region_skipped :: "memory_region \<Rightarrow> bool" where
  "region_skipped region \<longleftrightarrow>
     mr_state region = MEM_FREE \<or> mr_state region = MEM_RESERVE \<or> mr_protect region AND PAGE_NOACCESS = PAGE_NOACCESS"

definition region_lines :: "(u64 \<Rightarrow> u64 \<Rightarrow> (unit, string) result \<times> u64) \<Rightarrow> memory_region \<Rightarrow> mmap_line list" where
  "region_lines rd region =
     (let (res, bytes_read) = rd (mr_base region) (mr_size region) in
      Mapping_line (mr_base region) (mr_base region + mr_size region) #
      (case res of
         Err err \<Rightarrow> [Error_line err]
       | _ \<Rightarrow> if bytes_read \<noteq> mr_size region then [Partial_line bytes_read (mr_size region)] else []))"

partial_function (option) windows_mmap_loop ::
  "(u64 \<Rightarrow> memory_region option) \<Rightarrow> (u64 \<Rightarrow> u64 \<Rightarrow> (unit, string) result \<times> u64) \<Rightarrow> u64 \<Rightarrow> mmap_line list \<Rightarrow>
   (mmap_line list \<times> (unit, io_error) result) option"
where
  "windows_mmap_loop query rd address out =
     (case query address of
        None \<Rightarrow> Some (out, Ok ())
      | Some region \<Rightarrow>
          (case add_chk (mr_base region) (mr_size region) :: (u64, io_error) result of
             Ok address \<Rightarrow> windows_mmap_loop query rd address (if region_skipped region then out else out @ region_lines rd region)
           | _ \<Rightarrow> Some (out, Panic)))"

definition windows_force_mmap ::
  "((u64 \<Rightarrow> memory_region option) \<times> (u64 \<Rightarrow> u64 \<Rightarrow> (unit, string) result \<times> u64), io_error) result \<Rightarrow>
   (mmap_line list \<times> (unit, io_error) result) option"
where
  "windows_force_mmap open_process =
     (case open_process of
        Ok (query, rd) \<Rightarrow> windows_mmap_loop query rd 0 []
      | Err e \<Rightarrow> Some ([], Err e)
      | Panic \<Rightarrow> Some ([], Panic))"

text \<open>The exit code of the tool: \<open>None\<close> for a panic. \<open>args\<close> are the arguments after the name of the program.\<close>

definition force_mmap_main ::
  "(32 word \<Rightarrow> (u64 \<times> u64) list \<times> (unit, io_error) result) \<Rightarrow> u8 list list \<Rightarrow> (u64 \<times> u64) list \<times> int option"
where
  "force_mmap_main run args =
     (case args of
        [] \<Rightarrow> ([], Some 1)
      | a # rest \<Rightarrow>
          (case Option.bind (from_utf8 a) parse_i32 of
             None \<Rightarrow> ([], Some 1)
           | Some pid \<Rightarrow>
               if rest \<noteq> [] then ([], Some 1)
               else apsnd (\<lambda>r. case r of Ok u \<Rightarrow> Some 0 | Err e \<Rightarrow> Some 1 | Panic \<Rightarrow> None) (run pid)))"

section \<open>Lemmas\<close>

text \<open>On success every readable region of the process was read, in the order of the file.\<close>

lemma force_mmap_reads_all:
  assumes "force_mmap_loop rd lines = (rs, Ok ())"
  shows "\<exists>regions. map (\<lambda>l. and_then l map_region) lines = map (\<lambda>x. Ok (Some x)) regions \<and>
    rs = map (\<lambda>(s, e, r). (of_nat s, of_nat e)) (filter (\<lambda>(s, e, r). r) regions) \<and>
    (\<forall>(s, e, r) \<in> set regions. r \<longrightarrow> s \<le> e \<and> rd (e - s) (of_nat s) = Ok ())"
  using assms
proof (induction lines arbitrary: rs)
  case Nil
  then show ?case by simp
next
  case (Cons l ls)
  obtain s e r where l: "and_then l map_region = Ok (Some (s, e, r))"
    using Cons.prems by (cases "and_then l map_region") (auto simp: ok_or_def split: option.splits prod.splits)
  obtain rs' where rest: "force_mmap_loop rd ls = (rs', Ok ())"
    and rs: "rs = (if r then (of_nat s, of_nat e) # rs' else rs')" "r \<longrightarrow> s \<le> e \<and> rd (e - s) (of_nat s) = Ok ()"
    using Cons.prems l
    by (cases "force_mmap_loop rd ls") (auto simp: ok_or_def split: if_splits result.splits)
  from Cons.IH [OF rest] obtain regions where
    "map (\<lambda>l. and_then l map_region) ls = map (\<lambda>x. Ok (Some x)) regions"
    "rs' = map (\<lambda>(s, e, r). (of_nat s, of_nat e)) (filter (\<lambda>(s, e, r). r) regions)"
    "\<forall>(s, e, r) \<in> set regions. r \<longrightarrow> s \<le> e \<and> rd (e - s) (of_nat s) = Ok ()"
    by blast
  with l rs show ?case by (intro exI [of _ "(s, e, r) # regions"]) auto
qed

text \<open>
  The address space of a process of Windows: regions that follow each other, and nothing after the last one. Then the tool
  ends, and it has read each of the regions that are not skipped, in order.
\<close>

inductive regions_from :: "(u64 \<Rightarrow> memory_region option) \<Rightarrow> u64 \<Rightarrow> memory_region list \<Rightarrow> bool" for query where
  regions_end: "query address = None \<Longrightarrow> regions_from query address []"
| regions_next: "query address = Some r \<Longrightarrow> mr_base r = address \<Longrightarrow> unat address + unat (mr_size r) < 2 ^ 64 \<Longrightarrow>
    regions_from query (address + mr_size r) rs \<Longrightarrow> regions_from query address (r # rs)"

lemma windows_mmap_reads_all:
  assumes "regions_from query address rs"
  shows "windows_mmap_loop query rd address out =
    Some (out @ concat (map (region_lines rd) (filter (\<lambda>r. \<not> region_skipped r) rs)), Ok ())"
  using assms
proof (induction arbitrary: out rule: regions_from.induct)
  case (regions_end address)
  then show ?case by (subst windows_mmap_loop.simps) simp
next
  case (regions_next address r rs)
  then show ?case by (subst windows_mmap_loop.simps) (simp add: add_chk_def)
qed

text \<open>The backend that a successful connection gives is the one of the memory and of the registers it found.\<close>

lemma kvm_create_live_ok:
  assumes "regs_of w = Some (w', Ok vcpus)" "kvm_create open_maps open_mem (Ok vcpus) mk = Ok vm"
  shows "kvm_create_live open_maps open_mem regs_of mk w = Some (w', Ok vm)"
  using assms by (cases "find_memory open_maps open_mem") (simp_all add: kvm_create_live_def kvm_create_def)

end
