(* ===== verification/Vm_Capture_Laws.thy ===== *)
theory Vm_Capture_Laws
  imports Vm_Tools Vm_Kvm_Attach_Laws Vm_Dump_Laws
begin

text \<open>
  A dump of a virtual machine holds its registers and its memory: what \<open>dump_vm\<close> copies, what is written to the file, and
  what is found there when the file is read again. The last section is about the guest of KVM that a tool dumps while it
  runs.
\<close>

section \<open>Copying the memory\<close>

definition maps_read :: "reader \<Rightarrow> (nat \<Rightarrow> u8) \<Rightarrow> memory_map list \<Rightarrow> bool" where
  "maps_read rd byte ms \<longleftrightarrow>
     (\<forall>m \<in> set ms. \<forall>bf. length bf = map_size m \<longrightarrow> rd (mm_start m) bf = (bytes_at byte (unat (mm_start m)) (map_size m), Ok ()))"

lemma remap_offsets_total:
  assumes "maps_ok ms" "unat acc + sum_list (map map_size ms) < 2 ^ 63" "remap_offsets ms acc = (Ok (offs, e) :: (_, 'e) result)"
  shows "unat e = unat acc + sum_list (map map_size ms)"
  using assms
proof (induction ms arbitrary: acc offs)
  case Nil
  then show ?case by simp
next
  case (Cons m ms)
  let ?d = "pa_diff (mm_end m) (mm_start m)"
  have m: "mm_start m \<le> mm_end m" "maps_ok ms" using maps_ok_Cons [OF Cons.prems(1)] by auto
  note d = unat_map_diff [OF m(1)]
  have lt: "unat acc + unat ?d < 2 ^ 63" using Cons.prems(2) d by simp
  obtain offs' where "remap_offsets ms (acc + ?d) = (Ok (offs', e) :: (_, 'e) result)"
    using Cons.prems(3) by (auto simp: pa_add_small(1) [OF lt] map_ok_Ok_iff)
  from Cons.IH [OF m(2) _ this] show ?case using Cons.prems(2) d by (simp add: pa_add_small(2) [OF lt])
qed

lemma dump_vm_copy_image:
  assumes "maps_ok ms" "maps_read (read_physical mem) byte ms"
    and "offset + sum_list (map map_size ms) \<le> length bs" "length bs < 2 ^ 64"
  shows "dump_vm_copy mem ms offset bs = Ok (take offset bs @ mem_image byte ms @ drop (offset + sum_list (map map_size ms)) bs)"
  using assms
proof (induction ms arbitrary: offset bs)
  case Nil
  then show ?case by (simp add: mem_image_def)
next
  case (Cons m ms)
  let ?n = "map_size m" and ?s = "sum_list (map map_size ms)"
  let ?b = "bytes_at byte (unat (mm_start m)) ?n"
  let ?bs = "take offset bs @ ?b @ drop (offset + ?n) bs"
  have m: "mm_start m \<le> mm_end m" "maps_ok ms" using maps_ok_Cons [OF Cons.prems(1)] by auto
  have le: "offset + ?n \<le> length bs" "offset + ?n < 2 ^ 64" "offset + ?n + ?s \<le> length bs" using Cons.prems(3,4) by simp_all
  have len: "length ?bs = length bs" using le(1) by simp
  have "length (drop offset (take (offset + ?n) bs)) = ?n" using le(1) by simp
  then have "read_physical mem (mm_start m) (drop offset (take (offset + ?n) bs)) = (?b, Ok ())"
    using Cons.prems(2) by (simp add: maps_read_def)
  then have step: "dump_vm_copy mem (m # ms) offset bs = dump_vm_copy mem ms (offset + ?n) ?bs"
    using le by (simp add: unat_map_diff [OF m(1)] Let_def)
  have "maps_read (read_physical mem) byte ms" using Cons.prems(2) by (simp add: maps_read_def)
  from Cons.IH [OF m(2) this, of "offset + ?n" ?bs]
  have "dump_vm_copy mem ms (offset + ?n) ?bs =
      Ok (take (offset + ?n) ?bs @ mem_image byte ms @ drop (offset + ?n + ?s) ?bs)"
    using le Cons.prems(4) by (simp only: len)
  moreover have "take (offset + ?n) ?bs = take offset bs @ ?b" "drop (offset + ?n + ?s) ?bs = drop (offset + ?n + ?s) bs"
    using le(1) by (simp_all add: min_absorb2 ac_simps)
  ultimately show ?case
    unfolding step by (simp only: mem_image_def list.map concat.simps sum_list.Cons append_assoc add.assoc)
qed

text \<open>The dump of a memory with these bytes.\<close>

definition captured :: "dump_vcpus \<Rightarrow> (nat \<Rightarrow> u8) \<Rightarrow> memory_map list \<Rightarrow> physical_address list \<Rightarrow> dumb_dump" where
  "captured vcpus byte ms offs =
     \<lparr>dd_vcpus = vcpus, dd_mem = remap_new (raw_memory_impl (raw_new (mem_image byte ms))) ms offs\<rparr>"

lemma dump_vm_captures:
  assumes "memory_mappings (be_memory be) = ms" "maps_ok ms" "maps_read (read_physical (be_memory be)) byte ms"
    and "remap_offsets ms 0 = (Ok (offs, e) :: (_, vm_error) result)"
    and "(case into_runtime (be_arch be) of
        X86_64 \<Rightarrow> map_ok DumpX86 (collect_vcpus (assume_x86_64 into_r into_s into_o (be_vcpus be)) (iter_vcpus (be_vcpus be)))
      | Aarch64 \<Rightarrow> map_ok DumpAarch64 (collect_vcpus (assume_aarch64 into_r into_s into_o (be_vcpus be)) (iter_vcpus (be_vcpus be)))) =
      Ok vcpus"
  shows "dump_vm into_r into_s into_o be = Ok (captured vcpus byte ms offs)"
proof -
  have e: "unat e = sum_list (map map_size ms)"
    using remap_offsets_total [OF assms(2) _ assms(4)] assms(2) by (simp add: maps_ok_def)
  have "dump_vm_copy (be_memory be) ms 0 (replicate (unat e) 0) = Ok (mem_image byte ms)"
    using dump_vm_copy_image [OF assms(2,3), of 0 "replicate (unat e) 0"] assms(2) e by (simp add: maps_ok_def)
  moreover have "iter_vcpus (assume_x86_64 into_r into_s into_o (be_vcpus be)) = iter_vcpus (be_vcpus be)"
    "iter_vcpus (assume_aarch64 into_r into_s into_o (be_vcpus be)) = iter_vcpus (be_vcpus be)"
    by (simp_all add: iter_vcpus_def assume_x86_64_def assume_aarch64_def)
  ultimately show ?thesis
    using assms(1,4,5) by (cases "into_runtime (be_arch be)") (simp_all add: dump_vm_def captured_def)
qed

section \<open>The file\<close>

lemma captured_read:
  assumes "maps_ok ms" "maps_disjoint ms" "length offs = length ms"
    and "\<forall>k < length ms. unat (offs ! k) = sum_list (map map_size (take k ms))"
    and "k < length ms" "covers (ms ! k) a (length bf)" "bf \<noteq> []"
  shows "remap_read_physical (remap_new (raw_memory_impl (raw_new (mem_image byte ms))) ms offs) a bf =
    (bytes_at byte (unat a) (length bf), Ok ())"
proof -
  let ?inner = "raw_memory_impl (raw_new (mem_image byte ms))"
  let ?r = "remap_new ?inner ms offs"
  let ?a = "offs ! k + (a - mm_start (ms ! k))" and ?x = "unat a - unat (mm_start (ms ! k))"
  note wf = remap_wf_loaded [OF assms(1-4), of ?inner]
  have sel: "mr_mappings ?r = ms" "remap_at ?r = offs" "read_physical (mr_inner ?r) = raw_read_physical (raw_new (mem_image byte ms))"
    by (simp_all add: remap_new_def raw_memory_impl_def)
  have pos: "0 < length bf" using assms(7) by simp
  have ua: "unat ?a = sum_list (map map_size (take k ms)) + ?x"
    using remap_addr_covered(2) [OF wf _ _ pos, of k a] assms(4-6) by (simp add: sel)
  have x: "unat (mm_start (ms ! k)) + ?x = unat a" "?x + length bf \<le> map_size (ms ! k)"
    using assms(6) by (auto simp: covers_def map_size_def word_le_nat_alt)
  have img: "take (length bf) (drop (unat ?a) (mem_image byte ms)) = bytes_at byte (unat a) (length bf)"
    unfolding ua using mem_image_nth [OF assms(5) x(2)] x(1) by simp
  then have "length (take (length bf) (drop (unat ?a) (mem_image byte ms))) = length bf" by simp
  then have "length bf \<le> length (mem_image byte ms) - unat ?a" by (simp add: min_def split: if_splits)
  then have "unat ?a + length bf \<le> length (mem_image byte ms)" using pos by linarith
  then have "raw_read_physical (raw_new (mem_image byte ms)) ?a bf = (bytes_at byte (unat a) (length bf), Ok ())"
    using img by (simp add: raw_read_spec raw_new_def bytes_at_slice)
  then show ?thesis
    using remap_read_covered [OF wf, of k a bf] assms(5-7) by (simp add: sel)
qed

definition captured_readable :: "memory_map list \<Rightarrow> physical_address \<Rightarrow> nat \<Rightarrow> bool" where
  "captured_readable ms a n \<longleftrightarrow> 0 < n \<and> (\<exists>k < length ms. covers (ms ! k) a n)"

lemma captured_flat:
  assumes "maps_ok ms" "maps_disjoint ms" "length offs = length ms"
    and "\<forall>k < length ms. unat (offs ! k) = sum_list (map map_size (take k ms))"
  shows "flat_memory (remap_read_physical (dd_mem (captured vcpus byte ms offs))) (captured_readable ms) byte"
proof
  fix a :: physical_address and bf :: buf
  assume "captured_readable ms a (length bf)"
  then show "remap_read_physical (dd_mem (captured vcpus byte ms offs)) a bf = (bytes_at byte (unat a) (length bf), Ok ())"
    using captured_read [OF assms] by (auto simp: captured_readable_def captured_def)
next
  fix a :: physical_address and n i m :: nat
  assume r: "captured_readable ms a n" "0 < m" "i + m \<le> n"
  then obtain k where k: "k < length ms" "covers (ms ! k) a n" by (auto simp: captured_readable_def)
  have "unat (a + of_nat i) = unat a + i"
    using k(2) r(2,3) unsigned_less [of "mm_end (ms ! k)", where 'a = nat] by (intro unat_add_of_nat) (simp add: covers_def)
  then have "covers (ms ! k) (a + of_nat i) m" using k(2) r(3) by (simp add: covers_def word_le_nat_alt)
  then show "captured_readable ms (a + of_nat i) m" using k(1) r(2) by (auto simp: captured_readable_def)
next
  fix a :: physical_address and n :: nat
  assume "captured_readable ms a n"
  then obtain k where "covers (ms ! k) a n" by (auto simp: captured_readable_def)
  then show "unat a + n < 2 ^ 64" using unsigned_less [of "mm_end (ms ! k)", where 'a = nat] by (simp add: covers_def)
next
  fix a :: physical_address and bf :: buf
  assume r: "\<not> captured_readable ms a (length bf)" "bf \<noteq> []" "unat a + length bf < 2 ^ 64"
  then have "\<forall>m \<in> set ms. \<not> covers m a (length bf)" by (auto simp: captured_readable_def in_set_conv_nth)
  then show "snd (remap_read_physical (dd_mem (captured vcpus byte ms offs)) a bf) \<noteq> Ok ()"
    using remap_read_uncovered [OF remap_wf_loaded [OF assms] r(3)] by (simp add: captured_def remap_new_def)
qed

lemma length_vcpu_chunks: "dump_vcpus_wf vcpus \<Longrightarrow> length (concat (dump_vcpu_chunks vcpus)) < 2 ^ 41"
proof (cases vcpus)
  case (DumpX86 vs)
  assume "dump_vcpus_wf vcpus"
  then have wf: "length vs < 2 ^ 32" "\<forall>v \<in> set vs. x86_special_wf (vcpu_special v)" using DumpX86 by auto
  from wf(2) have "length (concat (concat (map enc_x86_vcpu vs))) = 472 * length vs"
    by (induction vs) (simp_all add: enc_x86_vcpu_def length_enc_x86_special)
  then show ?thesis using DumpX86 wf(1) by (simp add: dump_vcpu_chunks_def)
next
  case (DumpAarch64 vs)
  assume "dump_vcpus_wf vcpus"
  then have wf: "length vs < 2 ^ 32" "\<forall>v \<in> set vs. length (arm_regs (vcpu_registers v)) = 31" using DumpAarch64 by auto
  from wf(2) have "length (concat (concat (map enc_arm_vcpu vs))) = 304 * length vs"
    by (induction vs) (simp_all add: enc_arm_vcpu_def length_enc_arm_registers)
  then show ?thesis using DumpAarch64 wf(1) by (simp add: dump_vcpu_chunks_def)
qed

text \<open>What is read back from the file, at every address.\<close>

definition dump_holds :: "dumb_dump \<Rightarrow> dump_vcpus \<Rightarrow> (nat \<Rightarrow> u8) \<Rightarrow> memory_map list \<Rightarrow> bool" where
  "dump_holds dd vcpus byte ms \<longleftrightarrow>
     dd_vcpus dd = vcpus \<and> mr_mappings (dd_mem dd) = ms \<and>
     (\<forall>a bf. bf \<noteq> [] \<longrightarrow> unat a + length bf < 2 ^ 64 \<longrightarrow>
        remap_read_physical (dd_mem dd) a bf =
          (if \<exists>m \<in> set ms. covers m a (length bf) then (bytes_at byte (unat a) (length bf), Ok ()) else (bf, Err OutOfBounds)))"

lemma captured_written_read:
  assumes ms: "maps_ok ms" "maps_disjoint ms" "length ms < 2 ^ 32"
    and whole: "\<forall>m \<in> set ms. 0 < map_size m \<and> dump_chunk dvd map_size m"
    and vcpus: "dump_vcpus_wf vcpus" and offs: "remap_offsets ms 0 = (Ok (offs, e) :: (_, vm_error) result)"
    and ra: "reads_content read_at"
  shows "\<exists>content dd. dump_write (Ok ()) vec_writer (captured vcpus byte ms offs) = (content, Ok ()) \<and>
    dump_read read_at (\<lambda>p. Ok content) p = Ok dd \<and> dump_holds dd vcpus byte ms"
proof -
  let ?dd = "captured vcpus byte ms offs"
  let ?pre = "enc_header (dump_header ?dd) @ enc_mappings ms @ concat (dump_vcpu_chunks vcpus)"
  let ?c = "?pre @ mem_image byte ms"
  have sel: "dd_vcpus ?dd = vcpus" "mr_mappings (dd_mem ?dd) = ms" by (simp_all add: captured_def remap_new_def)
  have o: "length offs = length ms" "\<forall>k < length ms. unat (offs ! k) = sum_list (map map_size (take k ms))"
    using remap_offsets_ok [OF ms(1), of 0, where 'e = vm_error] ms(1) offs by (auto simp: maps_ok_def)
  note flat = captured_flat [OF ms(1,2) o, of vcpus byte]
  have "\<forall>m \<in> set (mr_mappings (dd_mem ?dd)). flat_memory.whole_mapping (captured_readable ms) m"
  proof
    fix m assume "m \<in> set (mr_mappings (dd_mem ?dd))"
    then obtain k where k: "k < length ms" "ms ! k = m" "m \<in> set ms" by (auto simp: sel in_set_conv_nth)
    have "mm_start m \<le> mm_end m" using ms(1) k(3) by (simp add: maps_ok_def)
    moreover have "captured_readable ms (mm_start m) (map_size m)"
      using k whole calculation unfolding captured_readable_def
      by (intro conjI exI [of _ k]) (auto simp: covers_def map_size_def word_le_nat_alt)
    ultimately show "flat_memory.whole_mapping (captured_readable ms) m"
      using whole k(3) flat by (simp add: flat_memory.whole_mapping_def flip: map_size_def)
  qed
  from dump_write_content [OF flat this] have w: "dump_write (Ok ()) vec_writer ?dd = (?c, Ok ())" by (simp add: sel)
  have len: "length ?c < 2 ^ 64"
    using length_vcpu_chunks [OF vcpus] ms(1,3) by (simp add: length_mem_image maps_ok_def)
  let ?m = "remap_new (file_mem_impl (loaded_file read_at ?c (length ?pre))) ms offs"
  have rd: "dump_read read_at (\<lambda>p. Ok ?c) p = Ok \<lparr>dd_vcpus = vcpus, dd_mem = ?m\<rparr>"
    using dump_read_written [of ?dd ?c byte "\<lambda>p. Ok ?c" p offs e read_at] ms vcpus len offs by (simp add: sel)
  have "remap_read_physical ?m a bf =
      (if \<exists>m \<in> set ms. covers m a (length bf) then (bytes_at byte (unat a) (length bf), Ok ()) else (bf, Err OutOfBounds))"
    if bf: "bf \<noteq> []" "unat a + length bf < 2 ^ 64" for a bf
  proof (cases "\<exists>m \<in> set ms. covers m a (length bf)")
    case True
    then obtain k where "k < length ms" "covers (ms ! k) a (length bf)" by (auto simp: in_set_conv_nth)
    from loaded_read [OF ra ms(1,2) o refl len this bf(1)] True show ?thesis by simp
  next
    case False
    then show ?thesis
      using remap_read_uncovered [OF remap_wf_loaded [OF ms(1,2) o] bf(2)] by (simp add: remap_new_def)
  qed
  then show ?thesis using w rd by (auto simp: dump_holds_def remap_new_def)
qed

section \<open>A guest of KVM\<close>

lemma collect_vcpus_list:
  assumes "\<forall>v \<in> set ks. registers regs v = Ok (vcpu_registers (vs ! v)) \<and> special_registers regs v = Ok (vcpu_special (vs ! v)) \<and>
      other_registers regs v = Ok (vcpu_other (vs ! v))"
  shows "collect_vcpus regs ks = Ok (map ((!) vs) ks)"
  using assms by (induction ks) simp_all

lemma kvm_registers:
  assumes "v < length (kvm_vcpus vm)"
  shows "registers (be_vcpus (kvm_backend arch vm)) v = Ok (vcpu_registers (kvm_vcpus vm ! v))"
    "special_registers (be_vcpus (kvm_backend arch vm)) v = Ok (vcpu_special (kvm_vcpus vm ! v))"
    "other_registers (be_vcpus (kvm_backend arch vm)) v = Ok (vcpu_other (kvm_vcpus vm ! v))"
  using assms
  by (simp_all add: kvm_backend_def default_backend_def default_vcpus_def kvm_vcpu_regs_def get_at_def ok_or_def)

lemma kvm_iter_vcpus: "iter_vcpus (be_vcpus (kvm_backend arch vm)) = [0..<length (kvm_vcpus vm)]"
  by (simp add: iter_vcpus_def kvm_backend_def default_backend_def default_vcpus_def kvm_vcpu_regs_def)

lemma kvm_collect_x86:
  "collect_vcpus (assume_x86_64 RegsX86 SpecialX86 OtherX86 (be_vcpus (kvm_backend arch vm))) (iter_vcpus (be_vcpus (kvm_backend arch vm))) =
     Ok (kvm_vcpus vm)"
  using collect_vcpus_list [of "[0..<length (kvm_vcpus vm)]" "assume_x86_64 RegsX86 SpecialX86 OtherX86 (be_vcpus (kvm_backend arch vm))" "kvm_vcpus vm"]
  by (simp add: kvm_iter_vcpus kvm_registers assume_x86_64_def map_nth)

lemma kvm_collect_arm:
  "collect_vcpus (assume_aarch64 RegsAarch64 SpecialAarch64 OtherAarch64 (be_vcpus (kvm_backend arch vm))) (iter_vcpus (be_vcpus (kvm_backend arch vm))) =
     Ok (kvm_vcpus vm)"
  using collect_vcpus_list [of "[0..<length (kvm_vcpus vm)]" "assume_aarch64 RegsAarch64 SpecialAarch64 OtherAarch64 (be_vcpus (kvm_backend arch vm))" "kvm_vcpus vm"]
  by (simp add: kvm_iter_vcpus kvm_registers assume_aarch64_def map_nth)

text \<open>The bytes of the guest, in the memory of the process of the hypervisor.\<close>

definition guest_byte :: "architecture \<Rightarrow> nat \<Rightarrow> nat \<Rightarrow> (nat \<Rightarrow> u8 option) \<Rightarrow> nat \<Rightarrow> u8" where
  "guest_byte host sz start pimage x = the (pimage (start + the (guest_offset host sz x 1)))"

lemma guest_bytes:
  assumes "guest_offset host sz a n = Some off"
  shows "bytes_at (guest_byte host sz start pimage) a n = bytes_at (\<lambda>i. the (pimage i)) (start + off) n"
proof (rule nth_equalityI)
  fix i assume i: "i < length (bytes_at (guest_byte host sz start pimage) a n)"
  have "guest_offset host sz (a + i) 1 = Some (off + i)"
    using assms i by (cases host) (auto split: if_splits)
  then show "bytes_at (guest_byte host sz start pimage) a n ! i = bytes_at (\<lambda>i. the (pimage i)) (start + off) n ! i"
    using i by (simp add: guest_byte_def add.assoc)
qed simp

lemma qemu_maps:
  assumes "unat sz < 2 ^ 63" "0 < sz" "dump_chunk dvd unat sz" "default_qemu_mappings host sz = (Ok (ms, at) :: (_, 'e) result)"
  shows "maps_ok ms" "maps_disjoint ms" "length ms < 2 ^ 32" "\<forall>m \<in> set ms. 0 < map_size m \<and> dump_chunk dvd map_size m"
    "\<forall>m \<in> set ms. \<exists>off. guest_offset host (unat sz) (unat (mm_start m)) (map_size m) = Some off"
proof -
  have u: "unat (sz + 0x80000000) = unat sz + 0x80000000" "unat (sz + 0x40000000) = unat sz + 0x40000000" "0 < unat sz"
    using assms(1,2) by (simp_all add: unat_add_no_overflow unat_gt_0)
  have d: "dump_chunk dvd unat sz - 0x80000000" "dump_chunk dvd 0x80000000"
    using assms(3) by (simp_all add: dump_chunk_def)
  show "maps_ok ms" "maps_disjoint ms" "length ms < 2 ^ 32" "\<forall>m \<in> set ms. 0 < map_size m \<and> dump_chunk dvd map_size m"
    "\<forall>m \<in> set ms. \<exists>off. guest_offset host (unat sz) (unat (mm_start m)) (map_size m) = Some off"
    using assms(1,3,4) u d
    by (cases host; auto simp: qemu_mappings_x86 qemu_mappings_arm maps_ok_def maps_disjoint_def map_size_def word_le_nat_alt
        split: if_splits)+
qed

text \<open>What a dump of a live guest has, in terms of the process of the hypervisor.\<close>

definition live_dump_holds :: "architecture \<Rightarrow> file_mem \<Rightarrow> (nat \<Rightarrow> u8 option) \<Rightarrow> dump_vcpus \<Rightarrow> dumb_dump \<Rightarrow> bool" where
  "live_dump_holds host f pimage vcpus dd \<longleftrightarrow>
     dd_vcpus dd = vcpus \<and>
     (\<forall>a bf. bf \<noteq> [] \<longrightarrow> unat a + length bf < 2 ^ 64 \<longrightarrow>
        remap_read_physical (dd_mem dd) a bf =
          (case guest_offset host (unat (file_size f)) (unat a) (length bf) of
             None \<Rightarrow> (bf, Err OutOfBounds)
           | Some off \<Rightarrow> (bytes_at (\<lambda>i. the (pimage i)) (unat (file_start f) + off) (length bf), Ok ())))"

lemma qemu_mappings_ok:
  assumes "unat sz < 2 ^ 63"
  obtains ms at where "default_qemu_mappings host sz = (Ok (ms, at) :: (_, 'e) result)"
proof -
  have "\<exists>p. default_qemu_mappings host sz = (Ok p :: (_, 'e) result)"
    using assms by (cases host) (simp_all add: qemu_mappings_x86 qemu_mappings_arm)
  then show ?thesis using that by auto
qed

lemma qemu_maps_read:
  assumes "unat (file_size f) < 2 ^ 63" "0 < file_size f" "dump_chunk dvd unat (file_size f)"
    and "\<forall>i < unat (file_size f). pimage (unat (file_start f) + i) \<noteq> None"
    and f: "f = process_file pimage (file_start f) (file_size f)" "unat (file_start f) + unat (file_size f) < 2 ^ 64"
    and m: "default_qemu_mappings host (file_size f) = (Ok (ms, at) :: (_, 'e) result)"
  shows "maps_read (remap_read_physical (remap_new (file_mem_impl f) ms at))
    (guest_byte host (unat (file_size f)) (unat (file_start f)) pimage) ms"
  unfolding maps_read_def
proof (intro ballI allI impI)
  fix m and bf :: buf
  assume bf: "m \<in> set ms" "length bf = map_size m"
  note maps = qemu_maps [OF assms(1-3) m]
  obtain off where off: "guest_offset host (unat (file_size f)) (unat (mm_start m)) (length bf) = Some off" "bf \<noteq> []"
    "mm_start m \<le> mm_end m" using maps(1,4,5) bf by (force simp: maps_ok_def)
  have "unat (mm_start m) + length bf < 2 ^ 64"
    using off(3) bf(2) unsigned_less [of "mm_end m", where 'a = nat] by (simp add: map_size_def word_le_nat_alt)
  from qemu_read [OF assms(1) m off(2) this f(2) assms(4)]
  show "remap_read_physical (remap_new (file_mem_impl f) ms at) (mm_start m) bf =
      (bytes_at (guest_byte host (unat (file_size f)) (unat (file_start f)) pimage) (unat (mm_start m)) (map_size m), Ok ())"
    using off(1) guest_bytes [OF off(1)] bf(2) f(1) by simp
qed

lemma dump_holds_live:
  assumes "unat (file_size f) < 2 ^ 63" "default_qemu_mappings host (file_size f) = (Ok (ms, at) :: (_, 'e) result)"
    and d: "dump_holds dd vcpus (guest_byte host (unat (file_size f)) (unat (file_start f)) pimage) ms"
  shows "live_dump_holds host f pimage vcpus dd"
  unfolding live_dump_holds_def
proof (intro conjI allI impI)
  fix a :: physical_address and bf :: buf
  assume bf: "bf \<noteq> []" "unat a + length bf < 2 ^ 64"
  then have "0 < length bf" by simp
  note g = guest_offset_covers [OF assms(1,2) this, of a]
  show "remap_read_physical (dd_mem dd) a bf =
      (case guest_offset host (unat (file_size f)) (unat a) (length bf) of
         None \<Rightarrow> (bf, Err OutOfBounds)
       | Some off \<Rightarrow> (bytes_at (\<lambda>i. the (pimage i)) (unat (file_start f) + off) (length bf), Ok ()))"
  proof (cases "guest_offset host (unat (file_size f)) (unat a) (length bf)")
    case None
    then show ?thesis using g d bf by (simp add: dump_holds_def)
  next
    case (Some off)
    then have "\<exists>m \<in> set ms. covers m a (length bf)" using g by auto
    then show ?thesis using Some d bf guest_bytes [OF Some] by (simp add: dump_holds_def)
  qed
qed (use d in \<open>simp add: dump_holds_def\<close>)

lemma live_dump_captures:
  assumes mem: "find_memory open_maps (Ok (process_read pimage)) = Ok f"
    and sz: "unat (file_size f) < 2 ^ 63" "0 < file_size f" "dump_chunk dvd unat (file_size f)"
      "\<forall>i < unat (file_size f). pimage (unat (file_start f) + i) \<noteq> None"
    and regs: "regs_of w = Some (w', Ok vs)"
    and vcpus: "\<And>vm. kvm_vcpus vm = vs \<Longrightarrow> (case into_runtime arch of
        X86_64 \<Rightarrow> map_ok DumpX86 (collect_vcpus (assume_x86_64 into_r into_s into_o (be_vcpus (kvm_backend arch vm))) (iter_vcpus (be_vcpus (kvm_backend arch vm))))
      | Aarch64 \<Rightarrow> map_ok DumpAarch64 (collect_vcpus (assume_aarch64 into_r into_s into_o (be_vcpus (kvm_backend arch vm))) (iter_vcpus (be_vcpus (kvm_backend arch vm))))) =
      Ok vcpus"
    and wf: "dump_vcpus_wf vcpus" and ra: "reads_content read_at"
  shows "\<exists>content dd. kvm_dump_live host arch into_r into_s into_o open_maps (Ok (process_read pimage)) regs_of (Ok ()) vec_writer w =
      Some (w', Ok (content, Ok ())) \<and>
    dump_read read_at (\<lambda>p. Ok content) p = Ok dd \<and> live_dump_holds host f pimage vcpus dd"
proof -
  let ?byte = "guest_byte host (unat (file_size f)) (unat (file_start f)) pimage"
  have f: "f = process_file pimage (file_start f) (file_size f)" "unat (file_start f) + unat (file_size f) < 2 ^ 64"
    using find_memory_process [OF mem] by auto
  obtain ms at where m: "default_qemu_mappings host (file_size f) = (Ok (ms, at) :: (_, vm_error) result)"
    by (rule qemu_mappings_ok [OF sz(1)])
  define vm where "vm = \<lparr>kvm_mem = remap_new (file_mem_impl f) ms at, kvm_vcpus = vs\<rparr>"
  note maps = qemu_maps [OF sz(1-3) m]
  have created: "kvm_create_live open_maps (Ok (process_read pimage)) regs_of (default_qemu_mappings host) w = Some (w', Ok vm)"
    using regs mem m by (intro kvm_create_live_ok) (simp_all add: kvm_create_def vm_def)
  obtain offs e where offs: "remap_offsets ms 0 = (Ok (offs, e) :: (_, vm_error) result)"
    using remap_offsets_ok [OF maps(1), of 0] maps(1) by (auto simp: maps_ok_def)
  have d: "dump_vm into_r into_s into_o (kvm_backend arch vm) = Ok (captured vcpus ?byte ms offs)"
  proof (rule dump_vm_captures [OF _ maps(1) _ offs])
    show "maps_read (read_physical (be_memory (kvm_backend arch vm))) ?byte ms"
      using qemu_maps_read [OF sz f m] by (simp add: kvm_backend_def default_backend_def kvm_memory_def with_defaults_def vm_def)
    have arch: "be_arch (kvm_backend arch vm) = arch" by (simp add: kvm_backend_def default_backend_def)
    show "(case into_runtime (be_arch (kvm_backend arch vm)) of
        X86_64 \<Rightarrow> map_ok DumpX86 (collect_vcpus (assume_x86_64 into_r into_s into_o (be_vcpus (kvm_backend arch vm))) (iter_vcpus (be_vcpus (kvm_backend arch vm))))
      | Aarch64 \<Rightarrow> map_ok DumpAarch64 (collect_vcpus (assume_aarch64 into_r into_s into_o (be_vcpus (kvm_backend arch vm))) (iter_vcpus (be_vcpus (kvm_backend arch vm))))) =
      Ok vcpus" unfolding arch by (rule vcpus) (simp add: vm_def)
  qed (simp add: kvm_backend_def default_backend_def kvm_memory_def with_defaults_def vm_def remap_new_def)
  obtain content dd where c: "dump_write (Ok ()) vec_writer (captured vcpus ?byte ms offs) = (content, Ok ())"
    "dump_read read_at (\<lambda>p. Ok content) p = Ok dd" "dump_holds dd vcpus ?byte ms"
    using captured_written_read [where byte = ?byte and p = p, OF maps(1-4) wf offs ra] by blast
  have "kvm_dump_live host arch into_r into_s into_o open_maps (Ok (process_read pimage)) regs_of (Ok ()) vec_writer w =
      Some (w', Ok (content, Ok ()))"
    by (simp add: kvm_dump_live_def created d c(1))
  then show ?thesis using c(2) dump_holds_live [OF sz(1) m c(3)] by blast
qed

end
