(* ===== verification/Vm_Linux_Stack_Laws.thy ===== *)
theory Vm_Linux_Stack_Laws
  imports Vm_Linux_Stack
begin

text \<open>
  Call frame information as DWARF defines it, on a register file and the memory of the process, and the proof that
  the walk over the frames of a Linux process follows it, for the rules that the code supports.
\<close>

section \<open>The module of an address\<close>

definition modules_ordered :: "linux_module list \<Rightarrow> bool" where
  "modules_ordered ms \<longleftrightarrow>
     sorted_wrt (\<lambda>a b. lm_end a \<le> lm_start b) ms \<and> (\<forall>m \<in> set ms. lm_start m < lm_end m)"

text \<open>The lookup finds the module that contains the address, if there is one.\<close>

lemma lm_find_iff:
  assumes "modules_ordered ms"
  shows "lm_find ms a = Some m \<longleftrightarrow> m \<in> set ms \<and> lm_contains m a"
proof
  assume "m \<in> set ms \<and> lm_contains m a"
  then obtain i where i: "i < length ms" "m = ms ! i" "lm_contains (ms ! i) a" by (auto simp: in_set_conv_nth)
  then have "binary_search_by_key ms a lm_start = Found i \<or> binary_search_by_key ms a lm_start = Insert (Suc i)"
    using assms by (intro interval_search [where e = lm_end]) (simp_all add: modules_ordered_def lm_contains_def)
  then show "lm_find ms a = Some m" using i by (auto simp: lm_find_def)
next
  assume found: "lm_find ms a = Some m"
  show "m \<in> set ms \<and> lm_contains m a"
  proof (cases "binary_search_by_key ms a lm_start")
    case (Found i)
    then have "i < length ms" "lm_start (ms ! i) = a" using binary_search_Found by auto
    then show ?thesis using Found found assms by (auto simp: lm_find_def lm_contains_def modules_ordered_def)
  next
    case (Insert i)
    have "i \<le> length ms"
      using binary_search_Insert [OF intervals_sorted Insert] assms by (auto simp: modules_ordered_def)
    then show ?thesis using Insert found by (auto simp: lm_find_def split: if_splits)
  qed
qed

section \<open>Call frame information\<close>

type_synonym call_state = "virtual_address \<times> virtual_address \<times> virtual_address option"

definition at_offset :: "u64 \<Rightarrow> i64 \<Rightarrow> u64 option" where
  "at_offset v off = (if 0 \<le> int (unat v) + sint off \<and> int (unat v) + sint off < 2 ^ 64 then Some (v + off) else None)"

fun reg_value :: "dwarf_registers \<Rightarrow> call_state \<Rightarrow> dwarf_register \<Rightarrow> u64 option" where
  "reg_value regs (ip, sp, bp) r =
     (if r = reg_sp regs then Some sp else if r = reg_ip regs then Some ip
      else if Some r = reg_bp regs then bp else None)"

definition cfa_value :: "dwarf_registers \<Rightarrow> call_state \<Rightarrow> unwind_row \<Rightarrow> u64 option" where
  "cfa_value regs st row =
     (case row_cfa row of
        RegisterAndOffset r off \<Rightarrow>
          if r = reg_ip regs \<and> r \<noteq> reg_sp regs then None else Option.bind (reg_value regs st r) (\<lambda>v. at_offset v off)
      | CfaExpression \<Rightarrow> None)"

fun rule_value :: "(u64 \<Rightarrow> u64 option) \<Rightarrow> (dwarf_register \<Rightarrow> u64 option) \<Rightarrow> u64 \<Rightarrow> dwarf_register \<Rightarrow> register_rule \<Rightarrow> u64 option" where
  "rule_value mem R cfa r RuleSameValue = R r"
| "rule_value mem R cfa r (RuleOffset off) = Option.bind (at_offset cfa off) mem"
| "rule_value mem R cfa r (RuleValOffset off) = at_offset cfa off"
| "rule_value mem R cfa r (RuleRegister r') = R r'"
| "rule_value mem R cfa r _ = None"

text \<open>The base pointer of the caller, which may be lost.\<close>

definition bp_value :: "(u64 \<Rightarrow> u64 option) \<Rightarrow> dwarf_registers \<Rightarrow> call_state \<Rightarrow> unwind_row \<Rightarrow> u64 \<Rightarrow> u64 option option" where
  "bp_value mem regs st row cfa =
     (case reg_bp regs of
        None \<Rightarrow> Some None
      | Some b \<Rightarrow>
          if row_register row b \<in> {RuleUndefined, RuleOther} then Some None
          else map_option Some (rule_value mem (reg_value regs st) cfa b (row_register row b)))"

text \<open>\<open>cfi\<close> is the function that covers an address, and its module.\<close>

definition cfi_step ::
  "(u64 \<Rightarrow> u64 option) \<Rightarrow> dwarf_registers \<Rightarrow> (virtual_address \<Rightarrow> (module \<times> fde) option) \<Rightarrow>
   call_state \<Rightarrow> stack_frame \<Rightarrow> call_state option \<Rightarrow> bool"
where
  "cfi_step mem regs cfi st frame st' \<longleftrightarrow>
     (\<exists>m f row cfa bp'.
        cfi (fst st) = Some (m, f) \<and> fde_row f (fst st) = Some row \<and>
        frame = \<lparr>frame_start = Some (fde_initial_address f), frame_size = Some (fde_len f), frame_sp = fst (snd st),
          frame_ip = fst st, frame_module = Some m\<rparr> \<and>
        cfa_value regs st row = Some cfa \<and> bp_value mem regs st row cfa = Some bp' \<and>
        (if row_register row (reg_ip regs) = RuleUndefined then st' = None
         else \<exists>ip'. rule_value mem (reg_value regs st) cfa (reg_ip regs) (row_register row (reg_ip regs)) = Some ip' \<and>
           st' = Some (ip', cfa, bp')))"

section \<open>What the guest has to provide\<close>

text \<open>
  The modules are in order, the memory that is read is readable, and the code finds unwind data that does not depend
  on the address it is looked for with.
\<close>

definition unwindable ::
  "bool \<Rightarrow> eh_lib \<Rightarrow> dwarf_registers \<Rightarrow> ('r, 's, 'o, 'm) linux_context \<Rightarrow> (module \<Rightarrow> eh_data) \<Rightarrow>
   (u64 \<Rightarrow> u64 option) \<Rightarrow> (virtual_address \<Rightarrow> (module \<times> fde) option) \<Rightarrow> bool"
where
  "unwindable dbg lib regs ctx data mem cfi \<longleftrightarrow>
     regs \<in> range dwarf_registers_of \<and> modules_ordered (lc_modules ctx) \<and>
     (\<forall>a v. mem a = Some v \<longrightarrow> ctx_read_value ctx a = Some (Ok v)) \<and>
     (\<forall>ip md f. cfi ip = Some (md, f) \<longrightarrow>
        (\<exists>m \<in> set (lc_modules ctx). lm_contains m ip \<and> lm_module m = md \<and>
           discover_sections dbg lib ctx m ip = Some (Ok (data md)) \<and>
           ehd_eh_frame (data md) \<le> length (ehd_segment (data md)) \<and>
           fde_for_address lib (drop (ehd_eh_frame (data md)) (ehd_segment (data md))) (ehd_endian (data md))
             (ehd_bases (data md)) ip = Some f))"

definition cells_ok :: "('r, 's, 'o, 'm) linux_context \<Rightarrow> (module \<Rightarrow> eh_data) \<Rightarrow> eh_cells \<Rightarrow> bool" where
  "cells_ok ctx data cells \<longleftrightarrow>
     (\<forall>m \<in> set (lc_modules ctx). cells (lm_module m) = Some None \<or> cells (lm_module m) = Some (Some (data (lm_module m))))"

fun walk_rel :: "('r, 's, 'o, 'm) linux_context \<Rightarrow> (module \<Rightarrow> eh_data) \<Rightarrow> call_state \<Rightarrow> linux_walk_state \<Rightarrow> bool" where
  "walk_rel ctx data (ip, sp, bp) (cells, frame, bp') \<longleftrightarrow>
     frame_ip frame = ip \<and> frame_sp frame = sp \<and> bp' = bp \<and> cells_ok ctx data cells"

section \<open>The walk follows the call frame information\<close>

lemma registers_distinct:
  "regs \<in> range dwarf_registers_of \<Longrightarrow> reg_ip regs \<noteq> reg_sp regs \<and> reg_bp regs \<noteq> Some (reg_ip regs) \<and> reg_bp regs \<noteq> Some (reg_sp regs)"
  by (auto simp: dwarf_registers_of_def split: architecture.splits)

lemma at_offset_add: "at_offset v off = Some a \<Longrightarrow> va_add_i64 v off = Ok a"
  by (auto simp: at_offset_def va_add_i64_spec split: if_splits)

lemma saved_in_value:
  "reg_value regs (frame_ip frame, frame_sp frame, bp) r = Some v \<Longrightarrow> saved_in regs frame bp missing r = Ok v"
  by (auto simp: saved_in_def get_base_pointer_def ok_or_def split: if_splits)

lemma frame_cfa_value:
  assumes "cfa_value regs (frame_ip frame, frame_sp frame, bp) row = Some cfa"
  shows "frame_cfa regs frame bp row = Ok cfa"
  using assms
  by (auto simp: cfa_value_def frame_cfa_def get_base_pointer_def ok_or_def at_offset_add
      split: cfa_rule.splits if_splits bind_splits)

lemma next_bp_value:
  assumes "bp_value mem regs (frame_ip frame, frame_sp frame, bp) row cfa = Some bp'" "regs \<in> range dwarf_registers_of"
    and "\<And>a v. mem a = Some v \<Longrightarrow> ctx_read_value ctx a = Some (Ok v)"
  shows "next_bp ctx regs frame bp row cfa = Some (Ok bp')"
proof (cases "reg_bp regs")
  case None
  then show ?thesis using assms(1) by (simp add: bp_value_def next_bp_def)
next
  case (Some b)
  then show ?thesis
    using assms(1,3) Some registers_distinct [OF assms(2)]
    by (cases "row_register row b")
      (auto simp: bp_value_def next_bp_def get_base_pointer_def ok_or_def at_offset_add saved_in_value split: if_splits bind_splits)
qed

lemma next_ip_value:
  assumes "rule_value mem (reg_value regs (frame_ip frame, frame_sp frame, bp)) cfa (reg_ip regs) (row_register row (reg_ip regs)) = Some ip'"
    and "regs \<in> range dwarf_registers_of" and "\<And>a v. mem a = Some v \<Longrightarrow> ctx_read_value ctx a = Some (Ok v)"
  shows "next_ip ctx regs frame bp row cfa = Some (Ok (Some ip'))"
  using assms(1,3) registers_distinct [OF assms(2)]
  by (cases "row_register row (reg_ip regs)") (auto simp: next_ip_def at_offset_add saved_in_value split: bind_splits)

lemma linux_unwind_data_ok:
  assumes "cells_ok ctx data cells" "m \<in> set (lc_modules ctx)"
    "discover_sections dbg lib ctx m ip = Some (Ok (data (lm_module m)))"
  shows "\<exists>cells'. linux_unwind_data dbg lib ctx cells m ip = Some (cells', Ok (data (lm_module m))) \<and> cells_ok ctx data cells'"
proof -
  have new: "cells_ok ctx data (cells(lm_module m \<mapsto> Some (data (lm_module m))))"
    using assms(1) by (auto simp: cells_ok_def)
  have "cells (lm_module m) = Some None \<or> cells (lm_module m) = Some (Some (data (lm_module m)))"
    using assms(1,2) by (simp add: cells_ok_def)
  then show ?thesis
  proof
    assume "cells (lm_module m) = Some None"
    then show ?thesis using assms(3) new by (simp add: linux_unwind_data_def)
  next
    assume "cells (lm_module m) = Some (Some (data (lm_module m)))"
    then show ?thesis using assms(1) by (simp add: linux_unwind_data_def)
  qed
qed

lemma walk_one_refines:
  assumes u: "unwindable dbg lib regs ctx data mem cfi"
    and step: "cfi_step mem regs cfi a frame a'" and rel: "walk_rel ctx data a s"
  shows "\<exists>st. linux_walk_one dbg lib regs ctx s = Some (Ok (NextFrame frame (Some (Ok st)))) \<and>
    (case a' of None \<Rightarrow> st = None | Some a' \<Rightarrow> \<exists>s'. st = Some s' \<and> walk_rel ctx data a' s')"
proof -
  obtain cells fr bp where s: "s = (cells, fr, bp)" by (cases s)
  have a: "a = (frame_ip fr, frame_sp fr, bp)" and cells: "cells_ok ctx data cells"
    using rel by (cases a; simp add: s)+
  obtain md f row cfa bp' where cfi: "cfi (frame_ip fr) = Some (md, f)" and row: "fde_row f (frame_ip fr) = Some row"
    and frame: "frame = \<lparr>frame_start = Some (fde_initial_address f), frame_size = Some (fde_len f), frame_sp = frame_sp fr,
        frame_ip = frame_ip fr, frame_module = Some md\<rparr>"
    and vals: "cfa_value regs a row = Some cfa" "bp_value mem regs a row cfa = Some bp'"
    and nxt: "if row_register row (reg_ip regs) = RuleUndefined then a' = None
       else \<exists>ip'. rule_value mem (reg_value regs a) cfa (reg_ip regs) (row_register row (reg_ip regs)) = Some ip' \<and>
         a' = Some (ip', cfa, bp')"
    using step by (auto simp: cfi_step_def a)
  obtain m where m: "m \<in> set (lc_modules ctx)" "lm_contains m (frame_ip fr)" "lm_module m = md"
    "discover_sections dbg lib ctx m (frame_ip fr) = Some (Ok (data md))"
    "ehd_eh_frame (data md) \<le> length (ehd_segment (data md))"
    "fde_for_address lib (drop (ehd_eh_frame (data md)) (ehd_segment (data md))) (ehd_endian (data md)) (ehd_bases (data md))
       (frame_ip fr) = Some f"
    using u cfi unfolding unwindable_def by blast
  have g: "regs \<in> range dwarf_registers_of" "\<And>a v. mem a = Some v \<Longrightarrow> ctx_read_value ctx a = Some (Ok v)"
    "find_linux_module ctx (frame_ip fr) = Some m"
    using u m(1,2) lm_find_iff by (auto simp: unwindable_def find_linux_module_def)
  obtain cells' where data: "linux_unwind_data dbg lib ctx cells m (frame_ip fr) = Some (cells', Ok (data md))" "cells_ok ctx data cells'"
    using linux_unwind_data_ok [OF cells m(1), of dbg lib "frame_ip fr"] m(3,4) by blast
  have ff: "fr\<lparr>frame_module := Some md, frame_start := Some (fde_initial_address f), frame_size := Some (fde_len f)\<rparr> = frame"
    "frame_ip frame = frame_ip fr" "frame_sp frame = frame_sp fr"
    using frame by (cases fr, simp)+
  have one: "linux_walk_one dbg lib regs ctx s = Some (Ok (NextFrame frame (linux_next_state ctx regs cells' frame bp f)))"
    using g(3) data(1) m(3,5,6) ff by (simp add: s linux_walk_one_def eh_frame_of_def)
  have a': "a = (frame_ip frame, frame_sp frame, bp)" using a ff(2,3) by simp
  have cfa: "frame_cfa regs frame bp row = Ok cfa" by (rule frame_cfa_value) (use vals(1) a' in simp)
  have bp: "next_bp ctx regs frame bp row cfa = Some (Ok bp')"
    by (rule next_bp_value [OF _ g(1)]) (use vals(2) a' g(2) in simp_all)
  show ?thesis
  proof (cases "row_register row (reg_ip regs) = RuleUndefined")
    case True
    then have "next_ip ctx regs frame bp row cfa = Some (Ok None)" by (simp add: next_ip_def)
    then show ?thesis using one cfa bp nxt True row ff(2) by (simp add: linux_next_state_def)
  next
    case False
    then obtain ip' where ip': "rule_value mem (reg_value regs a) cfa (reg_ip regs) (row_register row (reg_ip regs)) = Some ip'"
      "a' = Some (ip', cfa, bp')" using nxt by auto
    have "next_ip ctx regs frame bp row cfa = Some (Ok (Some ip'))"
      by (rule next_ip_value [OF _ g(1)]) (use ip'(1) a' g(2) in simp_all)
    then show ?thesis using one cfa bp ip'(2) row ff(2) data(2) by (simp add: linux_next_state_def)
  qed
qed

interpretation linux_stack: frame_walker "linux_walk_one dbg lib regs ctx"
  "\<lambda>a frame a'. unwindable dbg lib regs ctx data mem cfi \<and> cfi_step mem regs cfi a frame a'" "walk_rel ctx data"
  for dbg lib regs and ctx :: "('r, 's, 'o, 'm) linux_context" and data mem cfi
  by unfold_locales (use walk_one_refines in blast)

lemma context_cells_ok: "linux_context_new l proc = Some (Ok (ctx, cells)) \<Longrightarrow> cells_ok ctx data cells"
  by (auto simp: linux_context_new_def out_then_Ok_iff cells_ok_def split: bind_splits)

lemma linux_callstack_collects:
  assumes ctx: "linux_context_new l proc = Some (Ok (ctx, cells))"
    and regs: "regs = dwarf_registers_of (into_runtime (be_arch (lx_backend l)))"
    and u: "unwindable dbg lib regs ctx data mem cfi"
    and w: "stack_walk (cfi_step mem regs cfi) (ip, sp, bp) frames"
  shows "collect (linux_iter_callstack dbg lib l proc ip sp bp) = Some (Ok frames)"
proof -
  have "stack_walk (\<lambda>a frame a'. unwindable dbg lib regs ctx data mem cfi \<and> cfi_step mem regs cfi a frame a') (ip, sp, bp) frames"
    by (rule stack_walk_mono [OF w]) (use u in simp)
  from linux_stack.walk_collects [OF this, of "(cells, \<lparr>frame_start = None, frame_size = None, frame_sp = sp, frame_ip = ip, frame_module = None\<rparr>, bp)"]
  show ?thesis using ctx context_cells_ok [OF ctx, of data] by (simp add: linux_iter_callstack_def regs)
qed

end
