(* ===== verification/Vm_Examples.thy ===== *)
theory Vm_Examples
  imports Vm_Dump_Laws Vm_Kvm Vm_Symbols_Laws
begin

text \<open>
  Two guests of one page and a dump of one mapping, small enough to be evaluated by hand: the concrete inputs at which the
  hypotheses of the properties are shown to hold.
\<close>

section \<open>A page that is its own page table\<close>

text \<open>
  One page of memory that is its own page table at every level: its first entry is a valid large
  entry for the frame 0 (used by the witnesses).
\<close>

definition tiny_guest :: raw_memory where
  "tiny_guest = raw_new (0x81 # replicate 4095 0)"

lemma tiny_bytes: "raw_bytes tiny_guest = 0x81 # replicate 4095 0"
  by (simp add: tiny_guest_def raw_new_def)

lemma tiny_read:
  "raw_read_physical tiny_guest 0 bf =
     (if length bf \<le> 4096 then (take (length bf) (0x81 # replicate 4095 0), Ok ()) else (bf, Err OutOfBounds))"
  by (simp add: raw_read_physical_def get_from_def tiny_bytes)

lemma tiny_entry: "read_entry (raw_memory_impl tiny_guest) 0 old = Ok 0x81"
  by (simp add: read_entry_def raw_memory_impl_def tiny_read)

lemma tiny_translate:
  assumes "unat va < 2 ^ 30"
  shows "virtual_to_physical x86_64_mmu (raw_memory_impl tiny_guest) 0 va = Ok va"
proof -
  have "pml4e va = 0" "pdpe va = 0" and o: "huge_page_offset va = va"
    using assms by (simp_all add: word_unat_eq_iff unat_index_field)
  moreover have "take_bits 0 12 48 = 0" "take_bits 0x81 12 48 = 0" "take_bits 0x81 30 48 = 0"
    by (simp_all add: word_unat_eq_iff unat_take_bits)
  ultimately show ?thesis
    unfolding x86_64_mmu_def virtual_to_physical_four_level four_level_walk_def
    by (simp add: tiny_entry)
qed

lemma tiny_mapped:
  "unat a < 4096 \<Longrightarrow> mapped x86_64_mmu (raw_memory_impl tiny_guest) (raw_readable tiny_guest) 0 a"
proof -
  assume "unat a < 4096"
  then have "page_base a = 0"
    using page_base_split(1) [of a] by simp
  then show ?thesis
    by (simp add: mapped_def tiny_translate raw_readable_def tiny_bytes)
qed

lemma tiny_read_at:
  assumes "unat a + length bf \<le> 4096" "0 < unat a"
  shows "raw_read_physical tiny_guest a bf = (replicate (length bf) 0, Ok ())"
proof -
  obtain k where k: "unat a = Suc k" using assms(2) by (cases "unat a") auto
  then show ?thesis
    using assms(1) by (simp add: raw_read_physical_def get_from_def tiny_bytes min_def)
qed

lemma tiny_entry_at:
  assumes "unat a + 8 \<le> 4096" "0 < unat a"
  shows "read_entry (raw_memory_impl tiny_guest) a old = Ok 0"
  using assms by (simp add: read_entry_def raw_memory_impl_def tiny_read_at)

lemma tiny_unmapped:
  assumes "pml4e (page_base va) = 1"
  shows "unmapped x86_64_mmu (raw_memory_impl tiny_guest) 0 va"
    and "virtual_to_physical x86_64_mmu (raw_memory_impl tiny_guest) 0 (page_base va) = Err (TInvalid 0)"
proof -
  have "take_bits 0 12 48 = 0" by (simp add: word_unat_eq_iff unat_take_bits)
  then show r: "virtual_to_physical x86_64_mmu (raw_memory_impl tiny_guest) 0 (page_base va) = Err (TInvalid 0)"
    unfolding x86_64_mmu_def virtual_to_physical_four_level four_level_walk_def
    by (simp add: assms tiny_entry_at)
  then show "unmapped x86_64_mmu (raw_memory_impl tiny_guest) 0 va"
    by (simp add: unmapped_def)
qed

definition no_vcpu_regs :: "(x86_registers, x86_special_registers, x86_other_registers) vcpu_regs" where
  "no_vcpu_regs = \<lparr>vcpus_count = 0, registers = (\<lambda>v. Err InvalidId),
     special_registers = (\<lambda>v. Err InvalidId), other_registers = (\<lambda>v. Err InvalidId)\<rparr>"

definition tiny_backend :: "(x86_registers, x86_special_registers, x86_other_registers) backend" where
  "tiny_backend = default_backend (raw_memory_impl tiny_guest)
     (default_vcpus (x86_64_arch naive_finder) no_vcpu_regs) (x86_64_arch naive_finder)"

section \<open>A guest whose last entry is valid\<close>

text \<open>The last entry of the page points to the page itself as a table and as a 4 KiB frame.\<close>

definition last_guest :: raw_memory where
  "last_guest = raw_new (replicate 4088 0 @ 1 # replicate 7 0)"

lemma last_bytes: "raw_bytes last_guest = replicate 4088 0 @ 1 # replicate 7 0"
  by (simp add: last_guest_def raw_new_def)

lemma last_valid_entry:
  "filter (\<lambda>(i, e). entry_is_valid x86_64_mmu e) (drop 511 (enumerate 0 (decode_table (raw_bytes last_guest)))) =
     [(511, 1)]"
proof -
  have "drop 511 (enumerate 0 (decode_table (raw_bytes last_guest))) =
      [(511, decode_table (raw_bytes last_guest) ! 511)]"
    by (rule nth_equalityI) (simp_all add: nth_enumerate_eq)
  moreover have "decode_table (raw_bytes last_guest) ! 511 = 1"
    by (simp add: decode_table_def last_bytes)
  ultimately show ?thesis by (simp add: x86_64_mmu_def default_mmu_def)
qed

lemma last_read: "read_physical (raw_memory_impl last_guest) 0 (replicate 4096 0) = (raw_bytes last_guest, Ok ())"
  by (simp add: raw_memory_impl_def raw_read_physical_def get_from_def last_bytes)

text \<open>Every index of these addresses is 511; they point into the last eight bytes of the page.\<close>

definition last_addrs :: "virtual_address list" where
  "last_addrs = [0xfffffffffffffff8, 0xfffffffffffffff9, 0xfffffffffffffffa]"

lemma last_index:
  "s \<in> {39, 30, 21, 12} \<Longrightarrow> b \<in> set last_addrs \<Longrightarrow> unat (drop_bit s b AND vm_mask 9) = 511"
  by (auto simp: last_addrs_def vm_mask_def mask_eq_exp_minus_1)

lemma last_table_step:
  assumes "s \<in> {39, 30, 21}" "rest \<noteq> []" "b \<in> set last_addrs"
  shows "find_in_kernel_memory_inner x86_64_mmu (raw_memory_impl last_guest) ((s, h) # rest) 0 b fi bf =
   (case find_in_kernel_memory_inner x86_64_mmu (raw_memory_impl last_guest) rest 0 b fi bf of
      (b, Ok (Some va)) \<Rightarrow> (b, Ok (Some va)) | (b, Ok None) \<Rightarrow> (b, Ok None) | (b, r) \<Rightarrow> (b, r))"
proof -
  have i: "unat (drop_bit s b AND vm_mask 9) = 511" using assms(1,3) by (intro last_index) auto
  have c: "and_then (mul_chk (of_nat 511) (push_bit s 1)) (va_add (b AND NOT (vm_mask (s + 9)))) =
     (Ok (b AND NOT (vm_mask s)) :: u64 memory_access_result)"
    using assms(1,3)
    by (auto simp: last_addrs_def mul_chk_def va_add_def add_chk_def vm_mask_def push_bit_eq_mult)
  have d: "va_add (b AND NOT (vm_mask s)) (b AND vm_mask s) = (Ok b :: u64 memory_access_result)"
    using assms(1,3)
    by (auto simp: last_addrs_def va_add_def add_chk_def vm_mask_def mask_eq_exp_minus_1)
  have l: "\<not> entry_is_large x86_64_mmu 1" "take_bits 1 12 (ADDR_BITS x86_64_mmu) = 0"
    by (simp_all add: x86_64_mmu_def default_mmu_def word_unat_eq_iff unat_take_bits)
  show ?thesis
    unfolding find_in_kernel_memory_inner.simps Let_def prod.case last_read i last_valid_entry result.case
      find_entries.simps c d
    using assms(2) by (simp add: l d split: prod.split result.split option.split)
qed

lemma last_page_step:
  assumes "b \<in> set last_addrs" "nd \<noteq> []"
    and "first_occurrence nd (drop (unat (b AND vm_mask 12)) (raw_bytes last_guest)) = Some 0"
  shows "find_in_kernel_memory_inner x86_64_mmu (raw_memory_impl last_guest) [(12, h)] 0 b
     (naive_finder nd) bf = (bf, Ok (Some b))"
proof -
  let ?o = "b AND vm_mask 12"
  have i: "unat (drop_bit 12 b AND vm_mask 9) = 511" using assms(1) by (intro last_index) auto
  have c: "and_then (mul_chk (of_nat 511) (push_bit 12 1)) (va_add (b AND NOT (vm_mask (12 + 9)))) =
     (Ok (b AND NOT (vm_mask 12)) :: u64 memory_access_result)"
    using assms(1)
    by (auto simp: last_addrs_def mul_chk_def va_add_def add_chk_def vm_mask_def push_bit_eq_mult)
  have d: "va_add (b AND NOT (vm_mask 12)) ?o = (Ok b :: u64 memory_access_result)"
    using assms(1)
    by (auto simp: last_addrs_def va_add_def add_chk_def vm_mask_def mask_eq_exp_minus_1)
  have o: "?o \<le> 4096" "unat ?o \<le> 4096" "unat ?o + unat (4096 - ?o) = 4096"
    using assms(1) by (auto simp: last_addrs_def vm_mask_def mask_eq_exp_minus_1)
  have f: "take_bits 1 12 (ADDR_BITS x86_64_mmu) = 0"
    by (simp add: x86_64_mmu_def default_mmu_def word_unat_eq_iff unat_take_bits)
  have g: "get_range (unat ?o) 4096 (raw_bytes last_guest) = Some (drop (unat ?o) (raw_bytes last_guest))"
    using o(2) by (simp add: get_range_def last_bytes)
  have "search_page (raw_memory_impl last_guest) 0 4096 ?o (b AND NOT (vm_mask 12))
      (naive_finder nd) b' = (b', Ok (Some b))" for b'
    using o assms(3) unsigned_less [of b, where 'a = nat] by (simp add: search_page_def pa_add_def add_chk_def sub_chk_def raw_memory_impl_def
        raw_search_def g naive_finder_def ok_or_def d) (simp add: va_add_def add_chk_def)
  then show ?thesis
    unfolding find_in_kernel_memory_inner.simps Let_def prod.case last_read i last_valid_entry result.case
      find_entries.simps c f
    by simp
qed

lemma last_guest_found:
  assumes "b \<in> set last_addrs" "nd \<noteq> []"
    and "first_occurrence nd (drop (unat (b AND vm_mask 12)) (raw_bytes last_guest)) = Some 0"
  shows "find_in_kernel_memory_raw x86_64_mmu (raw_memory_impl last_guest) 0 b (naive_finder nd) bf =
    (bf, Ok (Some b))"
proof -
  have "take_bits 0 12 (ADDR_BITS x86_64_mmu) = 0" "LEVELS x86_64_mmu = default_levels"
    by (simp_all add: x86_64_mmu_def default_mmu_def word_unat_eq_iff unat_take_bits)
  then show ?thesis
    using last_page_step [OF assms]
    by (simp add: find_in_kernel_memory_raw_def default_levels_def last_table_step [OF _ _ assms(1)]
        del: find_in_kernel_memory_inner.simps)
qed

lemma last_guest_one:
  "find_in_kernel_memory_raw x86_64_mmu (raw_memory_impl last_guest) 0 0xfffffffffffffff8
     (naive_finder [1]) bf = (bf, Ok (Some 0xfffffffffffffff8))"
  by (rule last_guest_found)
    (simp_all add: last_addrs_def vm_mask_def mask_eq_exp_minus_1 last_bytes first_occurrence_Some_iff occurs_at_def)

lemma last_guest_zero:
  assumes "b \<in> {0xfffffffffffffff9, 0xfffffffffffffffa}"
  shows "find_in_kernel_memory_raw x86_64_mmu (raw_memory_impl last_guest) 0 b (naive_finder [0]) bf =
    (bf, Ok (Some b))"
  by (rule last_guest_found)
    (use assms in \<open>auto simp: last_addrs_def vm_mask_def mask_eq_exp_minus_1 last_bytes
       first_occurrence_Some_iff occurs_at_def\<close>)

definition last_backend :: "(x86_registers, x86_special_registers, x86_other_registers) backend" where
  "last_backend = default_backend (raw_memory_impl last_guest)
     (default_vcpus (x86_64_arch naive_finder) no_vcpu_regs) (x86_64_arch naive_finder)"

definition last_iterator :: "virtual_address \<Rightarrow> kernel_search_iterator" where
  "last_iterator base = \<lparr>ks_finder = naive_finder [0], ks_buffer = [], ks_mmu_addr = 0, ks_base = base\<rparr>"

lemma last_next:
  assumes "b \<in> {0xfffffffffffffff9, 0xfffffffffffffffa}"
  shows "kernel_search_next last_backend (last_iterator b) = (last_iterator (b + 1), Some (Ok b))"
  using assms last_guest_zero [OF assms]
  by (auto simp: kernel_search_next_def last_backend_def default_backend_def x86_64_arch_def find_raw_ref
      last_iterator_def va_add_def add_chk_def)

lemma last_next_1:
  "kernel_search_next last_backend (last_iterator 0xfffffffffffffff9) =
     (last_iterator 0xfffffffffffffffa, Some (Ok 0xfffffffffffffff9))"
  using last_next [of "0xfffffffffffffff9"] by simp

lemma last_next_2:
  "kernel_search_next last_backend (last_iterator 0xfffffffffffffffa) =
     (last_iterator 0xfffffffffffffffb, Some (Ok 0xfffffffffffffffa))"
  using last_next [of "0xfffffffffffffffa"] by simp

lemma last_backend_sel:
  "arch_find_in_kernel_memory_raw (be_arch last_backend) = find_in_kernel_memory_raw x86_64_mmu"
  "be_memory last_backend = raw_memory_impl last_guest"
  by (simp_all add: last_backend_def default_backend_def x86_64_arch_def)

lemma last_iterator_sel:
  "ks_finder (last_iterator b) = naive_finder [0]" "ks_base (last_iterator b) = b" "ks_mmu_addr (last_iterator b) = 0"
  by (simp_all add: last_iterator_def)

section \<open>A dump of one mapping\<close>

definition small_dump :: dumb_dump where
  "small_dump =
     \<lparr>dd_vcpus = DumpAarch64 [\<lparr>vcpu_registers = \<lparr>arm_regs = replicate 31 5, arm_sp = 1, arm_pc = 2, arm_pstate = 3\<rparr>,
        vcpu_special = \<lparr>sp_el1 = 1, ttbr0_el1 = 2, ttbr1_el1 = 3, vbar_el1 = 4\<rparr>, vcpu_other = ArmOther\<rparr>],
      dd_mem = remap_new (raw_memory_impl (raw_new (replicate 65536 7)))
        [\<lparr>mm_start = 0x40000000, mm_end = 0x40010000\<rparr>] [0]\<rparr>"

definition content_read_at :: "u8 list \<Rightarrow> u8 list \<Rightarrow> u64 \<Rightarrow> u8 list \<times> (unit, io_error) result" where
  "content_read_at content bf off =
     (if unat off + length bf \<le> length content then (take (length bf) (drop (unat off) content), Ok ())
      else (bf, Err eof_error))"

lemma small_dump_flat:
  "flat_memory (remap_read_physical (dd_mem small_dump))
     (remap_readable (dd_mem small_dump) (raw_readable (raw_new (replicate 65536 7))))
     (remap_byte (dd_mem small_dump) (\<lambda>i. replicate 65536 7 ! i))"
proof -
  have "remapped_memory (raw_read_physical (raw_new (replicate 65536 7)))
      (raw_readable (raw_new (replicate 65536 7))) (\<lambda>i. replicate 65536 7 ! i) (dd_mem small_dump)"
    using raw.flat_memory_axioms [of "raw_new (replicate 65536 7)"]
    by (simp add: remapped_memory_def remapped_memory_axioms_def small_dump_def remap_new_def raw_memory_impl_def
        remap_wf_def raw_new_def)
  then show ?thesis by (rule remapped_memory.remap_flat)
qed

section \<open>Small inputs of the other components\<close>

definition remap_example :: mem_remap where
  "remap_example = remap_new (raw_memory_impl (raw_new [1, 2, 3, 4]))
     [\<lparr>mm_start = 0x10, mm_end = 0x12\<rparr>, \<lparr>mm_start = 0x20, mm_end = 0x22\<rparr>] [0, 2]"

definition one_vcpu :: "(x86_registers, x86_special_registers, x86_other_registers) vcpus" where
  "one_vcpu = (default_vcpus (x86_64_arch naive_finder) no_vcpu_regs)
     \<lparr>vcpus_count := 1, pgd := (\<lambda>v. Ok 0)\<rparr>"

definition maps_example :: "string list" where
  "maps_example = [''10-30 r-xp 0 00:00 1 /usr/lib/libc.so'', ''400-480 rw-p 0 00:00 0'', ''a00-a10 rw-p 0 00:00 0'']"

lemma maps_example_guest:
  "map guest_map maps_example = [None, Some (0x400, 0x480), Some (0xa00, 0xa10)]"
  by (simp add: maps_example_def guest_map_def map_line_def from_str_radix_def digit_value_def char_code_def)

lemma maps_example_memory:
  "find_memory (Ok (map Ok maps_example)) (Ok rd) =
     Ok \<lparr>read_exact_at = rd, file_start = 0x400, file_mapping = \<lparr>mm_start = 0, mm_end = 0x80\<rparr>\<rparr>"
proof -
  note g = maps_example_guest [unfolded maps_example_def, simplified]
  show ?thesis
    by (simp add: find_memory_def maps_example_def find_memory_line_map g sub_chk_def add_chk_def file_open_def
        file_new_def)
qed

definition list_entry :: struct_ref where
  "list_entry = \<lparr>st_size = 16, st_name = ''_LIST_ENTRY'', st_fields =
     [\<lparr>sf_name = ''Flink'', sf_offset = 0, sf_typ = Pointer (Struct ''_LIST_ENTRY'')\<rparr>,
      \<lparr>sf_name = ''Blink'', sf_offset = 8, sf_typ = Pointer (Struct ''_LIST_ENTRY'')\<rparr>]\<rparr>"

definition arm_example :: "(arm_registers, arm_special_registers, arm_other_registers) vcpu_regs" where
  "arm_example = \<lparr>vcpus_count = 1,
     registers = (\<lambda>v. Ok \<lparr>arm_regs = map of_nat [100..<131], arm_sp = 0, arm_pc = 0, arm_pstate = 0\<rparr>),
     special_registers = (\<lambda>v. Err VcpuUnsupported), other_registers = (\<lambda>v. Ok ArmOther)\<rparr>"

end
