(* ===== verification/Vm_Unwind.thy ===== *)
theory Vm_Unwind
  imports Vm_Os
begin

text \<open>
  Unwinding one function of a 64-bit Windows module (the first part of
  \<^verbatim>\<open>vminer/src/os/windows/callstack.rs\<close>): the unwind codes, the table of functions, epilogues that are
  emulated instruction by instruction, and the chains of unwind information.

  Reading from a \<open>&mut &[u8]\<close> gives the value and the bytes left. A chain of unwind information is
  followed through the memory of the guest and may have a cycle: the functions that follow it are
  partial, \<open>None\<close> being a loop that does not end. The buffer of a module's content is taken to be
  aligned to 4 bytes, which \<open>bytemuck::cast_slice\<close> checks for the table at its offset.
\<close>

section \<open>Reading bytes\<close>

definition code_u8 :: "u8 list \<Rightarrow> (u8 \<times> u8 list) option" where
  "code_u8 codes = (case codes of [] \<Rightarrow> None | first # rest \<Rightarrow> Some (first, rest))"

definition code_u16 :: "u8 list \<Rightarrow> (u16 \<times> u8 list) option" where
  "code_u16 codes = (case codes of a # b # rest \<Rightarrow> Some (of_le_bytes [a, b], rest) | _ \<Rightarrow> None)"

definition code_u32 :: "u8 list \<Rightarrow> (u32 \<times> u8 list) option" where
  "code_u32 codes = (case codes of a # b # c # d # rest \<Rightarrow> Some (of_le_bytes [a, b, c, d], rest) | _ \<Rightarrow> None)"

definition code_slice :: "u8 list \<Rightarrow> nat \<Rightarrow> (u8 list \<times> u8 list) option" where
  "code_slice codes len = (if len \<le> length codes then Some (take len codes, drop len codes) else None)"

section \<open>Unwind codes\<close>

type_synonym reg = u8

definition RBP :: reg where "RBP = 5"

datatype unwind_op =
    Push reg
  | Alloc u32
  | SetFpReg
  | Save reg u32
  | Epilog
  | SaveXmm128 u8 u32
  | PushMachFrame bool

text \<open>The closure of \<open>next\<close>: the operation, if it is known and complete, and the codes left.\<close>

definition unwind_decode :: "u8 \<Rightarrow> u8 list \<Rightarrow> unwind_op option \<times> u8 list" where
  "unwind_decode version codes =
     (case code_u8 codes of
        None \<Rightarrow> (None, codes)
      | Some (op, codes) \<Rightarrow>
          (let op_code = op AND 0xf;
               op_info = drop_bit 4 op;
               with_u16 = (\<lambda>k. case code_u16 codes of None \<Rightarrow> (None, codes) | Some (n, codes) \<Rightarrow> (Some (k (ucast n)), codes));
               with_u32 = (\<lambda>k. case code_u32 codes of None \<Rightarrow> (None, codes) | Some (n, codes) \<Rightarrow> (Some (k n), codes))
           in if op_code = 0 then (Some (Push op_info), codes)
              else if op_code = 1 then
                (if op_info = 0 then with_u16 (\<lambda>n. Alloc (n * 8))
                 else if op_info = 1 then with_u32 Alloc
                 else (None, codes))
              else if op_code = 2 then (Some (Alloc (ucast op_info * 8 + 8)), codes)
              else if op_code = 3 then (Some SetFpReg, codes)
              else if op_code = 4 then with_u16 (\<lambda>n. Save op_info (n * 8))
              else if op_code = 5 then with_u32 (Save op_info)
              else if op_code = 6 \<and> version = 2 then with_u16 (\<lambda>n. Epilog)
              else if op_code = 8 then with_u16 (\<lambda>n. SaveXmm128 op_info (n * 16))
              else if op_code = 9 then with_u32 (SaveXmm128 op_info)
              else if op_code = 10 then
                (if op_info = 0 then (Some (PushMachFrame False), codes)
                 else if op_info = 1 then (Some (PushMachFrame True), codes)
                 else (None, codes))
              else (None, codes)))"

text \<open>The iterator: \<open>None\<close> at the end, else the item (\<open>None\<close> for a bad code) and the codes left.\<close>

definition unwind_next :: "u8 \<Rightarrow> u8 list \<Rightarrow> ((u8 \<times> unwind_op) option \<times> u8 list) option" where
  "unwind_next version codes =
     (case code_u8 codes of
        None \<Rightarrow> None
      | Some (op_offset, codes) \<Rightarrow>
          (let (op, codes) = unwind_decode version codes
           in Some (map_option (\<lambda>op. (op_offset, op)) op, codes)))"

text \<open>The bounds of the number of items that the iterator promises.\<close>

definition unwind_size_hint :: "u8 list \<Rightarrow> nat \<times> nat option" where
  "unwind_size_hint codes = (let n_op = length codes div 2 in (if n_op \<noteq> 0 then 1 else 0, Some n_op))"

lemma code_shorter:
  "code_u8 codes = Some (a, rest) \<Longrightarrow> length rest < length codes"
  "code_u16 codes = Some (b, rest) \<Longrightarrow> length rest < length codes"
  "code_u32 codes = Some (c, rest) \<Longrightarrow> length rest < length codes"
  by (auto simp: code_u8_def code_u16_def code_u32_def split: list.splits)

lemma unwind_decode_shorter: "unwind_decode version codes = (op, rest) \<Longrightarrow> length rest \<le> length codes"
  by (auto simp: unwind_decode_def Let_def dest!: code_shorter split: option.splits if_splits)

lemma unwind_next_shorter: "unwind_next version codes = Some (item, rest) \<Longrightarrow> length rest < length codes"
  by (auto simp: unwind_next_def Let_def dest!: unwind_decode_shorter code_shorter split: option.splits prod.splits)

section \<open>The table of functions\<close>

record runtime_function =
  rf_start :: u32
  rf_end :: u32
  rf_ptr :: u32

definition rf_contains :: "runtime_function \<Rightarrow> u32 \<Rightarrow> bool" where
  "rf_contains self addr \<longleftrightarrow> rf_start self \<le> addr \<and> addr < rf_end self"

definition rf_valid :: "runtime_function \<Rightarrow> bool" where
  "rf_valid self \<longleftrightarrow> rf_start self \<noteq> 0 \<and> rf_end self \<noteq> 0 \<and> rf_ptr self \<noteq> 0"

definition dec_runtime_function :: "u8 list \<Rightarrow> runtime_function" where
  "dec_runtime_function bs =
     \<lparr>rf_start = of_le_bytes (take 4 bs), rf_end = of_le_bytes (take 4 (drop 4 bs)),
      rf_ptr = of_le_bytes (take 4 (drop 8 bs))\<rparr>"

text \<open>The linear search of the fallback.\<close>

fun rf_linear :: "runtime_function list \<Rightarrow> u32 \<Rightarrow> runtime_function option \<Rightarrow> runtime_function option vm_result" where
  "rf_linear [] offset last_valid =
     (case last_valid of Some f \<Rightarrow> Ok None | None \<Rightarrow> Err (vm_of_str ''unmapped unwind data''))"
| "rf_linear (f # fs) offset last_valid =
     (if \<not> rf_valid f then rf_linear fs offset None
      else if offset < rf_start f then
        (case last_valid of Some f \<Rightarrow> Ok None | None \<Rightarrow> Err (vm_of_str ''unmapped unwind data''))
      else if offset < rf_end f then Ok (Some f)
      else rf_linear fs offset (Some f))"

text \<open>The key function of the binary search notes when it meets an invalid entry.\<close>

definition rf_key :: "u32 \<Rightarrow> runtime_function \<Rightarrow> u32" where
  "rf_key offset rt = (if rf_valid rt then rf_start rt else offset)"

definition find_runtime_function :: "runtime_function list \<Rightarrow> u32 \<Rightarrow> runtime_function option vm_result" where
  "find_runtime_function functions offset =
     (let corrupted = (\<exists>i \<in> set (binary_search_probes functions offset (rf_key offset)). \<not> rf_valid (functions ! i));
          pos = binary_search_by_key functions offset (rf_key offset)
      in if corrupted then rf_linear functions offset None
         else Ok (case pos of
             Found i \<Rightarrow> Some (functions ! i)
           | Insert i \<Rightarrow>
               if i = 0 then None
               else let f = functions ! (i - 1) in if rf_contains f offset then Some f else None))"

section \<open>Unwind information\<close>

record function_entry =
  fe_mother :: "runtime_function option"
  fe_version :: u8
  fe_frame_register_offset :: "u8 option"
  fe_unwind_codes :: "u8 list"

record unwind_data =
  ud_offset :: virtual_address
  ud_content :: "u8 list"
  ud_directory_range :: "nat \<times> nat"

definition parse_function :: "unwind_data \<Rightarrow> runtime_function \<Rightarrow> function_entry option" where
  "parse_function self rf =
     Option.bind (get_from (unat (rf_ptr rf)) (ud_content self)) (\<lambda>data.
     Option.bind (code_u8 data) (\<lambda>(version_flags, data).
     let version = version_flags AND 0x7 in
     if \<not> (1 \<le> version \<and> version \<le> 2) then None
     else
       let is_chained = version_flags AND 0x20 \<noteq> 0 in
       Option.bind (code_u8 data) (\<lambda>(prolog_size, data).
       Option.bind (code_u8 data) (\<lambda>(unwind_code_count, data).
       Option.bind (code_u8 data) (\<lambda>(frame_infos, data).
       let frame_register_offset = (if frame_infos AND 0x0f \<noteq> 0 then Some (frame_infos AND 0xf0) else None) in
       Option.bind (code_slice data (2 * unat unwind_code_count)) (\<lambda>(unwind_codes, data).
       Option.bind (if is_chained then map_option (\<lambda>(m, _). Some (dec_runtime_function m)) (code_slice data 12) else Some None)
         (\<lambda>mother.
          Some \<lparr>fe_mother = mother, fe_version = version, fe_frame_register_offset = frame_register_offset,
                fe_unwind_codes = unwind_codes\<rparr>)))))))"

definition find_by_offset :: "unwind_data \<Rightarrow> u32 \<Rightarrow> runtime_function option vm_result" where
  "find_by_offset self offset =
     (let (start, e) = ud_directory_range self in
      case get_range start e (ud_content self) of
        None \<Rightarrow> Panic
      | Some bytes \<Rightarrow>
          if start mod 4 \<noteq> 0 \<or> length bytes mod 12 \<noteq> 0 then Panic
          else find_runtime_function
            (map (\<lambda>i. dec_runtime_function (take 12 (drop (12 * i) bytes))) [0..<length bytes div 12]) offset)"

section \<open>Epilogues\<close>

datatype next_sp = SpValue virtual_address | SpAddr virtual_address

record unwind_result =
  ur_next_sp :: next_sp
  ur_next_ip_addr :: virtual_address
  ur_next_bp_addr :: "virtual_address option"
  ur_fun_start :: "virtual_address option"

text \<open>
  The instructions of an epilogue: the stack pointer at the return address and the address of the
  saved base pointer, or \<open>None\<close> when the code is not an epilogue.
\<close>

function epilog_loop ::
  "u8 list \<Rightarrow> virtual_address \<Rightarrow> virtual_address option \<Rightarrow> ((virtual_address \<times> virtual_address option) option, 'e) result"
where
  "epilog_loop code sp bp =
     (case code_u8 code of
        None \<Rightarrow> Ok None
      | Some (b, code) \<Rightarrow>
          if b = 0x41 then
            (case code_u8 code of
               Some (r, code) \<Rightarrow>
                 if 0x58 \<le> r \<and> r \<le> 0x5f then and_then (va_add_assign sp 8) (\<lambda>sp. epilog_loop code sp bp) else Ok None
             | None \<Rightarrow> Ok None)
          else if b = 0x48 then
            (case code_u8 code of
               None \<Rightarrow> Ok None
             | Some (op, code) \<Rightarrow>
                 (case code_u8 code of
                    None \<Rightarrow> Ok None
                  | Some (m, code) \<Rightarrow>
                      if m \<noteq> 0xc4 then Ok None
                      else if op = 0x81 then
                        (case code_u32 code of
                           None \<Rightarrow> Ok None
                         | Some (n, code) \<Rightarrow> and_then (va_add_assign sp (ucast n)) (\<lambda>sp. epilog_loop code sp bp))
                      else if op = 0x83 then
                        (case code_u8 code of
                           None \<Rightarrow> Ok None
                         | Some (n, code) \<Rightarrow> and_then (va_add_assign sp (ucast n)) (\<lambda>sp. epilog_loop code sp bp))
                      else Ok None))
          else if b = 0x5c then Ok None
          else if b = 0x5d then and_then (va_add_assign sp 8) (\<lambda>sp'. epilog_loop code sp' (Some sp))
          else if 0x58 \<le> b \<and> b \<le> 0x5f \<or> b = 0x9d then and_then (va_add_assign sp 8) (\<lambda>sp. epilog_loop code sp bp)
          else if b = 0xc3 then Ok (Some (sp, bp))
          else Ok None)"
  by pat_completeness auto
termination
  by (relation "measure (\<lambda>(code, sp, bp). length code)") (auto dest!: code_shorter)

declare epilog_loop.simps [simp del]

text \<open>The start of a function: the start of the last entry of its chain.\<close>

partial_function (option) chain_start :: "unwind_data \<Rightarrow> runtime_function \<Rightarrow> virtual_address option outcome" where
  "chain_start self rf =
     (case parse_function self rf of
        None \<Rightarrow> Some (Ok None)
      | Some fe \<Rightarrow>
          (case fe_mother fe of
             Some mother \<Rightarrow> chain_start self mother
           | None \<Rightarrow> Some (map_ok Some (va_add_u32 (ud_offset self) (rf_start rf)))))"

definition module_offset :: "unwind_data \<Rightarrow> stack_frame \<Rightarrow> u32" where
  "module_offset self frame = ucast (va_diff (frame_ip frame) (ud_offset self))"

definition read_epilog :: "unwind_data \<Rightarrow> stack_frame \<Rightarrow> unwind_result option outcome" where
  "read_epilog self frame =
     (let offset = module_offset self frame in
      case get_from (unat offset) (ud_content self) of
        None \<Rightarrow> Some (Ok None)
      | Some code \<Rightarrow>
          out_then (Some (epilog_loop code (frame_sp frame) None)) (\<lambda>r.
            case r of
              None \<Rightarrow> Some (Ok None)
            | Some (sp, bp) \<Rightarrow>
                out_then (case find_by_offset self offset of
                    Ok (Some rf) \<Rightarrow> chain_start self rf
                  | Ok None \<Rightarrow> Some (Ok None)
                  | Err e \<Rightarrow> Some (Ok None)
                  | Panic \<Rightarrow> Some Panic) (\<lambda>fun_start.
                out_then (Some (va_add_i32 sp 8)) (\<lambda>sp'.
                  Some (Ok (Some \<lparr>ur_next_sp = SpValue sp', ur_next_ip_addr = sp, ur_next_bp_addr = bp,
                    ur_fun_start = fun_start\<rparr>))))))"

section \<open>Prologues\<close>

datatype unwind_step = MachInst u32 | SpOffset u32

text \<open>The loop of \<open>read_unwind_codes\<close>, with the offset of the stack pointer and of the saved base pointer.\<close>

function unwind_codes_loop ::
  "function_entry \<Rightarrow> u32 option \<Rightarrow> u8 list \<Rightarrow> u32 \<Rightarrow> u32 option \<Rightarrow> (u32 option \<times> unwind_step) vm_result"
where
  "unwind_codes_loop function offset codes sp_offset bp_addr =
     (case unwind_next (fe_version function) codes of
        None \<Rightarrow> Ok (bp_addr, SpOffset sp_offset)
      | Some (None, codes) \<Rightarrow> context_opt ''invalid unwind code'' None
      | Some (Some (op_offset, op), codes) \<Rightarrow>
          if (case offset of Some off \<Rightarrow> ucast op_offset > off | None \<Rightarrow> False)
          then unwind_codes_loop function offset codes sp_offset bp_addr
          else (case op of
              Push reg \<Rightarrow>
                and_then (add_chk sp_offset 8) (\<lambda>sp'.
                  unwind_codes_loop function offset codes sp' (if reg = RBP then Some sp_offset else bp_addr))
            | Alloc n \<Rightarrow>
                and_then (add_chk sp_offset n) (\<lambda>sp'. unwind_codes_loop function offset codes sp' bp_addr)
            | PushMachFrame error \<Rightarrow>
                if unwind_next (fe_version function) codes \<noteq> None
                then Err (vm_of_str ''unsupported UWOP_MACHFRAME in the middle of unwind ops'')
                else if fe_mother function \<noteq> None
                then Err (vm_of_str ''unsupported UWOP_MACHFRAME with mother'')
                else and_then (add_chk sp_offset (if error then 8 else 0)) (\<lambda>n. Ok (bp_addr, MachInst n))
            | Save reg off \<Rightarrow>
                unwind_codes_loop function offset codes sp_offset (if reg = RBP then Some off else bp_addr)
            | _ \<Rightarrow> unwind_codes_loop function offset codes sp_offset bp_addr))"
  by pat_completeness auto
termination
  by (relation "measure (\<lambda>(function, offset, codes, sp, bp). length codes)") (auto dest!: unwind_next_shorter)

declare unwind_codes_loop.simps [simp del]

definition read_unwind_codes :: "function_entry \<Rightarrow> u32 option \<Rightarrow> (u32 option \<times> unwind_step) vm_result" where
  "read_unwind_codes function offset = unwind_codes_loop function offset (fe_unwind_codes function) 0 None"

text \<open>The loop of \<open>unwind_with_infos\<close> along the chain of unwind information.\<close>

partial_function (option) unwind_chain ::
  "unwind_data \<Rightarrow> function_entry \<Rightarrow> u32 option \<Rightarrow> virtual_address \<Rightarrow> virtual_address option \<Rightarrow> virtual_address option \<Rightarrow>
   unwind_result outcome"
where
  "unwind_chain self function ip_offset sp bp_addr fun_start =
     out_then (Some (read_unwind_codes function ip_offset)) (\<lambda>(bp_offset, stp).
     out_then (Some (case bp_offset of Some off \<Rightarrow> map_ok Some (va_add_u32 sp off) | None \<Rightarrow> Ok bp_addr)) (\<lambda>bp_addr.
     case stp of
       MachInst off \<Rightarrow>
         Some (and_then (va_add_u32 sp off) (\<lambda>ip_addr.
           and_then (va_add_i32 ip_addr 0x18) (\<lambda>sp_addr.
             Ok \<lparr>ur_next_sp = SpAddr sp_addr, ur_next_ip_addr = ip_addr, ur_next_bp_addr = bp_addr,
                 ur_fun_start = fun_start\<rparr>)))
     | SpOffset off \<Rightarrow>
         out_then (Some (va_add_assign sp (ucast off))) (\<lambda>sp.
         case fe_mother function of
           Some mother \<Rightarrow>
             out_then (Some (context_opt ''failed to parse unwind data'' (parse_function self mother))) (\<lambda>function.
             out_then (Some (va_add_u32 (ud_offset self) (rf_start mother))) (\<lambda>start.
               unwind_chain self function None sp bp_addr (Some start)))
         | None \<Rightarrow>
             Some (and_then (va_add sp 8) (\<lambda>sp'.
               Ok \<lparr>ur_next_sp = SpValue sp', ur_next_ip_addr = sp, ur_next_bp_addr = bp_addr,
                   ur_fun_start = fun_start\<rparr>)))))"

definition unwind_with_infos ::
  "unwind_data \<Rightarrow> runtime_function \<Rightarrow> stack_frame \<Rightarrow> virtual_address option \<Rightarrow> unwind_result outcome"
where
  "unwind_with_infos self rf frame base_ptr =
     out_then (Some (sub_chk (module_offset self frame) (rf_start rf))) (\<lambda>ip_offset.
     out_then (Some (context_opt ''failed to parse unwind data'' (parse_function self rf))) (\<lambda>function.
     out_then (Some (va_add_u32 (ud_offset self) (rf_start rf))) (\<lambda>fun_start.
     out_then (Some (case fe_frame_register_offset function of
           None \<Rightarrow> Ok (frame_sp frame)
         | Some off \<Rightarrow>
             if ip_offset = 0 then Ok (frame_sp frame)
             else and_then (context_opt ''missing required frame pointer'' base_ptr) (\<lambda>bp. va_sub bp (ucast off)))) (\<lambda>sp.
       unwind_chain self function (Some ip_offset) sp None (Some fun_start)))))"

text \<open>\<open>data\<close> is what \<open>get_unwind_data\<close> returns.\<close>

definition unwind_function :: "unwind_data vm_result \<Rightarrow> stack_frame \<Rightarrow> virtual_address option \<Rightarrow> unwind_result outcome" where
  "unwind_function data frame base_ptr =
     out_then (Some (context_res DynVm ''cannot get unwind data'' data)) (\<lambda>self.
     out_then (read_epilog self frame) (\<lambda>r.
       case r of
         Some result \<Rightarrow> Some (Ok result)
       | None \<Rightarrow>
           out_then (Some (find_by_offset self (module_offset self frame))) (\<lambda>f.
             case f of
               Some f \<Rightarrow> unwind_with_infos self f frame base_ptr
             | None \<Rightarrow>
                 Some (and_then (va_add (frame_sp frame) 8) (\<lambda>sp'.
                   Ok \<lparr>ur_next_sp = SpValue sp', ur_next_ip_addr = frame_sp frame, ur_next_bp_addr = None,
                       ur_fun_start = None\<rparr>)))))"

end
