(* ===== verification/Vm_Unwind_Laws.thy ===== *)
theory Vm_Unwind_Laws
  imports Vm_Unwind
begin

text \<open>
  Lemmas on unwinding: the search in the table of functions, also when some of its pages were not
  read; the unwind codes as the inverse of a prologue; and the chains of unwind information.
\<close>

section \<open>The table of functions\<close>

text \<open>The entries that were read are not empty, and in the order of their addresses.\<close>

definition table_ok :: "runtime_function list \<Rightarrow> bool" where
  "table_ok fs \<longleftrightarrow> (\<forall>f \<in> set fs. rf_valid f \<longrightarrow> rf_start f < rf_end f) \<and>
     sorted_wrt (\<lambda>f g. rf_end f \<le> rf_start g) (filter rf_valid fs)"

lemma table_ok_Cons:
  "table_ok (f # fs) \<Longrightarrow> table_ok fs \<and>
     (rf_valid f \<longrightarrow> rf_start f < rf_end f \<and> (\<forall>g \<in> set fs. rf_valid g \<longrightarrow> rf_end f \<le> rf_start g))"
  by (auto simp: table_ok_def split: if_splits)

lemma table_ok_nth:
  "table_ok fs \<Longrightarrow> i < j \<Longrightarrow> j < length fs \<Longrightarrow> rf_valid (fs ! i) \<Longrightarrow> rf_valid (fs ! j) \<Longrightarrow>
   rf_end (fs ! i) \<le> rf_start (fs ! j)"
proof (induction fs arbitrary: i j)
  case (Cons f fs)
  obtain j' where j: "j = Suc j'" "j' < length fs" using Cons.prems(2,3) by (cases j) auto
  show ?case
  proof (cases i)
    case 0
    then show ?thesis using table_ok_Cons [OF Cons.prems(1)] Cons.prems(4,5) j by auto
  next
    case (Suc i')
    then show ?thesis using Cons.IH [of i' j'] table_ok_Cons [OF Cons.prems(1)] Cons.prems j by simp
  qed
qed simp

lemma rf_linear_spec:
  assumes "table_ok fs"
  shows "case rf_linear fs offset last_valid of
      Ok (Some f) \<Rightarrow> f \<in> set fs \<and> rf_valid f \<and> rf_contains f offset
    | Ok None \<Rightarrow> \<forall>f \<in> set fs. rf_valid f \<longrightarrow> \<not> rf_contains f offset
    | Err e \<Rightarrow> True | Panic \<Rightarrow> False"
  using assms
proof (induction fs arbitrary: last_valid)
  case Nil
  then show ?case by (simp split: option.split)
next
  case (Cons f fs)
  note ok = table_ok_Cons [OF Cons.prems]
  show ?case
  proof (cases "rf_valid f \<and> offset < rf_start f")
    case True
    then have "\<not> rf_contains g offset" if "g \<in> set (f # fs)" "rf_valid g" for g
      using ok that by (auto simp: rf_contains_def)
    then show ?thesis using True by (simp split: option.split)
  next
    case False
    then obtain l where n: "rf_linear (f # fs) offset last_valid =
        (if rf_valid f \<and> offset < rf_end f then Ok (Some f) else rf_linear fs offset l)"
      by (cases "rf_valid f") auto
    show ?thesis
    proof (cases "rf_valid f \<and> offset < rf_end f")
      case True
      then show ?thesis using False by (simp add: n rf_contains_def)
    next
      case f: False
      then have l: "rf_linear (f # fs) offset last_valid = rf_linear fs offset l"
        unfolding n by (rule if_not_P)
      have "rf_valid f \<longrightarrow> \<not> rf_contains f offset" using f by (simp add: rf_contains_def)
      then show ?thesis
        unfolding l using Cons.IH [of l] ok by (auto split: result.splits option.splits)
    qed
  qed
qed

text \<open>When the binary search met valid entries only, it found the last valid entry not above the offset.\<close>

lemma rf_binary_spec:
  assumes "table_ok fs"
    and "\<forall>i \<in> set (binary_search_probes fs offset (rf_key offset)). rf_valid (fs ! i)"
  shows "case binary_search_by_key fs offset (rf_key offset) of
      Found i \<Rightarrow> i < length fs \<and> rf_valid (fs ! i) \<and> rf_start (fs ! i) = offset
    | Insert i \<Rightarrow> i \<le> length fs \<and> (0 < i \<longrightarrow> rf_valid (fs ! (i - 1))) \<and>
        (\<forall>j < length fs. rf_valid (fs ! j) \<longrightarrow> (if j < i then rf_start (fs ! j) < offset else offset < rf_start (fs ! j)))"
proof (cases "fs = []")
  case True
  then show ?thesis by (simp add: binary_search_by_key_def binary_search_by_def)
next
  case False
  let ?f = "\<lambda>i. cmp_of (rf_key offset (fs ! i)) offset"
  let ?b = "bs_loop ?f 0 (length fs)"
  have mono: "rf_start (fs ! i) \<le> rf_start (fs ! j)"
    if "i \<le> j" "j < length fs" "rf_valid (fs ! i)" "rf_valid (fs ! j)" for i j
  proof (cases "i = j")
    case False
    then have "i < j" using that(1) by simp
    moreover have "fs ! i \<in> set fs" using that(1,2) by simp
    then have "rf_start (fs ! i) < rf_end (fs ! i)" using assms(1) that(3) by (simp add: table_ok_def)
    ultimately show ?thesis using table_ok_nth [OF assms(1) _ that(2-4)] by simp
  qed simp
  have "\<forall>i j. i \<le> j \<longrightarrow> j < length fs \<longrightarrow> rf_valid (fs ! i) \<longrightarrow> rf_valid (fs ! j) \<longrightarrow> ?f j \<noteq> Greater \<longrightarrow> ?f i \<noteq> Greater"
    using mono by (fastforce simp: rf_key_def cmp_of_iff)
  moreover have "\<forall>i \<in> set (bs_probes ?f 0 (length fs)). rf_valid (fs ! i)"
    using assms(2) False unfolding binary_search_probes_def by (simp only: if_False)
  moreover have "0 < length fs" "0 + length fs \<le> length fs" using False by simp_all
  ultimately have "rf_valid (fs ! ?b) \<and> (?b = 0 \<or> ?f ?b \<noteq> Greater) \<and>
      (\<forall>j < length fs. rf_valid (fs ! j) \<longrightarrow> ?b < j \<longrightarrow> ?f j = Greater)"
    by (intro bs_probes_last) auto
  then have b: "rf_valid (fs ! ?b)" "?b = 0 \<or> ?f ?b \<noteq> Greater"
      "\<forall>j < length fs. rf_valid (fs ! j) \<longrightarrow> ?b < j \<longrightarrow> ?f j = Greater"
    by blast+
  have less: "?b < length fs" using bs_loop_range [of "length fs" 0 ?f] False by simp
  have above: "offset < rf_start (fs ! j)" if "?b < j" "j < length fs" "rf_valid (fs ! j)" for j
    using b(3) that by (simp add: rf_key_def cmp_of_iff)
  show ?thesis
  proof (cases "?f ?b")
    case Equal
    then have "rf_start (fs ! ?b) = offset" using b(1) by (simp add: cmp_of_iff rf_key_def)
    moreover have "binary_search_by_key fs offset (rf_key offset) = Found ?b"
      using Equal False by (simp add: binary_search_by_key_def binary_search_by_def Let_def)
    ultimately show ?thesis using b(1) less by simp
  next
    case Less
    then have "rf_start (fs ! ?b) < offset" using b(1) by (simp add: cmp_of_iff rf_key_def)
    have "\<forall>j < length fs. rf_valid (fs ! j) \<longrightarrow> (if j < ?b + 1 then rf_start (fs ! j) < offset else offset < rf_start (fs ! j))"
    proof (intro allI impI)
      fix j assume j: "j < length fs" "rf_valid (fs ! j)"
      show "if j < ?b + 1 then rf_start (fs ! j) < offset else offset < rf_start (fs ! j)"
      proof (cases "j < ?b + 1")
        case True
        then have "rf_start (fs ! j) \<le> rf_start (fs ! ?b)" using mono [of j ?b] less j(2) b(1) by simp
        then show ?thesis using True \<open>rf_start (fs ! ?b) < offset\<close> by (simp add: le_less_trans)
      qed (use above [of j] j in simp)
    qed
    then show ?thesis using Less False b(1) less
      by (simp add: binary_search_by_key_def binary_search_by_def Let_def)
  next
    case Greater
    then have g: "?b = 0" "offset < rf_start (fs ! ?b)" using b(1,2) by (auto simp: cmp_of_iff rf_key_def)
    then have "\<forall>j < length fs. rf_valid (fs ! j) \<longrightarrow> offset < rf_start (fs ! j)"
      using above by (metis gr0I)
    then show ?thesis using Greater False g(1)
      by (simp add: binary_search_by_key_def binary_search_by_def Let_def)
  qed
qed

lemma find_runtime_function_spec:
  assumes "table_ok fs"
  shows "case find_runtime_function fs offset of
      Ok (Some f) \<Rightarrow> f \<in> set fs \<and> rf_valid f \<and> rf_contains f offset
    | Ok None \<Rightarrow> \<forall>f \<in> set fs. rf_valid f \<longrightarrow> \<not> rf_contains f offset
    | Err e \<Rightarrow> \<exists>f \<in> set fs. \<not> rf_valid f | Panic \<Rightarrow> False"
proof (cases "\<exists>i \<in> set (binary_search_probes fs offset (rf_key offset)). \<not> rf_valid (fs ! i)")
  case True
  then obtain i where i: "i \<in> set (binary_search_probes fs offset (rf_key offset))" "\<not> rf_valid (fs ! i)" by blast
  then have "i < length fs"
    using bs_probes_range [of "length fs" i _ 0] by (auto simp: binary_search_probes_def split: if_splits)
  then have "\<exists>f \<in> set fs. \<not> rf_valid f" using i(2) nth_mem by blast
  then show ?thesis using True rf_linear_spec [OF assms, of offset None]
    by (simp add: find_runtime_function_def split: result.splits option.splits)
next
  case False
  then have valid: "\<forall>i \<in> set (binary_search_probes fs offset (rf_key offset)). rf_valid (fs ! i)" by blast
  note spec = rf_binary_spec [OF assms valid]
  show ?thesis
  proof (cases "binary_search_by_key fs offset (rf_key offset)")
    case (Found i)
    then have i: "fs ! i \<in> set fs" "rf_valid (fs ! i)" "rf_start (fs ! i) = offset" using spec by auto
    then have "offset < rf_end (fs ! i)" using assms by (auto simp: table_ok_def)
    then show ?thesis using Found i False by (simp add: find_runtime_function_def rf_contains_def)
  next
    case (Insert i)
    have bnd: "i \<le> length fs" "0 < i \<Longrightarrow> rf_valid (fs ! (i - 1))"
      and side: "\<And>j. j < length fs \<Longrightarrow> rf_valid (fs ! j) \<Longrightarrow>
        (if j < i then rf_start (fs ! j) < offset else offset < rf_start (fs ! j))"
      using spec Insert by simp_all
    have cont: "j = i - 1 \<and> 0 < i" if j: "j < length fs" "rf_valid (fs ! j)" and c: "rf_contains (fs ! j) offset" for j
    proof -
      have "j < i" using side [OF j] c by (auto simp: rf_contains_def split: if_splits)
      moreover have "\<not> j < i - 1"
      proof
        assume less: "j < i - 1"
        then have i: "i - 1 < length fs" "rf_valid (fs ! (i - 1))" using bnd by auto
        have "rf_end (fs ! j) \<le> rf_start (fs ! (i - 1))" by (rule table_ok_nth [OF assms less i(1) j(2) i(2)])
        moreover have "rf_start (fs ! (i - 1)) < offset" using side [OF i] less by simp
        ultimately have "rf_end (fs ! j) < offset" by (rule le_less_trans)
        then show False using c by (auto simp: rf_contains_def)
      qed
      ultimately show ?thesis by linarith
    qed
    show ?thesis
    proof (cases "0 < i \<and> rf_contains (fs ! (i - 1)) offset")
      case True
      then have "i - 1 < length fs" using bnd(1) by linarith
      then have "fs ! (i - 1) \<in> set fs" by (rule nth_mem)
      then show ?thesis using Insert False True bnd(2) by (simp add: find_runtime_function_def)
    next
      case n: False
      have "\<forall>f \<in> set fs. rf_valid f \<longrightarrow> \<not> rf_contains f offset"
      proof (intro ballI impI notI)
        fix f assume f: "f \<in> set fs" "rf_valid f" "rf_contains f offset"
        then obtain j where "j < length fs" "fs ! j = f" by (auto simp: in_set_conv_nth)
        then show False using cont [of j] f n by auto
      qed
      then show ?thesis using Insert False n by (auto simp: find_runtime_function_def Let_def)
    qed
  qed
qed

section \<open>Encoding unwind codes\<close>

text \<open>A code as a compiler emits it: the offset of the instruction's end and the operation.\<close>

definition nibbles :: "nat \<Rightarrow> nat \<Rightarrow> u8" where
  "nibbles info code = of_nat (16 * info + code)"

lemma nibbles_split:
  assumes "info < 16" "code < 16"
  shows "nibbles info code AND 0xf = of_nat code" "drop_bit 4 (nibbles info code) = of_nat info"
proof -
  have "16 * info + code < 256" using assms by simp
  then have u: "unat (nibbles info code) = 16 * info + code"
    unfolding nibbles_def unat_of_nat by simp
  have "nibbles info code AND 0xf = take_bit 4 (nibbles info code)"
    by (simp add: take_bit_eq_mask mask_eq_exp_minus_1)
  moreover have "unat (take_bit 4 (nibbles info code)) = code"
    using assms by (simp add: unat_take_bit u)
  ultimately show "nibbles info code AND 0xf = of_nat code"
    using assms by (simp add: word_unat_eq_iff unat_of_nat)
  have "unat (drop_bit 4 (nibbles info code)) = info"
    using assms by (simp add: unat_drop_bit_eq u) (simp add: drop_bit_eq_div unat_div u)
  then show "drop_bit 4 (nibbles info code) = of_nat info"
    using assms by (simp add: word_unat_eq_iff unat_of_nat)
qed

fun enc_unwind :: "u8 \<times> unwind_op \<Rightarrow> u8 list" where
  "enc_unwind (off, Push r) = [off, nibbles (unat r) 0]"
| "enc_unwind (off, Alloc n) =
     (if 8 dvd unat n \<and> 8 \<le> unat n \<and> unat n \<le> 128 then [off, nibbles ((unat n - 8) div 8) 2]
      else if 8 dvd unat n \<and> unat n < 0x80000 then [off, nibbles 0 1] @ to_le_bytes 2 (of_nat (unat n div 8) :: u16)
      else [off, nibbles 1 1] @ to_le_bytes 4 n)"
| "enc_unwind (off, SetFpReg) = [off, nibbles 0 3]"
| "enc_unwind (off, Save r n) =
     (if 8 dvd unat n \<and> unat n < 0x80000 then [off, nibbles (unat r) 4] @ to_le_bytes 2 (of_nat (unat n div 8) :: u16)
      else [off, nibbles (unat r) 5] @ to_le_bytes 4 n)"
| "enc_unwind (off, Epilog) = [off, nibbles 0 6, 0, 0]"
| "enc_unwind (off, SaveXmm128 r n) = [off, nibbles (unat r) 9] @ to_le_bytes 4 n"
| "enc_unwind (off, PushMachFrame b) = [off, nibbles (if b then 1 else 0) 10]"

fun unwind_op_ok :: "u8 \<Rightarrow> unwind_op \<Rightarrow> bool" where
  "unwind_op_ok version (Push r) \<longleftrightarrow> unat r < 16"
| "unwind_op_ok version (Save r n) \<longleftrightarrow> unat r < 16"
| "unwind_op_ok version (SaveXmm128 r n) \<longleftrightarrow> unat r < 16"
| "unwind_op_ok version Epilog \<longleftrightarrow> version = 2"
| "unwind_op_ok version _ \<longleftrightarrow> True"

lemma code_u16_le: "code_u16 (to_le_bytes 2 (n :: u16) @ rest) = Some (n, rest)"
proof -
  obtain a b where ab: "to_le_bytes 2 n = [a, b]"
    using length_to_le_bytes [of 2 n] by (auto simp: length_Suc_conv numeral_2_eq_2)
  then have "of_le_bytes [a, b] = n"
    using of_to_le_bytes [where n = 2 and w = n] by (simp add: take_bit_word_eq_self del: of_le_bytes.simps)
  then show ?thesis by (simp add: code_u16_def ab)
qed

lemma code_u32_le: "code_u32 (to_le_bytes 4 (n :: u32) @ rest) = Some (n, rest)"
proof -
  obtain a b c d where ab: "to_le_bytes 4 n = [a, b, c, d]"
    using length_to_le_bytes [of 4 n] by (auto simp: length_Suc_conv numeral_eq_Suc)
  then have "of_le_bytes [a, b, c, d] = n"
    using of_to_le_bytes [where n = 4 and w = n] by (simp add: take_bit_word_eq_self del: of_le_bytes.simps)
  then show ?thesis by (simp add: code_u32_def ab)
qed

lemma ucast_div_mult:
  assumes "8 dvd unat (n :: u32)" "unat n < 0x80000"
  shows "ucast (of_nat (unat n div 8) :: u16) * 8 = n"
proof -
  have "unat (ucast (of_nat (unat n div 8) :: u16) :: u32) = unat n div 8"
    using assms(2) by (simp add: unsigned_ucast_eq take_bit_eq_mod unat_of_nat)
  then have "unat (ucast (of_nat (unat n div 8) :: u16) * 8 :: u32) = unat n"
    using assms unsigned_less [of n, where 'a = nat] by (simp add: unat_word_ariths)
  then show ?thesis by (simp add: word_unat_eq_iff)
qed

lemma small_alloc:
  assumes "8 dvd unat (n :: u32)" "8 \<le> unat n" "unat n \<le> 128"
  shows "ucast (of_nat ((unat n - 8) div 8) :: u8) * 8 + 8 = n"
proof -
  obtain k where k: "unat n = 8 * k" using assms(1) by (elim dvdE)
  then have j: "(unat n - 8) div 8 = k - 1" "1 \<le> k" "k \<le> 16" using assms(2,3) by auto
  then have "unat (ucast (of_nat (k - 1) :: u8) :: u32) = k - 1"
    by (simp add: unsigned_ucast_eq take_bit_eq_mod unat_of_nat del: of_nat_diff)
  then have "unat (ucast (of_nat (k - 1) :: u8) * 8 + 8 :: u32) = unat n"
    using k j(2,3) by (simp add: unat_word_ariths del: of_nat_diff)
  then show ?thesis unfolding j(1) by (simp only: word_unat_eq_iff)
qed

text \<open>Decoding inverts the encoding.\<close>

lemma unwind_next_enc:
  assumes "unwind_op_ok version op"
  shows "unwind_next version (enc_unwind (off, op) @ rest) = Some (Some (off, op), rest)"
proof -
  have byte: "code_u8 (b # bs) = Some (b, bs)" for b bs by (simp add: code_u8_def)
  note dec = unwind_next_def unwind_decode_def byte nibbles_split code_u16_le code_u32_le ucast_div_mult Let_def
  show ?thesis
  proof (cases op)
    case (Alloc n)
    show ?thesis
    proof (cases "8 dvd unat n \<and> 8 \<le> unat n \<and> unat n \<le> 128")
      case True
      then have "(unat n - 8) div 8 < 16" by auto
      then have nib: "nibbles ((unat n - 8) div 8) 2 AND 0xf = 2"
          "drop_bit 4 (nibbles ((unat n - 8) div 8) 2) = of_nat ((unat n - 8) div 8)"
        using nibbles_split [of "(unat n - 8) div 8" 2] by simp_all
      have al: "ucast (of_nat ((unat n - 8) div 8) :: u8) * 8 + 8 = n" using True by (intro small_alloc) auto
      have "enc_unwind (off, op) = [off, nibbles ((unat n - 8) div 8) 2]" using Alloc True by simp
      then show ?thesis
        by (simp add: unwind_next_def unwind_decode_def byte Let_def nib(1) Alloc del: of_nat_diff)
           (simp only: nib(2) al)
    next
      case False
      then show ?thesis using Alloc by (auto simp: dec)
    qed
  next
    case Epilog
    then show ?thesis using assms by (simp add: dec code_u16_def)
  qed (use assms in \<open>auto simp: dec\<close>)
qed

section \<open>Unwinding a prologue\<close>

text \<open>
  The machine that runs a prologue: the stack pointer, the registers and the stack as cells of 8 bytes. The
  value that \<open>SetFpReg\<close> puts in \<open>RBP\<close> is \<open>fp sp\<close>.
\<close>

record frame_state =
  fs_sp :: u64
  fs_regs :: "reg \<Rightarrow> u64"
  fs_xmm :: "u8 \<Rightarrow> u64 \<times> u64"
  fs_mem :: "u64 \<Rightarrow> u64"

fun exec_op :: "(u64 \<Rightarrow> u64) \<Rightarrow> unwind_op \<Rightarrow> frame_state \<Rightarrow> frame_state" where
  "exec_op fp (Push r) s = s\<lparr>fs_sp := fs_sp s - 8, fs_mem := (fs_mem s)(fs_sp s - 8 := fs_regs s r)\<rparr>"
| "exec_op fp (Alloc n) s = s\<lparr>fs_sp := fs_sp s - ucast n\<rparr>"
| "exec_op fp SetFpReg s = s\<lparr>fs_regs := (fs_regs s)(RBP := fp (fs_sp s))\<rparr>"
| "exec_op fp (Save r n) s = s\<lparr>fs_mem := (fs_mem s)(fs_sp s + ucast n := fs_regs s r)\<rparr>"
| "exec_op fp (SaveXmm128 r n) s =
     s\<lparr>fs_mem := (fs_mem s)(fs_sp s + ucast n := fst (fs_xmm s r), fs_sp s + ucast n + 8 := snd (fs_xmm s r))\<rparr>"
| "exec_op fp Epilog s = s"
| "exec_op fp (PushMachFrame b) s = s"

fun exec_ops :: "(u64 \<Rightarrow> u64) \<Rightarrow> unwind_op list \<Rightarrow> frame_state \<Rightarrow> frame_state" where
  "exec_ops fp [] s = s"
| "exec_ops fp (op # ops) s = exec_ops fp ops (exec_op fp op s)"

fun op_writes :: "unwind_op \<Rightarrow> frame_state \<Rightarrow> u64 list" where
  "op_writes (Push r) s = [fs_sp s - 8]"
| "op_writes (Save r n) s = [fs_sp s + ucast n]"
| "op_writes (SaveXmm128 r n) s = [fs_sp s + ucast n, fs_sp s + ucast n + 8]"
| "op_writes _ s = []"

fun ops_writes :: "(u64 \<Rightarrow> u64) \<Rightarrow> unwind_op list \<Rightarrow> frame_state \<Rightarrow> u64 list" where
  "ops_writes fp [] s = []"
| "ops_writes fp (op # ops) s = op_writes op s @ ops_writes fp ops (exec_op fp op s)"

fun op_size :: "unwind_op \<Rightarrow> nat" where
  "op_size (Push r) = 8"
| "op_size (Alloc n) = unat n"
| "op_size _ = 0"

definition ops_size :: "unwind_op list \<Rightarrow> nat" where
  "ops_size ops = sum_list (map op_size ops)"

lemma ops_size_simps [simp]: "ops_size [] = 0" "ops_size (op # ops) = op_size op + ops_size ops"
  "ops_size (ops @ ops') = ops_size ops + ops_size ops'" "ops_size (rev ops) = ops_size ops"
  by (simp_all add: ops_size_def rev_map [symmetric] sum_list_rev)

fun saves_rbp :: "unwind_op \<Rightarrow> bool" where
  "saves_rbp (Push r) \<longleftrightarrow> r = RBP"
| "saves_rbp (Save r n) \<longleftrightarrow> r = RBP"
| "saves_rbp _ \<longleftrightarrow> False"

fun is_save :: "unwind_op \<Rightarrow> bool" where
  "is_save (Save r n) \<longleftrightarrow> True"
| "is_save _ \<longleftrightarrow> False"

text \<open>
  What the calling convention asks of a prologue: registers are stored in the allocated area after the stack
  is allocated, and \<open>RBP\<close> is saved, if it is, before it becomes the frame pointer.
\<close>

fun prologue_ok :: "unwind_op list \<Rightarrow> bool" where
  "prologue_ok [] \<longleftrightarrow> True"
| "prologue_ok (op # ops) \<longleftrightarrow>
     (is_save op \<longrightarrow> ops_size ops = 0) \<and> (\<forall>b. op \<noteq> PushMachFrame b) \<and>
     (saves_rbp op \<or> op \<noteq> SetFpReg \<or> (\<forall>op' \<in> set ops. \<not> saves_rbp op')) \<and> prologue_ok ops"

text \<open>The loop over decoded operations.\<close>

fun bp_fold :: "unwind_op list \<Rightarrow> u32 \<Rightarrow> u32 option \<Rightarrow> u32 option" where
  "bp_fold [] sp bp = bp"
| "bp_fold (Push r # ops) sp bp = bp_fold ops (sp + 8) (if r = RBP then Some sp else bp)"
| "bp_fold (Alloc n # ops) sp bp = bp_fold ops (sp + n) bp"
| "bp_fold (Save r off # ops) sp bp = bp_fold ops sp (if r = RBP then Some off else bp)"
| "bp_fold (op # ops) sp bp = bp_fold ops sp bp"

definition has_run :: "u32 option \<Rightarrow> u8 \<times> unwind_op \<Rightarrow> bool" where
  "has_run offset p \<longleftrightarrow> (case offset of Some off \<Rightarrow> ucast (fst p) \<le> off | None \<Rightarrow> True)"

lemma unwind_codes_loop_enc:
  assumes "\<forall>p \<in> set qs. unwind_op_ok (fe_version fe) (snd p) \<and> (\<forall>b. snd p \<noteq> PushMachFrame b)"
    and "unat sp + ops_size (map snd (filter (has_run offset) qs)) < 2 ^ 32"
  shows "unwind_codes_loop fe offset (concat (map enc_unwind qs)) sp bp =
    Ok (bp_fold (map snd (filter (has_run offset) qs)) sp bp, SpOffset (sp + of_nat (ops_size (map snd (filter (has_run offset) qs)))))"
  using assms
proof (induction qs arbitrary: sp bp)
  case Nil
  then show ?case by (simp add: unwind_codes_loop.simps unwind_next_def code_u8_def)
next
  case (Cons p qs)
  obtain off op where p: "p = (off, op)" by (cases p)
  let ?rest = "concat (map enc_unwind qs)"
  let ?ops = "map snd (filter (has_run offset) qs)"
  have next_op: "unwind_next (fe_version fe) (enc_unwind p @ ?rest) = Some (Some (off, op), ?rest)"
    unfolding p using Cons.prems(1) p by (intro unwind_next_enc) simp
  have nomach: "\<forall>b. op \<noteq> PushMachFrame b" using Cons.prems(1) p by simp
  have skip: "(case offset of Some off' \<Rightarrow> ucast off > off' | None \<Rightarrow> False) \<longleftrightarrow> \<not> has_run offset p"
    by (simp add: has_run_def p not_le split: option.split)
  have step: "unwind_codes_loop fe offset (concat (map enc_unwind (p # qs))) sp bp =
      (if \<not> has_run offset p then unwind_codes_loop fe offset ?rest sp bp
       else case op of
           Push reg \<Rightarrow> and_then (add_chk sp 8) (\<lambda>sp'. unwind_codes_loop fe offset ?rest sp' (if reg = RBP then Some sp else bp))
         | Alloc n \<Rightarrow> and_then (add_chk sp n) (\<lambda>sp'. unwind_codes_loop fe offset ?rest sp' bp)
         | Save reg off \<Rightarrow> unwind_codes_loop fe offset ?rest sp (if reg = RBP then Some off else bp)
         | _ \<Rightarrow> unwind_codes_loop fe offset ?rest sp bp)"
    unfolding list.map concat.simps unwind_codes_loop.simps [of fe offset "enc_unwind p @ ?rest"] next_op
      option.case prod.case skip
    using nomach by (cases op) simp_all
  have IH: "unwind_codes_loop fe offset ?rest sp bp = Ok (bp_fold ?ops sp bp, SpOffset (sp + of_nat (ops_size ?ops)))"
    if "unat sp + ops_size ?ops < 2 ^ 32" for sp bp
    using Cons.IH [OF _ that] Cons.prems(1) by simp
  show ?case
  proof (cases "has_run offset p")
    case False
    then show ?thesis unfolding step using IH [of sp] Cons.prems(2) by simp
  next
    case True
    have room: "unat sp + op_size op + ops_size ?ops < 2 ^ 32"
      using Cons.prems(2) True p by simp
    have add: "add_chk sp n = (Ok (sp + n) :: u32 vm_result)" "unat (sp + n) = unat sp + unat n" if "unat n = op_size op" for n :: u32
      using that room by (simp_all add: add_chk_def unat_word_ariths)
    show ?thesis
      unfolding step using nomach room True IH
      by (cases op) (simp_all add: p add add.assoc)
  qed
qed

lemma bp_fold_append: "bp_fold (ops @ ops') sp bp = bp_fold ops' (sp + of_nat (ops_size ops)) (bp_fold ops sp bp)"
  by (induction ops sp bp rule: bp_fold.induct) (simp_all add: algebra_simps)

lemma exec_ops_sp: "fs_sp (exec_ops fp ops s) = fs_sp s - of_nat (ops_size ops)"
proof (induction ops arbitrary: s)
  case (Cons op ops)
  show ?case by (cases op) (simp_all add: Cons.IH diff_diff_eq)
qed simp

lemma exec_ops_mem: "a \<notin> set (ops_writes fp ops s) \<Longrightarrow> fs_mem (exec_ops fp ops s) a = fs_mem s a"
proof (induction ops arbitrary: s)
  case (Cons op ops)
  then show ?case by (cases op) simp_all
qed simp

lemma bp_fold_none: "\<forall>op \<in> set ops. \<not> saves_rbp op \<Longrightarrow> bp_fold ops sp bp = bp"
  by (induction ops sp bp rule: bp_fold.induct) simp_all

lemma bp_fold_exec:
  assumes "prologue_ok ops" "distinct (ops_writes fp ops s)" "ops_size ops < 2 ^ 32"
  shows "case bp_fold (rev ops) 0 None of
      None \<Rightarrow> \<forall>op \<in> set ops. \<not> saves_rbp op
    | Some off \<Rightarrow> fs_mem (exec_ops fp ops s) (fs_sp (exec_ops fp ops s) + ucast off) = fs_regs s RBP \<and>
        fs_sp (exec_ops fp ops s) + ucast off \<in> set (ops_writes fp ops s) \<and> (\<exists>op \<in> set ops. saves_rbp op)"
  using assms
proof (induction ops arbitrary: s)
  case (Cons op ops)
  let ?s = "exec_op fp op s"
  have last: "bp_fold (rev (op # ops)) 0 None = bp_fold [op] (of_nat (ops_size ops)) (bp_fold (rev ops) 0 None)"
    by (simp add: bp_fold_append)
  have small: "ops_size ops < 2 ^ 32" using Cons.prems(3) by simp
  then have size: "ucast (of_nat (ops_size ops) :: u32) = (of_nat (ops_size ops) :: u64)"
    by (simp add: word_unat_eq_iff unsigned_ucast_eq take_bit_eq_mod unat_of_nat)
  have mem: "fs_mem (exec_ops fp ops ?s) a = fs_mem ?s a" if "a \<in> set (op_writes op s)" for a
    using that Cons.prems(2) by (intro exec_ops_mem) auto
  have IH: "case bp_fold (rev ops) 0 None of
      None \<Rightarrow> \<forall>op \<in> set ops. \<not> saves_rbp op
    | Some off \<Rightarrow> fs_mem (exec_ops fp ops ?s) (fs_sp (exec_ops fp ops ?s) + ucast off) = fs_regs ?s RBP \<and>
        fs_sp (exec_ops fp ops ?s) + ucast off \<in> set (ops_writes fp ops ?s) \<and> (\<exists>op \<in> set ops. saves_rbp op)"
    using Cons.prems small by (intro Cons.IH) auto
  show ?case
  proof (cases "saves_rbp op")
    case True
    then show ?thesis
      unfolding last using Cons.prems(1) mem by (cases op) (simp_all add: exec_ops_sp size)
  next
    case False
    then have fold: "bp_fold (rev (op # ops)) 0 None = bp_fold (rev ops) 0 None"
      unfolding last by (intro bp_fold_none) simp
    show ?thesis
    proof (cases "op = SetFpReg")
      case True
      then have "\<forall>op \<in> set ops. \<not> saves_rbp op" using Cons.prems(1) False by simp
      then show ?thesis using fold False by (simp add: bp_fold_none)
    next
      case f: False
      then have "fs_regs ?s RBP = fs_regs s RBP" by (cases op) simp_all
      then show ?thesis unfolding fold using IH False by (simp split: option.splits)
    qed
  qed
qed simp

text \<open>The prologue as far as it has_run: the entry's stack pointer and the caller's \<open>RBP\<close> are recovered.\<close>

lemma read_unwind_codes_inverts:
  assumes codes: "fe_unwind_codes fe = concat (map enc_unwind (rev ps))"
    and ok: "\<forall>p \<in> set ps. unwind_op_ok (fe_version fe) (snd p) \<and> (\<forall>b. snd p \<noteq> PushMachFrame b)"
    and ops: "ops = map snd (filter (has_run offset) ps)"
    and good: "prologue_ok ops" "distinct (ops_writes fp ops s)" "ops_size ops < 2 ^ 32"
  shows "\<exists>bp. read_unwind_codes fe offset = Ok (bp, SpOffset (of_nat (ops_size ops))) \<and>
    (case bp of
       None \<Rightarrow> \<forall>op \<in> set ops. \<not> saves_rbp op
     | Some off \<Rightarrow> fs_mem (exec_ops fp ops s) (fs_sp (exec_ops fp ops s) + ucast off) = fs_regs s RBP \<and>
         fs_sp (exec_ops fp ops s) + ucast off \<in> set (ops_writes fp ops s) \<and> (\<exists>op \<in> set ops. saves_rbp op))"
proof -
  have ops': "map snd (filter (has_run offset) (rev ps)) = rev ops" by (simp add: ops rev_map rev_filter)
  have "read_unwind_codes fe offset = Ok (bp_fold (rev ops) 0 None, SpOffset (of_nat (ops_size ops)))"
    unfolding read_unwind_codes_def codes
    using unwind_codes_loop_enc [of "rev ps" fe 0 offset None] ok good(3) by (simp add: ops')
  then show ?thesis using bp_fold_exec [OF good] by blast
qed

text \<open>
  The same for a frame stopped in a function that has no mother. The stack pointer after the prologue is that of the
  frame, or is given by the frame register, which is \<open>RBP\<close>, when the function has one, but for its first instruction.
\<close>

definition prologue_sp :: "function_entry \<Rightarrow> bool \<Rightarrow> stack_frame \<Rightarrow> virtual_address option \<Rightarrow> u64 \<Rightarrow> bool" where
  "prologue_sp fe at_start frame base_ptr sp \<longleftrightarrow>
     (case if at_start then None else fe_frame_register_offset fe of
        None \<Rightarrow> frame_sp frame = sp
      | Some off \<Rightarrow> base_ptr = Some (sp + ucast off) \<and> unat sp + unat off < 2 ^ 64)"

lemma unwind_with_infos_inverts:
  assumes parse: "parse_function ud rf = Some fe" "fe_mother fe = None"
    and codes: "fe_unwind_codes fe = concat (map enc_unwind (rev ps))"
    and ok: "\<forall>p \<in> set ps. unwind_op_ok (fe_version fe) (snd p) \<and> (\<forall>b. snd p \<noteq> PushMachFrame b)"
    and ip: "rf_start rf \<le> module_offset ud frame" "va_add_u32 (ud_offset ud) (rf_start rf) = (Ok start :: _ vm_result)"
    and ops: "ops = map snd (filter (has_run (Some (module_offset ud frame - rf_start rf))) ps)"
    and good: "prologue_ok ops" "distinct (ops_writes fp ops s)"
    and sp: "prologue_sp fe (module_offset ud frame = rf_start rf) frame base_ptr (fs_sp (exec_ops fp ops s))"
    and room: "ops_size ops < 2 ^ 32" "ops_size ops \<le> unat (fs_sp s)" "unat (fs_sp s) + 2 ^ 32 + 8 \<le> 2 ^ 64"
  shows "\<exists>bp. unwind_with_infos ud rf frame base_ptr = Some (Ok
      \<lparr>ur_next_sp = SpValue (fs_sp s + 8), ur_next_ip_addr = fs_sp s, ur_next_bp_addr = bp, ur_fun_start = Some start\<rparr>) \<and>
    (case bp of
       None \<Rightarrow> \<forall>op \<in> set ops. \<not> saves_rbp op
     | Some a \<Rightarrow> fs_mem (exec_ops fp ops s) a = fs_regs s RBP \<and> a \<in> set (ops_writes fp ops s) \<and> (\<exists>op \<in> set ops. saves_rbp op))"
proof -
  let ?s = "exec_ops fp ops s"
  obtain bp where bp: "read_unwind_codes fe (Some (module_offset ud frame - rf_start rf)) = Ok (bp, SpOffset (of_nat (ops_size ops)))"
      "case bp of None \<Rightarrow> \<forall>op \<in> set ops. \<not> saves_rbp op
       | Some off \<Rightarrow> fs_mem ?s (fs_sp ?s + ucast off) = fs_regs s RBP \<and> fs_sp ?s + ucast off \<in> set (ops_writes fp ops s) \<and>
           (\<exists>op \<in> set ops. saves_rbp op)"
    using read_unwind_codes_inverts [OF codes ok ops good room(1)] by blast
  have size: "ucast (of_nat (ops_size ops) :: u32) = (of_nat (ops_size ops) :: u64)"
    using room(1) by (simp add: word_unat_eq_iff unsigned_ucast_eq take_bit_eq_mod unat_of_nat)
  have n: "unat (of_nat (ops_size ops) :: u64) = ops_size ops" using room(1) by (simp add: unat_of_nat)
  then have usp: "unat (fs_sp ?s) = unat (fs_sp s) - ops_size ops"
    using room(2) by (simp add: exec_ops_sp unat_sub word_le_nat_alt)
  have up: "va_add_assign (fs_sp ?s) (of_nat (ops_size ops)) = (Ok (fs_sp s) :: _ vm_result)"
    using usp n room by (simp add: va_add_assign_def add_chk_def) (simp add: exec_ops_sp)
  have top: "va_add (fs_sp s) 8 = (Ok (fs_sp s + 8) :: _ vm_result)"
    using room(3) by (simp add: va_add_def add_chk_def)
  have saved: "va_add_u32 (fs_sp ?s) off = (Ok (fs_sp ?s + ucast off) :: _ vm_result)" for off
    using usp room(3) unsigned_less [of off, where 'a = nat]
    by (simp add: va_add_u32_def add_chk_def unsigned_ucast_eq take_bit_eq_mod)
  have sub: "sub_chk (module_offset ud frame) (rf_start rf) = (Ok (module_offset ud frame - rf_start rf) :: _ vm_result)"
    using ip(1) by (simp add: sub_chk_def word_le_nat_alt)
  have start: "(case fe_frame_register_offset fe of
        None \<Rightarrow> Ok (frame_sp frame)
      | Some off \<Rightarrow>
          if module_offset ud frame - rf_start rf = 0 then Ok (frame_sp frame)
          else and_then (context_opt ''missing required frame pointer'' base_ptr) (\<lambda>bp. va_sub bp (ucast off))) = Ok (fs_sp ?s)"
  proof (cases "if module_offset ud frame = rf_start rf then None else fe_frame_register_offset fe")
    case None
    then show ?thesis using sp by (auto simp: prologue_sp_def split: if_splits option.splits)
  next
    case (Some off)
    then have fe: "fe_frame_register_offset fe = Some off" "module_offset ud frame \<noteq> rf_start rf" by (auto split: if_splits)
    then have "unat (fs_sp ?s + ucast off) = unat (fs_sp ?s) + unat off"
      using sp by (simp add: prologue_sp_def unat_word_ariths unsigned_ucast_eq take_bit_eq_mod)
    then have "ucast off \<le> fs_sp ?s + ucast off" by (simp add: word_le_nat_alt unsigned_ucast_eq take_bit_eq_mod)
    then show ?thesis using fe sp by (simp add: prologue_sp_def context_opt_def ok_or_def va_sub_def sub_chk_def)
  qed
  have "unwind_with_infos ud rf frame base_ptr = Some (Ok
      \<lparr>ur_next_sp = SpValue (fs_sp s + 8), ur_next_ip_addr = fs_sp s,
       ur_next_bp_addr = map_option (\<lambda>off. fs_sp ?s + ucast off) bp, ur_fun_start = Some start\<rparr>)"
    by (cases bp; simp add: unwind_with_infos_def sub parse ip(2) start context_opt_def [of "''failed to parse unwind data''"] ok_or_def)
       (subst unwind_chain.simps; simp add: bp(1) size up top saved parse(2))+
  moreover have "case map_option (\<lambda>off. fs_sp ?s + ucast off) bp of None \<Rightarrow> \<forall>op \<in> set ops. \<not> saves_rbp op
       | Some a \<Rightarrow> fs_mem ?s a = fs_regs s RBP \<and> a \<in> set (ops_writes fp ops s) \<and> (\<exists>op \<in> set ops. saves_rbp op)"
    using bp(2) by (cases bp) simp_all
  ultimately show ?thesis by blast
qed

section \<open>Chains\<close>

definition mother_of :: "unwind_data \<Rightarrow> runtime_function \<Rightarrow> runtime_function option" where
  "mother_of self rf = Option.bind (parse_function self rf) fe_mother"

fun ancestor :: "unwind_data \<Rightarrow> nat \<Rightarrow> runtime_function \<Rightarrow> runtime_function option" where
  "ancestor self 0 rf = Some rf"
| "ancestor self (Suc n) rf = Option.bind (mother_of self rf) (ancestor self n)"

lemma chain_start_ends: "ancestor self n rf = None \<Longrightarrow> chain_start self rf \<noteq> None"
proof (induction n arbitrary: rf)
  case (Suc n)
  then show ?case
    by (subst chain_start.simps) (auto simp: mother_of_def split: option.splits bind_splits)
qed simp

lemma chain_start_returns:
  assumes "chain_start self rf = Some y"
  shows "\<exists>n. ancestor self n rf = None"
proof (rule chain_start.raw_induct [OF _ assms])
  fix cs self rf y
  assume IH: "\<And>self rf y. cs self rf = Some y \<Longrightarrow> \<exists>n. ancestor self n rf = None"
    and body: "(case parse_function self rf of
        None \<Rightarrow> Some (Ok None)
      | Some fe \<Rightarrow>
          (case fe_mother fe of
             Some mother \<Rightarrow> cs self mother
           | None \<Rightarrow> Some (map_ok Some (va_add_u32 (ud_offset self) (rf_start rf))))) = Some y"
  show "\<exists>n. ancestor self n rf = None"
  proof (cases "mother_of self rf")
    case None
    then have "ancestor self 1 rf = None" by simp
    then show ?thesis ..
  next
    case (Some m)
    then have "cs self m = Some y" using body by (auto simp: mother_of_def split: option.splits bind_splits)
    then obtain n where "ancestor self n m = None" using IH by blast
    then have "ancestor self (Suc n) rf = None" using Some by simp
    then show ?thesis ..
  qed
qed

text \<open>The loop ends exactly when the chain does.\<close>

lemma chain_start_iff: "chain_start self rf \<noteq> None \<longleftrightarrow> (\<exists>n. ancestor self n rf = None)"
  using chain_start_ends chain_start_returns by blast

text \<open>The same chain followed by \<open>unwind_with_infos\<close>, from the entry that was already parsed.\<close>

lemma unwind_chain_ends:
  "(case fe_mother fe of None \<Rightarrow> True | Some m \<Rightarrow> ancestor self n m = None) \<Longrightarrow>
   unwind_chain self fe ip sp bp start \<noteq> None"
proof (induction n arbitrary: fe ip sp bp start)
  case 0
  then have "fe_mother fe = None" by (simp split: option.splits)
  then show ?case
    by (subst unwind_chain.simps) (simp add: out_then_def split: result.split unwind_step.split prod.split bind_split)
next
  case (Suc n)
  show ?case
  proof (cases "fe_mother fe")
    case None
    then show ?thesis
      by (subst unwind_chain.simps) (simp add: out_then_def split: result.split unwind_step.split prod.split bind_split)
  next
    case (Some m)
    have "unwind_chain self f ip sp bp start \<noteq> None" if "parse_function self m = Some f" for f ip sp bp start
      using Suc.prems Some that by (intro Suc.IH) (auto simp: mother_of_def split: option.splits)
    then show ?thesis using Some
      by (subst unwind_chain.simps)
         (auto simp: out_then_def context_opt_def ok_or_def split: result.splits unwind_step.splits prod.splits bind_splits option.splits)
  qed
qed

lemma unwind_with_infos_ends:
  assumes "ancestor self n rf = None"
  shows "unwind_with_infos self rf frame base_ptr \<noteq> None"
proof -
  obtain k where k: "n = Suc k" using assms by (cases n) auto
  have "unwind_chain self fe ip sp bp start \<noteq> None" if "parse_function self rf = Some fe" for fe ip sp bp start
    using assms that by (intro unwind_chain_ends [where n = k]) (auto simp: k mother_of_def split: option.split)
  then show ?thesis
    by (auto simp: unwind_with_infos_def out_then_def context_opt_def ok_or_def split: result.splits option.splits)
qed

text \<open>
  A set of entries closed under mothers, none of which moves the stack pointer: the loop never ends.
\<close>

lemma unwind_chain_cycle:
  assumes "Q fe" and closed: "\<And>f. Q f \<Longrightarrow> read_unwind_codes f None = Ok (None, SpOffset 0) \<and>
    (\<exists>m f' a. fe_mother f = Some m \<and> parse_function ud m = Some f' \<and> Q f' \<and> va_add_u32 (ud_offset ud) (rf_start m) = (Ok a :: _ vm_result))"
  shows "unwind_chain ud fe None sp bp start = None"
proof (rule ccontr)
  assume "unwind_chain ud fe None sp bp start \<noteq> None"
  then obtain y where y: "unwind_chain ud fe None sp bp start = Some y" by blast
  have "self = ud \<longrightarrow> ip = None \<longrightarrow> \<not> Q f" if "unwind_chain self f ip sp bp start = Some y" for self f ip sp bp start y
  proof (rule unwind_chain.raw_induct [OF _ that], intro impI notI)
    fix uc self f ip sp bp start y
    assume IH: "\<And>self f ip sp bp start y. uc self f ip sp bp start = Some y \<Longrightarrow> self = ud \<longrightarrow> ip = None \<longrightarrow> \<not> Q f"
      and body: "out_then (Some (read_unwind_codes f ip)) (\<lambda>(bp_offset, stp).
         out_then (Some (case bp_offset of Some off \<Rightarrow> map_ok Some (va_add_u32 sp off) | None \<Rightarrow> Ok bp)) (\<lambda>bp_addr.
         case stp of
           MachInst off \<Rightarrow>
             Some (and_then (va_add_u32 sp off) (\<lambda>ip_addr.
               and_then (va_add_i32 ip_addr 0x18) (\<lambda>sp_addr.
                 Ok \<lparr>ur_next_sp = SpAddr sp_addr, ur_next_ip_addr = ip_addr, ur_next_bp_addr = bp_addr,
                     ur_fun_start = start\<rparr>)))
         | SpOffset off \<Rightarrow>
             out_then (Some (va_add_assign sp (ucast off))) (\<lambda>sp.
             case fe_mother f of
               Some mother \<Rightarrow>
                 out_then (Some (context_opt ''failed to parse unwind data'' (parse_function self mother))) (\<lambda>function.
                 out_then (Some (va_add_u32 (ud_offset self) (rf_start mother))) (\<lambda>start.
                   uc self function None sp bp_addr (Some start)))
             | None \<Rightarrow>
                 Some (and_then (va_add sp 8) (\<lambda>sp'.
                   Ok \<lparr>ur_next_sp = SpValue sp', ur_next_ip_addr = sp, ur_next_bp_addr = bp_addr,
                       ur_fun_start = start\<rparr>))))) = Some y"
      and eqs: "self = ud" "ip = None" "Q f"
    obtain m f' a where m: "read_unwind_codes f None = Ok (None, SpOffset 0)" "fe_mother f = Some m"
        "parse_function ud m = Some f'" "Q f'" "va_add_u32 (ud_offset ud) (rf_start m) = (Ok a :: _ vm_result)"
      using closed [OF eqs(3)] by blast
    have "va_add_assign sp 0 = (Ok sp :: _ vm_result)"
      using unsigned_less [of sp, where 'a = nat] by (simp add: va_add_assign_def va_add_def add_chk_def)
    then have "uc ud f' None sp bp (Some a) = Some y"
      using body m eqs by (simp add: context_opt_def ok_or_def)
    then show False using IH m(4) by blast
  qed
  from this [OF y] show False using assms(1) by simp
qed

section \<open>The number of unwind codes\<close>

text \<open>The items that the iterator gives, and its promise about their number. The codes of a function are pairs of bytes.\<close>

function unwind_items :: "u8 \<Rightarrow> u8 list \<Rightarrow> (u8 \<times> unwind_op) option list" where
  "unwind_items version codes =
     (case unwind_next version codes of None \<Rightarrow> [] | Some (item, codes) \<Rightarrow> item # unwind_items version codes)"
  by pat_completeness auto
termination
  by (relation "measure (\<lambda>(version, codes). length codes)") (auto dest: unwind_next_shorter)

declare unwind_items.simps [simp del]

lemma code_even:
  "code_u16 codes = Some (b, rest) \<Longrightarrow> even (length rest) = even (length codes)"
  "code_u32 codes = Some (c, rest) \<Longrightarrow> even (length rest) = even (length codes)"
  by (auto simp: code_u16_def code_u32_def split: list.splits)

lemma unwind_next_even:
  assumes "unwind_next version codes = Some (item, rest)" "even (length codes)"
  shows "even (length rest) \<and> length rest + 2 \<le> length codes"
proof -
  obtain a b cs where codes: "codes = a # b # cs" "even (length cs)"
    using assms by (cases codes; cases "tl codes") (auto simp: unwind_next_def code_u8_def)
  then obtain op where op: "unwind_decode version (b # cs) = (op, rest)"
    using assms(1) by (auto simp: unwind_next_def code_u8_def Let_def split: prod.splits)
  then have "even (length rest)" "length rest \<le> length cs"
    using codes(2) unfolding unwind_decode_def
    by (auto simp: code_u8_def Let_def dest: code_even code_shorter split: option.splits if_splits)
  then show ?thesis using codes by simp
qed

lemma unwind_size_hint_bounds:
  assumes "even (length codes)"
  shows "fst (unwind_size_hint codes) \<le> length (unwind_items version codes) \<and>
    length (unwind_items version codes) \<le> the (snd (unwind_size_hint codes))"
  using assms
proof (induction version codes rule: unwind_items.induct)
  case (1 version codes)
  show ?case
  proof (cases "unwind_next version codes")
    case None
    then have "codes = []" by (cases codes) (auto simp: unwind_next_def code_u8_def Let_def split: prod.splits)
    then show ?thesis using None by (simp add: unwind_items.simps [of version] unwind_size_hint_def)
  next
    case (Some x)
    obtain item rest where x: "x = (item, rest)" by (cases x)
    note even = unwind_next_even [OF Some [unfolded x] 1(2)]
    then have "length (unwind_items version rest) \<le> length rest div 2"
      using 1(1) [OF Some x [symmetric]] by (simp add: unwind_size_hint_def Let_def)
    moreover have "length rest div 2 + 1 \<le> length codes div 2" using even by linarith
    moreover have "unwind_items version codes = item # unwind_items version rest"
      by (simp add: Some x unwind_items.simps [of version codes])
    ultimately show ?thesis by (simp add: unwind_size_hint_def Let_def)
  qed
qed

end
