(* ===== verification/Vm_Os_Laws.thy ===== *)
theory Vm_Os_Laws
  imports Vm_Os Vm_Symbols_Laws
begin

text \<open>
  Lemmas on the provided methods of the trait \<open>Os\<close>: the module of an address is found in the enumeration of
  modules, and the symbol of an address is one of its module.
\<close>

definition in_span :: "virtual_address \<times> virtual_address \<Rightarrow> virtual_address \<Rightarrow> bool" where
  "in_span s addr \<longleftrightarrow> fst s \<le> addr \<and> addr < snd s"

lemma find_module_spec:
  assumes "trace_run (if is_kernel addr then for_each_kernel_module self else process_for_each_module self proc) ms (Ok ())"
    and "\<forall>m \<in> set ms. module_span self m proc = Some (Ok (span m))"
  shows "find_module_by_address self proc addr = Some (Ok (List.find (\<lambda>m. in_span (span m) addr) ms))"
  unfolding find_module_by_address_def
  by (rule find_in_trace_run [OF assms(1)])
     (use assms(2) in \<open>auto simp: module_contains_def in_span_def split: prod.split\<close>)

lemma resolve_symbol_spec:
  assumes mods: "trace_run (if is_kernel addr then for_each_kernel_module self else process_for_each_module self proc) ms (Ok ())"
    and spans: "\<forall>m \<in> set ms. module_span self m proc = Some (Ok (span m))"
    and syms: "\<forall>m \<in> set ms. module_symbols_of self proc m = Some (Ok (Some (syms m)))"
  shows "resolve_symbol self addr proc =
    Some (Ok (Option.bind (List.find (\<lambda>m. in_span (span m) addr) ms) (\<lambda>m. get_symbol_inexact (syms m) (addr - fst (span m)))))"
proof (cases "List.find (\<lambda>m. in_span (span m) addr) ms")
  case None
  then show ?thesis using find_module_spec [OF mods spans] by (simp add: resolve_symbol_def)
next
  case (Some m)
  then have m: "m \<in> set ms" "in_span (span m) addr" by (auto simp: find_Some_iff in_set_conv_nth)
  then have "module_resolve_symbol self addr proc m = Some (Ok (get_symbol_inexact (syms m) (addr - fst (span m))))"
    using spans syms by (simp add: module_resolve_symbol_def module_resolve_def in_span_def va_diff_def split_beta)
  then show ?thesis using find_module_spec [OF mods spans] Some by (simp add: resolve_symbol_def)
qed

text \<open>
  The name of an address in a module without symbols has the offset of its function in the module; outside
  of modules it has the offset of the area in the function, the opposite number.
\<close>

lemma without_module_offset:
  assumes "process_find_vma_by_address self proc addr = Some (Ok (Some v))" "vma_start self v = Some (Ok s)" "addr \<noteq> f"
  shows "format_symbol_without_module self proc addr (Some f) = Some (Ok (hex s @ ''!'' @ hex (- (f - s)) @ ''+'' @ hex (addr - f)))"
  using assms by (simp add: format_symbol_without_module_def do_format_without_module_def va_diff_def Let_def)

end
