(* ===== verification/Vm_Linux_Laws.thy ===== *)
theory Vm_Linux_Laws
  imports Vm_Linux
begin

text \<open>
  Lemmas on the processes and threads of a Linux guest: the ring of tasks of the kernel, and what the
  enumerations of the library give for it.
\<close>

section \<open>Tasks\<close>

text \<open>
  The list with its head in a field of \<open>proc\<close> and its links in another field of the elements; \<open>p\<close> is the
  sequence of the links met from the head.
\<close>

definition task_links ::
  "('r, 's, 'o, 'm) linux \<Rightarrow> string \<Rightarrow> string \<Rightarrow> process \<Rightarrow> u64 \<Rightarrow> (nat \<Rightarrow> virtual_address) \<Rightarrow> bool"
where
  "task_links l head_field link_field proc off p \<longleftrightarrow>
     lx_field l TaskStruct head_field proc = Some (Ok (p 0)) \<and>
     field_offset (linux_layouts l) TaskStruct link_field = Ok off \<and>
     links (lx_ptr l ListHead ''next'') off p"

definition tasks_of :: "u64 \<Rightarrow> (nat \<Rightarrow> virtual_address) \<Rightarrow> process list outcome" where
  "tasks_of off p =
     (if \<exists>n > 0. p n = p 0 then Some (Ok (map (\<lambda>i. p i - off) [1..<(LEAST n. 0 < n \<and> p n = p 0)])) else None)"

lemma task_list_collect:
  assumes "task_links l head_field link_field proc off p"
  shows "collect (trace_then (lx_field l TaskStruct head_field proc) (linux_list l TaskStruct link_field)) = tasks_of off p"
  using assms links_collect [of "lx_ptr l ListHead ''next''" off p]
  by (simp add: task_links_def linux_list_def tasks_of_def)

lemma linux_collect_processes:
  assumes "linux_init_process l = Some (Ok init)" "task_links l ''tasks'' ''tasks'' init off p"
  shows "collect_processes (linux_os into_r into_s into_o try_insert callstack l) = tasks_of off p"
  using task_list_collect [OF assms(2)] assms(1)
  by (simp add: collect_processes_def linux_os_def linux_for_each_process_def)

lemma linux_collect_threads:
  assumes "task_links l ''thread_group'' ''thread_group'' proc off p"
  shows "process_collect_threads (linux_os into_r into_s into_o try_insert callstack l) proc = tasks_of off p"
  using task_list_collect [OF assms]
  by (simp add: process_collect_threads_def linux_os_def linux_process_for_each_thread_def)

lemma linux_collect_children:
  assumes "task_links l ''children'' ''sibling'' proc off p"
  shows "process_collect_children (linux_os into_r into_s into_o try_insert callstack l) proc = tasks_of off p"
  using task_list_collect [OF assms]
  by (simp add: process_collect_children_def linux_os_def linux_process_for_each_child_def)

text \<open>A list with only its head.\<close>

lemma tasks_of_one:
  assumes "p 1 = p 0"
  shows "tasks_of off p = Some (Ok [])"
proof -
  have "(LEAST n. 0 < n \<and> p n = p 0) = 1" using assms by (intro Least_equality) auto
  then show ?thesis using assms by (auto simp: tasks_of_def)
qed

text \<open>A list whose head is the link of its owner does not have the owner.\<close>

lemma owner_not_listed:
  assumes "task_links l f f proc off p" "tasks_of off p = Some (Ok ps)"
  shows "proc \<notin> set ps"
proof
  assume "proc \<in> set ps"
  then obtain i where i: "proc = p i - off" "0 < i" "i < (LEAST n. 0 < n \<and> p n = p 0)"
    using assms(2) by (auto simp: tasks_of_def split: if_splits)
  have "va_add proc off = (Ok (p 0) :: _ vm_result)"
    using assms(1) by (auto simp: task_links_def ptr_field_def split: if_splits)
  then have "p i = p 0" using i(1) by (auto simp: va_add_def add_chk_def split: if_splits)
  then show False using i(2,3) not_less_Least [of i "\<lambda>n. 0 < n \<and> p n = p 0"] by simp
qed

lemma linux_find_process_by_id:
  assumes "collect_processes (linux_os into_r into_s into_o try_insert callstack l) = Some (Ok ps)"
    and "\<forall>q \<in> set ps. linux_process_id l q = Some (Ok (pid q))"
  shows "find_process_by_id (linux_os into_r into_s into_o try_insert callstack l) n = Some (Ok (List.find (\<lambda>q. pid q = n) ps))"
proof -
  let ?os = "linux_os into_r into_s into_o try_insert callstack l"
  have "trace_run (for_each_process ?os) ps (Ok ())"
    using assms(1) by (simp add: collect_processes_def collect_Ok_iff)
  moreover have "\<forall>q \<in> set ps. out_map (\<lambda>k. k = n) (process_id ?os q) = Some (Ok (pid q = n))"
    using assms(2) by (simp add: linux_os_def)
  ultimately show ?thesis unfolding find_process_by_id_def by (rule find_in_trace_run)
qed

end
