(* ===== verification/Vm_Windows_Memory.thy ===== *)
theory Vm_Windows_Memory
  imports Vm_Pointer
begin

text \<open>
  Windows guests, first part: the profile (\<^verbatim>\<open>windows/profile.rs\<close>), the reading of virtual memory through the
  software states of a page (\<^verbatim>\<open>windows/memory.rs\<close>), and the tree of virtual address descriptors of a process
  (the first part of \<^verbatim>\<open>windows/mod.rs\<close>).

  Reading a page may have to look for the descriptor of its address in the tree of the process, which the
  guest may have made cyclic: such a read is partial. The tree itself is read from kernel memory, without the
  descriptors. The recursion of \<open>iterate_tree\<close> is a stack of what is left to do.
\<close>

section \<open>Profile\<close>

definition ClientId :: kstruct where "ClientId = Kstruct ''_CLIENT_ID'' ''ClientId''"
definition Eprocess :: kstruct where "Eprocess = Kstruct ''_EPROCESS'' ''Eprocess''"
definition Ethread :: kstruct where "Ethread = Kstruct ''_ETHREAD'' ''Ethread''"
definition FileObject :: kstruct where "FileObject = Kstruct ''_FILE_OBJECT'' ''FileObject''"
definition Kpcr :: kstruct where "Kpcr = Kstruct ''_KPCR'' ''Kpcr''"
definition Kprcb :: kstruct where "Kprcb = Kstruct ''_KPRCB'' ''Kprcb''"
definition Kprocess :: kstruct where "Kprocess = Kstruct ''_KPROCESS'' ''Kprocess''"
definition Kthread :: kstruct where "Kthread = Kstruct ''_KTHREAD'' ''Kthread''"
definition KUserSharedData :: kstruct where "KUserSharedData = Kstruct ''_KUSER_SHARED_DATA'' ''KUserSharedData''"
definition LdrDataTableEntry :: kstruct where "LdrDataTableEntry = Kstruct ''_LDR_DATA_TABLE_ENTRY'' ''LdrDataTableEntry''"
definition ListEntry :: kstruct where "ListEntry = Kstruct ''_LIST_ENTRY'' ''ListEntry''"
definition MmvadShort :: kstruct where "MmvadShort = Kstruct ''_MMVAD_SHORT'' ''MmvadShort''"
definition Mmvad :: kstruct where "Mmvad = Kstruct ''_MMVAD'' ''Mmvad''"
definition Peb :: kstruct where "Peb = Kstruct ''_PEB'' ''_Peb''"
definition PebLdrData :: kstruct where "PebLdrData = Kstruct ''_PEB_LDR_DATA'' ''PebLdrData''"
definition RtlAvlTree :: kstruct where "RtlAvlTree = Kstruct ''_RTL_AVL_TREE'' ''RtlAvlTree''"
definition RtlBalancedNode :: kstruct where "RtlBalancedNode = Kstruct ''_RTL_BALANCED_NODE'' ''RtlBalancedNode''"
definition UnicodeString :: kstruct where "UnicodeString = Kstruct ''_UNICODE_STRING'' ''UnicodeString''"

definition windows_structs :: "(kstruct \<times> string list) list" where
  "windows_structs =
     [(ClientId, [''UniqueThread'']),
      (Eprocess, [''ActiveProcessLinks'', ''ImageFileName'', ''ImageFilePointer'', ''InheritedFromUniqueProcessId'', ''Pcb'',
         ''Peb'', ''ThreadListHead'', ''UniqueProcessId'', ''VadRoot'']),
      (Ethread, [''Tcb'', ''Cid'', ''ThreadListEntry'', ''ThreadName'']),
      (FileObject, [''FileName'']),
      (Kpcr, [''Prcb'']),
      (Kprcb, [''CurrentThread'', ''KernelDirectoryTableBase'']),
      (Kprocess, [''DirectoryTableBase'', ''UserDirectoryTableBase'']),
      (Kthread, [''Process'']),
      (KUserSharedData, [''NtMajorVersion'', ''NtMinorVersion'']),
      (LdrDataTableEntry, [''BaseDllName'', ''DllBase'', ''FullDllName'', ''InLoadOrderLinks'', ''SizeOfImage'']),
      (ListEntry, [''Flink'', ''Blink'']),
      (MmvadShort, [''EndingVpn'', ''EndingVpnHigh'', ''StartingVpn'', ''StartingVpnHigh'', ''u'', ''LeftChild'', ''RightChild'',
         ''VadNode'']),
      (Mmvad, [''FirstPrototypePte'']),
      (Peb, [''Ldr'']),
      (PebLdrData, [''InLoadOrderModuleList'']),
      (RtlAvlTree, [''Root'']),
      (RtlBalancedNode, [''Left'', ''Right'']),
      (UnicodeString, [''Length'', ''Buffer''])]"

record windows_fast_symbols =
  KiImplementedPhysicalBits :: "u64 option"
  PsActiveProcessHead :: u64
  PsLoadedModuleList :: u64

record 'm windows_profile =
  wp_syms :: 'm
  wp_fast_syms :: windows_fast_symbols
  wp_layouts :: layouts

definition windows_profile_new :: "'m map_get \<Rightarrow> 'm \<Rightarrow> 'm windows_profile vm_result" where
  "windows_profile_new map_get syms =
     and_then (require_module map_get syms ''ntoskrnl.exe'') (\<lambda>kernel.
     and_then (require_address kernel ''PsActiveProcessHead'') (\<lambda>processes.
     and_then (require_address kernel ''PsLoadedModuleList'') (\<lambda>loaded.
     Ok \<lparr>wp_syms = syms,
         wp_fast_syms = \<lparr>KiImplementedPhysicalBits = get_address kernel ''KiImplementedPhysicalBits'',
           PsActiveProcessHead = processes, PsLoadedModuleList = loaded\<rparr>,
         wp_layouts = layouts_new windows_structs kernel\<rparr>)))"

record ('r, 's, 'o, 'm) windows =
  w_backend :: "('r, 's, 'o) backend"
  w_symbols_loader :: symbol_loader
  w_kpgd :: physical_address
  w_base_addr :: virtual_address
  w_profile :: "'m windows_profile"
  w_unswizzle_mask :: u64

definition windows_layouts :: "('r, 's, 'o, 'm) windows \<Rightarrow> layouts" where
  "windows_layouts self = wp_layouts (w_profile self)"

section \<open>Page table entries\<close>

definition VAD_MASK :: u64 where "VAD_MASK = 0xffffffff00000000"
definition MMPTE_VALID_BIT :: u64 where "MMPTE_VALID_BIT = push_bit 0 1"
definition MMPTE_SWIZZLE_BIT :: u64 where "MMPTE_SWIZZLE_BIT = push_bit 4 1"
definition MMPTE_SOFTWARE_BIT :: u64 where "MMPTE_SOFTWARE_BIT = push_bit 10 1"
definition MMPTE_TRANSITION_BIT :: u64 where "MMPTE_TRANSITION_BIT = push_bit 11 1"

type_synonym mm_pte = u64

datatype mm_pte_kind = PteSoftware | PteTransition | PteVad | PteZero | PteUnknown

definition pte_is_valid :: "mm_pte \<Rightarrow> bool" where
  "pte_is_valid self \<longleftrightarrow> self AND MMPTE_VALID_BIT \<noteq> 0"

definition transition_page :: "mm_pte \<Rightarrow> physical_address" where
  "transition_page self = self AND mask_range 12 40"

definition classify :: "mm_pte \<Rightarrow> mm_pte_kind" where
  "classify ent =
     (if ent AND MMPTE_SOFTWARE_BIT \<noteq> 0 then
        (if ent AND VAD_MASK = VAD_MASK then PteVad else PteSoftware)
      else if ent = 0 then PteVad
      else if ent AND MMPTE_TRANSITION_BIT \<noteq> 0 then PteTransition
      else if drop_bit 32 ent = 0 then PteZero
      else PteUnknown)"

definition unswizzle :: "('r, 's, 'o, 'm) windows \<Rightarrow> mm_pte \<Rightarrow> mm_pte" where
  "unswizzle self ent = (if ent AND MMPTE_SWIZZLE_BIT = 0 then ent AND w_unswizzle_mask self else ent)"

text \<open>Reading physical memory at the offset of an address in a page.\<close>

definition read_page :: "('r, 's, 'o, 'm) windows \<Rightarrow> physical_address \<Rightarrow> virtual_address \<Rightarrow> buf \<Rightarrow> (unit, translation_error) buf_result" where
  "read_page self base addr bf =
     (case pa_add base (addr AND vm_mask 12) of
        Ok a \<Rightarrow> (let (bf', r) = read_physical (be_memory (w_backend self)) a bf in (bf', map_err translation_of_mem r))
      | Err e \<Rightarrow> (bf, Err e)
      | Panic \<Rightarrow> (bf, Panic))"

definition read_prototype_pte ::
  "('r, 's, 'o, 'm) windows \<Rightarrow> virtual_address \<Rightarrow> buf \<Rightarrow> mm_pte \<Rightarrow> (unit, translation_error) buf_result"
where
  "read_prototype_pte self addr bf ent =
     (if pte_is_valid ent then read_page self (ent AND mask_range 12 48) addr bf
      else let ent = unswizzle self ent in
        (case classify ent of
           PteTransition \<Rightarrow> read_page self (transition_page ent) addr bf
         | PteZero \<Rightarrow> (replicate (length bf) 0, Ok ())
         | _ \<Rightarrow> (bf, Err (TInvalid ent))))"

text \<open>\<open>read_virtual_memory_raw\<close>; \<open>vad\<close> is \<open>read_vad_pte\<close> for the process, if there is one.\<close>

definition read_raw ::
  "('r, 's, 'o, 'm) windows \<Rightarrow> (virtual_address \<Rightarrow> buf \<Rightarrow> (unit, translation_error) buf_result option) option \<Rightarrow>
   physical_address \<Rightarrow> virtual_address \<Rightarrow> buf \<Rightarrow> (unit, translation_error) buf_result option"
where
  "read_raw self vad mmu_addr addr bf =
     (case be_read_virtual_memory (w_backend self) mmu_addr addr bf of
        (bf, Ok u) \<Rightarrow> Some (bf, Ok ())
      | (bf, Err (TMemory err)) \<Rightarrow> Some (bf, Err (TMemory err))
      | (bf, Panic) \<Rightarrow> Some (bf, Panic)
      | (bf, Err (TInvalid entry)) \<Rightarrow>
          (let ent = unswizzle self entry in
           case classify ent of
             PteSoftware \<Rightarrow>
               (case read_value_virtual 8 dec_u64 (w_backend self) (w_kpgd self) (drop_bit 16 ent) of
                  Ok ent \<Rightarrow> Some (read_prototype_pte self addr bf ent)
                | Err e \<Rightarrow> Some (bf, Err e)
                | Panic \<Rightarrow> Some (bf, Panic))
           | PteTransition \<Rightarrow> Some (read_page self (transition_page ent) addr bf)
           | PteVad \<Rightarrow>
               (case vad of
                  Some read_vad \<Rightarrow> read_vad addr bf
                | None \<Rightarrow> Some (bf, Err (TInvalid ent)))
           | PteZero \<Rightarrow> Some (replicate (length bf) 0, Ok ())
           | PteUnknown \<Rightarrow> Some (bf, Err (TInvalid ent))))"

section \<open>Reading virtual memory\<close>

text \<open>
  The loop over pages with a callback that may not return: it stops at the page whose read does not
  return, which is the error \<open>None\<close>.
\<close>

definition partial_page ::
  "(virtual_address \<Rightarrow> buf \<Rightarrow> (unit, 'e) buf_result option) \<Rightarrow> 'e option page_read"
where
  "partial_page f addr bf =
     (case f addr bf of None \<Rightarrow> (bf, Err None) | Some (bf', r) \<Rightarrow> (bf', map_err Some r))"

fun partial_result :: "(unit, 'e option) buf_result \<Rightarrow> (unit, 'e) buf_result option" where
  "partial_result (bf, Ok u) = Some (bf, Ok u)"
| "partial_result (bf, Err None) = None"
| "partial_result (bf, Err (Some e)) = Some (bf, Err e)"
| "partial_result (bf, Panic) = Some (bf, Panic)"

definition read_virtual ::
  "(virtual_address \<Rightarrow> buf \<Rightarrow> (unit, translation_error) buf_result option) \<Rightarrow> os_read"
where
  "read_virtual raw addr bf =
     map_option (\<lambda>(bf, r). (bf, map_err vm_of_translation r))
       (partial_result (read_virtual_memory addr bf (partial_page raw)))"

definition try_read_virtual ::
  "(virtual_address \<Rightarrow> buf \<Rightarrow> (unit, translation_error) buf_result option) \<Rightarrow> os_read"
where
  "try_read_virtual raw addr bf =
     map_option (\<lambda>(bf, r). (bf, map_err vm_of_mem r))
       (partial_result (read_virtual_memory addr bf
          (partial_page (\<lambda>addr bf. map_option (\<lambda>r. skip_invalid (\<lambda>addr bf. r) addr bf) (raw addr bf)))))"

definition windows_read_virtual_memory :: "('r, 's, 'o, 'm) windows \<Rightarrow> physical_address \<Rightarrow> os_read" where
  "windows_read_virtual_memory self mmu_addr = read_virtual (read_raw self None mmu_addr)"

definition windows_try_read_virtual_memory :: "('r, 's, 'o, 'm) windows \<Rightarrow> physical_address \<Rightarrow> os_read" where
  "windows_try_read_virtual_memory self mmu_addr = try_read_virtual (read_raw self None mmu_addr)"

definition windows_kernel_read :: "('r, 's, 'o, 'm) windows \<Rightarrow> os_read" where
  "windows_kernel_read self = windows_read_virtual_memory self (w_kpgd self)"

abbreviation w_field :: "('r, 's, 'o, 'm) windows \<Rightarrow> kstruct \<Rightarrow> string \<Rightarrow> virtual_address \<Rightarrow> virtual_address outcome" where
  "w_field self \<equiv> ptr_field (windows_layouts self)"

abbreviation w_read :: "('r, 's, 'o, 'm) windows \<Rightarrow> nat \<Rightarrow> (u8 list \<Rightarrow> 'a) \<Rightarrow> kstruct \<Rightarrow> string \<Rightarrow> virtual_address \<Rightarrow> 'a outcome" where
  "w_read self n decode \<equiv> read_field (windows_kernel_read self) n decode (windows_layouts self)"

abbreviation w_ptr :: "('r, 's, 'o, 'm) windows \<Rightarrow> kstruct \<Rightarrow> string \<Rightarrow> virtual_address \<Rightarrow> virtual_address outcome" where
  "w_ptr self \<equiv> read_pointer_field (windows_kernel_read self) (windows_layouts self)"

section \<open>Virtual address descriptors\<close>

definition child ::
  "('r, 's, 'o, 'm) windows \<Rightarrow> string \<Rightarrow> string \<Rightarrow> virtual_address \<Rightarrow> virtual_address outcome"
where
  "child self new_name old_name node =
     (if has_field (windows_layouts self) MmvadShort ''VadNode''
      then out_then (w_field self MmvadShort ''VadNode'' node) (w_ptr self RtlBalancedNode new_name)
      else w_ptr self MmvadShort old_name node)"

definition left_child :: "('r, 's, 'o, 'm) windows \<Rightarrow> virtual_address \<Rightarrow> virtual_address outcome" where
  "left_child self = child self ''Left'' ''LeftChild''"

definition right_child :: "('r, 's, 'o, 'm) windows \<Rightarrow> virtual_address \<Rightarrow> virtual_address outcome" where
  "right_child self = child self ''Right'' ''RightChild''"

datatype tree_work = Descend (tw_descend: virtual_address) | Visit (tw_visit: virtual_address) | RightOf (tw_right: virtual_address)

definition sub_work :: "virtual_address \<Rightarrow> tree_work list" where
  "sub_work node = (if ptr_is_null node then [] else [Descend node])"

primcorec tree_trace ::
  "(virtual_address \<Rightarrow> virtual_address outcome) \<Rightarrow> (virtual_address \<Rightarrow> virtual_address outcome) \<Rightarrow> tree_work list \<Rightarrow>
   virtual_address trace"
where
  "tree_trace left right work =
     (case work of
        [] \<Rightarrow> Stop (Ok ())
      | w # work' \<Rightarrow>
          (case w of
             Descend node \<Rightarrow>
               (case answer_of (left node) of
                  Hangs \<Rightarrow> Later spin
                | Ends r \<Rightarrow> Stop r
                | Got l \<Rightarrow> Later (tree_trace left right (sub_work l @ Visit node # RightOf node # work')))
           | Visit node \<Rightarrow> Yield node (tree_trace left right work')
           | RightOf node \<Rightarrow>
               (case answer_of (right node) of
                  Hangs \<Rightarrow> Later spin
                | Ends r \<Rightarrow> Stop r
                | Got r \<Rightarrow> Later (tree_trace left right (sub_work r @ work')))))"

definition iterate_tree :: "('r, 's, 'o, 'm) windows \<Rightarrow> virtual_address \<Rightarrow> virtual_address trace" where
  "iterate_tree self node = tree_trace (left_child self) (right_child self) [Descend node]"

partial_function (option) find_in_tree ::
  "(virtual_address \<Rightarrow> virtual_address outcome) \<Rightarrow> (virtual_address \<Rightarrow> virtual_address outcome) \<Rightarrow>
   (virtual_address \<Rightarrow> ordering outcome) \<Rightarrow> virtual_address \<Rightarrow> virtual_address option outcome"
where
  "find_in_tree left right f node =
     out_then (f node) (\<lambda>c.
       case c of
         Less \<Rightarrow>
           out_then (right node) (\<lambda>r. if ptr_is_null r then Some (Ok None) else find_in_tree left right f r)
       | Equal \<Rightarrow> Some (Ok (Some node))
       | Greater \<Rightarrow>
           out_then (left node) (\<lambda>l. if ptr_is_null l then Some (Ok None) else find_in_tree left right f l))"

definition vad_root :: "('r, 's, 'o, 'm) windows \<Rightarrow> process \<Rightarrow> virtual_address outcome" where
  "vad_root self proc =
     out_then (w_field self Eprocess ''VadRoot'' proc) (\<lambda>root.
       if has_field (windows_layouts self) RtlAvlTree ''Root'' then w_ptr self RtlAvlTree ''Root'' root
       else Some (Ok root))"

text \<open>The numbers of the first and the last page, in one field or in two.\<close>

definition windows_vma_start :: "('r, 's, 'o, 'm) windows \<Rightarrow> vma \<Rightarrow> virtual_address outcome" where
  "windows_vma_start self v =
     out_then (w_read self 8 dec_u64 MmvadShort ''StartingVpn'' v) (\<lambda>low.
       if has_field (windows_layouts self) MmvadShort ''StartingVpnHigh'' then
         out_then (w_read self 1 dec_u8 MmvadShort ''StartingVpnHigh'' v) (\<lambda>high.
           Some (map_ok (push_bit 12) (add_chk (push_bit 32 (ucast high)) (ucast (ucast low :: u32)))))
       else Some (Ok (push_bit 12 low)))"

definition windows_vma_end :: "('r, 's, 'o, 'm) windows \<Rightarrow> vma \<Rightarrow> virtual_address outcome" where
  "windows_vma_end self v =
     out_then (w_read self 8 dec_u64 MmvadShort ''EndingVpn'' v) (\<lambda>low.
       if has_field (windows_layouts self) MmvadShort ''EndingVpnHigh'' then
         out_then (w_read self 1 dec_u8 MmvadShort ''EndingVpnHigh'' v) (\<lambda>high.
           Some (map_ok (push_bit 12) (and_then (add_chk (push_bit 32 (ucast high)) (ucast (ucast low :: u32))) (\<lambda>n. add_chk n 1))))
       else Some (map_ok (push_bit 12) (add_chk low 1)))"

text \<open>The end is only read when the address is not below the start.\<close>

definition vad_cmp ::
  "(vma \<Rightarrow> virtual_address outcome) \<Rightarrow> (vma \<Rightarrow> virtual_address outcome) \<Rightarrow> virtual_address \<Rightarrow> vma \<Rightarrow> ordering outcome"
where
  "vad_cmp start_of end_of addr v =
     out_then (start_of v) (\<lambda>s.
       if addr < s then Some (Ok Greater)
       else out_map (\<lambda>e. if addr < e then Equal else Less) (end_of v))"

definition windows_process_find_vma_by_address ::
  "('r, 's, 'o, 'm) windows \<Rightarrow> process \<Rightarrow> virtual_address \<Rightarrow> vma option outcome"
where
  "windows_process_find_vma_by_address self proc addr =
     out_then (vad_root self proc)
       (find_in_tree (left_child self) (right_child self) (vad_cmp (windows_vma_start self) (windows_vma_end self) addr))"

definition windows_process_for_each_vma :: "('r, 's, 'o, 'm) windows \<Rightarrow> process \<Rightarrow> vma trace" where
  "windows_process_for_each_vma self proc = trace_then (vad_root self proc) (iterate_tree self)"

section \<open>Reading process memory\<close>

text \<open>The closure of \<open>read_vad_pte\<close>: the prototype entry of the page.\<close>

definition vad_pte :: "('r, 's, 'o, 'm) windows \<Rightarrow> process \<Rightarrow> virtual_address \<Rightarrow> mm_pte outcome" where
  "vad_pte self proc addr =
     out_then (windows_process_find_vma_by_address self proc addr) (\<lambda>v.
     out_then (Some (ok_or (vm_of_str ''encountered unmapped page'') v)) (\<lambda>v.
     out_then (windows_vma_start self v) (\<lambda>start.
     out_then (w_ptr self Mmvad ''FirstPrototypePte'' v) (\<lambda>ent.
     out_then (Some (va_add_assign ent (va_diff addr start div 0x1000 * 8))) (read_value (windows_kernel_read self) 8 dec_u64)))))"

definition read_vad_pte ::
  "('r, 's, 'o, 'm) windows \<Rightarrow> process \<Rightarrow> virtual_address \<Rightarrow> buf \<Rightarrow> (unit, translation_error) buf_result option"
where
  "read_vad_pte self proc addr bf =
     (if is_kernel addr then Some (bf, Err (TInvalid 0))
      else map_option (\<lambda>r.
        case r of
          Ok ent \<Rightarrow> read_prototype_pte self addr bf ent
        | Err e \<Rightarrow> (bf, Err (TInvalid 0))
        | Panic \<Rightarrow> (bf, Panic)) (vad_pte self proc addr))"

definition read_virtual_memory_raw ::
  "('r, 's, 'o, 'm) windows \<Rightarrow> process option \<Rightarrow> physical_address \<Rightarrow> virtual_address \<Rightarrow> buf \<Rightarrow>
   (unit, translation_error) buf_result option"
where
  "read_virtual_memory_raw self proc mmu_addr addr bf = read_raw self (map_option (read_vad_pte self) proc) mmu_addr addr bf"

definition windows_read_process_memory :: "('r, 's, 'o, 'm) windows \<Rightarrow> process \<Rightarrow> physical_address \<Rightarrow> os_read" where
  "windows_read_process_memory self proc mmu_addr = read_virtual (read_virtual_memory_raw self (Some proc) mmu_addr)"

definition windows_try_read_process_memory :: "('r, 's, 'o, 'm) windows \<Rightarrow> process \<Rightarrow> physical_address \<Rightarrow> os_read" where
  "windows_try_read_process_memory self proc mmu_addr = try_read_virtual (read_virtual_memory_raw self (Some proc) mmu_addr)"

end
