(* ===== verification/Vm_Windows_Laws.thy ===== *)
theory Vm_Windows_Laws
  imports Vm_Windows_Memory "HOL-Library.Tree"
begin

text \<open>
  Lemmas on the tree of virtual address descriptors: enumerating a tree gives its nodes in order, and the
  search in a tree ordered by addresses finds what a search through the enumeration finds.
\<close>

section \<open>Trees in memory\<close>

inductive vad_tree ::
  "(virtual_address \<Rightarrow> virtual_address outcome) \<Rightarrow> (virtual_address \<Rightarrow> virtual_address outcome) \<Rightarrow> virtual_address \<Rightarrow>
   virtual_address tree \<Rightarrow> bool"
  for lc rc where
  vad_leaf: "vad_tree lc rc 0 Leaf"
| vad_node: "n \<noteq> 0 \<Longrightarrow> lc n = Some (Ok l) \<Longrightarrow> rc n = Some (Ok r) \<Longrightarrow> vad_tree lc rc l lt \<Longrightarrow>
    vad_tree lc rc r rt \<Longrightarrow> vad_tree lc rc n (Node lt n rt)"

inductive_cases vad_tree_leafE: "vad_tree lc rc 0 t"

lemma tree_trace_simps:
  "tree_trace lc rc [] = Stop (Ok ())"
  "lc n = Some (Ok l) \<Longrightarrow>
   tree_trace lc rc (Descend n # ws) = Later (tree_trace lc rc (sub_work l @ Visit n # RightOf n # ws))"
  "tree_trace lc rc (Visit n # ws) = Yield n (tree_trace lc rc ws)"
  "rc n = Some (Ok r) \<Longrightarrow> tree_trace lc rc (RightOf n # ws) = Later (tree_trace lc rc (sub_work r @ ws))"
  by (subst tree_trace.code, simp)+

lemma tree_trace_run:
  assumes "vad_tree lc rc n t" "trace_run (tree_trace lc rc ws) xs res"
  shows "trace_run (tree_trace lc rc (sub_work n @ ws)) (inorder t @ xs) res"
  using assms
proof (induction arbitrary: ws xs rule: vad_tree.induct)
  case vad_leaf
  then show ?case by (simp add: sub_work_def ptr_is_null_def)
next
  case (vad_node n l r lt rt)
  have "trace_run (tree_trace lc rc (sub_work r @ ws)) (inorder rt @ xs) res" by (rule vad_node.IH(2)) fact
  then have "trace_run (tree_trace lc rc (Visit n # RightOf n # ws)) (n # inorder rt @ xs) res"
    using vad_node.hyps(3) by (simp add: tree_trace_simps)
  then have "trace_run (tree_trace lc rc (sub_work l @ Visit n # RightOf n # ws)) (inorder lt @ n # inorder rt @ xs) res"
    by (rule vad_node.IH(1))
  then show ?case using vad_node.hyps(1,2) by (simp add: tree_trace_simps sub_work_def ptr_is_null_def)
qed

section \<open>Searching\<close>

text \<open>The areas of a tree are not empty, and in the order of their addresses.\<close>

definition areas_ok :: "(vma \<Rightarrow> virtual_address) \<Rightarrow> (vma \<Rightarrow> virtual_address) \<Rightarrow> vma list \<Rightarrow> bool" where
  "areas_ok st en vs \<longleftrightarrow> (\<forall>v \<in> set vs. st v < en v) \<and> sorted_wrt (\<lambda>v w. en v \<le> st w) vs"

definition area_has :: "(vma \<Rightarrow> virtual_address) \<Rightarrow> (vma \<Rightarrow> virtual_address) \<Rightarrow> virtual_address \<Rightarrow> vma \<Rightarrow> bool" where
  "area_has st en addr v \<longleftrightarrow> st v \<le> addr \<and> addr < en v"

lemma areas_ok_node:
  assumes "areas_ok st en (xs @ n # ys)"
  shows "areas_ok st en xs" "areas_ok st en ys" "st n < en n"
    "\<forall>v \<in> set xs. en v \<le> st n" "\<forall>v \<in> set ys. en n \<le> st v"
  using assms by (auto simp: areas_ok_def sorted_wrt_append)

lemma find_none: "\<forall>v \<in> set vs. \<not> P v \<Longrightarrow> List.find P vs = None"
  by (simp add: find_None_iff)

lemma find_append: "List.find P (xs @ ys) = (case List.find P xs of None \<Rightarrow> List.find P ys | Some x \<Rightarrow> Some x)"
  by (induction xs) simp_all

lemma find_in_tree_spec:
  assumes "vad_tree lc rc n t" "n \<noteq> 0" "areas_ok st en (inorder t)"
    and "\<forall>v \<in> set_tree t. start_of v = Some (Ok (st v)) \<and> end_of v = Some (Ok (en v))"
  shows "find_in_tree lc rc (vad_cmp start_of end_of addr) n =
    Some (Ok (List.find (area_has st en addr) (inorder t)))"
  using assms
proof (induction rule: vad_tree.induct)
  case (vad_node n l r lt rt)
  note ok = areas_ok_node [OF vad_node.prems(2) [simplified]]
  have cmp: "vad_cmp start_of end_of addr n =
      Some (Ok (if addr < st n then Greater else if addr < en n then Equal else Less))"
    using vad_node.prems(3) by (simp add: vad_cmp_def)
  have below: "\<not> area_has st en addr v" if "v \<in> set (inorder lt)" "st n \<le> addr" for v
    using that ok(4) unfolding area_has_def by (meson le_less_trans less_le_not_le order_trans)
  have above: "\<not> area_has st en addr v" if "v \<in> set (inorder rt)" "addr < en n" for v
    using that ok(5) unfolding area_has_def by (meson le_less_trans less_le_not_le order_trans)
  consider "addr < st n" | "st n \<le> addr" "addr < en n" | "en n \<le> addr" by fastforce
  then show ?case
  proof cases
    case 1
    then have "addr < en n" using ok(3) by simp
    then have "List.find (area_has st en addr) (inorder rt) = None" by (intro find_none ballI above)
    then have found: "List.find (area_has st en addr) (inorder (Node lt n rt)) = List.find (area_has st en addr) (inorder lt)"
      using 1 by (auto simp: find_append area_has_def split: option.split)
    show ?thesis
    proof (cases "l = 0")
      case True
      then have "lt = Leaf" using vad_node.hyps(4) by (auto elim: vad_tree_leafE)
      then show ?thesis
        using True 1 vad_node.hyps(2) cmp found by (subst find_in_tree.simps) (simp add: ptr_is_null_def)
    next
      case False
      then have "find_in_tree lc rc (vad_cmp start_of end_of addr) l = Some (Ok (List.find (area_has st en addr) (inorder lt)))"
        using vad_node.prems(3) ok(1) by (intro vad_node.IH(1)) auto
      then show ?thesis unfolding found
        using False 1 vad_node.hyps(2) cmp by (subst find_in_tree.simps) (simp add: ptr_is_null_def)
    qed
  next
    case 2
    then have "List.find (area_has st en addr) (inorder lt) = None" by (intro find_none ballI below)
    moreover have "\<not> addr < st n" using 2(1) by simp
    ultimately show ?thesis
      using 2 cmp by (subst find_in_tree.simps) (simp add: find_append area_has_def)
  next
    case 3
    then have "st n \<le> addr" "\<not> addr < st n" "\<not> addr < en n" using ok(3) by auto
    then have "List.find (area_has st en addr) (inorder lt) = None" by (intro find_none ballI below)
    then have found: "List.find (area_has st en addr) (inorder (Node lt n rt)) = List.find (area_has st en addr) (inorder rt)"
      using \<open>\<not> addr < en n\<close> by (simp add: find_append area_has_def)
    show ?thesis
    proof (cases "r = 0")
      case True
      then have "rt = Leaf" using vad_node.hyps(5) by (auto elim: vad_tree_leafE)
      then show ?thesis
        using True \<open>\<not> addr < st n\<close> \<open>\<not> addr < en n\<close> vad_node.hyps(3) cmp found
        by (subst find_in_tree.simps) (simp add: ptr_is_null_def)
    next
      case False
      then have "find_in_tree lc rc (vad_cmp start_of end_of addr) r = Some (Ok (List.find (area_has st en addr) (inorder rt)))"
        using vad_node.prems(3) ok(2) by (intro vad_node.IH(2)) auto
      then show ?thesis unfolding found
        using False \<open>\<not> addr < st n\<close> \<open>\<not> addr < en n\<close> vad_node.hyps(3) cmp
        by (subst find_in_tree.simps) (simp add: ptr_is_null_def)
    qed
  qed
qed simp

section \<open>The trait\<close>

lemma windows_collect_vmas:
  assumes "vad_root w proc = Some (Ok root)" "vad_tree (left_child w) (right_child w) root t" "root \<noteq> 0"
  shows "trace_run (windows_process_for_each_vma w proc) (inorder t) (Ok ())"
proof -
  have "trace_run (tree_trace (left_child w) (right_child w) (sub_work root @ [])) (inorder t @ []) (Ok ())"
    by (rule tree_trace_run [OF assms(2)]) (simp add: tree_trace_simps)
  then show ?thesis
    using assms(1,3) by (simp add: windows_process_for_each_vma_def iterate_tree_def sub_work_def ptr_is_null_def)
qed

text \<open>The search in the tree is the provided method of the trait, which looks through all the areas.\<close>

lemma windows_find_vma_is_default:
  assumes "vad_root w proc = Some (Ok root)" "vad_tree (left_child w) (right_child w) root t" "root \<noteq> 0"
    and "areas_ok st en (inorder t)"
    and "\<forall>v \<in> set_tree t. windows_vma_start w v = Some (Ok (st v)) \<and> windows_vma_end w v = Some (Ok (en v))"
  shows "windows_process_find_vma_by_address w proc addr = Some (Ok (List.find (area_has st en addr) (inorder t)))"
    and "default_find_vma_by_address (windows_vma_start w) (windows_vma_end w) (windows_process_for_each_vma w) proc addr =
      Some (Ok (List.find (area_has st en addr) (inorder t)))"
proof -
  show "windows_process_find_vma_by_address w proc addr = Some (Ok (List.find (area_has st en addr) (inorder t)))"
    using find_in_tree_spec [OF assms(2-5)] assms(1) by (simp add: windows_process_find_vma_by_address_def)
  have "\<forall>v \<in> set (inorder t). vma_contains (windows_vma_start w) (windows_vma_end w) v addr = Some (Ok (area_has st en addr v))"
    using assms(5) by (simp add: vma_contains_def area_has_def)
  then show "default_find_vma_by_address (windows_vma_start w) (windows_vma_end w) (windows_process_for_each_vma w) proc addr =
      Some (Ok (List.find (area_has st en addr) (inorder t)))"
    unfolding default_find_vma_by_address_def
    by (intro find_in_trace_run windows_collect_vmas [OF assms(1-3)])
qed

section \<open>Pages in a software state\<close>

text \<open>
  A page whose entry is not valid but whose content is known: a page of zeros that was never touched, or a
  page in transition, which is still in physical memory, below 1 TiB.
\<close>

definition zero_entry :: "mm_pte \<Rightarrow> bool" where
  "zero_entry p \<longleftrightarrow> 0 < unat p \<and> unat p < 2 ^ 32 \<and> \<not> bit p 10 \<and> \<not> bit p 11"

definition transition_entry :: "mm_pte \<Rightarrow> bool" where
  "transition_entry p \<longleftrightarrow> \<not> bit p 10 \<and> bit p 11"

text \<open>
  The number of the page that an entry in transition names: the field of its 36 bits from bit 12 on, as in a valid entry.
  The code keeps the lower 28 of them, which is the whole number for a page below 1 TiB.
\<close>

definition transition_frame :: "mm_pte \<Rightarrow> nat" where
  "transition_frame p = unat p div 2 ^ 12 mod 2 ^ 36"

lemma zero_not_transition: "zero_entry p \<Longrightarrow> \<not> transition_entry p"
  by (simp add: zero_entry_def transition_entry_def)

lemma test_bit: "p AND push_bit n 1 \<noteq> 0 \<longleftrightarrow> bit p n" if "n < 64" for p :: u64
  using that by (auto simp: bit_iff_and_push_bit_not_eq_0)

lemma classify_zero: "zero_entry p \<Longrightarrow> classify p = PteZero"
proof -
  assume z: "zero_entry p"
  then have "unat (drop_bit 32 p) = 0" by (simp add: zero_entry_def unat_drop_bit_eq drop_bit_nat_def)
  then have "drop_bit 32 p = 0" by (simp only: unat_eq_0)
  then show ?thesis
    using z by (auto simp: zero_entry_def classify_def MMPTE_SOFTWARE_BIT_def MMPTE_TRANSITION_BIT_def test_bit
        simp del: push_bit_of_1)
qed

lemma classify_transition: "transition_entry p \<Longrightarrow> classify p = PteTransition"
  by (auto simp: transition_entry_def classify_def MMPTE_SOFTWARE_BIT_def MMPTE_TRANSITION_BIT_def test_bit
      simp del: push_bit_of_1)

lemma unat_transition_page:
  assumes "transition_frame p * 4096 < 2 ^ 40"
  shows "unat (transition_page p) = transition_frame p * 4096"
proof -
  have "unat p div 4096 mod 2 ^ 28 = (unat p div 4096 mod 2 ^ 36) mod 2 ^ 28"
    by (rule mod_mod_cancel [symmetric]) simp
  also have "\<dots> = unat p div 4096 mod 2 ^ 36" using assms by (simp add: transition_frame_def)
  finally have frame: "unat p div 4096 mod 2 ^ 28 = transition_frame p" by (simp add: transition_frame_def)
  have "unat (transition_page p) = unat p mod 2 ^ 40 - unat p mod 4096"
    by (simp add: unat_take_bits [of 12 40] transition_page_def flip: take_bits_def)
  also have "\<dots> = transition_frame p * 4096"
    using mod_mult2_eq [of "unat p" 4096 "2 ^ 28"] frame by simp
  finally show ?thesis .
qed

lemma transition_page_eq:
  assumes "transition_frame p * 4096 < 2 ^ 40"
  shows "word_of_nat (transition_frame p) * 4096 = transition_page p"
proof -
  have "of_nat (transition_frame p * 4096) = transition_page p"
    by (simp only: unat_transition_page [OF assms, symmetric]) simp
  then show ?thesis by simp
qed

definition soft_page ::
  "('r, 's, 'o, 'm) windows \<Rightarrow> mmu_desc \<Rightarrow> memory \<Rightarrow> (physical_address \<Rightarrow> nat \<Rightarrow> bool) \<Rightarrow> physical_address \<Rightarrow> virtual_address \<Rightarrow> bool"
where
  "soft_page w mmu mem readable root a \<longleftrightarrow>
     (\<exists>e. virtual_to_physical mmu mem root (page_base a) = Err (TInvalid e) \<and>
        (zero_entry (unswizzle w e) \<or>
         transition_entry (unswizzle w e) \<and> transition_frame (unswizzle w e) * 4096 < 2 ^ 40 \<and>
         readable (of_nat (transition_frame (unswizzle w e) * 4096)) 4096))"

definition windows_byte ::
  "('r, 's, 'o, 'm) windows \<Rightarrow> mmu_desc \<Rightarrow> memory \<Rightarrow> (nat \<Rightarrow> u8) \<Rightarrow> physical_address \<Rightarrow> virtual_address \<Rightarrow> u8"
where
  "windows_byte w mmu mem byte root a =
     (case virtual_to_physical mmu mem root a of
        Ok p \<Rightarrow> byte (unat p)
      | Err (TInvalid e) \<Rightarrow>
          (let p = unswizzle w e in
           if transition_entry p then byte (transition_frame p * 4096 + unat a mod 4096) else 0)
      | _ \<Rightarrow> 0)"

lemma offset_in_page: "unat (addr AND vm_mask 12) = unat addr mod 4096"
  by (simp add: vm_mask_eq flip: take_bit_eq_mask) (simp add: unat_take_bit)

locale windows_pages = paged_memory +
  fixes w :: "('r, 's, 'o, 'm) windows"
  assumes w_mem: "be_memory (w_backend w) = mem"
    and w_read_vm: "be_read_virtual_memory (w_backend w) = default_read_virtual_memory (virtual_to_physical mmu mem) mem"
begin

lemma soft_page_in_page:
  assumes "virtual_to_physical mmu mem root (page_base a) = Err (TInvalid e)" "unat a mod 4096 + i < 4096"
  shows "virtual_to_physical mmu mem root (a + of_nat i) = Err (TInvalid e)" "unat (a + of_nat i) mod 4096 = unat a mod 4096 + i"
proof -
  have o: "unat (page_base a) mod 4096 + (unat a mod 4096 + i) < 4096"
    using assms(2) page_base_split(2) by simp
  have a: "a + of_nat i = page_base a + of_nat (unat a mod 4096 + i)"
    using page_base_split(1) [of a] by (simp add: add.assoc [symmetric])
  show "virtual_to_physical mmu mem root (a + of_nat i) = Err (TInvalid e)"
    unfolding a virtual_to_physical_same_page [OF wf o] using assms(1) by simp
  have "unat (page_base a + of_nat (unat a mod 4096 + i)) = unat (page_base a) + (unat a mod 4096 + i)"
    by (rule unat_add_same_page [OF o])
  then show "unat (a + of_nat i) mod 4096 = unat a mod 4096 + i"
    unfolding a using page_base_split(2) [of a] assms(2) by (metis add_0 mod_add_left_eq mod_less)
qed

lemma read_page_bytes:
  assumes "readable base 4096" "in_page a (length b)" "b \<noteq> []"
  shows "read_page w base a b = (map (\<lambda>i. byte (unat base + (unat a mod 4096 + i))) [0..<length b], Ok ())"
proof -
  let ?o = "unat a mod 4096"
  have "of_nat (unat (a AND vm_mask 12)) = (of_nat ?o :: u64)" by (simp only: offset_in_page)
  then have "a AND vm_mask 12 = of_nat ?o" by simp
  moreover have "pa_add base (of_nat ?o) = (Ok (base + of_nat ?o) :: _ translation_result)"
    using readable_range [OF assms(1)] mod_less_divisor [of 4096 "unat a"]
    by (simp only: pa_add_def) (rule add_chk_of_nat, linarith)
  moreover have "rd (base + of_nat ?o) b = (bytes_at byte (unat base + ?o) (length b), Ok ())"
    using assms(2,3) by (intro read_sub [OF assms(1)]) (auto simp: in_page_def)
  ultimately show ?thesis by (simp add: read_page_def w_mem mem_read bytes_at_def add.assoc)
qed

lemma read_raw_page:
  assumes page: "in_page a (length b)" "b \<noteq> []"
    and P: "mapped mmu mem readable root a \<or> soft_page w mmu mem readable root a"
  shows "read_raw w vad root a b = Some (map (\<lambda>i. windows_byte w mmu mem byte root (a + of_nat i)) [0..<length b], Ok ())"
proof -
  have o: "unat a mod 4096 + i < 4096" if "i < length b" for i using page(1) that by (simp add: in_page_def)
  from P show ?thesis
  proof
    assume m: "mapped mmu mem readable root a"
    have "virtual_byte mmu mem byte root (a + of_nat i) = windows_byte w mmu mem byte root (a + of_nat i)"
      if "i < length b" for i
      using translate_in_page [OF m o [OF that]] by (auto simp: virtual_byte_def windows_byte_def)
    then show ?thesis
      by (simp add: read_raw_def w_read_vm read_in_page [OF page m])
  next
    assume "soft_page w mmu mem readable root a"
    then obtain e where e: "virtual_to_physical mmu mem root (page_base a) = Err (TInvalid e)"
      and c: "zero_entry (unswizzle w e) \<or>
        transition_entry (unswizzle w e) \<and> transition_frame (unswizzle w e) * 4096 < 2 ^ 40 \<and>
        readable (transition_page (unswizzle w e)) 4096"
      by (auto simp: soft_page_def transition_page_eq)
    have "virtual_to_physical mmu mem root a = Err (TInvalid e)"
      using soft_page_in_page(1) [OF e o, of 0] page(2) by simp
    then have bad: "be_read_virtual_memory (w_backend w) root a b = (b, Err (TInvalid e))"
      by (simp add: w_read_vm default_read_virtual_memory_def)
    have "windows_byte w mmu mem byte root (a + of_nat i) =
        (if transition_entry (unswizzle w e)
         then byte (unat (transition_page (unswizzle w e)) + (unat a mod 4096 + i)) else 0)" if "i < length b" for i
      using soft_page_in_page [OF e o [OF that]] c
      by (auto simp: windows_byte_def unat_transition_page Let_def dest: zero_not_transition)
    then have bytes: "map (\<lambda>i. windows_byte w mmu mem byte root (a + of_nat i)) [0..<length b] =
        map (\<lambda>i. if transition_entry (unswizzle w e)
          then byte (unat (transition_page (unswizzle w e)) + (unat a mod 4096 + i)) else 0) [0..<length b]"
      by simp
    show ?thesis
      unfolding bytes using c read_page_bytes [OF _ page]
      by (auto simp: read_raw_def bad Let_def map_replicate_const classify_zero classify_transition zero_not_transition)
  qed
qed

end

sublocale windows_pages \<subseteq> soft_reader: page_reader "partial_page (read_raw w None root)"
  "\<lambda>a. mapped mmu mem readable root a \<or> soft_page w mmu mem readable root a" "\<lambda>a old. windows_byte w mmu mem byte root a"
proof
  fix a :: virtual_address and b :: buf
  assume page: "in_page a (length b)" "b \<noteq> []"
    and P: "\<forall>i < length b. mapped mmu mem readable root (a + of_nat i) \<or> soft_page w mmu mem readable root (a + of_nat i)"
  then have "mapped mmu mem readable root a \<or> soft_page w mmu mem readable root a" by (cases b) auto
  then show "partial_page (read_raw w None root) a b =
      (map (\<lambda>i. windows_byte w mmu mem byte root (a + of_nat i)) [0..<length b], Ok ())"
    by (simp add: partial_page_def read_raw_page [OF page])
qed

context windows_pages
begin

lemma windows_read_bytes:
  "bf \<noteq> [] \<Longrightarrow>
   \<forall>i < length bf. mapped mmu mem readable root (addr + of_nat i) \<or> soft_page w mmu mem readable root (addr + of_nat i) \<Longrightarrow>
   windows_read_virtual_memory w root addr bf =
     Some (map (\<lambda>i. windows_byte w mmu mem byte root (addr + of_nat i)) [0..<length bf], Ok ())"
  by (simp add: windows_read_virtual_memory_def read_virtual_def soft_reader.read_virtual_memory_bytes)

end

text \<open>A guest on a slice of bytes.\<close>

definition windows_on :: "raw_memory \<Rightarrow> (x86_registers, x86_special_registers, x86_other_registers) vcpus \<Rightarrow>
  (u8 list \<Rightarrow> finder) \<Rightarrow> (x86_registers, x86_special_registers, x86_other_registers, 'm) windows \<Rightarrow>
  (x86_registers, x86_special_registers, x86_other_registers, 'm) windows"
where
  "windows_on self cpus new_finder w = w\<lparr>w_backend := default_backend (raw_memory_impl self) cpus (x86_64_arch new_finder)\<rparr>"

interpretation raw_windows: windows_pages "raw_read_physical self" "raw_readable self"
  "\<lambda>i. raw_bytes self ! i" "raw_memory_impl self" x86_64_mmu root "windows_on self cpus new_finder w"
  for self :: raw_memory and root :: physical_address and cpus new_finder w
  by unfold_locales (simp_all add: windows_on_def default_backend_def x86_64_arch_def)

text \<open>The code keeps 28 bits of the page number of an entry in transition, and 36 of a valid prototype entry.\<close>

lemma transition_page_bits:
  "transition_page p = p AND mask_range 12 48 \<longleftrightarrow> p AND mask_range 40 48 = 0"
proof -
  have "bit (transition_page p) i = bit (p AND mask_range 12 48) i \<longleftrightarrow> (40 \<le> i \<and> i < 48 \<longrightarrow> \<not> bit p i)" if "i < 64" for i
    using that by (auto simp: transition_page_def mask_range_def vm_mask_eq bit_simps)
  moreover have "bit (p AND mask_range 40 48) i \<longleftrightarrow> 40 \<le> i \<and> i < 48 \<and> bit p i" if "i < 64" for i
    using that by (auto simp: mask_range_def vm_mask_eq bit_simps)
  ultimately show ?thesis by (simp add: bit_eq_iff [where 'a = u64]) blast
qed

end
