(* ===== verification/Vm_Windows.thy ===== *)
theory Vm_Windows
  imports Vm_Windows_Memory Vm_Unwind
begin

text \<open>
  Windows guests, second part: the rest of \<^verbatim>\<open>windows/mod.rs\<close> (the debug identifiers of modules, the search for the
  kernel, the construction of a \<open>Windows\<close> and the methods of the trait \<open>Os\<close>) and the loop of
  \<^verbatim>\<open>windows/callstack.rs\<close> that walks a call stack.

  The parser of PE files, the search of substrings and the sort are library code and are parameters, as is
  the loader made when the builder has none.
\<close>

section \<open>Strings and lists\<close>

definition read_unicode_string :: "os_read \<Rightarrow> layouts \<Rightarrow> virtual_address \<Rightarrow> string outcome" where
  "read_unicode_string rd lays self =
     out_then (read_field rd 8 dec_u64 lays UnicodeString ''Buffer'' self) (\<lambda>buffer.
     out_then (read_field rd 2 dec_u16 lays UnicodeString ''Length'' self) (\<lambda>len.
       out_map (\<lambda>bs. from_utf16_lossy (cast_u16 bs)) (read_bytes_at rd buffer (2 * (unat len div 2)))))"

definition windows_list ::
  "os_read \<Rightarrow> layouts \<Rightarrow> kstruct \<Rightarrow> string \<Rightarrow> virtual_address \<Rightarrow> virtual_address trace"
where
  "windows_list rd lays s link head = iterate_list (read_pointer_field rd lays ListEntry ''Flink'') (field_offset lays s link) head"

section \<open>Debug identifiers\<close>

record guid =
  data1 :: u32
  data2 :: u16
  data3 :: u16
  data4 :: "u8 list"

record codeview =
  cv_magic :: "u8 list"
  cv_guid :: guid
  cv_age :: u32
  cv_name :: "u8 list"

definition dec_codeview :: "u8 list \<Rightarrow> codeview" where
  "dec_codeview bs =
     \<lparr>cv_magic = take 4 bs,
      cv_guid = \<lparr>data1 = of_le_bytes (take 4 (drop 4 bs)), data2 = of_le_bytes (take 2 (drop 8 bs)),
        data3 = of_le_bytes (take 2 (drop 10 bs)), data4 = take 8 (drop 12 bs)\<rparr>,
      cv_age = of_le_bytes (take 4 (drop 20 bs)), cv_name = take 24 (drop 24 bs)\<rparr>"

fun upper_hex :: "nat \<Rightarrow> nat \<Rightarrow> string" where
  "upper_hex 0 n = []"
| "upper_hex (Suc w) n = upper_hex w (n div 16) @ [''0123456789ABCDEF'' ! (n mod 16)]"

definition pdb_id :: "codeview \<Rightarrow> string" where
  "pdb_id self =
     upper_hex 8 (unat (data1 (cv_guid self))) @ upper_hex 4 (unat (data2 (cv_guid self))) @
     upper_hex 4 (unat (data3 (cv_guid self))) @ concat (map (\<lambda>x. upper_hex 2 (unat x)) (data4 (cv_guid self))) @
     dec_nat (unat (cv_age self))"

definition codeview_name :: "codeview \<Rightarrow> string option" where
  "codeview_name self =
     Option.bind (memchr_zero (cv_name self)) (\<lambda>i.
       let name = take i (cv_name self) in
       if utf8_error_at 0 name \<noteq> None \<or> \<not> (\<forall>c \<in> set name. 0x20 \<le> c \<and> c < 0x80) then None
       else Some (map byte_char name))"

text \<open>A read of memory that may fail, and may not return.\<close>

type_synonym 'e try_read = "virtual_address \<Rightarrow> buf \<Rightarrow> (unit, 'e) buf_result option"

definition try_read_vm :: "('e \<Rightarrow> vm_error) \<Rightarrow> 'e try_read \<Rightarrow> virtual_address \<Rightarrow> buf \<Rightarrow> buf outcome" where
  "try_read_vm into f addr bf = map_option (\<lambda>(bf, r). map_ok (\<lambda>u. bf) (map_err into r)) (f addr bf)"

text \<open>The candidates of one buffer: the first with a name.\<close>

fun scan_candidates ::
  "('e \<Rightarrow> vm_error) \<Rightarrow> 'e try_read \<Rightarrow> virtual_address \<Rightarrow> u64 \<Rightarrow> buf \<Rightarrow> nat list \<Rightarrow> codeview option outcome"
where
  "scan_candidates into f addr offset buffer [] = Some (Ok None)"
| "scan_candidates into f addr offset buffer (index # indices) =
     out_then (case get_range index (index + 48) buffer of
         Some bytes \<Rightarrow> Some (Ok (dec_codeview bytes))
       | None \<Rightarrow>
           out_then (Some (and_then (va_add addr offset) (\<lambda>a. va_add a (of_nat index)))) (\<lambda>a.
             out_map dec_codeview (try_read_vm into f a (replicate 48 0)))) (\<lambda>codeview.
       if codeview_name codeview \<noteq> None then Some (Ok (Some codeview))
       else scan_candidates into f addr offset buffer indices)"

text \<open>The loop over the pages; \<open>find_iter\<close> is the search of \<open>memchr::memmem\<close>.\<close>

fun scan_pages ::
  "(u8 list \<Rightarrow> u8 list \<Rightarrow> nat list) \<Rightarrow> ('e \<Rightarrow> vm_error) \<Rightarrow> 'e try_read \<Rightarrow> virtual_address \<Rightarrow> u64 list \<Rightarrow> buf \<Rightarrow>
   codeview option outcome"
where
  "scan_pages find_iter into f addr [] buffer = Some (Ok None)"
| "scan_pages find_iter into f addr (offset # offsets) buffer =
     out_then (scan_candidates into f addr offset buffer (find_iter buffer (map of_char ''RSDS''))) (\<lambda>found.
       case found of
         Some codeview \<Rightarrow> Some (Ok (Some codeview))
       | None \<Rightarrow>
           (let buffer = drop 0x1000 buffer @ drop (length (drop 0x1000 buffer)) buffer in
            out_then (Some (va_add addr offset)) (\<lambda>a.
            out_then (try_read_vm into f a (drop 8 buffer)) (\<lambda>bytes.
              scan_pages find_iter into f addr offsets (take 8 buffer @ bytes)))))"

definition page_offsets :: "u64 \<Rightarrow> u64 list" where
  "page_offsets len = map (\<lambda>i. of_nat (0x1000 * i)) [0..<(unat len + 0xfff) div 0x1000]"

text \<open>\<open>size_of_image\<close> reads the size from the headers of the first page.\<close>

definition pe_get_pdb_guid ::
  "(u8 list \<Rightarrow> u8 list \<Rightarrow> nat list) \<Rightarrow> (u8 list \<Rightarrow> u64 vm_result) \<Rightarrow> ('e \<Rightarrow> vm_error) \<Rightarrow> virtual_address \<Rightarrow> u64 option \<Rightarrow>
   'e try_read \<Rightarrow> codeview option outcome"
where
  "pe_get_pdb_guid find_iter size_of_image into addr len f =
     out_then (try_read_vm into f addr (replicate 0x1000 0)) (\<lambda>page.
     out_then (Some (case len of Some len \<Rightarrow> Ok len | None \<Rightarrow> size_of_image page)) (\<lambda>len.
       scan_pages find_iter into f addr (page_offsets len) (replicate 8 0 @ page)))"

section \<open>Finding the kernel\<close>

definition KERNEL_PDB :: "u8 list" where
  "KERNEL_PDB = map of_char ''ntkrnlmp.pdb'' @ [0]"

definition KERNEL_PDB_STR :: string where
  "KERNEL_PDB_STR = ''ntkrnlmp.pdb''"

definition find_kernel_pgd :: "('r, 's, 'o) backend \<Rightarrow> physical_address vm_result" where
  "find_kernel_pgd backend =
     context_res DynVm ''could not find kernel PGD'' (be_find_kernel_pgd backend False [0xfffff78000000000])"

partial_function (option) find_kernel_loop ::
  "(virtual_address \<Rightarrow> codeview option outcome) \<Rightarrow> ('r, 's, 'o) backend \<Rightarrow> kernel_search_iterator \<Rightarrow>
   (string \<times> virtual_address) option outcome"
where
  "find_kernel_loop codeview_at backend it =
     (case kernel_search_next backend it of
        (it, None) \<Rightarrow> Some (Ok None)
      | (it, Some r) \<Rightarrow>
          (case r of
             Err e \<Rightarrow> Some (Ok None)
           | Panic \<Rightarrow> Some Panic
           | Ok addr \<Rightarrow>
               if addr AND 0xfff \<noteq> 0 then find_kernel_loop codeview_at backend it
               else
                 Option.bind (codeview_at addr) (\<lambda>c.
                   case c of
                     Panic \<Rightarrow> Some Panic
                   | Err e \<Rightarrow> find_kernel_loop codeview_at backend it
                   | Ok None \<Rightarrow> find_kernel_loop codeview_at backend it
                   | Ok (Some codeview) \<Rightarrow>
                       if take (length KERNEL_PDB) (cv_name codeview) = KERNEL_PDB
                       then Some (Ok (Some (pdb_id codeview, addr)))
                       else find_kernel_loop codeview_at backend it)))"

definition find_kernel ::
  "(u8 list \<Rightarrow> u8 list \<Rightarrow> nat list) \<Rightarrow> (u8 list \<Rightarrow> u64 vm_result) \<Rightarrow> (u8 list \<Rightarrow> finder) \<Rightarrow> ('r, 's, 'o) backend \<Rightarrow>
   physical_address \<Rightarrow> (string \<times> virtual_address) option outcome"
where
  "find_kernel find_iter size_of_image new_finder backend kpgd =
     find_kernel_loop
       (\<lambda>addr. pe_get_pdb_guid find_iter size_of_image vm_of_mem addr None
          (\<lambda>addr bf. Some (try_read_virtual_memory addr bf (be_read_virtual_memory backend kpgd))))
       backend (iter_in_kernel_memory new_finder backend kpgd (map of_char ''MZ''))"

section \<open>Construction\<close>

text \<open>\<open>kernel_of\<close> is what \<open>find_kernel\<close> gives for a page directory.\<close>

definition windows_quick_check ::
  "(physical_address \<Rightarrow> (string \<times> virtual_address) option outcome) \<Rightarrow> ('r, 's, 'o) backend \<Rightarrow>
   (('m, 'l) os_builder option) outcome"
where
  "windows_quick_check kernel_of backend =
     (case find_kernel_pgd backend of
        Err e \<Rightarrow> Some (Ok None)
      | Panic \<Rightarrow> Some Panic
      | Ok kpgd \<Rightarrow>
          map_option (\<lambda>r.
            case r of
              Err e \<Rightarrow> Ok None
            | Panic \<Rightarrow> Panic
            | Ok found \<Rightarrow>
                Ok (map_option (\<lambda>(version, kaslr).
                  \<lparr>ob_symbols = None, ob_kpgd = Some kpgd, ob_kaslr = Some kaslr, ob_version = Some version,
                   ob_loader = None\<rparr>) found)) (kernel_of kpgd))"

text \<open>\<open>!(1 << (bits - 1))\<close>: a shift by 64 or more panics.\<close>

definition unswizzle_mask_of :: "u64 \<Rightarrow> (u64, 'e) result" where
  "unswizzle_mask_of bits =
     (if bits = 0 then Ok (- 1) else if unat (bits - 1) < 64 then Ok (NOT (push_bit (unat (bits - 1)) 1)) else Panic)"

definition windows_build ::
  "'m map_get \<Rightarrow> 'm try_insert \<Rightarrow> 'm \<Rightarrow> symbol_loader vm_result \<Rightarrow>
   (physical_address \<Rightarrow> (string \<times> virtual_address) option outcome) \<Rightarrow> ('r, 's, 'o) backend \<Rightarrow>
   ('m, symbol_loader) os_builder \<Rightarrow> ('r, 's, 'o, 'm) windows outcome"
where
  "windows_build map_get try_insert default_syms default_loader kernel_of backend builder =
     out_then (Some (case ob_kpgd builder of Some kpgd \<Rightarrow> Ok kpgd | None \<Rightarrow> find_kernel_pgd backend)) (\<lambda>kpgd.
     out_then (case ob_kaslr builder of
         Some kaslr \<Rightarrow> Some (map_ok (\<lambda>version. (version, kaslr)) (context_opt ''missing version'' (ob_version builder)))
       | None \<Rightarrow>
           out_then (map_option (context_res DynVm ''failed to find kernel data'') (kernel_of kpgd))
             (\<lambda>k. Some (context_opt ''failed to find kernel data'' k))) (\<lambda>(version, base_addr).
     out_then (Some (case ob_loader builder of Some loader \<Rightarrow> Ok loader | None \<Rightarrow> default_loader)) (\<lambda>loader.
     let symbols = (case ob_symbols builder of Some s \<Rightarrow> s | None \<Rightarrow> default_syms);
         (symbols, r) = load_module try_insert symbols ''ntoskrnl.exe'' (\<lambda>_. loader KERNEL_PDB_STR version)
     in out_then (Some r) (\<lambda>_.
        out_then (Some (windows_profile_new map_get symbols)) (\<lambda>profile.
        out_then (Some (case KiImplementedPhysicalBits (wp_fast_syms profile) of
            Some bits \<Rightarrow>
              and_then (va_add base_addr bits) (\<lambda>a. map_err vm_of_translation (read_value_virtual 8 dec_u64 backend kpgd a))
          | None \<Rightarrow> Ok 0)) (\<lambda>bits.
        out_then (Some (unswizzle_mask_of bits)) (\<lambda>unswizzle_mask.
          Some (Ok \<lparr>w_backend = backend, w_symbols_loader = loader, w_kpgd = kpgd, w_base_addr = base_addr,
            w_profile = profile, w_unswizzle_mask = unswizzle_mask\<rparr>))))))))"

definition windows_create ::
  "'m map_get \<Rightarrow> 'm try_insert \<Rightarrow> 'm \<Rightarrow> symbol_loader vm_result \<Rightarrow>
   (physical_address \<Rightarrow> (string \<times> virtual_address) option outcome) \<Rightarrow> ('r, 's, 'o) backend \<Rightarrow> 'm \<Rightarrow>
   ('r, 's, 'o, 'm) windows outcome"
where
  "windows_create map_get try_insert default_syms default_loader kernel_of backend symbols =
     windows_build map_get try_insert default_syms default_loader kernel_of backend (with_symbols symbols os_builder_new)"

section \<open>Processes and threads\<close>

definition kpcr :: "('r, 's, 'o, 'm) windows \<Rightarrow> nat \<Rightarrow> virtual_address outcome" where
  "kpcr self vcpu =
     Some (and_then (map_err vm_of_vcpu (kernel_per_cpu (be_vcpus (w_backend self)) vcpu)) (context_opt ''failed to get kernel per cpu''))"

definition user_shared_data :: virtual_address where
  "user_shared_data = 0xfffff78000000000"

definition nt_os_version :: "('r, 's, 'o, 'm) windows \<Rightarrow> (u32 \<times> u32) outcome" where
  "nt_os_version self =
     out_then (w_read self 4 dec_u32 KUserSharedData ''NtMajorVersion'' user_shared_data) (\<lambda>major.
       out_map (\<lambda>minor. (major, minor)) (w_read self 4 dec_u32 KUserSharedData ''NtMinorVersion'' user_shared_data))"

definition windows_current_thread :: "('r, 's, 'o, 'm) windows \<Rightarrow> nat \<Rightarrow> thread outcome" where
  "windows_current_thread self vcpu =
     out_then (kpcr self vcpu) (\<lambda>k. out_then (w_field self Kpcr ''Prcb'' k) (w_ptr self Kprcb ''CurrentThread''))"

definition windows_for_each_kernel_module :: "('r, 's, 'o, 'm) windows \<Rightarrow> module trace" where
  "windows_for_each_kernel_module self =
     trace_then (Some (va_add (w_base_addr self) (PsLoadedModuleList (wp_fast_syms (w_profile self)))))
       (windows_list (windows_kernel_read self) (windows_layouts self) LdrDataTableEntry ''InLoadOrderLinks'')"

definition windows_for_each_process :: "('r, 's, 'o, 'm) windows \<Rightarrow> process trace" where
  "windows_for_each_process self =
     trace_then (Some (va_add (w_base_addr self) (PsActiveProcessHead (wp_fast_syms (w_profile self)))))
       (windows_list (windows_kernel_read self) (windows_layouts self) Eprocess ''ActiveProcessLinks'')"

definition windows_process_id :: "('r, 's, 'o, 'm) windows \<Rightarrow> process \<Rightarrow> u64 outcome" where
  "windows_process_id self proc = w_read self 8 dec_u64 Eprocess ''UniqueProcessId'' proc"

definition windows_process_name :: "('r, 's, 'o, 'm) windows \<Rightarrow> process \<Rightarrow> string outcome" where
  "windows_process_name self proc =
     out_map (\<lambda>name. from_utf8_lossy (until_zero name)) (w_read self 16 (\<lambda>bs. bs) Eprocess ''ImageFileName'' proc)"

definition windows_process_pgd :: "('r, 's, 'o, 'm) windows \<Rightarrow> process \<Rightarrow> physical_address outcome" where
  "windows_process_pgd self proc =
     (if ptr_is_null proc then Some (Ok (w_kpgd self))
      else out_then (w_field self Eprocess ''Pcb'' proc) (\<lambda>kproc.
        if has_field (windows_layouts self) Kprocess ''UserDirectoryTableBase'' then
          out_then (w_read self 8 dec_u64 Kprocess ''UserDirectoryTableBase'' kproc) (\<lambda>dtb.
            if dtb \<noteq> 0 \<and> dtb \<noteq> 1 then Some (Ok dtb)
            else w_read self 8 dec_u64 Kprocess ''DirectoryTableBase'' kproc)
        else w_read self 8 dec_u64 Kprocess ''DirectoryTableBase'' kproc))"

definition windows_process_path :: "('r, 's, 'o, 'm) windows \<Rightarrow> process \<Rightarrow> string option outcome" where
  "windows_process_path self proc =
     (if \<not> has_field (windows_layouts self) Eprocess ''ImageFilePointer'' then Some (Ok None)
      else out_then (w_ptr self Eprocess ''ImageFilePointer'' proc)
        (map_non_null (\<lambda>path. out_then (w_field self FileObject ''FileName'' path)
          (read_unicode_string (windows_kernel_read self) (windows_layouts self)))))"

definition windows_process_parent_id :: "('r, 's, 'o, 'm) windows \<Rightarrow> process \<Rightarrow> u64 outcome" where
  "windows_process_parent_id self proc = w_read self 8 dec_u64 Eprocess ''InheritedFromUniqueProcessId'' proc"

text \<open>\<open>find_process_by_id\<close> is the provided method of the trait; an unknown parent is the process itself.\<close>

definition windows_process_parent :: "('r, 's, 'o, 'm) windows \<Rightarrow> process \<Rightarrow> process outcome" where
  "windows_process_parent self proc =
     out_then (windows_process_parent_id self proc) (\<lambda>parent_pid.
       out_map (\<lambda>p. case p of Some p \<Rightarrow> p | None \<Rightarrow> proc)
         (find_in_trace (\<lambda>p. out_map (\<lambda>n. n = parent_pid) (windows_process_id self p)) (windows_for_each_process self)))"

definition windows_process_for_each_child :: "('r, 's, 'o, 'm) windows \<Rightarrow> process \<Rightarrow> process trace" where
  "windows_process_for_each_child self proc =
     trace_then (windows_process_id self proc) (\<lambda>pid.
       filter_trace (\<lambda>p. out_map (\<lambda>n. n = pid) (windows_process_parent_id self p)) (windows_for_each_process self))"

definition windows_process_for_each_thread :: "('r, 's, 'o, 'm) windows \<Rightarrow> process \<Rightarrow> thread trace" where
  "windows_process_for_each_thread self proc =
     trace_then (w_field self Eprocess ''ThreadListHead'' proc)
       (windows_list (windows_kernel_read self) (windows_layouts self) Ethread ''ThreadListEntry'')"

definition windows_thread_process :: "('r, 's, 'o, 'm) windows \<Rightarrow> thread \<Rightarrow> process outcome" where
  "windows_thread_process self thread = out_then (w_field self Ethread ''Tcb'' thread) (w_ptr self Kthread ''Process'')"

definition windows_thread_id :: "('r, 's, 'o, 'm) windows \<Rightarrow> thread \<Rightarrow> u64 outcome" where
  "windows_thread_id self thread =
     out_then (w_field self Ethread ''Cid'' thread) (w_read self 8 dec_u64 ClientId ''UniqueThread'')"

definition windows_thread_name :: "('r, 's, 'o, 'm) windows \<Rightarrow> thread \<Rightarrow> string option outcome" where
  "windows_thread_name self thread =
     (if \<not> has_field (windows_layouts self) Ethread ''ThreadName'' then Some (Ok None)
      else out_then (w_ptr self Ethread ''ThreadName'' thread)
        (map_non_null (read_unicode_string (windows_kernel_read self) (windows_layouts self))))"

definition windows_vma_flags :: "('r, 's, 'o, 'm) windows \<Rightarrow> vma \<Rightarrow> vma_flags outcome" where
  "windows_vma_flags self v =
     out_then (w_read self 4 dec_u32 MmvadShort ''u'' v) (\<lambda>vad_type.
       let protection = drop_bit 7 vad_type AND ucast (vm_mask 5) in
       if protection = 0b00001 then Some (Ok VMA_READ)
       else if protection = 0b11000 \<or> protection = 0b00100 \<or> protection = 0b00101 then Some (Ok (vma_bitor VMA_READ VMA_WRITE))
       else if protection = 0b00110 then Some (Ok (vma_bitor VMA_READ VMA_EXEC))
       else if protection = 0b00111 then Some (Ok (vma_bitor (vma_bitor VMA_READ VMA_WRITE) VMA_EXEC))
       else Some (Err unimplemented))"

section \<open>Modules\<close>

definition windows_userspace :: "('r, 's, 'o, 'm) windows \<Rightarrow> process \<Rightarrow> os_read outcome" where
  "windows_userspace self proc =
     switch_to_userspace (windows_process_pgd self) (windows_kernel_read self) (windows_read_process_memory self) proc"

definition windows_process_for_each_module :: "('r, 's, 'o, 'm) windows \<Rightarrow> process \<Rightarrow> module trace" where
  "windows_process_for_each_module self proc =
     trace_then (w_ptr self Eprocess ''Peb'' proc) (\<lambda>peb.
       if ptr_is_null peb then Stop (Ok ())
       else trace_then (windows_userspace self proc) (\<lambda>rd.
         trace_then (out_then (read_pointer_field rd (windows_layouts self) Peb ''Ldr'' peb)
             (w_field self PebLdrData ''InLoadOrderModuleList''))
           (windows_list rd (windows_layouts self) LdrDataTableEntry ''InLoadOrderLinks'')))"

definition windows_module_span ::
  "('r, 's, 'o, 'm) windows \<Rightarrow> module \<Rightarrow> process \<Rightarrow> (virtual_address \<times> virtual_address) outcome"
where
  "windows_module_span self m proc =
     out_then (windows_userspace self proc) (\<lambda>rd.
     out_then (read_field rd 8 dec_u64 (windows_layouts self) LdrDataTableEntry ''DllBase'' m) (\<lambda>dll_base.
     out_then (read_field rd 4 dec_u32 (windows_layouts self) LdrDataTableEntry ''SizeOfImage'' m) (\<lambda>len.
     out_then (Some (va_add dll_base (ucast len))) (\<lambda>e. Some (Ok (dll_base, e))))))"

definition windows_module_string :: "('r, 's, 'o, 'm) windows \<Rightarrow> string \<Rightarrow> module \<Rightarrow> process \<Rightarrow> string outcome" where
  "windows_module_string self name_field m proc =
     out_then (windows_userspace self proc) (\<lambda>rd.
     out_then (w_field self LdrDataTableEntry name_field m) (read_unicode_string rd (windows_layouts self)))"

definition windows_module_name :: "('r, 's, 'o, 'm) windows \<Rightarrow> module \<Rightarrow> process \<Rightarrow> string outcome" where
  "windows_module_name self = windows_module_string self ''BaseDllName''"

definition windows_module_path :: "('r, 's, 'o, 'm) windows \<Rightarrow> module \<Rightarrow> process \<Rightarrow> string outcome" where
  "windows_module_path self = windows_module_string self ''FullDllName''"

definition module_codeview ::
  "(u8 list \<Rightarrow> u8 list \<Rightarrow> nat list) \<Rightarrow> (u8 list \<Rightarrow> u64 vm_result) \<Rightarrow> ('r, 's, 'o, 'm) windows \<Rightarrow> process \<Rightarrow> module \<Rightarrow>
   codeview option outcome"
where
  "module_codeview find_iter size_of_image self proc m =
     out_then (windows_module_span self m proc) (\<lambda>(mod_start, mod_end).
     out_then (windows_process_pgd self proc) (\<lambda>mmu_addr.
       pe_get_pdb_guid find_iter size_of_image id mod_start (Some (va_diff mod_end mod_start))
         (windows_try_read_process_memory self proc mmu_addr)))"

text \<open>The symbols of a module that is not in the index yet, and the method.\<close>

definition windows_load_symbols ::
  "(u8 list \<Rightarrow> u8 list \<Rightarrow> nat list) \<Rightarrow> (u8 list \<Rightarrow> u64 vm_result) \<Rightarrow> ('r, 's, 'o, 'm) windows \<Rightarrow> process \<Rightarrow> module \<Rightarrow>
   module_symbols option outcome"
where
  "windows_load_symbols find_iter size_of_image self proc m =
     out_then (module_codeview find_iter size_of_image self proc m) (\<lambda>codeview.
       case codeview of
         Some codeview \<Rightarrow>
           (case codeview_name codeview of
              Some name \<Rightarrow> Some (w_symbols_loader self name (pdb_id codeview))
            | None \<Rightarrow> Some Panic)
       | None \<Rightarrow> Some (Ok None))"

text \<open>The index asks for the symbols of a module it does not have only.\<close>

definition windows_module_symbols ::
  "'m map_get \<Rightarrow> 'm try_insert \<Rightarrow> (u8 list \<Rightarrow> u8 list \<Rightarrow> nat list) \<Rightarrow> (u8 list \<Rightarrow> u64 vm_result) \<Rightarrow>
   ('r, 's, 'o, 'm) windows \<Rightarrow> process \<Rightarrow> module \<Rightarrow> ('m \<times> module_symbols option vm_result) option"
where
  "windows_module_symbols map_get try_insert find_iter size_of_image self proc m =
     (let index = wp_syms (w_profile self) in
      Option.bind (windows_module_name self m proc) (\<lambda>name.
        case name of
          Err e \<Rightarrow> Some (index, Err e)
        | Panic \<Rightarrow> Some (index, Panic)
        | Ok name \<Rightarrow>
            (case map_get index name of
               Some syms \<Rightarrow> Some (load_module try_insert index name (\<lambda>_. Ok syms))
             | None \<Rightarrow>
                 map_option (\<lambda>r. load_module try_insert index name (\<lambda>_. r))
                   (windows_load_symbols find_iter size_of_image self proc m))))"

section \<open>Flags of regions\<close>

lemma vma_bitor_flags:
  "is_read (vma_bitor a b) \<longleftrightarrow> is_read a \<or> is_read b" "is_write (vma_bitor a b) \<longleftrightarrow> is_write a \<or> is_write b"
  "is_exec (vma_bitor a b) \<longleftrightarrow> is_exec a \<or> is_exec b"
  by (simp_all add: is_read_def is_write_def is_exec_def vma_bitor_def bit.conj_disj_distrib2 or_eq_0_iff)

lemma vma_flag_bits:
  "is_read VMA_READ" "\<not> is_read VMA_WRITE" "\<not> is_read VMA_EXEC" "\<not> is_write VMA_READ" "is_write VMA_WRITE" "\<not> is_write VMA_EXEC"
  "\<not> is_exec VMA_READ" "\<not> is_exec VMA_WRITE" "is_exec VMA_EXEC"
  by (simp_all add: is_read_def is_write_def is_exec_def VMA_READ_def VMA_WRITE_def VMA_EXEC_def)

text \<open>
  The flags of a region by the five bits of its protection: every protection that is known is readable, those of
  execution are 6 and 7, the writable ones are 4, 5, 7 and 24.
\<close>

lemma windows_vma_flags_by_protection:
  assumes "w_read self 4 dec_u32 MmvadShort ''u'' v = Some (Ok vad_type)"
    and "protection = drop_bit 7 vad_type AND ucast (vm_mask 5)"
  shows "case windows_vma_flags self v of
      Some (Ok flags) \<Rightarrow> is_read flags \<and> (is_write flags \<longleftrightarrow> protection \<in> {4, 5, 7, 24}) \<and> (is_exec flags \<longleftrightarrow> protection \<in> {6, 7})
    | r \<Rightarrow> r = Some (Err unimplemented) \<and> protection \<notin> {1, 4, 5, 6, 7, 24}"
  using assms by (simp add: windows_vma_flags_def Let_def vma_bitor_flags vma_flag_bits)

end
