(* ===== verification/Vm_Windows_Stack.thy ===== *)
theory Vm_Windows_Stack
  imports Vm_Windows Vm_Walk
begin

text \<open>
  Walking the call stack of a Windows process (the rest of \<^verbatim>\<open>windows/callstack.rs\<close>), and the implementation
  of the trait \<open>Os\<close> for Windows. The frames are a trace; its state is the modules, whose unwind data is
  read once, the frame and the base pointer. Between two frames the values of the next one are read from
  the stack.
\<close>

section \<open>Modules\<close>

record module_entry =
  me_start :: virtual_address
  me_end :: virtual_address
  me_module :: module
  me_unwind_data :: "unwind_data option"

definition me_contains :: "module_entry \<Rightarrow> virtual_address \<Rightarrow> bool" where
  "me_contains self addr \<longleftrightarrow> me_start self \<le> addr \<and> addr < me_end self"

text \<open>The closure \<open>push\<close>.\<close>

definition push_module ::
  "(module \<Rightarrow> (virtual_address \<times> virtual_address) outcome) \<Rightarrow> (module, module_entry list) callback"
where
  "push_module span m modules =
     map_option (\<lambda>r.
       case r of
         Ok (start, e) \<Rightarrow>
           (modules @ [\<lparr>me_start = start, me_end = e, me_module = m, me_unwind_data = None\<rparr>], Ok Continue)
       | Err e \<Rightarrow> (modules, Err e)
       | Panic \<Rightarrow> (modules, Panic)) (span m)"

text \<open>\<open>sort_by\<close> is \<open>sort_unstable_by_key\<close>.\<close>

definition all_modules_collect ::
  "((module_entry \<Rightarrow> u64) \<Rightarrow> module_entry list \<Rightarrow> module_entry list) \<Rightarrow> ('r, 's, 'o, 'm) windows \<Rightarrow> process \<Rightarrow>
   module_entry list outcome"
where
  "all_modules_collect sort_by self proc =
     (let push = push_module (\<lambda>m. windows_module_span self m proc) in
      Option.bind (for_each push (windows_process_for_each_module self proc) []) (\<lambda>(modules, r).
        out_then (Some r) (\<lambda>u.
          Option.bind (for_each push (windows_for_each_kernel_module self) modules) (\<lambda>(modules, r).
            out_then (Some r) (\<lambda>u. Some (Ok (sort_by me_start modules)))))))"

definition find_by_address :: "module_entry list \<Rightarrow> virtual_address \<Rightarrow> nat option" where
  "find_by_address self addr =
     (case binary_search_by_key self addr me_start of
        Found i \<Rightarrow> Some i
      | Insert i \<Rightarrow>
          if i = 0 then None
          else if me_contains (self ! (i - 1)) addr then Some (i - 1) else None)"

section \<open>The context\<close>

record ('r, 's, 'o, 'm) stack_context =
  sc_windows :: "('r, 's, 'o, 'm) windows"
  sc_proc :: process
  sc_pgd :: physical_address

definition stack_context_new :: "('r, 's, 'o, 'm) windows \<Rightarrow> process \<Rightarrow> ('r, 's, 'o, 'm) stack_context outcome" where
  "stack_context_new self proc =
     out_map (\<lambda>mmu_addr. \<lparr>sc_windows = self, sc_proc = proc, sc_pgd = mmu_addr\<rparr>) (windows_process_pgd self proc)"

definition pgd_for :: "('r, 's, 'o, 'm) stack_context \<Rightarrow> virtual_address \<Rightarrow> physical_address" where
  "pgd_for self addr = (if is_kernel addr then w_kpgd (sc_windows self) else sc_pgd self)"

definition stack_read_value :: "('r, 's, 'o, 'm) stack_context \<Rightarrow> virtual_address \<Rightarrow> u64 outcome" where
  "stack_read_value self addr =
     read_value (windows_read_process_memory (sc_windows self) (sc_proc self) (pgd_for self addr)) 8 dec_u64 addr"

text \<open>\<open>directory\<close> is the exception directory of a PE file, from the library that parses it.\<close>

definition init_unwind_data ::
  "(u8 list \<Rightarrow> (u32 \<times> u32) vm_result) \<Rightarrow> ('r, 's, 'o, 'm) stack_context \<Rightarrow> module_entry \<Rightarrow> unwind_data outcome"
where
  "init_unwind_data directory self m =
     (let len = unat (va_diff (me_end m) (me_start m)) in
      if 2 ^ 63 \<le> len then Some Panic
      else Option.bind (windows_try_read_process_memory (sc_windows self) (sc_proc self) (pgd_for self (me_start m))
             (me_start m) (replicate len 0)) (\<lambda>(content, r).
        out_then (Some r) (\<lambda>u.
        out_then (Some (directory content)) (\<lambda>(start, len).
          let directory_start = unat start; directory_end = directory_start + unat len in
          if directory_end > length content \<or> unat len mod 12 \<noteq> 0
          then Some (Err (vm_new (DynStr ''invalid exception directory size'')))
          else Some (Ok \<lparr>ud_offset = me_start m, ud_content = content,
            ud_directory_range = (directory_start, directory_end)\<rparr>)))))"

definition get_unwind_data ::
  "(u8 list \<Rightarrow> (u32 \<times> u32) vm_result) \<Rightarrow> ('r, 's, 'o, 'm) stack_context \<Rightarrow> module_entry \<Rightarrow>
   (module_entry \<times> unwind_data vm_result) option"
where
  "get_unwind_data directory self m =
     (case me_unwind_data m of
        Some data \<Rightarrow> Some (m, Ok data)
      | None \<Rightarrow>
          map_option (\<lambda>r. (case r of Ok data \<Rightarrow> m\<lparr>me_unwind_data := Some data\<rparr> | _ \<Rightarrow> m, r)) (init_unwind_data directory self m))"

section \<open>Walking\<close>


type_synonym walk_state = "module_entry list \<times> stack_frame \<times> virtual_address option"

definition vma_is_valid :: "('r, 's, 'o, 'm) windows \<Rightarrow> process \<Rightarrow> virtual_address \<Rightarrow> bool outcome" where
  "vma_is_valid self proc addr = out_map (\<lambda>v. v \<noteq> None) (or_none (windows_process_find_vma_by_address self proc addr))"

definition handle_invalid_address :: "('r, 's, 'o, 'm) windows \<Rightarrow> process \<Rightarrow> stack_frame \<Rightarrow> walk_state walk_step outcome" where
  "handle_invalid_address self proc frame =
     out_then (vma_is_valid self proc (frame_ip frame)) (\<lambda>ip_ok.
     out_then (if ip_ok then vma_is_valid self proc (frame_sp frame) else Some (Ok False)) (\<lambda>valid.
       if valid then
         Some (Ok (LastFrame (frame\<lparr>frame_start := None, frame_module := None\<rparr>)
           (Err (vm_of_str ''unwinding through JIT is unsupported''))))
       else
         Some (Err (vm_with_context (''invalid instruction pointer: '' @ hex (frame_ip frame)) (DynStr ''this is probably a bug'')))))"

text \<open>The state after a frame, \<open>None\<close> when the instruction pointer is null.\<close>

definition next_state ::
  "('r, 's, 'o, 'm) stack_context \<Rightarrow> module_entry list \<Rightarrow> stack_frame \<Rightarrow> virtual_address option \<Rightarrow> unwind_result \<Rightarrow>
   walk_state option outcome"
where
  "next_state ctx modules frame bp infos =
     out_then (stack_read_value ctx (ur_next_ip_addr infos)) (\<lambda>ip.
     out_then (case ur_next_sp infos of SpAddr addr \<Rightarrow> stack_read_value ctx addr | SpValue addr \<Rightarrow> Some (Ok addr)) (\<lambda>sp.
     out_then (case ur_next_bp_addr infos of
         Some addr \<Rightarrow> out_map Some (stack_read_value ctx addr)
       | None \<Rightarrow> Some (Ok bp)) (\<lambda>bp.
       if ip = 0 then Some (Ok None)
       else Some (Ok (Some (modules, frame\<lparr>frame_ip := ip, frame_sp := sp\<rparr>, bp))))))"

definition walk_one ::
  "(u8 list \<Rightarrow> (u32 \<times> u32) vm_result) \<Rightarrow> ('r, 's, 'o, 'm) stack_context \<Rightarrow> walk_state \<Rightarrow> walk_state walk_step outcome"
where
  "walk_one directory ctx st =
     (let (modules, frame, bp) = st in
      case find_by_address modules (frame_ip frame) of
        None \<Rightarrow> handle_invalid_address (sc_windows ctx) (sc_proc ctx) frame
      | Some i \<Rightarrow>
          Option.bind (get_unwind_data directory ctx (modules ! i)) (\<lambda>(m, data).
            let modules = modules[i := m];
                frame = frame\<lparr>frame_module := Some (me_module m)\<rparr>
            in Option.bind (unwind_function data frame bp) (\<lambda>r.
                 case r of
                   Ok infos \<Rightarrow>
                     (let frame = frame\<lparr>frame_start := ur_fun_start infos\<rparr> in
                      Some (Ok (NextFrame frame (next_state ctx modules frame bp infos))))
                 | Err err \<Rightarrow> Some (Ok (LastFrame (frame\<lparr>frame_start := None\<rparr>) (Err err)))
                 | Panic \<Rightarrow> Some Panic)))"

definition iter_callstack ::
  "((module_entry \<Rightarrow> u64) \<Rightarrow> module_entry list \<Rightarrow> module_entry list) \<Rightarrow> (u8 list \<Rightarrow> (u32 \<times> u32) vm_result) \<Rightarrow>
   ('r, 's, 'o, 'm) windows \<Rightarrow> process \<Rightarrow> virtual_address \<Rightarrow> virtual_address \<Rightarrow> virtual_address option \<Rightarrow> stack_frame trace"
where
  "iter_callstack sort_by directory self proc ip sp bp =
     trace_then (stack_context_new self proc) (\<lambda>ctx.
     trace_then (all_modules_collect sort_by self proc) (\<lambda>modules.
       walk_frames (walk_one directory ctx) (Some (Ok (Some (modules,
         \<lparr>frame_start = None, frame_size = None, frame_sp = sp, frame_ip = ip, frame_module = None\<rparr>, bp))))))"

section \<open>The implementation of the trait\<close>

definition windows_vcpus :: "('r, 's, 'o, 'm) windows \<Rightarrow> ('r, 's, 'o) vcpus" where
  "windows_vcpus self =
     (let cpus = be_vcpus (w_backend self) in
      \<lparr>vcpus_count = vcpus_count cpus, registers = registers cpus, special_registers = special_registers cpus,
       other_registers = other_registers cpus,
       register_by_name = arch_register_by_name (be_arch (w_backend self))
         \<lparr>vcpus_count = vcpus_count cpus, registers = registers cpus, special_registers = special_registers cpus,
          other_registers = other_registers cpus\<rparr>,
       instruction_pointer = instruction_pointer cpus, stack_pointer = stack_pointer cpus,
       base_pointer = base_pointer cpus, pgd = pgd cpus, kernel_per_cpu = kernel_per_cpu cpus\<rparr>)"

text \<open>What is not implemented for Windows, and the call stack.\<close>

definition windows_process_is_kernel :: "process \<Rightarrow> bool outcome" where
  "windows_process_is_kernel proc = Some (Err unimplemented)"

definition windows_vma_path :: "vma \<Rightarrow> string option outcome" where
  "windows_vma_path v = Some (Err unimplemented)"

definition windows_process_callstack_with_regs ::
  "((module_entry \<Rightarrow> u64) \<Rightarrow> module_entry list \<Rightarrow> module_entry list) \<Rightarrow> (u8 list \<Rightarrow> (u32 \<times> u32) vm_result) \<Rightarrow>
   ('r, 's, 'o, 'm) windows \<Rightarrow> process \<Rightarrow> virtual_address \<Rightarrow> virtual_address \<Rightarrow> virtual_address option \<Rightarrow> stack_frame trace"
where
  "windows_process_callstack_with_regs sort_by directory self proc ip sp bp =
     iter_callstack sort_by directory self proc ip sp bp"

definition windows_os ::
  "'m map_get \<Rightarrow> 'm try_insert \<Rightarrow> (u8 list \<Rightarrow> u8 list \<Rightarrow> nat list) \<Rightarrow> (u8 list \<Rightarrow> u64 vm_result) \<Rightarrow>
   ((module_entry \<Rightarrow> u64) \<Rightarrow> module_entry list \<Rightarrow> module_entry list) \<Rightarrow> (u8 list \<Rightarrow> (u32 \<times> u32) vm_result) \<Rightarrow>
   ('r, 's, 'o, 'm) windows \<Rightarrow> ('r, 's, 'o) os"
where
  "windows_os map_get try_insert find_iter size_of_image sort_by directory self =
     \<lparr>os_vcpus = windows_vcpus self,
      os_read_virtual_memory = windows_read_virtual_memory self,
      os_try_read_virtual_memory = windows_try_read_virtual_memory self,
      os_read_process_memory = windows_read_process_memory self,
      os_try_read_process_memory = windows_try_read_process_memory self,
      kernel_pgd = w_kpgd self,
      for_each_kernel_module = windows_for_each_kernel_module self,
      init_process = Some (Err unsupported),
      current_thread = windows_current_thread self,
      process_is_kernel = windows_process_is_kernel,
      process_id = windows_process_id self,
      process_name = windows_process_name self,
      process_pgd = windows_process_pgd self,
      process_path = windows_process_path self,
      process_parent = windows_process_parent self,
      process_parent_id = windows_process_parent_id self,
      process_for_each_child = windows_process_for_each_child self,
      process_for_each_thread = windows_process_for_each_thread self,
      process_for_each_module = windows_process_for_each_module self,
      for_each_process = windows_for_each_process self,
      process_for_each_vma = windows_process_for_each_vma self,
      process_find_vma_by_address = windows_process_find_vma_by_address self,
      process_callstack_with_regs = windows_process_callstack_with_regs sort_by directory self,
      thread_process = windows_thread_process self,
      thread_id = windows_thread_id self,
      thread_name = windows_thread_name self,
      vma_path = windows_vma_path,
      vma_start = windows_vma_start self,
      vma_end = windows_vma_end self,
      vma_flags_of = windows_vma_flags self,
      module_span = windows_module_span self,
      os_module_name = windows_module_name self,
      os_module_path = windows_module_path self,
      module_symbols_of =
        (\<lambda>proc m. map_option snd (windows_module_symbols map_get try_insert find_iter size_of_image self proc m))\<rparr>"

end
