(* ===== verification/Vm_Os_Examples.thy ===== *)
theory Vm_Os_Examples
  imports Vm_Examples Vm_Unwind_Laws Vm_Os_Laws Vm_Linux_Laws Vm_Windows_Laws Vm_Windows_Stack
begin

text \<open>
  Small guests with an operating system, and unwind data of one function: the concrete inputs at which
  the hypotheses of the properties on operating systems are shown to hold.
\<close>

section \<open>A backend that maps every address\<close>

definition flat_read :: "(virtual_address \<Rightarrow> u8) \<Rightarrow> physical_address \<Rightarrow> translation_error page_read" where
  "flat_read m mmu_addr a b = (map (\<lambda>i. m (a + of_nat i)) [0..<length b], Ok ())"

interpretation flat_page: page_reader "flat_read m mmu_addr" "\<lambda>a. True" "\<lambda>a old. m a"
  for m :: "virtual_address \<Rightarrow> u8" and mmu_addr :: physical_address
  by unfold_locales (simp add: flat_read_def)

lemma flat_read_virtual:
  "bf \<noteq> [] \<Longrightarrow> read_virtual_memory addr bf (flat_read m mmu_addr) = (map (\<lambda>i. m (addr + of_nat i)) [0..<length bf], Ok ())"
  by (rule flat_page.read_virtual_memory_bytes) simp_all

definition flat_backend :: "(virtual_address \<Rightarrow> u8) \<Rightarrow> (x86_registers, x86_special_registers, x86_other_registers) backend" where
  "flat_backend m = tiny_backend\<lparr>be_read_virtual_memory := flat_read m\<rparr>"

section \<open>A Linux guest\<close>

text \<open>Two tasks, at 0x1000 and 0x2000, with the links of their ring at offset 0x10.\<close>

definition linux_bytes :: "virtual_address \<Rightarrow> u8" where
  "linux_bytes a =
     (if a = 0x1010 then 0x10 else if a = 0x1011 then 0x20 else if a = 0x2010 then 0x10 else if a = 0x2011 then 0x10 else 0)"

definition linux_fields :: layouts where
  "linux_fields =
     [''task_struct'' \<mapsto> [''tasks'' \<mapsto> 0x10, ''thread_group'' \<mapsto> 0x10], ''list_head'' \<mapsto> [''next'' \<mapsto> 0]]"

definition tiny_linux :: "(x86_registers, x86_special_registers, x86_other_registers, unit) linux" where
  "tiny_linux =
     \<lparr>lx_backend = flat_backend linux_bytes, lx_symbols_loader = empty_loader,
      lx_profile = \<lparr>lp_syms = (), lp_fast_syms = \<lparr>per_cpu_offset = 0, current_task = None, init_task = 0x1000, linux_banner = 0\<rparr>,
        lp_layouts = linux_fields\<rparr>,
      lx_kpgd = 0, lx_kaslr = 0\<rparr>"

lemma tiny_linux_read:
  "linux_kernel_read tiny_linux addr (replicate 8 0) = Some (map (\<lambda>i. linux_bytes (addr + of_nat i)) [0..<8], Ok ())"
  by (simp add: linux_kernel_read_def linux_read_virtual_memory_def tiny_linux_def flat_backend_def flat_read_virtual)

lemma tiny_linux_fields:
  "field_offset (linux_layouts tiny_linux) TaskStruct ''tasks'' = Ok 0x10"
  "field_offset (linux_layouts tiny_linux) TaskStruct ''thread_group'' = Ok 0x10"
  "field_offset (linux_layouts tiny_linux) ListHead ''next'' = Ok 0"
  by (simp_all add: field_offset_def get_layout_def offset_of_def linux_layouts_def tiny_linux_def linux_fields_def
      TaskStruct_def ListHead_def ok_or_def)

definition tiny_links :: "nat \<Rightarrow> virtual_address" where
  "tiny_links n = (if even n then 0x1010 else 0x2010)"

lemma tiny_linux_next:
  "lx_ptr tiny_linux ListHead ''next'' 0x1010 = Some (Ok 0x2010)"
  "lx_ptr tiny_linux ListHead ''next'' 0x2010 = Some (Ok 0x1010)"
  by (simp_all add: read_pointer_field_def ptr_is_null_def tiny_linux_fields read_value_def read_bytes_at_def tiny_linux_read
      va_add_def add_chk_def upt_rec linux_bytes_def)

lemma tiny_linux_init: "linux_init_process tiny_linux = Some (Ok 0x1000)"
  by (simp add: linux_init_process_def linux_syms_def tiny_linux_def va_add_i64_spec)

lemma tiny_linux_links:
  assumes "f \<in> {''tasks'', ''thread_group''}"
  shows "task_links tiny_linux f f 0x1000 0x10 tiny_links"
proof -
  have "links (lx_ptr tiny_linux ListHead ''next'') 0x10 tiny_links"
    using tiny_linux_next by (simp add: links_def tiny_links_def)
  then show ?thesis
    using assms by (auto simp: task_links_def tiny_linux_fields ptr_field_def ptr_is_null_def va_add_def add_chk_def tiny_links_def)
qed

lemma tiny_linux_ring: "tasks_of 0x10 tiny_links = Some (Ok [0x2000])"
proof -
  have "(LEAST n. 0 < n \<and> tiny_links n = tiny_links 0) = 2"
  proof (rule Least_equality)
    fix n assume "0 < n \<and> tiny_links n = tiny_links 0"
    then show "2 \<le> n" by (cases "n = 1") (auto simp: tiny_links_def)
  qed (simp add: tiny_links_def)
  moreover have "\<exists>n > 0. tiny_links n = tiny_links 0" by (rule exI [of _ 2]) (simp add: tiny_links_def)
  ultimately show ?thesis by (simp add: tasks_of_def upt_rec tiny_links_def)
qed

abbreviation tiny_linux_os :: "(x86_registers, x86_special_registers, x86_other_registers) os" where
  "tiny_linux_os \<equiv> linux_os RegsX86 SpecialX86 OtherX86 (\<lambda>m n f. (m, f n)) (\<lambda>p ip sp bp. Stop (Ok ())) tiny_linux"

section \<open>A Windows guest\<close>

text \<open>One descriptor, at 0x1000, of the pages 5 and 6.\<close>

definition windows_bytes :: "virtual_address \<Rightarrow> u8" where
  "windows_bytes a = (if a = 0x1000 then 5 else if a = 0x1008 then 6 else 0)"

definition windows_fields :: layouts where
  "windows_fields =
     [''_EPROCESS'' \<mapsto> [''VadRoot'' \<mapsto> 0],
      ''_MMVAD_SHORT'' \<mapsto> [''StartingVpn'' \<mapsto> 0, ''EndingVpn'' \<mapsto> 8, ''LeftChild'' \<mapsto> 0x10, ''RightChild'' \<mapsto> 0x18]]"

definition tiny_windows :: "(x86_registers, x86_special_registers, x86_other_registers, unit) windows" where
  "tiny_windows =
     \<lparr>w_backend = flat_backend windows_bytes, w_symbols_loader = empty_loader, w_kpgd = 0, w_base_addr = 0,
      w_profile = \<lparr>wp_syms = (),
        wp_fast_syms = \<lparr>KiImplementedPhysicalBits = None, PsActiveProcessHead = 0, PsLoadedModuleList = 0\<rparr>,
        wp_layouts = windows_fields\<rparr>,
      w_unswizzle_mask = - 1\<rparr>"

lemma tiny_windows_read:
  "windows_kernel_read tiny_windows addr (replicate 8 0) = Some (map (\<lambda>i. windows_bytes (addr + of_nat i)) [0..<8], Ok ())"
proof -
  have "partial_page (read_raw tiny_windows None 0) = (\<lambda>a b. (map (\<lambda>i. windows_bytes (a + of_nat i)) [0..<length b], Ok ()))"
    by (simp add: fun_eq_iff partial_page_def read_raw_def tiny_windows_def flat_backend_def flat_read_def)
  moreover have "read_virtual_memory addr (replicate 8 0) (\<lambda>a b. (map (\<lambda>i. windows_bytes (a + of_nat i)) [0..<length b], Ok ())) =
      (map (\<lambda>i. windows_bytes (addr + of_nat i)) [0..<8], Ok () :: (unit, translation_error option) result)"
    using page_reader.read_virtual_memory_bytes [of "\<lambda>a b. (map (\<lambda>i. windows_bytes (a + of_nat i)) [0..<length b], Ok ())"
        "\<lambda>a. True" "\<lambda>a old. windows_bytes a" "replicate 8 0" addr]
    by (simp add: page_reader_def)
  ultimately show ?thesis
    by (simp add: windows_kernel_read_def windows_read_virtual_memory_def read_virtual_def) (simp add: tiny_windows_def)
qed

lemma tiny_windows_fields:
  "field_offset (windows_layouts tiny_windows) Eprocess ''VadRoot'' = Ok 0"
  "field_offset (windows_layouts tiny_windows) MmvadShort ''StartingVpn'' = Ok 0"
  "field_offset (windows_layouts tiny_windows) MmvadShort ''EndingVpn'' = Ok 8"
  "field_offset (windows_layouts tiny_windows) MmvadShort ''LeftChild'' = Ok 0x10"
  "field_offset (windows_layouts tiny_windows) MmvadShort ''RightChild'' = Ok 0x18"
  "\<not> has_field (windows_layouts tiny_windows) MmvadShort ''StartingVpnHigh''"
  "\<not> has_field (windows_layouts tiny_windows) MmvadShort ''EndingVpnHigh''"
  "\<not> has_field (windows_layouts tiny_windows) MmvadShort ''VadNode''"
  "\<not> has_field (windows_layouts tiny_windows) RtlAvlTree ''Root''"
  by (simp_all add: has_field_def field_offset_def get_layout_def offset_of_def windows_layouts_def tiny_windows_def
      windows_fields_def Eprocess_def MmvadShort_def RtlAvlTree_def ok_or_def)

lemmas tiny_windows_eval = tiny_windows_fields read_field_def read_pointer_field_def ptr_field_def ptr_is_null_def
  read_value_def read_bytes_at_def tiny_windows_read va_add_def add_chk_def upt_rec windows_bytes_def

lemma tiny_windows_vad:
  "vad_root tiny_windows 0x1000 = Some (Ok 0x1000)"
  "left_child tiny_windows 0x1000 = Some (Ok 0)" "right_child tiny_windows 0x1000 = Some (Ok 0)"
  "windows_vma_start tiny_windows 0x1000 = Some (Ok 0x5000)" "windows_vma_end tiny_windows 0x1000 = Some (Ok 0x7000)"
  by (simp_all add: vad_root_def left_child_def right_child_def child_def windows_vma_start_def windows_vma_end_def
      tiny_windows_eval push_bit_eq_mult)

lemma tiny_windows_tree:
  "vad_tree (left_child tiny_windows) (right_child tiny_windows) 0x1000 (Node Leaf 0x1000 Leaf)"
  by (rule vad_node, simp, rule tiny_windows_vad(2), rule tiny_windows_vad(3), rule vad_leaf, rule vad_leaf)

text \<open>One page of memory whose first entry is that of a page of zeros.\<close>

definition zero_guest :: raw_memory where
  "zero_guest = raw_new (0x20 # replicate 4095 0)"

definition zero_windows :: "(x86_registers, x86_special_registers, x86_other_registers, unit) windows" where
  "zero_windows = windows_on zero_guest (be_vcpus tiny_backend) naive_finder tiny_windows"

lemma zero_guest_entry: "read_entry (raw_memory_impl zero_guest) 0 old = Ok 0x20"
  by (simp add: read_entry_def raw_memory_impl_def raw_read_physical_def get_from_def zero_guest_def raw_new_def)

lemma zero_translate:
  "virtual_to_physical x86_64_mmu (raw_memory_impl zero_guest) 0 0 = Err (TInvalid 0x20)"
proof -
  have "pml4e 0 = 0" "take_bits 0 12 48 = 0" by (simp_all add: word_unat_eq_iff unat_index_field unat_take_bits)
  then show ?thesis
    unfolding x86_64_mmu_def virtual_to_physical_four_level four_level_walk_def by (simp add: zero_guest_entry)
qed

lemma zero_windows_entry: "zero_entry (unswizzle zero_windows 0x20)"
proof -
  have "unswizzle zero_windows 0x20 = 0x20"
    by (simp add: unswizzle_def zero_windows_def windows_on_def tiny_windows_def MMPTE_SWIZZLE_BIT_def push_bit_eq_mult)
  then show ?thesis by (simp add: zero_entry_def bit_iff_and_push_bit_not_eq_0 push_bit_eq_mult)
qed

lemma zero_soft_page:
  "unat a < 4096 \<Longrightarrow> soft_page zero_windows x86_64_mmu (raw_memory_impl zero_guest) (raw_readable zero_guest) 0 a"
proof -
  assume "unat a < 4096"
  then have "page_base a = 0" using page_base_split(1) [of a] by simp
  then show ?thesis by (simp add: soft_page_def zero_translate zero_windows_entry)
qed

section \<open>Unwind data\<close>

text \<open>
  A function at 0x100 that saves \<open>RBP\<close>, which ends at byte 1, and allocates 32 bytes, which ends at byte 5. Its
  unwind information starts at offset 0 of the content of its module.
\<close>

definition prologue :: "(u8 \<times> unwind_op) list" where
  "prologue = [(1, Push RBP), (5, Alloc 32)]"

definition tiny_unwind :: unwind_data where
  "tiny_unwind = \<lparr>ud_offset = 0x400000, ud_content = [1, 5, 2, 0, 5, 0x32, 1, 0x50], ud_directory_range = (0, 0)\<rparr>"

definition tiny_function :: runtime_function where
  "tiny_function = \<lparr>rf_start = 0x100, rf_end = 0x200, rf_ptr = 0\<rparr>"

definition tiny_entry :: function_entry where
  "tiny_entry = \<lparr>fe_mother = None, fe_version = 1, fe_frame_register_offset = None, fe_unwind_codes = [5, 0x32, 1, 0x50]\<rparr>"

lemma tiny_unwind_parse: "parse_function tiny_unwind tiny_function = Some tiny_entry"
  by (simp add: parse_function_def tiny_unwind_def tiny_function_def tiny_entry_def get_from_def code_u8_def code_slice_def Let_def)

lemma tiny_codes: "fe_unwind_codes tiny_entry = concat (map enc_unwind (rev prologue))"
  by (simp add: tiny_entry_def prologue_def nibbles_def RBP_def)

text \<open>
  A function that sets its frame pointer before it allocates its stack (\<open>push rbp; mov rbp, rsp; sub rsp, 32\<close>): the unwinder
  starts at the frame pointer, and then releases the allocation that the frame pointer is not below. It looks for the
  return address 32 bytes above the place where the call has put it, which is 0x7008.
\<close>

definition framed_unwind :: unwind_data where
  "framed_unwind = \<lparr>ud_offset = 0x400000, ud_content = [1, 8, 3, 5, 8, 0x32, 4, 3, 1, 0x50], ud_directory_range = (0, 0)\<rparr>"

definition framed_entry_state :: frame_state where
  "framed_entry_state = \<lparr>fs_sp = 0x7008, fs_regs = (\<lambda>r. 7), fs_xmm = (\<lambda>r. (0, 0)), fs_mem = (\<lambda>a. 0)\<rparr>"

definition framed_prologue :: "(u8 \<times> unwind_op) list" where
  "framed_prologue = [(1, Push RBP), (4, SetFpReg), (8, Alloc 32)]"

definition framed_entry :: function_entry where
  "framed_entry =
     \<lparr>fe_mother = None, fe_version = 1, fe_frame_register_offset = Some 0, fe_unwind_codes = [8, 0x32, 4, 3, 1, 0x50]\<rparr>"

lemma framed_parse: "parse_function framed_unwind tiny_function = Some framed_entry"
  by (simp add: parse_function_def framed_unwind_def tiny_function_def framed_entry_def get_from_def code_u8_def code_slice_def Let_def)

lemma framed_codes: "fe_unwind_codes framed_entry = concat (map enc_unwind (rev framed_prologue))"
  by (simp add: framed_entry_def framed_prologue_def nibbles_def RBP_def)

lemma framed_read: "read_unwind_codes framed_entry (Some 0x10) = Ok (Some 32, SpOffset 40)"
  unfolding read_unwind_codes_def framed_codes
  by (subst unwind_codes_loop_enc) (simp_all add: framed_prologue_def framed_entry_def has_run_def RBP_def)

lemma framed_allocation_misplaced:
  "fs_regs (exec_ops id [Push RBP, SetFpReg, Alloc 32] framed_entry_state) RBP = 0x7000"
  "unwind_with_infos framed_unwind tiny_function
     \<lparr>frame_start = None, frame_size = None, frame_sp = 0x6fe0, frame_ip = 0x400110, frame_module = None\<rparr> (Some 0x7000) =
   Some (Ok \<lparr>ur_next_sp = SpValue 0x7030, ur_next_ip_addr = 0x7028, ur_next_bp_addr = Some 0x7020, ur_fun_start = Some 0x400100\<rparr>)"
proof -
  show "fs_regs (exec_ops id [Push RBP, SetFpReg, Alloc 32] framed_entry_state) RBP = 0x7000" by (simp add: framed_entry_state_def)
  let ?frame = "\<lparr>frame_start = None, frame_size = None, frame_sp = 0x6fe0, frame_ip = 0x400110, frame_module = None\<rparr>"
  have fields: "module_offset framed_unwind ?frame = 0x110" "ud_offset framed_unwind = 0x400000" "rf_start tiny_function = 0x100"
    "fe_frame_register_offset framed_entry = Some 0" "fe_mother framed_entry = None"
    by (simp_all add: module_offset_def framed_unwind_def va_diff_def tiny_function_def framed_entry_def)
  have "unwind_chain framed_unwind framed_entry (Some 0x10) 0x7000 None (Some 0x400100) =
      Some (Ok \<lparr>ur_next_sp = SpValue 0x7030, ur_next_ip_addr = 0x7028, ur_next_bp_addr = Some 0x7020, ur_fun_start = Some 0x400100\<rparr>)"
    by (subst unwind_chain.simps) (simp add: framed_read fields va_add_u32_def va_add_assign_def va_add_def add_chk_def)
  then show "unwind_with_infos framed_unwind tiny_function ?frame (Some 0x7000) =
      Some (Ok \<lparr>ur_next_sp = SpValue 0x7030, ur_next_ip_addr = 0x7028, ur_next_bp_addr = Some 0x7020, ur_fun_start = Some 0x400100\<rparr>)"
    by (simp add: unwind_with_infos_def framed_parse fields sub_chk_def va_add_u32_def add_chk_def va_sub_def context_opt_def ok_or_def)
qed

text \<open>Unwind information that names itself as the information it continues.\<close>

definition cyclic_unwind :: unwind_data where
  "cyclic_unwind = \<lparr>ud_offset = 0x400000, ud_content = [0x21, 0, 0, 0, 0, 1, 0, 0, 0, 2, 0, 0, 0, 0, 0, 0],
     ud_directory_range = (0, 0)\<rparr>"

lemma cyclic_mother: "mother_of cyclic_unwind tiny_function = Some tiny_function"
  by (simp add: mother_of_def parse_function_def cyclic_unwind_def tiny_function_def get_from_def code_u8_def code_slice_def
      dec_runtime_function_def Let_def)

lemma cyclic_ancestor: "ancestor cyclic_unwind n tiny_function = Some tiny_function"
  by (induction n) (simp_all add: cyclic_mother)

section \<open>A process with one module\<close>

definition module_os :: "(x86_registers, x86_special_registers, x86_other_registers) os" where
  "module_os = tiny_linux_os\<lparr>
     process_for_each_module := (\<lambda>p. Yield 0x1000 (Stop (Ok ()))),
     module_span := (\<lambda>m p. Some (Ok (0x400000, 0x401000))),
     module_symbols_of := (\<lambda>p m. Some (Ok (Some (build sort_key sort_key (extend_symbols builder_new [(0x10, ''f'')])))))\<rparr>"

end
