(* ===== verification/Vm_Stack_Example.thy ===== *)
theory Vm_Stack_Example
  imports Vm_Linux_Stack_Laws Vm_Os_Examples
begin

text \<open>
  A Linux guest with one process of one module and a stack of two frames: the concrete input at which the hypotheses of
  the property on Linux call stacks are shown to hold.
\<close>

section \<open>A Linux process with one module\<close>

text \<open>
  The task at 0x1000 has its memory descriptor at 0x3000, with one area at 0x4000: the bytes from 0x10000 to 0x10010,
  mapped from the file at 0x5000, whose directory entry is at 0x6000. The return address 0x1000c is on the stack at
  0x8000. The data of the processors are at 0xa000 and 0xb000: the first one runs the task at 0x2000, the second one the
  task at 0x1000.
\<close>

definition stack_words :: "(virtual_address \<times> u64) list" where
  "stack_words =
     [(0x1000, 0x3000), (0x1008, 0x1000), (0x2008, 0x2000), (0x9000, 0xa000), (0x9008, 0xb000), (0xa010, 0x2000),
      (0xb010, 0x1000), (0x3008, 0x4000), (0x4008, 0x5000), (0x4010, 0x10000), (0x4018, 0x10010), (0x5000, 0x6000),
      (0x6000, 0x6000), (0x6008, 0x7000), (0x8000, 0x1000c), (0x10000, 1)]"

definition stack_bytes :: "virtual_address \<Rightarrow> u8" where
  "stack_bytes a =
     (case map_of stack_words (a AND NOT 7) of Some w \<Rightarrow> ucast (drop_bit (8 * unat (a AND 7)) w) | None \<Rightarrow> 0)"

definition stack_fields :: layouts where
  "stack_fields =
     [''task_struct'' \<mapsto> [''mm'' \<mapsto> 0, ''group_leader'' \<mapsto> 8], ''mm_struct'' \<mapsto> [''pgd'' \<mapsto> 0, ''mmap'' \<mapsto> 8],
      ''vm_area_struct'' \<mapsto> [''vm_pgoff'' \<mapsto> 0, ''vm_file'' \<mapsto> 8, ''vm_start'' \<mapsto> 0x10, ''vm_end'' \<mapsto> 0x18, ''vm_next'' \<mapsto> 0x20],
      ''file'' \<mapsto> [''f_path'' \<mapsto> 0], ''path'' \<mapsto> [''dentry'' \<mapsto> 0], ''dentry'' \<mapsto> [''d_parent'' \<mapsto> 0, ''d_name'' \<mapsto> 8],
      ''qstr'' \<mapsto> [''name'' \<mapsto> 0]]"

definition stack_vcpus :: "(x86_registers, x86_special_registers, x86_other_registers) vcpu_regs" where
  "stack_vcpus =
     no_vcpu_regs\<lparr>vcpus_count := 2, registers := (\<lambda>v. Ok (dec_x86_registers (replicate 144 0)\<lparr>rip := 0x10008, rsp := 0x8000\<rparr>))\<rparr>"

definition stack_linux :: "(x86_registers, x86_special_registers, x86_other_registers, unit) linux" where
  "stack_linux =
     \<lparr>lx_backend = (flat_backend stack_bytes)\<lparr>be_virtual_to_physical := (\<lambda>mmu_addr a. Ok a),
        be_vcpus := default_vcpus (x86_64_arch naive_finder) stack_vcpus\<rparr>,
      lx_symbols_loader = empty_loader,
      lx_profile = \<lparr>lp_syms = (), lp_fast_syms = \<lparr>per_cpu_offset = 0x9000, current_task = Some 0x10, init_task = 0x1000, linux_banner = 0\<rparr>,
        lp_layouts = stack_fields\<rparr>,
      lx_kpgd = 0, lx_kaslr = 0\<rparr>"

lemma stack_read:
  "bf \<noteq> [] \<Longrightarrow> linux_read_virtual_memory stack_linux mmu_addr addr bf = Some (map (\<lambda>i. stack_bytes (addr + of_nat i)) [0..<length bf], Ok ())"
  by (simp add: linux_read_virtual_memory_def stack_linux_def flat_backend_def flat_read_virtual)

interpretation flat_try_page: page_reader "skip_invalid (flat_read m mmu_addr)" "\<lambda>a. True" "\<lambda>a old. m a"
  for m :: "virtual_address \<Rightarrow> u8" and mmu_addr :: physical_address
  by unfold_locales (simp add: skip_invalid_def flat_read_def)

lemma stack_try_read:
  "bf \<noteq> [] \<Longrightarrow> linux_try_read_virtual_memory stack_linux mmu_addr addr bf = Some (map (\<lambda>i. stack_bytes (addr + of_nat i)) [0..<length bf], Ok ())"
  using flat_try_page.read_virtual_memory_bytes [of bf addr stack_bytes mmu_addr]
  by (simp add: linux_try_read_virtual_memory_def try_read_virtual_memory_def stack_linux_def flat_backend_def)

lemma stack_offsets:
  "field_offset (linux_layouts stack_linux) TaskStruct ''mm'' = Ok 0"
  "field_offset (linux_layouts stack_linux) TaskStruct ''group_leader'' = Ok 8"
  "field_offset (linux_layouts stack_linux) MmStruct ''pgd'' = Ok 0"
  "field_offset (linux_layouts stack_linux) MmStruct ''mmap'' = Ok 8"
  "field_offset (linux_layouts stack_linux) VmAreaStruct ''vm_pgoff'' = Ok 0"
  "field_offset (linux_layouts stack_linux) VmAreaStruct ''vm_file'' = Ok 8"
  "field_offset (linux_layouts stack_linux) VmAreaStruct ''vm_start'' = Ok 0x10"
  "field_offset (linux_layouts stack_linux) VmAreaStruct ''vm_end'' = Ok 0x18"
  "field_offset (linux_layouts stack_linux) VmAreaStruct ''vm_next'' = Ok 0x20"
  "field_offset (linux_layouts stack_linux) File ''f_path'' = Ok 0"
  "field_offset (linux_layouts stack_linux) Path ''dentry'' = Ok 0"
  "field_offset (linux_layouts stack_linux) Dentry ''d_parent'' = Ok 0"
  "field_offset (linux_layouts stack_linux) Dentry ''d_name'' = Ok 8"
  "field_offset (linux_layouts stack_linux) Qstr ''name'' = Ok 0"
  by (simp_all add: field_offset_def get_layout_def offset_of_def linux_layouts_def stack_linux_def stack_fields_def
      TaskStruct_def MmStruct_def VmAreaStruct_def File_def Path_def Dentry_def Qstr_def ok_or_def)

text \<open>The words of the memory.\<close>

abbreviation stack_word :: "virtual_address \<Rightarrow> u64 outcome" where
  "stack_word \<equiv> read_value (linux_read_virtual_memory stack_linux 0) 8 of_le_bytes"

lemma stack_value:
  "stack_word 0x1000 = Some (Ok 0x3000)" "stack_word 0x3000 = Some (Ok 0)" "stack_word 0x3008 = Some (Ok 0x4000)"
  "stack_word 0x4000 = Some (Ok 0)" "stack_word 0x4008 = Some (Ok 0x5000)" "stack_word 0x4010 = Some (Ok 0x10000)"
  "stack_word 0x4018 = Some (Ok 0x10010)" "stack_word 0x4020 = Some (Ok 0)" "stack_word 0x5000 = Some (Ok 0x6000)"
  "stack_word 0x6000 = Some (Ok 0x6000)" "stack_word 0x6008 = Some (Ok 0x7000)" "stack_word 0x8000 = Some (Ok 0x1000c)"
  "stack_word 0x1008 = Some (Ok 0x1000)" "stack_word 0x2008 = Some (Ok 0x2000)" "stack_word 0x9000 = Some (Ok 0xa000)"
  "stack_word 0x9008 = Some (Ok 0xb000)" "stack_word 0xa010 = Some (Ok 0x2000)" "stack_word 0xb010 = Some (Ok 0x1000)"
  by (simp_all add: read_value_def read_bytes_at_def stack_read upt_rec stack_bytes_def stack_words_def)

lemma stack_kernel_read: "linux_kernel_read stack_linux = linux_read_virtual_memory stack_linux 0"
  by (simp add: linux_kernel_read_def stack_linux_def)

lemmas stack_eval = stack_offsets stack_value stack_kernel_read read_field_def read_pointer_field_def ptr_field_def ptr_is_null_def
  va_add_def add_chk_def

lemma stack_mm: "process_mm stack_linux 0x1000 = Some (Ok (Some 0x3000))"
  by (simp add: process_mm_def stack_eval map_non_null_def)

lemma stack_pgd: "linux_process_pgd stack_linux 0x1000 = Some (Ok 0)"
  by (simp add: linux_process_pgd_def stack_mm stack_eval) (simp add: stack_linux_def)

lemma stack_path: "linux_vma_path stack_linux 0x4000 = Some (Ok (Some []))"
proof -
  have "[0..<256] = 0 # [1..<256]" by (simp add: upt_conv_Cons)
  moreover have "stack_bytes 0x7000 = 0" by (simp add: stack_bytes_def stack_words_def)
  ultimately have "memchr_zero (map (\<lambda>i. stack_bytes (0x7000 + of_nat i)) [0..<256]) = Some 0"
    by (simp add: memchr_zero_def)
  then have "read_file_name_into stack_linux 0x6000 [] = Some (Ok [])"
    by (simp add: read_file_name_into_def stack_eval read_bytes_at_def stack_read)
  then have "build_path stack_linux 0x6000 [] = Some (Ok [])"
    by (subst build_path.simps) (simp add: stack_eval)
  then show ?thesis
    by (simp add: linux_vma_path_def stack_eval map_non_null_def read_file_path_def string_from_utf8_def)
qed

lemma stack_span: "linux_module_span stack_linux 0x4000 0x1000 = Some (Ok (0x10000, 0x10010))"
proof -
  have "linux_module_end stack_linux 0x5000 0x4000 = Some (Ok 0x10010)"
    by (subst linux_module_end.simps) (simp add: stack_eval)
  then show ?thesis by (simp add: linux_module_span_def stack_eval)
qed

lemma stack_modules: "linux_process_for_each_module stack_linux 0x1000 = Yield 0x4000 (Stop (Ok ()))"
proof -
  have "linux_process_for_each_vma stack_linux 0x1000 = Yield 0x4000 (Stop (Ok ()))"
    by (simp add: linux_process_for_each_vma_def stack_mm stack_eval chain_trace_simps)
  moreover have "linux_is_module stack_linux 0x4000 = Some (Ok True)"
    by (simp add: linux_is_module_def vma_offset_def stack_eval mul_chk_def stack_path)
  ultimately show ?thesis by (simp add: linux_process_for_each_module_def filter_trace_Yield)
qed

definition stack_module :: linux_module where
  "stack_module = \<lparr>lm_start = 0x10000, lm_end = 0x10010, lm_module = 0x4000\<rparr>"

definition stack_ctx :: "(x86_registers, x86_special_registers, x86_other_registers, unit) linux_context" where
  "stack_ctx = \<lparr>lc_linux = stack_linux, lc_proc = 0x1000, lc_pgd = 0, lc_modules = [stack_module]\<rparr>"

lemma stack_context_new:
  "linux_context_new stack_linux 0x1000 = Some (Ok (stack_ctx, \<lambda>m. if m \<in> {0x4000} then Some None else None))"
  by (simp add: linux_context_new_def stack_pgd stack_modules push_linux_module_def stack_span stack_ctx_def stack_module_def)

section \<open>Its unwind data\<close>

text \<open>
  The module starts with a header of version 1, which points to the frame section at offset 4. One function covers
  the module; before 0x1000c its return address is at the top of the stack, and after it there is no caller.
\<close>

definition stack_row :: "u64 \<Rightarrow> unwind_row" where
  "stack_row a =
     \<lparr>row_cfa = RegisterAndOffset 7 8,
      row_register = (\<lambda>r. if r = 16 \<and> a < 0x1000c then RuleOffset (- 8) else RuleUndefined)\<rparr>"

definition stack_fde :: fde where
  "stack_fde = \<lparr>fde_initial_address = 0x10000, fde_len = 0x10, fde_row = (\<lambda>a. Some (stack_row a))\<rparr>"

definition stack_lib :: eh_lib where
  "stack_lib =
     \<lparr>eh_frame_hdr_ptr = (\<lambda>bs en bases. if bs \<noteq> [] \<and> hd bs = 1 then Some (Direct (ba_eh_frame_hdr bases + 4)) else None),
      fde_for_address = (\<lambda>bs en bases a. if 0x10000 \<le> a \<and> a < 0x10010 then Some stack_fde else None)\<rparr>"

definition stack_segment :: "u8 list" where
  "stack_segment = map (\<lambda>i. stack_bytes (0x10000 + of_nat i)) [0..<16]"

definition stack_data :: eh_data where
  "stack_data =
     \<lparr>ehd_bases = \<lparr>ba_eh_frame_hdr = 0x10000, ba_eh_frame = Some 0x10004\<rparr>, ehd_endian = Little,
      ehd_segment = stack_segment, ehd_eh_frame = 4\<rparr>"

definition stack_cfi :: "virtual_address \<Rightarrow> (module \<times> fde) option" where
  "stack_cfi a = (if 0x10000 \<le> a \<and> a < 0x10010 then Some (0x4000, stack_fde) else None)"

definition stack_mem :: "u64 \<Rightarrow> u64 option" where
  "stack_mem a = (if a = 0x8000 then Some 0x1000c else None)"

lemma stack_segment_positions: "positions_of 1 stack_segment = [0]"
proof -
  have "stack_segment = [1, 0, 0, 0, 0, 0, 0, 0, 0, 0, 0, 0, 0, 0, 0, 0]"
    by (simp add: stack_segment_def upt_rec stack_bytes_def stack_words_def)
  moreover have "positions_of 1 [1, 0, 0, 0, 0, 0, 0, 0, 0, 0, 0, 0, 0, 0, 0, 0] = [0]" by code_simp
  ultimately show ?thesis by (simp only:)
qed

lemma stack_discover:
  assumes "0x10000 \<le> ip" "ip < 0x10010"
  shows "discover_sections False stack_lib stack_ctx stack_module ip = Some (Ok stack_data)"
proof -
  have en: "as_runtime_endian (endianness (be_arch (lx_backend stack_linux))) = Little"
    by (simp add: stack_linux_def flat_backend_def tiny_backend_def default_backend_def x86_64_arch_def as_runtime_endian_def little_endian_def)
  have hd: "stack_segment \<noteq> []" "hd stack_segment = 1" "length stack_segment = 16"
    by (simp_all add: stack_segment_def upt_rec stack_bytes_def stack_words_def)
  have "try_eh_frame_hdr stack_lib stack_ctx stack_module ip Little stack_segment 0 = Some (Ok (Some stack_data))"
    using assms by (simp add: try_eh_frame_hdr_def stack_lib_def hd stack_module_def va_add_def add_chk_def lm_contains_def
        va_diff_def stack_data_def Let_def)
  moreover have "linux_try_read_virtual_memory stack_linux 0 0x10000 (replicate 16 0) = Some (stack_segment, Ok ())"
    by (simp add: stack_try_read stack_segment_def)
  ultimately show ?thesis
    by (simp add: discover_sections_def stack_ctx_def stack_module_def va_diff_def en Let_def stack_segment_positions)
qed

abbreviation stack_regs :: dwarf_registers where
  "stack_regs \<equiv> dwarf_registers_of (into_runtime (be_arch (lx_backend stack_linux)))"

lemma stack_regs_x86: "stack_regs = \<lparr>reg_ip = 16, reg_sp = 7, reg_bp = Some 6\<rparr>"
  by (simp add: stack_linux_def flat_backend_def tiny_backend_def default_backend_def x86_64_arch_def dwarf_registers_of_def)

lemma stack_unwindable:
  "unwindable False stack_lib stack_regs stack_ctx (\<lambda>m. stack_data) stack_mem stack_cfi"
proof -
  have "ctx_read_value stack_ctx 0x8000 = Some (Ok 0x1000c)"
    by (simp add: ctx_read_value_def stack_ctx_def stack_value)
  moreover have "modules_ordered (lc_modules stack_ctx)"
    by (simp add: modules_ordered_def stack_ctx_def stack_module_def)
  moreover have "length stack_segment = 16" by (simp add: stack_segment_def)
  ultimately show ?thesis
    using stack_discover
    by (auto simp: unwindable_def stack_mem_def stack_cfi_def stack_ctx_def stack_module_def lm_contains_def stack_data_def
        stack_lib_def split: if_splits)
qed

text \<open>The two frames.\<close>

definition stack_frame_at :: "virtual_address \<Rightarrow> virtual_address \<Rightarrow> stack_frame" where
  "stack_frame_at ip sp =
     \<lparr>frame_start = Some 0x10000, frame_size = Some 0x10, frame_sp = sp, frame_ip = ip, frame_module = Some 0x4000\<rparr>"

lemma stack_walks:
  "stack_walk (cfi_step stack_mem stack_regs stack_cfi) (0x10008, 0x8000, Some 0)
     [stack_frame_at 0x10008 0x8000, stack_frame_at 0x1000c 0x8008]"
proof -
  have off: "at_offset 0x8000 8 = Some 0x8008" "at_offset 0x8008 (- 8) = Some 0x8000" "at_offset 0x8008 8 = Some 0x8010"
    by (simp_all add: at_offset_def)
  note defs = cfi_step_def stack_regs_x86 stack_cfi_def stack_fde_def stack_row_def stack_frame_at_def cfa_value_def
    bp_value_def off stack_mem_def
  have "cfi_step stack_mem stack_regs stack_cfi (0x10008, 0x8000, Some 0) (stack_frame_at 0x10008 0x8000) (Some (0x1000c, 0x8008, None))"
    by (simp add: defs)
  moreover have "cfi_step stack_mem stack_regs stack_cfi (0x1000c, 0x8008, None) (stack_frame_at 0x1000c 0x8008) None"
    by (simp add: defs)
  ultimately show ?thesis by (intro stack_walk.intros)
qed

text \<open>What the processors run, and their registers.\<close>

lemma stack_runs:
  "out_then (linux_current_thread RegsX86 SpecialX86 OtherX86 stack_linux 0) (linux_thread_process stack_linux) = Some (Ok 0x2000)"
  "out_then (linux_current_thread RegsX86 SpecialX86 OtherX86 stack_linux 1) (linux_thread_process stack_linux) = Some (Ok 0x1000)"
proof -
  have syms: "lx_kpgd stack_linux = 0" "linux_syms stack_linux = \<lparr>per_cpu_offset = 0x9000, current_task = Some 0x10, init_task = 0x1000, linux_banner = 0\<rparr>"
    "lx_kaslr stack_linux = 0"
    by (simp_all add: linux_syms_def stack_linux_def)
  have "per_cpu stack_linux 0 = Some (Ok 0xa000)" "per_cpu stack_linux 1 = Some (Ok 0xb000)"
    by (simp_all add: per_cpu_def syms va_add_i64_spec mul_chk_def linux_read_kernel_value_def stack_eval)
  then show "out_then (linux_current_thread RegsX86 SpecialX86 OtherX86 stack_linux 0) (linux_thread_process stack_linux) = Some (Ok 0x2000)"
    "out_then (linux_current_thread RegsX86 SpecialX86 OtherX86 stack_linux 1) (linux_thread_process stack_linux) = Some (Ok 0x1000)"
    by (simp_all add: linux_current_thread_def syms linux_read_kernel_value_def linux_thread_process_def stack_eval)
qed

lemma stack_registers:
  "vcpus_count (be_vcpus (lx_backend stack_linux)) = 2"
  "instruction_pointer (be_vcpus (lx_backend stack_linux)) 1 = Ok 0x10008"
  "stack_pointer (be_vcpus (lx_backend stack_linux)) 1 = Ok 0x8000"
  "base_pointer (be_vcpus (lx_backend stack_linux)) 1 = Ok (Some 0)"
  by (simp_all add: stack_linux_def default_vcpus_def x86_64_arch_def stack_vcpus_def x86_instruction_pointer_def
      x86_stack_pointer_def x86_base_pointer_def dec_x86_registers_def dec_u64s_def Let_def)

end
