(* ===== verification/Vm_Process_Properties.thy ===== *)
theory Vm_Process_Properties
  imports Vm_Stack_Example Vm_Kvm_Attach_Laws
begin

text \<open>
  Properties of the code that follows other processes: the unwinder of Linux guests and the injection of the payload
  in the hypervisor, with the concrete tracer and calls of KVM at which their hypotheses are shown to hold.
\<close>

section \<open>Call stacks of Linux processes\<close>

text \<open>
  The call stack of a Linux process: when the modules of the process are in order, its stack can be read and the
  unwind data of its modules are found, the walk returns exactly the frames that the call frame information defines:
  the canonical frame address, the caller's base pointer and the return address of each frame are given by the rules
  of the row that covers its instruction pointer, up to the frame whose return address is undefined. The cells in
  which the unwind data of a module are kept do not show in the result.
\<close>

theorem linux_callstack_follows_cfi:
  assumes "linux_context_new l proc = Some (Ok (ctx, cells))"
    and "regs = dwarf_registers_of (into_runtime (be_arch (lx_backend l)))"
    and "unwindable dbg lib regs ctx data mem cfi"
    and "stack_walk (cfi_step mem regs cfi) (ip, sp, bp) frames"
  shows "collect (linux_iter_callstack dbg lib l proc ip sp bp) = Some (Ok frames)"
  using assms by (rule linux_callstack_collects)

theorem linux_callstack_follows_cfi_witness:
  "collect (linux_iter_callstack False stack_lib stack_linux 0x1000 0x10008 0x8000 (Some 0)) =
     Some (Ok [stack_frame_at 0x10008 0x8000, stack_frame_at 0x1000c 0x8008])"
  by (rule linux_callstack_follows_cfi [OF stack_context_new refl stack_unwindable stack_walks])

section \<open>A traced process\<close>

text \<open>
  Whenever the process runs, it loses the content of \<open>RAX\<close> and its instruction pointer moves by 3. One page is mapped, from
  the address that \<^verbatim>\<open>/proc/pid/maps\<close> gives.
\<close>

record tiny_world =
  tw_phase :: phase
  tw_regs :: user_regs_x86
  tw_mem :: "u64 \<Rightarrow> u8"

definition tiny_view :: "(tiny_world, user_regs_x86) process_view" where
  "tiny_view = \<lparr>pv_phase = tw_phase, pv_regs = tw_regs, pv_mem = tw_mem\<rparr>"

definition tiny_page :: "u64 \<Rightarrow> bool" where
  "tiny_page a \<longleftrightarrow> 0x400000 \<le> a \<and> a < 0x401000"

definition tiny_maps :: "((string, io_error) result list, io_error) result" where
  "tiny_maps = Ok [Ok ''400000-401000 r-xp /libc.so'']"

definition tiny_tracer :: "(tiny_world, user_regs_x86) tracer" where
  "tiny_tracer =
     \<lparr>proc_maps = (\<lambda>w. tiny_maps), proc_mem_open = (\<lambda>w. Ok ()),
      proc_mem_read = (\<lambda>a n w. (w, if \<forall>i < n. tiny_page (a + of_nat i) then Ok (load_bytes (tw_mem w) a n) else Err (IoOs 5))),
      proc_mem_write = (\<lambda>a bs w.
        if \<forall>i < length bs. tiny_page (a + of_nat i) then (w\<lparr>tw_mem := store_bytes (tw_mem w) a bs\<rparr>, Ok ()) else (w, Err (IoOs 5))),
      ptrace_attach = (\<lambda>w. (w\<lparr>tw_phase := Running\<rparr>, Ok ())),
      ptrace_wait = (\<lambda>w. (w\<lparr>tw_phase := Stopped, tw_regs := (tw_regs w)\<lparr>ux_rax := 0, ux_rip := ux_rip (tw_regs w) + 3\<rparr>\<rparr>, Ok ())),
      ptrace_cont = (\<lambda>w. (w\<lparr>tw_phase := Running\<rparr>, Ok ())), ptrace_singlestep = (\<lambda>w. (w\<lparr>tw_phase := Running\<rparr>, Ok ())),
      ptrace_detach = (\<lambda>w. (w\<lparr>tw_phase := Free\<rparr>, Ok ())),
      ptrace_getregset = (\<lambda>w. (w, Ok (tw_regs w, 216))), ptrace_setregset = (\<lambda>g w. (w\<lparr>tw_regs := g\<rparr>, Ok 216))\<rparr>"

definition tiny_process :: tiny_world where
  "tiny_process = \<lparr>tw_phase = Free, tw_regs = ta_zeroed x86_trace_arch\<lparr>ux_rsp := 0x400800\<rparr>, tw_mem = (\<lambda>a. ucast a)\<rparr>"

definition tiny_libc :: libc_funs where
  "tiny_libc = \<lparr>f_dlopen = 0x400010, f_dlclose = 0x400020, f_dlsym = 0x400030, f_dlerror = 0x400040, f_mmap = 0x400050, f_errno = 0x400060\<rparr>"

lemma tiny_text: "find_lib tiny_maps 7 ''/'' = Ok 0x400000"
proof -
  have "str_contains ''/'' ''400000-401000 r-xp /libc.so''" "str_contains ''r-xp '' ''400000-401000 r-xp /libc.so''"
    "find_char (CHR ''-'') ''400000-401000 r-xp /libc.so'' = Some 6"
    by simp_all
  moreover have "from_str_radix 16 64 ''400000'' = Some 0x400000"
    by (simp add: from_str_radix_def digit_value_def char_code_def of_char_def)
  ultimately show ?thesis by (simp add: find_lib_def tiny_maps_def)
qed

lemma tiny_tracer_ok: "tracer_ok tiny_view tiny_page x86_trace_arch 7 tiny_tracer"
proof -
  have "reads_ok tiny_view tiny_tracer"
  proof -
    have "\<exists>e. snd (proc_mem_read tiny_tracer 0 1 w) = Err e" for w by (simp add: tiny_tracer_def tiny_page_def)
    then show ?thesis unfolding reads_ok_def by (auto simp: tiny_view_def tiny_tracer_def same_process_def)
  qed
  moreover have "writes_ok tiny_view tiny_page tiny_tracer" "regsets_ok tiny_view x86_trace_arch tiny_tracer"
    "control_ok tiny_view tiny_tracer"
    by (simp_all add: writes_ok_def regsets_ok_def control_ok_def same_process_def tiny_view_def tiny_tracer_def x86_trace_arch_def)
  moreover have "text_mapped tiny_view tiny_page x86_trace_arch 7 tiny_tracer"
    using tiny_text by (simp add: text_mapped_def tiny_tracer_def tiny_page_def x86_trace_arch_def All_less_Suc numeral_3_eq_3)
  ultimately show ?thesis by (simp add: tracer_ok_def)
qed

section \<open>The process is restored\<close>

text \<open>
  C17. Injecting the payload in the hypervisor: whatever happens, in our code, in the calls that fail, or in the code that
  the process is made to run, attaching returns, and the process is free again. Either it was not attached at all,
  or it could not be attached, or it has the registers that it had when it was stopped, and the bytes of its code
  that had been overwritten are back. This needs that a stopped process can be read, written and resumed as
  \<open>ptrace\<close> documents it, and that waiting for a process that runs succeeds.
\<close>

theorem tracee_restored:
  assumes "tracer_ok V inmem A pid sys" "pv_phase V w = Free" "length (ta_instructions A) < 2 ^ 64"
  shows "\<exists>w' r. kvm_attach own_maps own_pid ours sys A pid fds w = Some (w', r) \<and> pv_phase V w' = Free \<and>
    (w' = w \<or> (\<exists>r1. raw_attach sys w = Some (w', r1) \<and> r1 \<noteq> Ok ()) \<or>
     (\<exists>w1. raw_attach sys w = Some (w1, Ok ()) \<and> pv_regs V w' = pv_regs V w1 \<and>
        (\<forall>a. find_lib (proc_maps sys w1) pid ''/'' = Ok a \<longrightarrow>
           load_bytes (pv_mem V w') a (length (ta_instructions A)) = load_bytes (pv_mem V w1) a (length (ta_instructions A)))))"
  using kvm_attach_restores [OF assms, of own_maps own_pid ours fds] unfolding restored_def by blast

theorem tracee_restored_witness:
  "\<exists>w' r. kvm_attach tiny_maps 1 tiny_libc tiny_tracer x86_trace_arch 7 [12] tiny_process = Some (w', r) \<and> tw_phase w' = Free"
proof -
  have "pv_phase tiny_view tiny_process = Free" "length (ta_instructions x86_trace_arch) < 2 ^ 64"
    by (simp_all add: tiny_view_def tiny_process_def x86_trace_arch_def)
  from tracee_restored [OF tiny_tracer_ok this, of tiny_maps 1 tiny_libc "[12]"] show ?thesis
    by (auto simp: tiny_view_def)
qed

section \<open>The registers of the processors\<close>

text \<open>Calls that give zeroed registers, but for the stack pointer, which tells the processors apart.\<close>

definition tiny_kvm :: kvm_calls where
  "tiny_kvm =
     \<lparr>kvm_get_regs_call = (\<lambda>fd. Ok (dec_x86_registers (replicate 144 0)\<lparr>rsp := ucast fd\<rparr>)),
      kvm_get_sregs_call = (\<lambda>fd. Ok (dec_x86_special (replicate 312 0))),
      kvm_get_msrs_call = (\<lambda>fd msrs. Ok (msrs\<lparr>km_entries := map (\<lambda>e. e\<lparr>me_data := ucast (me_index e)\<rparr>) (km_entries msrs)\<rparr>)),
      kvm_get_one_reg_call = (\<lambda>fd i. Ok (i + ucast fd))\<rparr>"

definition tiny_x86 :: "32 word \<Rightarrow> x86_vcpu" where
  "tiny_x86 fd =
     \<lparr>vcpu_registers = dec_x86_registers (replicate 144 0)\<lparr>rsp := ucast fd\<rparr>, vcpu_special = dec_x86_special (replicate 312 0),
      vcpu_other = \<lparr>lstar = 0xc0000082, gs_kernel_base = 0xc0000102\<rparr>\<rparr>"

definition tiny_arm :: "32 word \<Rightarrow> arm_vcpu" where
  "tiny_arm fd =
     \<lparr>vcpu_registers =
        \<lparr>arm_regs = map (\<lambda>i. arm_reg_id i + ucast fd) [0..<31], arm_sp = arm_reg_id 31 + ucast fd,
         arm_pc = arm_reg_id 32 + ucast fd, arm_pstate = arm_reg_id 33 + ucast fd\<rparr>,
      vcpu_special =
        \<lparr>sp_el1 = 0x6030000000100044 + ucast fd, ttbr0_el1 = 0x603000000013c100 + ucast fd,
         ttbr1_el1 = 0x603000000013c101 + ucast fd, vbar_el1 = 0x603000000013c600 + ucast fd\<rparr>,
      vcpu_other = ArmOther\<rparr>"

lemma tiny_reg_list: "get_reg_list tiny_kvm fd is = Ok (map (\<lambda>i. i + ucast fd) is)"
  by (induction "is") (simp_all add: tiny_kvm_def)

lemma tiny_x86_of: "x86_vcpu_of tiny_kvm fd (tiny_x86 fd)" "x86_special_wf (vcpu_special (tiny_x86 fd))"
  by (simp_all add: x86_vcpu_of_def payload_get_msrs_def tiny_kvm_def tiny_x86_def x86_special_wf_def dec_x86_special_def
      dec_dtable_def dec_u64s_def Let_def)

lemma tiny_arm_of: "arm_vcpu_of tiny_kvm fd (tiny_arm fd)"
  by (simp add: arm_vcpu_of_def payload_arm_regs_def payload_arm_special_def tiny_reg_list tiny_arm_def take_map comp_def
      del: get_reg_list.simps)

text \<open>
  The registers of the processors of a KVM guest: when the calls of KVM give the registers of every processor, the
  payload succeeds, and what the library reads from the socket, on x86-64 and on AArch64, is the registers that the
  calls have given, processor by processor, in the order of the file descriptors.
\<close>

theorem payload_registers_read_back:
  "(list_all2 (x86_vcpu_of kvm) fds vs \<longrightarrow> (\<forall>v \<in> set vs. x86_special_wf (vcpu_special v)) \<longrightarrow>
      (\<exists>out. vminer_payload (Ok ()) (x86_chunks kvm) vec_writer fds = (out, Ok 0) \<and>
         listener_thread read_x86_vcpus (length fds) (Ok out) = Ok vs)) \<and>
   (list_all2 (arm_vcpu_of kvm) fds us \<longrightarrow>
      (\<exists>out. vminer_payload (Ok ()) (arm_chunks kvm) vec_writer fds = (out, Ok 0) \<and>
         listener_thread read_arm_vcpus (length fds) (Ok out) = Ok us))"
  using x86_payload_read_back arm_payload_read_back by blast

theorem payload_registers_read_back_witness:
  "(\<exists>out. vminer_payload (Ok ()) (x86_chunks tiny_kvm) vec_writer [5, 6] = (out, Ok 0) \<and>
      listener_thread read_x86_vcpus 2 (Ok out) = Ok [tiny_x86 5, tiny_x86 6]) \<and>
   (\<exists>out. vminer_payload (Ok ()) (arm_chunks tiny_kvm) vec_writer [5] = (out, Ok 0) \<and>
      listener_thread read_arm_vcpus 1 (Ok out) = Ok [tiny_arm 5])"
  using payload_registers_read_back [of tiny_kvm "[5, 6]" "[tiny_x86 5, tiny_x86 6]"]
    payload_registers_read_back [of tiny_kvm "[5]" _ "[tiny_arm 5]"]
  by (simp add: tiny_x86_of tiny_arm_of numeral_2_eq_2)

end
