(* ===== verification/Vm_Live_Example.thy ===== *)
theory Vm_Live_Example
  imports Vm_Capture_Laws Vm_Process_Properties Vm_Hypervisor
begin

text \<open>
  A process of a hypervisor with two processors, in which the payload runs: the concrete input at which the hypotheses of
  the property on live dumps are shown to hold.
\<close>

section \<open>The process\<close>

text \<open>
  The functions of the process, by their address: \<open>dlopen\<close>, \<open>dlclose\<close>, \<open>dlsym\<close> and \<open>mmap\<close> are those of \<open>tiny_libc\<close>, the
  payload is at 0x400070, and \<open>mmap\<close> maps the page at 0x500000. They read their arguments in the registers and in the memory.
\<close>

definition hyper_injection :: injection where
  "hyper_injection = \<lparr>in_code = 0x400000, in_page = 0x500000, in_handle = 1, in_payload = 0x400070\<rparr>"

definition hyper_payload :: "hyper_state \<Rightarrow> u8 list \<times> (int, io_error) result" where
  "hyper_payload s = vminer_payload (Ok ()) (x86_chunks tiny_kvm) vec_writer (fds_at (hs_mem s) (ux_rdi (hs_regs s)) (unat (ux_rsi (hs_regs s))))"

definition hyper_result :: "hyper_state \<Rightarrow> u64" where
  "hyper_result s =
     (let f = ux_rax (hs_regs s); a = ux_rdi (hs_regs s); b = ux_rsi (hs_regs s) in
      if f = f_mmap tiny_libc then 0x500000
      else if f = f_dlopen tiny_libc
      then (if load_bytes (hs_mem s) a 32 = str_bytes ''/usr/lib/libvminer_kvm_patch.so'' @ [0] then 1 else 0)
      else if f = f_dlsym tiny_libc
      then (if a = 1 \<and> load_bytes (hs_mem s) b 15 = str_bytes ''vminer_payload'' @ [0] then 0x400070 else 0)
      else if f = f_dlclose tiny_libc then (if a = 1 then 0 else - 1)
      else if f = 0x400070 then (case snd (hyper_payload s) of Ok r \<Rightarrow> word_of_int r | _ \<Rightarrow> 0)
      else 0)"

definition hyper_run :: "hyper_state \<Rightarrow> hyper_state" where
  "hyper_run s =
     s\<lparr>hs_phase := Stopped, hs_regs := (hs_regs s)\<lparr>ux_rax := hyper_result s, ux_rip := ux_rip (hs_regs s) + 3\<rparr>,
       hs_mapped := (\<lambda>a. hs_mapped s a \<or> ux_rax (hs_regs s) = f_mmap tiny_libc \<and> 0x500000 \<le> a \<and> a < 0x501000),
       hs_sent := hs_sent s @ (if ux_rax (hs_regs s) = 0x400070 then fst (hyper_payload s) else [])\<rparr>"

text \<open>When it is attached it stops with a stack, and with its code mapped.\<close>

definition hyper_stop :: "hyper_state \<Rightarrow> hyper_state" where
  "hyper_stop s =
     s\<lparr>hs_phase := Stopped, hs_regs := (hs_regs s)\<lparr>ux_rsp := 0x7fff0000\<rparr>, hs_mapped := (\<lambda>a. hs_mapped s a \<or> 0x400000 \<le> a \<and> a < 0x401000)\<rparr>"

definition hyper_tracer :: "(hyper_state, user_regs_x86) tracer" where
  "hyper_tracer =
     \<lparr>proc_maps = (\<lambda>w. tiny_maps), proc_mem_open = (\<lambda>w. Ok ()),
      proc_mem_read = (\<lambda>a n w. (w, if \<forall>i < n. hs_mapped w (a + of_nat i) then Ok (load_bytes (hs_mem w) a n) else Err (IoOs 5))),
      proc_mem_write = (\<lambda>a bs w.
        if \<forall>i < length bs. hs_mapped w (a + of_nat i) then (w\<lparr>hs_mem := store_bytes (hs_mem w) a bs\<rparr>, Ok ()) else (w, Err (IoOs 5))),
      ptrace_attach = (\<lambda>w. (hyper_stop w, Ok ())),
      ptrace_wait = (\<lambda>w. (if hs_phase w = Running then hyper_run w else w, Ok ())),
      ptrace_cont = (\<lambda>w. (w\<lparr>hs_phase := Running\<rparr>, Ok ())), ptrace_singlestep = (\<lambda>w. (w\<lparr>hs_phase := Running\<rparr>, Ok ())),
      ptrace_detach = (\<lambda>w. (w\<lparr>hs_phase := Free\<rparr>, Ok ())),
      ptrace_getregset = (\<lambda>w. (w, Ok (hs_regs w, 216))), ptrace_setregset = (\<lambda>g w. (w\<lparr>hs_regs := g\<rparr>, Ok 216))\<rparr>"

definition hyper_process :: hyper_state where
  "hyper_process = \<lparr>hs_phase = Free, hs_regs = ta_zeroed x86_trace_arch, hs_mem = (\<lambda>a. 0), hs_mapped = (\<lambda>a. False), hs_sent = []\<rparr>"

text \<open>The directory of file descriptors, as bytes: a file, and the two processors.\<close>

definition hyper_fds :: "((u8 list \<times> (u8 list, io_error) result, io_error) result list, io_error) result" where
  "hyper_fds =
     Ok [Ok (str_bytes ''4'', Ok (str_bytes ''/dev/kvm'')), Ok (str_bytes ''5'', Ok (str_bytes ''anon_inode:kvm-vcpu:0'')),
         Ok (str_bytes ''6'', Ok (str_bytes ''anon_inode:kvm-vcpu:1''))]"

definition hyper_listener :: "hyper_state listener" where
  "hyper_listener = \<lparr>ln_bind = Ok (), ln_set_permissions = Ok (), ln_stream = (\<lambda>w. Ok (hs_sent w))\<rparr>"

text \<open>Its memory: 64 KiB from 0x10000.\<close>

definition hyper_maps :: "((string, io_error) result list, io_error) result" where
  "hyper_maps = Ok [Ok ''400000-401000 r-xp 0 00:00 1 /usr/lib/libc.so'', Ok ''10000-20000 rw-p 0 00:00 0'']"

lemma hyper_memory:
  "find_memory hyper_maps (Ok rd) = Ok \<lparr>read_exact_at = rd, file_start = 0x10000, file_mapping = \<lparr>mm_start = 0, mm_end = 0x10000\<rparr>\<rparr>"
proof -
  have "guest_map ''400000-401000 r-xp 0 00:00 1 /usr/lib/libc.so'' = None" "guest_map ''10000-20000 rw-p 0 00:00 0'' = Some (0x10000, 0x20000)"
    by (simp_all add: guest_map_def map_line_def from_str_radix_def digit_value_def char_code_def)
  then show ?thesis
    by (simp add: find_memory_def hyper_maps_def find_memory_line_map sub_chk_def add_chk_def file_open_def file_new_def)
qed

lemma from_utf8_str_bytes:
  assumes "\<forall>c \<in> set s. of_char c < (128 :: nat)"
  shows "from_utf8 (str_bytes s) = Some s"
proof -
  have u: "unat (of_char c :: u8) = of_char c" for c :: char
    using unat_of_nat [of "of_char c", where 'a = 8] by (simp add: of_nat_of_char)
  have "utf8_valid (str_bytes s)"
    using assms by (induction s) (simp_all add: str_bytes_def word_less_nat_alt u)
  then show ?thesis by (simp add: from_utf8_def str_bytes_def byte_char_def u comp_def)
qed

lemma hyper_get_fds: "get_vcpus_fds hyper_fds = Ok [5, 6]"
proof -
  have "parse_i32 ''5'' = Some 5" "parse_i32 ''6'' = Some 6"
    by (simp_all add: parse_i32_def from_str_radix_def digit_value_def char_code_def)
  then show ?thesis
    by (simp add: get_vcpus_fds_def hyper_fds_def map_filter_simps read_one_fd_def from_utf8_str_bytes)
qed

lemma hyper_start: "start_listener hyper_listener = Ok ()"
  by (simp add: start_listener_def hyper_listener_def context_res_def)

section \<open>Attaching\<close>

lemma hyper_libc: "find_lib tiny_maps n ''libc.so'' = Ok 0x400000"
proof -
  have "str_contains ''libc.so'' ''400000-401000 r-xp /libc.so''" "str_contains ''r-xp '' ''400000-401000 r-xp /libc.so''"
    "find_char (CHR ''-'') ''400000-401000 r-xp /libc.so'' = Some 6"
    by simp_all
  moreover have "from_str_radix 16 64 ''400000'' = Some 0x400000"
    by (simp add: from_str_radix_def digit_value_def char_code_def of_char_def)
  ultimately show ?thesis by (simp add: find_lib_def tiny_maps_def)
qed

lemma hyper_remote: "remote_funs 0x400000 0x400000 tiny_libc = Ok tiny_libc"
  by (simp add: remote_funs_def remote_fun_def tiny_libc_def sub_chk_def add_chk_def)

text \<open>A function of the process, from the call to the stop after it.\<close>

lemma hyper_resumes:
  assumes "at_call w f"
  shows "resumes hyper_tracer w (hyper_run (w\<lparr>hs_phase := Running\<rparr>))"
    "back_from w (hyper_result w) (if f = 0x400070 then fst (hyper_payload w) else []) (hyper_run (w\<lparr>hs_phase := Running\<rparr>))"
    "page_kept hyper_injection w (hyper_run (w\<lparr>hs_phase := Running\<rparr>))"
  using assms
  by (simp_all add: resumes_def hyper_tracer_def back_from_def hyper_run_def hyper_result_def hyper_payload_def page_kept_def at_call_def
      cong: if_cong)

lemma hyper_page: "i < 0x1000 \<Longrightarrow> 0x500000 \<le> 0x500000 + (of_nat i :: u64) \<and> 0x500000 + (of_nat i :: u64) < 0x501000"
  "i < 3 \<Longrightarrow> 0x400000 \<le> 0x400000 + (of_nat i :: u64) \<and> 0x400000 + (of_nat i :: u64) < 0x401000"
  by (simp_all add: word_le_nat_alt word_less_nat_alt unat_word_ariths unat_of_nat)

text \<open>What the functions return.\<close>

lemma hyper_results:
  "ux_rax (hs_regs w) = f_mmap tiny_libc \<Longrightarrow> hyper_result w = 0x500000"
  "ux_rax (hs_regs w) = f_dlopen tiny_libc \<Longrightarrow>
    load_bytes (hs_mem w) (ux_rdi (hs_regs w)) 32 = str_bytes ''/usr/lib/libvminer_kvm_patch.so'' @ [0] \<Longrightarrow> hyper_result w = 1"
  "ux_rax (hs_regs w) = f_dlsym tiny_libc \<Longrightarrow> ux_rdi (hs_regs w) = 1 \<Longrightarrow>
    load_bytes (hs_mem w) (ux_rsi (hs_regs w)) 15 = str_bytes ''vminer_payload'' @ [0] \<Longrightarrow> hyper_result w = 0x400070"
  "ux_rax (hs_regs w) = f_dlclose tiny_libc \<Longrightarrow> ux_rdi (hs_regs w) = 1 \<Longrightarrow> hyper_result w = 0"
  "ux_rax (hs_regs w) = 0x400070 \<Longrightarrow> snd (hyper_payload w) = Ok r \<Longrightarrow> hyper_result w = word_of_int r"
  by (simp_all add: hyper_result_def tiny_libc_def Let_def)

lemma narrow_result: "(ucast (word_of_int r :: u64) :: 32 word) = word_of_int r"
  by (rule bit_word_eqI) (simp add: bit_simps)

lemma hyper_functions:
  assumes "at_call w f"
  shows "\<exists>w'. resumes hyper_tracer w w' \<and> back_from w (hyper_result w) (if f = 0x400070 then fst (hyper_payload w) else []) w' \<and>
    page_kept hyper_injection w w' \<and> (f = f_mmap tiny_libc \<longrightarrow> (\<forall>a. 0x500000 \<le> a \<and> a < 0x501000 \<longrightarrow> hs_mapped w' a))"
  using hyper_resumes [OF assms] assms by (intro exI [of _ "hyper_run (w\<lparr>hs_phase := Running\<rparr>)"]) (simp add: hyper_run_def at_call_def)

lemma hyper_function:
  assumes "at_call w f" "f \<noteq> 0x400070" "hyper_result w = ret"
  obtains w' where "resumes hyper_tracer w w'" "back_from w ret [] w'" "page_kept hyper_injection w w'"
    "f = f_mmap tiny_libc \<longrightarrow> (\<forall>a. 0x500000 \<le> a \<and> a < 0x501000 \<longrightarrow> hs_mapped w' a)"
  using hyper_functions [OF assms(1)] assms(2,3) by auto

lemma not_payload:
  "f_mmap tiny_libc \<noteq> 0x400070" "f_dlopen tiny_libc \<noteq> 0x400070" "f_dlsym tiny_libc \<noteq> 0x400070" "f_dlclose tiny_libc \<noteq> 0x400070"
  by (simp_all add: tiny_libc_def)

lemma hyper_names:
  "in_code hyper_injection = 0x400000" "in_page hyper_injection = 0x500000" "in_handle hyper_injection = 1"
  "in_payload hyper_injection = 0x400070"
  by (simp_all add: hyper_injection_def)

interpretation hyper: hypervisor "\<lambda>w. w" hyper_tracer 7 tiny_libc hyper_injection tiny_kvm
proof
  fix w :: hyper_state and g a n bs
  show "hs_phase w = Free \<Longrightarrow> \<exists>w1 w2. ptrace_attach hyper_tracer w = (w1, Ok ()) \<and> ptrace_wait hyper_tracer w1 = (w2, Ok ()) \<and>
      hs_phase w2 = Stopped \<and> hs_sent w2 = hs_sent w \<and> 0x100 \<le> unat (ux_rsp (hs_regs w2)) \<and>
      (\<forall>i < 3. hs_mapped w2 (in_code hyper_injection + of_nat i))"
    using hyper_page(2) by (simp add: hyper_tracer_def hyper_stop_def hyper_injection_def)
  show "find_lib (proc_maps hyper_tracer w) 7 ''/'' = Ok (in_code hyper_injection)"
    using tiny_text by (simp add: hyper_tracer_def hyper_injection_def)
next
  fix i j :: nat
  assume "i < 3" "j < 0x1000"
  then have "0x400000 + of_nat i < (0x401000 :: u64)" "(0x500000 :: u64) \<le> 0x500000 + of_nat j"
    using hyper_page(1) [of j] hyper_page(2) [of i] by blast+
  moreover have "(0x401000 :: u64) \<le> 0x500000" by simp
  ultimately have "0x400000 + of_nat i < (0x500000 + of_nat j :: u64)" by (meson less_le_trans order_trans)
  then show "in_code hyper_injection + of_nat i \<noteq> in_page hyper_injection + of_nat j"
    unfolding hyper_injection_def injection.simps by (rule less_imp_neq)
next
  fix w
  assume c: "at_call w (f_mmap tiny_libc)"
  then have "hyper_result w = 0x500000" by (simp add: at_call_def hyper_results(1))
  from hyper_function [OF c not_payload(1) this]
  show "\<exists>w'. resumes hyper_tracer w w' \<and> back_from w (in_page hyper_injection) [] w' \<and>
      (\<forall>i < 0x1000. hs_mapped w' (in_page hyper_injection + of_nat i))"
    unfolding hyper_names using hyper_page(1) by metis
next
  fix w
  assume c: "at_call w (f_dlopen tiny_libc)"
    "load_bytes (hs_mem w) (ux_rdi (hs_regs w)) 32 = str_bytes ''/usr/lib/libvminer_kvm_patch.so'' @ [0]"
  then have "hyper_result w = 1" by (intro hyper_results(2)) (simp_all add: at_call_def)
  from hyper_function [OF c(1) not_payload(2) this]
  show "\<exists>w'. resumes hyper_tracer w w' \<and> back_from w (in_handle hyper_injection) [] w' \<and> page_kept hyper_injection w w'"
    unfolding hyper_names by metis
next
  fix w
  assume c: "at_call w (f_dlsym tiny_libc)" "ux_rdi (hs_regs w) = in_handle hyper_injection"
    "load_bytes (hs_mem w) (ux_rsi (hs_regs w)) 15 = str_bytes ''vminer_payload'' @ [0]"
  then have "hyper_result w = 0x400070" by (intro hyper_results(3)) (simp_all add: at_call_def hyper_names)
  from hyper_function [OF c(1) not_payload(3) this]
  show "\<exists>w'. resumes hyper_tracer w w' \<and> back_from w (in_payload hyper_injection) [] w' \<and> page_kept hyper_injection w w'"
    unfolding hyper_names by metis
next
  fix w out r
  assume "at_call w (in_payload hyper_injection)"
    "vminer_payload (Ok ()) (x86_chunks tiny_kvm) vec_writer (fds_at (hs_mem w) (ux_rdi (hs_regs w)) (unat (ux_rsi (hs_regs w)))) = (out, Ok r)"
  then have c: "at_call w 0x400070" "hyper_payload w = (out, Ok r)" by (simp_all add: hyper_injection_def hyper_payload_def)
  then have "hyper_result w = word_of_int r" using hyper_results(5) [of w r] by (simp add: at_call_def)
  then show "\<exists>w' ret. resumes hyper_tracer w w' \<and> back_from w ret out w' \<and> (ucast ret :: 32 word) = word_of_int r"
    using hyper_functions [OF c(1)] c(2) narrow_result by auto
next
  fix w
  assume c: "at_call w (f_dlclose tiny_libc)" "ux_rdi (hs_regs w) = in_handle hyper_injection"
  then have "hyper_result w = 0" by (intro hyper_results(4)) (simp_all add: at_call_def hyper_names)
  from hyper_function [OF c(1) not_payload(4) this]
  show "\<exists>w'. resumes hyper_tracer w w' \<and> back_from w 0 [] w'" by metis
qed (simp_all add: hyper_tracer_def hyper_injection_def)

end
