(* ===== verification/Vm_Windows_Stack_Laws.thy ===== *)
theory Vm_Windows_Stack_Laws
  imports Vm_Windows_Stack Vm_Unwind_Laws
begin

text \<open>
  The frames of a Windows process: what a thread that was stopped in a prologue, in the body or in an epilogue of a
  function, or in a function without unwind information, has on its stack, and the proof that the walk over the frames
  gives the callers.
\<close>

section \<open>Epilogues\<close>

text \<open>The instructions of an epilogue before its return, and their encoding. A register is a number below 16, 4 is \<open>RSP\<close>.\<close>

datatype epilog_op = EPop nat | EPopf | EAdd8 u8 | EAdd32 u32

fun enc_epilog :: "epilog_op \<Rightarrow> u8 list" where
  "enc_epilog (EPop r) = (if r < 8 then [0x58 + of_nat r] else [0x41, 0x50 + of_nat r])"
| "enc_epilog EPopf = [0x9d]"
| "enc_epilog (EAdd8 n) = [0x48, 0x83, 0xc4, n]"
| "enc_epilog (EAdd32 n) = [0x48, 0x81, 0xc4] @ to_le_bytes 4 n"

text \<open>The immediate operands are signed; an epilogue releases the stack.\<close>

fun epilog_op_ok :: "epilog_op \<Rightarrow> bool" where
  "epilog_op_ok (EPop r) \<longleftrightarrow> r < 16 \<and> r \<noteq> 4"
| "epilog_op_ok EPopf \<longleftrightarrow> True"
| "epilog_op_ok (EAdd8 n) \<longleftrightarrow> n < 0x80"
| "epilog_op_ok (EAdd32 n) \<longleftrightarrow> n < 0x80000000"

fun epilog_op_size :: "epilog_op \<Rightarrow> u64" where
  "epilog_op_size (EAdd8 n) = ucast n"
| "epilog_op_size (EAdd32 n) = ucast n"
| "epilog_op_size op = 8"

definition epilog_size :: "epilog_op list \<Rightarrow> nat" where
  "epilog_size es = sum_list (map (unat \<circ> epilog_op_size) es)"

text \<open>Running them: the stack pointer and the base pointer.\<close>

fun exec_epilog :: "(u64 \<Rightarrow> u64 option) \<Rightarrow> epilog_op list \<Rightarrow> u64 \<times> u64 option \<Rightarrow> (u64 \<times> u64 option) option" where
  "exec_epilog mem [] st = Some st"
| "exec_epilog mem (EPop r # es) (sp, bp) =
     Option.bind (mem sp) (\<lambda>v. exec_epilog mem es (sp + 8, if r = 5 then Some v else bp))"
| "exec_epilog mem (op # es) (sp, bp) = exec_epilog mem es (sp + epilog_op_size op, bp)"

text \<open>The base pointer \<open>bp\<close> is \<open>bp0\<close> still, or it is what is saved at an address.\<close>

definition saved_bp :: "(u64 \<Rightarrow> u64 option) \<Rightarrow> u64 option \<Rightarrow> u64 option \<Rightarrow> u64 option \<Rightarrow> bool" where
  "saved_bp mem bp0 slot bp \<longleftrightarrow> (case slot of None \<Rightarrow> bp = bp0 | Some a \<Rightarrow> mem a \<noteq> None \<and> bp = mem a)"

lemma pop_byte:
  assumes "r < 8" "r \<noteq> 4"
  shows "(0x58 + of_nat r :: u8) \<noteq> 0x41" "(0x58 + of_nat r :: u8) \<noteq> 0x48" "(0x58 + of_nat r :: u8) \<noteq> 0x5c"
    "(0x58 + of_nat r :: u8) = 0x5d \<longleftrightarrow> r = 5" "0x58 \<le> (0x58 + of_nat r :: u8)" "(0x58 + of_nat r :: u8) \<le> 0x5f"
proof -
  have "r = 0 \<or> r = 1 \<or> r = 2 \<or> r = 3 \<or> r = 5 \<or> r = 6 \<or> r = 7" using assms by presburger
  then show "(0x58 + of_nat r :: u8) \<noteq> 0x41" "(0x58 + of_nat r :: u8) \<noteq> 0x48" "(0x58 + of_nat r :: u8) \<noteq> 0x5c"
    "(0x58 + of_nat r :: u8) = 0x5d \<longleftrightarrow> r = 5" "0x58 \<le> (0x58 + of_nat r :: u8)" "(0x58 + of_nat r :: u8) \<le> 0x5f"
    by (elim disjE; simp)+
qed

lemma pop_high_byte:
  assumes "\<not> r < 8" "r < 16"
  shows "0x58 \<le> (0x50 + of_nat r :: u8)" "(0x50 + of_nat r :: u8) \<le> 0x5f"
proof -
  have "r = 8 \<or> r = 9 \<or> r = 10 \<or> r = 11 \<or> r = 12 \<or> r = 13 \<or> r = 14 \<or> r = 15" using assms by presburger
  then show "0x58 \<le> (0x50 + of_nat r :: u8)" "(0x50 + of_nat r :: u8) \<le> 0x5f" by (elim disjE; simp)+
qed

lemma epilog_step:
  assumes "epilog_op_ok op"
  shows "epilog_loop (enc_epilog op @ code) sp slot =
    and_then (va_add_assign sp (epilog_op_size op)) (\<lambda>sp'. epilog_loop code sp' (if op = EPop 5 then Some sp else slot))"
proof (cases op)
  case (EPop r)
  show ?thesis
  proof (cases "r < 8")
    case True
    then have "r \<noteq> 4" using assms EPop by simp
    then show ?thesis using True by (subst epilog_loop.simps) (simp add: EPop code_u8_def pop_byte)
  next
    case False
    then have "r < 16" using assms EPop by simp
    then show ?thesis using False by (subst epilog_loop.simps) (simp add: EPop code_u8_def pop_high_byte)
  qed
next
  case (EAdd32 n)
  then show ?thesis by (subst epilog_loop.simps) (simp add: code_u8_def code_u32_le)
qed (subst epilog_loop.simps, simp add: code_u8_def)+

lemma epilog_loop_enc:
  assumes "list_all epilog_op_ok es" "unat sp + epilog_size es < 2 ^ 64"
    and "exec_epilog mem es (sp, bp) = Some (sp', bp')" "saved_bp mem bp0 slot bp"
  shows "\<exists>slot'. epilog_loop (concat (map enc_epilog es) @ 0xc3 # rest) sp slot = (Ok (Some (sp', slot')) :: (_, 'e) result) \<and>
    saved_bp mem bp0 slot' bp'"
  using assms
proof (induction es arbitrary: sp bp slot)
  case Nil
  then show ?case by (subst epilog_loop.simps) (simp add: code_u8_def)
next
  case (Cons op es)
  let ?n = "epilog_op_size op"
  have room: "unat sp + unat ?n + epilog_size es < 2 ^ 64" using Cons.prems(2) by (simp add: epilog_size_def)
  then have add: "va_add_assign sp ?n = (Ok (sp + ?n) :: (_, 'e) result)" "unat (sp + ?n) = unat sp + unat ?n"
    by (simp_all add: va_add_assign_def add_chk_def unat_word_ariths)
  let ?slot = "if op = EPop 5 then Some sp else slot"
  obtain bp1 where bp1: "exec_epilog mem es (sp + ?n, bp1) = Some (sp', bp')" "saved_bp mem bp0 ?slot bp1"
  proof (cases op)
    case (EPop r)
    then obtain v where "mem sp = Some v" "exec_epilog mem es (sp + 8, if r = 5 then Some v else bp) = Some (sp', bp')"
      using Cons.prems(3) by (auto split: bind_splits)
    then show ?thesis using that [of "if r = 5 then Some v else bp"] EPop Cons.prems(4) by (auto simp: saved_bp_def)
  qed (use that [of bp] Cons.prems(3,4) in simp_all)
  have "\<exists>slot'. epilog_loop (concat (map enc_epilog es) @ 0xc3 # rest) (sp + ?n) ?slot = (Ok (Some (sp', slot')) :: (_, 'e) result) \<and>
      saved_bp mem bp0 slot' bp'"
    using Cons.prems(1) room add(2) by (intro Cons.IH [OF _ _ bp1]) simp_all
  moreover have "epilog_op_ok op" using Cons.prems(1) by simp
  ultimately show ?case by (simp add: epilog_step add(1))
qed

lemma exec_epilog_Cons:
  assumes "exec_epilog mem (op # es) (sp, bp) = Some st"
  obtains bp1 where "exec_epilog mem es (sp + epilog_op_size op, bp1) = Some st"
  using assms by (cases op) (auto split: bind_splits)

lemma exec_epilog_sp: "exec_epilog mem es (sp, bp) = Some (sp', bp') \<Longrightarrow> sp' = sp + of_nat (epilog_size es)"
proof (induction es arbitrary: sp bp)
  case Nil
  then show ?case by (simp add: epilog_size_def)
next
  case (Cons op es)
  from Cons.prems obtain bp1 where "exec_epilog mem es (sp + epilog_op_size op, bp1) = Some (sp', bp')" by (rule exec_epilog_Cons)
  from Cons.IH [OF this] show ?case by (simp add: epilog_size_def add.assoc)
qed

section \<open>Frames\<close>

text \<open>
  Where the stack pointer and the base pointer of a frame are when the operations \<open>ops\<close> of its prologue have run from the
  entry state \<open>s\<close>. A function without a frame register, or any function at its first instruction, has the stack pointer of
  the prologue. In a function with the frame register \<open>RBP\<close>, the prologue has set it, to the stack pointer plus the offset of
  the unwind information, after all its pushes and allocations; from there on the frame is found from the base pointer,
  and its stack pointer can be anywhere. (The unwinder misplaces the frame of a function that sets its frame register
  first and allocates after, and that of a prologue before the instruction that sets it.)
\<close>

definition frame_place ::
  "function_entry \<Rightarrow> bool \<Rightarrow> (u64 \<Rightarrow> u64) \<Rightarrow> unwind_op list \<Rightarrow> frame_state \<Rightarrow> stack_frame \<Rightarrow> virtual_address option \<Rightarrow> bool"
where
  "frame_place fe at_start fp ops s frame bp \<longleftrightarrow>
     (case if at_start then None else fe_frame_register_offset fe of
        None \<Rightarrow> frame_sp frame = fs_sp (exec_ops fp ops s)
      | Some off \<Rightarrow>
          (\<exists>before after. ops = before @ SetFpReg # after \<and> ops_size after = 0) \<and> fp = (\<lambda>sp. sp + ucast off) \<and>
          bp = Some (fs_regs (exec_ops fp ops s) RBP) \<and> unat (fs_sp (exec_ops fp ops s)) + unat off < 2 ^ 64)"

lemma exec_ops_append: "exec_ops fp (ops @ ops') s = exec_ops fp ops' (exec_ops fp ops s)"
  by (induction ops arbitrary: s) simp_all

text \<open>Nothing moves the stack pointer after the frame register was set, so that the register keeps its place.\<close>

lemma frame_register_kept:
  "ops_size ops = 0 \<Longrightarrow> fs_regs s RBP = fp (fs_sp s) \<Longrightarrow> fs_regs (exec_ops fp ops s) RBP = fp (fs_sp (exec_ops fp ops s))"
proof (induction ops arbitrary: s)
  case (Cons op ops)
  have "fs_regs (exec_op fp op s) RBP = fp (fs_sp (exec_op fp op s))"
    using Cons.prems by (cases op) (simp_all add: unat_eq_0)
  then show ?case using Cons by simp
qed simp

lemma frame_place_sp:
  assumes "frame_place fe at_start fp ops s frame bp"
  shows "prologue_sp fe at_start frame bp (fs_sp (exec_ops fp ops s))"
proof (cases "if at_start then None else fe_frame_register_offset fe")
  case None
  then show ?thesis using assms unfolding frame_place_def prologue_sp_def by (simp only: option.case)
next
  case (Some off)
  note place = assms [unfolded frame_place_def Some option.case]
  obtain before after where ops: "ops = before @ SetFpReg # after" "ops_size after = 0" using place by blast
  have reg: "fs_regs (exec_ops fp ops s) RBP = fp (fs_sp (exec_ops fp ops s))"
    unfolding ops(1) exec_ops_append exec_ops.simps by (rule frame_register_kept [OF ops(2)]) simp
  have "fp = (\<lambda>sp. sp + ucast off)" using place by blast
  then have "fp (fs_sp (exec_ops fp ops s)) = fs_sp (exec_ops fp ops s) + ucast off" by (rule fun_cong)
  then show ?thesis using place reg unfolding prologue_sp_def Some option.case by metis
qed

text \<open>
  A frame of a function, with unwind data \<open>ud\<close>, whose entry is \<open>f\<close>: the return address is at \<open>slot\<close>, and \<open>bp'\<close> is the base
  pointer of the caller. The machine \<open>s\<close> was at the entry of the function; since then a part of its prologue has run,
  and the registers that it has saved are in memory still. The unwinder takes an instruction that is followed by a
  return for an epilogue, so that the other cases ask that it is not.
\<close>

inductive frame_return ::
  "(u64 \<Rightarrow> u64 option) \<Rightarrow> unwind_data \<Rightarrow> runtime_function option \<Rightarrow> stack_frame \<Rightarrow> virtual_address option \<Rightarrow>
   virtual_address \<Rightarrow> virtual_address option \<Rightarrow> bool"
  for mem ud
where
  body: "read_epilog ud frame = Some (Ok None) \<Longrightarrow> parse_function ud rf = Some fe \<Longrightarrow> fe_mother fe = None \<Longrightarrow>
    fe_unwind_codes fe = concat (map enc_unwind (rev ps)) \<Longrightarrow>
    (\<forall>p \<in> set ps. unwind_op_ok (fe_version fe) (snd p) \<and> (\<forall>b. snd p \<noteq> PushMachFrame b)) \<Longrightarrow>
    rf_start rf \<le> module_offset ud frame \<Longrightarrow> va_add_u32 (ud_offset ud) (rf_start rf) = (Ok start :: _ vm_result) \<Longrightarrow>
    ops = map snd (filter (has_run (Some (module_offset ud frame - rf_start rf))) ps) \<Longrightarrow>
    prologue_ok ops \<Longrightarrow> distinct (ops_writes fp ops s) \<Longrightarrow>
    frame_place fe (module_offset ud frame = rf_start rf) fp ops s frame bp \<Longrightarrow>
    ops_size ops < 2 ^ 32 \<Longrightarrow> ops_size ops \<le> unat (fs_sp s) \<Longrightarrow> unat (fs_sp s) + 2 ^ 32 + 8 \<le> 2 ^ 64 \<Longrightarrow>
    (\<forall>a \<in> set (ops_writes fp ops s). mem a = Some (fs_mem (exec_ops fp ops s) a)) \<Longrightarrow> frame_start frame = Some start \<Longrightarrow>
    frame_return mem ud (Some rf) frame bp (fs_sp s) (if \<exists>op \<in> set ops. saves_rbp op then Some (fs_regs s RBP) else bp)"
| leaf: "read_epilog ud frame = Some (Ok None) \<Longrightarrow> frame_start frame = None \<Longrightarrow> unat (frame_sp frame) + 8 < 2 ^ 64 \<Longrightarrow>
    frame_return mem ud None frame bp (frame_sp frame) bp"
| epilogue: "get_from (unat (module_offset ud frame)) (ud_content ud) = Some (concat (map enc_epilog es) @ 0xc3 # rest) \<Longrightarrow>
    list_all epilog_op_ok es \<Longrightarrow> unat (frame_sp frame) + epilog_size es + 8 < 2 ^ 64 \<Longrightarrow>
    exec_epilog mem es (frame_sp frame, bp) = Some (slot, bp') \<Longrightarrow>
    (case f of Some rf \<Rightarrow> chain_start ud rf = Some (Ok (frame_start frame)) | None \<Rightarrow> frame_start frame = None) \<Longrightarrow>
    frame_return mem ud f frame bp slot bp'"

text \<open>What the unwinder finds for such a frame.\<close>

lemma read_epilog_run:
  assumes code: "get_from (unat (module_offset ud frame)) (ud_content ud) = Some (concat (map enc_epilog es) @ 0xc3 # rest)"
    and ok: "list_all epilog_op_ok es" "unat (frame_sp frame) + epilog_size es + 8 < 2 ^ 64"
    and run: "exec_epilog mem es (frame_sp frame, bp) = Some (slot, bp')" and f: "find_by_offset ud (module_offset ud frame) = Ok f"
    and start: "case f of Some rf \<Rightarrow> chain_start ud rf = Some (Ok (frame_start frame)) | None \<Rightarrow> frame_start frame = None"
  shows "\<exists>addr. read_epilog ud frame = Some (Ok (Some \<lparr>ur_next_sp = SpValue (slot + 8), ur_next_ip_addr = slot, ur_next_bp_addr = addr,
      ur_fun_start = frame_start frame\<rparr>)) \<and> saved_bp mem bp addr bp'"
proof -
  have "saved_bp mem bp None bp" by (simp add: saved_bp_def)
  then obtain addr where addr: "epilog_loop (concat (map enc_epilog es) @ 0xc3 # rest) (frame_sp frame) None = (Ok (Some (slot, addr)) :: _ vm_result)"
    "saved_bp mem bp addr bp'"
    using epilog_loop_enc [OF ok(1) _ run] ok(2) by fastforce
  have "slot = frame_sp frame + of_nat (epilog_size es)" using exec_epilog_sp [OF run] by simp
  then have "unat slot + 8 < 2 ^ 64" using ok(2) by (simp add: unat_word_ariths unat_of_nat)
  then have "int (unat slot) < int (2 ^ 64 - 8)" by (simp only: of_nat_less_iff)
  then have top: "va_add_i32 slot 8 = (Ok (slot + 8) :: _ vm_result)" by (simp add: va_add_i32_def va_add_i64_spec)
  show ?thesis
    using addr start by (cases f) (auto simp: read_epilog_def code f top Let_def)
qed

lemma frame_return_unwinds:
  assumes "frame_return mem ud f frame bp slot bp'" "find_by_offset ud (module_offset ud frame) = Ok f"
  shows "\<exists>addr. unwind_function (Ok ud) frame bp = Some (Ok \<lparr>ur_next_sp = SpValue (slot + 8), ur_next_ip_addr = slot,
      ur_next_bp_addr = addr, ur_fun_start = frame_start frame\<rparr>) \<and> saved_bp mem bp addr bp'"
  using assms
proof (induction rule: frame_return.induct)
  case (body frame rf fe ps start ops fp s bp)
  obtain addr where addr: "unwind_with_infos ud rf frame bp = Some (Ok
      \<lparr>ur_next_sp = SpValue (fs_sp s + 8), ur_next_ip_addr = fs_sp s, ur_next_bp_addr = addr, ur_fun_start = Some start\<rparr>)"
    "case addr of None \<Rightarrow> \<forall>op \<in> set ops. \<not> saves_rbp op
     | Some a \<Rightarrow> fs_mem (exec_ops fp ops s) a = fs_regs s RBP \<and> a \<in> set (ops_writes fp ops s) \<and> (\<exists>op \<in> set ops. saves_rbp op)"
    using unwind_with_infos_inverts [OF body(2-10) frame_place_sp [OF body(11)] body(12-14)] by blast
  then have "saved_bp mem bp addr (if \<exists>op \<in> set ops. saves_rbp op then Some (fs_regs s RBP) else bp)"
    using body(15) by (cases addr) (auto simp: saved_bp_def)
  then show ?case using addr(1) body(1,16,17) by (auto simp: unwind_function_def context_res_def)
next
  case (leaf frame bp)
  then have "va_add (frame_sp frame) 8 = (Ok (frame_sp frame + 8) :: _ vm_result)" by (simp add: va_add_def add_chk_def)
  then show ?case using leaf by (simp add: unwind_function_def context_res_def saved_bp_def)
next
  case (epilogue frame es rest bp slot bp' f)
  from read_epilog_run [OF epilogue(1-4,6,5)] show ?case by (auto simp: unwind_function_def context_res_def)
qed

section \<open>What the guest has to provide\<close>

text \<open>
  The modules do not overlap and are in order, the memory that is read is readable, and the tables of the modules have
  the entry of the function of an address, or none for a function that has no unwind information.
\<close>

definition windows_unwindable ::
  "(u8 list \<Rightarrow> (u32 \<times> u32) vm_result) \<Rightarrow> ('r, 's, 'o, 'm) stack_context \<Rightarrow> module_entry list \<Rightarrow> (module \<Rightarrow> unwind_data) \<Rightarrow>
   (u64 \<Rightarrow> u64 option) \<Rightarrow> (virtual_address \<Rightarrow> (module \<times> runtime_function option) option) \<Rightarrow> bool"
where
  "windows_unwindable directory ctx modules data mem fun_at \<longleftrightarrow>
     sorted_wrt (\<lambda>a b. me_end a \<le> me_start b) modules \<and>
     (\<forall>m \<in> set modules. me_start m < me_end m \<and> me_unwind_data m = None) \<and>
     (\<forall>a v. mem a = Some v \<longrightarrow> stack_read_value ctx a = Some (Ok v)) \<and>
     (\<forall>ip md f. fun_at ip = Some (md, f) \<longrightarrow>
        (\<exists>m \<in> set modules. me_contains m ip \<and> me_module m = md \<and> init_unwind_data directory ctx m = Some (Ok (data md)) \<and>
           find_by_offset (data md) (ucast (va_diff ip (ud_offset (data md)))) = Ok f))"

definition windows_step ::
  "(u64 \<Rightarrow> u64 option) \<Rightarrow> (module \<Rightarrow> unwind_data) \<Rightarrow> (virtual_address \<Rightarrow> (module \<times> runtime_function option) option) \<Rightarrow>
   virtual_address \<times> virtual_address \<times> virtual_address option \<Rightarrow> stack_frame \<Rightarrow>
   (virtual_address \<times> virtual_address \<times> virtual_address option) option \<Rightarrow> bool"
where
  "windows_step mem data fun_at st frame st' \<longleftrightarrow>
     (\<exists>md f slot bp' ret.
        fun_at (fst st) = Some (md, f) \<and> frame_ip frame = fst st \<and> frame_sp frame = fst (snd st) \<and> frame_size frame = None \<and>
        frame_module frame = Some md \<and> frame_return mem (data md) f frame (snd (snd st)) slot bp' \<and> mem slot = Some ret \<and>
        st' = (if ret = 0 then None else Some (ret, slot + 8, bp')))"

text \<open>The state of the walk: the data of a module is read when it is needed.\<close>

definition with_data :: "(module \<Rightarrow> unwind_data) \<Rightarrow> module_entry \<Rightarrow> module_entry \<Rightarrow> bool" where
  "with_data data m c \<longleftrightarrow> c = m \<or> c = m\<lparr>me_unwind_data := Some (data (me_module m))\<rparr>"

fun windows_rel ::
  "(module \<Rightarrow> unwind_data) \<Rightarrow> module_entry list \<Rightarrow> virtual_address \<times> virtual_address \<times> virtual_address option \<Rightarrow> walk_state \<Rightarrow> bool"
where
  "windows_rel data modules (ip, sp, bp) (ms, frame, bp') \<longleftrightarrow>
     frame_ip frame = ip \<and> frame_sp frame = sp \<and> frame_size frame = None \<and> bp' = bp \<and> list_all2 (with_data data) modules ms"

section \<open>The walk gives the callers\<close>

text \<open>The unwinder looks at the instruction pointer and the stack pointer of a frame only.\<close>

lemma unwind_function_cong:
  assumes "frame_ip fr = frame_ip frame" "frame_sp fr = frame_sp frame"
  shows "unwind_function data fr bp = unwind_function data frame bp"
proof -
  have offset: "module_offset ud fr = module_offset ud frame" for ud using assms by (simp add: module_offset_def)
  show ?thesis unfolding unwind_function_def read_epilog_def unwind_with_infos_def offset assms by (rule refl)
qed

lemma with_data_entry: "with_data data m c \<Longrightarrow> me_start c = me_start m \<and> me_end c = me_end m \<and> me_module c = me_module m"
  by (auto simp: with_data_def)

lemma find_with_data:
  assumes u: "windows_unwindable directory ctx modules data mem fun_at" and ms: "list_all2 (with_data data) modules ms"
    and i: "i < length modules" "me_contains (modules ! i) ip"
  shows "find_by_address ms ip = Some i"
proof -
  have len: "length ms = length modules" using ms by (simp add: list_all2_lengthD)
  have nth: "with_data data (modules ! j) (ms ! j)" if "j < length modules" for j using ms that by (simp add: list_all2_nthD)
  have sorted: "sorted_wrt (\<lambda>a b. me_end a \<le> me_start b) ms"
    unfolding sorted_wrt_iff_nth_less
  proof (intro allI impI)
    fix j k
    assume jk: "j < k" "k < length ms"
    then have "me_end (modules ! j) \<le> me_start (modules ! k)"
      using u len by (auto simp: windows_unwindable_def sorted_wrt_iff_nth_less)
    then show "me_end (ms ! j) \<le> me_start (ms ! k)"
      using with_data_entry [OF nth, of j] with_data_entry [OF nth, of k] jk len by simp
  qed
  have pos: "\<forall>m \<in> set ms. me_start m < me_end m"
  proof
    fix m
    assume "m \<in> set ms"
    then obtain j where "j < length modules" "m = ms ! j" using len by (auto simp: in_set_conv_nth)
    then show "me_start m < me_end m" using with_data_entry [OF nth, of j] u by (simp add: windows_unwindable_def)
  qed
  have c: "me_contains (ms ! i) ip" using with_data_entry [OF nth [OF i(1)]] i(2) by (simp add: me_contains_def)
  then have "binary_search_by_key ms ip me_start = Found i \<or> binary_search_by_key ms ip me_start = Insert (Suc i)"
    using i(1) len by (intro interval_search [OF sorted pos]) (simp_all add: me_contains_def)
  then show ?thesis using c by (auto simp: find_by_address_def)
qed

lemma unwind_data_with_data:
  assumes "with_data data m c" "me_unwind_data m = None" "init_unwind_data directory ctx m = Some (Ok (data (me_module m)))"
  shows "get_unwind_data directory ctx c = Some (m\<lparr>me_unwind_data := Some (data (me_module m))\<rparr>, Ok (data (me_module m)))"
  using assms by (auto simp: with_data_def get_unwind_data_def)

lemma windows_walk_one_refines:
  assumes u: "windows_unwindable directory ctx modules data mem fun_at"
    and step: "windows_step mem data fun_at a frame a'" and rel: "windows_rel data modules a s"
  shows "\<exists>st. walk_one directory ctx s = Some (Ok (NextFrame frame (Some (Ok st)))) \<and>
    (case a' of None \<Rightarrow> st = None | Some a' \<Rightarrow> \<exists>s'. st = Some s' \<and> windows_rel data modules a' s')"
proof -
  obtain ms fr bp where s: "s = (ms, fr, bp)" by (cases s)
  have a: "a = (frame_ip fr, frame_sp fr, bp)" and fr: "frame_size fr = None" and ms: "list_all2 (with_data data) modules ms"
    using rel by (cases a; simp add: s)+
  obtain md f slot bp' ret where f: "fun_at (frame_ip fr) = Some (md, f)"
    and frame: "frame_ip frame = frame_ip fr" "frame_sp frame = frame_sp fr" "frame_size frame = None" "frame_module frame = Some md"
    and r: "frame_return mem (data md) f frame bp slot bp'" "mem slot = Some ret"
    and a': "a' = (if ret = 0 then None else Some (ret, slot + 8, bp'))"
    using step by (auto simp: windows_step_def a)
  obtain m where m: "m \<in> set modules" "me_contains m (frame_ip fr)" "me_module m = md"
    "init_unwind_data directory ctx m = Some (Ok (data md))"
    "find_by_offset (data md) (ucast (va_diff (frame_ip fr) (ud_offset (data md)))) = Ok f"
    using u f unfolding windows_unwindable_def by blast
  have read: "stack_read_value ctx x = Some (Ok v)" if "mem x = Some v" for x v using u that by (simp add: windows_unwindable_def)
  obtain i where i: "i < length modules" "modules ! i = m" using m(1) by (auto simp: in_set_conv_nth)
  have find: "find_by_address ms (frame_ip fr) = Some i" using find_with_data [OF u ms i(1)] m(2) i(2) by simp
  let ?m = "m\<lparr>me_unwind_data := Some (data md)\<rparr>"
  have "with_data data m (ms ! i)" "me_unwind_data m = None"
    using list_all2_nthD [OF ms i(1)] i(2) u m(1) by (simp_all add: windows_unwindable_def)
  from unwind_data_with_data [OF this] have data: "get_unwind_data directory ctx (ms ! i) = Some (?m, Ok (data md))" using m(3,4) by simp
  have ms': "list_all2 (with_data data) modules (ms[i := ?m])"
    using list_all2_update_cong [OF ms, of m ?m i] i(2) m(3) by (simp add: with_data_def)
       (metis list_update_id)
  have "find_by_offset (data md) (module_offset (data md) frame) = Ok f" using m(5) frame(1) by (simp add: module_offset_def)
  from frame_return_unwinds [OF r(1) this] obtain addr where
    addr: "unwind_function (Ok (data md)) frame bp = Some (Ok \<lparr>ur_next_sp = SpValue (slot + 8), ur_next_ip_addr = slot,
      ur_next_bp_addr = addr, ur_fun_start = frame_start frame\<rparr>)" "saved_bp mem bp addr bp'" by blast
  have ff: "fr\<lparr>frame_module := Some md, frame_start := frame_start frame\<rparr> = frame"
    using frame fr by (cases fr; cases frame) simp
  let ?infos = "\<lparr>ur_next_sp = SpValue (slot + 8), ur_next_ip_addr = slot, ur_next_bp_addr = addr, ur_fun_start = frame_start frame\<rparr>"
  have one: "walk_one directory ctx s = Some (Ok (NextFrame frame (next_state ctx (ms[i := ?m]) frame bp ?infos)))"
    using unwind_function_cong [of "fr\<lparr>frame_module := Some md\<rparr>" frame "Ok (data md)" bp] addr(1) frame ff
    by (simp add: walk_one_def s find data m(3))
  have "next_state ctx (ms[i := ?m]) frame bp ?infos =
      Some (Ok (if ret = 0 then None else Some (ms[i := ?m], frame\<lparr>frame_ip := ret, frame_sp := slot + 8\<rparr>, bp')))"
    using addr(2) by (cases addr) (auto simp: next_state_def read [OF r(2)] saved_bp_def read)
  then show ?thesis using one ms' a' frame(3) by simp
qed

interpretation windows_stack: frame_walker "walk_one directory ctx"
  "\<lambda>a frame a'. windows_unwindable directory ctx modules data mem fun_at \<and> windows_step mem data fun_at a frame a'" "windows_rel data modules"
  for directory and ctx :: "('r, 's, 'o, 'm) stack_context" and modules data mem fun_at
  by unfold_locales (use windows_walk_one_refines in blast)

lemma windows_callstack_collects:
  assumes "stack_context_new w proc = Some (Ok ctx)" "all_modules_collect sort_by w proc = Some (Ok modules)"
    and u: "windows_unwindable directory ctx modules data mem fun_at"
    and walk: "stack_walk (windows_step mem data fun_at) (ip, sp, bp) frames"
  shows "collect (iter_callstack sort_by directory w proc ip sp bp) = Some (Ok frames)"
proof -
  have "stack_walk (\<lambda>a frame a'. windows_unwindable directory ctx modules data mem fun_at \<and> windows_step mem data fun_at a frame a')
      (ip, sp, bp) frames"
    by (rule stack_walk_mono [OF walk]) (use u in simp)
  moreover have "list_all2 (with_data data) modules modules" by (simp add: list_all2_refl with_data_def)
  ultimately show ?thesis
    using windows_stack.walk_collects [of directory ctx modules data mem fun_at "(ip, sp, bp)" frames
        "(modules, \<lparr>frame_start = None, frame_size = None, frame_sp = sp, frame_ip = ip, frame_module = None\<rparr>, bp)"] assms(1,2)
    by (simp add: iter_callstack_def)
qed

end
