(* ===== verification/Vm_Windows_Stack_Example.thy ===== *)
theory Vm_Windows_Stack_Example
  imports Vm_Windows_Stack_Laws Vm_Os_Examples
begin

text \<open>
  A Windows guest with one process of one module and a stack of three frames: the concrete input at which the hypotheses
  of the property on Windows call stacks are shown to hold.
\<close>

section \<open>A Windows process with one module\<close>

text \<open>
  The process is at 0x1000, the thread that the processor runs at 0x2000, the block of the process at 0x3000 with its
  list of modules at 0x3100, and the module of the list at 0x4000: 48 bytes at 0x10000. The list of the modules of the
  kernel at 0x5000 is empty. The stack starts at 0x8000. The data of the processor are in the upper half.
\<close>

definition win_words :: "(virtual_address \<times> u64) list" where
  "win_words =
     [(0xffff800000001000, 0x2000), (0x2000, 0x1000), (0x1008, 0x3000), (0x3000, 0x3100), (0x3100, 0x4000), (0x4000, 0x3100),
      (0x4010, 0x10000), (0x4018, 0x30), (0x5000, 0x5000), (0x8000, 0x10016), (0x8028, 7), (0x8030, 0x1001c), (0x8038, 9)]"

text \<open>
  The image: the table of functions at 0, with one function from 0x10 to 0x20, which ends with an epilogue at 0x1c; a
  function without unwind information at 0x20; and the unwind information of the first one at 0x28.
\<close>

definition win_image :: "u8 list" where
  "win_image =
     [0x10, 0, 0, 0, 0x20, 0, 0, 0, 0x28, 0, 0, 0, 0, 0, 0, 0,
      0x90, 0x90, 0x90, 0x90, 0x90, 0x90, 0x90, 0x90, 0x90, 0x90, 0x90, 0x90, 0x5d, 0xc3, 0x90, 0x90,
      0x90, 0x90, 0x90, 0x90, 0x90, 0x90, 0x90, 0x90, 1, 5, 2, 0, 5, 0x32, 1, 0x50]"

definition win_bytes :: "virtual_address \<Rightarrow> u8" where
  "win_bytes a =
     (if 0x10000 \<le> a \<and> a < 0x10030 then win_image ! unat (a - 0x10000)
      else case map_of win_words (a AND NOT 7) of Some w \<Rightarrow> ucast (drop_bit (8 * unat (a AND 7)) w) | None \<Rightarrow> 0)"

definition win_fields :: layouts where
  "win_fields =
     [''_EPROCESS'' \<mapsto> [''Pcb'' \<mapsto> 0, ''Peb'' \<mapsto> 8], ''_KPROCESS'' \<mapsto> [''DirectoryTableBase'' \<mapsto> 0], ''_PEB'' \<mapsto> [''Ldr'' \<mapsto> 0],
      ''_PEB_LDR_DATA'' \<mapsto> [''InLoadOrderModuleList'' \<mapsto> 0],
      ''_LDR_DATA_TABLE_ENTRY'' \<mapsto> [''InLoadOrderLinks'' \<mapsto> 0, ''DllBase'' \<mapsto> 0x10, ''SizeOfImage'' \<mapsto> 0x18],
      ''_LIST_ENTRY'' \<mapsto> [''Flink'' \<mapsto> 0], ''_KPCR'' \<mapsto> [''Prcb'' \<mapsto> 0], ''_KPRCB'' \<mapsto> [''CurrentThread'' \<mapsto> 0],
      ''_ETHREAD'' \<mapsto> [''Tcb'' \<mapsto> 0], ''_KTHREAD'' \<mapsto> [''Process'' \<mapsto> 0]]"

definition win_vcpus :: "(x86_registers, x86_special_registers, x86_other_registers) vcpu_regs" where
  "win_vcpus =
     no_vcpu_regs\<lparr>vcpus_count := 1,
       registers := (\<lambda>v. Ok (dec_x86_registers (replicate 144 0)\<lparr>rip := 0x10021, rsp := 0x8000\<rparr>)),
       special_registers := (\<lambda>v. let r = dec_x86_special (replicate 312 0) in Ok (r\<lparr>sr_gs := (sr_gs r)\<lparr>seg_base := 0xffff800000001000\<rparr>\<rparr>))\<rparr>"

definition win_guest :: "(x86_registers, x86_special_registers, x86_other_registers, unit) windows" where
  "win_guest =
     \<lparr>w_backend = (flat_backend win_bytes)\<lparr>be_vcpus := default_vcpus (x86_64_arch naive_finder) win_vcpus\<rparr>,
      w_symbols_loader = empty_loader, w_kpgd = 0, w_base_addr = 0,
      w_profile = \<lparr>wp_syms = (),
        wp_fast_syms = \<lparr>KiImplementedPhysicalBits = None, PsActiveProcessHead = 0, PsLoadedModuleList = 0x5000\<rparr>,
        wp_layouts = win_fields\<rparr>,
      w_unswizzle_mask = - 1\<rparr>"

section \<open>Its memory\<close>

abbreviation win_fill :: "virtual_address \<Rightarrow> buf \<Rightarrow> buf" where
  "win_fill addr bf \<equiv> map (\<lambda>i. win_bytes (addr + of_nat i)) [0..<length bf]"

lemma win_raw: "read_raw win_guest vad mmu_addr addr bf = Some (win_fill addr bf, Ok ())"
  by (simp add: read_raw_def win_guest_def flat_backend_def flat_read_def)

lemma win_pages:
  "bf \<noteq> [] \<Longrightarrow> read_virtual_memory addr bf (\<lambda>a b. (win_fill a b, Ok ())) = (win_fill addr bf, Ok () :: (unit, 'e) result)"
  by (rule page_reader.read_virtual_memory_bytes [of "\<lambda>a b. (win_fill a b, Ok ())" "\<lambda>a. True" "\<lambda>a old. win_bytes a"])
     (simp_all add: page_reader_def)

lemma win_virtual:
  assumes "\<And>a b. f a b = Some (win_fill a b, Ok ())" "bf \<noteq> []"
  shows "read_virtual f addr bf = Some (win_fill addr bf, Ok ())" "try_read_virtual f addr bf = Some (win_fill addr bf, Ok ())"
proof -
  have "partial_page f = (\<lambda>a b. (win_fill a b, Ok ()))"
    "partial_page (\<lambda>a b. map_option (\<lambda>r. skip_invalid (\<lambda>a b. r) a b) (f a b)) = (\<lambda>a b. (win_fill a b, Ok ()))"
    by (simp_all add: fun_eq_iff partial_page_def assms(1) skip_invalid_def)
  then show "read_virtual f addr bf = Some (win_fill addr bf, Ok ())" "try_read_virtual f addr bf = Some (win_fill addr bf, Ok ())"
    by (simp_all add: read_virtual_def try_read_virtual_def win_pages [OF assms(2)])
qed

lemma win_read:
  assumes "bf \<noteq> []"
  shows "windows_kernel_read win_guest addr bf = Some (win_fill addr bf, Ok ())"
    "windows_read_process_memory win_guest proc mmu_addr addr bf = Some (win_fill addr bf, Ok ())"
    "windows_try_read_process_memory win_guest proc mmu_addr addr bf = Some (win_fill addr bf, Ok ())"
  unfolding windows_kernel_read_def windows_read_virtual_memory_def windows_read_process_memory_def windows_try_read_process_memory_def
  by (rule win_virtual; simp add: read_virtual_memory_raw_def win_raw assms)+

lemma win_offsets:
  "field_offset (windows_layouts win_guest) Eprocess ''Pcb'' = Ok 0"
  "field_offset (windows_layouts win_guest) Eprocess ''Peb'' = Ok 8"
  "field_offset (windows_layouts win_guest) Kprocess ''DirectoryTableBase'' = Ok 0"
  "\<not> has_field (windows_layouts win_guest) Kprocess ''UserDirectoryTableBase''"
  "field_offset (windows_layouts win_guest) Peb ''Ldr'' = Ok 0"
  "field_offset (windows_layouts win_guest) PebLdrData ''InLoadOrderModuleList'' = Ok 0"
  "field_offset (windows_layouts win_guest) LdrDataTableEntry ''InLoadOrderLinks'' = Ok 0"
  "field_offset (windows_layouts win_guest) LdrDataTableEntry ''DllBase'' = Ok 0x10"
  "field_offset (windows_layouts win_guest) LdrDataTableEntry ''SizeOfImage'' = Ok 0x18"
  "field_offset (windows_layouts win_guest) ListEntry ''Flink'' = Ok 0"
  "field_offset (windows_layouts win_guest) Kpcr ''Prcb'' = Ok 0"
  "field_offset (windows_layouts win_guest) Kprcb ''CurrentThread'' = Ok 0"
  "field_offset (windows_layouts win_guest) Ethread ''Tcb'' = Ok 0"
  "field_offset (windows_layouts win_guest) Kthread ''Process'' = Ok 0"
  by (simp_all add: has_field_def field_offset_def get_layout_def offset_of_def windows_layouts_def win_guest_def win_fields_def
      Eprocess_def Kprocess_def Peb_def PebLdrData_def LdrDataTableEntry_def ListEntry_def Kpcr_def Kprcb_def Ethread_def Kthread_def ok_or_def)

text \<open>The words of the memory, as the kernel and the process read them.\<close>

definition win_word :: "virtual_address \<Rightarrow> u64" where
  "win_word a = of_le_bytes (map (\<lambda>i. win_bytes (a + of_nat i)) [0..<8])"

lemma win_words_read:
  "read_value (windows_kernel_read win_guest) 8 of_le_bytes a = Some (Ok (win_word a))"
  "read_value (windows_read_process_memory win_guest proc mmu_addr) 8 of_le_bytes a = Some (Ok (win_word a))"
  by (simp_all add: read_value_def read_bytes_at_def win_read win_word_def)

lemma win_values:
  "win_word 0xffff800000001000 = 0x2000" "win_word 0x2000 = 0x1000" "win_word 0x1000 = 0" "win_word 0x1008 = 0x3000"
  "win_word 0x3000 = 0x3100" "win_word 0x3100 = 0x4000" "win_word 0x4000 = 0x3100" "win_word 0x4010 = 0x10000"
  "win_word 0x5000 = 0x5000" "win_word 0x8000 = 0x10016" "win_word 0x8028 = 7" "win_word 0x8030 = 0x1001c" "win_word 0x8038 = 9"
  "win_word 0x8040 = 0"
  by (simp_all add: win_word_def upt_rec win_bytes_def win_words_def)

lemmas win_eval = win_offsets win_words_read win_values read_field_def read_pointer_field_def ptr_field_def ptr_is_null_def va_add_def
  add_chk_def

section \<open>The process and its module\<close>

lemma win_pgd: "windows_process_pgd win_guest 0x1000 = Some (Ok 0)"
  by (simp add: windows_process_pgd_def win_eval)

definition win_ctx :: "(x86_registers, x86_special_registers, x86_other_registers, unit) stack_context" where
  "win_ctx = \<lparr>sc_windows = win_guest, sc_proc = 0x1000, sc_pgd = 0\<rparr>"

lemma win_context_new: "stack_context_new win_guest 0x1000 = Some (Ok win_ctx)"
  by (simp add: stack_context_new_def win_pgd win_ctx_def)

text \<open>The process reads its own part of the memory, and the kernel the other one.\<close>

definition win_user :: os_read where
  "win_user = proc_space (windows_kernel_read win_guest) (windows_read_process_memory win_guest) 0x1000 0"

lemma win_userspace: "windows_userspace win_guest 0x1000 = Some (Ok win_user)"
  by (simp add: windows_userspace_def switch_to_userspace_def win_pgd win_user_def)

lemma win_user_read: "bf \<noteq> [] \<Longrightarrow> win_user addr bf = Some (win_fill addr bf, Ok ())"
  by (simp add: win_user_def proc_space_def win_read)

lemma win_user_word: "read_value win_user 8 of_le_bytes a = Some (Ok (win_word a))"
  by (simp add: read_value_def read_bytes_at_def win_user_read win_word_def)

definition win_module :: module_entry where
  "win_module = \<lparr>me_start = 0x10000, me_end = 0x10030, me_module = 0x4000, me_unwind_data = None\<rparr>"

lemma win_span: "windows_module_span win_guest 0x4000 0x1000 = Some (Ok (0x10000, 0x10030))"
proof -
  have "read_value win_user 4 dec_u32 0x4018 = Some (Ok 0x30)"
    by (simp add: read_value_def read_bytes_at_def win_user_read upt_rec win_bytes_def win_words_def)
  then show ?thesis by (simp add: windows_module_span_def win_userspace win_user_word win_eval)
qed

lemma win_kernel: "w_base_addr win_guest = 0" "PsLoadedModuleList (wp_fast_syms (w_profile win_guest)) = 0x5000"
  by (simp_all add: win_guest_def)

lemma win_modules:
  "windows_process_for_each_module win_guest 0x1000 = Yield 0x4000 (Stop (Ok ()))"
  "windows_for_each_kernel_module win_guest = Stop (Ok ())"
proof -
  show "windows_process_for_each_module win_guest 0x1000 = Yield 0x4000 (Stop (Ok ()))"
    by (simp add: windows_process_for_each_module_def win_userspace win_user_word win_eval windows_list_def iterate_list_def
        links_trace_simps)
  show "windows_for_each_kernel_module win_guest = Stop (Ok ())"
    by (simp add: windows_for_each_kernel_module_def win_eval windows_list_def iterate_list_def links_trace_simps win_kernel)
qed

lemma win_collect: "all_modules_collect (\<lambda>key. sort_key key) win_guest 0x1000 = Some (Ok [win_module])"
  by (simp add: all_modules_collect_def win_modules push_module_def win_span win_module_def)

section \<open>Its unwind data\<close>

definition win_directory :: "u8 list \<Rightarrow> (u32 \<times> u32) vm_result" where
  "win_directory content = Ok (0, 12)"

definition win_data :: unwind_data where
  "win_data = \<lparr>ud_offset = 0x10000, ud_content = win_image, ud_directory_range = (0, 12)\<rparr>"

definition win_function :: runtime_function where
  "win_function = \<lparr>rf_start = 0x10, rf_end = 0x20, rf_ptr = 0x28\<rparr>"

lemma win_image_read: "win_fill 0x10000 (replicate 48 0) = win_image"
proof (rule nth_equalityI)
  show "length (win_fill 0x10000 (replicate 48 0)) = length win_image" by (simp add: win_image_def)
  fix i
  assume "i < length (win_fill 0x10000 (replicate 48 0))"
  then have i: "i < 48" by simp
  then have "unat (of_nat i :: u64) = i" by (simp add: unat_of_nat)
  moreover have "(of_nat i :: u64) < 0x30" using i by (simp add: word_less_nat_alt unat_of_nat)
  ultimately show "win_fill 0x10000 (replicate 48 0) ! i = win_image ! i"
    using i by (simp add: win_bytes_def word_less_nat_alt word_le_nat_alt unat_word_ariths)
qed

lemma win_init: "init_unwind_data win_directory win_ctx win_module = Some (Ok win_data)"
  using win_image_read
  by (simp add: init_unwind_data_def win_module_def win_ctx_def va_diff_def win_read win_directory_def win_data_def)
    (simp add: win_image_def)

lemma win_find:
  "find_by_offset win_data 0x21 = Ok None" "find_by_offset win_data 0x16 = Ok (Some win_function)"
  "find_by_offset win_data 0x1c = Ok (Some win_function)"
  by code_simp+

definition win_fun :: "virtual_address \<Rightarrow> (module \<times> runtime_function option) option" where
  "win_fun = [0x10021 \<mapsto> (0x4000, None), 0x10016 \<mapsto> (0x4000, Some win_function), 0x1001c \<mapsto> (0x4000, Some win_function)]"

definition win_mem :: "u64 \<Rightarrow> u64 option" where
  "win_mem = [0x8000 \<mapsto> 0x10016, 0x8028 \<mapsto> 7, 0x8030 \<mapsto> 0x1001c, 0x8038 \<mapsto> 9, 0x8040 \<mapsto> 0]"

lemma win_unwindable: "windows_unwindable win_directory win_ctx [win_module] (\<lambda>m. win_data) win_mem win_fun"
proof -
  have "stack_read_value win_ctx a = Some (Ok (win_word a))" for a
    by (simp add: stack_read_value_def win_ctx_def win_words_read)
  then have "\<forall>a v. win_mem a = Some v \<longrightarrow> stack_read_value win_ctx a = Some (Ok v)"
    by (simp add: win_mem_def win_values)
  then show ?thesis
    using win_init win_find by (auto simp: windows_unwindable_def win_fun_def win_module_def me_contains_def va_diff_def win_data_def)
qed

section \<open>The three frames\<close>

definition win_frame :: "virtual_address \<Rightarrow> virtual_address \<Rightarrow> virtual_address option \<Rightarrow> stack_frame" where
  "win_frame ip sp start = \<lparr>frame_start = start, frame_size = None, frame_sp = sp, frame_ip = ip, frame_module = Some 0x4000\<rparr>"

lemma win_data_offset: "ud_offset win_data = 0x10000"
  by (simp add: win_data_def)

lemma win_frame_fields [simp]:
  "frame_start (win_frame ip sp start) = start" "frame_size (win_frame ip sp start) = None" "frame_sp (win_frame ip sp start) = sp"
  "frame_ip (win_frame ip sp start) = ip" "frame_module (win_frame ip sp start) = Some 0x4000"
  by (simp_all add: win_frame_def)

lemma win_offset: "module_offset win_data (win_frame ip sp start) = ucast (ip - 0x10000)"
  by (simp add: module_offset_def win_frame_def win_data_def va_diff_def)

text \<open>The function without unwind information has called nothing: its return address is on the top of the stack.\<close>

lemma win_leaf: "frame_return win_mem win_data None (win_frame 0x10021 0x8000 None) bp 0x8000 bp"
proof -
  have "read_epilog win_data (win_frame 0x10021 0x8000 None) = Some (Ok None)"
    by (simp add: read_epilog_def win_offset get_from_def, subst epilog_loop.simps)
      (simp add: win_data_def win_image_def code_u8_def)
  from frame_return.leaf [OF this, of win_mem bp] show ?thesis by (simp add: win_frame_def)
qed

text \<open>The other function has saved \<open>RBP\<close> and allocated 32 bytes.\<close>

lemma win_parse: "parse_function win_data win_function = Some tiny_entry"
  by (simp add: parse_function_def win_data_def win_function_def win_image_def tiny_entry_def get_from_def code_u8_def code_slice_def Let_def)

lemma win_body: "frame_return win_mem win_data (Some win_function) (win_frame 0x10016 0x8008 (Some 0x10010)) bp 0x8030 (Some 7)"
proof -
  let ?frame = "win_frame 0x10016 0x8008 (Some 0x10010)"
  let ?s = "\<lparr>fs_sp = 0x8030, fs_regs = (\<lambda>r. 7), fs_xmm = (\<lambda>r. (0, 0)), fs_mem = (\<lambda>a. 0)\<rparr>"
  have epilog: "read_epilog win_data ?frame = Some (Ok None)"
    by (simp add: read_epilog_def win_offset get_from_def, subst epilog_loop.simps)
      (simp add: win_data_def win_image_def code_u8_def)
  have "frame_return win_mem win_data (Some win_function) ?frame bp (fs_sp ?s)
      (if \<exists>op \<in> set [Push RBP, Alloc 32]. saves_rbp op then Some (fs_regs ?s RBP) else bp)"
    by (rule frame_return.body [OF epilog win_parse _ tiny_codes, where fp = id and start = "0x10010"])
      (simp_all add: tiny_entry_def prologue_def win_offset has_run_def RBP_def frame_place_def win_function_def win_data_offset
        va_add_u32_def add_chk_def win_mem_def)
  then show ?thesis by simp
qed

text \<open>
  A function that has a frame register, set 16 bytes above the end of its frame: \<open>push rbp; sub rsp, 32; lea rbp, [rsp + 16]\<close>.
  Its place is where the prologue has left the stack, whatever its stack pointer is now.
\<close>

lemma framed_place:
  assumes "fe_frame_register_offset fe = Some 16" "fs_sp s = 0x8030"
  shows "frame_place fe False (\<lambda>sp. sp + ucast (16 :: u8)) [Push RBP, Alloc 32, SetFpReg] s frame (Some 0x8018)"
proof -
  have "[Push RBP, Alloc 32, SetFpReg] = [Push RBP, Alloc 32] @ SetFpReg # []" "ops_size [] = 0" by simp_all
  then have "\<exists>before after. [Push RBP, Alloc 32, SetFpReg] = before @ SetFpReg # after \<and> ops_size after = 0" by metis
  then show ?thesis unfolding frame_place_def using assms by simp
qed

text \<open>The outermost frame is about to return: it pops \<open>RBP\<close>, and its return address is null.\<close>

lemma win_epilogue: "frame_return win_mem win_data (Some win_function) (win_frame 0x1001c 0x8038 (Some 0x10010)) bp 0x8040 (Some 9)"
proof (rule frame_return.epilogue [where es = "[EPop 5]" and rest = "drop 30 win_image"])
  show "get_from (unat (module_offset win_data (win_frame 0x1001c 0x8038 (Some 0x10010)))) (ud_content win_data) =
      Some (concat (map enc_epilog [EPop 5]) @ 0xc3 # drop 30 win_image)"
    unfolding win_offset by (simp add: get_from_def win_data_def win_image_def)
  have "chain_start win_data win_function = Some (Ok (Some 0x10010))"
    by (subst chain_start.simps) (simp add: win_parse, simp add: tiny_entry_def win_function_def win_data_offset va_add_u32_def add_chk_def)
  then show "case Some win_function of
      None \<Rightarrow> frame_start (win_frame 0x1001c 0x8038 (Some 0x10010)) = None
    | Some rf \<Rightarrow> chain_start win_data rf = Some (Ok (frame_start (win_frame 0x1001c 0x8038 (Some 0x10010))))"
    by simp
qed (simp_all add: win_mem_def epilog_size_def)

definition win_frames :: "stack_frame list" where
  "win_frames = [win_frame 0x10021 0x8000 None, win_frame 0x10016 0x8008 (Some 0x10010), win_frame 0x1001c 0x8038 (Some 0x10010)]"

lemma win_walks: "stack_walk (windows_step win_mem (\<lambda>m. win_data) win_fun) (0x10021, 0x8000, Some 0) win_frames"
proof -
  note step = windows_step_def win_fun_def
  have "windows_step win_mem (\<lambda>m. win_data) win_fun (0x10021, 0x8000, Some 0) (win_frame 0x10021 0x8000 None) (Some (0x10016, 0x8008, Some 0))"
    unfolding step using win_leaf [of "Some 0"] by (fastforce simp: win_mem_def)
  moreover have "windows_step win_mem (\<lambda>m. win_data) win_fun (0x10016, 0x8008, Some 0) (win_frame 0x10016 0x8008 (Some 0x10010))
      (Some (0x1001c, 0x8038, Some 7))"
    unfolding step using win_body [of "Some 0"] by (fastforce simp: win_mem_def)
  moreover have "windows_step win_mem (\<lambda>m. win_data) win_fun (0x1001c, 0x8038, Some 7) (win_frame 0x1001c 0x8038 (Some 0x10010)) None"
    unfolding step using win_epilogue [of "Some 7"] by (fastforce simp: win_mem_def)
  ultimately show ?thesis unfolding win_frames_def by (intro stack_walk.intros)
qed

text \<open>What the processor runs, and its registers.\<close>

lemma win_runs: "out_then (windows_current_thread win_guest 0) (windows_thread_process win_guest) = Some (Ok 0x1000)"
proof -
  have "kpcr win_guest 0 = Some (Ok 0xffff800000001000)"
    by (simp add: kpcr_def win_guest_def default_vcpus_def x86_64_arch_def win_vcpus_def x86_kernel_per_cpu_def is_kernel_def Let_def
        context_opt_def ok_or_def)
  then show ?thesis by (simp add: windows_current_thread_def windows_thread_process_def win_eval)
qed

lemma win_registers:
  "vcpus_count (be_vcpus (w_backend win_guest)) = 1" "instruction_pointer (be_vcpus (w_backend win_guest)) 0 = Ok 0x10021"
  "stack_pointer (be_vcpus (w_backend win_guest)) 0 = Ok 0x8000" "base_pointer (be_vcpus (w_backend win_guest)) 0 = Ok (Some 0)"
  by (simp_all add: win_guest_def default_vcpus_def x86_64_arch_def win_vcpus_def x86_instruction_pointer_def
      x86_stack_pointer_def x86_base_pointer_def dec_x86_registers_def dec_u64s_def Let_def)

end
