(* ===== verification/Vm_Native.thy ===== *)
theory Vm_Native
  imports Vm_Os Vm_Strings Vm_Types Vm_Linux
begin

text \<open>
  The C interface (\<^verbatim>\<open>native/src/error.rs\<close>, \<^verbatim>\<open>cstring.rs\<close>, \<^verbatim>\<open>array.rs\<close>, \<^verbatim>\<open>os.rs\<close> and \<^verbatim>\<open>symbols.rs\<close>), with the feature
  \<open>std\<close>. A C function acts on a \<open>c_world\<close>: the memory of the process, where the caller's buffers are, and the last
  error of the thread. A pointer is an address, null is 0. An owned pointer to an object of the library is the object.
  A function that does not return is \<open>None\<close>. A panic does not cross the interface; its payload, which \<open>Panic\<close> does
  not record, is the argument \<open>pl\<close>.
\<close>

type_synonym c_mem = "u64 \<Rightarrow> u8"

record c_world =
  c_mem :: c_mem
  c_error :: "vm_error option"

section \<open>Errors\<close>

datatype panic_payload = PanicString string | PanicStr string | PanicOther

fun convert_panic_payload :: "panic_payload \<Rightarrow> vm_error" where
  "convert_panic_payload (PanicString s) = vm_new (DynStr (''panic at: '' @ s))"
| "convert_panic_payload (PanicStr s) = vm_new (DynStr (''panic at: '' @ s))"
| "convert_panic_payload PanicOther = vm_new (DynStr ''panic'')"

text \<open>The closure is the call \<open>m\<close>, with the memory that it leaves.\<close>

type_synonym 'a closure = "(c_mem \<times> 'a vm_result) option"

definition catch_unwind :: "panic_payload \<Rightarrow> 'a closure \<Rightarrow> (c_world \<times> 'a option) option" where
  "catch_unwind pl m =
     map_option (\<lambda>(mem, r).
       case r of
         Ok val \<Rightarrow> (\<lparr>c_mem = mem, c_error = None\<rparr>, Some val)
       | Err error \<Rightarrow> (\<lparr>c_mem = mem, c_error = Some error\<rparr>, None)
       | Panic \<Rightarrow> (\<lparr>c_mem = mem, c_error = Some (convert_panic_payload pl)\<rparr>, None)) m"

text \<open>\<open>enc\<close> is the C representation of the value.\<close>

definition wrap :: "panic_payload \<Rightarrow> ('a \<Rightarrow> u8 list) \<Rightarrow> u64 \<Rightarrow> 'a closure \<Rightarrow> (c_world \<times> int) option" where
  "wrap pl enc res m =
     map_option (\<lambda>(w, v).
       case v of
         Some val \<Rightarrow> (if res = 0 then w else w\<lparr>c_mem := store_bytes (c_mem w) res (enc val)\<rparr>, 0)
       | None \<Rightarrow> (w, 1)) (catch_unwind pl m)"

definition wrap_unit :: "panic_payload \<Rightarrow> unit closure \<Rightarrow> (c_world \<times> int) option" where
  "wrap_unit pl m = map_option (\<lambda>(w, v). (w, case v of Some u \<Rightarrow> 0 | None \<Rightarrow> - 1)) (catch_unwind pl m)"

definition wrap_box :: "panic_payload \<Rightarrow> 'a closure \<Rightarrow> (c_world \<times> 'a option) option" where
  "wrap_box pl m = catch_unwind pl m"

definition as_isize :: "nat \<Rightarrow> int" where
  "as_isize n = sint (of_nat n :: 64 word)"

definition wrap_usize :: "panic_payload \<Rightarrow> nat closure \<Rightarrow> (c_world \<times> int) option" where
  "wrap_usize pl m = map_option (\<lambda>(w, v). (w, case v of Some n \<Rightarrow> as_isize n | None \<Rightarrow> - 1)) (catch_unwind pl m)"

definition take_last_error :: "c_world \<Rightarrow> c_world \<times> vm_error option" where
  "take_last_error w = (w\<lparr>c_error := None\<rparr>, c_error w)"

section \<open>Strings\<close>

record formatter =
  fm_ptr :: "u64 option"
  fm_len :: nat
  fm_written :: nat

definition non_null :: "u64 \<Rightarrow> u64 option" where
  "non_null p = (if p = 0 then None else Some p)"

definition formatter_new :: "u64 \<Rightarrow> nat \<Rightarrow> formatter" where
  "formatter_new ptr len =
     (if len \<noteq> 0 then \<lparr>fm_ptr = non_null ptr, fm_len = len - 1, fm_written = 0\<rparr>
      else \<lparr>fm_ptr = None, fm_len = 0, fm_written = 0\<rparr>)"

definition formatter_drop :: "formatter \<Rightarrow> c_mem \<Rightarrow> c_mem" where
  "formatter_drop self mem = (case fm_ptr self of Some ptr \<Rightarrow> mem(ptr := 0) | None \<Rightarrow> mem)"

text \<open>The end of the string is written, and once more when the formatter is dropped.\<close>

definition formatter_finish :: "formatter \<Rightarrow> c_mem \<Rightarrow> c_mem \<times> nat" where
  "formatter_finish self mem =
     (formatter_drop self (case fm_ptr self of Some ptr \<Rightarrow> mem(ptr := 0) | None \<Rightarrow> mem), fm_written self)"

text \<open>The result is whether the whole string was written.\<close>

definition write_str :: "u8 list \<Rightarrow> formatter \<times> c_mem \<Rightarrow> (formatter \<times> c_mem) \<times> bool" where
  "write_str bytes st =
     (case st of (self, mem) \<Rightarrow>
        case fm_ptr self of
          None \<Rightarrow> ((self, mem), True)
        | Some ptr \<Rightarrow>
            (let n = min (length bytes) (fm_len self) in
             ((\<lparr>fm_ptr = non_null (ptr + of_nat n), fm_len = fm_len self - n, fm_written = fm_written self + n\<rparr>,
               store_bytes mem ptr (take n bytes)), \<not> length bytes > n)))"

text \<open>\<open>fmt::write\<close> writes the pieces of a message up to the first error.\<close>

fun write_fmt :: "u8 list list \<Rightarrow> formatter \<times> c_mem \<Rightarrow> (formatter \<times> c_mem) \<times> bool" where
  "write_fmt [] st = (st, True)"
| "write_fmt (p # ps) st = (case write_str p st of (st, True) \<Rightarrow> write_fmt ps st | (st, False) \<Rightarrow> (st, False))"

text \<open>\<open>f\<close> acts on the formatter and the memory; on an error or a panic the formatter is dropped.\<close>

definition with_formatter ::
  "panic_payload \<Rightarrow> u64 \<Rightarrow> nat \<Rightarrow> (formatter \<times> c_mem \<Rightarrow> ((formatter \<times> c_mem) \<times> unit vm_result) option) \<Rightarrow> c_mem \<Rightarrow>
   (c_world \<times> int) option"
where
  "with_formatter pl ptr len f mem =
     wrap_usize pl (map_option (\<lambda>((fm, mem), r).
       case r of
         Ok u \<Rightarrow> (let (mem, n) = formatter_finish fm mem in (mem, Ok n))
       | Err e \<Rightarrow> (formatter_drop fm mem, Err e)
       | Panic \<Rightarrow> (formatter_drop fm mem, Panic)) (f (formatter_new ptr len, mem)))"

text \<open>A string that is read from the library, if any, and written.\<close>

definition write_outcome ::
  "string option outcome \<Rightarrow> formatter \<times> c_mem \<Rightarrow> ((formatter \<times> c_mem) \<times> unit vm_result) option"
where
  "write_outcome m st =
     map_option (\<lambda>r.
       case r of
         Ok (Some s) \<Rightarrow> (fst (write_str (str_bytes s) st), Ok ())
       | Ok None \<Rightarrow> (st, Ok ())
       | Err e \<Rightarrow> (st, Err e)
       | Panic \<Rightarrow> (st, Panic)) m"

text \<open>The pieces in which an error prints itself are \<open>pieces\<close>; the message is their concatenation.\<close>

definition print_error :: "(vm_error \<Rightarrow> u8 list list) \<Rightarrow> vm_error option \<Rightarrow> u64 \<Rightarrow> nat \<Rightarrow> c_mem \<Rightarrow> c_mem \<times> nat" where
  "print_error pieces err str max_len mem =
     (let ((fm, mem), _) = write_fmt (case err of Some err \<Rightarrow> pieces err | None \<Rightarrow> [str_bytes ''success'']) (formatter_new str max_len, mem)
      in formatter_finish fm mem)"

definition print_last_error :: "(vm_error \<Rightarrow> u8 list list) \<Rightarrow> u64 \<Rightarrow> nat \<Rightarrow> c_world \<Rightarrow> c_world \<times> nat" where
  "print_last_error pieces str max_len w =
     (let (mem, n) = print_error pieces (c_error w) str max_len (c_mem w) in (w\<lparr>c_mem := mem\<rparr>, n))"

definition error_print :: "(vm_error \<Rightarrow> u8 list list) \<Rightarrow> vm_error option \<Rightarrow> u64 \<Rightarrow> nat \<Rightarrow> c_world \<Rightarrow> c_world \<times> nat" where
  "error_print pieces err str max_len w =
     (let (mem, n) = print_error pieces err str max_len (c_mem w) in (w\<lparr>c_mem := mem\<rparr>, n))"

text \<open>\<open>CStr::from_ptr\<close>: the bytes before the first zero.\<close>

partial_function (option) c_str :: "c_mem \<Rightarrow> u64 \<Rightarrow> u8 list option" where
  "c_str mem p = (if mem p = 0 then Some [] else Option.bind (c_str mem (p + 1)) (\<lambda>bs. Some (mem p # bs)))"

definition error_with_message :: "vm_error \<Rightarrow> u64 \<Rightarrow> c_mem \<Rightarrow> vm_error option" where
  "error_with_message err ctx mem = map_option (\<lambda>s. vm_with_context (from_utf8_lossy s) (DynVm err)) (c_str mem ctx)"

definition error_missing_symbol :: "u64 \<Rightarrow> c_mem \<Rightarrow> vm_error option" where
  "error_missing_symbol name mem = map_option (\<lambda>s. missing_symbol (from_utf8_lossy s)) (c_str mem name)"

section \<open>Arrays\<close>

record c_array =
  ar_array :: "u64 option"
  ar_max_size :: nat
  ar_cursor :: nat

definition array_new :: "u64 \<Rightarrow> nat \<Rightarrow> c_array" where
  "array_new ptr max_size = \<lparr>ar_array = non_null ptr, ar_max_size = max_size, ar_cursor = 0\<rparr>"

text \<open>The cursor of an array without memory counts the values; it is a \<open>usize\<close>.\<close>

definition array_push :: "('a \<Rightarrow> u8 list) \<Rightarrow> ('a, c_array \<times> c_mem) callback" where
  "array_push enc val st =
     (case st of (self, mem) \<Rightarrow>
        case ar_array self of
          Some arr \<Rightarrow>
            if ar_cursor self < ar_max_size self then
              Some ((self\<lparr>ar_cursor := ar_cursor self + 1\<rparr>,
                store_bytes mem (arr + of_nat (ar_cursor self * length (enc val))) (enc val)), Ok Continue)
            else Some ((self, mem), Ok Break)
        | None \<Rightarrow>
            if ar_cursor self + 1 < 2 ^ 64 then Some ((self\<lparr>ar_cursor := ar_cursor self + 1\<rparr>, mem), Ok Continue)
            else Some ((self, mem), Panic))"

text \<open>The elements are plain data, for which the drop of the array does nothing.\<close>

definition fill ::
  "panic_payload \<Rightarrow> u64 \<Rightarrow> nat \<Rightarrow> (c_array \<times> c_mem \<Rightarrow> ((c_array \<times> c_mem) \<times> unit vm_result) option) \<Rightarrow> c_mem \<Rightarrow>
   (c_world \<times> int) option"
where
  "fill pl ptr max_size f mem =
     wrap_usize pl (map_option (\<lambda>((arr, mem), r). (mem, map_ok (\<lambda>u. ar_cursor arr) r)) (f (array_new ptr max_size, mem)))"

definition fill_from :: "panic_payload \<Rightarrow> ('a \<Rightarrow> u8 list) \<Rightarrow> 'a trace \<Rightarrow> u64 \<Rightarrow> nat \<Rightarrow> c_world \<Rightarrow> (c_world \<times> int) option" where
  "fill_from pl enc t ptr n w = fill pl ptr n (for_each (array_push enc) t) (c_mem w)"

section \<open>Operating systems\<close>

text \<open>The structures \<open>Process\<close>, \<open>Module\<close>, \<open>Thread\<close> and \<open>Vma\<close> have one address, \<open>StackFrame\<close> two.\<close>

definition enc_handle :: "u64 \<Rightarrow> u8 list" where
  "enc_handle a = to_le_bytes 8 a"

definition enc_frame :: "stack_frame \<Rightarrow> u8 list" where
  "enc_frame f = to_le_bytes 8 (frame_ip f) @ to_le_bytes 8 (frame_sp f)"

definition in_mem :: "c_world \<Rightarrow> 'a outcome \<Rightarrow> 'a closure" where
  "in_mem w m = map_option (\<lambda>r. (c_mem w, r)) m"

text \<open>A read into the buffer of the caller.\<close>

definition c_read :: "panic_payload \<Rightarrow> os_read \<Rightarrow> u64 \<Rightarrow> u64 \<Rightarrow> nat \<Rightarrow> c_world \<Rightarrow> (c_world \<times> int) option" where
  "c_read pl rd addr ptr n w =
     wrap_unit pl (map_option (\<lambda>(bf, r). (store_bytes (c_mem w) ptr bf, r)) (rd addr (load_bytes (c_mem w) ptr n)))"

definition c_read_virtual_memory ::
  "panic_payload \<Rightarrow> ('r, 's, 'o) os \<Rightarrow> u64 \<Rightarrow> u64 \<Rightarrow> u64 \<Rightarrow> nat \<Rightarrow> c_world \<Rightarrow> (c_world \<times> int) option"
where
  "c_read_virtual_memory pl self mmu_addr addr ptr n w = c_read pl (os_read_virtual_memory self mmu_addr) addr ptr n w"

definition c_try_read_virtual_memory ::
  "panic_payload \<Rightarrow> ('r, 's, 'o) os \<Rightarrow> u64 \<Rightarrow> u64 \<Rightarrow> u64 \<Rightarrow> nat \<Rightarrow> c_world \<Rightarrow> (c_world \<times> int) option"
where
  "c_try_read_virtual_memory pl self mmu_addr addr ptr n w = c_read pl (os_try_read_virtual_memory self mmu_addr) addr ptr n w"

definition c_read_process_memory ::
  "panic_payload \<Rightarrow> ('r, 's, 'o) os \<Rightarrow> u64 \<Rightarrow> u64 \<Rightarrow> u64 \<Rightarrow> u64 \<Rightarrow> nat \<Rightarrow> c_world \<Rightarrow> (c_world \<times> int) option"
where
  "c_read_process_memory pl self mmu_addr addr proc ptr n w =
     c_read pl (os_read_process_memory self proc mmu_addr) addr ptr n w"

definition c_try_read_process_memory ::
  "panic_payload \<Rightarrow> ('r, 's, 'o) os \<Rightarrow> u64 \<Rightarrow> u64 \<Rightarrow> u64 \<Rightarrow> u64 \<Rightarrow> nat \<Rightarrow> c_world \<Rightarrow> (c_world \<times> int) option"
where
  "c_try_read_process_memory pl self mmu_addr addr proc ptr n w =
     c_read pl (os_try_read_process_memory self proc mmu_addr) addr ptr n w"

type_synonym ('r, 's, 'o) c_getter = "panic_payload \<Rightarrow> ('r, 's, 'o) os \<Rightarrow> u64 \<Rightarrow> u64 \<Rightarrow> c_world \<Rightarrow> (c_world \<times> int) option"

definition os_current_process :: "panic_payload \<Rightarrow> ('r, 's, 'o) os \<Rightarrow> nat \<Rightarrow> u64 \<Rightarrow> c_world \<Rightarrow> (c_world \<times> int) option" where
  "os_current_process pl self vcpu res w = wrap pl enc_handle res (in_mem w (current_process self vcpu))"

definition os_current_thread :: "panic_payload \<Rightarrow> ('r, 's, 'o) os \<Rightarrow> nat \<Rightarrow> u64 \<Rightarrow> c_world \<Rightarrow> (c_world \<times> int) option" where
  "os_current_thread pl self vcpu res w = wrap pl enc_handle res (in_mem w (current_thread self vcpu))"

definition c_process_id :: "('r, 's, 'o) c_getter" where
  "c_process_id pl self proc res w = wrap pl enc_handle res (in_mem w (process_id self proc))"

definition c_process_pgd :: "('r, 's, 'o) c_getter" where
  "c_process_pgd pl self proc res w = wrap pl enc_handle res (in_mem w (process_pgd self proc))"

definition c_process_parent :: "('r, 's, 'o) c_getter" where
  "c_process_parent pl self proc res w = wrap pl enc_handle res (in_mem w (process_parent self proc))"

definition c_thread_id :: "('r, 's, 'o) c_getter" where
  "c_thread_id pl self thr res w = wrap pl enc_handle res (in_mem w (thread_id self thr))"

definition c_thread_process :: "('r, 's, 'o) c_getter" where
  "c_thread_process pl self thr res w = wrap pl enc_handle res (in_mem w (thread_process self thr))"

definition c_vma_start :: "('r, 's, 'o) c_getter" where
  "c_vma_start pl self v res w = wrap pl enc_handle res (in_mem w (vma_start self v))"

definition c_vma_end :: "('r, 's, 'o) c_getter" where
  "c_vma_end pl self v res w = wrap pl enc_handle res (in_mem w (vma_end self v))"

definition c_module_start :: "panic_payload \<Rightarrow> ('r, 's, 'o) os \<Rightarrow> u64 \<Rightarrow> u64 \<Rightarrow> u64 \<Rightarrow> c_world \<Rightarrow> (c_world \<times> int) option" where
  "c_module_start pl self m proc res w = wrap pl enc_handle res (in_mem w (out_map fst (module_span self m proc)))"

definition c_module_end :: "panic_payload \<Rightarrow> ('r, 's, 'o) os \<Rightarrow> u64 \<Rightarrow> u64 \<Rightarrow> u64 \<Rightarrow> c_world \<Rightarrow> (c_world \<times> int) option" where
  "c_module_end pl self m proc res w = wrap pl enc_handle res (in_mem w (out_map snd (module_span self m proc)))"

type_synonym ('r, 's, 'o) c_filler =
  "panic_payload \<Rightarrow> ('r, 's, 'o) os \<Rightarrow> u64 \<Rightarrow> u64 \<Rightarrow> nat \<Rightarrow> c_world \<Rightarrow> (c_world \<times> int) option"

definition os_processes :: "panic_payload \<Rightarrow> ('r, 's, 'o) os \<Rightarrow> u64 \<Rightarrow> nat \<Rightarrow> c_world \<Rightarrow> (c_world \<times> int) option" where
  "os_processes pl self ptr n w = fill_from pl enc_handle (for_each_process self) ptr n w"

definition c_process_vmas :: "('r, 's, 'o) c_filler" where
  "c_process_vmas pl self proc ptr n w = fill_from pl enc_handle (process_for_each_vma self proc) ptr n w"

definition c_process_threads :: "('r, 's, 'o) c_filler" where
  "c_process_threads pl self proc ptr n w = fill_from pl enc_handle (process_for_each_thread self proc) ptr n w"

definition c_process_children :: "('r, 's, 'o) c_filler" where
  "c_process_children pl self proc ptr n w = fill_from pl enc_handle (process_for_each_child self proc) ptr n w"

definition c_process_modules :: "('r, 's, 'o) c_filler" where
  "c_process_modules pl self proc ptr n w = fill_from pl enc_handle (process_for_each_module self proc) ptr n w"

definition c_process_callstack :: "('r, 's, 'o) c_filler" where
  "c_process_callstack pl self proc ptr n w = fill_from pl enc_frame (process_callstack self proc) ptr n w"

definition c_process_name :: "('r, 's, 'o) c_filler" where
  "c_process_name pl self proc ptr n w = with_formatter pl ptr n (write_outcome (out_map Some (process_name self proc))) (c_mem w)"

definition c_process_path :: "('r, 's, 'o) c_filler" where
  "c_process_path pl self proc ptr n w = with_formatter pl ptr n (write_outcome (process_path self proc)) (c_mem w)"

definition c_thread_name :: "('r, 's, 'o) c_filler" where
  "c_thread_name pl self thr ptr n w = with_formatter pl ptr n (write_outcome (thread_name self thr)) (c_mem w)"

definition c_vma_path :: "('r, 's, 'o) c_filler" where
  "c_vma_path pl self v ptr n w = with_formatter pl ptr n (write_outcome (vma_path self v)) (c_mem w)"

definition c_module_name ::
  "panic_payload \<Rightarrow> ('r, 's, 'o) os \<Rightarrow> u64 \<Rightarrow> u64 \<Rightarrow> u64 \<Rightarrow> nat \<Rightarrow> c_world \<Rightarrow> (c_world \<times> int) option"
where
  "c_module_name pl self m proc ptr n w =
     with_formatter pl ptr n (write_outcome (out_map Some (os_module_name self m proc))) (c_mem w)"

definition c_module_path ::
  "panic_payload \<Rightarrow> ('r, 's, 'o) os \<Rightarrow> u64 \<Rightarrow> u64 \<Rightarrow> u64 \<Rightarrow> nat \<Rightarrow> c_world \<Rightarrow> (c_world \<times> int) option"
where
  "c_module_path pl self m proc ptr n w =
     with_formatter pl ptr n (write_outcome (out_map Some (os_module_path self m proc))) (c_mem w)"

definition c_resolve_symbol ::
  "panic_payload \<Rightarrow> ('r, 's, 'o) os \<Rightarrow> u64 \<Rightarrow> u64 \<Rightarrow> u64 \<Rightarrow> nat \<Rightarrow> c_world \<Rightarrow> (c_world \<times> int) option"
where
  "c_resolve_symbol pl self proc addr ptr n w =
     with_formatter pl ptr n (write_outcome (out_map (map_option fst) (resolve_symbol self addr proc))) (c_mem w)"

section \<open>Creating an operating system\<close>

text \<open>
  The two implementations of \<open>Buildable\<close> are given by their quick check and their construction; the result is the
  boxed \<open>dyn Os\<close>.
\<close>

record ('b, 'm, 'l, 'os) buildable =
  bd_quick_check :: "'b \<Rightarrow> ('m, 'l) os_builder option outcome"
  bd_build :: "'b \<Rightarrow> ('m, 'l) os_builder \<Rightarrow> 'os outcome"

definition native_os_new ::
  "('b, 'm, 'l, 'os) buildable \<Rightarrow> ('b, 'm, 'l, 'os) buildable \<Rightarrow> 'b \<Rightarrow> 'm \<Rightarrow> 'os outcome"
where
  "native_os_new lnx win backend symbols =
     out_then (bd_quick_check lnx backend) (\<lambda>builder.
       case builder of
         Some builder \<Rightarrow> bd_build lnx backend (with_symbols symbols builder)
       | None \<Rightarrow>
           out_then (bd_quick_check win backend) (\<lambda>builder.
             case builder of
               Some builder \<Rightarrow> bd_build win backend (with_symbols symbols builder)
             | None \<Rightarrow> Some (Err (vm_of_str ''Failed to guess host OS''))))"

definition os_new ::
  "panic_payload \<Rightarrow> 'm \<Rightarrow> ('b, 'm, 'l, 'os) buildable \<Rightarrow> ('b, 'm, 'l, 'os) buildable \<Rightarrow> 'b \<Rightarrow> 'm option \<Rightarrow> c_world \<Rightarrow>
   (c_world \<times> 'os option) option"
where
  "os_new pl new_syms lnx win backend symbols w =
     wrap_box pl (in_mem w (native_os_new lnx win backend (case symbols of Some s \<Rightarrow> s | None \<Rightarrow> new_syms)))"

text \<open>The constructors of one system; \<open>create\<close> is \<open>Linux::create\<close> or \<open>Windows::create\<close>.\<close>

definition os_new_of ::
  "panic_payload \<Rightarrow> 'm \<Rightarrow> ('b \<Rightarrow> 'm \<Rightarrow> 'os outcome) \<Rightarrow> 'b \<Rightarrow> 'm option \<Rightarrow> c_world \<Rightarrow> (c_world \<times> 'os option) option"
where
  "os_new_of pl new_syms create backend symbols w =
     wrap_box pl (in_mem w (create backend (case symbols of Some s \<Rightarrow> s | None \<Rightarrow> new_syms)))"

section \<open>Symbols\<close>

text \<open>The object \<open>Symbols\<close> is changed in place, so that the functions return it.\<close>

definition symbols_load ::
  "panic_payload \<Rightarrow> ('m \<times> unit vm_result) option \<Rightarrow> c_world \<Rightarrow> ('m \<times> c_world \<times> int) option"
where
  "symbols_load pl m w =
     Option.bind m (\<lambda>(self, r). map_option (Pair self) (wrap_unit pl (Some (c_mem w, r))))"

text \<open>A path of the caller: \<open>to_str\<close> fails with the message \<open>utf8_error\<close>.\<close>

definition c_path :: "(u8 list \<Rightarrow> string) \<Rightarrow> c_mem \<Rightarrow> u64 \<Rightarrow> string outcome" where
  "c_path utf8_error mem p =
     map_option (\<lambda>bs. case from_utf8 bs of Some s \<Rightarrow> Ok s | None \<Rightarrow> Err (vm_of_str (utf8_error bs))) (c_str mem p)"

definition with_path :: "'m \<Rightarrow> string outcome \<Rightarrow> (string \<Rightarrow> 'm \<times> unit vm_result) \<Rightarrow> ('m \<times> unit vm_result) option" where
  "with_path self path f =
     map_option (\<lambda>r. case r of Ok s \<Rightarrow> f s | Err e \<Rightarrow> (self, Err e) | Panic \<Rightarrow> (self, Panic)) path"

definition symbols_load_from_bytes ::
  "panic_payload \<Rightarrow> (u8 list \<Rightarrow> string) \<Rightarrow> 'm try_insert \<Rightarrow> sorts \<Rightarrow> loaders \<Rightarrow> 'm \<Rightarrow> u64 \<Rightarrow> u64 \<Rightarrow> nat \<Rightarrow> c_world \<Rightarrow>
   ('m \<times> c_world \<times> int) option"
where
  "symbols_load_from_bytes pl utf8_error try_insert srt ld self name content len w =
     symbols_load pl (with_path self (c_path utf8_error (c_mem w) name) (\<lambda>name.
       apsnd (map_ok (\<lambda>m. ())) (load_from_bytes try_insert srt True ld self name (load_bytes (c_mem w) content len)))) w"

text \<open>\<open>path_of\<close> and \<open>dir_of\<close> are the file and the directory at a path.\<close>

definition symbols_load_from_file ::
  "panic_payload \<Rightarrow> (u8 list \<Rightarrow> string) \<Rightarrow> 'm try_insert \<Rightarrow> sorts \<Rightarrow> loaders \<Rightarrow> (string \<Rightarrow> file_path) \<Rightarrow> 'm \<Rightarrow> u64 \<Rightarrow>
   c_world \<Rightarrow> ('m \<times> c_world \<times> int) option"
where
  "symbols_load_from_file pl utf8_error try_insert srt ld path_of self path w =
     symbols_load pl (with_path self (c_path utf8_error (c_mem w) path) (\<lambda>path.
       apsnd (map_ok (\<lambda>m. ())) (load_from_file_inner try_insert srt ld self (path_of path)))) w"

definition symbols_load_dir ::
  "panic_payload \<Rightarrow> (u8 list \<Rightarrow> string) \<Rightarrow> 'm try_insert \<Rightarrow> sorts \<Rightarrow> loaders \<Rightarrow>
   (string \<Rightarrow> ((file_path, io_error) result list, io_error) result) \<Rightarrow> 'm \<Rightarrow> u64 \<Rightarrow> c_world \<Rightarrow> ('m \<times> c_world \<times> int) option"
where
  "symbols_load_dir pl utf8_error try_insert srt ld dir_of self path w =
     symbols_load pl (with_path self (c_path utf8_error (c_mem w) path) (\<lambda>path.
       load_dir_inner try_insert srt ld (dir_of path) self)) w"

end
