(* ===== verification/Vm_Native_Arch.thy ===== *)
theory Vm_Native_Arch
  imports Vm_Dump_Laws
begin

text \<open>
  The structures of the registers in the C interface (\<^verbatim>\<open>native/src/arch.rs\<close>). A backend that is made of C functions
  returns them, and the library casts their bytes to its own structures; the cast keeps every register under its name.
\<close>

section \<open>Structures\<close>

record c_registers =
  c_rax :: u64
  c_rbx :: u64
  c_rcx :: u64
  c_rdx :: u64
  c_rsi :: u64
  c_rdi :: u64
  c_rsp :: u64
  c_rbp :: u64
  c_r8 :: u64
  c_r9 :: u64
  c_r10 :: u64
  c_r11 :: u64
  c_r12 :: u64
  c_r13 :: u64
  c_r14 :: u64
  c_r15 :: u64
  c_rip :: u64
  c_rflags :: u64

record c_segment =
  cs_base :: u64
  cs_limit :: u32
  cs_selector :: u16
  cs_type :: u8
  cs_present :: u8
  cs_dpl :: u8
  cs_db :: u8
  cs_s :: u8
  cs_l :: u8
  cs_g :: u8
  cs_avl :: u8
  cs_unusable :: u8
  cs_padding :: u8

record c_dtable =
  cd_base :: u64
  cd_limit :: u16
  cd_padding :: "u16 list"

record c_special =
  c_cs :: c_segment
  c_ds :: c_segment
  c_es :: c_segment
  c_fs :: c_segment
  c_gs :: c_segment
  c_ss :: c_segment
  c_tr :: c_segment
  c_ldt :: c_segment
  c_gdt :: c_dtable
  c_idt :: c_dtable
  c_cr0 :: u64
  c_cr2 :: u64
  c_cr3 :: u64
  c_cr4 :: u64
  c_cr8 :: u64
  c_efer :: u64
  c_apic_base :: u64
  c_interrupt_bitmap :: "u64 list"

record c_other =
  c_lstar :: u64
  c_gs_kernel_base :: u64

text \<open>Their bytes.\<close>

definition enc_c_registers :: "c_registers \<Rightarrow> u8 list" where
  "enc_c_registers r =
     enc_u64s [c_rax r, c_rbx r, c_rcx r, c_rdx r, c_rsi r, c_rdi r, c_rsp r, c_rbp r, c_r8 r, c_r9 r, c_r10 r, c_r11 r, c_r12 r,
       c_r13 r, c_r14 r, c_r15 r, c_rip r, c_rflags r]"

definition enc_c_segment :: "c_segment \<Rightarrow> u8 list" where
  "enc_c_segment s = to_le_bytes 8 (cs_base s) @ to_le_bytes 4 (cs_limit s) @ to_le_bytes 2 (cs_selector s) @
     [cs_type s, cs_present s, cs_dpl s, cs_db s, cs_s s, cs_l s, cs_g s, cs_avl s, cs_unusable s, cs_padding s]"

definition enc_c_dtable :: "c_dtable \<Rightarrow> u8 list" where
  "enc_c_dtable d = to_le_bytes 8 (cd_base d) @ to_le_bytes 2 (cd_limit d) @ concat (map (to_le_bytes 2) (cd_padding d))"

definition enc_c_special :: "c_special \<Rightarrow> u8 list" where
  "enc_c_special r =
     concat (map enc_c_segment [c_cs r, c_ds r, c_es r, c_fs r, c_gs r, c_ss r, c_tr r, c_ldt r]) @
     concat (map enc_c_dtable [c_gdt r, c_idt r]) @
     enc_u64s ([c_cr0 r, c_cr2 r, c_cr3 r, c_cr4 r, c_cr8 r, c_efer r, c_apic_base r] @ c_interrupt_bitmap r)"

definition enc_c_other :: "c_other \<Rightarrow> u8 list" where
  "enc_c_other r = enc_u64s [c_lstar r, c_gs_kernel_base r]"

text \<open>\<open>bytemuck::cast\<close> to the structures of the library.\<close>

definition cast_c_registers :: "c_registers \<Rightarrow> x86_registers" where
  "cast_c_registers r = dec_x86_registers (enc_c_registers r)"

definition cast_c_special :: "c_special \<Rightarrow> x86_special_registers" where
  "cast_c_special r = dec_x86_special (enc_c_special r)"

definition cast_c_other :: "c_other \<Rightarrow> x86_other_registers" where
  "cast_c_other r = dec_x86_other (enc_c_other r)"

section \<open>The cast keeps the names\<close>

definition c_special_wf :: "c_special \<Rightarrow> bool" where
  "c_special_wf r \<longleftrightarrow> length (cd_padding (c_gdt r)) = 3 \<and> length (cd_padding (c_idt r)) = 3 \<and> length (c_interrupt_bitmap r) = 4"

definition c_as_x86_registers :: "c_registers \<Rightarrow> x86_registers" where
  "c_as_x86_registers r =
     \<lparr>rax = c_rax r, rbx = c_rbx r, rcx = c_rcx r, rdx = c_rdx r, rsi = c_rsi r, rdi = c_rdi r, rsp = c_rsp r, rbp = c_rbp r,
      r8 = c_r8 r, r9 = c_r9 r, r10 = c_r10 r, r11 = c_r11 r, r12 = c_r12 r, r13 = c_r13 r, r14 = c_r14 r, r15 = c_r15 r,
      rip = c_rip r, rflags = c_rflags r\<rparr>"

definition c_as_segment :: "c_segment \<Rightarrow> segment" where
  "c_as_segment s =
     \<lparr>seg_base = cs_base s, seg_limit = cs_limit s, seg_selector = cs_selector s, seg_type = cs_type s, seg_present = cs_present s,
      seg_dpl = cs_dpl s, seg_db = cs_db s, seg_s = cs_s s, seg_l = cs_l s, seg_g = cs_g s, seg_avl = cs_avl s,
      seg_unusable = cs_unusable s, seg_padding = cs_padding s\<rparr>"

definition c_as_dtable :: "c_dtable \<Rightarrow> dtable" where
  "c_as_dtable d = \<lparr>dt_base = cd_base d, dt_limit = cd_limit d, dt_padding = cd_padding d\<rparr>"

definition c_as_x86_special :: "c_special \<Rightarrow> x86_special_registers" where
  "c_as_x86_special r =
     \<lparr>sr_cs = c_as_segment (c_cs r), sr_ds = c_as_segment (c_ds r), sr_es = c_as_segment (c_es r), sr_fs = c_as_segment (c_fs r),
      sr_gs = c_as_segment (c_gs r), sr_ss = c_as_segment (c_ss r), sr_tr = c_as_segment (c_tr r), sr_ldt = c_as_segment (c_ldt r),
      sr_gdt = c_as_dtable (c_gdt r), sr_idt = c_as_dtable (c_idt r), cr0 = c_cr0 r, cr2 = c_cr2 r, cr3 = c_cr3 r, cr4 = c_cr4 r,
      cr8 = c_cr8 r, efer = c_efer r, apic_base = c_apic_base r, interrupt_bitmap = c_interrupt_bitmap r\<rparr>"

lemma enc_c_as_x86: "enc_x86_registers (c_as_x86_registers r) = enc_c_registers r"
  by (simp add: enc_x86_registers_def c_as_x86_registers_def enc_c_registers_def del: enc_u64s_Cons)

lemma enc_c_as_special: "enc_x86_special (c_as_x86_special r) = enc_c_special r"
  by (simp add: enc_x86_special_def c_as_x86_special_def enc_c_special_def enc_segment_def c_as_segment_def enc_c_segment_def
      enc_dtable_def c_as_dtable_def enc_c_dtable_def)

lemma c_special_wf_as: "c_special_wf r \<Longrightarrow> x86_special_wf (c_as_x86_special r)"
  by (simp add: c_special_wf_def x86_special_wf_def c_as_x86_special_def c_as_dtable_def)

lemma c_cast_fields:
  "cast_c_registers r = c_as_x86_registers r"
  "c_special_wf s \<Longrightarrow> cast_c_special s = c_as_x86_special s"
  "cast_c_other o' = \<lparr>lstar = c_lstar o', gs_kernel_base = c_gs_kernel_base o'\<rparr>"
  using dec_x86_registers [of "c_as_x86_registers r"] dec_x86_special [OF c_special_wf_as, of s] 
    dec_x86_other [of "\<lparr>lstar = c_lstar o', gs_kernel_base = c_gs_kernel_base o'\<rparr>"]
  by (simp_all add: enc_c_as_x86 enc_c_as_special cast_c_registers_def cast_c_special_def cast_c_other_def enc_c_other_def enc_x86_other_def)

text \<open>The sizes of the structures, which the code checks when it is compiled.\<close>

lemma c_structure_sizes:
  "length (enc_c_registers r) = length (enc_x86_registers (c_as_x86_registers r))"
  "length (enc_c_special s) = length (enc_x86_special (c_as_x86_special s))"
  "length (enc_c_other o') = 16"
  by (simp_all add: enc_c_as_x86 enc_c_as_special enc_c_other_def)

end
