(* ===== verification/Vm_Native_Backend.thy ===== *)
theory Vm_Native_Backend
  imports Vm_Native Vm_Native_Arch Vm_Kvm
begin

text \<open>
  Backends, loggers and allocators that are given by C functions (\<^verbatim>\<open>native/src/backend.rs\<close>, \<^verbatim>\<open>logging.rs\<close> and
  \<^verbatim>\<open>allocator.rs\<close>). A callback is a function of the arguments that the library passes, besides \<open>data\<close>, to its effect:
  a callback with a buffer returns the new content of the buffer and its result. A callback may be missing.
\<close>

section \<open>Backends\<close>

record x86_64_backend =
  cb_memory_mappings :: "memory_map list option"
  cb_read_physical_memory :: "(physical_address \<Rightarrow> buf \<Rightarrow> buf \<times> int) option"
  cb_read_virtual_memory :: "(physical_address \<Rightarrow> virtual_address \<Rightarrow> buf \<Rightarrow> buf \<times> int) option"
  cb_vcpus_count :: nat
  cb_registers :: "(nat \<Rightarrow> c_registers) option"
  cb_special_registers :: "(nat \<Rightarrow> c_special) option"
  cb_other_registers :: "(nat \<Rightarrow> c_other) option"
  cb_registers_by_name :: "(nat \<Rightarrow> u8 list \<Rightarrow> u64 \<Rightarrow> u64 \<times> int) option"

definition cb_mappings :: "x86_64_backend \<Rightarrow> memory_map list" where
  "cb_mappings self = (case cb_memory_mappings self of Some maps \<Rightarrow> maps | None \<Rightarrow> [])"

text \<open>A positive result is an OS error, but only with \<open>std\<close>.\<close>

definition cb_result :: "bool \<Rightarrow> int \<Rightarrow> (unit, memory_access_error) result" where
  "cb_result std res = (if res = 0 then Ok () else if std \<and> res > 0 then Err (MemIo (IoOs res)) else Err OutOfBounds)"

definition cb_read_physical :: "bool \<Rightarrow> x86_64_backend \<Rightarrow> physical_address \<Rightarrow> buf \<Rightarrow> buf \<times> unit memory_access_result" where
  "cb_read_physical std self addr bf =
     (case cb_read_physical_memory self of
        Some rd \<Rightarrow> (let (bf', res) = rd addr bf in (bf', cb_result std res))
      | None \<Rightarrow> (bf, Err MemUnsupported))"

definition cb_memory :: "bool \<Rightarrow> x86_64_backend \<Rightarrow> memory" where
  "cb_memory std self = with_defaults (cb_mappings self) (cb_read_physical std self)"

text \<open>\<open>cast\<close> casts the structure of the callback to the one of the library.\<close>

definition cb_get_regs :: "x86_64_backend \<Rightarrow> ('c \<Rightarrow> 'a) \<Rightarrow> (nat \<Rightarrow> 'c) option \<Rightarrow> nat \<Rightarrow> 'a vcpu_result" where
  "cb_get_regs self cast cb vcpu =
     (if vcpu \<ge> cb_vcpus_count self then Err InvalidId
      else case cb of Some f \<Rightarrow> Ok (cast (f vcpu)) | None \<Rightarrow> Err VcpuUnsupported)"

definition cb_vcpu_regs :: "x86_64_backend \<Rightarrow> (x86_registers, x86_special_registers, x86_other_registers) vcpu_regs" where
  "cb_vcpu_regs self =
     \<lparr>vcpus_count = cb_vcpus_count self,
      registers = cb_get_regs self cast_c_registers (cb_registers self),
      special_registers = cb_get_regs self cast_c_special (cb_special_registers self),
      other_registers = cb_get_regs self cast_c_other (cb_other_registers self)\<rparr>"

text \<open>A name with a zero byte cannot be passed.\<close>

definition cb_register_by_name ::
  "(u8 list \<Rightarrow> finder) \<Rightarrow> x86_64_backend \<Rightarrow> nat \<Rightarrow> string \<Rightarrow> u64 vcpu_result"
where
  "cb_register_by_name new_finder self vcpu name =
     (case cb_registers_by_name self of
        Some by_name \<Rightarrow>
          if 0 \<in> set (str_bytes name) then Err UnknownRegister
          else (let (reg, res) = by_name vcpu (str_bytes name) 0 in if res = 0 then Ok reg else Err UnknownRegister)
      | None \<Rightarrow> arch_register_by_name (x86_64_arch new_finder) (cb_vcpu_regs self) vcpu name)"

definition cb_vcpus ::
  "(u8 list \<Rightarrow> finder) \<Rightarrow> x86_64_backend \<Rightarrow> (x86_registers, x86_special_registers, x86_other_registers) vcpus"
where
  "cb_vcpus new_finder self =
     (default_vcpus (x86_64_arch new_finder) (cb_vcpu_regs self))\<lparr>register_by_name := cb_register_by_name new_finder self\<rparr>"

definition cb_read_virtual ::
  "bool \<Rightarrow> (u8 list \<Rightarrow> finder) \<Rightarrow> x86_64_backend \<Rightarrow> physical_address \<Rightarrow> translation_error page_read"
where
  "cb_read_virtual std new_finder self mmu_addr addr bf =
     (case cb_read_virtual_memory self of
        Some rd \<Rightarrow> (let (bf', res) = rd mmu_addr addr bf in (bf', map_err TMemory (cb_result std res)))
      | None \<Rightarrow>
          default_read_virtual_memory (arch_virtual_to_physical (x86_64_arch new_finder) (cb_memory std self))
            (cb_memory std self) mmu_addr addr bf)"

definition cb_backend ::
  "bool \<Rightarrow> (u8 list \<Rightarrow> finder) \<Rightarrow> x86_64_backend \<Rightarrow> (x86_registers, x86_special_registers, x86_other_registers) backend"
where
  "cb_backend std new_finder self =
     (default_backend (cb_memory std self) (cb_vcpus new_finder self) (x86_64_arch new_finder))
       \<lparr>be_read_virtual_memory := cb_read_virtual std new_finder self\<rparr>"

text \<open>The boxed backend; \<open>into_r\<close>, \<open>into_s\<close> and \<open>into_o\<close> make runtime registers of those of the backend.\<close>

definition backend_new ::
  "(u8 list \<Rightarrow> finder) \<Rightarrow> ('r \<Rightarrow> runtime_registers) \<Rightarrow> ('s \<Rightarrow> runtime_special) \<Rightarrow> ('o \<Rightarrow> runtime_other) \<Rightarrow> ('r, 's, 'o) backend \<Rightarrow>
   (runtime_registers, runtime_special, runtime_other) backend"
where
  "backend_new new_finder into_r into_s into_o backend = arc_backend (runtime_backend new_finder into_r into_s into_o backend)"

definition backend_make ::
  "bool \<Rightarrow> (u8 list \<Rightarrow> finder) \<Rightarrow> x86_64_backend \<Rightarrow> (runtime_registers, runtime_special, runtime_other) backend"
where
  "backend_make std new_finder backend =
     backend_new new_finder RegsX86 SpecialX86 OtherX86 (cb_backend std new_finder backend)"

text \<open>\<open>connect\<close> is \<open>Kvm::connect\<close> for the process, \<open>into\<close> the boxed backend.\<close>

definition c_kvm_connect :: "panic_payload \<Rightarrow> ('k \<Rightarrow> 'b) \<Rightarrow> (int \<Rightarrow> 'k outcome) \<Rightarrow> int \<Rightarrow> c_world \<Rightarrow> (c_world \<times> 'b option) option" where
  "c_kvm_connect pl into connect pid w = wrap_box pl (in_mem w (out_map into (connect pid)))"

definition c_read_dump ::
  "panic_payload \<Rightarrow> (u8 list \<Rightarrow> string) \<Rightarrow> (string \<Rightarrow> 'd vm_result) \<Rightarrow> ('d \<Rightarrow> 'b) \<Rightarrow> u64 \<Rightarrow> c_world \<Rightarrow> (c_world \<times> 'b option) option"
where
  "c_read_dump pl utf8_error read_dump into path w =
     wrap_box pl (in_mem w (out_then (c_path utf8_error (c_mem w) path) (\<lambda>path. Some (map_ok into (read_dump path)))))"

section \<open>Loggers\<close>

datatype log_level = LogLevelError | LogLevelWarn | LogLevelInfo | LogLevelDebug | LogLevelTrace

datatype level = LError | LWarn | LInfo | LDebug | LTrace

fun log_level_of :: "level \<Rightarrow> log_level" where
  "log_level_of LError = LogLevelError"
| "log_level_of LWarn = LogLevelWarn"
| "log_level_of LInfo = LogLevelInfo"
| "log_level_of LDebug = LogLevelDebug"
| "log_level_of LTrace = LogLevelTrace"

text \<open>The strings of a record are the bytes at its pointers; a null pointer is \<open>None\<close>.\<close>

record log_record =
  lr_level :: log_level
  lr_message :: "u8 list"
  lr_target :: "u8 list"
  lr_file :: "u8 list option"
  lr_line :: u32

text \<open>A record of the crate \<open>log\<close>; \<open>rec_args\<close> is what formatting gives and whether it succeeded.\<close>

record raw_record =
  rec_level :: level
  rec_args :: "string \<times> bool"
  rec_target :: string
  rec_file :: "string option"
  rec_line :: "u32 option"

record 'd logger =
  lg_enabled :: "('d \<Rightarrow> log_level \<Rightarrow> int) option"
  lg_log :: "('d \<Rightarrow> log_record \<Rightarrow> 'd) option"
  lg_flush :: "('d \<Rightarrow> 'd) option"

definition logger_enabled :: "'d logger \<Rightarrow> 'd \<Rightarrow> level \<Rightarrow> bool" where
  "logger_enabled self d lv = (case lg_enabled self of Some enabled \<Rightarrow> enabled d (log_level_of lv) \<noteq> 0 | None \<Rightarrow> True)"

definition logger_log :: "'d logger \<Rightarrow> 'd \<Rightarrow> raw_record \<Rightarrow> 'd" where
  "logger_log self d r =
     (case lg_log self of
        None \<Rightarrow> d
      | Some log \<Rightarrow>
          (let (message, res) = rec_args r in
           if \<not> res \<and> message = [] then d
           else log d
             \<lparr>lr_level = log_level_of (rec_level r), lr_message = str_bytes message @ [0],
              lr_target = str_bytes (rec_target r) @ [0],
              lr_file = map_option (\<lambda>f. str_bytes f @ [0]) (rec_file r),
              lr_line = (case rec_line r of Some n \<Rightarrow> n | None \<Rightarrow> 0)\<rparr>))"

definition logger_flush :: "'d logger \<Rightarrow> 'd \<Rightarrow> 'd" where
  "logger_flush self d = (case lg_flush self of Some flush \<Rightarrow> flush d | None \<Rightarrow> d)"

text \<open>
  Installing a logger. \<open>'g\<close> is the state of the crate \<open>log\<close>, with its functions \<open>set_max_level\<close>, here for the level that lets
  every record pass, and \<open>set_logger\<close>, which says whether it succeeded. \<open>try_init\<close> is the one of the crate \<open>env_logger\<close>.
\<close>

definition set_logger :: "('g \<Rightarrow> 'g) \<Rightarrow> ('d logger \<Rightarrow> 'g \<Rightarrow> 'g \<times> bool) \<Rightarrow> 'd logger \<Rightarrow> 'g \<Rightarrow> 'g \<times> bool" where
  "set_logger set_max_level_trace log_set_logger l g = log_set_logger l (set_max_level_trace g)"

definition set_default_logger :: "('g \<Rightarrow> 'g \<times> (unit, 'e) result) \<Rightarrow> 'g \<Rightarrow> 'g \<times> bool" where
  "set_default_logger try_init g = (case try_init g of (g, r) \<Rightarrow> (g, case r of Ok u \<Rightarrow> True | _ \<Rightarrow> False))"

section \<open>Allocators\<close>

text \<open>
  \<open>'h\<close> is the state of the heap. The global allocator is set once: by \<open>set_allocator\<close>, or with \<open>std\<close> by the first
  allocation, to the allocator of the system.
\<close>

record 'h allocator =
  al_alloc :: "nat \<Rightarrow> nat \<Rightarrow> 'h \<Rightarrow> 'h \<times> u64"
  al_dealloc :: "u64 \<Rightarrow> nat \<Rightarrow> nat \<Rightarrow> 'h \<Rightarrow> 'h"
  al_realloc :: "u64 \<Rightarrow> nat \<Rightarrow> nat \<Rightarrow> nat \<Rightarrow> 'h \<Rightarrow> 'h \<times> u64"

text \<open>The allocator of the system, given by its functions on a layout; the pointer \<open>data\<close> is not used.\<close>

record layout =
  layout_size :: nat
  layout_align :: nat

definition system_allocator ::
  "(layout \<Rightarrow> 'h \<Rightarrow> 'h \<times> u64) \<Rightarrow> (u64 \<Rightarrow> layout \<Rightarrow> 'h \<Rightarrow> 'h) \<Rightarrow> (u64 \<Rightarrow> layout \<Rightarrow> nat \<Rightarrow> 'h \<Rightarrow> 'h \<times> u64) \<Rightarrow> 'h allocator"
where
  "system_allocator sys_alloc sys_dealloc sys_realloc =
     \<lparr>al_alloc = (\<lambda>sz algn. sys_alloc \<lparr>layout_size = sz, layout_align = algn\<rparr>),
      al_dealloc = (\<lambda>ptr sz algn. sys_dealloc ptr \<lparr>layout_size = sz, layout_align = algn\<rparr>),
      al_realloc = (\<lambda>ptr sz algn new_size. sys_realloc ptr \<lparr>layout_size = sz, layout_align = algn\<rparr> new_size)\<rparr>"

type_synonym 'h global_allocator = "'h allocator option"

definition global_allocator_new :: "'h global_allocator" where
  "global_allocator_new = None"

definition call_once :: "'h allocator \<Rightarrow> 'h global_allocator \<Rightarrow> 'h global_allocator" where
  "call_once a g = (case g of Some b \<Rightarrow> Some b | None \<Rightarrow> Some a)"

definition global_get :: "'h allocator option \<Rightarrow> 'h global_allocator \<Rightarrow> 'h global_allocator" where
  "global_get sys g = (case sys of Some sys \<Rightarrow> call_once sys g | None \<Rightarrow> g)"

definition global_alloc :: "'h allocator option \<Rightarrow> layout \<Rightarrow> 'h global_allocator \<times> 'h \<Rightarrow> ('h global_allocator \<times> 'h) \<times> u64" where
  "global_alloc sys l st =
     (let (g, h) = st; g = global_get sys g in
      case g of Some a \<Rightarrow> (let (h, p) = al_alloc a (layout_size l) (layout_align l) h in ((g, h), p)) | None \<Rightarrow> ((g, h), 0))"

definition global_dealloc :: "'h allocator option \<Rightarrow> u64 \<Rightarrow> layout \<Rightarrow> 'h global_allocator \<times> 'h \<Rightarrow> 'h global_allocator \<times> 'h" where
  "global_dealloc sys ptr l st =
     (let (g, h) = st; g = global_get sys g in
      case g of Some a \<Rightarrow> (g, al_dealloc a ptr (layout_size l) (layout_align l) h) | None \<Rightarrow> (g, h))"

definition global_realloc ::
  "'h allocator option \<Rightarrow> u64 \<Rightarrow> layout \<Rightarrow> nat \<Rightarrow> 'h global_allocator \<times> 'h \<Rightarrow> ('h global_allocator \<times> 'h) \<times> u64"
where
  "global_realloc sys ptr l new_size st =
     (let (g, h) = st; g = global_get sys g in
      case g of
        Some a \<Rightarrow> (let (h, p) = al_realloc a ptr (layout_size l) (layout_align l) new_size h in ((g, h), p))
      | None \<Rightarrow> ((g, h), 0))"

definition allocate :: "'h allocator option \<Rightarrow> nat \<Rightarrow> nat \<Rightarrow> 'h global_allocator \<times> 'h \<Rightarrow> ('h global_allocator \<times> 'h) \<times> u64" where
  "allocate sys sz algn st = global_alloc sys \<lparr>layout_size = sz, layout_align = algn\<rparr> st"

definition deallocate :: "'h allocator option \<Rightarrow> u64 \<Rightarrow> nat \<Rightarrow> nat \<Rightarrow> 'h global_allocator \<times> 'h \<Rightarrow> 'h global_allocator \<times> 'h" where
  "deallocate sys ptr sz algn st = global_dealloc sys ptr \<lparr>layout_size = sz, layout_align = algn\<rparr> st"

definition reallocate ::
  "'h allocator option \<Rightarrow> u64 \<Rightarrow> nat \<Rightarrow> nat \<Rightarrow> nat \<Rightarrow> 'h global_allocator \<times> 'h \<Rightarrow> ('h global_allocator \<times> 'h) \<times> u64"
where
  "reallocate sys ptr sz algn new_size st = global_realloc sys ptr \<lparr>layout_size = sz, layout_align = algn\<rparr> new_size st"

definition set_allocator :: "'h allocator \<Rightarrow> 'h global_allocator \<times> 'h \<Rightarrow> ('h global_allocator \<times> 'h) \<times> int" where
  "set_allocator a st = (let (g, h) = st in ((call_once a g, h), if g = None then 1 else 0))"

end
