(* ===== verification/Vm_Native_Laws.thy ===== *)
theory Vm_Native_Laws
  imports Vm_Native_Backend
begin

text \<open>
  Laws of the C interface. A string is written in the buffer of the caller up to its size, always with its final zero,
  whatever the pieces are in which it is formatted. An array receives the first items of an enumeration. Errors and
  panics become results, and the error is kept for the thread.
\<close>

section \<open>Consecutive stores\<close>

lemma add_of_nat_neq:
  assumes "0 < k" "k < 2 ^ 64"
  shows "a + of_nat k \<noteq> (a :: u64)"
proof -
  have "unat (of_nat k :: u64) = k" using assms(2) by (simp only: unat_of_nat) (simp add: take_bit_nat_eq_self)
  then have "of_nat k \<noteq> (0 :: u64)" using assms(1) by force
  then show ?thesis by simp
qed

lemma store_bytes_upd:
  assumes "0 < k" "k + length ys \<le> 2 ^ 64"
  shows "store_bytes (m(a := x)) (a + of_nat k) ys = (store_bytes m (a + of_nat k) ys)(a := x)"
  using assms
proof (induction ys arbitrary: k)
  case Nil
  then show ?case by simp
next
  case (Cons y ys)
  have ne: "a + of_nat k \<noteq> a" using Cons.prems by (intro add_of_nat_neq) auto
  have "store_bytes (m(a := x)) (a + of_nat k + 1) ys = (store_bytes m (a + of_nat k + 1) ys)(a := x)"
    using Cons.IH [of "Suc k"] Cons.prems by (simp only: of_nat_Suc add.assoc [symmetric] add.commute [of 1] list.size)
  then show ?case by (simp only: store_bytes.simps fun_upd_twist [OF ne])
qed

lemma store_bytes_append:
  "length xs + length ys \<le> 2 ^ 64 \<Longrightarrow>
   store_bytes (store_bytes m a xs) (a + of_nat (length xs)) ys = store_bytes m a (xs @ ys)"
proof (induction xs arbitrary: a)
  case Nil
  then show ?case by simp
next
  case (Cons x xs)
  have "store_bytes (store_bytes m (a + 1) xs) (a + 1 + of_nat (length xs)) ys = store_bytes m (a + 1) (xs @ ys)"
    using Cons.prems by (intro Cons.IH) simp
  moreover have "a + of_nat (length (x # xs)) = a + 1 + of_nat (length xs)" by simp
  ultimately show ?case
    using store_bytes_upd [of "Suc (length xs)" ys "store_bytes m (a + 1) xs" a x] Cons.prems by (simp add: add.assoc fun_upd_def)
qed

section \<open>Strings\<close>

text \<open>A buffer of the caller: its addresses are consecutive.\<close>

definition c_buffer :: "u64 \<Rightarrow> nat \<Rightarrow> bool" where
  "c_buffer p n \<longleftrightarrow> p \<noteq> 0 \<and> unat p + n \<le> 2 ^ 64 \<and> n < 2 ^ 63"

lemma c_buffer_offset:
  assumes "c_buffer p n" "k < n"
  shows "p + of_nat k \<noteq> 0"
proof -
  have k: "unat (of_nat k :: u64) = k"
    using assms by (simp only: unat_of_nat) (simp add: take_bit_nat_eq_self c_buffer_def)
  have "unat (p + of_nat k) = unat p + k"
    using assms by (subst unat_add_lem [THEN iffD1]) (auto simp: k c_buffer_def)
  moreover have "0 < unat p" using assms(1) by (simp add: c_buffer_def unat_gt_0)
  ultimately show ?thesis by force
qed

text \<open>The state of a formatter after the bytes \<open>bs\<close>.\<close>

definition formatted :: "u64 \<Rightarrow> nat \<Rightarrow> c_mem \<Rightarrow> u8 list \<Rightarrow> formatter \<times> c_mem" where
  "formatted p n m bs =
     (\<lparr>fm_ptr = Some (p + of_nat (length bs)), fm_len = n - 1 - length bs, fm_written = length bs\<rparr>, store_bytes m p bs)"

lemma formatter_new_formatted: "c_buffer p n \<Longrightarrow> 0 < n \<Longrightarrow> (formatter_new p n, m) = formatted p n m []"
  by (simp add: formatter_new_def formatted_def non_null_def c_buffer_def)

lemma write_str_formatted:
  assumes "c_buffer p n" "length bs < n"
  shows "write_str s (formatted p n m bs) = (formatted p n m (take (n - 1) (bs @ s)), length bs + length s < n)"
proof -
  let ?k = "min (length s) (n - 1 - length bs)"
  have len: "length (bs @ take ?k s) = length bs + ?k" by simp
  have tk: "take (n - 1) (bs @ s) = bs @ take ?k s" using assms(2) by (simp add: min_def)
  have "p + of_nat (length bs) + of_nat ?k = p + of_nat (length bs + ?k)" by simp
  moreover have "p + of_nat (length bs + ?k) \<noteq> 0" using assms by (intro c_buffer_offset [OF assms(1)]) auto
  moreover have "store_bytes (store_bytes m p bs) (p + of_nat (length bs)) (take ?k s) = store_bytes m p (bs @ take ?k s)"
    using assms by (intro store_bytes_append) (auto simp: c_buffer_def)
  ultimately show ?thesis
    unfolding tk using assms(2) by (auto simp: formatted_def write_str_def non_null_def Let_def min_def add.assoc)
qed

text \<open>The pieces of a message do not matter.\<close>

lemma write_fmt_formatted:
  assumes "c_buffer p n" "length bs < n"
  shows "write_fmt ps (formatted p n m bs) =
    (formatted p n m (take (n - 1) (bs @ concat ps)), length bs + length (concat ps) < n)"
  using assms(2)
proof (induction ps arbitrary: bs)
  case Nil
  then show ?case by simp
next
  case (Cons s ps)
  show ?case
  proof (cases "length bs + length s < n")
    case True
    then show ?thesis
      using write_str_formatted [OF assms(1) Cons.prems, of s m] Cons.IH [of "bs @ s"] by (simp add: add.assoc)
  next
    case False
    then show ?thesis
      using write_str_formatted [OF assms(1) Cons.prems, of s m] Cons.prems by simp
  qed
qed

lemma formatter_finish_formatted:
  assumes "c_buffer p n" "length bs < n"
  shows "formatter_finish (fst (formatted p n m bs)) (snd (formatted p n m bs)) = (store_bytes m p (bs @ [0]), length bs)"
    "formatter_drop (fst (formatted p n m bs)) (snd (formatted p n m bs)) = store_bytes m p (bs @ [0])"
proof -
  have "(store_bytes m p bs)(p + of_nat (length bs) := 0) = store_bytes m p (bs @ [0])"
    using store_bytes_append [of bs "[0]" m p] assms by (simp add: c_buffer_def)
  then show "formatter_finish (fst (formatted p n m bs)) (snd (formatted p n m bs)) = (store_bytes m p (bs @ [0]), length bs)"
    "formatter_drop (fst (formatted p n m bs)) (snd (formatted p n m bs)) = store_bytes m p (bs @ [0])"
    by (simp_all add: formatted_def formatter_finish_def formatter_drop_def) (metis fun_upd_upd)
qed

text \<open>The text of a string in a buffer of a given size.\<close>

definition c_text :: "nat \<Rightarrow> u8 list \<Rightarrow> u8 list" where
  "c_text n bs = take (n - 1) bs @ [0]"

lemma print_error_text:
  assumes "c_buffer p n" "0 < n" "concat (pieces e) = bs"
  shows "print_error pieces (Some e) p n m = (store_bytes m p (c_text n bs), min (n - 1) (length bs))"
  using write_fmt_formatted [OF assms(1), of "[]" "pieces e" m] assms
    formatter_finish_formatted(1) [OF assms(1), of "take (n - 1) bs" m]
  by (simp add: print_error_def formatter_new_formatted [OF assms(1,2)] c_text_def split_beta)

lemma as_isize_nat: "n < 2 ^ 63 \<Longrightarrow> as_isize n = int n"
  by (simp add: as_isize_def sint_uint uint_nat unat_of_nat take_bit_nat_eq_self signed_take_bit_int_eq_self)


text \<open>What a function that writes a string does, for each outcome of the call that gives the string.\<close>

lemma with_formatter_outcome:
  assumes "c_buffer p n" "0 < n"
  shows "with_formatter pl p n (write_outcome (Some (Ok (Some s)))) m =
      Some (\<lparr>c_mem = store_bytes m p (c_text n (str_bytes s)), c_error = None\<rparr>, int (min (n - 1) (length s)))"
    "with_formatter pl p n (write_outcome (Some (Ok None))) m = Some (\<lparr>c_mem = m(p := 0), c_error = None\<rparr>, 0)"
    "with_formatter pl p n (write_outcome (Some (Err e))) m = Some (\<lparr>c_mem = m(p := 0), c_error = Some e\<rparr>, - 1)"
    "with_formatter pl p n (write_outcome (Some Panic)) m =
      Some (\<lparr>c_mem = m(p := 0), c_error = Some (convert_panic_payload pl)\<rparr>, - 1)"
    "with_formatter pl p n (write_outcome None) m = None"
proof -
  note F = formatter_new_formatted [OF assms] write_str_formatted [OF assms(1), of "[]"] formatter_finish_formatted [OF assms(1)]
  have i: "as_isize (min (n - 1) (length s)) = int (min (n - 1) (length s))" "as_isize 0 = 0"
    using assms as_isize_nat [of 0] by (auto intro!: as_isize_nat simp: c_buffer_def)
  have f: "formatter_finish (fst (formatted p n m bs)) (snd (formatted p n m bs)) = (store_bytes m p (bs @ [0]), length bs)"
    "formatter_drop (fst (formatted p n m [])) (snd (formatted p n m [])) = m(p := 0)" if "length bs < n" for bs
    using F(3) [OF that] F(4) [of "[]"] assms(2) by simp_all
  show "with_formatter pl p n (write_outcome (Some (Ok (Some s)))) m =
      Some (\<lparr>c_mem = store_bytes m p (c_text n (str_bytes s)), c_error = None\<rparr>, int (min (n - 1) (length s)))"
    using F(2) [of "str_bytes s" m] f(1) [of "take (n - 1) (str_bytes s)"] i(1) assms(2)
    by (simp add: with_formatter_def write_outcome_def F(1) wrap_usize_def catch_unwind_def c_text_def split_beta str_bytes_def min.commute)
  show "with_formatter pl p n (write_outcome (Some (Ok None))) m = Some (\<lparr>c_mem = m(p := 0), c_error = None\<rparr>, 0)"
    using f(1) [of "[]"] i(2) assms(2)
    by (simp add: with_formatter_def write_outcome_def F(1) wrap_usize_def catch_unwind_def split_beta)
  show "with_formatter pl p n (write_outcome (Some (Err e))) m = Some (\<lparr>c_mem = m(p := 0), c_error = Some e\<rparr>, - 1)"
    "with_formatter pl p n (write_outcome (Some Panic)) m =
      Some (\<lparr>c_mem = m(p := 0), c_error = Some (convert_panic_payload pl)\<rparr>, - 1)"
    using f(2) [of "[]"] assms(2)
    by (simp_all add: with_formatter_def write_outcome_def F(1) wrap_usize_def catch_unwind_def split_beta)
  show "with_formatter pl p n (write_outcome None) m = None"
    by (simp add: with_formatter_def write_outcome_def wrap_usize_def catch_unwind_def)
qed

text \<open>The text is read back with \<open>CStr::from_ptr\<close> when it has no zero, and nothing is written outside of the buffer.\<close>

lemma c_str_store:
  assumes "0 \<notin> set bs" "length bs < 2 ^ 63"
  shows "c_str (store_bytes m p (bs @ [0])) p = Some bs"
  using assms
proof (induction bs arbitrary: p m)
  case Nil
  then show ?case by (subst c_str.simps) simp
next
  case (Cons b bs)
  let ?m = "store_bytes m p ((b # bs) @ [0])"
  have "store_bytes (m(p := b)) (p + of_nat 1) (bs @ [0]) = (store_bytes m (p + of_nat 1) (bs @ [0]))(p := b)"
    using Cons.prems by (intro store_bytes_upd) auto
  then have "?m = store_bytes (m(p := b)) (p + 1) (bs @ [0])" by simp
  moreover have "c_str (store_bytes (m(p := b)) (p + 1) (bs @ [0])) (p + 1) = Some bs"
    using Cons.prems by (intro Cons.IH) auto
  moreover have "?m p = b" by simp
  ultimately show ?case using Cons.prems by (subst c_str.simps) (simp del: store_bytes.simps)
qed

section \<open>Arrays\<close>

text \<open>The state of an array after the items \<open>xs\<close>, each of \<open>sz\<close> bytes.\<close>

definition filled :: "('a \<Rightarrow> u8 list) \<Rightarrow> u64 \<Rightarrow> nat \<Rightarrow> c_mem \<Rightarrow> 'a list \<Rightarrow> c_array \<times> c_mem" where
  "filled enc p n m xs =
     (\<lparr>ar_array = Some p, ar_max_size = n, ar_cursor = length xs\<rparr>, store_bytes m p (concat (map enc xs)))"

lemma length_concat_enc: "\<forall>x. length (enc x) = sz \<Longrightarrow> length (concat (map enc xs)) = length xs * sz"
  by (induction xs) simp_all

lemma array_push_filled:
  assumes "\<forall>x. length (enc x) = sz" "length ys < n" "n * sz \<le> 2 ^ 64"
  shows "array_push enc x (filled enc p n m ys) = Some (filled enc p n m (ys @ [x]), Ok Continue)"
proof -
  have "length ys * sz + sz \<le> n * sz" using assms(2) by (metis add.commute mult_Suc mult_le_mono1 Suc_leI)
  then have "store_bytes (store_bytes m p (concat (map enc ys))) (p + of_nat (length (concat (map enc ys)))) (enc x) =
      store_bytes m p (concat (map enc ys) @ enc x)"
    using assms by (intro store_bytes_append) (simp add: length_concat_enc [OF assms(1)])
  then show ?thesis using assms by (simp add: array_push_def filled_def length_concat_enc [OF assms(1)])
qed

lemma for_each_filled:
  assumes "trace_run t xs r" "\<forall>x. length (enc x) = sz" "length ys \<le> n" "n * sz \<le> 2 ^ 64"
  shows "for_each (array_push enc) t (filled enc p n m ys) =
    (if length ys + length xs \<le> n then Some (filled enc p n m (ys @ xs), r)
     else Some (filled enc p n m (take n (ys @ xs)), Ok ()))"
  using assms(1,3)
proof (induction arbitrary: ys rule: trace_run.induct)
  case (Yield t xs r x)
  show ?case
  proof (cases "length ys < n")
    case True
    then show ?thesis using Yield.IH [of "ys @ [x]"] array_push_filled [OF assms(2) True assms(4)] by simp
  next
    case False
    then have "length ys = n" using Yield.prems by simp
    then show ?thesis by (simp add: array_push_def filled_def)
  qed
qed simp_all

lemma fill_from_array:
  assumes "trace_run t xs r" "\<forall>x. length (enc x) = sz" "n * sz \<le> 2 ^ 64" "n < 2 ^ 63" "p \<noteq> 0" "length xs \<le> n \<longrightarrow> r = Ok ()"
  shows "fill_from pl enc t p n w =
    Some (\<lparr>c_mem = store_bytes (c_mem w) p (concat (map enc (take n xs))), c_error = None\<rparr>, int (min n (length xs)))"
proof -
  have "(array_new p n, c_mem w) = filled enc p n (c_mem w) []"
    using assms(5) by (simp add: array_new_def filled_def non_null_def)
  then have "for_each (array_push enc) t (array_new p n, c_mem w) = Some (filled enc p n (c_mem w) (take n xs), Ok ())"
    using for_each_filled [OF assms(1,2) _ assms(3), of "[]"] assms(6) by auto
  moreover have "as_isize (min n (length xs)) = int (min n (length xs))" using assms(4) by (intro as_isize_nat) simp
  ultimately show ?thesis
    by (simp add: fill_from_def fill_def filled_def wrap_usize_def catch_unwind_def min.commute)
qed

lemma for_each_counted:
  assumes "trace_run t xs r" "k + length xs < 2 ^ 64"
  shows "for_each (array_push enc) t (\<lparr>ar_array = None, ar_max_size = n, ar_cursor = k\<rparr>, m) =
    Some ((\<lparr>ar_array = None, ar_max_size = n, ar_cursor = k + length xs\<rparr>, m), r)"
  using assms by (induction arbitrary: k rule: trace_run.induct) (simp_all add: array_push_def)

lemma fill_from_null:
  assumes "trace_run t xs (Ok ())" "length xs < 2 ^ 63"
  shows "fill_from pl enc t 0 n w = Some (\<lparr>c_mem = c_mem w, c_error = None\<rparr>, int (length xs))"
  using for_each_counted [OF assms(1), of 0 enc n "c_mem w"] as_isize_nat [OF assms(2)] assms(2)
  by (simp add: fill_from_def fill_def array_new_def non_null_def wrap_usize_def catch_unwind_def)

text \<open>An enumeration that fails before the array is full is an error.\<close>

lemma fill_from_error:
  assumes "trace_run t xs (Err e)" "\<forall>x. length (enc x) = sz" "n * sz \<le> 2 ^ 64" "p \<noteq> 0" "length xs \<le> n"
  shows "fill_from pl enc t p n w =
    Some (\<lparr>c_mem = store_bytes (c_mem w) p (concat (map enc xs)), c_error = Some e\<rparr>, - 1)"
proof -
  have "(array_new p n, c_mem w) = filled enc p n (c_mem w) []"
    using assms(4) by (simp add: array_new_def filled_def non_null_def)
  then show ?thesis
    using for_each_filled [OF assms(1,2) _ assms(3), of "[]"] assms(5)
    by (simp add: fill_from_def fill_def filled_def wrap_usize_def catch_unwind_def)
qed

section \<open>Results and errors\<close>

lemma wrap_outcome:
  "wrap pl enc res (in_mem w (Some (Ok v))) =
     Some (\<lparr>c_mem = if res = 0 then c_mem w else store_bytes (c_mem w) res (enc v), c_error = None\<rparr>, 0)"
  "wrap pl enc res (in_mem w (Some (Err e))) = Some (\<lparr>c_mem = c_mem w, c_error = Some e\<rparr>, 1)"
  "wrap pl enc res (in_mem w (Some Panic)) = Some (\<lparr>c_mem = c_mem w, c_error = Some (convert_panic_payload pl)\<rparr>, 1)"
  "wrap pl enc res (in_mem w None) = None"
  by (simp_all add: wrap_def in_mem_def catch_unwind_def)

lemma length_enc_handle [simp]: "length (enc_handle a) = 8"
  by (simp add: enc_handle_def)

lemma length_enc_frame [simp]: "length (enc_frame f) = 16"
  by (simp add: enc_frame_def)

section \<open>The global allocator\<close>

text \<open>An allocator that is set stays, and \<open>set_allocator\<close> says whether it set one.\<close>

lemma global_get_set [simp]: "global_get sys (Some a) = Some a"
  by (simp add: global_get_def call_once_def split: option.split)

lemma set_allocator_once:
  "set_allocator a (Some b, h) = ((Some b, h), 0)" "set_allocator a (None, h) = ((Some a, h), 1)"
  by (simp_all add: set_allocator_def call_once_def)

lemma allocator_kept:
  "fst (fst (allocate sys sz algn (Some a, h))) = Some a" "fst (deallocate sys ptr sz algn (Some a, h)) = Some a"
  "fst (fst (reallocate sys ptr sz algn nsz (Some a, h))) = Some a"
  by (simp_all add: allocate_def deallocate_def reallocate_def global_alloc_def global_dealloc_def global_realloc_def split_beta Let_def)

end
