(* ===== verification/Vm_Python.thy ===== *)
theory Vm_Python
  imports Vm_Native_Backend
begin

text \<open>
  The Python interface (\<^verbatim>\<open>python/src/lib.rs\<close>). A method returns a value or raises; the message of an OS error code is
  the parameter \<open>os_msg\<close>. Objects share the operating system through a reference that the garbage collector may clear.
  Strings, integers and objects of Python are the values they are made from. A panic, which the bindings turn into an
  exception, stays \<open>Panic\<close>.
\<close>

datatype py_error = VminerError string | PyRuntimeError string

type_synonym 'a py_result = "('a, py_error) result"
type_synonym 'a py_call = "'a py_result option"

section \<open>Errors\<close>

definition convert_err :: "(int \<Rightarrow> string) \<Rightarrow> 'a vm_result \<Rightarrow> 'a py_result" where
  "convert_err os_msg r = map_err (\<lambda>err. VminerError (print_backtrace os_msg err)) r"

definition convert_err_mem :: "(int \<Rightarrow> string) \<Rightarrow> 'a memory_access_result \<Rightarrow> 'a py_result" where
  "convert_err_mem os_msg r = map_err (\<lambda>err. VminerError (mem_fmt os_msg err)) r"

definition convert_err_translation :: "(int \<Rightarrow> string) \<Rightarrow> 'a translation_result \<Rightarrow> 'a py_result" where
  "convert_err_translation os_msg r = map_err (\<lambda>err. VminerError (translation_fmt os_msg err)) r"

definition convert_err_vcpu :: "(int \<Rightarrow> string) \<Rightarrow> 'a vcpu_result \<Rightarrow> 'a py_result" where
  "convert_err_vcpu os_msg r = map_err (\<lambda>err. VminerError (vcpu_fmt os_msg err)) r"

section \<open>Shared references\<close>

type_synonym 't py_owned = "'t option"

definition owned_borrow :: "'t py_owned \<Rightarrow> 't py_result" where
  "owned_borrow self = (case self of Some obj \<Rightarrow> Ok obj | None \<Rightarrow> Err (PyRuntimeError ''Tried to access GC'ed ref''))"

definition owned_clear :: "'t py_owned \<Rightarrow> 't py_owned" where
  "owned_clear self = None"

text \<open>The objects that the garbage collector visits.\<close>

definition owned_traverse :: "'t py_owned \<Rightarrow> 't list" where
  "owned_traverse self = (case self of Some obj \<Rightarrow> [obj] | None \<Rightarrow> [])"

text \<open>A method that borrows the system and calls it.\<close>

definition py_with :: "(int \<Rightarrow> string) \<Rightarrow> 'os py_owned \<Rightarrow> ('os \<Rightarrow> 'a outcome) \<Rightarrow> 'a py_call" where
  "py_with os_msg own f =
     (case owned_borrow own of
        Ok os \<Rightarrow> map_option (convert_err os_msg) (f os)
      | Err e \<Rightarrow> Some (Err e)
      | Panic \<Rightarrow> Some Panic)"

definition py_map :: "('a \<Rightarrow> 'b) \<Rightarrow> 'a py_call \<Rightarrow> 'b py_call" where
  "py_map f m = map_option (map_ok f) m"

section \<open>Backends\<close>

definition py_virtual_to_physical ::
  "(int \<Rightarrow> string) \<Rightarrow> ('r, 's, 'o) backend \<Rightarrow> u64 \<Rightarrow> u64 \<Rightarrow> u64 py_result"
where
  "py_virtual_to_physical os_msg self mmu_addr addr = convert_err_translation os_msg (be_virtual_to_physical self mmu_addr addr)"

definition py_read_memory :: "(int \<Rightarrow> string) \<Rightarrow> ('r, 's, 'o) backend \<Rightarrow> u64 \<Rightarrow> nat \<Rightarrow> u8 list py_result" where
  "py_read_memory os_msg self addr len =
     (let (bf, r) = read_physical (be_memory self) addr (replicate len 0) in map_ok (\<lambda>u. bf) (convert_err_mem os_msg r))"

definition py_read_virtual_memory ::
  "(int \<Rightarrow> string) \<Rightarrow> ('r, 's, 'o) backend \<Rightarrow> u64 \<Rightarrow> u64 \<Rightarrow> nat \<Rightarrow> u8 list py_result"
where
  "py_read_virtual_memory os_msg self mmu_addr addr len =
     (let (bf, r) = be_read_virtual_memory self mmu_addr addr (replicate len 0)
      in map_ok (\<lambda>u. bf) (convert_err_translation os_msg r))"

text \<open>\<open>linux\<close>: whether the platform is Linux; \<open>connect\<close> is \<open>Kvm::connect\<close> for the process.\<close>

definition py_kvm_new :: "(int \<Rightarrow> string) \<Rightarrow> bool \<Rightarrow> ('k \<Rightarrow> 'b) \<Rightarrow> (int \<Rightarrow> 'k outcome) \<Rightarrow> int \<Rightarrow> 'b py_call" where
  "py_kvm_new os_msg linux into connect pid =
     (if linux then py_map into (map_option (convert_err os_msg) (connect pid))
      else Some (convert_err os_msg (Err (vm_of_str ''This backend is not available on your platform''))))"

definition py_dump_new :: "(int \<Rightarrow> string) \<Rightarrow> (string \<Rightarrow> 'd vm_result) \<Rightarrow> ('d \<Rightarrow> 'b) \<Rightarrow> string \<Rightarrow> 'b py_result" where
  "py_dump_new os_msg read_dump into path = map_ok into (convert_err os_msg (read_dump path))"

section \<open>Operating systems\<close>

datatype requested_os = RequestLinux | RequestWindows

text \<open>A system that was not requested is not tried; a failed check of a requested one is no system.\<close>

definition raw_detect ::
  "('b, 'm, 'l, 'os) buildable \<Rightarrow> ('b, 'm, 'l, 'os) buildable \<Rightarrow> 'b \<Rightarrow> requested_os option \<Rightarrow>
   (('m, 'l) os_builder \<times> requested_os) option outcome"
where
  "raw_detect lnx win backend req =
     out_then (if req \<noteq> Some RequestWindows then bd_quick_check lnx backend else Some (Ok None)) (\<lambda>bl.
       case bl of
         Some builder \<Rightarrow> Some (Ok (Some (builder, RequestLinux)))
       | None \<Rightarrow>
           out_then (if req \<noteq> Some RequestLinux then bd_quick_check win backend else Some (Ok None)) (\<lambda>bw.
             Some (Ok (map_option (\<lambda>builder. (builder, RequestWindows)) bw))))"

text \<open>\<open>load_dir\<close> is a new index of symbols loaded from a directory.\<close>

definition raw_os_new ::
  "('b, 'm, 'l, 'os) buildable \<Rightarrow> ('b, 'm, 'l, 'os) buildable \<Rightarrow> (string \<Rightarrow> 'm vm_result) \<Rightarrow> 'b \<Rightarrow> string option \<Rightarrow>
   requested_os option \<Rightarrow> 'os outcome"
where
  "raw_os_new lnx win load_dir backend path req =
     out_then (raw_detect lnx win backend req) (\<lambda>found.
     out_then (Some (context_opt ''failed to guess guest OS'' found)) (\<lambda>(builder, os).
     out_then (Some (case path of
         Some path \<Rightarrow> map_ok (\<lambda>symbols. with_symbols symbols builder) (load_dir path)
       | None \<Rightarrow> Ok builder)) (\<lambda>builder.
       case os of RequestLinux \<Rightarrow> bd_build lnx backend builder | RequestWindows \<Rightarrow> bd_build win backend builder)))"

definition parse_kind :: "string option \<Rightarrow> requested_os option vm_result" where
  "parse_kind kind =
     (case kind of
        None \<Rightarrow> Ok None
      | Some k \<Rightarrow>
          if k = ''linux'' then Ok (Some RequestLinux)
          else if k = ''windows'' then Ok (Some RequestWindows)
          else Err (vm_new (DynStr ''Unknown OS'')))"

definition py_os_new ::
  "(int \<Rightarrow> string) \<Rightarrow> ('b, 'm, 'l, 'os) buildable \<Rightarrow> ('b, 'm, 'l, 'os) buildable \<Rightarrow> (string \<Rightarrow> 'm vm_result) \<Rightarrow> 'b \<Rightarrow>
   string option \<Rightarrow> string option \<Rightarrow> 'os py_owned py_call"
where
  "py_os_new os_msg lnx win load_dir backend path kind =
     py_map Some (map_option (convert_err os_msg)
       (out_then (Some (parse_kind kind)) (raw_os_new lnx win load_dir backend path)))"

text \<open>A processor, a process and a thread of a system.\<close>

record ('r, 's, 'o) py_vcpu =
  pv_os :: "('r, 's, 'o) os py_owned"
  pv_id :: nat

record ('r, 's, 'o) py_process =
  pp_proc :: process
  pp_os :: "('r, 's, 'o) os py_owned"

record ('r, 's, 'o) py_thread =
  pt_thread :: thread
  pt_os :: "('r, 's, 'o) os py_owned"

definition process_of :: "('r, 's, 'o) os py_owned \<Rightarrow> process \<Rightarrow> ('r, 's, 'o) py_process" where
  "process_of own p = \<lparr>pp_proc = p, pp_os = own\<rparr>"

definition thread_of :: "('r, 's, 'o) os py_owned \<Rightarrow> thread \<Rightarrow> ('r, 's, 'o) py_thread" where
  "thread_of own t = \<lparr>pt_thread = t, pt_os = own\<rparr>"

definition make_proc :: "('r, 's, 'o) os py_owned \<Rightarrow> process \<Rightarrow> ('r, 's, 'o) py_process" where
  "make_proc self proc = process_of self proc"

definition os_clear :: "('r, 's, 'o) os py_owned \<Rightarrow> ('r, 's, 'o) os py_owned" where
  "os_clear self = owned_clear self"

definition process_clear :: "('r, 's, 'o) py_process \<Rightarrow> ('r, 's, 'o) py_process" where
  "process_clear self = self\<lparr>pp_os := owned_clear (pp_os self)\<rparr>"

definition thread_clear :: "('r, 's, 'o) py_thread \<Rightarrow> ('r, 's, 'o) py_thread" where
  "thread_clear self = self\<lparr>pt_os := owned_clear (pt_os self)\<rparr>"

definition os_traverse :: "('r, 's, 'o) os py_owned \<Rightarrow> ('r, 's, 'o) os list" where
  "os_traverse self = owned_traverse self"

definition process_traverse :: "('r, 's, 'o) py_process \<Rightarrow> ('r, 's, 'o) os list" where
  "process_traverse self = owned_traverse (pp_os self)"

definition thread_traverse :: "('r, 's, 'o) py_thread \<Rightarrow> ('r, 's, 'o) os list" where
  "thread_traverse self = owned_traverse (pt_os self)"

text \<open>A call on the registers of a processor.\<close>

definition py_vcpu_call ::
  "(int \<Rightarrow> string) \<Rightarrow> (('r, 's, 'o) vcpus \<Rightarrow> nat \<Rightarrow> 'a vcpu_result) \<Rightarrow> ('r, 's, 'o) py_vcpu \<Rightarrow> 'a py_result"
where
  "py_vcpu_call os_msg f self =
     and_then (owned_borrow (pv_os self)) (\<lambda>os. convert_err_vcpu os_msg (f (os_vcpus os) (pv_id self)))"

definition vcpu_instruction_pointer :: "(int \<Rightarrow> string) \<Rightarrow> ('r, 's, 'o) py_vcpu \<Rightarrow> u64 py_result" where
  "vcpu_instruction_pointer os_msg self = py_vcpu_call os_msg instruction_pointer self"

definition vcpu_stack_pointer :: "(int \<Rightarrow> string) \<Rightarrow> ('r, 's, 'o) py_vcpu \<Rightarrow> u64 py_result" where
  "vcpu_stack_pointer os_msg self = py_vcpu_call os_msg stack_pointer self"

definition vcpu_getattr :: "(int \<Rightarrow> string) \<Rightarrow> ('r, 's, 'o) py_vcpu \<Rightarrow> string \<Rightarrow> u64 py_result" where
  "vcpu_getattr os_msg self name = py_vcpu_call os_msg (\<lambda>v i. register_by_name v i name) self"

section \<open>Iterators\<close>

record ('r, 's, 'o, 't) py_iter =
  it_items :: "'t list"
  it_os :: "('r, 's, 'o) os py_owned"

text \<open>The iterators that only wrap their items.\<close>

definition iter_next :: "(('r, 's, 'o) os py_owned \<Rightarrow> 't \<Rightarrow> 'a) \<Rightarrow> ('r, 's, 'o, 't) py_iter \<Rightarrow> ('r, 's, 'o, 't) py_iter \<times> 'a option" where
  "iter_next mk this =
     (case it_items this of
        [] \<Rightarrow> (this, None)
      | x # xs \<Rightarrow> (this\<lparr>it_items := xs\<rparr>, Some (mk (it_os this) x)))"

definition process_iter_next :: "('r, 's, 'o, process) py_iter \<Rightarrow> ('r, 's, 'o, process) py_iter \<times> ('r, 's, 'o) py_process option" where
  "process_iter_next this = iter_next process_of this"

definition thread_iter_next :: "('r, 's, 'o, thread) py_iter \<Rightarrow> ('r, 's, 'o, thread) py_iter \<times> ('r, 's, 'o) py_thread option" where
  "thread_iter_next this = iter_next thread_of this"

definition vcpu_iter_next :: "('r, 's, 'o, nat) py_iter \<Rightarrow> ('r, 's, 'o, nat) py_iter \<times> ('r, 's, 'o) py_vcpu option" where
  "vcpu_iter_next this = iter_next (\<lambda>own i. \<lparr>pv_os = own, pv_id = i\<rparr>) this"

text \<open>The iterators that read their items: the item is taken from the list also when it cannot be read.\<close>

definition iter_read_next ::
  "(int \<Rightarrow> string) \<Rightarrow> (('r, 's, 'o) os \<Rightarrow> 't \<Rightarrow> 'a outcome) \<Rightarrow> ('r, 's, 'o, 't) py_iter \<Rightarrow>
   (('r, 's, 'o, 't) py_iter \<times> 'a option py_result) option"
where
  "iter_read_next os_msg rd this =
     (case owned_borrow (it_os this) of
        Ok os \<Rightarrow>
          (case it_items this of
             [] \<Rightarrow> Some (this, Ok None)
           | x # xs \<Rightarrow> map_option (\<lambda>r. (this\<lparr>it_items := xs\<rparr>, map_ok Some (convert_err os_msg r))) (rd os x))
      | Err e \<Rightarrow> Some (this, Err e)
      | Panic \<Rightarrow> Some (this, Panic))"

record py_vma =
  va_start :: u64
  va_end :: u64
  va_file :: "string option"

definition vma_new :: "('r, 's, 'o) os \<Rightarrow> vma \<Rightarrow> py_vma outcome" where
  "vma_new os v =
     out_then (vma_start os v) (\<lambda>s. out_then (vma_end os v) (\<lambda>e. out_then (vma_path os v) (\<lambda>f.
       Some (Ok \<lparr>va_start = s, va_end = e, va_file = f\<rparr>))))"

definition py_vma_start :: "py_vma \<Rightarrow> u64" where "py_vma_start self = va_start self"
definition py_vma_end :: "py_vma \<Rightarrow> u64" where "py_vma_end self = va_end self"
definition py_vma_file :: "py_vma \<Rightarrow> string option" where "py_vma_file self = va_file self"

definition py_vma_contains :: "py_vma \<Rightarrow> u64 \<Rightarrow> bool" where
  "py_vma_contains self addr \<longleftrightarrow> va_start self \<le> addr \<and> addr < va_end self"

record py_module =
  pm_start :: u64
  pm_end :: u64
  pm_name :: string
  pm_path :: string

definition module_new :: "process \<Rightarrow> ('r, 's, 'o) os \<Rightarrow> module \<Rightarrow> py_module outcome" where
  "module_new proc os m =
     out_then (module_span os m proc) (\<lambda>(s, e). out_then (os_module_name os m proc) (\<lambda>n. out_then (os_module_path os m proc) (\<lambda>p.
       Some (Ok \<lparr>pm_start = s, pm_end = e, pm_name = n, pm_path = p\<rparr>))))"

definition py_module_start :: "py_module \<Rightarrow> u64" where "py_module_start self = pm_start self"
definition py_module_end :: "py_module \<Rightarrow> u64" where "py_module_end self = pm_end self"

definition py_module_contains :: "py_module \<Rightarrow> u64 \<Rightarrow> bool" where
  "py_module_contains self addr \<longleftrightarrow> pm_start self \<le> addr \<and> addr < pm_end self"

definition vma_iter_next ::
  "(int \<Rightarrow> string) \<Rightarrow> ('r, 's, 'o, vma) py_iter \<Rightarrow> (('r, 's, 'o, vma) py_iter \<times> py_vma option py_result) option"
where
  "vma_iter_next os_msg this = iter_read_next os_msg vma_new this"

definition module_iter_next ::
  "(int \<Rightarrow> string) \<Rightarrow> process \<Rightarrow> ('r, 's, 'o, module) py_iter \<Rightarrow> (('r, 's, 'o, module) py_iter \<times> py_module option py_result) option"
where
  "module_iter_next os_msg proc this = iter_read_next os_msg (module_new proc) this"

text \<open>A list of items that is collected at once.\<close>

definition py_collect ::
  "(int \<Rightarrow> string) \<Rightarrow> ('r, 's, 'o) os py_owned \<Rightarrow> (('r, 's, 'o) os \<Rightarrow> 't list outcome) \<Rightarrow> ('r, 's, 'o, 't) py_iter py_call"
where
  "py_collect os_msg own f = py_map (\<lambda>xs. \<lparr>it_items = xs, it_os = own\<rparr>) (py_with os_msg own f)"

section \<open>Methods of a system\<close>

definition py_vcpus :: "('r, 's, 'o) os py_owned \<Rightarrow> ('r, 's, 'o, nat) py_iter py_result" where
  "py_vcpus own =
     map_ok (\<lambda>os. \<lparr>it_items = [0..<vcpus_count (os_vcpus os)], it_os = own\<rparr>) (owned_borrow own)"

definition py_init_process :: "(int \<Rightarrow> string) \<Rightarrow> ('r, 's, 'o) os py_owned \<Rightarrow> ('r, 's, 'o) py_process py_call" where
  "py_init_process os_msg own = py_map (make_proc own) (py_with os_msg own init_process)"

definition py_current_thread ::
  "(int \<Rightarrow> string) \<Rightarrow> ('r, 's, 'o) os py_owned \<Rightarrow> ('r, 's, 'o) py_vcpu \<Rightarrow> ('r, 's, 'o) py_thread py_call"
where
  "py_current_thread os_msg own v = py_map (thread_of own) (py_with os_msg own (\<lambda>os. current_thread os (pv_id v)))"

definition py_current_process ::
  "(int \<Rightarrow> string) \<Rightarrow> ('r, 's, 'o) os py_owned \<Rightarrow> ('r, 's, 'o) py_vcpu \<Rightarrow> ('r, 's, 'o) py_process py_call"
where
  "py_current_process os_msg own v = py_map (make_proc own) (py_with os_msg own (\<lambda>os. current_process os (pv_id v)))"

definition py_procs :: "(int \<Rightarrow> string) \<Rightarrow> ('r, 's, 'o) os py_owned \<Rightarrow> ('r, 's, 'o, process) py_iter py_call" where
  "py_procs os_msg own = py_collect os_msg own collect_processes"

definition py_find_process_by_name ::
  "(int \<Rightarrow> string) \<Rightarrow> ('r, 's, 'o) os py_owned \<Rightarrow> string \<Rightarrow> ('r, 's, 'o) py_process option py_call"
where
  "py_find_process_by_name os_msg own name =
     py_map (map_option (make_proc own)) (py_with os_msg own (\<lambda>os. find_process_by_name os name))"

definition py_find_process_by_pid ::
  "(int \<Rightarrow> string) \<Rightarrow> ('r, 's, 'o) os py_owned \<Rightarrow> u64 \<Rightarrow> ('r, 's, 'o) py_process option py_call"
where
  "py_find_process_by_pid os_msg own pid =
     py_map (map_option (make_proc own)) (py_with os_msg own (\<lambda>os. find_process_by_id os pid))"

section \<open>Methods of a process and of a thread\<close>

definition py_proc_get :: "(int \<Rightarrow> string) \<Rightarrow> (('r, 's, 'o) os \<Rightarrow> process \<Rightarrow> 'a outcome) \<Rightarrow> ('r, 's, 'o) py_process \<Rightarrow> 'a py_call" where
  "py_proc_get os_msg f self = py_with os_msg (pp_os self) (\<lambda>os. f os (pp_proc self))"

definition py_pid :: "(int \<Rightarrow> string) \<Rightarrow> ('r, 's, 'o) py_process \<Rightarrow> u64 py_call" where
  "py_pid os_msg self = py_proc_get os_msg process_id self"

definition py_process_name :: "(int \<Rightarrow> string) \<Rightarrow> ('r, 's, 'o) py_process \<Rightarrow> string py_call" where
  "py_process_name os_msg self = py_proc_get os_msg process_name self"

definition py_is_kernel :: "(int \<Rightarrow> string) \<Rightarrow> ('r, 's, 'o) py_process \<Rightarrow> bool py_call" where
  "py_is_kernel os_msg self = py_proc_get os_msg process_is_kernel self"

definition py_pgd :: "(int \<Rightarrow> string) \<Rightarrow> ('r, 's, 'o) py_process \<Rightarrow> u64 py_call" where
  "py_pgd os_msg self = py_proc_get os_msg process_pgd self"

definition py_exe :: "(int \<Rightarrow> string) \<Rightarrow> ('r, 's, 'o) py_process \<Rightarrow> string option py_call" where
  "py_exe os_msg self = py_proc_get os_msg process_path self"

definition py_parent :: "(int \<Rightarrow> string) \<Rightarrow> ('r, 's, 'o) py_process \<Rightarrow> ('r, 's, 'o) py_process py_call" where
  "py_parent os_msg self = py_map (process_of (pp_os self)) (py_proc_get os_msg process_parent self)"

definition py_children :: "(int \<Rightarrow> string) \<Rightarrow> ('r, 's, 'o) py_process \<Rightarrow> ('r, 's, 'o, process) py_iter py_call" where
  "py_children os_msg self = py_collect os_msg (pp_os self) (\<lambda>os. process_collect_children os (pp_proc self))"

definition py_threads :: "(int \<Rightarrow> string) \<Rightarrow> ('r, 's, 'o) py_process \<Rightarrow> ('r, 's, 'o, thread) py_iter py_call" where
  "py_threads os_msg self = py_collect os_msg (pp_os self) (\<lambda>os. process_collect_threads os (pp_proc self))"

definition py_modules :: "(int \<Rightarrow> string) \<Rightarrow> ('r, 's, 'o) py_process \<Rightarrow> ('r, 's, 'o, module) py_iter py_call" where
  "py_modules os_msg self = py_collect os_msg (pp_os self) (\<lambda>os. process_collect_modules os (pp_proc self))"

definition py_vmas :: "(int \<Rightarrow> string) \<Rightarrow> ('r, 's, 'o) py_process \<Rightarrow> ('r, 's, 'o, vma) py_iter py_call" where
  "py_vmas os_msg self = py_collect os_msg (pp_os self) (\<lambda>os. process_collect_vmas os (pp_proc self))"

definition py_tid :: "(int \<Rightarrow> string) \<Rightarrow> ('r, 's, 'o) py_thread \<Rightarrow> u64 py_call" where
  "py_tid os_msg self = py_with os_msg (pt_os self) (\<lambda>os. thread_id os (pt_thread self))"

definition py_thread_name :: "(int \<Rightarrow> string) \<Rightarrow> ('r, 's, 'o) py_thread \<Rightarrow> string option py_call" where
  "py_thread_name os_msg self = py_with os_msg (pt_os self) (\<lambda>os. thread_name os (pt_thread self))"

definition py_thread_process :: "(int \<Rightarrow> string) \<Rightarrow> ('r, 's, 'o) py_thread \<Rightarrow> ('r, 's, 'o) py_process py_call" where
  "py_thread_process os_msg self =
     py_map (process_of (pt_os self)) (py_with os_msg (pt_os self) (\<lambda>os. thread_process os (pt_thread self)))"

section \<open>Call stacks\<close>

text \<open>A frame; \<open>sf_module\<close> is the module once it has been read.\<close>

record ('r, 's, 'o) py_frame =
  sf_frame :: stack_frame
  sf_os :: "('r, 's, 'o) os py_owned"
  sf_proc :: process
  sf_module :: "py_module option option"

definition frame_of :: "('r, 's, 'o) os py_owned \<Rightarrow> process \<Rightarrow> stack_frame \<Rightarrow> ('r, 's, 'o) py_frame" where
  "frame_of own proc f = \<lparr>sf_frame = f, sf_os = own, sf_proc = proc, sf_module = None\<rparr>"

record ('r, 's, 'o) call_stack_iter =
  cs_frames :: "('r, 's, 'o) py_frame list"
  cs_error :: "unit vm_result"

text \<open>A panic of the walk is not caught; an error is kept with the frames before it.\<close>

definition py_callstack :: "('r, 's, 'o) py_process \<Rightarrow> ('r, 's, 'o) call_stack_iter py_call" where
  "py_callstack self =
     (case owned_borrow (pp_os self) of
        Ok os \<Rightarrow>
          map_option (\<lambda>(frames, r).
              if r = Panic then Panic
              else Ok \<lparr>cs_frames = map (frame_of (pp_os self) (pp_proc self)) frames, cs_error = r\<rparr>)
            (for_each push_to (process_callstack os (pp_proc self)) [])
      | Err e \<Rightarrow> Some (Err e)
      | Panic \<Rightarrow> Some Panic)"

definition call_stack_next ::
  "(int \<Rightarrow> string) \<Rightarrow> ('r, 's, 'o) call_stack_iter \<Rightarrow> ('r, 's, 'o) call_stack_iter \<times> ('r, 's, 'o) py_frame option py_result"
where
  "call_stack_next os_msg self =
     (case cs_frames self of
        f # fs \<Rightarrow> (self\<lparr>cs_frames := fs\<rparr>, Ok (Some f))
      | [] \<Rightarrow> (self\<lparr>cs_error := Ok ()\<rparr>, map_ok (\<lambda>u. None) (convert_err os_msg (cs_error self))))"

text \<open>The module of a frame is read at the first access; an error is not remembered.\<close>

definition py_frame_module ::
  "(int \<Rightarrow> string) \<Rightarrow> ('r, 's, 'o) py_frame \<Rightarrow> (('r, 's, 'o) py_frame \<times> py_module option py_result) option"
where
  "py_frame_module os_msg self =
     (case sf_module self of
        Some m \<Rightarrow> Some (self, Ok m)
      | None \<Rightarrow>
          (case frame_module (sf_frame self) of
             None \<Rightarrow> Some (self\<lparr>sf_module := Some None\<rparr>, Ok None)
           | Some m \<Rightarrow>
               map_option (\<lambda>r. case r of
                   Ok pm \<Rightarrow> (self\<lparr>sf_module := Some (Some pm)\<rparr>, Ok (Some pm))
                 | Err e \<Rightarrow> (self, Err e)
                 | Panic \<Rightarrow> (self, Panic))
                 (py_with os_msg (sf_os self) (\<lambda>os. module_new (sf_proc self) os m))))"

text \<open>\<open>dem\<close> is \<open>symbols::demangle\<close>; with \<open>demangle\<close> it is applied to the symbol, and then to the formatted name.\<close>

definition py_frame_symbol :: "(int \<Rightarrow> string) \<Rightarrow> (string \<Rightarrow> string) \<Rightarrow> ('r, 's, 'o) py_frame \<Rightarrow> bool \<Rightarrow> string py_call" where
  "py_frame_symbol os_msg dem self demangled =
     py_map (\<lambda>s. if demangled then dem s else s)
       (py_with os_msg (sf_os self) (\<lambda>os. format_stackframe_symbol dem os (sf_proc self) (sf_frame self) demangled))"

section \<open>Lemmas\<close>

text \<open>The results of successive calls of \<open>__next__\<close>.\<close>

fun call_stack_nexts ::
  "(int \<Rightarrow> string) \<Rightarrow> nat \<Rightarrow> ('r, 's, 'o) call_stack_iter \<Rightarrow> ('r, 's, 'o) py_frame option py_result list"
where
  "call_stack_nexts os_msg 0 it = []"
| "call_stack_nexts os_msg (Suc n) it = (let (it', r) = call_stack_next os_msg it in r # call_stack_nexts os_msg n it')"

lemma call_stack_nexts_frames:
  "call_stack_nexts os_msg (length fs + 2) \<lparr>cs_frames = fs, cs_error = r\<rparr> =
     map (\<lambda>f. Ok (Some f)) fs @ [map_ok (\<lambda>u. None) (convert_err os_msg r), Ok None]"
  by (induction fs) (simp_all add: call_stack_next_def convert_err_def numeral_2_eq_2)

lemma py_callstack_run:
  assumes "pp_os self = Some os" "trace_run (process_callstack os (pp_proc self)) frames r" "r \<noteq> Panic"
  shows "py_callstack self =
    Some (Ok \<lparr>cs_frames = map (frame_of (Some os) (pp_proc self)) frames, cs_error = r\<rparr>)"
  using assms for_each_push [OF assms(2), of "[]"] by (simp add: py_callstack_def owned_borrow_def)

text \<open>Every method of an object whose system the garbage collector has cleared raises the same error.\<close>

lemma py_cleared:
  "py_with os_msg (owned_clear own) f = Some (Err (PyRuntimeError ''Tried to access GC'ed ref''))"
  by (simp add: py_with_def owned_borrow_def owned_clear_def)

end
