(* ===== verification/Vm_Interface_Properties.thy ===== *)
theory Vm_Interface_Properties
  imports Vm_Native_Laws Vm_Python Vm_Os_Examples
begin

text \<open>
  Properties of the C interface and of the Python interface, with the system at which their hypotheses are shown
  to hold.
\<close>

text \<open>Two processes, of which one runs, with one frame before its walk ends with \<open>r\<close>.\<close>

definition named_frame :: stack_frame where
  "named_frame = \<lparr>frame_start = None, frame_size = None, frame_sp = 0x8000, frame_ip = 0x401000, frame_module = None\<rparr>"

definition named_os :: "unit vm_result \<Rightarrow> (x86_registers, x86_special_registers, x86_other_registers) os" where
  "named_os r = module_os\<lparr>
     os_vcpus := (os_vcpus module_os)\<lparr>vcpus_count := 1, instruction_pointer := (\<lambda>i. Ok 0x401000),
       stack_pointer := (\<lambda>i. Ok 0x8000), base_pointer := (\<lambda>i. Ok None)\<rparr>,
     current_thread := (\<lambda>i. Some (Ok 0x1000)),
     thread_process := (\<lambda>t. Some (Ok t)),
     process_name := (\<lambda>p. Some (Ok ''init'')),
     for_each_process := Yield 0x1000 (Yield 0x2000 (Stop (Ok ()))),
     process_callstack_with_regs := (\<lambda>p ip sp bp. Yield (named_frame\<lparr>frame_ip := ip, frame_sp := sp\<rparr>) (Stop r))\<rparr>"

lemma named_callstack: "trace_run (process_callstack (named_os r) 0x1000) [named_frame] r"
  by (simp add: process_callstack_def named_os_def iter_vcpus_def current_process_def named_frame_def)

lemma named_processes: "trace_run (for_each_process (named_os r)) [0x1000, 0x2000] (Ok ())"
  by (simp add: named_os_def)

definition empty_world :: c_world where
  "empty_world = \<lparr>c_mem = (\<lambda>a. 0xff), c_error = None\<rparr>"

section \<open>Strings of the C interface\<close>

text \<open>
  The arguments that a caller may give: a buffer with its size, a null pointer with any size, or any pointer with the
  size 0.
\<close>

definition string_buffer :: "u64 \<Rightarrow> nat \<Rightarrow> bool" where
  "string_buffer p n \<longleftrightarrow> p = 0 \<or> n = 0 \<or> c_buffer p n"

text \<open>
  What a function that gives a string leaves: bytes outside of the buffer are not written; the string is cut to the
  size of the buffer, and always ended. Without a buffer nothing is written at all.
\<close>

definition string_written :: "panic_payload \<Rightarrow> u64 \<Rightarrow> nat \<Rightarrow> c_mem \<Rightarrow> string option vm_result \<Rightarrow> c_world \<times> int \<Rightarrow> bool" where
  "string_written pl p n m r res \<longleftrightarrow>
     (\<forall>a. a \<notin> (if p = 0 then {} else (\<lambda>i. p + of_nat i) ` {..<n}) \<longrightarrow> c_mem (fst res) a = m a) \<and>
     (case r of
        Ok s \<Rightarrow>
          (let bs = if p = 0 then [] else take (n - 1) (str_bytes (case s of Some s \<Rightarrow> s | None \<Rightarrow> []))
           in snd res = int (length bs) \<and> c_error (fst res) = None \<and>
              (p \<noteq> 0 \<and> 0 < n \<longrightarrow> load_bytes (c_mem (fst res)) p (length bs + 1) = bs @ [0] \<and>
                (0 \<notin> set bs \<longrightarrow> c_str (c_mem (fst res)) p = Some bs)))
      | Err e \<Rightarrow>
          snd res = - 1 \<and> c_error (fst res) = Some e \<and> (p \<noteq> 0 \<and> 0 < n \<longrightarrow> c_str (c_mem (fst res)) p = Some [])
      | Panic \<Rightarrow>
          snd res = - 1 \<and> c_error (fst res) = Some (convert_panic_payload pl) \<and>
          (p \<noteq> 0 \<and> 0 < n \<longrightarrow> c_str (c_mem (fst res)) p = Some []))"

lemma store_bytes_outside:
  assumes "a \<notin> (\<lambda>i. p + of_nat i) ` {..<n}" "length bs \<le> n"
  shows "store_bytes m p bs a = m a"
  using assms by (intro store_bytes_other) (auto simp: image_iff)

lemma string_stored:
  assumes "c_buffer p n" "0 < n"
  shows "with_formatter pl p n (write_outcome (Some r)) m = Some res \<Longrightarrow> string_written pl p n m r res"
proof -
  assume res: "with_formatter pl p n (write_outcome (Some r)) m = Some res"
  note F = with_formatter_outcome [OF assms, of pl]
  have p: "p \<noteq> 0" using assms(1) by (simp add: c_buffer_def)
  have z: "p \<in> (\<lambda>i. p + of_nat i) ` {..<n}" using assms(2) by (auto intro!: image_eqI [of _ _ 0])
  have n: "n < 2 ^ 63" "n \<le> 2 ^ 64" using assms(1) by (simp_all add: c_buffer_def)
  show ?thesis
  proof (cases r)
    case (Ok s)
    define bs where "bs = take (n - 1) (str_bytes (case s of Some s \<Rightarrow> s | None \<Rightarrow> []))"
    have "length bs \<le> n - 1" by (simp add: bs_def)
    then have len: "length bs < 2 ^ 63" "length (bs @ [0]) \<le> n" using assms(2) n by auto
    have "res = (\<lparr>c_mem = store_bytes m p (bs @ [0]), c_error = None\<rparr>, int (length bs))"
      unfolding bs_def using res F(1) [of _ m] F(2) [of m] Ok by (cases s) (auto simp: c_text_def str_bytes_def)
    moreover have "load_bytes (store_bytes m p (bs @ [0])) p (length (bs @ [0])) = bs @ [0]"
      using len by (intro load_store_bytes) simp
    moreover have "store_bytes m p (bs @ [0]) a = m a" if "a \<notin> (\<lambda>i. p + of_nat i) ` {..<n}" for a
      using that len(2) by (rule store_bytes_outside)
    ultimately show ?thesis
      using c_str_store [OF _ len(1), of m p]
      using p unfolding string_written_def Ok result.case if_not_P [OF p] bs_def [symmetric] Let_def by simp
  next
    case (Err e)
    then show ?thesis
      using res F(3) [of e m] z c_str_store [of "[]" m p] p by (auto simp: string_written_def)
  next
    case Panic
    then show ?thesis
      using res F(4) [of m] z c_str_store [of "[]" m p] p by (auto simp: string_written_def)
  qed
qed

text \<open>Without a buffer the formatter has no pointer, and what is written to it is lost.\<close>

lemma string_not_stored:
  assumes "p = 0 \<or> n = 0"
  shows "with_formatter pl p n (write_outcome (Some r)) m = Some res \<Longrightarrow> string_written pl p n m r res"
proof -
  assume res: "with_formatter pl p n (write_outcome (Some r)) m = Some res"
  have "fm_ptr (formatter_new p n) = None" "fm_written (formatter_new p n) = 0"
    using assms by (auto simp: formatter_new_def non_null_def)
  then show ?thesis
    using res assms as_isize_nat [of 0]
    by (auto simp: with_formatter_def write_outcome_def write_str_def formatter_finish_def formatter_drop_def wrap_usize_def
        catch_unwind_def string_written_def split: result.splits option.splits)
qed

lemma strings_written:
  assumes "string_buffer p n"
  shows "rel_option (string_written pl p n m) out (with_formatter pl p n (write_outcome out) m)"
proof (cases out)
  case None
  then show ?thesis by (simp add: with_formatter_def write_outcome_def wrap_usize_def catch_unwind_def)
next
  case (Some r)
  obtain res where res: "with_formatter pl p n (write_outcome (Some r)) m = Some res"
    by (simp add: with_formatter_def write_outcome_def wrap_usize_def catch_unwind_def)
  show ?thesis
  proof (cases "p = 0 \<or> n = 0")
    case True
    then show ?thesis using string_not_stored [OF True res] Some res by simp
  next
    case False
    then show ?thesis using string_stored [OF _ _ res] assms Some res by (simp add: string_buffer_def)
  qed
qed

text \<open>
  C35. The strings of the C interface: whatever the call of the library gives, and whatever the size of the buffer is,
  only bytes of the buffer are written, and none at all through a null pointer or when the size is 0. On success the
  buffer has the string, cut to its size and ended by a zero, the result is the length of that text (0 without a buffer),
  and no error is left. On an error or a panic the result is \<open>-1\<close>, the error is kept for \<open>vminer_take_last_error\<close>, and the
  buffer, if there is one, has the empty string. The function returns when the call does.
\<close>

theorem c_strings_bounded:
  assumes "string_buffer p n"
  shows
    "rel_option (string_written pl p n (c_mem w)) (out_map Some (process_name self proc)) (c_process_name pl self proc p n w) \<and>
     rel_option (string_written pl p n (c_mem w)) (process_path self proc) (c_process_path pl self proc p n w) \<and>
     rel_option (string_written pl p n (c_mem w)) (thread_name self thr) (c_thread_name pl self thr p n w) \<and>
     rel_option (string_written pl p n (c_mem w)) (vma_path self v) (c_vma_path pl self v p n w) \<and>
     rel_option (string_written pl p n (c_mem w)) (out_map Some (os_module_name self m proc)) (c_module_name pl self m proc p n w) \<and>
     rel_option (string_written pl p n (c_mem w)) (out_map Some (os_module_path self m proc)) (c_module_path pl self m proc p n w) \<and>
     rel_option (string_written pl p n (c_mem w)) (out_map (map_option fst) (resolve_symbol self addr proc))
       (c_resolve_symbol pl self proc addr p n w)"
  unfolding c_process_name_def c_process_path_def c_thread_name_def c_vma_path_def c_module_name_def c_module_path_def
    c_resolve_symbol_def
  using strings_written [OF assms] by simp

theorem c_strings_bounded_witness:
  "\<exists>w'. c_process_name PanicOther (named_os (Ok ())) 0x1000 0x4000 4 empty_world = Some (w', 3) \<and>
     c_str (c_mem w') 0x4000 = Some (str_bytes ''ini'') \<and> c_mem w' 0x4004 = 0xff \<and>
     (\<exists>w'. c_process_name PanicOther (named_os (Ok ())) 0x1000 0x4000 0 empty_world = Some (w', 0) \<and> (\<forall>a. c_mem w' a = 0xff))"
proof -
  have "string_buffer 0x4000 4" by (simp add: string_buffer_def c_buffer_def)
  from c_strings_bounded [OF this, of PanicOther empty_world "named_os (Ok ())" "0x1000"]
  obtain w' v where w: "c_process_name PanicOther (named_os (Ok ())) 0x1000 0x4000 4 empty_world = Some (w', v)"
    and s: "string_written PanicOther 0x4000 4 (c_mem empty_world) (Ok (Some ''init'')) (w', v)"
    by (cases "c_process_name PanicOther (named_os (Ok ())) 0x1000 0x4000 4 empty_world") (auto simp: named_os_def out_map_def)
  have "0 \<notin> set (take 3 (str_bytes ''init''))" "take 3 (str_bytes ''init'') = str_bytes ''ini''"
    by (simp_all add: str_bytes_def of_char_def numeral_3_eq_3)
  moreover have "string_buffer 0x4000 0" by (simp add: string_buffer_def)
  from c_strings_bounded [OF this, of PanicOther empty_world "named_os (Ok ())" "0x1000", THEN conjunct1]
  have "\<exists>w'. c_process_name PanicOther (named_os (Ok ())) 0x1000 0x4000 0 empty_world = Some (w', 0) \<and> (\<forall>a. c_mem w' a = 0xff)"
    by (cases "c_process_name PanicOther (named_os (Ok ())) 0x1000 0x4000 0 empty_world")
      (auto simp: named_os_def out_map_def string_written_def empty_world_def)
  moreover have "(0x4004::u64) \<notin> (\<lambda>i. 0x4000 + of_nat i) ` {..<4}"
    by (auto simp: lessThan_nat_numeral lessThan_Suc numeral_3_eq_3)
  ultimately show ?thesis
    using w s by (auto simp: string_written_def Let_def empty_world_def str_bytes_def)
qed

section \<open>Arrays of the C interface\<close>

text \<open>What a function that fills an array leaves, when it could enumerate the items.\<close>

definition array_written :: "('a \<Rightarrow> u8 list) \<Rightarrow> nat \<Rightarrow> 'a list \<Rightarrow> u64 \<Rightarrow> nat \<Rightarrow> c_world \<Rightarrow> c_world \<Rightarrow> bool" where
  "array_written enc sz xs p n w w' \<longleftrightarrow>
     c_error w' = None \<and>
     load_bytes (c_mem w') p (min n (length xs) * sz) = concat (map enc (take n xs)) \<and>
     (\<forall>a. a \<notin> (\<lambda>i. p + of_nat i) ` {..<n * sz} \<longrightarrow> c_mem w' a = c_mem w a)"

lemma array_filled:
  assumes "trace_run t xs (Ok ())" "\<forall>x. length (enc x) = sz" "n * sz < 2 ^ 64" "n < 2 ^ 63" "p \<noteq> 0"
  shows "\<exists>w'. fill_from pl enc t p n w = Some (w', int (min n (length xs))) \<and> array_written enc sz xs p n w w'"
proof -
  let ?bs = "concat (map enc (take n xs))"
  have len: "length ?bs = min n (length xs) * sz" using length_concat_enc [OF assms(2), of "take n xs"] by (simp add: min.commute)
  then have le: "length ?bs \<le> n * sz" by simp
  have "load_bytes (store_bytes (c_mem w) p ?bs) p (length ?bs) = ?bs"
    using le assms(3) by (intro load_store_bytes) simp
  moreover have "store_bytes (c_mem w) p ?bs a = c_mem w a" if "a \<notin> (\<lambda>i. p + of_nat i) ` {..<n * sz}" for a
    using that le by (rule store_bytes_outside)
  ultimately show ?thesis
    using fill_from_array [OF assms(1,2) _ assms(4,5), of pl w] assms(3) len by (simp add: array_written_def)
qed

text \<open>
  C36. The arrays of the C interface: a call with a null array counts the items and writes nothing; a call with an array
  of \<open>k\<close> elements writes the first \<open>k\<close> items, in order, and returns how many it wrote. With as many elements as
  the first call counted the caller gets every item. Nothing is written outside of the array. This is shown for the
  processes, which are one address, and for the frames of a call stack, which are two.
\<close>

theorem c_arrays_two_calls:
  assumes "trace_run (for_each_process self) ps (Ok ())" "trace_run (process_callstack self proc) fs (Ok ())"
    and "length ps < 2 ^ 63" "length fs < 2 ^ 63" "p \<noteq> 0" "k < 2 ^ 60"
  shows
    "os_processes pl self 0 n w = Some (\<lparr>c_mem = c_mem w, c_error = None\<rparr>, int (length ps)) \<and>
     (\<exists>w'. os_processes pl self p k w = Some (w', int (min k (length ps))) \<and> array_written enc_handle 8 ps p k w w') \<and>
     c_process_callstack pl self proc 0 n w = Some (\<lparr>c_mem = c_mem w, c_error = None\<rparr>, int (length fs)) \<and>
     (\<exists>w'. c_process_callstack pl self proc p k w = Some (w', int (min k (length fs))) \<and> array_written enc_frame 16 fs p k w w')"
  unfolding os_processes_def c_process_callstack_def
  using assms by (auto intro!: fill_from_null array_filled)

theorem c_arrays_two_calls_witness:
  "\<exists>w'. os_processes PanicOther (named_os (Ok ())) 0x4000 2 empty_world = Some (w', 2) \<and>
     load_bytes (c_mem w') 0x4000 16 = enc_handle 0x1000 @ enc_handle 0x2000"
  using c_arrays_two_calls [OF named_processes named_callstack, of "0x4000" 2 PanicOther 0 empty_world]
  by (auto simp: array_written_def)

section \<open>Values and errors of the C interface\<close>

definition value_written :: "u64 \<Rightarrow> panic_payload \<Rightarrow> c_world \<Rightarrow> u64 vm_result \<Rightarrow> c_world \<times> int \<Rightarrow> bool" where
  "value_written res pl w r out \<longleftrightarrow>
     0 \<le> snd out \<and>
     (case r of
        Ok x \<Rightarrow> snd out = 0 \<and> c_error (fst out) = None \<and>
          (if res = 0 then c_mem (fst out) = c_mem w else load_bytes (c_mem (fst out)) res 8 = to_le_bytes 8 x)
      | Err e \<Rightarrow> snd out = 1 \<and> c_error (fst out) = Some e \<and> c_mem (fst out) = c_mem w
      | Panic \<Rightarrow> snd out = 1 \<and> c_error (fst out) = Some (convert_panic_payload pl) \<and> c_mem (fst out) = c_mem w)"

lemma values_written: "rel_option (value_written res pl w) out (wrap pl enc_handle res (in_mem w out))"
proof (cases out)
  case (Some r)
  have "load_bytes (store_bytes (c_mem w) res (enc_handle x)) res 8 = to_le_bytes 8 x" for x
    using load_store_bytes [of "enc_handle x" "c_mem w" res] by (simp add: enc_handle_def)
  then show ?thesis using Some by (cases r) (simp_all add: value_written_def wrap_outcome)
qed (simp add: wrap_outcome)

text \<open>
  C37. The values of the C interface: on success the result is 0, the value is in the place of the caller and no error is
  left. On an error or a panic the result is 1, nothing is written, and the error is kept. The result is never
  negative, so that a caller that looks for negative results, as \<^verbatim>\<open>native/vminer.c\<close> does with \<open>process_id\<close>, does not see
  an error.
\<close>

theorem c_values_never_negative:
    "rel_option (value_written res pl w) (process_id self proc) (c_process_id pl self proc res w) \<and>
     rel_option (value_written res pl w) (process_pgd self proc) (c_process_pgd pl self proc res w) \<and>
     rel_option (value_written res pl w) (process_parent self proc) (c_process_parent pl self proc res w) \<and>
     rel_option (value_written res pl w) (current_process self vcpu) (os_current_process pl self vcpu res w) \<and>
     rel_option (value_written res pl w) (current_thread self vcpu) (os_current_thread pl self vcpu res w) \<and>
     rel_option (value_written res pl w) (thread_id self thr) (c_thread_id pl self thr res w) \<and>
     rel_option (value_written res pl w) (thread_process self thr) (c_thread_process pl self thr res w) \<and>
     rel_option (value_written res pl w) (vma_start self v) (c_vma_start pl self v res w) \<and>
     rel_option (value_written res pl w) (vma_end self v) (c_vma_end pl self v res w) \<and>
     rel_option (value_written res pl w) (out_map fst (module_span self m proc)) (c_module_start pl self m proc res w) \<and>
     rel_option (value_written res pl w) (out_map snd (module_span self m proc)) (c_module_end pl self m proc res w)"
  unfolding c_process_id_def c_process_pgd_def c_process_parent_def os_current_process_def os_current_thread_def c_thread_id_def
    c_thread_process_def c_vma_start_def c_vma_end_def c_module_start_def c_module_end_def
  using values_written by simp

section \<open>Call stacks of the Python interface\<close>

text \<open>
  C39. The call stack of a process in Python: when the walk ends, with or without an error, \<open>callstack\<close> returns an
  iterator, which gives every frame of the walk in order, then raises the error of the walk, once, and then stops. When
  there was no error it stops after the frames.
\<close>

theorem py_callstack_iterates:
  assumes "pp_os self = Some os" "trace_run (process_callstack os (pp_proc self)) frames r" "r \<noteq> Panic"
  shows "\<exists>it. py_callstack self = Some (Ok it) \<and>
    call_stack_nexts os_msg (length frames + 2) it =
      map (\<lambda>f. Ok (Some (frame_of (Some os) (pp_proc self) f))) frames @
      [case r of Err e \<Rightarrow> Err (VminerError (print_backtrace os_msg e)) | _ \<Rightarrow> Ok None, Ok None]"
proof -
  have "map_ok (\<lambda>u. None) (convert_err os_msg r) =
      (case r of Err e \<Rightarrow> Err (VminerError (print_backtrace os_msg e)) | _ \<Rightarrow> Ok None)"
    using assms(3) by (cases r) (simp_all add: convert_err_def)
  then show ?thesis
    using py_callstack_run [OF assms] call_stack_nexts_frames [of os_msg "map (frame_of (Some os) (pp_proc self)) frames" r]
    by simp
qed

definition stopped_os :: "(x86_registers, x86_special_registers, x86_other_registers) os" where
  "stopped_os = named_os (Err (vm_of_str ''end''))"

theorem py_callstack_iterates_witness:
  "\<exists>it. py_callstack (process_of (Some stopped_os) 0x1000) = Some (Ok it) \<and>
     call_stack_nexts (\<lambda>n. []) 3 it =
       [Ok (Some (frame_of (Some stopped_os) 0x1000 named_frame)),
        Err (VminerError (print_backtrace (\<lambda>n. []) (vm_of_str ''end''))), Ok None]"
proof -
  have "pp_os (process_of (Some stopped_os) 0x1000) = Some stopped_os"
    "trace_run (process_callstack stopped_os (pp_proc (process_of (Some stopped_os) 0x1000))) [named_frame] (Err (vm_of_str ''end''))"
    using named_callstack by (simp_all add: process_of_def stopped_os_def)
  from py_callstack_iterates [OF this, of "\<lambda>n. []"] show ?thesis
    by (simp add: numeral_3_eq_3 process_of_def)
qed

end
