(* ===== verification/Vm_Kvm_Ioctl.thy ===== *)
theory Vm_Kvm_Ioctl
  imports Vm_Kvm_Attach_Laws Vm_Native
begin

text \<open>
  The calls of KVM that the payload makes (\<^verbatim>\<open>kvm_patch/src/x86_64.rs\<close> and \<^verbatim>\<open>aarch64.rs\<close>): the structures of the kernel,
  as bytes, and the functions that fill them with \<open>ioctl\<close>. \<open>ioctl\<close> is a parameter: it acts on the memory of the process,
  given the file descriptor, the request and the address of its argument, and gives its result and \<open>errno\<close>. The
  variables of a function are at the addresses \<open>p\<close> and \<open>q\<close>.
\<close>

section \<open>Requests\<close>

definition KVM_GET_REGS :: u64 where "KVM_GET_REGS = 2156965505"
definition KVM_GET_SREGS :: u64 where "KVM_GET_SREGS = 2167975555"
definition KVM_GET_MSRS :: u64 where "KVM_GET_MSRS = 3221794440"
definition KVM_GET_REG_LIST :: u64 where "KVM_GET_REG_LIST = 3221794480"
definition KVM_GET_ONE_REG :: u64 where "KVM_GET_ONE_REG = 1074835115"

type_synonym ioctl = "32 word \<Rightarrow> u64 \<Rightarrow> u64 \<Rightarrow> c_mem \<Rightarrow> c_mem \<times> int \<times> int"

definition ioctl_check :: "int \<times> int \<Rightarrow> (unit, io_error) result" where
  "ioctl_check r = (if fst r = - 1 then Err (IoOs (snd r)) else Ok ())"

section \<open>Structures\<close>

record kvm_regs =
  k_rax :: u64
  k_rbx :: u64
  k_rcx :: u64
  k_rdx :: u64
  k_rsi :: u64
  k_rdi :: u64
  k_rsp :: u64
  k_rbp :: u64
  k_r8 :: u64
  k_r9 :: u64
  k_r10 :: u64
  k_r11 :: u64
  k_r12 :: u64
  k_r13 :: u64
  k_r14 :: u64
  k_r15 :: u64
  k_rip :: u64
  k_rflags :: u64

record kvm_segment =
  kg_base :: u64
  kg_limit :: u32
  kg_selector :: u16
  kg_type :: u8
  kg_present :: u8
  kg_dpl :: u8
  kg_db :: u8
  kg_s :: u8
  kg_l :: u8
  kg_g :: u8
  kg_avl :: u8
  kg_unusable :: u8
  kg_padding :: u8

record kvm_dtable =
  kd_base :: u64
  kd_limit :: u16
  kd_padding :: "u16 list"

record kvm_sregs =
  k_cs :: kvm_segment
  k_ds :: kvm_segment
  k_es :: kvm_segment
  k_fs :: kvm_segment
  k_gs :: kvm_segment
  k_ss :: kvm_segment
  k_tr :: kvm_segment
  k_ldt :: kvm_segment
  k_gdt :: kvm_dtable
  k_idt :: kvm_dtable
  k_cr0 :: u64
  k_cr2 :: u64
  k_cr3 :: u64
  k_cr4 :: u64
  k_cr8 :: u64
  k_efer :: u64
  k_apic_base :: u64
  k_interrupt_bitmap :: "u64 list"

text \<open>\<open>bytemuck::bytes_of\<close>, and the structure that is at an address.\<close>

definition enc_kvm_regs :: "kvm_regs \<Rightarrow> u8 list" where
  "enc_kvm_regs r =
     enc_u64s [k_rax r, k_rbx r, k_rcx r, k_rdx r, k_rsi r, k_rdi r, k_rsp r, k_rbp r, k_r8 r, k_r9 r, k_r10 r, k_r11 r, k_r12 r,
       k_r13 r, k_r14 r, k_r15 r, k_rip r, k_rflags r]"

definition dec_kvm_regs :: "u8 list \<Rightarrow> kvm_regs" where
  "dec_kvm_regs bs =
     (let w = dec_u64s 18 bs in
      \<lparr>k_rax = w ! 0, k_rbx = w ! 1, k_rcx = w ! 2, k_rdx = w ! 3, k_rsi = w ! 4, k_rdi = w ! 5, k_rsp = w ! 6, k_rbp = w ! 7,
       k_r8 = w ! 8, k_r9 = w ! 9, k_r10 = w ! 10, k_r11 = w ! 11, k_r12 = w ! 12, k_r13 = w ! 13, k_r14 = w ! 14, k_r15 = w ! 15,
       k_rip = w ! 16, k_rflags = w ! 17\<rparr>)"

definition enc_kvm_segment :: "kvm_segment \<Rightarrow> u8 list" where
  "enc_kvm_segment s = to_le_bytes 8 (kg_base s) @ to_le_bytes 4 (kg_limit s) @ to_le_bytes 2 (kg_selector s) @
     [kg_type s, kg_present s, kg_dpl s, kg_db s, kg_s s, kg_l s, kg_g s, kg_avl s, kg_unusable s, kg_padding s]"

definition dec_kvm_segment :: "u8 list \<Rightarrow> kvm_segment" where
  "dec_kvm_segment bs =
     \<lparr>kg_base = of_le_bytes (take 8 bs), kg_limit = of_le_bytes (take 4 (drop 8 bs)), kg_selector = of_le_bytes (take 2 (drop 12 bs)),
      kg_type = bs ! 14, kg_present = bs ! 15, kg_dpl = bs ! 16, kg_db = bs ! 17, kg_s = bs ! 18, kg_l = bs ! 19, kg_g = bs ! 20,
      kg_avl = bs ! 21, kg_unusable = bs ! 22, kg_padding = bs ! 23\<rparr>"

definition enc_kvm_dtable :: "kvm_dtable \<Rightarrow> u8 list" where
  "enc_kvm_dtable d = to_le_bytes 8 (kd_base d) @ to_le_bytes 2 (kd_limit d) @ concat (map (to_le_bytes 2) (kd_padding d))"

definition dec_kvm_dtable :: "u8 list \<Rightarrow> kvm_dtable" where
  "dec_kvm_dtable bs =
     \<lparr>kd_base = of_le_bytes (take 8 bs), kd_limit = of_le_bytes (take 2 (drop 8 bs)),
      kd_padding = map (\<lambda>i. of_le_bytes (take 2 (drop (10 + 2 * i) bs))) [0..<3]\<rparr>"

definition enc_kvm_sregs :: "kvm_sregs \<Rightarrow> u8 list" where
  "enc_kvm_sregs r =
     concat (map enc_kvm_segment [k_cs r, k_ds r, k_es r, k_fs r, k_gs r, k_ss r, k_tr r, k_ldt r]) @
     concat (map enc_kvm_dtable [k_gdt r, k_idt r]) @
     enc_u64s ([k_cr0 r, k_cr2 r, k_cr3 r, k_cr4 r, k_cr8 r, k_efer r, k_apic_base r] @ k_interrupt_bitmap r)"

definition dec_kvm_sregs :: "u8 list \<Rightarrow> kvm_sregs" where
  "dec_kvm_sregs bs =
     (let seg = (\<lambda>i. dec_kvm_segment (take 24 (drop (24 * i) bs))); dt = (\<lambda>i. dec_kvm_dtable (take 16 (drop (192 + 16 * i) bs)));
          w = dec_u64s 11 (drop 224 bs) in
      \<lparr>k_cs = seg 0, k_ds = seg 1, k_es = seg 2, k_fs = seg 3, k_gs = seg 4, k_ss = seg 5, k_tr = seg 6, k_ldt = seg 7,
       k_gdt = dt 0, k_idt = dt 1, k_cr0 = w ! 0, k_cr2 = w ! 1, k_cr3 = w ! 2, k_cr4 = w ! 3, k_cr8 = w ! 4, k_efer = w ! 5,
       k_apic_base = w ! 6, k_interrupt_bitmap = drop 7 w\<rparr>)"

definition enc_kvm_msr_entry :: "kvm_msr_entry \<Rightarrow> u8 list" where
  "enc_kvm_msr_entry e = to_le_bytes 4 (me_index e) @ to_le_bytes 4 (me_reserved e) @ to_le_bytes 8 (me_data e)"

definition dec_kvm_msr_entry :: "u8 list \<Rightarrow> kvm_msr_entry" where
  "dec_kvm_msr_entry bs =
     \<lparr>me_index = of_le_bytes (take 4 bs), me_reserved = of_le_bytes (take 4 (drop 4 bs)), me_data = of_le_bytes (take 8 (drop 8 bs))\<rparr>"

definition enc_kvm_msrs :: "kvm_msrs \<Rightarrow> u8 list" where
  "enc_kvm_msrs m = to_le_bytes 4 (km_nmsrs m) @ to_le_bytes 4 (km_pad m) @ concat (map enc_kvm_msr_entry (km_entries m))"

definition dec_kvm_msrs :: "u8 list \<Rightarrow> kvm_msrs" where
  "dec_kvm_msrs bs =
     \<lparr>km_nmsrs = of_le_bytes (take 4 bs), km_pad = of_le_bytes (take 4 (drop 4 bs)),
      km_entries = map (\<lambda>i. dec_kvm_msr_entry (take 16 (drop (8 + 16 * i) bs))) [0..<2]\<rparr>"

record kvm_one_reg =
  or_id :: u64
  or_addr :: u64

definition enc_kvm_one_reg :: "kvm_one_reg \<Rightarrow> u8 list" where
  "enc_kvm_one_reg r = enc_u64s [or_id r, or_addr r]"

record kvm_reg_list =
  rl_len :: u64
  rl_reg :: "u64 list"

definition enc_kvm_reg_list :: "kvm_reg_list \<Rightarrow> u8 list" where
  "enc_kvm_reg_list r = enc_u64s (rl_len r # rl_reg r)"

definition dec_kvm_reg_list :: "u8 list \<Rightarrow> kvm_reg_list" where
  "dec_kvm_reg_list bs = (let w = dec_u64s 513 bs in \<lparr>rl_len = w ! 0, rl_reg = drop 1 w\<rparr>)"

section \<open>Calls\<close>

definition ioctl_get_regs :: "ioctl \<Rightarrow> u64 \<Rightarrow> c_mem \<Rightarrow> 32 word \<Rightarrow> (kvm_regs, io_error) result" where
  "ioctl_get_regs ioctl p mem fd =
     (let (mem, r) = ioctl fd KVM_GET_REGS p mem in map_ok (\<lambda>u. dec_kvm_regs (load_bytes mem p 144)) (ioctl_check r))"

definition ioctl_get_sregs :: "ioctl \<Rightarrow> u64 \<Rightarrow> c_mem \<Rightarrow> 32 word \<Rightarrow> (kvm_sregs, io_error) result" where
  "ioctl_get_sregs ioctl p mem fd =
     (let (mem, r) = ioctl fd KVM_GET_SREGS p mem in map_ok (\<lambda>u. dec_kvm_sregs (load_bytes mem p 312)) (ioctl_check r))"

definition ioctl_get_msrs :: "ioctl \<Rightarrow> u64 \<Rightarrow> c_mem \<Rightarrow> 32 word \<Rightarrow> kvm_msrs \<Rightarrow> (kvm_msrs, io_error) result" where
  "ioctl_get_msrs ioctl p mem fd msrs =
     (let (mem, r) = ioctl fd KVM_GET_MSRS p (store_bytes mem p (enc_kvm_msrs msrs))
      in map_ok (\<lambda>u. dec_kvm_msrs (load_bytes mem p 40)) (ioctl_check r))"

text \<open>The register is the variable at \<open>q\<close>, whose address is in the argument.\<close>

definition ioctl_get_one_reg :: "ioctl \<Rightarrow> u64 \<Rightarrow> u64 \<Rightarrow> c_mem \<Rightarrow> 32 word \<Rightarrow> u64 \<Rightarrow> (u64, io_error) result" where
  "ioctl_get_one_reg ioctl p q mem fd i =
     (let mem = store_bytes mem q (to_le_bytes 8 (0 :: u64));
          (mem, r) = ioctl fd KVM_GET_ONE_REG p (store_bytes mem p (enc_kvm_one_reg \<lparr>or_id = i, or_addr = q\<rparr>))
      in map_ok (\<lambda>u. of_le_bytes (load_bytes mem q 8)) (ioctl_check r))"

text \<open>The unused function that writes all the registers to a file: \<open>create\<close> is the outcome of \<open>File::create\<close>, \<open>wr\<close> writes.\<close>

fun write_reg_lines ::
  "(u64 \<Rightarrow> (u64, io_error) result) \<Rightarrow> writer \<Rightarrow> u64 list \<Rightarrow> u8 list \<Rightarrow> u8 list \<times> (unit, io_error) result"
where
  "write_reg_lines one wr [] out = (out, Ok ())"
| "write_reg_lines one wr (i # is) out =
     (case one i of
        Ok reg \<Rightarrow>
          (case write_chunks wr [str_bytes (hex_nat (unat i)), [0x09], str_bytes (hex_nat (unat reg)), [0x0a]] out of
             (out, Ok u) \<Rightarrow> write_reg_lines one wr is out
           | (out, r) \<Rightarrow> (out, r))
      | Err e \<Rightarrow> (out, Err e)
      | Panic \<Rightarrow> (out, Panic))"

definition write_reg_list ::
  "ioctl \<Rightarrow> u64 \<Rightarrow> u64 \<Rightarrow> c_mem \<Rightarrow> (unit, io_error) result \<Rightarrow> writer \<Rightarrow> 32 word \<Rightarrow> u8 list \<times> (kvm_reg_list, io_error) result"
where
  "write_reg_list ioctl p q mem create wr fd =
     (case create of
        Ok u \<Rightarrow>
          (let (mem', r) = ioctl fd KVM_GET_REG_LIST p (store_bytes mem p (enc_kvm_reg_list \<lparr>rl_len = 512, rl_reg = replicate 512 0\<rparr>))
           in case ioctl_check r of
                Ok u \<Rightarrow>
                  (let regs = dec_kvm_reg_list (load_bytes mem' p 4104);
                       (out, r) = write_reg_lines (ioctl_get_one_reg ioctl p q mem fd) wr (take (unat (rl_len regs)) (rl_reg regs)) []
                   in (out, map_ok (\<lambda>u. regs) r))
              | Err e \<Rightarrow> ([], Err e)
              | Panic \<Rightarrow> ([], Panic))
      | Err e \<Rightarrow> ([], Err e)
      | Panic \<Rightarrow> ([], Panic))"

text \<open>The calls of the payload, made with \<open>ioctl\<close>. The library has its own structures for the bytes that are sent.\<close>

definition kvm_calls_of :: "ioctl \<Rightarrow> u64 \<Rightarrow> u64 \<Rightarrow> c_mem \<Rightarrow> kvm_calls" where
  "kvm_calls_of ioctl p q mem =
     \<lparr>kvm_get_regs_call = (\<lambda>fd. map_ok (\<lambda>r. dec_x86_registers (enc_kvm_regs r)) (ioctl_get_regs ioctl p mem fd)),
      kvm_get_sregs_call = (\<lambda>fd. map_ok (\<lambda>r. dec_x86_special (enc_kvm_sregs r)) (ioctl_get_sregs ioctl p mem fd)),
      kvm_get_msrs_call = ioctl_get_msrs ioctl p mem,
      kvm_get_one_reg_call = ioctl_get_one_reg ioctl p q mem\<rparr>"

section \<open>Layouts\<close>

text \<open>A request has the size of its structure in its bits 16 to 29; for the two lists this is their header.\<close>

definition ioctl_size :: "u64 \<Rightarrow> nat" where
  "ioctl_size req = unat (drop_bit 16 req AND 0x3fff)"

lemma length_enc_kvm_regs [simp]: "length (enc_kvm_regs r) = 144"
  by (simp add: enc_kvm_regs_def del: enc_u64s_Cons enc_u64s_Nil)

lemma length_enc_kvm_segment [simp]: "length (enc_kvm_segment s) = 24"
  by (simp add: enc_kvm_segment_def)

definition kvm_sregs_wf :: "kvm_sregs \<Rightarrow> bool" where
  "kvm_sregs_wf r \<longleftrightarrow> length (kd_padding (k_gdt r)) = 3 \<and> length (kd_padding (k_idt r)) = 3 \<and> length (k_interrupt_bitmap r) = 4"

lemma length_enc_kvm_dtable: "length (kd_padding d) = 3 \<Longrightarrow> length (enc_kvm_dtable d) = 16"
  by (auto simp: enc_kvm_dtable_def elim!: length_3E)

lemma length_enc_kvm_sregs: "kvm_sregs_wf r \<Longrightarrow> length (enc_kvm_sregs r) = 312"
  by (simp add: enc_kvm_sregs_def kvm_sregs_wf_def length_enc_kvm_dtable del: enc_u64s_Cons enc_u64s_append)

lemma ioctl_sizes:
  "ioctl_size KVM_GET_REGS = length (enc_kvm_regs r)" "kvm_sregs_wf s \<Longrightarrow> ioctl_size KVM_GET_SREGS = length (enc_kvm_sregs s)"
  "ioctl_size KVM_GET_ONE_REG = length (enc_kvm_one_reg o')"
  by (simp_all add: ioctl_size_def KVM_GET_REGS_def KVM_GET_SREGS_def KVM_GET_ONE_REG_def length_enc_kvm_sregs enc_kvm_one_reg_def)

text \<open>The registers of the library, name by name.\<close>

definition as_x86_registers :: "kvm_regs \<Rightarrow> x86_registers" where
  "as_x86_registers r =
     \<lparr>rax = k_rax r, rbx = k_rbx r, rcx = k_rcx r, rdx = k_rdx r, rsi = k_rsi r, rdi = k_rdi r, rsp = k_rsp r, rbp = k_rbp r,
      r8 = k_r8 r, r9 = k_r9 r, r10 = k_r10 r, r11 = k_r11 r, r12 = k_r12 r, r13 = k_r13 r, r14 = k_r14 r, r15 = k_r15 r,
      rip = k_rip r, rflags = k_rflags r\<rparr>"

definition as_segment :: "kvm_segment \<Rightarrow> segment" where
  "as_segment s =
     \<lparr>seg_base = kg_base s, seg_limit = kg_limit s, seg_selector = kg_selector s, seg_type = kg_type s, seg_present = kg_present s,
      seg_dpl = kg_dpl s, seg_db = kg_db s, seg_s = kg_s s, seg_l = kg_l s, seg_g = kg_g s, seg_avl = kg_avl s,
      seg_unusable = kg_unusable s, seg_padding = kg_padding s\<rparr>"

definition as_dtable :: "kvm_dtable \<Rightarrow> dtable" where
  "as_dtable d = \<lparr>dt_base = kd_base d, dt_limit = kd_limit d, dt_padding = kd_padding d\<rparr>"

definition as_x86_special :: "kvm_sregs \<Rightarrow> x86_special_registers" where
  "as_x86_special r =
     \<lparr>sr_cs = as_segment (k_cs r), sr_ds = as_segment (k_ds r), sr_es = as_segment (k_es r), sr_fs = as_segment (k_fs r),
      sr_gs = as_segment (k_gs r), sr_ss = as_segment (k_ss r), sr_tr = as_segment (k_tr r), sr_ldt = as_segment (k_ldt r),
      sr_gdt = as_dtable (k_gdt r), sr_idt = as_dtable (k_idt r), cr0 = k_cr0 r, cr2 = k_cr2 r, cr3 = k_cr3 r, cr4 = k_cr4 r,
      cr8 = k_cr8 r, efer = k_efer r, apic_base = k_apic_base r, interrupt_bitmap = k_interrupt_bitmap r\<rparr>"

lemma enc_as_x86: "enc_x86_registers (as_x86_registers r) = enc_kvm_regs r"
  by (simp add: enc_x86_registers_def as_x86_registers_def enc_kvm_regs_def del: enc_u64s_Cons)

lemma enc_as_special: "enc_x86_special (as_x86_special r) = enc_kvm_sregs r"
  by (simp add: enc_x86_special_def as_x86_special_def enc_kvm_sregs_def enc_segment_def as_segment_def enc_kvm_segment_def
      enc_dtable_def as_dtable_def enc_kvm_dtable_def)

lemma special_wf_as: "kvm_sregs_wf r \<Longrightarrow> x86_special_wf (as_x86_special r)"
  by (simp add: kvm_sregs_wf_def x86_special_wf_def as_x86_special_def as_dtable_def)

lemma cast_registers:
  "dec_x86_registers (enc_kvm_regs r) = as_x86_registers r"
  "kvm_sregs_wf s \<Longrightarrow> dec_x86_special (enc_kvm_sregs s) = as_x86_special s"
  using dec_x86_registers [of "as_x86_registers r"] dec_x86_special [OF special_wf_as, of s] by (simp_all add: enc_as_x86 enc_as_special)

lemma dec_kvm_regs [simp]: "dec_kvm_regs (enc_kvm_regs r) = r"
  by (simp add: dec_kvm_regs_def enc_kvm_regs_def dec_enc_u64s_end Let_def del: enc_u64s_Cons enc_u64s_Nil)

lemma dec_kvm_segment [simp]: "dec_kvm_segment (enc_kvm_segment s) = s"
  by (simp add: dec_kvm_segment_def enc_kvm_segment_def nth_append)

lemma dec_kvm_dtable: "length (kd_padding d) = 3 \<Longrightarrow> dec_kvm_dtable (enc_kvm_dtable d) = d"
  by (erule length_3E) (simp add: dec_kvm_dtable_def enc_kvm_dtable_def upt_rec)

lemma dec_kvm_sregs: "kvm_sregs_wf r \<Longrightarrow> dec_kvm_sregs (enc_kvm_sregs r) = r"
  by (simp add: dec_kvm_sregs_def enc_kvm_sregs_def kvm_sregs_wf_def length_enc_kvm_dtable dec_kvm_dtable
      dec_enc_u64s_end Let_def del: enc_u64s_Cons enc_u64s_append enc_u64s_Nil)

section \<open>What the kernel promises\<close>

text \<open>
  The documented behaviour of the requests: the kernel fills the structure at the address of the argument, or the variable
  that the argument points to. \<open>msr\<close> and \<open>one\<close> are the registers by their index.
\<close>

definition kernel_x86 ::
  "ioctl \<Rightarrow> (32 word \<Rightarrow> kvm_regs) \<Rightarrow> (32 word \<Rightarrow> kvm_sregs) \<Rightarrow> (32 word \<Rightarrow> u32 \<Rightarrow> u64) \<Rightarrow> bool"
where
  "kernel_x86 ioctl regs sregs msr \<longleftrightarrow>
     (\<forall>fd p mem. \<exists>e. ioctl fd KVM_GET_REGS p mem = (store_bytes mem p (enc_kvm_regs (regs fd)), 0, e)) \<and>
     (\<forall>fd p mem. \<exists>e. ioctl fd KVM_GET_SREGS p mem = (store_bytes mem p (enc_kvm_sregs (sregs fd)), 0, e)) \<and>
     (\<forall>fd p mem ms. load_bytes mem p 40 = enc_kvm_msrs ms \<longrightarrow> length (km_entries ms) = 2 \<longrightarrow>
        (\<exists>e. ioctl fd KVM_GET_MSRS p mem =
           (store_bytes mem p (enc_kvm_msrs (ms\<lparr>km_entries := map (\<lambda>e. e\<lparr>me_data := msr fd (me_index e)\<rparr>) (km_entries ms)\<rparr>)), 2, e)))"

definition kernel_arm :: "ioctl \<Rightarrow> (32 word \<Rightarrow> u64 \<Rightarrow> u64) \<Rightarrow> bool" where
  "kernel_arm ioctl one \<longleftrightarrow>
     (\<forall>fd p mem r. load_bytes mem p 16 = enc_kvm_one_reg r \<longrightarrow>
        (\<exists>e. ioctl fd KVM_GET_ONE_REG p mem = (store_bytes mem (or_addr r) (to_le_bytes 8 (one fd (or_id r))), 0, e)))"

lemma length_2E: "length xs = 2 \<Longrightarrow> (\<And>a b. xs = [a, b] \<Longrightarrow> P) \<Longrightarrow> P"
  by (auto simp: numeral_2_eq_2 length_Suc_conv)

lemma dec_kvm_msr_entry [simp]: "dec_kvm_msr_entry (enc_kvm_msr_entry e) = e"
  and length_enc_kvm_msr_entry [simp]: "length (enc_kvm_msr_entry e) = 16"
  by (simp_all add: dec_kvm_msr_entry_def enc_kvm_msr_entry_def)

lemma dec_kvm_msrs: "length (km_entries m) = 2 \<Longrightarrow> dec_kvm_msrs (enc_kvm_msrs m) = m"
  and length_enc_kvm_msrs: "length (km_entries m) = 2 \<Longrightarrow> length (enc_kvm_msrs m) = 40"
  by (auto simp: dec_kvm_msrs_def enc_kvm_msrs_def upt_rec elim!: length_2E)

lemma ioctl_get_regs_ok: "kernel_x86 ioctl regs sregs msr \<Longrightarrow> ioctl_get_regs ioctl p mem fd = Ok (regs fd)"
proof -
  assume "kernel_x86 ioctl regs sregs msr"
  then obtain e where "ioctl fd KVM_GET_REGS p mem = (store_bytes mem p (enc_kvm_regs (regs fd)), 0, e)"
    unfolding kernel_x86_def by blast
  then show ?thesis
    using load_store_bytes [of "enc_kvm_regs (regs fd)" mem p] by (simp add: ioctl_get_regs_def ioctl_check_def)
qed

lemma ioctl_get_sregs_ok:
  assumes "kernel_x86 ioctl regs sregs msr" "kvm_sregs_wf (sregs fd)"
  shows "ioctl_get_sregs ioctl p mem fd = Ok (sregs fd)"
proof -
  obtain e where "ioctl fd KVM_GET_SREGS p mem = (store_bytes mem p (enc_kvm_sregs (sregs fd)), 0, e)"
    using assms(1) unfolding kernel_x86_def by blast
  then show ?thesis
    using load_store_bytes [of "enc_kvm_sregs (sregs fd)" mem p] length_enc_kvm_sregs [OF assms(2)] dec_kvm_sregs [OF assms(2)]
    by (simp add: ioctl_get_sregs_def ioctl_check_def)
qed

lemma ioctl_get_msrs_ok:
  assumes "kernel_x86 ioctl regs sregs msr" "length (km_entries ms) = 2"
  shows "ioctl_get_msrs ioctl p mem fd ms = Ok (ms\<lparr>km_entries := map (\<lambda>e. e\<lparr>me_data := msr fd (me_index e)\<rparr>) (km_entries ms)\<rparr>)"
    (is "_ = Ok ?ms")
proof -
  have "load_bytes (store_bytes mem p (enc_kvm_msrs ms)) p 40 = enc_kvm_msrs ms"
    using load_store_bytes [of "enc_kvm_msrs ms" mem p] length_enc_kvm_msrs [OF assms(2)] by simp
  with assms obtain e where
    "ioctl fd KVM_GET_MSRS p (store_bytes mem p (enc_kvm_msrs ms)) = (store_bytes (store_bytes mem p (enc_kvm_msrs ms)) p (enc_kvm_msrs ?ms), 2, e)"
    unfolding kernel_x86_def by blast
  moreover have "length (km_entries ?ms) = 2" using assms(2) by simp
  ultimately show ?thesis
    using load_store_bytes [of "enc_kvm_msrs ?ms" "store_bytes mem p (enc_kvm_msrs ms)" p] length_enc_kvm_msrs [of ?ms] dec_kvm_msrs [of ?ms]
    by (simp add: ioctl_get_msrs_def ioctl_check_def)
qed

lemma ioctl_get_one_reg_ok:
  assumes "kernel_arm ioctl one"
  shows "ioctl_get_one_reg ioctl p q mem fd i = Ok (one fd i)"
proof -
  let ?r = "\<lparr>or_id = i, or_addr = q\<rparr>"
  let ?m = "store_bytes (store_bytes mem q (to_le_bytes 8 (0 :: u64))) p (enc_kvm_one_reg ?r)"
  have "load_bytes ?m p 16 = enc_kvm_one_reg ?r"
    using load_store_bytes [of "enc_kvm_one_reg ?r" "store_bytes mem q (to_le_bytes 8 (0 :: u64))" p] by (simp add: enc_kvm_one_reg_def)
  with assms obtain e where "ioctl fd KVM_GET_ONE_REG p ?m = (store_bytes ?m q (to_le_bytes 8 (one fd i)), 0, e)"
    unfolding kernel_arm_def by fastforce
  then show ?thesis
    using load_store_bytes [of "to_le_bytes 8 (one fd i)" ?m q] by (simp add: ioctl_get_one_reg_def ioctl_check_def Let_def)
qed

text \<open>The registers of a processor, as the library has them.\<close>

definition kernel_x86_vcpu ::
  "(32 word \<Rightarrow> kvm_regs) \<Rightarrow> (32 word \<Rightarrow> kvm_sregs) \<Rightarrow> (32 word \<Rightarrow> u32 \<Rightarrow> u64) \<Rightarrow> 32 word \<Rightarrow> x86_vcpu"
where
  "kernel_x86_vcpu regs sregs msr fd =
     \<lparr>vcpu_registers = as_x86_registers (regs fd), vcpu_special = as_x86_special (sregs fd),
      vcpu_other = \<lparr>lstar = msr fd 0xc0000082, gs_kernel_base = msr fd 0xc0000102\<rparr>\<rparr>"

definition kernel_arm_vcpu :: "(32 word \<Rightarrow> u64 \<Rightarrow> u64) \<Rightarrow> 32 word \<Rightarrow> arm_vcpu" where
  "kernel_arm_vcpu one fd =
     \<lparr>vcpu_registers =
        \<lparr>arm_regs = map (\<lambda>i. one fd (arm_reg_id i)) [0..<31], arm_sp = one fd (arm_reg_id 31), arm_pc = one fd (arm_reg_id 32),
         arm_pstate = one fd (arm_reg_id 33)\<rparr>,
      vcpu_special =
        \<lparr>sp_el1 = one fd 0x6030000000100044, ttbr0_el1 = one fd 0x603000000013c100, ttbr1_el1 = one fd 0x603000000013c101,
         vbar_el1 = one fd 0x603000000013c600\<rparr>,
      vcpu_other = ArmOther\<rparr>"

lemma kernel_x86_vcpu_of:
  assumes "kernel_x86 ioctl regs sregs msr" "kvm_sregs_wf (sregs fd)"
  shows "x86_vcpu_of (kvm_calls_of ioctl p q mem) fd (kernel_x86_vcpu regs sregs msr fd)"
  by (simp add: x86_vcpu_of_def kvm_calls_of_def payload_get_msrs_def kernel_x86_vcpu_def ioctl_get_regs_ok [OF assms(1)]
      ioctl_get_sregs_ok [OF assms] ioctl_get_msrs_ok [OF assms(1)] cast_registers assms(2))

lemma kernel_reg_list:
  "kernel_arm ioctl one \<Longrightarrow> get_reg_list (kvm_calls_of ioctl p q mem) fd is = Ok (map (one fd) is)"
  by (induction "is") (simp_all add: kvm_calls_of_def ioctl_get_one_reg_ok)

lemma kernel_arm_vcpu_of:
  assumes "kernel_arm ioctl one"
  shows "arm_vcpu_of (kvm_calls_of ioctl p q mem) fd (kernel_arm_vcpu one fd)"
  by (simp add: arm_vcpu_of_def payload_arm_regs_def payload_arm_special_def kernel_reg_list [OF assms] kernel_arm_vcpu_def take_map comp_def
      del: get_reg_list.simps)

section \<open>From the kernel to the library\<close>

lemma kernel_x86_read_back:
  assumes "kernel_x86 ioctl regs sregs msr" "\<forall>fd. kvm_sregs_wf (sregs fd)"
  shows "\<exists>out. vminer_payload (Ok ()) (x86_chunks (kvm_calls_of ioctl p q mem)) vec_writer fds = (out, Ok 0) \<and>
    listener_thread read_x86_vcpus (length fds) (Ok out) = Ok (map (kernel_x86_vcpu regs sregs msr) fds)"
proof (rule x86_payload_read_back)
  show "list_all2 (x86_vcpu_of (kvm_calls_of ioctl p q mem)) fds (map (kernel_x86_vcpu regs sregs msr) fds)"
    using kernel_x86_vcpu_of [OF assms(1)] assms(2) by (simp add: list_all2_map2 list_all2_refl)
  show "\<forall>v \<in> set (map (kernel_x86_vcpu regs sregs msr) fds). x86_special_wf (vcpu_special v)"
    using assms(2) by (simp add: kernel_x86_vcpu_def special_wf_as)
qed

lemma kernel_arm_read_back:
  assumes "kernel_arm ioctl one"
  shows "\<exists>out. vminer_payload (Ok ()) (arm_chunks (kvm_calls_of ioctl p q mem)) vec_writer fds = (out, Ok 0) \<and>
    listener_thread read_arm_vcpus (length fds) (Ok out) = Ok (map (kernel_arm_vcpu one) fds)"
  using kernel_arm_vcpu_of [OF assms] by (intro arm_payload_read_back) (simp add: list_all2_map2 list_all2_refl)

text \<open>A kernel whose registers are made of the file descriptor.\<close>

definition tiny_kvm_regs :: "32 word \<Rightarrow> kvm_regs" where
  "tiny_kvm_regs fd = (dec_kvm_regs (replicate 144 0))\<lparr>k_rsp := ucast fd, k_rip := 2 * ucast fd\<rparr>"

definition tiny_kvm_sregs :: "32 word \<Rightarrow> kvm_sregs" where
  "tiny_kvm_sregs fd = (dec_kvm_sregs (replicate 312 0))\<lparr>k_cr3 := ucast fd\<rparr>"

definition tiny_msr :: "32 word \<Rightarrow> u32 \<Rightarrow> u64" where
  "tiny_msr fd i = ucast fd + ucast i"

definition tiny_one_reg :: "32 word \<Rightarrow> u64 \<Rightarrow> u64" where
  "tiny_one_reg fd i = ucast fd + i"

definition tiny_ioctl :: ioctl where
  "tiny_ioctl fd req p mem =
     (if req = KVM_GET_REGS then (store_bytes mem p (enc_kvm_regs (tiny_kvm_regs fd)), 0, 0)
      else if req = KVM_GET_SREGS then (store_bytes mem p (enc_kvm_sregs (tiny_kvm_sregs fd)), 0, 0)
      else if req = KVM_GET_MSRS then
        (let ms = dec_kvm_msrs (load_bytes mem p 40) in
         (store_bytes mem p (enc_kvm_msrs (ms\<lparr>km_entries := map (\<lambda>e. e\<lparr>me_data := tiny_msr fd (me_index e)\<rparr>) (km_entries ms)\<rparr>)), 2, 0))
      else if req = KVM_GET_ONE_REG then
        (let w = dec_u64s 2 (load_bytes mem p 16) in (store_bytes mem (w ! 1) (to_le_bytes 8 (tiny_one_reg fd (w ! 0))), 0, 0))
      else (mem, - 1, 22))"

lemma requests_distinct:
  "KVM_GET_SREGS \<noteq> KVM_GET_REGS" "KVM_GET_MSRS \<noteq> KVM_GET_REGS" "KVM_GET_MSRS \<noteq> KVM_GET_SREGS" "KVM_GET_ONE_REG \<noteq> KVM_GET_REGS"
  "KVM_GET_ONE_REG \<noteq> KVM_GET_SREGS" "KVM_GET_ONE_REG \<noteq> KVM_GET_MSRS"
  by (simp_all add: KVM_GET_REGS_def KVM_GET_SREGS_def KVM_GET_MSRS_def KVM_GET_ONE_REG_def)

lemma tiny_kernel_x86: "kernel_x86 tiny_ioctl tiny_kvm_regs tiny_kvm_sregs tiny_msr"
  by (simp add: kernel_x86_def tiny_ioctl_def requests_distinct dec_kvm_msrs)

lemma tiny_kernel_arm: "kernel_arm tiny_ioctl tiny_one_reg"
  by (simp add: kernel_arm_def tiny_ioctl_def requests_distinct enc_kvm_one_reg_def dec_enc_u64s_end Let_def
      del: enc_u64s_Cons enc_u64s_Nil)

lemma tiny_sregs_wf: "kvm_sregs_wf (tiny_kvm_sregs fd)"
  by (simp add: kvm_sregs_wf_def tiny_kvm_sregs_def dec_kvm_sregs_def dec_kvm_dtable_def dec_u64s_def Let_def)

end
