(* ===== verification/Vm_Handles.thy ===== *)
theory Vm_Handles
  imports Vm_Native_Backend "HOL-Library.Multiset"
begin

text \<open>
  The objects that the C interface hands out (\<^verbatim>\<open>native/src/backend.rs\<close>, \<^verbatim>\<open>os.rs\<close> and \<^verbatim>\<open>symbols.rs\<close>). A \<open>Box\<close> that is
  returned is a pointer to an object of the heap of the library; a \<open>Box\<close> that is an argument is taken from the caller,
  whatever the outcome of the call. The backend of a system is dropped with it, and dropping a backend that is made of
  C functions calls its function \<open>drop\<close>. A call with a pointer that is not live has no step: it is not defined.
\<close>

section \<open>Backends with their data\<close>

text \<open>\<open>cb_data\<close> is the pointer that the callbacks are given; \<open>cb_drop\<close> says whether there is a function \<open>drop\<close>.\<close>

record 'd owned_backend = x86_64_backend +
  cb_data :: 'd
  cb_drop :: bool

text \<open>The calls of \<open>drop\<close>, in order.\<close>

definition backend_drop :: "'d owned_backend \<Rightarrow> 'd list \<Rightarrow> 'd list" where
  "backend_drop self calls = (if cb_drop self then calls @ [cb_data self] else calls)"

section \<open>The heap of the library\<close>

text \<open>A system owns its backend; what it has besides is what its constructor returned.\<close>

record ('d, 'm, 'os) c_heap =
  ch_backends :: "(u64 \<times> 'd owned_backend) list"
  ch_symbols :: "(u64 \<times> 'm) list"
  ch_oses :: "(u64 \<times> 'd owned_backend \<times> 'os) list"
  ch_errors :: "(u64 \<times> vm_error) list"
  ch_dropped :: "'d list"

definition empty_heap :: "('d, 'm, 'os) c_heap" where
  "empty_heap = \<lparr>ch_backends = [], ch_symbols = [], ch_oses = [], ch_errors = [], ch_dropped = []\<rparr>"

definition heap_pointers :: "('d, 'm, 'os) c_heap \<Rightarrow> u64 list" where
  "heap_pointers h = map fst (ch_backends h) @ map fst (ch_symbols h) @ map fst (ch_oses h) @ map fst (ch_errors h)"

definition without :: "u64 \<Rightarrow> (u64 \<times> 'a) list \<Rightarrow> (u64 \<times> 'a) list" where
  "without p xs = filter (\<lambda>(q, x). q \<noteq> p) xs"

section \<open>The functions\<close>

definition heap_backend_make :: "u64 \<Rightarrow> 'd owned_backend \<Rightarrow> ('d, 'm, 'os) c_heap \<Rightarrow> ('d, 'm, 'os) c_heap" where
  "heap_backend_make p backend h = h\<lparr>ch_backends := (p, backend) # ch_backends h\<rparr>"

text \<open>The functions that free an object take a null pointer too.\<close>

definition backend_free :: "u64 \<Rightarrow> ('d, 'm, 'os) c_heap \<Rightarrow> ('d, 'm, 'os) c_heap option" where
  "backend_free p h =
     (if p = 0 then Some h
      else map_option (\<lambda>backend. h\<lparr>ch_backends := without p (ch_backends h), ch_dropped := backend_drop backend (ch_dropped h)\<rparr>)
        (map_of (ch_backends h) p))"

definition symbols_new :: "u64 \<Rightarrow> 'm \<Rightarrow> ('d, 'm, 'os) c_heap \<Rightarrow> ('d, 'm, 'os) c_heap" where
  "symbols_new p new_syms h = h\<lparr>ch_symbols := (p, new_syms) # ch_symbols h\<rparr>"

definition symbols_free :: "u64 \<Rightarrow> ('d, 'm, 'os) c_heap \<Rightarrow> ('d, 'm, 'os) c_heap option" where
  "symbols_free p h =
     (if p = 0 then Some h
      else map_option (\<lambda>m. h\<lparr>ch_symbols := without p (ch_symbols h)\<rparr>) (map_of (ch_symbols h) p))"

text \<open>
  The constructors of a system: \<open>new\<close> is \<open>os_new\<close>, or \<open>os_new_of\<close> for one system. The boxes of the arguments are gone
  when the function returns. When it fails the backend is dropped; a null pointer is returned.
\<close>

definition take_symbols :: "u64 \<Rightarrow> ('d, 'm, 'os) c_heap \<Rightarrow> 'm option option" where
  "take_symbols p h = (if p = 0 then Some None else map_option Some (map_of (ch_symbols h) p))"

definition heap_os_new ::
  "('d owned_backend \<Rightarrow> 'm option \<Rightarrow> c_world \<Rightarrow> (c_world \<times> 'os option) option) \<Rightarrow> u64 \<Rightarrow> u64 \<Rightarrow> u64 \<Rightarrow>
   ('d, 'm, 'os) c_heap \<times> c_world \<Rightarrow> (('d, 'm, 'os) c_heap \<times> c_world) option"
where
  "heap_os_new new p backend_ptr symbols_ptr st =
     (let (h, w) = st in
      Option.bind (map_of (ch_backends h) backend_ptr) (\<lambda>backend.
      Option.bind (take_symbols symbols_ptr h) (\<lambda>symbols.
      Option.bind (new backend symbols w) (\<lambda>(w, r).
        let h = h\<lparr>ch_backends := without backend_ptr (ch_backends h), ch_symbols := without symbols_ptr (ch_symbols h)\<rparr> in
        case r of
          Some os \<Rightarrow> Some (h\<lparr>ch_oses := (p, backend, os) # ch_oses h\<rparr>, w)
        | None \<Rightarrow> Some (h\<lparr>ch_dropped := backend_drop backend (ch_dropped h)\<rparr>, w)))))"

definition os_free :: "u64 \<Rightarrow> ('d, 'm, 'os) c_heap \<Rightarrow> ('d, 'm, 'os) c_heap option" where
  "os_free p h =
     (if p = 0 then Some h
      else map_option (\<lambda>(backend, os). h\<lparr>ch_oses := without p (ch_oses h), ch_dropped := backend_drop backend (ch_dropped h)\<rparr>)
        (map_of (ch_oses h) p))"

text \<open>
  Errors: the last error is handed out with \<open>take_last_error\<close>, an error is put into another one, and it is freed. These
  functions do not take a null pointer; \<open>take_last_error\<close> returns one when there is no error, and the pointer \<open>p\<close> is not used.
\<close>

definition heap_take_last_error :: "u64 \<Rightarrow> ('d, 'm, 'os) c_heap \<times> c_world \<Rightarrow> (('d, 'm, 'os) c_heap \<times> c_world) \<times> u64" where
  "heap_take_last_error p st =
     (let (h, w) = st; (w, e) = take_last_error w in
      case e of
        Some err \<Rightarrow> ((h\<lparr>ch_errors := (p, err) # ch_errors h\<rparr>, w), p)
      | None \<Rightarrow> ((h, w), 0))"

definition heap_error_with_message :: "u64 \<Rightarrow> u64 \<Rightarrow> u64 \<Rightarrow> c_mem \<Rightarrow> ('d, 'm, 'os) c_heap \<Rightarrow> ('d, 'm, 'os) c_heap option" where
  "heap_error_with_message p err_ptr ctx mem h =
     Option.bind (map_of (ch_errors h) err_ptr) (\<lambda>err.
       map_option (\<lambda>err. h\<lparr>ch_errors := (p, err) # without err_ptr (ch_errors h)\<rparr>) (error_with_message err ctx mem))"

definition heap_error_missing_symbol :: "u64 \<Rightarrow> u64 \<Rightarrow> c_mem \<Rightarrow> ('d, 'm, 'os) c_heap \<Rightarrow> ('d, 'm, 'os) c_heap option" where
  "heap_error_missing_symbol p name mem h =
     map_option (\<lambda>err. h\<lparr>ch_errors := (p, err) # ch_errors h\<rparr>) (error_missing_symbol name mem)"

definition error_free :: "u64 \<Rightarrow> ('d, 'm, 'os) c_heap \<Rightarrow> ('d, 'm, 'os) c_heap option" where
  "error_free p h = map_option (\<lambda>err. h\<lparr>ch_errors := without p (ch_errors h)\<rparr>) (map_of (ch_errors h) p)"

text \<open>What a call does with the objects that it takes.\<close>

lemma map_of_without: "map_of (without p xs) q = (if q = p then None else map_of xs q)"
  by (induction xs) (auto simp: without_def)

text \<open>
  A constructor takes the backend and the table of symbols; the new system owns the backend, and without a system \<open>drop\<close>
  is called.
\<close>

definition taken_over ::
  "('d owned_backend \<Rightarrow> 'm option \<Rightarrow> c_world \<Rightarrow> (c_world \<times> 'os option) option) \<Rightarrow> u64 \<Rightarrow> u64 \<Rightarrow> u64 \<Rightarrow>
   ('d, 'm, 'os) c_heap \<times> c_world \<Rightarrow> ('d, 'm, 'os) c_heap \<times> c_world \<Rightarrow> bool"
where
  "taken_over new p backend_ptr symbols_ptr st st' \<longleftrightarrow>
     (\<exists>backend symbols r.
        map_of (ch_backends (fst st)) backend_ptr = Some backend \<and> take_symbols symbols_ptr (fst st) = Some symbols \<and>
        new backend symbols (snd st) = Some (snd st', r) \<and>
        (\<forall>q. map_of (ch_backends (fst st')) q = (if q = backend_ptr then None else map_of (ch_backends (fst st)) q)) \<and>
        (\<forall>q. map_of (ch_symbols (fst st')) q = (if q = symbols_ptr then None else map_of (ch_symbols (fst st)) q)) \<and>
        (case r of
           Some os \<Rightarrow> ch_oses (fst st') = (p, backend, os) # ch_oses (fst st) \<and> ch_dropped (fst st') = ch_dropped (fst st)
         | None \<Rightarrow> ch_oses (fst st') = ch_oses (fst st) \<and>
             ch_dropped (fst st') = ch_dropped (fst st) @ (if cb_drop backend then [cb_data backend] else [])))"

lemma heap_os_new_takes:
  assumes "heap_os_new new p bp sp st = Some st'"
  shows "taken_over new p bp sp st st'"
proof -
  obtain h w h' w' where st: "st = (h, w)" "st' = (h', w')" by (cases st; cases st')
  obtain b sy w1 r where b: "map_of (ch_backends h) bp = Some b" "take_symbols sp h = Some sy" "new b sy w = Some (w1, r)"
    using assms by (auto simp: heap_os_new_def st split: bind_splits)
  show ?thesis
    unfolding taken_over_def
    using assms b by (intro exI [of _ b] exI [of _ sy] exI [of _ r])
      (auto simp: heap_os_new_def st Let_def map_of_without backend_drop_def split: option.splits)
qed

lemma free_drops:
  assumes "p \<noteq> 0"
  shows "backend_free p h = Some h' \<Longrightarrow>
      \<exists>b. map_of (ch_backends h) p = Some b \<and> map_of (ch_backends h') p = None \<and>
        ch_dropped h' = ch_dropped h @ (if cb_drop b then [cb_data b] else [])"
    and "os_free p h = Some h' \<Longrightarrow>
      \<exists>b os. map_of (ch_oses h) p = Some (b, os) \<and> map_of (ch_oses h') p = None \<and>
        ch_dropped h' = ch_dropped h @ (if cb_drop b then [cb_data b] else [])"
  using assms by (auto simp: backend_free_def os_free_def map_of_without backend_drop_def)

section \<open>Sequences of calls\<close>

text \<open>
  \<open>made\<close> are the backends that were made. A new object has a pointer that is not null and that is not in use. The other
  functions of the interface change the memory of the caller and the last error, not the objects (\<open>call\<close>).
\<close>

definition fresh :: "u64 \<Rightarrow> ('d, 'm, 'os) c_heap \<Rightarrow> bool" where
  "fresh p h \<longleftrightarrow> p \<noteq> 0 \<and> p \<notin> set (heap_pointers h)"

inductive c_reach ::
  "('d owned_backend \<Rightarrow> 'm option \<Rightarrow> c_world \<Rightarrow> (c_world \<times> 'os option) option) \<Rightarrow> 'd owned_backend list \<Rightarrow>
   ('d, 'm, 'os) c_heap \<times> c_world \<Rightarrow> bool"
  for new
where
  start: "c_reach new [] (empty_heap, w)"
| make: "c_reach new made (h, w) \<Longrightarrow> fresh p h \<Longrightarrow> c_reach new (backend # made) (heap_backend_make p backend h, w)"
| syms: "c_reach new made (h, w) \<Longrightarrow> fresh p h \<Longrightarrow> c_reach new made (symbols_new p m h, w)"
| create: "c_reach new made (h, w) \<Longrightarrow> fresh p h \<Longrightarrow> heap_os_new new p b s (h, w) = Some st \<Longrightarrow> c_reach new made st"
| free_backend: "c_reach new made (h, w) \<Longrightarrow> backend_free p h = Some h' \<Longrightarrow> c_reach new made (h', w)"
| free_symbols: "c_reach new made (h, w) \<Longrightarrow> symbols_free p h = Some h' \<Longrightarrow> c_reach new made (h', w)"
| free_os: "c_reach new made (h, w) \<Longrightarrow> os_free p h = Some h' \<Longrightarrow> c_reach new made (h', w)"
| call: "c_reach new made (h, w) \<Longrightarrow> c_reach new made (h, w')"
| take_error: "c_reach new made (h, w) \<Longrightarrow> fresh p h \<Longrightarrow> heap_take_last_error p (h, w) = (st, q) \<Longrightarrow> c_reach new made st"
| add_message: "c_reach new made (h, w) \<Longrightarrow> fresh p h \<Longrightarrow> heap_error_with_message p err ctx (c_mem w) h = Some h' \<Longrightarrow>
    c_reach new made (h', w)"
| missing: "c_reach new made (h, w) \<Longrightarrow> fresh p h \<Longrightarrow> heap_error_missing_symbol p name (c_mem w) h = Some h' \<Longrightarrow>
    c_reach new made (h', w)"
| free_error: "c_reach new made (h, w) \<Longrightarrow> error_free p h = Some h' \<Longrightarrow> c_reach new made (h', w)"

section \<open>Every backend is dropped once\<close>

text \<open>The data that \<open>drop\<close> is to be called with.\<close>

definition to_drop :: "'d owned_backend list \<Rightarrow> 'd multiset" where
  "to_drop bs = mset (map cb_data (filter cb_drop bs))"

definition heap_ok :: "'d owned_backend list \<Rightarrow> ('d, 'm, 'os) c_heap \<Rightarrow> bool" where
  "heap_ok made h \<longleftrightarrow>
     distinct (heap_pointers h) \<and> 0 \<notin> set (heap_pointers h) \<and>
     to_drop made = to_drop (map snd (ch_backends h)) + to_drop (map (fst \<circ> snd) (ch_oses h)) + mset (ch_dropped h)"

lemma without_keys: "map fst (without p xs) = filter (\<lambda>q. q \<noteq> p) (map fst xs)"
  by (induction xs) (auto simp: without_def)

lemma without_notin: "p \<notin> set (map fst xs) \<Longrightarrow> without p xs = xs"
  by (induction xs) (auto simp: without_def)

lemma without_Cons: "without p ((q, x) # xs) = (if q = p then without p xs else (q, x) # without p xs)"
  by (simp add: without_def)

lemma without_mset:
  assumes "map_of xs p = Some x" "distinct (map fst xs)"
  shows "mset xs = add_mset (p, x) (mset (without p xs))"
  using assms
proof (induction xs)
  case (Cons y ys)
  then show ?case by (cases y) (auto simp: without_Cons without_notin split: if_splits)
qed simp

lemma to_drop_Cons: "to_drop (b # bs) = (if cb_drop b then {#cb_data b#} else {#}) + to_drop bs"
  by (simp add: to_drop_def)

lemma to_drop_mset: "to_drop bs = image_mset cb_data (filter_mset cb_drop (mset bs))"
  by (simp add: to_drop_def)

lemma mset_backend_drop: "mset (backend_drop b calls) = (if cb_drop b then {#cb_data b#} else {#}) + mset calls"
  by (simp add: backend_drop_def)

lemma to_drop_without:
  assumes "map_of xs p = Some x" "distinct (map fst xs)"
  shows "to_drop (map (f \<circ> snd) xs) = (if cb_drop (f x) then {#cb_data (f x)#} else {#}) + to_drop (map (f \<circ> snd) (without p xs))"
proof -
  have "mset (map (f \<circ> snd) xs) = add_mset (f x) (mset (map (f \<circ> snd) (without p xs)))"
    using without_mset [OF assms] by (metis (no_types, lifting) comp_apply image_mset_add_mset mset_map snd_conv)
  then show ?thesis by (simp add: to_drop_mset)
qed

lemma pointers_without:
  assumes "distinct (heap_pointers h)" "0 \<notin> set (heap_pointers h)"
  shows "distinct (map fst (without p (ch_backends h)) @ map fst (without q (ch_symbols h)) @ map fst (without r (ch_oses h)) @ map fst (without e (ch_errors h)))"
    "0 \<notin> set (map fst (without p (ch_backends h)) @ map fst (without q (ch_symbols h)) @ map fst (without r (ch_oses h)) @ map fst (without e (ch_errors h)))"
  using assms by (auto simp: heap_pointers_def without_keys)

lemma heap_ok_make:
  assumes "heap_ok made h" "fresh p h"
  shows "heap_ok (backend # made) (heap_backend_make p backend h)"
  using assms by (auto simp: heap_ok_def heap_backend_make_def fresh_def heap_pointers_def to_drop_Cons)

lemma heap_ok_symbols_new: "heap_ok made h \<Longrightarrow> fresh p h \<Longrightarrow> heap_ok made (symbols_new p m h)"
  by (auto simp: heap_ok_def symbols_new_def fresh_def heap_pointers_def)

lemma heap_ok_symbols_free:
  assumes "heap_ok made h" "symbols_free p h = Some h'"
  shows "heap_ok made h'"
proof (cases "p = 0")
  case True
  then show ?thesis using assms by (simp add: symbols_free_def)
next
  case False
  then have "h' = h\<lparr>ch_symbols := without p (ch_symbols h)\<rparr>" using assms(2) by (auto simp: symbols_free_def)
  then show ?thesis
    using assms(1) pointers_without [of h 0 p 0 0] by (auto simp: heap_ok_def heap_pointers_def without_notin)
qed

lemma heap_ok_backend_free:
  assumes "heap_ok made h" "backend_free p h = Some h'"
  shows "heap_ok made h'"
proof (cases "p = 0")
  case True
  then show ?thesis using assms by (simp add: backend_free_def)
next
  case False
  then obtain b where b: "map_of (ch_backends h) p = Some b"
    and h': "h' = h\<lparr>ch_backends := without p (ch_backends h), ch_dropped := backend_drop b (ch_dropped h)\<rparr>"
    using assms(2) by (auto simp: backend_free_def)
  have d: "distinct (map fst (ch_backends h))" using assms(1) by (simp add: heap_ok_def heap_pointers_def)
  show ?thesis
    using assms(1) pointers_without [of h p 0 0 0] to_drop_without [OF b d, of id]
    by (auto simp: heap_ok_def h' heap_pointers_def without_notin mset_backend_drop)
qed

lemma heap_ok_os_free:
  assumes "heap_ok made h" "os_free p h = Some h'"
  shows "heap_ok made h'"
proof (cases "p = 0")
  case True
  then show ?thesis using assms by (simp add: os_free_def)
next
  case False
  then obtain b os where b: "map_of (ch_oses h) p = Some (b, os)"
    and h': "h' = h\<lparr>ch_oses := without p (ch_oses h), ch_dropped := backend_drop b (ch_dropped h)\<rparr>"
    using assms(2) by (auto simp: os_free_def)
  have d: "distinct (map fst (ch_oses h))" using assms(1) by (simp add: heap_ok_def heap_pointers_def)
  show ?thesis
    using assms(1) pointers_without [of h 0 0 p 0] to_drop_without [OF b d, of fst]
    by (auto simp: heap_ok_def h' heap_pointers_def without_notin mset_backend_drop)
qed

lemma heap_ok_os_new:
  assumes "heap_ok made h" "fresh p h" "heap_os_new new p bp sp (h, w) = Some (h', w')"
  shows "heap_ok made h'"
proof -
  obtain b sy w1 r where b: "map_of (ch_backends h) bp = Some b" "take_symbols sp h = Some sy" "new b sy w = Some (w1, r)"
    using assms(3) by (auto simp: heap_os_new_def split: bind_splits)
  have d: "distinct (map fst (ch_backends h))" using assms(1) by (simp add: heap_ok_def heap_pointers_def)
  note w = pointers_without [of h bp sp 0 0] to_drop_without [OF b(1) d, of id]
  show ?thesis
  proof (cases r)
    case None
    then have "h' = h\<lparr>ch_backends := without bp (ch_backends h), ch_symbols := without sp (ch_symbols h),
        ch_dropped := backend_drop b (ch_dropped h)\<rparr>"
      using assms(3) b by (simp add: heap_os_new_def Let_def)
    then show ?thesis using assms(1) w by (auto simp: heap_ok_def heap_pointers_def without_notin mset_backend_drop)
  next
    case (Some os)
    then have h': "h' = h\<lparr>ch_backends := without bp (ch_backends h), ch_symbols := without sp (ch_symbols h),
        ch_oses := (p, b, os) # ch_oses h\<rparr>"
      using assms(3) b by (simp add: heap_os_new_def Let_def)
    have "p \<noteq> 0" "p \<notin> set (map fst (without bp (ch_backends h)))" "p \<notin> set (map fst (without sp (ch_symbols h)))"
      "p \<notin> set (map fst (ch_oses h))" "p \<notin> set (map fst (ch_errors h))"
      using assms(2) by (auto simp: fresh_def heap_pointers_def without_keys)
    then show ?thesis
      using assms(1) w by (auto simp: heap_ok_def h' heap_pointers_def without_notin to_drop_Cons)
  qed
qed

lemma heap_ok_error_new:
  assumes "heap_ok made h" "fresh p h"
  shows "heap_ok made (h\<lparr>ch_errors := (p, err) # ch_errors h\<rparr>)"
    "heap_ok made (h\<lparr>ch_errors := (p, err) # without q (ch_errors h)\<rparr>)"
  using assms by (auto simp: heap_ok_def fresh_def heap_pointers_def without_keys)

lemma heap_ok_error_gone: "heap_ok made h \<Longrightarrow> heap_ok made (h\<lparr>ch_errors := without q (ch_errors h)\<rparr>)"
  by (auto simp: heap_ok_def heap_pointers_def without_keys)

lemma heap_ok_take_last_error:
  assumes "heap_ok made h" "fresh p h" "heap_take_last_error p (h, w) = (st, q)"
  shows "heap_ok made (fst st)"
  using assms heap_ok_error_new(1) [OF assms(1,2)] by (auto simp: heap_take_last_error_def Let_def split: prod.splits option.splits)

lemma heap_ok_error_calls:
  assumes "heap_ok made h"
  shows "fresh p h \<Longrightarrow> heap_error_with_message p err ctx mem h = Some h' \<Longrightarrow> heap_ok made h'"
    "fresh p h \<Longrightarrow> heap_error_missing_symbol p name mem h = Some h' \<Longrightarrow> heap_ok made h'"
    "error_free p h = Some h' \<Longrightarrow> heap_ok made h'"
  using heap_ok_error_new [OF assms]
  by (auto simp: heap_error_with_message_def heap_error_missing_symbol_def error_free_def heap_ok_error_gone [OF assms] split: bind_splits)

lemma heap_ok_reach: "c_reach new made st \<Longrightarrow> heap_ok made (fst st)"
proof (induction rule: c_reach.induct)
  case (start w)
  then show ?case by (simp add: heap_ok_def empty_heap_def heap_pointers_def to_drop_def)
next
  case (create made h w p b s st)
  then show ?case using heap_ok_os_new [of made h p new b s w] by (cases st) simp
qed (auto intro: heap_ok_make heap_ok_symbols_new heap_ok_symbols_free heap_ok_backend_free heap_ok_os_free heap_ok_take_last_error
    heap_ok_error_calls)

end
