(* ===== verification/Vm_Python_Gc.thy ===== *)
theory Vm_Python_Gc
  imports Vm_Python
begin

text \<open>
  The references that the objects of the Python interface have to the operating system (\<open>PyOwned\<close> in \<^verbatim>\<open>python/src/lib.rs\<close>).
  In \<^theory_text>\<open>Vm_Python\<close> such a reference is the system itself. Here it is what the code has: an option of a handle of the
  interpreter. The operations on handles (\<open>Py::new\<close>, \<open>Py::clone_ref\<close>, \<open>Py::try_borrow\<close>, and dropping a \<open>Py\<close>) are not those of
  this program: they are the parameter \<open>py_calls\<close>, with the locale \<open>py_interpreter\<close> as their contract. The two models agree: an
  object that the garbage collector has not cleared borrows the system that it was made with.
\<close>

section \<open>References\<close>

text \<open>The operations of the interpreter on its state \<open>'s\<close>, with handles \<open>'h\<close> of objects that hold a system.\<close>

record ('s, 'h, 'os) py_calls =
  py_new_call :: "'os \<Rightarrow> 's \<Rightarrow> 's \<times> 'h py_result"
  py_clone_call :: "'h \<Rightarrow> 's \<Rightarrow> 'h \<times> 's"
  py_drop_call :: "'h \<Rightarrow> 's \<Rightarrow> 's"
  py_borrow_call :: "'h \<Rightarrow> 's \<Rightarrow> 'os py_result"

definition ref_new :: "('s, 'h, 'os) py_calls \<Rightarrow> 'os \<Rightarrow> 's \<Rightarrow> 's \<times> 'h option py_result" where
  "ref_new P os st = (let (st, r) = py_new_call P os st in (st, map_ok Some r))"

definition ref_borrow :: "('s, 'h, 'os) py_calls \<Rightarrow> 'h option \<Rightarrow> 's \<Rightarrow> 'os py_result" where
  "ref_borrow P self st =
     (case self of
        Some os \<Rightarrow> py_borrow_call P os st
      | None \<Rightarrow> Err (PyRuntimeError ''Tried to access GC'ed ref''))"

definition ref_clone :: "('s, 'h, 'os) py_calls \<Rightarrow> 'h option \<Rightarrow> 's \<Rightarrow> 'h option \<times> 's" where
  "ref_clone P self st =
     (case self of
        Some obj \<Rightarrow> (let (obj', st) = py_clone_call P obj st in (Some obj', st))
      | None \<Rightarrow> (None, st))"

definition ref_traverse :: "'h option \<Rightarrow> 'h list" where
  "ref_traverse self = (case self of Some obj \<Rightarrow> [obj] | None \<Rightarrow> [])"

text \<open>An option of a handle that goes away drops the handle; so does the assignment of \<open>clear\<close>.\<close>

definition ref_gone :: "('s, 'h, 'os) py_calls \<Rightarrow> 'h option \<Rightarrow> 's \<Rightarrow> 's" where
  "ref_gone P self st = (case self of Some obj \<Rightarrow> py_drop_call P obj st | None \<Rightarrow> st)"

definition ref_clear :: "('s, 'h, 'os) py_calls \<Rightarrow> 'h option \<Rightarrow> 's \<Rightarrow> 'h option \<times> 's" where
  "ref_clear P self st = (None, ref_gone P self st)"

section \<open>The objects of a program\<close>

text \<open>
  An object of Python that has a reference: whether it was cleared, its reference, and the system that it was made with. A
  program makes systems, and objects from objects (also from cleared ones, as \<open>vcpus\<close> does), and drops objects; the collector
  clears them. Making a system may fail. \<open>s0\<close> is the state of the interpreter before.
\<close>

record ('h, 'os) py_owner =
  po_cleared :: bool
  po_ref :: "'h option"
  po_os :: 'os

inductive py_reach :: "('s, 'h, 'os) py_calls \<Rightarrow> 's \<Rightarrow> ('h, 'os) py_owner list \<Rightarrow> 's \<Rightarrow> bool" for P s0 where
  start: "py_reach P s0 [] s0"
| create: "py_reach P s0 owners st \<Longrightarrow> ref_new P os st = (st', Ok r) \<Longrightarrow>
    py_reach P s0 (\<lparr>po_cleared = False, po_ref = r, po_os = os\<rparr> # owners) st'"
| refuse: "py_reach P s0 owners st \<Longrightarrow> ref_new P os st = (st', Err e) \<Longrightarrow> py_reach P s0 owners st'"
| derive: "py_reach P s0 (us @ x # vs) st \<Longrightarrow> ref_clone P (po_ref x) st = (r', st') \<Longrightarrow>
    py_reach P s0 (x\<lparr>po_ref := r'\<rparr> # us @ x # vs) st'"
| clear: "py_reach P s0 (us @ x # vs) st \<Longrightarrow> ref_clear P (po_ref x) st = (r', st') \<Longrightarrow>
    py_reach P s0 (us @ x\<lparr>po_cleared := True, po_ref := r'\<rparr> # vs) st'"
| drop: "py_reach P s0 (us @ x # vs) st \<Longrightarrow> py_reach P s0 (us @ vs) (ref_gone P (po_ref x) st)"

text \<open>The number of the references to an object.\<close>

definition ref_count :: "('h, 'os) py_owner list \<Rightarrow> 'h \<Rightarrow> nat" where
  "ref_count owners h = length (filter (\<lambda>x. po_ref x = Some h) owners)"

lemma ref_count_simps [simp]:
  "ref_count [] h = 0" "ref_count (x # owners) h = (if po_ref x = Some h then 1 else 0) + ref_count owners h"
  "ref_count (us @ vs) h = ref_count us h + ref_count vs h"
  by (simp_all add: ref_count_def)

lemma ref_count_pos: "x \<in> set owners \<Longrightarrow> po_ref x = Some h \<Longrightarrow> 0 < ref_count owners h"
  by (induction owners) auto

lemma ref_count_none: "\<forall>x \<in> set owners. po_ref x \<noteq> Some h \<Longrightarrow> ref_count owners h = 0"
  by (induction owners) auto

section \<open>The contract of the interpreter\<close>

text \<open>
  \<open>objects\<close> is the view of the state: the live objects, each with the system that it holds and its reference count. A new
  object has a handle that is not in use; cloning a handle gives a handle of the same object and counts it; dropping the
  last handle of an object drops the object; and borrowing a live object gives the system that it holds (it is never
  borrowed mutably). Nothing else is promised, and nothing for the handle of an object that is gone.
\<close>

locale py_interpreter =
  fixes P :: "('s, 'h, 'os) py_calls" and objects :: "'s \<Rightarrow> 'h \<Rightarrow> ('os \<times> nat) option"
  assumes new_Ok: "py_new_call P os st = (st', Ok h) \<Longrightarrow> objects st h = None \<and> objects st' = (objects st)(h \<mapsto> (os, 1))"
    and new_Err: "py_new_call P os st = (st', Err e) \<Longrightarrow> objects st' = objects st"
    and clone: "objects st h = Some (os, n) \<Longrightarrow> py_clone_call P h st = (h', st') \<Longrightarrow>
      h' = h \<and> objects st' = (objects st)(h \<mapsto> (os, n + 1))"
    and drop: "objects st h = Some (os, n) \<Longrightarrow>
      objects (py_drop_call P h st) = (objects st)(h := if n \<le> 1 then None else Some (os, n - 1))"
    and borrow: "objects st h = Some (os, n) \<Longrightarrow> py_borrow_call P h st = Ok os"
begin

text \<open>What is true of the objects of a program: those not cleared have a live handle, and every handle is counted.\<close>

definition owners_ok :: "('h, 'os) py_owner list \<Rightarrow> 's \<Rightarrow> bool" where
  "owners_ok owners st \<longleftrightarrow>
     (\<forall>x \<in> set owners. po_cleared x \<longleftrightarrow> po_ref x = None) \<and>
     (\<forall>x \<in> set owners. \<forall>h. po_ref x = Some h \<longrightarrow> objects st h = Some (po_os x, ref_count owners h)) \<and>
     (\<forall>h. ref_count owners h = 0 \<longrightarrow> objects st h = None)"

lemma owners_ok_create:
  assumes "owners_ok owners st" "ref_new P os st = (st', Ok r)"
  shows "owners_ok (\<lparr>po_cleared = False, po_ref = r, po_os = os\<rparr> # owners) st'"
proof -
  obtain h where h: "py_new_call P os st = (st', Ok h)" "r = Some h"
    using assms(2) by (cases "py_new_call P os st"; cases "snd (py_new_call P os st)") (auto simp: ref_new_def)
  note new = new_Ok [OF h(1)]
  have "\<forall>x \<in> set owners. po_ref x \<noteq> Some h"
    using assms(1) new unfolding owners_ok_def by fastforce
  from this ref_count_none [OF this] show ?thesis using assms(1) new unfolding owners_ok_def h(2) by auto
qed

lemma owners_ok_refuse:
  assumes "owners_ok owners st" "ref_new P os st = (st', Err e)"
  shows "owners_ok owners st'"
proof -
  have "py_new_call P os st = (st', Err e)"
    using assms(2) by (cases "py_new_call P os st"; cases "snd (py_new_call P os st)") (auto simp: ref_new_def)
  then show ?thesis using assms(1) new_Err unfolding owners_ok_def by metis
qed

lemma owners_ok_derive:
  assumes ok: "owners_ok (us @ x # vs) st" and r: "ref_clone P (po_ref x) st = (r', st')"
  shows "owners_ok (x\<lparr>po_ref := r'\<rparr> # us @ x # vs) st'"
proof (cases "po_ref x")
  case None
  then show ?thesis using ok r unfolding owners_ok_def by (auto simp: ref_clone_def)
next
  case (Some h)
  let ?n = "ref_count (us @ x # vs) h"
  have h: "objects st h = Some (po_os x, ?n)" using ok Some unfolding owners_ok_def by simp
  have c: "r' = Some h" "objects st' = (objects st)(h \<mapsto> (po_os x, ?n + 1))"
    using r Some clone [OF h] by (auto simp: ref_clone_def split: prod.splits)
  have same: "po_os y = po_os x" if "y \<in> set (us @ x # vs)" "po_ref y = Some h" for y
    using ok that h unfolding owners_ok_def by fastforce
  have other: "objects st g = Some (po_os y, ref_count (us @ x # vs) g)" if "y \<in> set (us @ x # vs)" "po_ref y = Some g" for y g
    using ok that unfolding owners_ok_def by blast
  have gone: "objects st g = None" if "ref_count (us @ x # vs) g = 0" for g using ok that unfolding owners_ok_def by blast
  have cl: "\<forall>y \<in> set (us @ x # vs). po_cleared y \<longleftrightarrow> po_ref y = None" using ok unfolding owners_ok_def by blast
  have count: "ref_count (x\<lparr>po_ref := r'\<rparr> # us @ x # vs) g = (if g = h then ?n + 1 else ref_count (us @ x # vs) g)" for g
    using c(1) by simp
  show ?thesis
    unfolding owners_ok_def count
  proof (intro conjI ballI allI impI)
    fix y assume "y \<in> set (x\<lparr>po_ref := r'\<rparr> # us @ x # vs)"
    then show "po_cleared y \<longleftrightarrow> po_ref y = None" using cl c(1) Some by auto
  next
    fix y g assume "y \<in> set (x\<lparr>po_ref := r'\<rparr> # us @ x # vs)" "po_ref y = Some g"
    then show "objects st' g = Some (po_os y, if g = h then ?n + 1 else ref_count (us @ x # vs) g)"
      using same [of y] other [of y g] c Some by (cases "g = h") auto
  next
    fix g assume "(if g = h then ?n + 1 else ref_count (us @ x # vs) g) = 0"
    then show "objects st' g = None" using gone [of g] c(2) by (auto split: if_splits)
  qed
qed

lemma owners_ok_gone:
  assumes ok: "owners_ok (us @ x # vs) st"
  shows "owners_ok (us @ vs) (ref_gone P (po_ref x) st)"
proof (cases "po_ref x")
  case None
  then show ?thesis using ok unfolding owners_ok_def by (auto simp: ref_gone_def)
next
  case (Some h)
  let ?n = "ref_count (us @ vs) h"
  have h: "objects st h = Some (po_os x, ?n + 1)" using ok Some unfolding owners_ok_def by simp
  have d: "objects (ref_gone P (po_ref x) st) = (objects st)(h := if ?n = 0 then None else Some (po_os x, ?n))"
    using drop [OF h] Some by (simp add: ref_gone_def)
  have same: "po_os y = po_os x" if "y \<in> set (us @ vs)" "po_ref y = Some h" for y
    using ok that h unfolding owners_ok_def by fastforce
  have other: "objects st g = Some (po_os y, ref_count (us @ vs) g)" if "y \<in> set (us @ vs)" "po_ref y = Some g" "g \<noteq> h" for y g
    using ok that Some unfolding owners_ok_def by auto
  have gone: "objects st g = None" if "ref_count (us @ vs) g = 0" "g \<noteq> h" for g using ok that Some unfolding owners_ok_def by auto
  have cl: "\<forall>y \<in> set (us @ vs). po_cleared y \<longleftrightarrow> po_ref y = None" using ok unfolding owners_ok_def by auto
  show ?thesis
    unfolding owners_ok_def d
  proof (intro conjI ballI allI impI)
    fix y assume "y \<in> set (us @ vs)"
    then show "po_cleared y \<longleftrightarrow> po_ref y = None" using cl by blast
  next
    fix y g assume y: "y \<in> set (us @ vs)" "po_ref y = Some g"
    then show "((objects st)(h := if ?n = 0 then None else Some (po_os x, ?n))) g = Some (po_os y, ref_count (us @ vs) g)"
      using same [of y] other [of y g] ref_count_pos [OF y] by (cases "g = h") auto
  next
    fix g assume "ref_count (us @ vs) g = 0"
    then show "((objects st)(h := if ?n = 0 then None else Some (po_os x, ?n))) g = None" using gone [of g] by auto
  qed
qed

lemma owners_ok_clear:
  assumes "owners_ok (us @ x # vs) st" "ref_clear P (po_ref x) st = (r', st')"
  shows "owners_ok (us @ x\<lparr>po_cleared := True, po_ref := r'\<rparr> # vs) st'"
proof -
  have r: "r' = None" "st' = ref_gone P (po_ref x) st" using assms(2) by (auto simp: ref_clear_def)
  have "ref_count (us @ x\<lparr>po_cleared := True, po_ref := None\<rparr> # vs) g = ref_count (us @ vs) g" for g by simp
  then show ?thesis using owners_ok_gone [OF assms(1)] unfolding r owners_ok_def by auto
qed

lemma owners_ok_reach:
  assumes "objects s0 = (\<lambda>h. None)"
  shows "py_reach P s0 owners st \<Longrightarrow> owners_ok owners st"
proof (induction rule: py_reach.induct)
  case start
  then show ?case by (simp add: owners_ok_def assms)
qed (auto intro: owners_ok_create owners_ok_refuse owners_ok_derive owners_ok_clear owners_ok_gone)

text \<open>What an object sees of its reference.\<close>

lemma owner_reference:
  assumes "objects s0 = (\<lambda>h. None)" "py_reach P s0 owners st" "x \<in> set owners"
  shows "\<not> po_cleared x \<Longrightarrow>
      \<exists>h. po_ref x = Some h \<and> ref_traverse (po_ref x) = [h] \<and> ref_borrow P (po_ref x) st = Ok (po_os x) \<and>
        objects st h = Some (po_os x, ref_count owners h)"
    and "po_cleared x \<Longrightarrow>
      ref_traverse (po_ref x) = [] \<and> ref_borrow P (po_ref x) st = Err (PyRuntimeError ''Tried to access GC'ed ref'')"
proof -
  note ok = owners_ok_reach [OF assms(1,2), unfolded owners_ok_def]
  show "\<exists>h. po_ref x = Some h \<and> ref_traverse (po_ref x) = [h] \<and> ref_borrow P (po_ref x) st = Ok (po_os x) \<and>
      objects st h = Some (po_os x, ref_count owners h)" if "\<not> po_cleared x"
  proof -
    have "po_ref x \<noteq> None" using ok assms(3) that by blast
    then obtain h where h: "po_ref x = Some h" by blast
    then have "objects st h = Some (po_os x, ref_count owners h)" using ok assms(3) by blast
    then show ?thesis using borrow h by (auto simp: ref_traverse_def ref_borrow_def)
  qed
  show "ref_traverse (po_ref x) = [] \<and> ref_borrow P (po_ref x) st = Err (PyRuntimeError ''Tried to access GC'ed ref'')"
    if "po_cleared x"
    using ok assms(3) that by (simp add: ref_traverse_def ref_borrow_def)
qed

lemma unreferenced_gone:
  assumes "objects s0 = (\<lambda>h. None)" "py_reach P s0 owners st" "ref_count owners h = 0"
  shows "objects st h = None"
  using owners_ok_reach [OF assms(1,2)] assms(3) unfolding owners_ok_def by blast

end

section \<open>A counted store\<close>

text \<open>The objects with their reference counts, and a bound of the addresses in use.\<close>

record 'os py_store =
  ps_objects :: "nat \<Rightarrow> ('os \<times> nat) option"
  ps_next :: nat

definition store_calls :: "('os py_store, nat, 'os) py_calls" where
  "store_calls =
     \<lparr>py_new_call = (\<lambda>os st.
        if ps_objects st (ps_next st) = None
        then (st\<lparr>ps_objects := (ps_objects st)(ps_next st \<mapsto> (os, 1)), ps_next := ps_next st + 1\<rparr>, Ok (ps_next st))
        else (st, Err (PyRuntimeError ''out of memory''))),
      py_clone_call = (\<lambda>a st.
        (a, st\<lparr>ps_objects := (ps_objects st)(a := map_option (\<lambda>(os, n). (os, n + 1)) (ps_objects st a))\<rparr>)),
      py_drop_call = (\<lambda>a st.
        st\<lparr>ps_objects := (ps_objects st)
          (a := Option.bind (ps_objects st a) (\<lambda>(os, n). if n \<le> 1 then None else Some (os, n - 1)))\<rparr>),
      py_borrow_call = (\<lambda>a st. case ps_objects st a of Some (os, n) \<Rightarrow> Ok os | None \<Rightarrow> Panic)\<rparr>"

interpretation store: py_interpreter store_calls ps_objects
  by unfold_locales (auto simp: store_calls_def split: if_splits)

end
