(* ===== verification/Vm_Loader.thy ===== *)
theory Vm_Loader
  imports Vm_Pointer
begin

text \<open>
  The loaders of symbols that use the file system: the one of Windows guests
  (\<^verbatim>\<open>vminer/src/os/windows/loader.rs\<close>), which downloads what it does not have, the one of Linux guests
  (\<^verbatim>\<open>vminer/src/os/linux/mod.rs\<close>), and the cell that is initialised once (\<^verbatim>\<open>vminer-core/src/utils.rs\<close>). The file system and the
  requests are the record \<open>file_system\<close> of functions on a state \<open>'w\<close>. The target is not Windows.
\<close>

section \<open>Paths\<close>

text \<open>A path is its components, as \<open>Path::components\<close> gives them: a dot is kept at the start of a relative path only.\<close>

record path_buf =
  pb_absolute :: bool
  pb_components :: "string list"

fun split_slash :: "string \<Rightarrow> string list" where
  "split_slash [] = [[]]"
| "split_slash (c # s) =
     (if c = CHR ''/'' then [] # split_slash s
      else case split_slash s of p # ps \<Rightarrow> (c # p) # ps | [] \<Rightarrow> [[c]])"

definition path_parts :: "string \<Rightarrow> string list" where
  "path_parts s = filter (\<lambda>p. p \<noteq> [] \<and> p \<noteq> ''.'') (split_slash s)"

definition is_absolute :: "string \<Rightarrow> bool" where
  "is_absolute s \<longleftrightarrow> s \<noteq> [] \<and> hd s = CHR ''/''"

definition path_of :: "string \<Rightarrow> path_buf" where
  "path_of s =
     \<lparr>pb_absolute = is_absolute s,
      pb_components = (if hd (split_slash s) = ''.'' then ''.'' # path_parts s else path_parts s)\<rparr>"

definition path_push :: "path_buf \<Rightarrow> string \<Rightarrow> path_buf" where
  "path_push p s =
     (if is_absolute s \<or> p = path_of [] then path_of s else p\<lparr>pb_components := pb_components p @ path_parts s\<rparr>)"

definition path_parent :: "path_buf \<Rightarrow> path_buf option" where
  "path_parent p = (if pb_components p = [] then None else Some (p\<lparr>pb_components := butlast (pb_components p)\<rparr>))"

section \<open>The file system\<close>

text \<open>\<open>http_get\<close> is a request, whose answer may not be readable to its end.\<close>

record 'w file_system =
  fs_create_dir_all :: "path_buf \<Rightarrow> 'w \<Rightarrow> 'w \<times> (unit, io_error) result"
  fs_exists :: "path_buf \<Rightarrow> 'w \<Rightarrow> bool"
  fs_read :: "path_buf \<Rightarrow> 'w \<Rightarrow> (u8 list, io_error) result"
  fs_write :: "path_buf \<Rightarrow> u8 list \<Rightarrow> 'w \<Rightarrow> 'w \<times> (unit, io_error) result"
  http_get :: "string \<Rightarrow> 'w \<Rightarrow> 'w \<times> ((u8 list, io_error) result, dyn_error) result"

section \<open>The loader of Windows guests\<close>

record pdb_loader =
  pdl_root :: path_buf
  pdl_url_base :: string

definition with_root_and_url :: "'w file_system \<Rightarrow> path_buf \<Rightarrow> string \<Rightarrow> 'w \<Rightarrow> 'w \<times> pdb_loader vm_result" where
  "with_root_and_url fs root url_base w =
     (let (w, r) = fs_create_dir_all fs root w
      in (w, map_ok (\<lambda>u. \<lparr>pdl_root = root, pdl_url_base = url_base\<rparr>) (map_err vm_of_io r)))"

definition with_root :: "'w file_system \<Rightarrow> path_buf \<Rightarrow> 'w \<Rightarrow> 'w \<times> pdb_loader vm_result" where
  "with_root fs root w = with_root_and_url fs root ''https://msdl.microsoft.com/download/symbols'' w"

text \<open>\<open>var_os\<close> are the variables of the environment.\<close>

definition default_root :: "(string \<Rightarrow> string option) \<Rightarrow> path_buf vm_result" where
  "default_root var_os =
     (case var_os ''_NT_SYMBOl_PATH'' of
        Some path \<Rightarrow> Ok (path_of path)
      | None \<Rightarrow>
          (case var_os ''XDG_CACHE_HOME'' of
             Some cache \<Rightarrow> Ok (path_push (path_of cache) ''PDB'')
           | None \<Rightarrow>
               map_ok (\<lambda>home. path_push (path_of home) ''.cache/PDB/'')
                 (context_opt ''cannot find home directory'' (var_os ''HOME''))))"

definition with_default_root :: "'w file_system \<Rightarrow> (string \<Rightarrow> string option) \<Rightarrow> 'w \<Rightarrow> 'w \<times> pdb_loader vm_result" where
  "with_default_root fs var_os w =
     (case default_root var_os of Ok path \<Rightarrow> with_root fs path w | Err e \<Rightarrow> (w, Err e) | Panic \<Rightarrow> (w, Panic))"

text \<open>The file is written when its directory could be made; a failure is only logged.\<close>

definition save_pdb :: "'w file_system \<Rightarrow> path_buf \<Rightarrow> u8 list \<Rightarrow> 'w \<Rightarrow> 'w \<times> unit vm_result" where
  "save_pdb fs path pdb w =
     (case path_parent path of
        None \<Rightarrow> (w, Panic)
      | Some dir \<Rightarrow>
          (case fs_create_dir_all fs dir w of
             (w, Ok u) \<Rightarrow> (case fs_write fs path pdb w of (w, Panic) \<Rightarrow> (w, Panic) | (w, r) \<Rightarrow> (w, Ok ()))
           | (w, Err e) \<Rightarrow> (w, Ok ())
           | (w, Panic) \<Rightarrow> (w, Panic)))"

definition download_pdb ::
  "sorts \<Rightarrow> loaders \<Rightarrow> 'w file_system \<Rightarrow> pdb_loader \<Rightarrow> path_buf \<Rightarrow> string \<Rightarrow> string \<Rightarrow> 'w \<Rightarrow> 'w \<times> module_symbols vm_result"
where
  "download_pdb srt ld fs self path name ident w =
     (let (w, r) = http_get fs (pdl_url_base self @ ''/'' @ name @ ''/'' @ ident @ ''/'' @ name) w
      in case and_then (map_err vm_new r) (map_err vm_of_io) of
           Ok pdb \<Rightarrow>
             (case save_pdb fs path pdb w of
                (w, Ok u) \<Rightarrow> (w, from_bytes srt True ld pdb)
              | (w, Err e) \<Rightarrow> (w, Err e)
              | (w, Panic) \<Rightarrow> (w, Panic))
         | Err e \<Rightarrow> (w, Err e)
         | Panic \<Rightarrow> (w, Panic))"

definition pdb_path :: "pdb_loader \<Rightarrow> string \<Rightarrow> string \<Rightarrow> path_buf" where
  "pdb_path self name ident = path_push (path_push (path_push (pdl_root self) name) ident) name"

text \<open>\<open>download\<close> is the feature \<open>download_pdb\<close>.\<close>

definition pdb_loader_load ::
  "sorts \<Rightarrow> loaders \<Rightarrow> bool \<Rightarrow> 'w file_system \<Rightarrow> pdb_loader \<Rightarrow> string \<Rightarrow> string \<Rightarrow> 'w \<Rightarrow> 'w \<times> module_symbols option vm_result"
where
  "pdb_loader_load srt ld download fs self name ident w =
     (let path = pdb_path self name ident in
      if fs_exists fs path w then (w, map_ok Some (from_file srt ld (\<lambda>p. fs_read fs p w) path))
      else if download then
        (case download_pdb srt ld fs self path name ident w of
           (w, Ok m) \<Rightarrow> (w, Ok (Some m))
         | (w, Err e) \<Rightarrow> (w, Ok None)
         | (w, Panic) \<Rightarrow> (w, Panic))
      else (w, Ok None))"

section \<open>The loader of Linux guests\<close>

definition linux_loader_with_root :: "'w file_system \<Rightarrow> path_buf \<Rightarrow> 'w \<Rightarrow> 'w \<times> path_buf vm_result" where
  "linux_loader_with_root fs path w =
     (let (w, r) = fs_create_dir_all fs path w in (w, map_ok (\<lambda>u. path) (map_err vm_of_io r)))"

definition linux_loader_load ::
  "sorts \<Rightarrow> loaders \<Rightarrow> 'w file_system \<Rightarrow> path_buf \<Rightarrow> string \<Rightarrow> string \<Rightarrow> 'w \<Rightarrow> module_symbols option vm_result"
where
  "linux_loader_load srt ld fs root name ident w =
     (let path = path_push (path_push root ident) name
      in if fs_exists fs path w then map_ok Some (from_file srt ld (\<lambda>p. fs_read fs p w) path) else Ok None)"

section \<open>The cell\<close>

type_synonym 'a once_cell = "'a option"

definition once_cell_new :: "'a once_cell" where "once_cell_new = None"

definition once_get_or_init :: "(unit \<Rightarrow> 'a) \<Rightarrow> 'a once_cell \<Rightarrow> 'a once_cell \<times> 'a" where
  "once_get_or_init f self = (case self of Some v \<Rightarrow> (self, v) | None \<Rightarrow> (let v = f () in (Some v, v)))"

definition once_get_or_try_init :: "(unit \<Rightarrow> 'a vm_result) \<Rightarrow> 'a once_cell \<Rightarrow> 'a once_cell \<times> 'a vm_result" where
  "once_get_or_try_init f self =
     (case self of
        Some v \<Rightarrow> (self, Ok v)
      | None \<Rightarrow> (case f () of Ok v \<Rightarrow> (Some v, Ok v) | Err e \<Rightarrow> (None, Err e) | Panic \<Rightarrow> (None, Panic)))"

section \<open>Lemmas\<close>

lemma from_file_bytes: "rd path = Ok content \<Longrightarrow> from_file srt ld rd path = from_bytes srt True ld content"
  by (simp add: from_file_def from_bytes_def read_file_inner_def)

text \<open>
  A file that was downloaded and written is not requested again: the second call reads it, and gives the same symbols.
\<close>

lemma download_cached:
  assumes "\<not> fs_exists fs (pdb_path self name ident) w"
    and "http_get fs (pdl_url_base self @ ''/'' @ name @ ''/'' @ ident @ ''/'' @ name) w = (w1, Ok (Ok pdb))"
    and "path_parent (pdb_path self name ident) = Some dir"
    and "fs_create_dir_all fs dir w1 = (w2, Ok ())" "fs_write fs (pdb_path self name ident) pdb w2 = (w3, Ok ())"
    and "fs_exists fs (pdb_path self name ident) w3" "fs_read fs (pdb_path self name ident) w3 = Ok pdb"
    and "from_bytes srt True ld pdb = Ok m"
  shows "pdb_loader_load srt ld True fs self name ident w = (w3, Ok (Some m))"
    "pdb_loader_load srt ld True fs self name ident w3 = (w3, Ok (Some m))"
  using assms from_file_bytes [of "\<lambda>p. fs_read fs p w3" "pdb_path self name ident" pdb srt ld]
  by (simp_all add: pdb_loader_load_def download_pdb_def save_pdb_def)

text \<open>A cell that is initialised keeps its value; an error leaves it empty.\<close>

lemma once_cell_kept:
  "once_get_or_init f (Some v) = (Some v, v)" "once_get_or_try_init g (Some v) = (Some v, Ok v)"
  "snd (once_get_or_try_init g self) = Ok v \<Longrightarrow> fst (once_get_or_try_init g self) = Some v"
  "snd (once_get_or_try_init g self) = Err e \<Longrightarrow> fst (once_get_or_try_init g self) = None"
  by (auto simp: once_get_or_init_def once_get_or_try_init_def split: option.splits result.splits)

text \<open>The variable that the default root reads is not the one that debuggers use.\<close>

lemma default_root_ignores_symbol_path:
  "default_root (var_os(''_NT_SYMBOL_PATH'' := p)) = default_root var_os"
  by (simp add: default_root_def split: option.split)

end
