(* ===== verification/Spec2Isabelle.thy ===== *)
theory Spec2Isabelle
  imports Vm_Debug_Properties Vm_System Vm_Loader
begin

text \<open>
  A model of \<^bold>\<open>vminer\<close>, a library for the introspection of virtual machines. A backend gives access to the
  physical memory and the registers of a guest; above it, the library translates virtual addresses
  through the guest's page tables, searches kernel memory, reads virtual memory, and keeps the
  symbols of the guest's modules. On top, an operating system reads the kernel structures of the guest:
  its processes, threads, memory areas and modules, and the call stacks of its processes.

  \<^bold>\<open>Theories and what they model\<close> (paths under \<^verbatim>\<open>src/\<close>).

  \<^item> \<open>Vm_Prelude\<close>: machine integers as words, outcomes of Rust functions (\<open>Ok\<close>, \<open>Err\<close>, \<open>Panic\<close>), checked
    arithmetic, little-endian bytes, the binary search, integer parsing and string search of the
    standard library.
  \<^item> \<open>Vm_Error\<close> (\<^verbatim>\<open>vminer-core/src/error.rs\<close>): the error types with their messages, sources and conversions.
  \<^item> \<open>Vm_Addr\<close> (\<^verbatim>\<open>addr.rs\<close>, masks of \<^verbatim>\<open>lib.rs\<close>): physical and virtual addresses, page table entries.
  \<^item> \<open>Vm_Endian\<close> (\<^verbatim>\<open>endian.rs\<close>): integers of either byte order.
  \<^item> \<open>Vm_Mem\<close>, \<open>Vm_Mem_Laws\<close> (\<^verbatim>\<open>mem.rs\<close>): the trait \<open>Memory\<close> with its provided methods, byte slices, remapped
    memory and memory in a file. The locales \<open>flat_memory\<close>, \<open>memory_search\<close> and \<open>remapped_memory\<close> are the
    contracts that the other components use.
  \<^item> \<open>Vm_Mmu\<close>, \<open>Vm_Find\<close> (\<^verbatim>\<open>arch/mod.rs\<close>): the walk of four levels of page tables, and the search of a
    needle in the pages they map. The locale \<open>kernel_search\<close> is the contract of a search level.
  \<^item> \<open>Vm_Arch\<close> (\<^verbatim>\<open>arch/x86_64.rs\<close>, \<^verbatim>\<open>arch/aarch64.rs\<close>, \<^verbatim>\<open>arch/runtime.rs\<close>): registers, processors, the two
    architectures and the dispatch between them.
  \<^item> \<open>Vm_Virtual\<close> (\<^verbatim>\<open>lib.rs\<close>): reads of virtual memory page by page; the locale \<open>page_reader\<close>.
  \<^item> \<open>Vm_Backend\<close> (\<^verbatim>\<open>backend.rs\<close>): the trait \<open>Backend\<close>, the iterator over kernel memory, and the locale
    \<open>paged_memory\<close>, which puts memory, translation and reads together.
  \<^item> \<open>Vm_Dump\<close>, \<open>Vm_Dump_Laws\<close> (\<^verbatim>\<open>vminer/src/backends/kvm_dump/mod.rs\<close>): dumps of a virtual machine.
  \<^item> \<open>Vm_Kvm\<close> (\<^verbatim>\<open>vminer/src/backends/kvm/mod.rs\<close>): the memory of a running guest.
  \<^item> \<open>Vm_Symbols\<close>, \<open>Vm_Symbols_Laws\<close> (\<^verbatim>\<open>vminer-core/src/symbols\<close>): tables of symbols, symbol files and the
    index of modules; the locales \<open>symbol_sorts\<close> and \<open>once_map\<close>.
  \<^item> \<open>Vm_Trace\<close>: calls that may not return, and enumerations with a callback as traces.
  \<^item> \<open>Vm_Os\<close>, \<open>Vm_Os_Laws\<close> (\<^verbatim>\<open>vminer-core/src/os.rs\<close>): the trait \<open>Os\<close> and its provided methods.
  \<^item> \<open>Vm_Strings\<close>: UTF-8 and UTF-16 conversions of the standard library.
  \<^item> \<open>Vm_Pointer\<close> (\<^verbatim>\<open>vminer/src/os/pointer.rs\<close>, \<^verbatim>\<open>os/mod.rs\<close>): typed pointers, the layouts of the structures of a
    kernel, linked lists, and the builder of an operating system.
  \<^item> \<open>Vm_Linux\<close>, \<open>Vm_Linux_Laws\<close> (\<^verbatim>\<open>os/linux/mod.rs\<close>, \<^verbatim>\<open>os/linux/profile.rs\<close>): Linux guests.
  \<^item> \<open>Vm_Windows_Memory\<close>, \<open>Vm_Windows_Laws\<close> (\<^verbatim>\<open>os/windows/memory.rs\<close>, \<^verbatim>\<open>os/windows/profile.rs\<close>): the states of a page,
    the reads of virtual memory and the tree of virtual address descriptors; the locale \<open>windows_pages\<close>.
  \<^item> \<open>Vm_Windows\<close> (\<^verbatim>\<open>os/windows/mod.rs\<close>): finding the kernel, construction, processes and modules.
  \<^item> \<open>Vm_Unwind\<close>, \<open>Vm_Unwind_Laws\<close> (\<^verbatim>\<open>os/windows/callstack.rs\<close>): unwinding one function of a Windows module.
  \<^item> \<open>Vm_Windows_Stack\<close> (\<^verbatim>\<open>os/windows/callstack.rs\<close>): walking a call stack, and \<open>Os\<close> for Windows;
    \<open>Vm_Windows_Stack_Laws\<close>: the relation \<open>frame_return\<close> of the frames of a stopped thread, and the walk over them.
  \<^item> \<open>Vm_Types\<close>, \<open>Vm_Pdb\<close>, \<open>Vm_Pdb_Laws\<close> (\<^verbatim>\<open>symbols/pdb/mod.rs\<close>), \<open>Vm_Relocations\<close>, \<open>Vm_Dwarf\<close>, \<open>Vm_Dwarf_Laws\<close>
    (\<^verbatim>\<open>symbols/dwarf\<close>): types and symbols from debug information. The locale \<open>type_resolver\<close> is the contract of a
    table of types that caches what it has resolved; both loaders interpret it.
  \<^item> \<open>Vm_Walk\<close>, \<open>Vm_Linux_Stack\<close>, \<open>Vm_Linux_Stack_Laws\<close> (\<^verbatim>\<open>os/linux/callstack.rs\<close>): call stacks of Linux processes, by
    call frame information. The abstract specification is the relation \<open>stack_walk\<close> over the rules of the frames.
  \<^item> \<open>Vm_Ptrace\<close> (\<^verbatim>\<open>backends/kvm/ptrace.rs\<close>, \<^verbatim>\<open>kvm/x86_64.rs\<close>, \<^verbatim>\<open>kvm/aarch64.rs\<close>), \<open>Vm_Kvm_Attach\<close>,
    \<open>Vm_Kvm_Attach_Laws\<close> (the rest of \<^verbatim>\<open>kvm/mod.rs\<close>, \<^verbatim>\<open>kvm_patch/src\<close>): calling functions in the process of the
    hypervisor, and the payload that sends the registers of the processors. \<open>Vm_Hypervisor\<close>: the locale \<open>hypervisor\<close>, the
    contract of \<open>ptrace\<close>, the calling convention and the C library on that process, and the injection over it.
  \<^item> \<open>Vm_Loader\<close> (\<^verbatim>\<open>os/windows/loader.rs\<close>, \<^verbatim>\<open>utils.rs\<close>): the loaders of symbols that use the file system, and the lazy cell.
  \<^item> \<open>Vm_Native\<close>, \<open>Vm_Native_Backend\<close>, \<open>Vm_Native_Laws\<close> (\<^verbatim>\<open>native/src\<close>): the C interface, its errors, strings and
    arrays, backends made of callbacks, loggers and allocators. \<open>Vm_Native_Arch\<close> (\<^verbatim>\<open>arch.rs\<close>) has the structures of
    registers as bytes, \<open>Vm_Handles\<close> the objects that are handed out, with the relation \<open>c_reach\<close> of the sequences of calls.
  \<^item> \<open>Vm_Kvm_Ioctl\<close> (\<^verbatim>\<open>kvm_patch/src/x86_64.rs\<close>, \<^verbatim>\<open>aarch64.rs\<close>): the structures of the kernel and the calls that fill them.
  \<^item> \<open>Vm_Python\<close>, \<open>Vm_Python_Gc\<close> (\<^verbatim>\<open>python/src/lib.rs\<close>): the Python interface, and its references over the counted
    handles of the interpreter, whose contract is the locale \<open>py_interpreter\<close>.
  \<^item> \<open>Vm_Tools\<close>, \<open>Vm_Capture_Laws\<close> (\<^verbatim>\<open>bin\<close>): the command line tools, and what a dump of a live guest holds.
  \<^item> \<open>Vm_Examples\<close>, \<open>Vm_Os_Examples\<close>, \<open>Vm_Stack_Example\<close>, \<open>Vm_Windows_Stack_Example\<close>, \<open>Vm_Live_Example\<close>: the small inputs at which the hypotheses of the properties are
    shown to hold.
  \<^item> \<open>Vm_Debug_Properties\<close>, \<open>Vm_Process_Properties\<close>, \<open>Vm_Interface_Properties\<close>: the properties of the loaders of
    debug information, of the code that follows other processes, and of the two interfaces; \<open>Vm_System\<close>: the properties
    of several parts put together. The others are below.

  \<^bold>\<open>State and effects.\<close> A function that fills a buffer takes it and returns it with its outcome, so the
  bytes left by a failed read are part of the model. A trait is a record of its methods; a provided
  method is a definition over the required ones, and an implementation is a value of the record. A
  writer is a function of the bytes written so far. Arithmetic that Rust checks in debug builds
  gives \<open>Panic\<close> when it overflows; arithmetic written as wrapping wraps. A call that may not return has the
  type \<open>outcome\<close>, with \<open>None\<close> for a call that does not. A method \<open>for_each_*\<close> is the trace of the items it
  passes to its callback; the guest does not change while a method runs.

  \<^bold>\<open>Parameters.\<close> The substring search of \<open>memchr\<close>, random access to files (\<open>sync_file\<close>), the file system,
  the map of \<open>once_map\<close>, the demanglers and the readers of ELF and PDB files are arguments; the theorems
  that need something of them assume their documented behaviour, and a witness gives a concrete
  function for each. The unstable sorts are arguments because the order of equal keys is open. The parser
  of PE files is an argument of the Windows guest; the loaders of debug information take what the crates \<open>gimli\<close>,
  \<open>object\<close> and \<open>pdb\<close> parse, and the unwinder of Linux processes takes the frame descriptions that \<open>gimli\<close> finds. The
  calls of \<open>ptrace\<close>, of KVM and of the file system are records of functions on a state of the world; the properties
  on the traced process assume of them what \<open>ptrace\<close> documents, and the one on dumps of a live guest also what the functions
  of the C library do that the process is made to call. The reference counts of Python are the record \<open>py_calls\<close>.

  \<^bold>\<open>What the properties show.\<close> C1 and C2: virtual reads return the bytes that the page tables map. C3 to
  C5: the walk is the four-level translation, never panics on tables it can read, and is linear in a
  page. C6 to C9: what the search of kernel memory and of a page finds, and where the default
  search reports a wrong index. C10: remapped reads. C11: a dump of a live guest, from the injection of the payload in the
  hypervisor to the file that is read again. C12: the kernel page directory. C13: the lines of the backtrace of an error. C14: a dump written and read back is
  the same machine. C15 and C16: the guest's memory in the hypervisor's process. C17 and C18: the hypervisor is left as it
  was found, and the registers that are read are those of the structures of the kernel. C19 and C20: symbols and symbol
  files. C21 to C24: the types of a PDB file, the structures of DWARF units with their anonymous members, and relocated
  addresses. C25: the index of modules after any sequence of loads, and after a directory. C26 and C28: unwinding a Windows function finds its entry, and returns
  when the chain of its information ends. C27 and C29: the call stack of a process of a Windows or a Linux guest, from the
  registers of the processor that runs it to the callers of the two interfaces: the frames of functions in their
  prologues, bodies and epilogues on Windows, and those of the call frame information on Linux. C30 and C31: when the enumerations of a Linux guest return, and what they give. C32 and C33: memory
  areas and pages of a Windows guest, those in transition below 1 TiB. C34: the symbol of an address. C35 to C37: strings, arrays and results of the C
  interface. C38: the backends of a C program are dropped once, also when a system cannot be made. C39: the call stack in Python. C40: the references of
  Python objects stay valid. Further theorems without a number cover refused reads, the validity of ranges, partial
  dumps, the windows of the default search, inexact symbols, the prologue of a function, the calls of the payload, the run-time dispatch, register
  names, addresses, byte orders, short and no-std symbol files, and the extent of fields.

  \<^bold>\<open>Loops.\<close> The loops over memory, tables and symbols are total functions: the walk descends a list of
  levels, the page loops, the binary search, the unwind codes and the emulated epilogues have measures, and
  the chain of error sources is bounded by the size of the error. The recursion of the search through page
  tables follows the levels, so no fuel is needed. The loops that follow pointers of the guest (lists, trees,
  paths, chains of unwind information, frames) or of a file (types that refer to types), and the loop that reads a
  string of the traced process, have no bound in the code; they are partial functions or traces, and the theorems say
  when they return.

  \<^bold>\<open>Not modelled.\<close> Logging and the printing of debug values; the registration of the classes of the Python module when it
  is imported, which only calls the binding library; conversions between a word and a structure that holds one word
  (the addresses of the two interfaces, typed pointers), which are words here; the concurrent use of the caches, which
  the code guards with the cells and maps of other crates; the integration tests, which read recorded dumps that the
  repository does not have.
\<close>

section \<open>Properties\<close>

text \<open>
  C1. Reading virtual memory: through a backend whose memory follows the flat contract, a read whose
  pages are all mapped to readable frames fills every byte of the buffer with the guest byte at the
  translation of its address, for every address and length, including a range that wraps at the end
  of the address space.
\<close>

theorem virtual_read_bytes:
  assumes "paged_memory rd readable byte mem mmu"
    and "arch_virtual_to_physical arch = virtual_to_physical mmu"
    and "bf \<noteq> []" "\<forall>i < length bf. mapped mmu mem readable root (addr + of_nat i)"
  shows "read_virtual_memory addr bf (be_read_virtual_memory (default_backend mem vcpus arch) root) =
    (map (\<lambda>i. virtual_byte mmu mem byte root (addr + of_nat i)) [0..<length bf], Ok ())"
  using paged_memory.virtual_read [OF assms(1,3,4)] assms(2) by (simp add: default_backend_def)

theorem virtual_read_bytes_witness:
  "read_virtual_memory 0 [0, 0] (be_read_virtual_memory tiny_backend 0) = ([0x81, 0], Ok ())"
proof -
  have "\<forall>i < length [0::u8, 0]. mapped x86_64_mmu (raw_memory_impl tiny_guest)
      (raw_readable tiny_guest) 0 (0 + of_nat i)"
    by (auto simp: less_Suc_eq numeral_2_eq_2 intro!: tiny_mapped)
  moreover have "virtual_byte x86_64_mmu (raw_memory_impl tiny_guest) (\<lambda>i. raw_bytes tiny_guest ! i) 0 w =
      raw_bytes tiny_guest ! unat w" if "unat w < 2 ^ 30" for w
    using that by (simp add: virtual_byte_def tiny_translate)
  ultimately show ?thesis
    using virtual_read_bytes [OF raw_paged.paged_memory_axioms, of "x86_64_arch naive_finder" "[0, 0]"
        tiny_guest 0 0]
    by (simp add: x86_64_arch_def tiny_bytes tiny_backend_def upt_rec)
qed

text \<open>
  C2. Reading with unmapped pages: \<open>try_read_virtual_memory\<close> succeeds when every page is mapped to a
  readable frame or has an invalid entry; the bytes of mapped pages are read and the bytes of
  unmapped pages keep what the buffer held.
\<close>

theorem virtual_try_read_bytes:
  assumes "paged_memory rd readable byte mem mmu" "bf \<noteq> []"
    and "\<forall>i < length bf. mapped mmu mem readable root (addr + of_nat i) \<or> unmapped mmu mem root (addr + of_nat i)"
  shows "try_read_virtual_memory addr bf (default_read_virtual_memory (virtual_to_physical mmu mem) mem root) =
    (map (\<lambda>i. case virtual_to_physical mmu mem root (addr + of_nat i) of
                 Ok pa \<Rightarrow> byte (unat pa) | _ \<Rightarrow> bf ! i) [0..<length bf], Ok ())"
  using paged_memory.virtual_try_read [OF assms] by (simp add: virtual_byte_or_def)

theorem virtual_try_read_bytes_witness:
  "try_read_virtual_memory (2 ^ 39) [7, 8] (default_read_virtual_memory
     (virtual_to_physical x86_64_mmu (raw_memory_impl tiny_guest)) (raw_memory_impl tiny_guest) 0) =
   ([7, 8], Ok ())"
proof -
  have i: "i = 0 \<or> i = 1" if "i < length [7::u8, 8]" for i using that by auto
  have p: "page_base (2 ^ 39 + of_nat i) = 2 ^ 39" "pml4e (2 ^ 39) = 1"
    if "i < length [7::u8, 8]" for i
    using i [OF that] by (auto simp: page_base_def pml4e_def vm_mask_def mask_eq_exp_minus_1)
  have u: "unmapped x86_64_mmu (raw_memory_impl tiny_guest) 0 (2 ^ 39 + of_nat i)"
    if "i < length [7::u8, 8]" for i
    by (rule tiny_unmapped) (simp only: p [OF that])
  have "page_base (2 ^ 39) = 2 ^ 39" by (simp add: page_base_def)
  then have t: "virtual_to_physical x86_64_mmu (raw_memory_impl tiny_guest) 0 (2 ^ 39 + of_nat i) = Err (TInvalid 0)"
    if "i < length [7::u8, 8]" for i
    using tiny_unmapped(2) [of "2 ^ 39"] p(2) that
      virtual_to_physical_same_page [OF x86_64_mmu_wf, of "2 ^ 39" i "raw_memory_impl tiny_guest" 0]
    by auto
  have "\<forall>i < length [7::u8, 8]. mapped x86_64_mmu (raw_memory_impl tiny_guest) (raw_readable tiny_guest) 0
      (2 ^ 39 + of_nat i) \<or> unmapped x86_64_mmu (raw_memory_impl tiny_guest) 0 (2 ^ 39 + of_nat i)"
    using u by blast
  from virtual_try_read_bytes [OF raw_paged.paged_memory_axioms _ this]
  show ?thesis using t [of 0] t [of 1] by (simp add: upt_rec)
qed

text \<open>
  C3. The table walk: on both architectures the generic loop over the levels is the four-level walk
  of the manuals, with the index accessors of \<open>VirtualAddress\<close>, the present bit 0, and the large
  page bit 7 (x86-64) or the cleared bit 1 (AArch64).
\<close>

theorem walk_is_four_level:
  "virtual_to_physical x86_64_mmu mem root va =
     four_level_walk (\<lambda>e. bit e 0) (\<lambda>e. bit e 7) (read_entry mem) root va \<and>
   virtual_to_physical aarch64_mmu mem root va =
     four_level_walk (\<lambda>e. bit e 0) (\<lambda>e. \<not> bit e 1) (read_entry mem) root va"
proof -
  have b: "(\<lambda>e::u64. e AND 1 \<noteq> 0) = (\<lambda>e. bit e 0)"
    "(\<lambda>e::u64. e AND push_bit 7 1 \<noteq> 0) = (\<lambda>e. bit e 7)"
    "(\<lambda>e::u64. e AND 2 = 0) = (\<lambda>e. \<not> bit e 1)"
    using bit_iff_and_push_bit_not_eq_0 [of _ 0] bit_iff_and_push_bit_not_eq_0 [of _ 7]
      bit_iff_and_push_bit_not_eq_0 [of _ 1] by (auto simp: fun_eq_iff)
  show ?thesis
    unfolding x86_64_mmu_def aarch64_mmu_def virtual_to_physical_four_level b by simp
qed

text \<open>
  C4. Safety of translation: when the memory does not panic, translating never panics (no addition
  overflows), and a translated address is inside the physical address space of the MMU and has the
  page offset of the virtual address.
\<close>

theorem translation_safe:
  assumes "mmu_wf mmu" "\<forall>a bf. snd (read_physical mem a bf) \<noteq> Panic"
  shows "case virtual_to_physical mmu mem root va of
      Ok pa \<Rightarrow> unat pa < 2 ^ ADDR_BITS mmu \<and> unat pa mod 4096 = unat va mod 4096
    | Err e \<Rightarrow> True
    | Panic \<Rightarrow> False"
  using virtual_to_physical_no_panic [OF assms] virtual_to_physical_less [OF assms(1)]
    virtual_to_physical_offset [OF assms(1)]
  by (simp split: result.split)

lemma raw_read_no_panic: "snd (read_physical (raw_memory_impl self) a bf) \<noteq> Panic"
  by (simp add: raw_memory_impl_def raw_read_spec)

theorem translation_safe_witness:
  "virtual_to_physical x86_64_mmu (raw_memory_impl tiny_guest) 0 0x123 = Ok 0x123 \<and>
   unat (0x123 :: physical_address) < 2 ^ ADDR_BITS x86_64_mmu"
  using translation_safe [OF x86_64_mmu_wf, where mem = "raw_memory_impl tiny_guest" and root = 0 and va = "0x123"]
  by (simp add: raw_read_no_panic tiny_translate)

text \<open>
  C5. Translation is linear inside a page: an address further in the same page translates to the
  physical address moved by the same amount, or fails in the same way.
\<close>

theorem translation_linear:
  assumes "mmu_wf mmu" "unat va mod 4096 + k < 4096"
  shows "virtual_to_physical mmu mem root (va + of_nat k) =
    map_ok (\<lambda>pa. pa + of_nat k) (virtual_to_physical mmu mem root va)"
  by (rule virtual_to_physical_same_page [OF assms])

theorem translation_linear_witness:
  "virtual_to_physical aarch64_mmu (raw_memory_impl tiny_guest) 0 (0x1ff0 + of_nat 15) =
     map_ok (\<lambda>pa. pa + of_nat 15) (virtual_to_physical aarch64_mmu (raw_memory_impl tiny_guest) 0 0x1ff0)"
  by (rule translation_linear [OF aarch64_mmu_wf]) simp

text \<open>
  C6. Soundness of the search of kernel memory over a byte slice, with any searcher that behaves as
  documented and pages of every size: an address it returns is not below the requested one and
  translates to a physical address where the guest memory holds the needle.
\<close>

theorem kernel_search_sound:
  assumes "substring_finder fi" "needle fi \<noteq> []" "mmu_wf mmu"
    and "find_in_kernel_memory_raw mmu (raw_memory_impl self) root base fi bf = (bf', Ok (Some va))"
  shows "base \<le> va \<and> (\<exists>pa. virtual_to_physical mmu (raw_memory_impl self) root va = Ok pa \<and>
    bytes_at (\<lambda>i. raw_bytes self ! i) (unat pa) (length (needle fi)) = needle fi)"
  using kernel_search.find_in_kernel_memory_raw_sound [OF raw_kernel_search [OF assms(1-3)] assms(4)]
  by blast

theorem kernel_search_sound_witness:
  "(0xfffffffffffffff8 :: u64) \<le> 0xfffffffffffffff8 \<and>
   (\<exists>pa. virtual_to_physical x86_64_mmu (raw_memory_impl last_guest) 0 0xfffffffffffffff8 = Ok pa \<and>
     bytes_at (\<lambda>i. raw_bytes last_guest ! i) (unat pa) 1 = [1])"
  using kernel_search_sound [OF naive.substring_finder_axioms _ x86_64_mmu_wf last_guest_one]
  by (simp add: naive_finder_def)



text \<open>
  C8. The default search of a page that fits in the buffer: it returns the index of the first
  occurrence of the needle in the page, or nothing when the needle is not in it, and the buffer
  then holds the page.
\<close>

theorem search_page_first_occurrence:
  assumes "memory_search rd readable byte fi" "readable addr (unat page_size)"
    and "unat page_size \<le> length bf"
  shows "search_default rd addr page_size fi bf =
    (bytes_at byte (unat addr) (unat page_size) @ drop (unat page_size) bf,
     Ok (map_option of_nat (first_occurrence (needle fi) (bytes_at byte (unat addr) (unat page_size)))))"
  by (rule memory_search.search_fits [OF assms])

theorem search_page_first_occurrence_witness:
  "snd (search_default (raw_read_physical (raw_new [5, 6, 7])) 0 3 (naive_finder [6]) [0, 0, 0, 0]) = Ok (Some 1)"
proof -
  have "first_occurrence [6] [5, 6, 7] = Some 1"
    by (simp add: first_occurrence_Some_iff occurs_at_def)
  then show ?thesis
    using search_page_first_occurrence [OF raw_search.memory_search_axioms, of "raw_new [5, 6, 7]" 0 3 "[0, 0, 0, 0]" "[6]"]
    by (simp add: raw_readable_def raw_new_def bytes_at_def upt_rec naive_finder_def)
qed

text \<open>
  The default search of a page larger than the buffer, by overlapping windows: it decides
  whether the needle is in the page, and what it returns for the first occurrence \<open>i\<close> is the index
  of that occurrence in the window where it is found.
\<close>

theorem search_windows_decide:
  assumes "memory_search rd readable byte fi" "readable addr (unat page_size)"
    and "length (needle fi) < length bf" "length bf < unat page_size"
  shows "snd (search_default rd addr page_size fi bf) =
    Ok (map_option (\<lambda>i. of_nat (window_index (length bf - length (needle fi)) i))
      (first_occurrence (needle fi) (bytes_at byte (unat addr) (unat page_size))))"
  by (rule memory_search.search_windows [OF assms])

theorem search_windows_decide_witness:
  "snd (search_default (raw_read_physical (raw_new [1, 2, 3, 4])) 0 4 (naive_finder [9]) [0, 0, 0]) = Ok None"
proof -
  have "first_occurrence [9] [1, 2, 3, 4] = None"
    by (auto simp: first_occurrence_def occurs_at_def upt_rec)
  then show ?thesis
    using search_windows_decide [OF raw_search.memory_search_axioms, of "raw_new [1, 2, 3, 4]" 0 4 "[9]" "[0, 0, 0]"]
    by (simp add: raw_readable_def raw_new_def bytes_at_def upt_rec naive_finder_def)
qed

text \<open>
  C9. Consequence for a large page: when the first occurrence lies beyond the first window, the
  returned index is strictly smaller than the index of the occurrence in the page, because the offset
  of the window is not added.
\<close>

theorem search_windows_misreport:
  assumes "memory_search rd readable byte fi" "readable addr (unat page_size)"
    and "length (needle fi) < length bf" "length bf < unat page_size"
    and "first_occurrence (needle fi) (bytes_at byte (unat addr) (unat page_size)) = Some i"
    and "length bf - length (needle fi) < i"
  shows "\<exists>j. snd (search_default rd addr page_size fi bf) = Ok (Some j) \<and> unat j < i"
proof -
  let ?s = "length bf - length (needle fi)"
  have "(i - 1) mod ?s < ?s" using assms(3) by simp
  then have "window_index ?s i \<le> ?s" by (simp add: window_index_def)
  moreover from this have "unat (of_nat (window_index ?s i) :: u64) \<le> window_index ?s i"
    by (simp add: unat_of_nat)
  ultimately show ?thesis
    using memory_search.search_windows [OF assms(1-4)] assms(5,6) by auto
qed

theorem search_windows_misreport_witness:
  "\<exists>j. snd (search_default (raw_read_physical (raw_new [1, 2, 3, 4])) 0 4 (naive_finder [4]) [0, 0, 0]) = Ok (Some j) \<and>
     unat j < 3"
proof -
  have "first_occurrence [4] [1, 2, 3, 4] = Some 3"
    by (auto simp: first_occurrence_Some_iff occurs_at_def less_Suc_eq numeral_3_eq_3)
  then show ?thesis
    using search_windows_misreport [OF raw_search.memory_search_axioms, of "raw_new [1, 2, 3, 4]" 0 4 "[4]" "[0, 0, 0]" 3]
    by (simp add: raw_readable_def raw_new_def bytes_at_def upt_rec naive_finder_def)
qed

text \<open>
  C10. A remapped read whose range lies in one mapping is the read of the inner memory at the address
  moved from the start of the mapping to its place, for disjoint mappings.
\<close>

theorem remap_read_translates:
  assumes "remap_wf self" "k < length (mr_mappings self)"
    and "covers (mr_mappings self ! k) a (length bf)" "bf \<noteq> []"
  shows "remap_read_physical self a bf =
    read_physical (mr_inner self) (remap_at self ! k + (a - mm_start (mr_mappings self ! k))) bf"
  by (rule remap_read_covered [OF assms])

theorem remap_read_translates_witness:
  "remap_read_physical remap_example 0x21 [0] = ([4], Ok ())"
  using remap_read_translates [of remap_example 1 "0x21" "[0]"]
  by (simp add: remap_example_def remap_new_def remap_wf_def covers_def raw_memory_impl_def raw_read_physical_def
      raw_new_def get_from_def)

text \<open>
  A remapped read whose range lies in no single mapping, without wrapping, is refused and leaves
  the buffer alone.
\<close>

theorem remap_read_refused:
  assumes "remap_wf self" "unat a + length bf < 2 ^ 64"
    and "\<forall>m \<in> set (mr_mappings self). \<not> covers m a (length bf)"
  shows "remap_read_physical self a bf = (bf, Err OutOfBounds)"
  by (rule remap_read_uncovered [OF assms])

theorem remap_read_refused_witness:
  "remap_read_physical remap_example 0x11 [8, 9] = ([8, 9], Err OutOfBounds)"
  by (rule remap_read_refused)
    (simp_all add: remap_example_def remap_new_def remap_wf_def covers_def)

text \<open>
  The default \<open>is_valid\<close> agrees with reading: for a memory of bytes, a range that does not wrap is
  reported valid exactly when a read of it succeeds.
\<close>

theorem raw_is_valid_iff_read:
  assumes "unat a + length bf < 2 ^ 64" "length bytes < 2 ^ 64"
  shows "is_valid (raw_memory_impl (raw_new bytes)) a (length bf) = Ok True \<longleftrightarrow>
    snd (read_physical (raw_memory_impl (raw_new bytes)) a bf) = Ok ()"
proof -
  have "is_valid_default [\<lparr>mm_start = 0, mm_end = of_nat (length bytes)\<rparr>] a (length bf) =
      Ok (unat a + length bf \<le> length bytes)"
    unfolding is_valid_default_iff [OF assms(1)] using assms(2) by (simp add: covers_def unat_of_nat)
  then show ?thesis
    by (simp add: raw_memory_impl_def raw_new_def raw_read_spec)
qed

theorem raw_is_valid_iff_read_witness:
  "is_valid (raw_memory_impl (raw_new [1, 2, 3])) 1 (length [0, 0 :: u8]) = Ok True \<longleftrightarrow>
   snd (read_physical (raw_memory_impl (raw_new [1, 2, 3])) 1 [0, 0]) = Ok ()"
  by (rule raw_is_valid_iff_read) simp_all

text \<open>
  The default dump writes every mapping byte for byte, in order, when the mappings are readable
  and made of whole 64 KiB chunks.
\<close>

theorem dump_writes_mappings:
  assumes "flat_memory rd readable byte" "\<forall>m \<in> set ms. flat_memory.whole_mapping readable m"
  shows "dump_default ms rd vec_writer out =
    (out @ concat (map (\<lambda>m. bytes_at byte (unat (mm_start m)) (unat (mm_end m) - unat (mm_start m))) ms), Ok ())"
  by (rule flat_memory.dump_default_whole [OF assms])

theorem dump_writes_mappings_witness:
  "dump_default [\<lparr>mm_start = 0, mm_end = 0x10000\<rparr>] (raw_read_physical (raw_new (replicate 65536 7))) vec_writer [] =
   (replicate 65536 7, Ok ())"
proof -
  have "bytes_at (\<lambda>i. replicate 65536 (7::u8) ! i) 0 65536 = replicate 65536 7"
    by (rule nth_equalityI) simp_all
  then show ?thesis
    using dump_writes_mappings [OF raw.flat_memory_axioms, of "[\<lparr>mm_start = 0, mm_end = 0x10000\<rparr>]"
        "raw_new (replicate 65536 7)" "[]"]
    by (simp add: raw.whole_mapping_def dump_chunk_def raw_readable_def raw_new_def)
qed

text \<open>
  A mapping whose last chunk is not readable in full makes the dump fail, although every byte
  of the mapping may be readable: the default method always reads 64 KiB.
\<close>

theorem dump_partial_chunk_fails:
  assumes "flat_memory rd readable byte" "a < e" "\<not> readable (of_nat a) dump_chunk"
    and "a + dump_chunk < 2 ^ 64" "length buffer = dump_chunk"
  shows "snd (dump_mapping rd wr e a buffer out) \<noteq> Ok ()"
  by (rule flat_memory.dump_mapping_partial [OF assms])

theorem dump_partial_chunk_fails_witness:
  "snd (dump_mapping (raw_read_physical (raw_new [1, 2, 3])) vec_writer 3 0 (replicate 65536 0) []) \<noteq> Ok ()"
  by (rule dump_partial_chunk_fails [OF raw.flat_memory_axioms])
    (simp_all add: raw_readable_def raw_new_def dump_chunk_def)

text \<open>
  C12. The kernel page directory guessed on x86-64 translates, to a valid physical address, every
  address given by the caller and the system call entry point of the first processor.
\<close>

theorem kernel_pgd_translates:
  assumes "x86_find_kernel_pgd mem self use_per_cpu additional = Ok (Some root)"
    and "a \<in> set additional \<or> (\<exists>regs. other_registers self 0 = Ok regs \<and> a = lstar regs)"
  shows "\<exists>pa. virtual_to_physical x86_64_mmu mem root a = Ok pa \<and> is_valid mem pa 1 = Ok True"
  using x86_find_kernel_pgd_Some [OF assms] by (simp add: translates_def)

theorem kernel_pgd_translates_witness:
  "\<exists>pa. virtual_to_physical x86_64_mmu (raw_memory_impl tiny_guest) 0 0x20 = Ok pa \<and>
     is_valid (raw_memory_impl tiny_guest) pa 1 = Ok True"
proof -
  have "is_valid (raw_memory_impl tiny_guest) 0x20 1 = Ok True"
    by (simp add: tiny_guest_def raw_new_def raw_memory_impl_def pa_add_def add_chk_def)
  then have "x86_find_kernel_pgd (raw_memory_impl tiny_guest) one_vcpu False [0x20] = Ok (Some 0)"
    by (simp add: x86_find_kernel_pgd_def one_vcpu_def default_vcpus_def no_vcpu_regs_def
        make_address_test_def iter_vcpus_def tiny_translate)
  then show ?thesis by (rule kernel_pgd_translates) simp
qed

text \<open>
  Run-time dispatch is transparent: the run-time architecture, applied to the processors of an
  x86-64 or AArch64 backend through \<open>RuntimeBackend\<close>, gives the register values of that architecture.
\<close>

theorem runtime_dispatch_transparent:
  fixes v :: "(x86_registers, x86_special_registers, x86_other_registers) vcpus"
    and w :: "(arm_registers, arm_special_registers, arm_other_registers) vcpus"
  shows "(let X = runtime_arch new_finder X86_64; V = runtime_vcpu_regs RegsX86 SpecialX86 OtherX86 v in
      arch_register_by_name X V = x86_register_by_name v \<and>
      arch_instruction_pointer X V = x86_instruction_pointer v \<and> arch_stack_pointer X V = x86_stack_pointer v \<and>
      arch_base_pointer X V = x86_base_pointer v \<and> arch_pgd X V = x86_pgd v \<and>
      arch_kernel_per_cpu X V = x86_kernel_per_cpu v) \<and>
    (let A = runtime_arch new_finder Aarch64;
         W = runtime_vcpu_regs RegsAarch64 SpecialAarch64 OtherAarch64 w in
      arch_register_by_name A W = arm_register_by_name w \<and>
      arch_instruction_pointer A W = arm_instruction_pointer w \<and> arch_stack_pointer A W = arm_stack_pointer w \<and>
      arch_base_pointer A W = arm_base_pointer w \<and> arch_pgd A W = arm_pgd w \<and>
      arch_kernel_per_cpu A W = arm_kernel_per_cpu w)"
  by (simp add: runtime_arch_def Let_def runtime_as_x86_id runtime_as_arm_id x86_64_arch_def aarch64_arch_def
      fun_eq_iff truncate_sel x86_register_by_name_def x86_instruction_pointer_def x86_stack_pointer_def
      x86_base_pointer_def x86_pgd_def x86_kernel_per_cpu_def arm_register_by_name_def
      arm_instruction_pointer_def arm_stack_pointer_def arm_base_pointer_def arm_pgd_def arm_kernel_per_cpu_def
      cong: if_cong)

text \<open>
  Register names on AArch64: \<open>x0\<close> always reads as zero, and \<open>xN\<close> reads the register \<open>N - 1\<close>; in
  particular \<open>x29\<close> is not the frame pointer that \<open>base_pointer\<close> returns, which is the register 29.
\<close>

theorem arm_register_names_shifted:
  assumes "registers self vcpu = Ok regs" "length (arm_regs regs) = 31"
  shows "arm_register_by_name self vcpu ''x0'' = Ok 0 \<and>
    arm_register_by_name self vcpu ''x1'' = Ok (arm_regs regs ! 0) \<and>
    arm_register_by_name self vcpu ''x29'' = Ok (arm_regs regs ! 28) \<and>
    arm_base_pointer self vcpu = Ok (Some (arm_regs regs ! 29))"
proof -
  have "from_str_radix 10 64 ''0'' = Some 0" "from_str_radix 10 64 ''1'' = Some 1"
    "from_str_radix 10 64 ''29'' = Some 29"
    by (simp_all add: from_str_radix_def digit_value_def char_code_def of_char_def)
  then show ?thesis
    using assms by (simp add: arm_register_x [OF assms(1)] arm_base_pointer_def index_at_def)
qed

theorem arm_register_names_shifted_witness:
  "arm_register_by_name arm_example 0 ''x29'' = Ok 128 \<and> arm_base_pointer arm_example 0 = Ok (Some 129)"
  using arm_register_names_shifted [of arm_example 0] by (simp add: arm_example_def)

text \<open>
  The four indices and the page offset of a virtual address are its decomposition: they are below
  512 and 4096, and recompose the low 48 bits of the address.
\<close>

theorem virtual_address_decomposition:
  "unat va mod 2 ^ 48 = unat (pml4e va) * 2 ^ 39 + unat (pdpe va) * 2 ^ 30 + unat (pde va) * 2 ^ 21 +
     unat (pte va) * 2 ^ 12 + unat (page_offset va) \<and>
   unat (pml4e va) < 512 \<and> unat (pdpe va) < 512 \<and> unat (pde va) < 512 \<and> unat (pte va) < 512 \<and>
   unat (page_offset va) < 4096 \<and>
   unat (huge_page_offset va) = unat (pde va) * 2 ^ 21 + unat (large_page_offset va) \<and>
   unat (large_page_offset va) = unat (pte va) * 2 ^ 12 + unat (page_offset va)"
proof -
  let ?n = "unat va"
  have n: "39 + 9 = (48::nat)" "30 + 9 = (39::nat)" "21 + 9 = (30::nat)" "12 + 9 = (21::nat)" by simp_all
  have p48: "?n mod 2 ^ 48 = ?n div 2 ^ 39 mod 2 ^ 9 * 2 ^ 39 + ?n mod 2 ^ 39"
    by (rule mod_peel [of ?n 39, unfolded n])
  have p39: "?n mod 2 ^ 39 = ?n div 2 ^ 30 mod 2 ^ 9 * 2 ^ 30 + ?n mod 2 ^ 30"
    by (rule mod_peel [of ?n 30, unfolded n])
  have p30: "?n mod 2 ^ 30 = ?n div 2 ^ 21 mod 2 ^ 9 * 2 ^ 21 + ?n mod 2 ^ 21"
    by (rule mod_peel [of ?n 21, unfolded n])
  have p21: "?n mod 2 ^ 21 = ?n div 2 ^ 12 mod 2 ^ 9 * 2 ^ 12 + ?n mod 2 ^ 12"
    by (rule mod_peel [of ?n 12, unfolded n])
  have "?n mod 2 ^ 48 = ?n div 2 ^ 39 mod 2 ^ 9 * 2 ^ 39 + ?n div 2 ^ 30 mod 2 ^ 9 * 2 ^ 30 +
      ?n div 2 ^ 21 mod 2 ^ 9 * 2 ^ 21 + ?n div 2 ^ 12 mod 2 ^ 9 * 2 ^ 12 + ?n mod 2 ^ 12"
    by (simp only: p48 p39 p30 p21 add.assoc)
  moreover have "?n div 2 ^ k mod 2 ^ 9 < 512" "?n mod 2 ^ 12 < 4096" for k by simp_all
  ultimately show ?thesis
    unfolding unat_index_field using p30 p21 by (intro conjI) assumption+
qed

text \<open>
  The difference of two addresses less than \<open>2 ^ 63\<close> apart is the signed difference, and adding it
  to the second address gives the first, without a panic.
\<close>

theorem address_difference_roundtrip:
  assumes "- (2 ^ 63) \<le> int (unat a) - int (unat b)" "int (unat a) - int (unat b) < 2 ^ 63"
  shows "sint (va_diff a b) = int (unat a) - int (unat b) \<and> va_add_i64 b (va_diff a b) = Ok a"
  using sint_va_diff [OF assms] va_diff_add [OF assms] by simp

theorem address_difference_roundtrip_witness:
  "sint (va_diff 0x1000 0x3000) = - 0x2000 \<and> va_add_i64 0x3000 (va_diff 0x1000 0x3000) = Ok 0x1000"
  using address_difference_roundtrip [of "0x1000" "0x3000"] by simp

text \<open>
  Byte orders: decoding an integer copied from guest memory agrees with decoding its bytes, for
  every width, and decoding twice gives the integer back.
\<close>

theorem endian_decoding:
  assumes "length b2 = 2" "length b4 = 4" "length b8 = 8"
  shows "read_u16 e (of_le_bytes b2) = read_u16_bytes e b2 \<and> read_u32 e (of_le_bytes b4) = read_u32_bytes e b4 \<and>
    read_u64 e (of_le_bytes b8) = read_u64_bytes e b8 \<and> read_i16 e (of_le_bytes b2) = read_i16_bytes e b2 \<and>
    read_i32 e (of_le_bytes b4) = read_i32_bytes e b4 \<and> read_i64 e (of_le_bytes b8) = read_i64_bytes e b8 \<and>
    read_u16 e (read_u16 e n2) = n2 \<and> read_u32 e (read_u32 e n4) = n4 \<and> read_u64 e (read_u64 e n8) = n8"
  using assms by (simp add: read_value_bytes read_value_involution)

theorem endian_decoding_witness:
  "read_u16_bytes Big [1, 2] = 0x0102 \<and> read_u16 Big (of_le_bytes [1, 2]) = read_u16_bytes Big [1, 2]"
  using endian_decoding [of "[1, 2]" "[0, 0, 0, 0]" "[0, 0, 0, 0, 0, 0, 0, 0]" Big]
  by (simp add: read_u16_bytes_def from_be_bytes_def push_bit_eq_mult)

text \<open>
  C13. The printed backtrace of an error that went through the library: whatever messages were put around an error on
  its way up (\<open>context\<close>), the backtrace prints the outermost one, then under \<open>Caused by:\<close>, one indented line each and in
  order, every other message, the message of the error itself, and those of its sources. An error of the memory, of a
  processor or of the operating system that \<open>?\<close> has converted gives two lines, what failed and the reason; an error with
  a context gives the context and the error; an error made by \<open>new\<close> has no line of its own; the other errors have one
  line. Each printed source is that of the error before, and the last one has none.
\<close>

theorem backtrace_is_source_chain:
  "map_err (print_backtrace os_msg) (foldr (context_res DynVm) ms (Err base :: 'a vm_result)) =
     Err (printed_lines (ms @ backtrace_lines os_msg base)) \<and>
   backtrace_lines os_msg (vm_of_mem m) =
     ''failed to access physical memory'' # mem_fmt os_msg m # map (dyn_fmt os_msg) (causes (mem_source m)) \<and>
   backtrace_lines os_msg (vm_of_vcpu v) =
     ''failed to access registers'' # vcpu_fmt os_msg v # map (dyn_fmt os_msg) (causes (vcpu_source v)) \<and>
   backtrace_lines os_msg (vm_of_io io) = ''I/O error'' # io_fmt os_msg io # map (dyn_fmt os_msg) (causes (io_source io)) \<and>
   backtrace_lines os_msg (vm_with_context msg d) = msg # dyn_fmt os_msg d # map (dyn_fmt os_msg) (causes (dyn_source d)) \<and>
   backtrace_lines os_msg (vm_new d) = dyn_fmt os_msg d # map (dyn_fmt os_msg) (causes (dyn_source d)) \<and>
   (\<forall>err \<in> {vm_of_str msg, missing_module msg, missing_symbol msg, missing_field msg msg', RInvalidPage e, deref_null_ptr,
      unsupported_architecture, unsupported, unimplemented}. backtrace_lines os_msg err = [repr_fmt os_msg err]) \<and>
   (vm_source base \<noteq> None \<longrightarrow>
      hd (causes (vm_source base)) = the (vm_source base) \<and> dyn_source (last (causes (vm_source base))) = None) \<and>
   (\<forall>i. Suc i < length (causes (vm_source base)) \<longrightarrow>
      dyn_source (causes (vm_source base) ! i) = Some (causes (vm_source base) ! Suc i))"
proof -
  obtain err where err: "foldr (context_res DynVm) ms (Err base :: 'a vm_result) = Err err" using context_stays_error by blast
  show ?thesis
    using causes_ends [of "vm_source base"] causes_linked [of _ "vm_source base"]
    by (simp add: err print_backtrace_lines context_backtrace [OF err]) (auto simp: backtrace_lines_def vm_error_defs)
qed

theorem backtrace_is_source_chain_witness:
  "map_err (print_backtrace (\<lambda>n. ''No such file''))
     (context_res DynVm ''failed to load guest'' (context_res DynVm ''no symbols'' (map_err vm_of_io (Err (IoOs 2) :: (unit, io_error) result)))) =
   Err (''failed to load guest'' @ [CHR 0x0A, CHR 0x0A] @ ''Caused by:'' @ indented ''no symbols'' @ indented ''I/O error'' @
     indented ''No such file'')"
  using backtrace_is_source_chain [of "\<lambda>n. ''No such file''" "[''failed to load guest'', ''no symbols'']" "vm_of_io (IoOs 2)"
      OutOfBounds InvalidId "IoOs 2", where 'a = unit]
  by (simp add: printed_lines_def vm_error_defs)

text \<open>
  C14. A dump written to a file and read back is the same virtual machine: the same processors with
  the same registers, the same mappings, and the same bytes at every readable address. The mappings
  are disjoint, readable and made of whole 64 KiB chunks.
\<close>

theorem dump_roundtrip:
  assumes flat: "flat_memory (remap_read_physical (dd_mem dd)) readable byte"
    and whole: "\<forall>m \<in> set (mr_mappings (dd_mem dd)). flat_memory.whole_mapping readable m"
    and ms: "maps_ok (mr_mappings (dd_mem dd))" "maps_disjoint (mr_mappings (dd_mem dd))"
      "length (mr_mappings (dd_mem dd)) < 2 ^ 32" "dump_vcpus_wf (dd_vcpus dd)"
    and content: "dump_write (Ok ()) vec_writer dd = (content, r)" "length content < 2 ^ 64" "fs_open p = Ok content"
    and ra: "reads_content read_at"
  shows "r = Ok () \<and> (\<exists>dd'. dump_read read_at fs_open p = Ok dd' \<and> dd_vcpus dd' = dd_vcpus dd \<and>
    mr_mappings (dd_mem dd') = mr_mappings (dd_mem dd) \<and>
    (\<forall>m \<in> set (mr_mappings (dd_mem dd)). \<forall>a bf. covers m a (length bf) \<and> bf \<noteq> [] \<longrightarrow>
       remap_read_physical (dd_mem dd') a bf = remap_read_physical (dd_mem dd) a bf))"
proof -
  let ?ms = "mr_mappings (dd_mem dd)"
  let ?pre = "enc_header (dump_header dd) @ enc_mappings ?ms @ concat (dump_vcpu_chunks (dd_vcpus dd))"
  have c: "content = ?pre @ mem_image byte ?ms" and r: "r = Ok ()"
    using dump_write_content [OF flat whole] content(1) by simp_all
  obtain offs e where offs: "remap_offsets ?ms 0 = (Ok (offs, e) :: (_, vm_error) result)" "length offs = length ?ms"
      "\<forall>k < length ?ms. unat (offs ! k) = sum_list (map map_size (take k ?ms))"
    using remap_offsets_ok [OF ms(1), of 0] ms(1) by (auto simp: maps_ok_def)
  let ?r = "remap_new (file_mem_impl (loaded_file read_at content (length ?pre))) ?ms offs"
  have "remap_read_physical ?r a bf = remap_read_physical (dd_mem dd) a bf"
    if m: "m \<in> set ?ms" and bf: "covers m a (length bf)" "bf \<noteq> []" for m a bf
  proof -
    obtain k where k: "k < length ?ms" "?ms ! k = m" using m by (auto simp: in_set_conv_nth)
    show ?thesis
      using loaded_read [OF ra ms(1,2) offs(2,3) c content(2) k(1), of a bf]
        whole_covered_read [OF flat _ bf] whole m k(2) bf by simp
  qed
  then show ?thesis
    using dump_read_written [where fs_open = fs_open and p = p, OF ms(1,3,4) c content(2,3) offs(1), of read_at] r
    by (auto simp: remap_new_def)
qed

theorem dump_roundtrip_witness:
  "\<exists>dd'. dump_read content_read_at Ok (fst (dump_write (Ok ()) vec_writer small_dump)) = Ok dd' \<and>
     dd_vcpus dd' = dd_vcpus small_dump \<and>
     remap_read_physical (dd_mem dd') 0x40000fff [0, 0] = ([7, 7], Ok ())"
proof -
  have ms: "mr_mappings (dd_mem small_dump) = [\<lparr>mm_start = 0x40000000, mm_end = 0x40010000\<rparr>]"
    and rr: "remap_read_physical (dd_mem small_dump) 0x40000fff [0, 0] = ([7, 7], Ok ())"
    by (simp_all add: small_dump_def remap_new_def remap_read_physical_def remap_addr.simps pa_add_def add_chk_def
      index_at_def raw_memory_impl_def raw_read_spec pa_add_i64_def pa_diff_def overflowing_add_signed_def
      raw_new_def bytes_at_def upt_rec)
  have whole: "\<forall>m \<in> set (mr_mappings (dd_mem small_dump)). flat_memory.whole_mapping
      (remap_readable (dd_mem small_dump) (raw_readable (raw_new (replicate 65536 7)))) m"
    unfolding flat_memory.whole_mapping_def [OF small_dump_flat] ms by (simp add: dump_chunk_def
      remap_readable_def covers_def raw_readable_def raw_new_def small_dump_def remap_new_def)
  note written = dump_write_content [OF small_dump_flat whole]
  have v: "length (concat (dump_vcpu_chunks (dd_vcpus small_dump))) = 304"
    by (simp add: small_dump_def dump_vcpu_chunks_def enc_arm_vcpu_def enc_arm_registers_def enc_arm_special_def)
  have len: "length (fst (dump_write (Ok ()) vec_writer small_dump)) < 2 ^ 64"
    unfolding written using v by (simp add: ms length_mem_image map_size_def)
  have wf: "maps_ok (mr_mappings (dd_mem small_dump))" "maps_disjoint (mr_mappings (dd_mem small_dump))"
      "length (mr_mappings (dd_mem small_dump)) < 2 ^ 32" "dump_vcpus_wf (dd_vcpus small_dump)"
      "reads_content content_read_at"
    unfolding ms by (simp_all add: maps_ok_def map_size_def maps_disjoint_def small_dump_def reads_content_def
      content_read_at_def)
  obtain dd' where "dump_read content_read_at Ok (fst (dump_write (Ok ()) vec_writer small_dump)) = Ok dd'"
      "dd_vcpus dd' = dd_vcpus small_dump"
      "\<forall>m \<in> set (mr_mappings (dd_mem small_dump)). \<forall>a bf. covers m a (length bf) \<and> bf \<noteq> [] \<longrightarrow>
         remap_read_physical (dd_mem dd') a bf = remap_read_physical (dd_mem small_dump) a bf"
    using dump_roundtrip [where fs_open = Ok, OF small_dump_flat whole wf(1-4) surjective_pairing len refl wf(5)] by blast
  moreover have "covers \<lparr>mm_start = 0x40000000, mm_end = 0x40010000\<rparr> 0x40000fff (length [0::u8, 0])"
    by (simp add: covers_def)
  ultimately show ?thesis using rr by (simp add: ms)
qed

text \<open>
  C15. The memory of the guest is the largest mapping of the hypervisor's process that is not a library
  under \<open>/usr/\<close>: when some mapping qualifies, it is found, with its exact start and size.
\<close>

theorem kvm_finds_largest_mapping:
  assumes "\<forall>line \<in> set lines. \<forall>s e. guest_map line = Some (s, e) \<longrightarrow> 0 < s \<and> s \<le> e"
    and "\<exists>line \<in> set lines. \<exists>s e. guest_map line = Some (s, e) \<and> s < e"
  shows "\<exists>f line s e. find_memory (Ok (map Ok lines)) (Ok rd) = Ok f \<and> line \<in> set lines \<and>
    guest_map line = Some (s, e) \<and> read_exact_at f = rd \<and> unat (file_start f) = s \<and> unat (file_size f) = e - s \<and>
    (\<forall>line' \<in> set lines. \<forall>s' e'. guest_map line' = Some (s', e') \<longrightarrow> e' - s' \<le> e - s)"
  by (rule find_memory_largest [OF assms])

theorem kvm_finds_largest_mapping_witness:
  "\<exists>f. find_memory (Ok (map Ok maps_example)) (Ok (process_read (\<lambda>i. Some 0))) = Ok f \<and>
     unat (file_start f) = 0x400 \<and> unat (file_size f) = 0x80"
proof -
  have g: "guest_map line \<in> {None, Some (0x400, 0x480), Some (0xa00, 0xa10)}" if "line \<in> set maps_example" for line
    using that maps_example_guest by (auto simp: maps_example_def)
  have "Some (0x400, 0x480) \<in> set (map guest_map maps_example)" unfolding maps_example_guest by simp
  then obtain l where l: "l \<in> set maps_example" "guest_map l = Some (0x400, 0x480)" by auto
  obtain f line s e where f: "find_memory (Ok (map Ok maps_example)) (Ok (process_read (\<lambda>i. Some 0))) = Ok f"
      "line \<in> set maps_example" "guest_map line = Some (s, e)" "unat (file_start f) = s" "unat (file_size f) = e - s"
      "\<forall>line' \<in> set maps_example. \<forall>s' e'. guest_map line' = Some (s', e') \<longrightarrow> e' - s' \<le> e - s"
    using kvm_finds_largest_mapping [of maps_example "process_read (\<lambda>i. Some 0)"] g l by fastforce
  have "0x80 \<le> e - s" using f(6) l by fastforce
  then show ?thesis using g [OF f(2)] f by auto
qed

text \<open>
  C16. Physical memory of a guest of KVM: with QEMU's default layout, a read in the guest's memory
  returns the bytes of the hypervisor's process at the place of the address, on both sides of the hole
  below 4 GiB on x86-64 and above 1 GiB on AArch64; any other range is refused.
\<close>

theorem kvm_guest_read:
  assumes kvm: "with_default_qemu_mappings host open_maps (Ok (process_read pimage)) regs = Ok kvm"
    and "find_memory open_maps (Ok (process_read pimage)) = Ok f"
    and "unat (file_size f) < 2 ^ 63" "\<forall>i < unat (file_size f). pimage (unat (file_start f) + i) \<noteq> None"
    and "bf \<noteq> []" "unat a + length bf < 2 ^ 64"
  shows "read_physical (kvm_memory kvm) a bf =
    (case guest_offset host (unat (file_size f)) (unat a) (length bf) of
       None \<Rightarrow> (bf, Err OutOfBounds)
     | Some off \<Rightarrow> (bytes_at (\<lambda>i. the (pimage i)) (unat (file_start f) + off) (length bf), Ok ()))"
proof -
  let ?sz = "file_size f"
  have p: "f = process_file pimage (file_start f) ?sz" "unat (file_start f) + unat ?sz < 2 ^ 64"
    using find_memory_process [OF assms(2)] by auto
  obtain ms at where m: "default_qemu_mappings host ?sz = (Ok (ms, at) :: (_, vm_error) result)"
      "kvm_mem kvm = remap_new (file_mem_impl (process_file pimage (file_start f) ?sz)) ms at"
    using kvm assms(2) p(1)
    by (auto simp: with_default_qemu_mappings_def kvm_create_def and_then_Ok_iff)
  show ?thesis
    using qemu_read [OF assms(3) m(1) assms(5,6) p(2) assms(4)]
    by (simp add: kvm_memory_def with_defaults_def m(2))
qed

theorem kvm_guest_read_witness:
  "\<exists>kvm. with_default_qemu_mappings X86_64 (Ok (map Ok maps_example)) (Ok (process_read (\<lambda>i. Some 7)))
       (Ok [] :: x86_vcpu list vm_result) = Ok kvm \<and>
     read_physical (kvm_memory kvm) 0x10 [0, 0] = ([7, 7], Ok ()) \<and>
     read_physical (kvm_memory kvm) 0x7f [0, 0] = ([0, 0], Err OutOfBounds)"
  (is "\<exists>kvm. ?new = Ok kvm \<and> _")
proof -
  obtain kvm where kvm: "?new = Ok kvm"
    by (simp add: with_default_qemu_mappings_def kvm_create_def maps_example_memory default_qemu_mappings_def
        push_bit_eq_mult file_size_def)
  note r = kvm_guest_read [OF kvm maps_example_memory]
  show ?thesis
    using kvm r [of "[0, 0]" "0x10"] r [of "[0, 0]" "0x7f"] by (simp add: file_size_def bytes_at_def upt_rec)
qed

text \<open>
  C19. Looking up symbols: a module built from a list of symbols finds a name for exactly the
  addresses of the list and an address for exactly its names, and what it finds is in the list,
  whatever the sorts do with equal keys.
\<close>

theorem symbol_lookup:
  assumes "symbol_sorts sort_addr sort_name"
  shows "let m = build sort_addr sort_name (extend_symbols builder_new syms) in
    (\<forall>a. case get_symbol m a of Some n \<Rightarrow> (a, n) \<in> set syms | None \<Rightarrow> a \<notin> fst ` set syms) \<and>
    (\<forall>n. case get_address m n of Some a \<Rightarrow> (a, n) \<in> set syms | None \<Rightarrow> n \<notin> snd ` set syms) \<and>
    mset (iter_symbols m) = mset syms"
proof -
  let ?b = "extend_symbols builder_new syms"
  have b: "builder_syms ?b = syms" using extend_symbols_syms [OF builder_new_wf(1)] by simp
  note s = symbol_sorts.get_symbol_sound [OF assms, of ?b, unfolded b]
    symbol_sorts.get_symbol_complete [OF assms, of _ _ ?b, unfolded b]
    symbol_sorts.get_address_sound [OF assms, of ?b, unfolded b]
    symbol_sorts.get_address_complete [OF assms, of _ _ ?b, unfolded b]
  have "case get_symbol (build sort_addr sort_name ?b) a of Some n \<Rightarrow> (a, n) \<in> set syms | None \<Rightarrow> a \<notin> fst ` set syms" for a
    using s(1,2) [of a] by (auto split: option.split)
  moreover have "case get_address (build sort_addr sort_name ?b) n of Some a \<Rightarrow> (a, n) \<in> set syms | None \<Rightarrow> n \<notin> snd ` set syms" for n
    using s(3) [of n] s(4) [of _ n] by (auto split: option.split)
  ultimately show ?thesis
    using symbol_sorts.iter_symbols_build [OF assms, of ?b, unfolded b] by (simp add: Let_def)
qed

theorem symbol_lookup_witness:
  "\<exists>a. get_address (build sort_key sort_key (extend_symbols builder_new [(0x20, ''b''), (0x10, ''a'')])) ''b'' = Some a \<and>
     (a, ''b'') \<in> set [(0x20, ''b''), (0x10, ''a'')]"
  using symbol_lookup [OF stable_sorts.symbol_sorts_axioms, of "[(0x20, ''b''), (0x10, ''a'')]"]
  by (auto simp: Let_def split: option.splits)

text \<open>
  The inexact lookup of an address gives the symbol at the greatest address that is not above it,
  with the distance; it finds nothing exactly when all symbols are above.
\<close>

theorem symbol_inexact_lookup:
  assumes "symbol_sorts sort_addr sort_name"
  shows "case get_symbol_inexact (build sort_addr sort_name (extend_symbols builder_new syms)) a of
      None \<Rightarrow> \<forall>(s, n) \<in> set syms. a < s
    | Some (n, off) \<Rightarrow> \<exists>s. (s, n) \<in> set syms \<and> s \<le> a \<and> off = a - s \<and>
        (\<forall>(s', n') \<in> set syms. s' \<le> a \<longrightarrow> s' \<le> s)"
proof -
  let ?b = "extend_symbols builder_new syms"
  have b: "builder_syms ?b = syms" using extend_symbols_syms [OF builder_new_wf(1)] by simp
  show ?thesis
    using symbol_sorts.get_symbol_inexact_Some [OF assms, of ?b a, unfolded b]
      symbol_sorts.get_symbol_inexact_None [OF assms, of ?b a, unfolded b]
    by (auto split: option.split)
qed

theorem symbol_inexact_lookup_witness:
  "get_symbol_inexact (build sort_key sort_key (extend_symbols builder_new [(0x20, ''b''), (0x10, ''a'')])) 0x18 =
     Some (''a'', 8)"
  using symbol_inexact_lookup [OF stable_sorts.symbol_sorts_axioms, of "[(0x20, ''b''), (0x10, ''a'')]" "0x18"]
  by (auto split: option.splits)

text \<open>
  C20. Reading a symbol file: a file of lines in the documented format gives exactly the symbols of the
  kinds T, A, D and R, in order, with their addresses and names, for ASCII names.
\<close>

theorem symbol_file_parsed:
  assumes "\<forall>(k, a, n) \<in> set syms. char_code k < 0x80 \<and> k \<noteq> CHR 0x0a \<and> ascii_name n"
  shows "parse_symbol_file_inner True utf8_error (symbol_file syms) b =
    (extend_symbols b (map snd (filter (\<lambda>s. symbol_kind (fst s)) syms)), Ok ())"
  by (rule parse_symbol_file_printed [OF assms])

theorem symbol_file_parsed_witness:
  "parse_symbol_file_inner True (\<lambda>bs. DynStr []) (symbol_file [(CHR ''D'', 0xffffffffba000200, ''banner''), (CHR ''U'', 1, ''x'')])
     builder_new = (push builder_new 0xffffffffba000200 ''banner'', Ok ())"
  by (subst symbol_file_parsed)
     (simp_all add: ascii_name_def char_code_def symbol_kind_def to_ascii_uppercase_def)

text \<open>
  A symbol file with a line of less than 19 bytes, such as an empty line, makes the parser panic
  instead of skipping the line.
\<close>

theorem short_symbol_line_panics:
  assumes "0x0a \<notin> set l" "length l < 18" "utf8_valid (l @ [0x0a])"
  shows "parse_symbol_file_inner True utf8_error (l @ 0x0a # rest) b = (b, Panic)"
  by (rule short_line_panics [OF assms])

theorem short_symbol_line_panics_witness:
  "parse_symbol_file_inner True (\<lambda>bs. DynStr []) [0x0a] builder_new = (builder_new, Panic)"
  using short_symbol_line_panics [of "[]" _ "[]"] by simp

text \<open>
  Without the feature \<open>std\<close>, only the first line of a symbol file is read: everything after the
  first line feed is ignored.
\<close>

theorem no_std_reads_first_line:
  assumes "0x0a \<notin> set l"
  shows "parse_symbol_file_inner False utf8_error (l @ 0x0a # rest) b =
    parse_symbol_file_inner False utf8_error l b"
  by (rule no_std_first_line [OF assms])

theorem no_std_reads_first_line_witness:
  "parse_symbol_file_inner False (\<lambda>bs. DynStr []) (0x0a # symbol_file [(CHR ''T'', 1, ''f'')]) builder_new =
     (builder_new, Ok ())"
  using no_std_reads_first_line [of "[]" "\<lambda>bs. DynStr []" _ builder_new]
  by (simp add: parse_symbol_file_inner.simps [of False _ "[]"] read_one_line_def)







text \<open>
  The offset and size of a field: for fields in the order of their offsets, the extent found for
  the first field of that name starts at its offset, stays inside the structure, and overlaps no
  later field.
\<close>

theorem field_extent:
  assumes "fields_ordered s" "i < length (st_fields s)" "sf_name (st_fields s ! i) = n"
    and "\<forall>j < i. sf_name (st_fields s ! j) \<noteq> n"
  shows "\<exists>sz. find_offset_and_size s n = Ok (sf_offset (st_fields s ! i), sz) \<and>
    unat (sf_offset (st_fields s ! i)) + unat sz \<le> unat (st_size s) \<and>
    (\<forall>j < length (st_fields s). i < j \<longrightarrow>
       unat (sf_offset (st_fields s ! i)) + unat sz \<le> unat (sf_offset (st_fields s ! j)))"
proof -
  let ?f = "st_fields s ! i"
  let ?e = "case get_at (i + 1) (st_fields s) of None \<Rightarrow> st_size s | Some f \<Rightarrow> sf_offset f"
  have found: "List.find (\<lambda>(i, field). sf_name field = n) (enumerate 0 (st_fields s)) = Some (i, ?f)"
    unfolding find_enumerate using assms by simp
  have mono: "j \<le> j' \<Longrightarrow> j' < length (st_fields s) \<Longrightarrow> sf_offset (st_fields s ! j) \<le> sf_offset (st_fields s ! j')" for j j'
    using assms(1) sorted_nth_mono [of "map sf_offset (st_fields s)" j j'] by (simp add: fields_ordered_def)
  have le: "sf_offset ?f \<le> ?e" "?e \<le> st_size s"
    using mono [of i "i + 1"] assms(1,2) by (auto simp: get_at_def fields_ordered_def)
  have later: "?e \<le> sf_offset (st_fields s ! j)" if "i < j" "j < length (st_fields s)" for j
    using mono [of "i + 1" j] that by (simp add: get_at_def)
  have sum: "unat (sf_offset ?f) + unat (?e - sf_offset ?f) = unat ?e"
    using le(1) by (simp add: unat_sub word_le_nat_alt)
  have "find_offset_and_size s n = Ok (sf_offset ?f, ?e - sf_offset ?f)"
    unfolding find_offset_and_size_def found using le(1) by (simp add: sub_chk_def ok_or_def)
  then show ?thesis using sum le(2) later by (auto simp: word_le_nat_alt)
qed

theorem field_extent_witness:
  "\<exists>sz. find_offset_and_size list_entry ''Blink'' = Ok (8, sz) \<and> unat sz \<le> 8"
  using field_extent [of list_entry 1 "''Blink''"] by (simp add: list_entry_def fields_ordered_def)

text \<open>
  C26. The function of an address in a Windows module: with a table whose readable entries are not empty and in
  order, the search gives the entry that contains the offset, and gives none only when no readable entry
  contains it. Entries on pages that could not be read may make it fail, but never give a wrong answer.
\<close>

theorem runtime_function_found:
  assumes "table_ok fs"
  shows "case find_runtime_function fs offset of
      Ok (Some f) \<Rightarrow> f \<in> set fs \<and> rf_valid f \<and> rf_contains f offset
    | Ok None \<Rightarrow> \<forall>f \<in> set fs. rf_valid f \<longrightarrow> \<not> rf_contains f offset
    | Err e \<Rightarrow> \<exists>f \<in> set fs. \<not> rf_valid f | Panic \<Rightarrow> False"
  by (rule find_runtime_function_spec [OF assms])

theorem runtime_function_found_witness:
  "find_runtime_function [\<lparr>rf_start = 1, rf_end = 2, rf_ptr = 9\<rparr>, tiny_function\<lparr>rf_ptr := 7\<rparr>] 0x180 =
     Ok (Some (tiny_function\<lparr>rf_ptr := 7\<rparr>))"
proof -
  have "table_ok [\<lparr>rf_start = 1, rf_end = 2, rf_ptr = 9\<rparr>, tiny_function\<lparr>rf_ptr := 7\<rparr>]"
    by (simp add: table_ok_def rf_valid_def tiny_function_def)
  from runtime_function_found [OF this, of "0x180"] show ?thesis
    by (auto simp: rf_contains_def rf_valid_def tiny_function_def split: result.splits option.splits)
qed

text \<open>
  Unwinding inverts a prologue. A function without frame register has run the part of its prologue that ends
  at or before the instruction pointer; its unwind codes are those of the prologue, last instruction first. Then the unwinder finds the
  stack pointer that the caller had before the call, the place of the return address, the start of the function, and an
  address where the caller's \<open>RBP\<close> is stored, if the prologue has saved it.
\<close>

theorem unwinding_inverts_prologue:
  assumes "parse_function ud rf = Some fe" "fe_mother fe = None" "fe_frame_register_offset fe = None"
    and "fe_unwind_codes fe = concat (map enc_unwind (rev ps))"
    and "\<forall>p \<in> set ps. unwind_op_ok (fe_version fe) (snd p) \<and> (\<forall>b. snd p \<noteq> PushMachFrame b)"
    and "rf_start rf \<le> module_offset ud frame" "va_add_u32 (ud_offset ud) (rf_start rf) = (Ok start :: _ vm_result)"
    and "ops = map snd (filter (has_run (Some (module_offset ud frame - rf_start rf))) ps)"
    and "prologue_ok ops" "distinct (ops_writes fp ops s)"
    and "frame_sp frame = fs_sp (exec_ops fp ops s)"
    and "ops_size ops < 2 ^ 32" "ops_size ops \<le> unat (fs_sp s)" "unat (fs_sp s) + 2 ^ 32 + 8 \<le> 2 ^ 64"
  shows "\<exists>bp. unwind_with_infos ud rf frame base_ptr = Some (Ok
      \<lparr>ur_next_sp = SpValue (fs_sp s + 8), ur_next_ip_addr = fs_sp s, ur_next_bp_addr = bp, ur_fun_start = Some start\<rparr>) \<and>
    (case bp of
       None \<Rightarrow> \<forall>op \<in> set ops. \<not> saves_rbp op
     | Some a \<Rightarrow> fs_mem (exec_ops fp ops s) a = fs_regs s RBP)"
proof -
  have "prologue_sp fe (module_offset ud frame = rf_start rf) frame base_ptr (fs_sp (exec_ops fp ops s))"
    using assms(3,11) by (simp add: prologue_sp_def)
  from unwind_with_infos_inverts [OF assms(1,2,4-10) this assms(12-14)] show ?thesis by (auto split: option.splits)
qed

theorem unwinding_inverts_prologue_witness:
  "\<exists>a. unwind_with_infos tiny_unwind tiny_function
       \<lparr>frame_start = None, frame_size = None, frame_sp = 0x6fd0, frame_ip = 0x400110, frame_module = None\<rparr> None =
     Some (Ok \<lparr>ur_next_sp = SpValue 0x7000, ur_next_ip_addr = 0x6ff8, ur_next_bp_addr = a, ur_fun_start = Some 0x400100\<rparr>) \<and> a \<noteq> None"
proof -
  let ?frame = "\<lparr>frame_start = None, frame_size = None, frame_sp = 0x6fd0, frame_ip = 0x400110, frame_module = None\<rparr>"
  let ?s = "\<lparr>fs_sp = 0x6ff8, fs_regs = (\<lambda>r. 7), fs_xmm = (\<lambda>r. (0, 0)), fs_mem = (\<lambda>a. 0)\<rparr>"
  have off: "module_offset tiny_unwind ?frame - rf_start tiny_function = 0x10"
    by (simp add: module_offset_def tiny_unwind_def va_diff_def tiny_function_def)
  have "\<exists>bp. unwind_with_infos tiny_unwind tiny_function ?frame None = Some (Ok
      \<lparr>ur_next_sp = SpValue (fs_sp ?s + 8), ur_next_ip_addr = fs_sp ?s, ur_next_bp_addr = bp, ur_fun_start = Some 0x400100\<rparr>) \<and>
    (case bp of
       None \<Rightarrow> \<forall>op \<in> set [Push RBP, Alloc 32]. \<not> saves_rbp op
     | Some a \<Rightarrow> fs_mem (exec_ops id [Push RBP, Alloc 32] ?s) a = fs_regs ?s RBP)"
    by (rule unwinding_inverts_prologue [OF tiny_unwind_parse _ _ tiny_codes, where fp = id])
       (simp_all add: tiny_entry_def prologue_def off has_run_def RBP_def,
        simp_all add: module_offset_def tiny_unwind_def va_diff_def tiny_function_def va_add_u32_def add_chk_def)
  then show ?thesis by (auto split: option.splits)
qed

text \<open>
  C28. Chains of unwind information. Following the information of a function to the start of the function returns
  exactly when the chain ends, and unwinding with the information returns when the chain ends. A guest whose
  unwind information names itself keeps the library in the loop for ever.
\<close>

theorem unwind_chain_returns:
  "(chain_start ud rf \<noteq> None \<longleftrightarrow> (\<exists>n. ancestor ud n rf = None)) \<and>
   ((\<exists>n. ancestor ud n rf = None) \<longrightarrow> unwind_with_infos ud rf frame base_ptr \<noteq> None)"
  using chain_start_iff unwind_with_infos_ends by blast

theorem unwind_chain_returns_witness:
  "chain_start cyclic_unwind tiny_function = None \<and> chain_start tiny_unwind tiny_function \<noteq> None"
proof -
  have "ancestor tiny_unwind 1 tiny_function = None"
    by (simp add: mother_of_def tiny_unwind_parse) (simp add: tiny_entry_def)
  then have "\<exists>n. ancestor tiny_unwind n tiny_function = None" ..
  moreover have "\<nexists>n. ancestor cyclic_unwind n tiny_function = None" by (simp add: cyclic_ancestor)
  ultimately show ?thesis
    using unwind_chain_returns [of cyclic_unwind tiny_function] unwind_chain_returns [of tiny_unwind tiny_function] by blast
qed

text \<open>
  C30. The processes of a Linux guest. When the links from the list of \<open>init_task\<close> can be read one after the
  other, the enumeration returns exactly when they come back to the head of the list, and then gives the tasks
  around the links in order; otherwise it never returns.
\<close>

theorem linux_process_list:
  assumes "linux_init_process l = Some (Ok init)" "task_links l ''tasks'' ''tasks'' init off p"
  shows "collect_processes (linux_os into_r into_s into_o try_insert callstack l) =
    (if \<exists>n > 0. p n = p 0 then Some (Ok (map (\<lambda>i. p i - off) [1..<(LEAST n. 0 < n \<and> p n = p 0)])) else None)"
  using linux_collect_processes [OF assms] by (simp only: tasks_of_def)

theorem linux_process_list_witness:
  "collect_processes tiny_linux_os = Some (Ok [0x2000])"
proof -
  have "task_links tiny_linux ''tasks'' ''tasks'' 0x1000 0x10 tiny_links" by (rule tiny_linux_links) simp
  from linux_process_list [OF tiny_linux_init this] tiny_linux_ring show ?thesis by (simp only: tasks_of_def)
qed

text \<open>
  C31. The threads of a Linux process, beside the one that stands for the process itself, the leader of its group. When the
  links from its list of threads can be read one after the other, the enumeration returns exactly when they come back to
  the head of the list, and then gives the tasks around the links in order, without the leader: a process with one thread,
  whose link points to itself, has none. Otherwise the enumeration never returns.
\<close>

theorem linux_threads_without_leader:
  assumes "task_links l ''thread_group'' ''thread_group'' proc off p"
  shows "process_collect_threads (linux_os into_r into_s into_o try_insert callstack l) proc =
      (if \<exists>n > 0. p n = p 0 then Some (Ok (map (\<lambda>i. p i - off) [1..<(LEAST n. 0 < n \<and> p n = p 0)])) else None) \<and>
    (\<forall>ts. process_collect_threads (linux_os into_r into_s into_o try_insert callstack l) proc = Some (Ok ts) \<longrightarrow> proc \<notin> set ts) \<and>
    (p 1 = p 0 \<longrightarrow> process_collect_threads (linux_os into_r into_s into_o try_insert callstack l) proc = Some (Ok []))"
  using owner_not_listed [OF assms] tasks_of_one [of p off]
  by (simp only: linux_collect_threads [OF assms] tasks_of_def [symmetric]) blast

theorem linux_threads_without_leader_witness:
  "process_collect_threads tiny_linux_os 0x1000 = Some (Ok [0x2000])"
proof -
  have "task_links tiny_linux ''thread_group'' ''thread_group'' 0x1000 0x10 tiny_links" by (rule tiny_linux_links) simp
  from linux_threads_without_leader [OF this, THEN conjunct1] tiny_linux_ring show ?thesis by (simp only: tasks_of_def)
qed

text \<open>
  C32. The areas of a Windows process: on a tree of descriptors ordered by their addresses, the search in the tree
  gives what the provided method of the trait finds by going through all the areas: the one that contains the
  address, if there is one.
\<close>

theorem windows_vma_lookup:
  assumes "vad_root w proc = Some (Ok root)" "vad_tree (left_child w) (right_child w) root t" "root \<noteq> 0"
    and "areas_ok st en (inorder t)"
    and "\<forall>v \<in> set_tree t. windows_vma_start w v = Some (Ok (st v)) \<and> windows_vma_end w v = Some (Ok (en v))"
  shows "windows_process_find_vma_by_address w proc addr =
      default_find_vma_by_address (windows_vma_start w) (windows_vma_end w) (windows_process_for_each_vma w) proc addr \<and>
    windows_process_find_vma_by_address w proc addr = Some (Ok (List.find (area_has st en addr) (inorder t)))"
  using windows_find_vma_is_default [OF assms] by simp

theorem windows_vma_lookup_witness:
  "windows_process_find_vma_by_address tiny_windows 0x1000 0x6123 = Some (Ok (Some 0x1000))"
proof -
  have "areas_ok (\<lambda>v. 0x5000) (\<lambda>v. 0x7000) (inorder (Node Leaf 0x1000 Leaf))" by (simp add: areas_ok_def)
  moreover have "\<forall>v \<in> set_tree (Node Leaf 0x1000 Leaf). windows_vma_start tiny_windows v = Some (Ok 0x5000) \<and>
      windows_vma_end tiny_windows v = Some (Ok 0x7000)" by (simp add: tiny_windows_vad)
  ultimately have "windows_process_find_vma_by_address tiny_windows 0x1000 0x6123 =
      Some (Ok (List.find (area_has (\<lambda>v. 0x5000) (\<lambda>v. 0x7000) 0x6123) (inorder (Node Leaf 0x1000 Leaf))))"
    by (intro conjunct2 [OF windows_vma_lookup [OF tiny_windows_vad(1) tiny_windows_tree]]) simp_all
  then show ?thesis by (simp add: area_has_def)
qed

text \<open>
  C33. Reading the memory of a Windows guest: every byte of a page that is mapped is the byte at its translation,
  every byte of a page in transition is read from the page whose 36-bit number the entry still has, when that page is below
  1 TiB of physical memory (above it the code drops bits of the number: lemma \<open>transition_page_bits\<close>), and a page of
  demanded zeros reads as zeros, in one read over any sequence of such pages.
\<close>

theorem windows_page_states:
  assumes "windows_pages rd readable byte mem mmu w" "bf \<noteq> []"
    and "\<forall>i < length bf. mapped mmu mem readable root (addr + of_nat i) \<or> soft_page w mmu mem readable root (addr + of_nat i)"
  shows "windows_read_virtual_memory w root addr bf =
    Some (map (\<lambda>i. windows_byte w mmu mem byte root (addr + of_nat i)) [0..<length bf], Ok ())"
  by (rule windows_pages.windows_read_bytes [OF assms])

theorem windows_page_states_witness:
  "windows_read_virtual_memory zero_windows 0 0 [7, 8] = Some ([0, 0], Ok ())"
proof -
  have i: "i = 0 \<or> i = 1" if "i < length [7::u8, 8]" for i using that by auto
  have t: "virtual_to_physical x86_64_mmu (raw_memory_impl zero_guest) 0 (0 + of_nat i) = Err (TInvalid 0x20)"
    if "i < length [7::u8, 8]" for i
    using i [OF that] zero_translate
      virtual_to_physical_same_page [OF x86_64_mmu_wf, of 0 i "raw_memory_impl zero_guest" 0]
    by auto
  have "\<forall>i < length [7::u8, 8]. mapped x86_64_mmu (raw_memory_impl zero_guest) (raw_readable zero_guest) 0 (0 + of_nat i) \<or>
      soft_page zero_windows x86_64_mmu (raw_memory_impl zero_guest) (raw_readable zero_guest) 0 (0 + of_nat i)"
    by (auto simp: less_Suc_eq numeral_2_eq_2 intro!: zero_soft_page)
  from windows_page_states [OF raw_windows.windows_pages_axioms _ this [unfolded zero_windows_def]]
  show ?thesis
    using t [of 0] t [of 1] zero_not_transition [OF zero_windows_entry] by (simp add: windows_byte_def upt_rec zero_windows_def)
qed

text \<open>
  C34. Resolving a symbol: the module of the address is the first whose range contains it, and its symbol is the one
  at the greatest address not above it; adding the start of the module, the address of the symbol and the
  offset gives the address.
\<close>

theorem symbol_resolved:
  assumes "symbol_sorts sort_addr sort_name"
    and "trace_run (if is_kernel addr then for_each_kernel_module self else process_for_each_module self proc) ms (Ok ())"
    and "\<forall>m \<in> set ms. module_span self m proc = Some (Ok (span m))"
    and "\<forall>m \<in> set ms. module_symbols_of self proc m =
      Some (Ok (Some (build sort_addr sort_name (extend_symbols builder_new (syms m)))))"
  shows "\<exists>r. resolve_symbol self addr proc = Some (Ok r) \<and>
    (case (List.find (\<lambda>m. in_span (span m) addr) ms, r) of
       (None, r) \<Rightarrow> r = None
     | (Some m, None) \<Rightarrow> \<forall>(s, n) \<in> set (syms m). addr - fst (span m) < s
     | (Some m, Some (n, off)) \<Rightarrow>
         \<exists>s. (s, n) \<in> set (syms m) \<and> fst (span m) + s + off = addr \<and> s \<le> addr - fst (span m) \<and>
           (\<forall>(s', n') \<in> set (syms m). s' \<le> addr - fst (span m) \<longrightarrow> s' \<le> s))"
proof -
  let ?b = "\<lambda>m. extend_symbols builder_new (syms m)"
  let ?r = "Option.bind (List.find (\<lambda>m. in_span (span m) addr) ms)
    (\<lambda>m. get_symbol_inexact (build sort_addr sort_name (?b m)) (addr - fst (span m)))"
  have b: "builder_syms (?b m) = syms m" for m using extend_symbols_syms [OF builder_new_wf(1)] by simp
  have "resolve_symbol self addr proc = Some (Ok ?r)" by (rule resolve_symbol_spec [OF assms(2-4)])
  moreover have "case (List.find (\<lambda>m. in_span (span m) addr) ms, ?r) of
       (None, r) \<Rightarrow> r = None
     | (Some m, None) \<Rightarrow> \<forall>(s, n) \<in> set (syms m). addr - fst (span m) < s
     | (Some m, Some (n, off)) \<Rightarrow>
         \<exists>s. (s, n) \<in> set (syms m) \<and> fst (span m) + s + off = addr \<and> s \<le> addr - fst (span m) \<and>
           (\<forall>(s', n') \<in> set (syms m). s' \<le> addr - fst (span m) \<longrightarrow> s' \<le> s)"
    using symbol_sorts.get_symbol_inexact_Some [OF assms(1), of "?b _", unfolded b]
      symbol_sorts.get_symbol_inexact_None [OF assms(1), of "?b _", unfolded b]
    by (auto split: option.split) (fastforce)+
  ultimately show ?thesis by blast
qed

theorem symbol_resolved_witness:
  "resolve_symbol module_os 0x400018 0 = Some (Ok (Some (''f'', 8)))"
proof -
  have "\<exists>r. resolve_symbol module_os 0x400018 0 = Some (Ok r) \<and>
    (case (List.find (\<lambda>m. in_span (0x400000, 0x401000) 0x400018) [0x1000 :: module], r) of
       (None, r) \<Rightarrow> r = None
     | (Some m, None) \<Rightarrow> \<forall>(s, n) \<in> set [(0x10, ''f'')]. (0x400018 :: u64) - fst (0x400000, 0x401000 :: u64) < s
     | (Some m, Some (n, off)) \<Rightarrow>
         \<exists>s. (s, n) \<in> set [(0x10, ''f'')] \<and> fst (0x400000, 0x401000 :: u64) + s + off = 0x400018 \<and>
           s \<le> 0x400018 - fst (0x400000, 0x401000 :: u64) \<and>
           (\<forall>(s', n') \<in> set [(0x10, ''f'')]. s' \<le> 0x400018 - fst (0x400000, 0x401000 :: u64) \<longrightarrow> s' \<le> s))"
    by (rule symbol_resolved [OF stable_sorts.symbol_sorts_axioms, where span = "\<lambda>m. (0x400000, 0x401000)" and syms = "\<lambda>m. [(0x10, ''f'')]"])
       (simp_all add: module_os_def is_kernel_def)
  then show ?thesis by (auto simp: in_span_def split: option.splits prod.splits) (simp add: eq_diff_eq flip: add.assoc)?
qed

end
